(* ===== verification/Prelude.thy ===== *)
theory Prelude
  imports Main "HOL-Library.Sublist"
begin

text \<open>
  What every component of the development shares: the result type of code that may throw, the
  messages of its errors, and the generic facts on lists, options and sums that the component
  proofs use.
\<close>

section \<open>Messages and errors\<close>

text \<open>
  A TypeScript template literal is kept as the list of its parts, so a message names every value
  the code puts in it without the decimal rendering of numbers by the standard library.
  The parameter is the type of the numbers.
\<close>

datatype 'n fragment = Lit string | Num 'n | IsoTime 'n

type_synonym 'n message = "'n fragment list"

abbreviation txt_msg :: "string \<Rightarrow> 'n message" where
  "txt_msg s \<equiv> [Lit s]"

text \<open>The error classes the modelled code throws.\<close>

datatype error_class =
    PlainError | RangeError | PermitError | ConfigError | BillingInputError
  | GitHubResponseError | ControllerLockError | ProviderCapacityError
  | OptimizationInputError | FleetRegistryError | FleetRoutingError
  | NebiusParseError | SshInvocationError | TypeError

datatype 'n exn = Exn error_class "'n message"

text \<open>\<open>new Error(...)\<close>\<close>

definition plain_error :: "'n message \<Rightarrow> 'n exn" where
  "plain_error m = Exn PlainError m"

section \<open>Results\<close>

text \<open>\<open>Inl\<close> is a throw, \<open>Inr\<close> a normal return.\<close>

fun rbind :: "'e + 'a \<Rightarrow> ('a \<Rightarrow> 'e + 'b) \<Rightarrow> 'e + 'b" where
  "rbind (Inl e) f = Inl e"
| "rbind (Inr x) f = f x"

text \<open>\<open>map\<close> with a callback that may throw: the first throw ends the loop.\<close>

fun rmap :: "('a \<Rightarrow> 'e + 'b) \<Rightarrow> 'a list \<Rightarrow> 'e + 'b list" where
  "rmap f [] = Inr []"
| "rmap f (x # xs) = rbind (f x) (\<lambda>y. rbind (rmap f xs) (\<lambda>ys. Inr (y # ys)))"

text \<open>The same with the index of the element.\<close>

fun rmapi :: "(nat \<Rightarrow> 'a \<Rightarrow> 'e + 'b) \<Rightarrow> nat \<Rightarrow> 'a list \<Rightarrow> 'e + 'b list" where
  "rmapi f i [] = Inr []"
| "rmapi f i (x # xs) = rbind (f i x) (\<lambda>y. rbind (rmapi f (Suc i) xs) (\<lambda>ys. Inr (y # ys)))"

text \<open>
  The three shapes of a validation step: a condition that must hold, a search that must find
  nothing, a value that must be there.
\<close>

definition check :: "bool \<Rightarrow> 'e \<Rightarrow> 'e + unit" where
  "check b e = (if b then Inr () else Inl e)"

definition reject :: "'k option \<Rightarrow> ('k \<Rightarrow> 'e) \<Rightarrow> 'e + unit" where
  "reject x f = (case x of None \<Rightarrow> Inr () | Some k \<Rightarrow> Inl (f k))"

definition require :: "'a option \<Rightarrow> 'e \<Rightarrow> 'e + 'a" where
  "require x e = (case x of None \<Rightarrow> Inl e | Some v \<Rightarrow> Inr v)"

fun ok :: "'e + 'a \<Rightarrow> bool" where
  "ok (Inl _) = False"
| "ok (Inr _) = True"

named_theorems result_simps \<open>inversion of results\<close>
named_theorems preserve \<open>operations that keep an invariant\<close>

lemma rbind_eq_Inr [result_simps]: "rbind m f = Inr y \<longleftrightarrow> (\<exists>x. m = Inr x \<and> f x = Inr y)"
  by (cases m) auto

lemma rbind_eq_Inl [result_simps]:
  "rbind m f = Inl e \<longleftrightarrow> m = Inl e \<or> (\<exists>x. m = Inr x \<and> f x = Inl e)"
  by (cases m) auto

lemma if_Inl_eq_Inr [result_simps]: "(if b then Inl e else m) = Inr y \<longleftrightarrow> \<not> b \<and> m = Inr y"
  by auto

text \<open>A chain of guards, one case per branch, when \<open>elim\<close> takes it apart.\<close>

lemma if_eqE:
  assumes "(if b then x else y) = z"
  obtains (guard) "b" "x = z" | (rest) "\<not> b" "y = z"
  using assms by (cases b) auto

lemma check_simps [simp]: "check True e = Inr ()" "check False e = Inl e"
  by (simp_all add: check_def)

lemma reject_simps [simp]: "reject None f = Inr ()" "reject (Some k) f = Inl (f k)"
  by (simp_all add: reject_def)

lemma require_simps [simp]: "require (Some v) e = Inr v" "require None e = Inl e"
  by (simp_all add: require_def)

lemma step_eq_Inr [result_simps]:
  "check b e = Inr u \<longleftrightarrow> b"
  "reject x f = Inr u \<longleftrightarrow> x = None"
  "require x e = Inr v \<longleftrightarrow> x = Some v"
  by (auto simp: check_def reject_def require_def split: option.splits)

lemma ok_iff [result_simps]: "ok m \<longleftrightarrow> (\<exists>x. m = Inr x)"
  by (cases m) auto

lemma rmap_eq_Inr: "rmap f xs = Inr ys \<longleftrightarrow> list_all2 (\<lambda>x y. f x = Inr y) xs ys"
proof (induction xs arbitrary: ys)
  case (Cons x xs)
  then show ?case by (cases ys) (auto simp: result_simps)
qed auto

lemma rmap_map_Inr: "(\<And>x. x \<in> set xs \<Longrightarrow> f (g x) = Inr x) \<Longrightarrow> rmap f (map g xs) = Inr xs"
  by (induction xs) auto

section \<open>Lists\<close>

text \<open>\<open>xs.slice(-n)\<close>\<close>

definition slice_last :: "nat \<Rightarrow> 'a list \<Rightarrow> 'a list" where
  "slice_last n xs = drop (length xs - n) xs"

lemma set_slice_last: "set (slice_last n xs) \<subseteq> set xs"
  by (simp add: slice_last_def set_drop_subset)

lemma length_slice_last [simp]: "length (slice_last n xs) = min n (length xs)"
  by (simp add: slice_last_def)

lemma slice_last_id [simp]: "length xs \<le> n \<Longrightarrow> slice_last n xs = xs"
  by (simp add: slice_last_def)

lemma slice_last_idem [simp]: "slice_last n (slice_last n xs) = slice_last n xs"
  by (simp add: slice_last_def)

text \<open>\<open>findLastIndex\<close>, as the number of entries up to and including the last match.\<close>

fun after_last :: "('a \<Rightarrow> bool) \<Rightarrow> 'a list \<Rightarrow> 'a list" where
  "after_last P [] = []"
| "after_last P (x # xs) =
     (if \<exists>y \<in> set xs. P y then after_last P xs else if P x then xs else x # xs)"

lemma after_last_none: "x \<in> set (after_last P xs) \<Longrightarrow> \<not> P x"
  by (induction xs) (auto split: if_splits)

lemma set_after_last: "set (after_last P xs) \<subseteq> set xs"
  by (induction xs) auto

lemma after_last_suffix: "suffix (after_last P xs) xs"
  by (induction xs) (auto simp: suffix_ConsI)

text \<open>
  \<open>Array.prototype.sort\<close> with a comparator: a stable sort. \<open>le a b\<close> says that \<open>a\<close> may stay before
  \<open>b\<close>.
\<close>

fun insert_by :: "('a \<Rightarrow> 'a \<Rightarrow> bool) \<Rightarrow> 'a \<Rightarrow> 'a list \<Rightarrow> 'a list" where
  "insert_by le x [] = [x]"
| "insert_by le x (y # ys) = (if le x y then x # y # ys else y # insert_by le x ys)"

definition sort_by :: "('a \<Rightarrow> 'a \<Rightarrow> bool) \<Rightarrow> 'a list \<Rightarrow> 'a list" where
  "sort_by le xs = foldr (insert_by le) xs []"

lemma set_insert_by [simp]: "set (insert_by le x xs) = insert x (set xs)"
  by (induction xs) auto

lemma sort_by_simps [simp]:
  "sort_by le [] = []" "sort_by le (x # xs) = insert_by le x (sort_by le xs)"
  by (simp_all add: sort_by_def)

lemma set_sort_by [simp]: "set (sort_by le xs) = set xs"
  by (induction xs) auto

lemma length_sort_by [simp]: "length (sort_by le xs) = length xs"
proof -
  have "length (insert_by le x ys) = Suc (length ys)" for x ys by (induction ys) auto
  then show ?thesis by (induction xs) auto
qed

lemma distinct_sort_by: "distinct xs \<Longrightarrow> distinct (sort_by le xs)"
  by (metis card_distinct distinct_card length_sort_by set_sort_by)

definition total_preorder_on :: "'a set \<Rightarrow> ('a \<Rightarrow> 'a \<Rightarrow> bool) \<Rightarrow> bool" where
  "total_preorder_on S le \<longleftrightarrow> (\<forall>a \<in> S. \<forall>b \<in> S. le a b \<or> le b a)
     \<and> (\<forall>a \<in> S. \<forall>b \<in> S. \<forall>c \<in> S. le a b \<longrightarrow> le b c \<longrightarrow> le a c)"

lemma total_preorder_onD:
  "total_preorder_on S le \<Longrightarrow> a \<in> S \<Longrightarrow> b \<in> S \<Longrightarrow> \<not> le a b \<Longrightarrow> le b a"
  "total_preorder_on S le \<Longrightarrow> a \<in> S \<Longrightarrow> b \<in> S \<Longrightarrow> c \<in> S \<Longrightarrow> le a b \<Longrightarrow> le b c \<Longrightarrow> le a c"
  unfolding total_preorder_on_def by blast+

lemma total_preorder_on_subset: "total_preorder_on S le \<Longrightarrow> T \<subseteq> S \<Longrightarrow> total_preorder_on T le"
  unfolding total_preorder_on_def by blast

lemma sorted_insert_by:
  assumes S: "total_preorder_on S le" "x \<in> S"
  shows "set ys \<subseteq> S \<Longrightarrow> sorted_wrt le ys \<Longrightarrow> sorted_wrt le (insert_by le x ys)"
proof (induction ys)
  case (Cons y ys)
  then have y: "y \<in> S" "set ys \<subseteq> S" "\<forall>z \<in> set ys. le y z" "sorted_wrt le ys" by simp_all
  show ?case
  proof (cases "le x y")
    case True
    have "\<forall>z \<in> set ys. le x z" using total_preorder_onD(2) [OF S y(1)] y True by blast
    then show ?thesis using True y by simp
  next
    case False
    then have "le y x" using total_preorder_onD(1) [OF S y(1)] by blast
    then show ?thesis using False y Cons.IH by simp
  qed
qed simp

lemma sorted_sort_by: "total_preorder_on (set xs) le \<Longrightarrow> sorted_wrt le (sort_by le xs)"
proof (induction xs)
  case (Cons x xs)
  then have "sorted_wrt le (sort_by le xs)"
    using total_preorder_on_subset [OF Cons.prems, of "set xs"] by (simp add: subset_insertI)
  then show ?case using sorted_insert_by [OF Cons.prems, of x "sort_by le xs"] by auto
qed simp

lemma after_last_sorted:
  assumes "sorted_wrt le xs" "x \<in> set xs" "P x" "y \<in> set (after_last P xs)"
  shows "le x y"
  using assms
proof (induction xs)
  case (Cons z xs)
  then show ?case using set_after_last [of P xs] by (auto split: if_splits)
qed simp

end
