(* ===== verification/JsNumber.thy ===== *)
theory JsNumber
  imports Complex_Main Prelude
begin

text \<open>
  The \<open>number\<close> type of TypeScript: IEEE 754 binary64 with round to nearest, ties to even.
  A finite number is a rational; every arithmetic operation rounds its exact result to 53
  significant bits (and to multiples of \<open>2^-1074\<close>), and overflows to an infinity from \<open>2^1024\<close> on.
  The two zeros are one value here: no modelled code tells them apart.
\<close>

section \<open>Rounding to 53 bits\<close>

text \<open>Rounding to the nearest integer, ties to the even one.\<close>

definition round_half_even :: "rat \<Rightarrow> int" where
  "round_half_even x =
     (let f = \<lfloor>x\<rfloor>; d = x - of_int f
      in if d < 1 / 2 then f else if 1 / 2 < d then f + 1 else if even f then f else f + 1)"

fun log2_floor :: "nat \<Rightarrow> nat" where
  "log2_floor n = (if n < 2 then 0 else Suc (log2_floor (n div 2)))"

declare log2_floor.simps [simp del]

text \<open>The binary exponent of a nonzero rational: \<open>2^e \<le> |x| < 2^(e+1)\<close>.\<close>

definition binary_exponent :: "rat \<Rightarrow> int" where
  "binary_exponent x =
     (let (p, q) = quotient_of \<bar>x\<bar>; e = int (log2_floor (nat p)) - int (log2_floor (nat q))
      in if 2 powi e \<le> \<bar>x\<bar> then e else e - 1)"

definition ulp_exponent :: "rat \<Rightarrow> int" where
  "ulp_exponent x = max (binary_exponent x - 52) (- 1074)"

definition rnd :: "rat \<Rightarrow> rat" where
  "rnd x = (if x = 0 then 0
            else of_int (round_half_even (x / 2 powi ulp_exponent x)) * 2 powi ulp_exponent x)"

subsection \<open>Rounding to an integer\<close>

lemma round_half_even_of_int [simp]: "round_half_even (of_int n) = n"
  by (simp add: round_half_even_def)

lemma round_half_even_bounds: "\<lfloor>x\<rfloor> \<le> round_half_even x" "round_half_even x \<le> \<lfloor>x\<rfloor> + 1"
  by (auto simp: round_half_even_def Let_def)

lemma round_half_even_mono:
  assumes "x \<le> y"
  shows "round_half_even x \<le> round_half_even y"
proof (cases "\<lfloor>x\<rfloor> = \<lfloor>y\<rfloor>")
  case True
  then show ?thesis using assms by (auto simp: round_half_even_def Let_def)
next
  case False
  with assms have "\<lfloor>x\<rfloor> + 1 \<le> \<lfloor>y\<rfloor>" using floor_mono [OF assms] by linarith
  then show ?thesis using round_half_even_bounds [of x] round_half_even_bounds [of y] by linarith
qed

lemma round_half_even_error: "\<bar>of_int (round_half_even x) - x\<bar> \<le> 1 / 2"
proof -
  have "of_int \<lfloor>x\<rfloor> \<le> x" "x < of_int \<lfloor>x\<rfloor> + 1" by linarith+
  then show ?thesis by (auto simp: round_half_even_def Let_def abs_le_iff)
qed

lemma round_half_even_minus: "round_half_even (- x) = - round_half_even x"
proof (cases "x = of_int \<lfloor>x\<rfloor>")
  case True
  then have "- x = of_int (- \<lfloor>x\<rfloor>)" by simp
  then show ?thesis using True by (metis round_half_even_of_int)
next
  case False
  then have "\<lfloor>- x\<rfloor> = - \<lfloor>x\<rfloor> - 1" by linarith
  then show ?thesis by (auto simp: round_half_even_def Let_def)
qed

subsection \<open>The binary exponent\<close>

lemma log2_floor_bounds: "0 < n \<Longrightarrow> 2 ^ log2_floor n \<le> n \<and> n < 2 ^ Suc (log2_floor n)"
proof (induction n rule: log2_floor.induct)
  case (1 n)
  show ?case
  proof (cases "n < 2")
    case True
    with 1(2) show ?thesis by (simp add: log2_floor.simps [of n])
  next
    case False
    then have "0 < n div 2" by linarith
    with 1(1) [OF False] have "2 ^ log2_floor (n div 2) \<le> n div 2" "n div 2 < 2 ^ Suc (log2_floor (n div 2))"
      by auto
    then have "2 * 2 ^ log2_floor (n div 2) \<le> n" "n < 2 * 2 ^ Suc (log2_floor (n div 2))" by linarith+
    with False show ?thesis by (simp add: log2_floor.simps [of n])
  qed
qed

lemma power_int_diff_nat: "(2::rat) powi (int a - int b) = 2 ^ a / 2 ^ b"
  by (simp add: power_int_diff)

lemma nat_power_to_rat:
  assumes "0 < p" "2 ^ a \<le> nat p \<and> nat p < 2 ^ Suc a"
  shows "(2::rat) ^ a \<le> of_int p \<and> of_int p < (2::rat) ^ Suc a"
proof -
  have "rat_of_nat (2 ^ a) \<le> of_nat (nat p)" "rat_of_nat (nat p) < of_nat (2 ^ Suc a)"
    using assms(2) by (simp_all only: of_nat_le_iff of_nat_less_iff)
  then show ?thesis using assms(1) by simp
qed

lemma binary_exponent_bounds:
  assumes "x \<noteq> 0"
  shows "2 powi binary_exponent x \<le> \<bar>x\<bar>" "\<bar>x\<bar> < 2 powi (binary_exponent x + 1)"
proof -
  obtain p q where pq: "quotient_of \<bar>x\<bar> = (p, q)" by (cases "quotient_of \<bar>x\<bar>")
  have q: "0 < q" using pq by (rule quotient_of_denom_pos)
  have xpq: "\<bar>x\<bar> = of_int p / of_int q" using pq by (rule quotient_of_div)
  have p: "0 < p" using xpq q assms by (metis abs_le_zero_iff divide_nonpos_pos not_less of_int_0_less_iff of_int_le_0_iff)
  define a where "a = log2_floor (nat p)"
  define b where "b = log2_floor (nat q)"
  have a: "2 ^ a \<le> nat p \<and> nat p < 2 ^ Suc a" unfolding a_def by (rule log2_floor_bounds) (use p in simp)
  have b: "2 ^ b \<le> nat q \<and> nat q < 2 ^ Suc b" unfolding b_def by (rule log2_floor_bounds) (use q in simp)
  have ra: "(2::rat) ^ a \<le> of_int p" "of_int p < (2::rat) ^ Suc a"
    using nat_power_to_rat [OF p a] by auto
  have rb: "(2::rat) ^ b \<le> of_int q" "of_int q < (2::rat) ^ Suc b"
    using nat_power_to_rat [OF q b] by auto
  have up: "\<bar>x\<bar> < 2 powi (int a - int b + 1)"
  proof -
    have "of_int p / of_int q < (2::rat) ^ Suc a / 2 ^ b"
      using ra rb p q by (intro frac_less) auto
    also have "\<dots> = 2 powi (int (Suc a) - int b)" by (simp only: power_int_diff_nat)
    finally show ?thesis by (simp add: xpq algebra_simps)
  qed
  have low: "2 powi (int a - int b - 1) \<le> \<bar>x\<bar>"
  proof -
    have "(2::rat) ^ a / 2 ^ Suc b \<le> of_int p / of_int q"
      using ra rb p q by (intro frac_le) auto
    moreover have "(2::rat) ^ a / 2 ^ Suc b = 2 powi (int a - int (Suc b))" by (simp only: power_int_diff_nat)
    ultimately show ?thesis by (simp add: xpq algebra_simps)
  qed
  have e: "binary_exponent x = (if 2 powi (int a - int b) \<le> \<bar>x\<bar> then int a - int b else int a - int b - 1)"
    by (simp add: binary_exponent_def pq a_def b_def Let_def)
  show "2 powi binary_exponent x \<le> \<bar>x\<bar>" using e low by auto
  show "\<bar>x\<bar> < 2 powi (binary_exponent x + 1)" using e up by auto
qed

lemma powi2_less_iff: "(2::rat) powi a < 2 powi b \<longleftrightarrow> a < b"
  using power_int_strict_increasing [of a b "2::rat"] power_int_increasing [of b a "2::rat"]
  by (metis linorder_not_less one_less_numeral_iff semiring_norm(76) less_imp_le)

lemma powi2_le_iff: "(2::rat) powi a \<le> 2 powi b \<longleftrightarrow> a \<le> b"
  using powi2_less_iff [of b a] by (simp add: not_less [symmetric])

lemma binary_exponent_less: "x \<noteq> 0 \<Longrightarrow> \<bar>x\<bar> < 2 powi k \<Longrightarrow> binary_exponent x < k"
  using binary_exponent_bounds(1) [of x] by (metis le_less_trans powi2_less_iff)

lemma binary_exponent_mono: "x \<noteq> 0 \<Longrightarrow> \<bar>x\<bar> \<le> \<bar>y\<bar> \<Longrightarrow> binary_exponent x \<le> binary_exponent y"
proof -
  assume "x \<noteq> 0" "\<bar>x\<bar> \<le> \<bar>y\<bar>"
  then have "\<bar>x\<bar> < 2 powi (binary_exponent y + 1)"
    using binary_exponent_bounds(2) [of y] by fastforce
  with \<open>x \<noteq> 0\<close> show ?thesis using binary_exponent_less by fastforce
qed

lemma binary_exponent_minus [simp]: "binary_exponent (- x) = binary_exponent x"
  by (simp add: binary_exponent_def)

lemma ulp_exponent_minus [simp]: "ulp_exponent (- x) = ulp_exponent x"
  by (simp add: ulp_exponent_def)

subsection \<open>Rounding is monotone, symmetric and exact on short binary fractions\<close>

lemma rnd_0 [simp]: "rnd 0 = 0"
  by (simp add: rnd_def)

lemma rnd_minus: "rnd (- x) = - rnd x"
  by (simp add: rnd_def round_half_even_minus)

lemma rnd_nonneg: "0 \<le> x \<Longrightarrow> 0 \<le> rnd x"
proof (cases "x = 0")
  case False
  assume "0 \<le> x"
  then have "(0::rat) \<le> x / 2 powi ulp_exponent x" by simp
  then have "0 \<le> round_half_even (x / 2 powi ulp_exponent x)"
    using round_half_even_mono [of 0 "x / 2 powi ulp_exponent x"] round_half_even_of_int [of 0] by simp
  then show ?thesis by (simp add: rnd_def)
qed simp

lemma powi2_split: "k \<le> n \<Longrightarrow> (2::rat) powi n = of_int (2 ^ nat (n - k)) * 2 powi k"
proof -
  assume "k \<le> n"
  then have n: "n = int (nat (n - k)) + k" by simp
  have "(2::rat) powi n = 2 powi int (nat (n - k)) * 2 powi k"
    by (subst n) (rule power_int_add, simp)
  then show ?thesis by (simp only: power_int_of_nat of_int_power of_int_numeral)
qed

lemma rnd_exact:
  assumes "\<bar>m\<bar> \<le> 2 ^ 53" "- 1074 \<le> k"
  shows "rnd (of_int m * 2 powi k) = of_int m * 2 powi k"
proof -
  have base: "rnd (of_int m * 2 powi k) = of_int m * 2 powi k" if "\<bar>m\<bar> < 2 ^ 53" "- 1074 \<le> k" for m k
  proof (cases "m = 0")
    case False
    define x :: rat where "x = of_int m * 2 powi k"
    have x: "x \<noteq> 0" using False by (simp add: x_def)
    have "\<bar>x\<bar> = of_int \<bar>m\<bar> * 2 powi k" by (simp add: x_def abs_mult)
    also have "\<dots> < 2 powi 53 * 2 powi k"
      using that(1) by (intro mult_strict_right_mono) (simp_all add: power_int_def flip: of_int_less_iff)
    finally have "\<bar>x\<bar> < 2 powi (53 + k)" by (simp add: power_int_add)
    then have "binary_exponent x < 53 + k" using x by (rule binary_exponent_less [rotated])
    then have le: "ulp_exponent x \<le> k" using that(2) by (simp add: ulp_exponent_def)
    have xs: "x = of_int (m * 2 ^ nat (k - ulp_exponent x)) * 2 powi ulp_exponent x"
      using powi2_split [OF le] by (simp add: x_def)
    then have "x / 2 powi ulp_exponent x = of_int (m * 2 ^ nat (k - ulp_exponent x))"
      by (metis nonzero_mult_div_cancel_right power_int_eq_0_iff zero_neq_numeral)
    then have "rnd x = of_int (m * 2 ^ nat (k - ulp_exponent x)) * 2 powi ulp_exponent x"
      using x by (simp only: rnd_def round_half_even_of_int if_False)
    also have "\<dots> = x" using xs by simp
    finally show ?thesis by (simp add: x_def)
  qed simp
  show ?thesis
  proof (cases "\<bar>m\<bar> = 2 ^ 53")
    case True
    then have "m = 2 ^ 53 \<or> m = - (2 ^ 53)" by linarith
    then have "\<exists>j. m = 2 * j \<and> \<bar>j\<bar> < 2 ^ 53"
      by (intro exI [of _ "m div 2"]) auto
    then obtain j where j: "m = 2 * j" "\<bar>j\<bar> < 2 ^ 53" by blast
    have e: "of_int m * 2 powi k = of_int j * (2::rat) powi (k + 1)" by (simp add: j(1) power_int_add)
    show ?thesis unfolding e by (rule base) (use j(2) assms(2) in auto)
  next
    case False
    then show ?thesis using base assms by simp
  qed
qed

lemma rnd_of_int [simp]: "\<bar>n\<bar> \<le> 9007199254740992 \<Longrightarrow> rnd (of_int n) = of_int n"
  using rnd_exact [of n 0] by simp

lemma rnd_mono_pos:
  assumes "0 < x" "x \<le> y"
  shows "rnd x \<le> rnd y"
proof -
  let ?u = "ulp_exponent x" and ?v = "ulp_exponent y" and ?e = "binary_exponent y"
  have y: "0 < y" using assms by linarith
  have be: "binary_exponent x \<le> ?e" using assms by (intro binary_exponent_mono) auto
  then have uv: "?u \<le> ?v" by (simp add: ulp_exponent_def)
  show ?thesis
  proof (cases "?u = ?v")
    case True
    have "x / 2 powi ?u \<le> y / 2 powi ?v" using True assms by (simp add: divide_right_mono)
    then show ?thesis using True assms y by (simp add: rnd_def round_half_even_mono mult_right_mono)
  next
    case False
    with uv have lt: "binary_exponent x < ?e" "?v = ?e - 52" "?u \<le> ?e" "?v \<le> ?e"
      by (auto simp: ulp_exponent_def)
    have "x < 2 powi (binary_exponent x + 1)" using binary_exponent_bounds(2) [of x] assms(1) by simp
    also have "\<dots> \<le> 2 powi ?e" using lt(1) by (simp add: powi2_le_iff)
    finally have "x \<le> of_int (2 ^ nat (?e - ?u)) * 2 powi ?u" using powi2_split [OF lt(3)] by simp
    then have "x / 2 powi ?u \<le> of_int (2 ^ nat (?e - ?u))" by (simp add: divide_le_eq)
    from round_half_even_mono [OF this] have "rnd x \<le> of_int (2 ^ nat (?e - ?u)) * 2 powi ?u"
      using assms(1) by (simp only: round_half_even_of_int rnd_def) (simp add: mult_right_mono flip: of_int_le_iff)
    also have "\<dots> = of_int (2 ^ nat (?e - ?v)) * 2 powi ?v"
      using powi2_split [OF lt(3)] powi2_split [OF lt(4)] by simp
    also have "\<dots> \<le> rnd y"
    proof -
      have "2 powi ?e \<le> y" using binary_exponent_bounds(1) [of y] y by simp
      then have "of_int (2 ^ nat (?e - ?v)) \<le> y / 2 powi ?v"
        using powi2_split [OF lt(4)] by (simp add: le_divide_eq)
      from round_half_even_mono [OF this] show ?thesis
        using y by (simp only: round_half_even_of_int rnd_def) (simp add: mult_right_mono flip: of_int_le_iff)
    qed
    finally show ?thesis .
  qed
qed

lemma rnd_mono: "x \<le> y \<Longrightarrow> rnd x \<le> rnd y"
proof -
  assume le: "x \<le> y"
  consider "0 < x" | "y < 0" | "x \<le> 0" "0 \<le> y" by linarith
  then show ?thesis
  proof cases
    case 1 then show ?thesis using le by (rule rnd_mono_pos)
  next
    case 2
    then have "rnd (- y) \<le> rnd (- x)" using le by (intro rnd_mono_pos) auto
    then show ?thesis by (simp add: rnd_minus)
  next
    case 3
    then have "0 \<le> rnd (- x)" "0 \<le> rnd y" by (auto intro: rnd_nonneg)
    then show ?thesis by (simp add: rnd_minus)
  qed
qed

lemma rnd_le_of_int: "\<bar>n\<bar> \<le> 9007199254740992 \<Longrightarrow> x \<le> of_int n \<Longrightarrow> rnd x \<le> of_int n"
  using rnd_mono [of x "of_int n"] by simp

lemma rnd_ge_of_int: "\<bar>n\<bar> \<le> 9007199254740992 \<Longrightarrow> of_int n \<le> x \<Longrightarrow> of_int n \<le> rnd x"
  using rnd_mono [of "of_int n" x] by simp

section \<open>Numbers\<close>

datatype jsnum = NaN | PInf | NInf | Fin rat

text \<open>The number nearest to a rational, an infinity beyond the largest finite number.\<close>

definition fl :: "rat \<Rightarrow> jsnum" where
  "fl x = (let r = rnd x in if 2 ^ 1024 \<le> r then PInf else if r \<le> - (2 ^ 1024) then NInf else Fin r)"

fun num_add :: "jsnum \<Rightarrow> jsnum \<Rightarrow> jsnum" where
  "num_add (Fin a) (Fin b) = fl (a + b)"
| "num_add NaN _ = NaN"
| "num_add _ NaN = NaN"
| "num_add PInf NInf = NaN"
| "num_add NInf PInf = NaN"
| "num_add PInf _ = PInf"
| "num_add _ PInf = PInf"
| "num_add NInf _ = NInf"
| "num_add _ NInf = NInf"

fun num_neg :: "jsnum \<Rightarrow> jsnum" where
  "num_neg (Fin a) = Fin (- a)"
| "num_neg NaN = NaN"
| "num_neg PInf = NInf"
| "num_neg NInf = PInf"

fun num_sign :: "jsnum \<Rightarrow> rat" where
  "num_sign (Fin a) = sgn a"
| "num_sign PInf = 1"
| "num_sign NInf = - 1"
| "num_sign NaN = 0"

text \<open>An infinite product or quotient, by the sign of the exact one; \<open>0\<close> means an undefined one.\<close>

definition signed_inf :: "rat \<Rightarrow> jsnum" where
  "signed_inf s = (if 0 < s then PInf else if s < 0 then NInf else NaN)"

fun num_mul :: "jsnum \<Rightarrow> jsnum \<Rightarrow> jsnum" where
  "num_mul (Fin a) (Fin b) = fl (a * b)"
| "num_mul NaN _ = NaN"
| "num_mul _ NaN = NaN"
| "num_mul a b = signed_inf (num_sign a * num_sign b)"

text \<open>Dividing by zero takes the zero as positive.\<close>

fun num_div :: "jsnum \<Rightarrow> jsnum \<Rightarrow> jsnum" where
  "num_div (Fin a) (Fin b) = (if b = 0 then signed_inf (sgn a) else fl (a / b))"
| "num_div NaN _ = NaN"
| "num_div _ NaN = NaN"
| "num_div (Fin a) _ = Fin 0"
| "num_div a (Fin b) = signed_inf (num_sign a * (if b < 0 then - 1 else 1))"
| "num_div _ _ = NaN"

fun num_le :: "jsnum \<Rightarrow> jsnum \<Rightarrow> bool" where
  "num_le (Fin a) (Fin b) = (a \<le> b)"
| "num_le NaN _ = False"
| "num_le _ NaN = False"
| "num_le NInf _ = True"
| "num_le _ PInf = True"
| "num_le _ _ = False"

fun num_less :: "jsnum \<Rightarrow> jsnum \<Rightarrow> bool" where
  "num_less (Fin a) (Fin b) = (a < b)"
| "num_less NaN _ = False"
| "num_less _ NaN = False"
| "num_less NInf b = (b \<noteq> NInf)"
| "num_less a PInf = (a \<noteq> PInf)"
| "num_less _ _ = False"

text \<open>
  The operators read as in the source. No law of these classes is claimed: with \<open>NaN\<close> the order
  is not reflexive, and rounding makes addition non-associative.
\<close>

instantiation jsnum :: "{plus, minus, uminus, times, divide, ord}"
begin

definition "a + b = num_add a b"
definition "- a = num_neg a"
definition "a - b = num_add a (num_neg b)"
definition "a * b = num_mul a b"
definition "a div b = num_div a b"
definition "a \<le> b = num_le a b"
definition "a < b = num_less a b"

instance ..

end

text \<open>\<open>===\<close> on numbers.\<close>

definition num_eq :: "jsnum \<Rightarrow> jsnum \<Rightarrow> bool" where
  "num_eq a b \<longleftrightarrow> a = b \<and> a \<noteq> NaN"

definition is_finite :: "jsnum \<Rightarrow> bool" where
  "is_finite a \<longleftrightarrow> (case a of Fin _ \<Rightarrow> True | _ \<Rightarrow> False)"

definition is_integer :: "jsnum \<Rightarrow> bool" where
  "is_integer a \<longleftrightarrow> (case a of Fin x \<Rightarrow> x = of_int \<lfloor>x\<rfloor> | _ \<Rightarrow> False)"

definition is_safe_integer :: "jsnum \<Rightarrow> bool" where
  "is_safe_integer a \<longleftrightarrow>
     (case a of Fin x \<Rightarrow> x = of_int \<lfloor>x\<rfloor> \<and> \<bar>x\<bar> \<le> 9007199254740991 | _ \<Rightarrow> False)"

definition is_nan :: "jsnum \<Rightarrow> bool" where
  "is_nan a \<longleftrightarrow> a = NaN"

text \<open>\<open>Math.min\<close>, \<open>Math.max\<close>, \<open>Math.ceil\<close>, \<open>Math.round\<close>\<close>

definition num_min :: "jsnum \<Rightarrow> jsnum \<Rightarrow> jsnum" where
  "num_min a b = (if a = NaN \<or> b = NaN then NaN else if a \<le> b then a else b)"

definition num_max :: "jsnum \<Rightarrow> jsnum \<Rightarrow> jsnum" where
  "num_max a b = (if a = NaN \<or> b = NaN then NaN else if a \<le> b then b else a)"

fun num_ceil :: "jsnum \<Rightarrow> jsnum" where
  "num_ceil (Fin x) = Fin (of_int \<lceil>x\<rceil>)"
| "num_ceil a = a"

fun num_round :: "jsnum \<Rightarrow> jsnum" where
  "num_round (Fin x) = Fin (of_int \<lfloor>x + 1 / 2\<rfloor>)"
| "num_round a = a"

fun num_abs :: "jsnum \<Rightarrow> jsnum" where
  "num_abs (Fin x) = Fin \<bar>x\<bar>"
| "num_abs NInf = PInf"
| "num_abs a = a"

subsection \<open>Computing with numbers\<close>

lemmas num_ops = plus_jsnum_def minus_jsnum_def uminus_jsnum_def times_jsnum_def divide_jsnum_def
  less_eq_jsnum_def less_jsnum_def

lemma num_fin_simps [simp]:
  "Fin a \<le> Fin b \<longleftrightarrow> a \<le> b" "Fin a < Fin b \<longleftrightarrow> a < b"
  "Fin a + Fin b = fl (a + b)" "Fin a - Fin b = fl (a - b)" "Fin a * Fin b = fl (a * b)"
  "b \<noteq> 0 \<Longrightarrow> Fin a div Fin b = fl (a / b)" "- Fin a = Fin (- a)"
  by (simp_all add: num_ops)

lemma num_nan_simps [simp]:
  "\<not> NaN \<le> a" "\<not> a \<le> NaN" "\<not> NaN < a" "\<not> a < NaN"
  "NaN + a = NaN" "a + NaN = NaN" "NaN - a = NaN" "a - NaN = NaN"
  by (cases a; simp add: num_ops)+

lemma num_inf_simps [simp]:
  "Fin x \<le> PInf" "NInf \<le> Fin x" "\<not> PInf \<le> Fin x" "\<not> Fin x \<le> NInf"
  "Fin x < PInf" "NInf < Fin x" "\<not> PInf < Fin x" "\<not> Fin x < NInf"
  "PInf \<le> PInf" "NInf \<le> NInf" "NInf \<le> PInf" "\<not> PInf \<le> NInf"
  "\<not> PInf < PInf" "\<not> NInf < NInf" "NInf < PInf" "\<not> PInf < NInf"
  by (simp_all add: num_ops)

lemma is_finite_simps [simp]:
  "is_finite (Fin x)" "\<not> is_finite NaN" "\<not> is_finite PInf" "\<not> is_finite NInf"
  by (simp_all add: is_finite_def)

lemma is_finite_iff: "is_finite a \<longleftrightarrow> (\<exists>x. a = Fin x)"
  by (cases a) auto

lemma is_integer_iff: "is_integer a \<longleftrightarrow> (\<exists>n. a = Fin (of_int n))"
  by (cases a) (auto simp: is_integer_def)

lemma is_integer_of_int [simp]: "is_integer (Fin (of_int n))"
  by (simp add: is_integer_def)

lemma is_integer_numeral [simp]: "is_integer (Fin (numeral n))" "is_integer (Fin 0)" "is_integer (Fin 1)"
  using is_integer_of_int [of "numeral n"] is_integer_of_int [of 0] is_integer_of_int [of 1] by simp_all

lemma is_integer_finite: "is_integer a \<Longrightarrow> is_finite a"
  by (auto simp: is_integer_iff)

lemma is_safe_integer_iff:
  "is_safe_integer a \<longleftrightarrow> (\<exists>n. a = Fin (of_int n) \<and> \<bar>n\<bar> \<le> 9007199254740991)"
  by (cases a) (auto simp: is_safe_integer_def simp flip: of_int_abs of_int_le_iff)

lemma num_eq_simps [simp]: "num_eq (Fin x) (Fin y) \<longleftrightarrow> x = y" "num_eq a a \<longleftrightarrow> a \<noteq> NaN"
  by (auto simp: num_eq_def)

lemma num_eqD: "num_eq a b \<Longrightarrow> a = b"
  by (simp add: num_eq_def)

lemma num_le_trans: "(a::jsnum) \<le> b \<Longrightarrow> b \<le> c \<Longrightarrow> a \<le> c"
  by (cases a; cases b; cases c) (auto simp: num_ops)

lemma num_less_le_trans: "(a::jsnum) < b \<Longrightarrow> b \<le> c \<Longrightarrow> a < c"
  by (cases a; cases b; cases c) (auto simp: num_ops)

lemma num_le_less_trans: "(a::jsnum) \<le> b \<Longrightarrow> b < c \<Longrightarrow> a < c"
  by (cases a; cases b; cases c) (auto simp: num_ops)

lemma num_le_refl: "a \<noteq> NaN \<Longrightarrow> a \<le> (a::jsnum)"
  by (cases a) auto

lemma num_less_imp_le: "(a::jsnum) < b \<Longrightarrow> a \<le> b"
  by (cases a; cases b) (auto simp: num_ops)

lemma num_not_le: "a \<noteq> NaN \<Longrightarrow> b \<noteq> NaN \<Longrightarrow> \<not> a \<le> b \<longleftrightarrow> b < (a::jsnum)"
  by (cases a; cases b) (auto simp: num_ops)

lemma num_min_le: "num_min a b = c \<Longrightarrow> c \<noteq> NaN \<Longrightarrow> c \<le> a \<and> c \<le> b"
  by (cases a; cases b) (auto simp: num_min_def num_ops split: if_splits)

lemma num_min_Fin [simp]: "num_min (Fin a) (Fin b) = Fin (min a b)"
  by (simp add: num_min_def min_def)

lemma num_max_Fin [simp]: "num_max (Fin a) (Fin b) = Fin (max a b)"
  by (simp add: num_max_def max_def)

text \<open>Arithmetic on integers up to \<open>2^53\<close> is exact.\<close>

lemma fl_of_int: "\<bar>n\<bar> \<le> 9007199254740992 \<Longrightarrow> fl (of_int n) = Fin (of_int n)"
proof -
  assume b: "\<bar>n\<bar> \<le> 9007199254740992"
  then have "(of_int n :: rat) \<le> 9007199254740992" "- 9007199254740992 \<le> (of_int n :: rat)" by linarith+
  moreover have "(9007199254740992 :: rat) < 2 ^ 1024" by simp
  ultimately have "\<not> 2 ^ 1024 \<le> (of_int n :: rat)" "\<not> (of_int n :: rat) \<le> - (2 ^ 1024)" by linarith+
  with b show ?thesis by (simp only: fl_def rnd_of_int Let_def if_False)
qed

lemma fl_numeral [simp]:
  "fl 0 = Fin 0" "fl 1 = Fin 1"
  "numeral w \<le> (9007199254740992 :: int) \<Longrightarrow> fl (numeral w) = Fin (numeral w)"
  "numeral w \<le> (9007199254740992 :: int) \<Longrightarrow> fl (- numeral w) = Fin (- numeral w)"
  using fl_of_int [of 0] fl_of_int [of 1] fl_of_int [of "numeral w"] fl_of_int [of "- numeral w"] by simp_all

lemma num_add_of_int:
  "\<bar>a + b\<bar> \<le> 9007199254740992 \<Longrightarrow> Fin (of_int a) + Fin (of_int b) = Fin (of_int (a + b))"
  using fl_of_int [of "a + b"] by simp

lemma num_diff_of_int:
  "\<bar>a - b\<bar> \<le> 9007199254740992 \<Longrightarrow> Fin (of_int a) - Fin (of_int b) = Fin (of_int (a - b))"
  using fl_of_int [of "a - b"] by simp

text \<open>Rounding keeps the order, so sums compare as their exact values do, or are equal.\<close>

lemma fl_mono: "x \<le> y \<Longrightarrow> fl x \<le> fl y"
proof -
  assume "x \<le> y"
  then have "rnd x \<le> rnd y" by (rule rnd_mono)
  then show ?thesis by (auto simp: fl_def Let_def)
qed

lemma fl_not_NaN [simp]: "fl x \<noteq> NaN"
  by (simp add: fl_def Let_def)

lemma fl_eq_Fin: "fl x = Fin y \<Longrightarrow> y = rnd x"
  by (auto simp: fl_def Let_def split: if_splits)

lemma fl_nonneg: "0 \<le> x \<Longrightarrow> Fin 0 \<le> fl x"
  using fl_mono [of 0 x] by simp

lemma fl_le_inf [simp]: "fl x \<le> PInf" "NInf \<le> fl x"
  by (simp_all add: fl_def Let_def)

lemma num_add_left_mono: "a \<le> b \<Longrightarrow> is_finite x \<Longrightarrow> x + a \<le> x + b"
  by (cases a; cases b; cases x) (auto simp: num_ops is_finite_def fl_mono [unfolded num_ops]
      fl_le_inf [unfolded num_ops])

lemma num_add_right_mono: "a \<le> b \<Longrightarrow> is_finite x \<Longrightarrow> a + x \<le> b + x"
  by (cases a; cases b; cases x) (auto simp: num_ops is_finite_def fl_mono [unfolded num_ops]
      fl_le_inf [unfolded num_ops])

lemma num_diff_right_mono: "a \<le> b \<Longrightarrow> is_finite x \<Longrightarrow> a - x \<le> b - x"
  by (cases a; cases b; cases x) (auto simp: num_ops is_finite_def fl_mono [unfolded num_ops]
      fl_le_inf [unfolded num_ops])

lemma num_not_less: "a \<noteq> NaN \<Longrightarrow> b \<noteq> NaN \<Longrightarrow> \<not> a < b \<longleftrightarrow> b \<le> (a::jsnum)"
  by (cases a; cases b) (auto simp: num_ops)

lemma num_min_eq_NaN [simp]: "num_min a b = NaN \<longleftrightarrow> a = NaN \<or> b = NaN"
  by (auto simp: num_min_def)

lemma num_min_bounds: "num_min a b \<noteq> NaN \<Longrightarrow> num_min a b \<le> a \<and> num_min a b \<le> b"
  using num_min_le by blast

text \<open>The integers whose sums and differences stay exact for a few operations.\<close>

definition clock_integer :: "jsnum \<Rightarrow> bool" where
  "clock_integer a \<longleftrightarrow> (case a of Fin x \<Rightarrow> x = of_int \<lfloor>x\<rfloor> \<and> 0 \<le> x \<and> x \<le> 1125899906842624 | _ \<Rightarrow> False)"

lemma clock_integer_iff: "clock_integer a \<longleftrightarrow> (\<exists>n. a = Fin (of_int n) \<and> 0 \<le> n \<and> n \<le> 1125899906842624)"
proof
  assume "clock_integer a"
  then obtain x where x: "a = Fin x" "x = of_int \<lfloor>x\<rfloor>" "0 \<le> x" "x \<le> 1125899906842624"
    by (auto simp: clock_integer_def split: jsnum.splits)
  have "0 \<le> \<lfloor>x\<rfloor>" "\<lfloor>x\<rfloor> \<le> 1125899906842624" using x(3,4) by linarith+
  then show "\<exists>n. a = Fin (of_int n) \<and> 0 \<le> n \<and> n \<le> 1125899906842624" using x(1,2) by metis
next
  assume "\<exists>n. a = Fin (of_int n) \<and> 0 \<le> n \<and> n \<le> 1125899906842624"
  then obtain n where n: "a = Fin (of_int n)" "0 \<le> n" "n \<le> 1125899906842624" by blast
  then have "(0 :: rat) \<le> of_int n" "(of_int n :: rat) \<le> 1125899906842624" by linarith+
  then show "clock_integer a" by (simp add: clock_integer_def n(1))
qed

lemma clock_integer_numeral [simp]:
  "numeral w \<le> (1125899906842624 :: rat) \<Longrightarrow> clock_integer (Fin (numeral w))"
  "clock_integer (Fin 0)" "clock_integer (Fin 1)"
  by (simp_all add: clock_integer_def)

text \<open>Compute with a sum or difference of integers as with the exact one.\<close>

lemma num_of_int_simps:
  "\<bar>a + b\<bar> \<le> 9007199254740992 \<Longrightarrow> Fin (of_int a) + Fin (of_int b) = Fin (of_int (a + b))"
  "\<bar>a - b\<bar> \<le> 9007199254740992 \<Longrightarrow> Fin (of_int a) - Fin (of_int b) = Fin (of_int (a - b))"
  "Fin (of_int a) \<le> Fin (of_int b) \<longleftrightarrow> a \<le> b" "Fin (of_int a) < Fin (of_int b) \<longleftrightarrow> a < b"
  "num_min (Fin (of_int a)) (Fin (of_int b)) = Fin (of_int (min a b))"
  "num_max (Fin (of_int a)) (Fin (of_int b)) = Fin (of_int (max a b))"
  using num_add_of_int num_diff_of_int by (simp_all add: min_def max_def)

lemma num_diff_pos: "Fin 0 < b - a \<Longrightarrow> is_finite a \<Longrightarrow> is_finite b \<Longrightarrow> a < b"
proof -
  assume d: "Fin 0 < b - a" and "is_finite a" "is_finite b"
  then obtain x y where xy: "a = Fin x" "b = Fin y" by (auto simp: is_finite_iff)
  show "a < b"
  proof (rule ccontr)
    assume "\<not> a < b"
    then have "fl (y - x) \<le> Fin 0" using xy fl_mono [of "y - x" 0] by simp
    then show False using d xy by (cases "fl (y - x)") auto
  qed
qed

end
