(* ===== verification/JsValue.thy ===== *)
theory JsValue
  imports JsNumber
begin

text \<open>
  Values the code receives as \<open>unknown\<close> (parsed JSON), the string functions of the standard library
  the code uses, and the insertion-ordered \<open>Map\<close> with its interface as a locale.
\<close>

section \<open>Unknown values\<close>

text \<open>
  An object is the list of its own properties in \<open>Object.keys\<close> order. A missing property reads as
  \<open>JUndef\<close>.
\<close>

datatype jsval =
    JUndef | JNull | JBool bool | JNum jsnum | JStr string
  | JArr "jsval list" | JObj "(string \<times> jsval) list"

type_synonym fields = "(string \<times> jsval) list"

definition get_prop :: "fields \<Rightarrow> string \<Rightarrow> jsval" where
  "get_prop kvs k = (case map_of kvs k of None \<Rightarrow> JUndef | Some v \<Rightarrow> v)"

definition own_keys :: "fields \<Rightarrow> string list" where
  "own_keys kvs = map fst kvs"

definition has_own :: "fields \<Rightarrow> string \<Rightarrow> bool" where
  "has_own kvs k \<longleftrightarrow> k \<in> set (own_keys kvs)"

lemma has_own_simps [simp]:
  "\<not> has_own [] k" "has_own ((k', v) # kvs) k \<longleftrightarrow> k = k' \<or> has_own kvs k"
  by (auto simp: has_own_def own_keys_def)

lemma get_prop_simps [simp]:
  "get_prop [] k = JUndef" "get_prop ((k', v) # kvs) k = (if k = k' then v else get_prop kvs k)"
  by (simp_all add: get_prop_def)

lemma own_keys_simps [simp]: "own_keys [] = []" "own_keys ((k, v) # kvs) = k # own_keys kvs"
  by (simp_all add: own_keys_def)

text \<open>
  The two loops of the exact-key checks: the first key that is not allowed, then the first
  required key that is absent.
\<close>

definition unknown_key :: "fields \<Rightarrow> string list \<Rightarrow> string option" where
  "unknown_key kvs allowed = find (\<lambda>k. k \<notin> set allowed) (own_keys kvs)"

definition missing_key :: "fields \<Rightarrow> string list \<Rightarrow> string option" where
  "missing_key kvs required = find (\<lambda>k. \<not> has_own kvs k) required"

lemma unknown_key_None_iff: "unknown_key kvs allowed = None \<longleftrightarrow> set (own_keys kvs) \<subseteq> set allowed"
  by (auto simp: unknown_key_def find_None_iff)

lemma missing_key_None_iff: "missing_key kvs required = None \<longleftrightarrow> set required \<subseteq> set (own_keys kvs)"
  by (auto simp: missing_key_def find_None_iff has_own_def)

text \<open>\<open>typeof v === 'string'\<close> and the like, as the value it holds then.\<close>

fun as_str :: "jsval \<Rightarrow> string option" where
  "as_str (JStr s) = Some s"
| "as_str _ = None"

fun as_num :: "jsval \<Rightarrow> jsnum option" where
  "as_num (JNum n) = Some n"
| "as_num _ = None"

fun as_bool :: "jsval \<Rightarrow> bool option" where
  "as_bool (JBool b) = Some b"
| "as_bool _ = None"

fun as_arr :: "jsval \<Rightarrow> jsval list option" where
  "as_arr (JArr xs) = Some xs"
| "as_arr _ = None"

fun as_obj :: "jsval \<Rightarrow> fields option" where
  "as_obj (JObj kvs) = Some kvs"
| "as_obj _ = None"

lemma as_Some_iff [simp]:
  "as_str v = Some s \<longleftrightarrow> v = JStr s" "as_num v = Some n \<longleftrightarrow> v = JNum n"
  "as_bool v = Some b \<longleftrightarrow> v = JBool b" "as_arr v = Some xs \<longleftrightarrow> v = JArr xs"
  "as_obj v = Some kvs \<longleftrightarrow> v = JObj kvs"
  by (cases v; auto)+

section \<open>Strings\<close>

text \<open>
  A string is a list of code units below 256; \<open>trim\<close> removes the white space and line terminators
  among them.
\<close>

definition is_space :: "char \<Rightarrow> bool" where
  "is_space c \<longleftrightarrow> c \<in> {CHR 0x09, CHR 0x0A, CHR 0x0B, CHR 0x0C, CHR 0x0D, CHR '' '', CHR 0xA0}"

definition trim_start :: "string \<Rightarrow> string" where
  "trim_start s = dropWhile is_space s"

definition trim :: "string \<Rightarrow> string" where
  "trim s = rev (dropWhile is_space (rev (dropWhile is_space s)))"

definition is_blank :: "string \<Rightarrow> bool" where
  "is_blank s \<longleftrightarrow> trim s = []"

lemma is_blank_iff: "is_blank s \<longleftrightarrow> (\<forall>c \<in> set s. is_space c)"
  by (auto simp: is_blank_def trim_def dropWhile_eq_Nil_conv dest: set_dropWhileD)
    (metis (no_types, lifting) dropWhile_eq_Nil_conv hd_dropWhile hd_in_set list.set_sel(1) set_dropWhileD)

lemma is_blank_Nil [simp]: "is_blank []"
  by (simp add: is_blank_iff)

lemma is_blank_Cons [simp]: "is_blank (c # s) \<longleftrightarrow> is_space c \<and> is_blank s"
  by (simp add: is_blank_iff)

definition starts_with :: "string \<Rightarrow> string \<Rightarrow> bool" where
  "starts_with s p \<longleftrightarrow> prefix p s"

text \<open>\<open>s.includes(t)\<close>\<close>

fun str_includes :: "string \<Rightarrow> string \<Rightarrow> bool" where
  "str_includes [] t \<longleftrightarrow> t = []"
| "str_includes (c # s) t \<longleftrightarrow> prefix t (c # s) \<or> str_includes s t"

lemma str_includes_iff_sublist: "str_includes s t \<longleftrightarrow> sublist t s"
  by (induction s t rule: str_includes.induct) (auto simp: sublist_Cons_right)

definition code_in :: "char \<Rightarrow> nat \<Rightarrow> nat \<Rightarrow> bool" where
  "code_in c lo hi \<longleftrightarrow> lo \<le> of_char c \<and> of_char c \<le> hi"

definition is_digit :: "char \<Rightarrow> bool" where
  "is_digit c \<longleftrightarrow> code_in c 48 57"

text \<open>A string that is not blank, a finite number.\<close>

fun nonblank_str :: "jsval \<Rightarrow> bool" where
  "nonblank_str (JStr s) = (\<not> is_blank s)"
| "nonblank_str _ = False"

fun finite_num :: "jsval \<Rightarrow> bool" where
  "finite_num (JNum n) = is_finite n"
| "finite_num _ = False"

lemma nonblank_str_iff: "nonblank_str v \<longleftrightarrow> (\<exists>s. v = JStr s \<and> \<not> is_blank s)"
  by (cases v) auto

lemma finite_num_iff: "finite_num v \<longleftrightarrow> (\<exists>n. v = JNum n \<and> is_finite n)"
  by (cases v) auto

section \<open>Maps\<close>

text \<open>
  The contract the code expects of \<open>Map\<close>: what \<open>get\<close> returns after \<open>set\<close>, that keys stay distinct,
  and that entries keep the order of their first insertion.
\<close>

locale ordered_map =
  fixes empty :: 'm
    and upd :: "'k \<Rightarrow> 'v \<Rightarrow> 'm \<Rightarrow> 'm"
    and get :: "'m \<Rightarrow> 'k \<Rightarrow> 'v option"
    and entries :: "'m \<Rightarrow> ('k \<times> 'v) list"
    and invar :: "'m \<Rightarrow> bool"
  assumes invar_empty: "invar empty"
    and invar_upd: "invar m \<Longrightarrow> invar (upd k v m)"
    and get_empty: "get empty k = None"
    and get_upd: "invar m \<Longrightarrow> get (upd k v m) k' = (if k' = k then Some v else get m k')"
    and entries_get: "invar m \<Longrightarrow> get m k = map_of (entries m) k"
    and entries_distinct: "invar m \<Longrightarrow> distinct (map fst (entries m))"
    and entries_order:
      "invar m \<Longrightarrow> map fst (entries (upd k v m)) =
         (if get m k = None then map fst (entries m) @ [k] else map fst (entries m))"
begin

definition of_list :: "('k \<times> 'v) list \<Rightarrow> 'm" where
  "of_list kvs = foldl (\<lambda>m (k, v). upd k v m) empty kvs"

lemma invar_foldl: "invar m \<Longrightarrow> invar (foldl (\<lambda>m (k, v). upd k v m) m kvs)"
  by (induction kvs arbitrary: m) (auto simp: invar_upd)

lemma invar_of_list: "invar (of_list kvs)"
  by (simp add: of_list_def invar_foldl invar_empty)

lemma get_foldl:
  "invar m \<Longrightarrow> get (foldl (\<lambda>m (k, v). upd k v m) m kvs) k =
     (case map_of (rev kvs) k of None \<Rightarrow> get m k | Some v \<Rightarrow> Some v)"
  by (induction kvs arbitrary: m) (auto simp: invar_upd get_upd map_add_def split: option.splits)

lemma get_of_list: "get (of_list kvs) k = map_of (rev kvs) k"
  by (simp add: of_list_def get_foldl invar_empty get_empty split: option.splits)

lemma entries_set: "invar m \<Longrightarrow> (k, v) \<in> set (entries m) \<longleftrightarrow> get m k = Some v"
  by (simp add: entries_get entries_distinct)

lemma keys_of_list: "fst ` set (entries (of_list kvs)) = fst ` set kvs"
proof -
  have "k \<in> fst ` set (entries (of_list kvs)) \<longleftrightarrow> k \<in> fst ` set kvs" for k
  proof -
    have "k \<in> fst ` set (entries (of_list kvs)) \<longleftrightarrow> get (of_list kvs) k \<noteq> None"
      using entries_get [OF invar_of_list, of kvs k] by (simp add: map_of_eq_None_iff)
    then show ?thesis by (simp add: get_of_list map_of_eq_None_iff)
  qed
  then show ?thesis by blast
qed

end

text \<open>The JavaScript \<open>Map\<close>: \<open>set\<close> of a present key replaces its value where it stands.\<close>

type_synonym ('k, 'v) jsmap = "('k \<times> 'v) list"

fun map_set :: "'k \<Rightarrow> 'v \<Rightarrow> ('k, 'v) jsmap \<Rightarrow> ('k, 'v) jsmap" where
  "map_set k v [] = [(k, v)]"
| "map_set k v ((k', v') # m) = (if k = k' then (k, v) # m else (k', v') # map_set k v m)"

definition map_get :: "('k, 'v) jsmap \<Rightarrow> 'k \<Rightarrow> 'v option" where
  "map_get m k = map_of m k"

definition map_ok :: "('k, 'v) jsmap \<Rightarrow> bool" where
  "map_ok m \<longleftrightarrow> distinct (map fst m)"

lemma map_get_set: "map_get (map_set k v m) k' = (if k' = k then Some v else map_get m k')"
  by (induction m) (auto simp: map_get_def)

lemma map_keys_set:
  "map fst (map_set k v m) = (if map_get m k = None then map fst m @ [k] else map fst m)"
  by (induction m) (auto simp: map_get_def)

interpretation jm: ordered_map "[]" map_set map_get "\<lambda>m. m" map_ok
proof unfold_locales
  show "map_ok (map_set k v m)" if "map_ok m" for k :: 'a and v :: 'b and m
    using that by (auto simp: map_ok_def map_keys_set map_get_def map_of_eq_None_iff)
  show "map_get m k = map_of m k" for m :: "('a, 'b) jsmap" and k
    by (rule map_get_def)
  show "map_get [] k = (None :: 'b option)" for k :: 'a
    by (simp add: map_get_def)
qed (auto simp: map_ok_def map_get_set map_keys_set)

end
