(* ===== verification/Contracts.thy ===== *)
theory Contracts
  imports JsValue
begin

text \<open>
  The data of the on-demand runner (\<open>packages/runner/src/contracts.ts\<close>): one datatype per string
  union, one record per interface. An optional or nullable field is an option. Records that
  \<open>extend\<close> another are record extensions.
\<close>

section \<open>States and operations\<close>

datatype lifecycle_state =
  LAbsent | LStopped | LStarting | LReady | LBusy | LDraining | LStopping | LBlocked

datatype permit_operation = OpCreate | OpStart | OpRegister | OpStop | OpDelete | OpReleaseRouting

datatype vm_status = VAbsent | VStopped | VStarting | VRunning | VStopping | VError | VUnknown

datatype ownership_status = OAbsent | OOwned | OForeign | OAmbiguous | OUnknown

datatype guest_status =
  GOffline | GBooting | GReady | GBusy | GDraining | GDrained | GFailed | GUnknown

datatype admission_policy = DefaultBranchPushes | SameRepository

fun lifecycle_state_str :: "lifecycle_state \<Rightarrow> string" where
  "lifecycle_state_str LAbsent = ''absent''"
| "lifecycle_state_str LStopped = ''stopped''"
| "lifecycle_state_str LStarting = ''starting''"
| "lifecycle_state_str LReady = ''ready''"
| "lifecycle_state_str LBusy = ''busy''"
| "lifecycle_state_str LDraining = ''draining''"
| "lifecycle_state_str LStopping = ''stopping''"
| "lifecycle_state_str LBlocked = ''blocked''"

fun permit_operation_str :: "permit_operation \<Rightarrow> string" where
  "permit_operation_str OpCreate = ''create''"
| "permit_operation_str OpStart = ''start''"
| "permit_operation_str OpRegister = ''register''"
| "permit_operation_str OpStop = ''stop''"
| "permit_operation_str OpDelete = ''delete''"
| "permit_operation_str OpReleaseRouting = ''release-routing''"

fun vm_status_str :: "vm_status \<Rightarrow> string" where
  "vm_status_str VAbsent = ''absent''"
| "vm_status_str VStopped = ''stopped''"
| "vm_status_str VStarting = ''starting''"
| "vm_status_str VRunning = ''running''"
| "vm_status_str VStopping = ''stopping''"
| "vm_status_str VError = ''error''"
| "vm_status_str VUnknown = ''unknown''"

fun ownership_status_str :: "ownership_status \<Rightarrow> string" where
  "ownership_status_str OAbsent = ''absent''"
| "ownership_status_str OOwned = ''owned''"
| "ownership_status_str OForeign = ''foreign''"
| "ownership_status_str OAmbiguous = ''ambiguous''"
| "ownership_status_str OUnknown = ''unknown''"

text \<open>Reading a member of a string union back: the first name that matches.\<close>

definition of_str :: "('a \<Rightarrow> string) \<Rightarrow> 'a list \<Rightarrow> string \<Rightarrow> 'a option" where
  "of_str f xs s = find (\<lambda>x. f x = s) xs"

lemma of_str_SomeD: "of_str f xs s = Some x \<Longrightarrow> f x = s \<and> x \<in> set xs"
  by (auto simp: of_str_def find_Some_iff in_set_conv_nth)

definition LIFECYCLE_STATES :: "lifecycle_state list" where
  "LIFECYCLE_STATES = [LAbsent, LStopped, LStarting, LReady, LBusy, LDraining, LStopping, LBlocked]"

definition PERMIT_OPERATIONS :: "permit_operation list" where
  "PERMIT_OPERATIONS = [OpCreate, OpStart, OpRegister, OpStop, OpDelete, OpReleaseRouting]"

definition VM_STATUSES :: "vm_status list" where
  "VM_STATUSES = [VAbsent, VStopped, VStarting, VRunning, VStopping, VError, VUnknown]"

definition ADMISSION_POLICIES :: "admission_policy list" where
  "ADMISSION_POLICIES = [DefaultBranchPushes, SameRepository]"

fun admission_policy_str :: "admission_policy \<Rightarrow> string" where
  "admission_policy_str DefaultBranchPushes = ''default-branch-pushes''"
| "admission_policy_str SameRepository = ''same-repository''"

lemma of_str_lifecycle_state [simp]:
  "of_str lifecycle_state_str LIFECYCLE_STATES (lifecycle_state_str s) = Some s"
  by (cases s) (simp_all add: of_str_def LIFECYCLE_STATES_def)

lemma of_str_permit_operation [simp]:
  "of_str permit_operation_str PERMIT_OPERATIONS (permit_operation_str s) = Some s"
  by (cases s) (simp_all add: of_str_def PERMIT_OPERATIONS_def)

lemma of_str_vm_status [simp]: "of_str vm_status_str VM_STATUSES (vm_status_str s) = Some s"
  by (cases s) (simp_all add: of_str_def VM_STATUSES_def)

lemma of_str_admission_policy [simp]:
  "of_str admission_policy_str ADMISSION_POLICIES (admission_policy_str s) = Some s"
  by (cases s) (simp_all add: of_str_def ADMISSION_POLICIES_def)

lemma all_permit_operations [simp]: "x \<in> set PERMIT_OPERATIONS"
  by (cases x) (simp_all add: PERMIT_OPERATIONS_def)

section \<open>Configuration\<close>

record repository_config =
  repo_id :: jsnum
  nameWithOwner :: string

record nebius_config =
  nebius_profile :: string
  nebius_projectId :: string
  subnetId :: string
  imageId :: string
  platform :: string
  preset :: string
  diskType :: string
  diskSizeGiB :: jsnum

record ssh_config =
  publicKey :: string
  fingerprint :: string

record ownership_config =
  own_controllerId :: string
  own_resourcePrefix :: string

record timing_config =
  pollIntervalMs :: jsnum
  idleGraceMs :: jsnum
  bootTimeoutMs :: jsnum
  maxJobMs :: jsnum
  lifetimeMs :: jsnum
  shutdownMarginMs :: jsnum

record cost_rates =
  currency :: string
  quotedAt :: string
  rate_source :: string
  computeUsdPerHour :: jsnum
  diskUsdPerGibMonth :: jsnum
  networkEgressUsdPerGib :: jsnum
  hostedUsdPerMinute :: "jsnum option"

text \<open>
  \<open>schemaVersion\<close>, \<open>slots\<close> and \<open>visibility\<close> have one possible value and no field here.
  \<open>deleteAfterStop\<close> says whether \<open>idleResourcePolicy\<close> is present (its only value is
  \<open>delete-after-stop\<close>), \<open>routingVariable\<close> is \<open>routingSwitch?.variable\<close>.
\<close>

record runner_config =
  repository :: repository_config
  workflowIds :: "jsnum list"
  allowedBranch :: string
  eligibleJobNames :: "string list"
  runnerLabel :: string
  admission :: admission_policy
  deleteAfterStop :: bool
  nebius :: nebius_config
  ssh :: ssh_config
  config_ownership :: ownership_config
  timing :: timing_config
  rates :: cost_rates
  routingVariable :: "string option"

section \<open>Permits\<close>

record permit_identity =
  configHash :: string
  candidateDigest :: string
  repositoryId :: jsnum
  projectId :: string
  controllerId :: string
  resourcePrefix :: string

record permit = permit_identity +
  schemaVersion :: jsnum
  permitId :: string
  operations :: "permit_operation list"
  issuedAtMs :: jsnum
  expiresAtMs :: jsnum
  maxStarts :: jsnum
  maxRuntimeMs :: jsnum
  maxTotalCostUsd :: jsnum
  recoveryAllowed :: bool

section \<open>Observations\<close>

record resolved_vm_network =
  vmId :: string
  ipAddress :: string

record provider_snapshot =
  prov_complete :: bool
  vmStatus :: vm_status
  ownership :: ownership_status
  ownedMatches :: jsnum
  outstandingOperation :: "string option"
  network :: "resolved_vm_network option"

record queue_snapshot =
  queue_complete :: bool
  eligibleQueuedJobs :: jsnum
  ownedBusy :: "bool option"
  queue_observedAtMs :: jsnum

record start_grant =
  grant_generation :: jsnum
  grant_startedAtMs :: jsnum
  grant_deadlineMs :: jsnum

record guest_snapshot =
  guest_complete :: bool
  guestStatus :: guest_status
  admissionEnabled :: "bool option"
  runnerActive :: "bool option"
  workerActive :: "bool option"
  grant :: "start_grant option"
  watchdogReady :: "bool option"
  sshIdentityVerified :: "bool option"
  registrationReady :: "bool option"

section \<open>The lifecycle journal\<close>

text \<open>The two mutations that add a running VM, and the status of their intents.\<close>

datatype start_kind = CreateVm | StartVm

datatype intent_status = Pending | Ambiguous | Blocked

fun start_kind_str :: "start_kind \<Rightarrow> string" where
  "start_kind_str CreateVm = ''create-vm''"
| "start_kind_str StartVm = ''start-vm''"

fun intent_status_str :: "intent_status \<Rightarrow> string" where
  "intent_status_str Pending = ''pending''"
| "intent_status_str Ambiguous = ''ambiguous''"
| "intent_status_str Blocked = ''blocked''"

lemma of_str_start_kind [simp]: "of_str start_kind_str [CreateVm, StartVm] (start_kind_str s) = Some s"
  by (cases s) (simp_all add: of_str_def)

lemma of_str_intent_status [simp]:
  "of_str intent_status_str [Pending, Ambiguous, Blocked] (intent_status_str s) = Some s"
  by (cases s) (simp_all add: of_str_def)

record mutation_intent =
  intent_type :: start_kind
  intent_generation :: jsnum
  intent_status :: intent_status
  intent_deadlineMs :: jsnum

record idle_observation =
  idle_observedAtMs :: jsnum
  idle_complete :: bool
  idle_generation :: jsnum

text \<open>\<open>CapacityRefusal\<close>: the quota names of a refusal.\<close>

record capacity_refusal =
  quotas :: "string list"

definition CAPACITY_WAIT_REASON :: string where
  "CAPACITY_WAIT_REASON = ''provider-capacity-wait''"

record capacity_wait =
  refusedEffect :: start_kind
  wait_detail :: string
  firstRefusedAtMs :: jsnum
  lastRefusedAtMs :: jsnum
  refusals :: jsnum
  retryAtMs :: jsnum

record lifecycle_journal =
  jstate :: lifecycle_state
  startCount :: jsnum
  cumulativeRuntimeMs :: jsnum
  cumulativeCostUsd :: jsnum
  outstandingIntent :: "mutation_intent option"
  idleObservations :: "idle_observation list"
  grantDeadlineMs :: "jsnum option"
  grantStartedAtMs :: "jsnum option"
  capacityWait :: "capacity_wait option"

section \<open>Inputs, effects and decisions\<close>

record lifecycle_input =
  nowMs :: jsnum
  config :: runner_config
  identity :: permit_identity
  permit :: "permit option"
  provider :: provider_snapshot
  queue :: queue_snapshot
  guest :: guest_snapshot
  journal :: lifecycle_journal
  projectedStartCostUsd :: jsnum

datatype lifecycle_effect =
    ENone
  | ECreateVm (eff_generation: jsnum) (eff_reserved: jsnum) (eff_deadline: jsnum)
  | EAdoptVm (eff_generation: jsnum) (eff_deadline: jsnum)
  | EStartVm (eff_generation: jsnum) (eff_deadline: jsnum)
  | ERegisterRunner (eff_cutoff: jsnum)
  | EBeginDrain (eff_fallback: jsnum)
  | EResumeAdmission
  | EStopVm (eff_emergency: bool)
  | EDeleteVm (eff_generation: jsnum)

text \<open>\<open>capacity_hold\<close>: the decision carries the reason code \<open>provider-capacity-wait\<close>.\<close>

record lifecycle_decision =
  dstate :: lifecycle_state
  deffect :: lifecycle_effect
  dreason :: "jsnum message"
  capacity_hold :: bool

section \<open>Costs\<close>

record time_interval =
  startMs :: jsnum
  endMs :: "jsnum option"

record runner_cost_input =
  cost_rates :: "cost_rates option"
  computeIntervals :: "time_interval list"
  disk_sizeGiB :: jsnum
  disk_retainedMs :: jsnum
  networkEgressGiB :: jsnum
  hostedBillableMinutes :: "jsnum option"

record cost_breakdown =
  cost_currency :: string
  computeUsd :: jsnum
  diskUsd :: jsnum
  networkUsd :: jsnum
  runnerTotalUsd :: jsnum
  hostedBaselineUsd :: jsnum

datatype runner_cost_estimate = CostComplete cost_breakdown | CostIncomplete "jsnum message"

end
