(* ===== verification/Permit.thy ===== *)
theory Permit
  imports Contracts
begin

text \<open>
  Approval permits (\<open>lifecycle.ts\<close>: \<open>parsePermit\<close>, \<open>validatePermit\<close> and the recovery, cleanup and
  release authorities built on it). A permit names one identity (configuration, candidate,
  repository, project, controller, resource prefix), the operations it allows and its limits.
\<close>

section \<open>Validation\<close>

datatype permit_validation = Valid | Invalid "jsnum message"

definition invalid :: "string \<Rightarrow> permit_validation" where
  "invalid reason = Invalid [Lit reason]"

text \<open>\<open>identityMismatch\<close>: the first identity field that differs.\<close>

definition identity_mismatch ::
  "'a permit_identity_scheme \<Rightarrow> 'b permit_identity_scheme \<Rightarrow> jsnum message option" where
  "identity_mismatch p i =
     map_option (\<lambda>(key, _). [Lit ''permit '', Lit key, Lit '' does not match current identity''])
       (find snd
         [(''configHash'', configHash p \<noteq> configHash i),
          (''candidateDigest'', candidateDigest p \<noteq> candidateDigest i),
          (''repositoryId'', \<not> num_eq (repositoryId p) (repositoryId i)),
          (''projectId'', projectId p \<noteq> projectId i),
          (''controllerId'', controllerId p \<noteq> controllerId i),
          (''resourcePrefix'', resourcePrefix p \<noteq> resourcePrefix i)])"

text \<open>\<open>sameIdentity\<close> of \<open>controller.ts\<close>, on any two records that carry an identity.\<close>

definition same_identity ::
  "'a permit_identity_scheme \<Rightarrow> 'b permit_identity_scheme \<Rightarrow> bool" where
  "same_identity l r \<longleftrightarrow>
     configHash l = configHash r \<and> candidateDigest l = candidateDigest r
     \<and> num_eq (repositoryId l) (repositoryId r) \<and> projectId l = projectId r
     \<and> controllerId l = controllerId r \<and> resourcePrefix l = resourcePrefix r"

text \<open>The four finite amounts, in the order of the check: all positive but the cost, which may be 0.\<close>

definition amount_problem :: "permit \<Rightarrow> jsnum message option" where
  "amount_problem p =
     map_option (\<lambda>(name, _, _).
         [Lit ''permit '', Lit name, Lit '' must be a '',
          Lit (if name = ''maxTotalCostUsd'' then ''non-negative'' else ''positive''),
          Lit '' finite number''])
       (find (\<lambda>(name, v, zero_ok). \<not> is_finite v \<or> (\<not> zero_ok \<and> v \<le> Fin 0) \<or> (zero_ok \<and> v < Fin 0))
         [(''issuedAtMs'', issuedAtMs p, False), (''expiresAtMs'', expiresAtMs p, False),
          (''maxRuntimeMs'', maxRuntimeMs p, False), (''maxTotalCostUsd'', maxTotalCostUsd p, True)])"

definition validate_permit ::
  "permit option \<Rightarrow> 'a permit_identity_scheme \<Rightarrow> jsnum \<Rightarrow> permit_validation" where
  "validate_permit permit_opt ident now =
     (case permit_opt of None \<Rightarrow> invalid ''approval permit is absent''
      | Some p \<Rightarrow>
          if \<not> num_eq (schemaVersion p) (Fin 1) then invalid ''permit schemaVersion must be 1''
          else (case amount_problem p of Some m \<Rightarrow> Invalid m
          | None \<Rightarrow>
          if \<not> is_integer (maxStarts p) \<or> maxStarts p \<le> Fin 0
            then invalid ''permit maxStarts must be a positive integer''
          else if now < issuedAtMs p then invalid ''permit is not active yet''
          else if expiresAtMs p \<le> now then invalid ''permit is expired''
          else if expiresAtMs p \<le> issuedAtMs p then invalid ''permit expiry must follow issue time''
          else (case find (\<lambda>x. x \<notin> set PERMIT_OPERATIONS) (operations p) of
            Some x \<Rightarrow> Invalid [Lit ''permit contains unknown operation '', Lit (permit_operation_str x)]
          | None \<Rightarrow>
          if operations p = [] then invalid ''permit operations must not be empty''
          else (case identity_mismatch p ident of None \<Rightarrow> Valid | Some m \<Rightarrow> Invalid m))))"

definition permits :: "permit option \<Rightarrow> permit_operation \<Rightarrow> bool" where
  "permits permit_opt x \<longleftrightarrow> (case permit_opt of None \<Rightarrow> False | Some p \<Rightarrow> x \<in> set (operations p))"

definition validate_recovery_permit ::
  "permit option \<Rightarrow> permit_identity \<Rightarrow> jsnum \<Rightarrow> permit_validation" where
  "validate_recovery_permit permit_opt ident now =
     (case permit_opt of None \<Rightarrow> invalid ''approval permit is absent''
      | Some p \<Rightarrow>
          (case validate_permit permit_opt ident (issuedAtMs p) of Invalid m \<Rightarrow> Invalid m
           | Valid \<Rightarrow>
               if now < issuedAtMs p then invalid ''permit is not active yet''
               else if \<not> recoveryAllowed p then invalid ''permit does not authorize recovery''
               else Valid))"

definition validate_cleanup_permit ::
  "permit option \<Rightarrow> permit_identity \<Rightarrow> jsnum \<Rightarrow> permit_validation" where
  "validate_cleanup_permit permit_opt ident now =
     (let current = validate_permit permit_opt ident now;
          authority = (if current = Valid then current else validate_recovery_permit permit_opt ident now)
      in case authority of Invalid m \<Rightarrow> Invalid m
         | Valid \<Rightarrow> if permits permit_opt OpDelete then Valid
                    else invalid ''permit does not authorize delete'')"

definition validate_release_permit ::
  "permit option \<Rightarrow> permit_identity \<Rightarrow> jsnum \<Rightarrow> permit_validation" where
  "validate_release_permit permit_opt ident now =
     (let current = validate_permit permit_opt ident now;
          authority = (if current = Valid then current else validate_recovery_permit permit_opt ident now)
      in case authority of Invalid m \<Rightarrow> Invalid m
         | Valid \<Rightarrow> if permits permit_opt OpReleaseRouting then Valid
                    else invalid ''permit does not authorize release-routing'')"

section \<open>Reading a permit\<close>

definition PERMIT_KEYS :: "string list" where
  "PERMIT_KEYS =
     [''schemaVersion'', ''permitId'', ''configHash'', ''candidateDigest'', ''repositoryId'',
      ''projectId'', ''controllerId'', ''resourcePrefix'', ''operations'', ''issuedAtMs'',
      ''expiresAtMs'', ''maxStarts'', ''maxRuntimeMs'', ''maxTotalCostUsd'', ''recoveryAllowed'']"

definition permit_error :: "jsnum message \<Rightarrow> jsnum exn" where
  "permit_error m = Exn PermitError m"

fun operation_of_json :: "jsval \<Rightarrow> permit_operation option" where
  "operation_of_json (JStr s) = of_str permit_operation_str PERMIT_OPERATIONS s"
| "operation_of_json _ = None"

text \<open>The operations of the array, \<open>None\<close> unless it is a nonempty array of known names.\<close>

definition permit_operations :: "jsval \<Rightarrow> permit_operation list option" where
  "permit_operations v =
     (case v of
        JArr xs \<Rightarrow> if xs = [] \<or> (\<exists>x \<in> set xs. operation_of_json x = None) then None
                   else Some (map (\<lambda>x. the (operation_of_json x)) xs)
      | _ \<Rightarrow> None)"

definition str_field :: "fields \<Rightarrow> string \<Rightarrow> string" where
  "str_field kvs k = (case get_prop kvs k of JStr s \<Rightarrow> s | _ \<Rightarrow> [])"

definition num_field :: "fields \<Rightarrow> string \<Rightarrow> jsnum" where
  "num_field kvs k = (case get_prop kvs k of JNum n \<Rightarrow> n | _ \<Rightarrow> NaN)"

text \<open>The checked fields as a \<open>Permit\<close>.\<close>

definition permit_of_fields :: "fields \<Rightarrow> permit_operation list \<Rightarrow> bool \<Rightarrow> permit" where
  "permit_of_fields kvs ops recovery =
     \<lparr> configHash = str_field kvs ''configHash'',
       candidateDigest = str_field kvs ''candidateDigest'',
       repositoryId = num_field kvs ''repositoryId'',
       projectId = str_field kvs ''projectId'',
       controllerId = str_field kvs ''controllerId'',
       resourcePrefix = str_field kvs ''resourcePrefix'',
       schemaVersion = num_field kvs ''schemaVersion'',
       permitId = str_field kvs ''permitId'',
       operations = ops,
       issuedAtMs = num_field kvs ''issuedAtMs'',
       expiresAtMs = num_field kvs ''expiresAtMs'',
       maxStarts = num_field kvs ''maxStarts'',
       maxRuntimeMs = num_field kvs ''maxRuntimeMs'',
       maxTotalCostUsd = num_field kvs ''maxTotalCostUsd'',
       recoveryAllowed = recovery \<rparr>"

definition parse_permit :: "jsval \<Rightarrow> jsnum exn + permit" where
  "parse_permit v =
     rbind (require (as_obj v) (permit_error [Lit ''permit must be an object''])) (\<lambda>kvs.
     rbind (reject (unknown_key kvs PERMIT_KEYS)
       (\<lambda>k. permit_error [Lit ''permit contains unknown key '', Lit k])) (\<lambda>_.
     rbind (reject (missing_key kvs PERMIT_KEYS)
       (\<lambda>k. permit_error [Lit ''permit is missing '', Lit k])) (\<lambda>_.
     rbind (check (get_prop kvs ''schemaVersion'' = JNum (Fin 1))
       (permit_error [Lit ''permit schemaVersion must be 1''])) (\<lambda>_.
     rbind (require (permit_operations (get_prop kvs ''operations''))
       (permit_error [Lit ''permit operations are invalid''])) (\<lambda>ops.
     rbind (require (as_bool (get_prop kvs ''recoveryAllowed''))
       (permit_error [Lit ''permit recoveryAllowed must be boolean''])) (\<lambda>recovery.
     rbind (reject (find (\<lambda>k. \<not> nonblank_str (get_prop kvs k))
         [''permitId'', ''configHash'', ''candidateDigest'', ''projectId'', ''controllerId'',
          ''resourcePrefix''])
       (\<lambda>k. permit_error [Lit ''permit '', Lit k, Lit '' must be a nonempty string''])) (\<lambda>_.
     rbind (reject (find (\<lambda>k. \<not> finite_num (get_prop kvs k))
         [''repositoryId'', ''issuedAtMs'', ''expiresAtMs'', ''maxStarts'', ''maxRuntimeMs'',
          ''maxTotalCostUsd''])
       (\<lambda>k. permit_error [Lit ''permit '', Lit k, Lit '' must be finite''])) (\<lambda>_.
     let p = permit_of_fields kvs ops recovery
     in case validate_permit (Some p) p (issuedAtMs p) of
          Valid \<Rightarrow> Inr p
        | Invalid m \<Rightarrow> Inl (permit_error m)))))))))"

text \<open>The JSON of a permit, with the keys in the order the code writes them.\<close>

definition json_of_permit :: "permit \<Rightarrow> jsval" where
  "json_of_permit p = JObj
     [(''schemaVersion'', JNum (schemaVersion p)), (''permitId'', JStr (permitId p)),
      (''configHash'', JStr (configHash p)), (''candidateDigest'', JStr (candidateDigest p)),
      (''repositoryId'', JNum (repositoryId p)), (''projectId'', JStr (projectId p)),
      (''controllerId'', JStr (controllerId p)), (''resourcePrefix'', JStr (resourcePrefix p)),
      (''operations'', JArr (map (\<lambda>x. JStr (permit_operation_str x)) (operations p))),
      (''issuedAtMs'', JNum (issuedAtMs p)), (''expiresAtMs'', JNum (expiresAtMs p)),
      (''maxStarts'', JNum (maxStarts p)), (''maxRuntimeMs'', JNum (maxRuntimeMs p)),
      (''maxTotalCostUsd'', JNum (maxTotalCostUsd p)), (''recoveryAllowed'', JBool (recoveryAllowed p))]"

section \<open>What a valid permit is\<close>

text \<open>The shape every authority asks for, whatever the time.\<close>

definition permit_structure :: "permit \<Rightarrow> bool" where
  "permit_structure p \<longleftrightarrow>
     schemaVersion p = Fin 1
     \<and> is_finite (issuedAtMs p) \<and> Fin 0 < issuedAtMs p \<and> is_finite (expiresAtMs p)
     \<and> is_finite (maxRuntimeMs p) \<and> Fin 0 < maxRuntimeMs p
     \<and> is_finite (maxTotalCostUsd p) \<and> Fin 0 \<le> maxTotalCostUsd p
     \<and> is_integer (maxStarts p) \<and> Fin 0 < maxStarts p
     \<and> issuedAtMs p < expiresAtMs p \<and> operations p \<noteq> []"

lemma invalid_neq_Valid [simp]: "invalid m \<noteq> Valid"
  by (simp add: invalid_def)

lemma guard_eq_Valid [result_simps]:
  "(if b then invalid m else v) = Valid \<longleftrightarrow> \<not> b \<and> v = Valid"
  "(case x of None \<Rightarrow> v | Some k \<Rightarrow> Invalid (f k)) = Valid \<longleftrightarrow> x = None \<and> v = Valid"
  by (auto split: option.splits)

lemma finite_compare:
  "is_finite a \<Longrightarrow> is_finite b \<Longrightarrow> (\<not> a \<le> b) = (b < a)"
  "is_finite a \<Longrightarrow> is_finite b \<Longrightarrow> (\<not> a < b) = (b \<le> a)"
  by (auto simp: is_finite_iff)

lemma identity_mismatch_None_iff: "identity_mismatch p i = None \<longleftrightarrow> same_identity p i"
  by (auto simp: identity_mismatch_def same_identity_def)

lemma amount_problem_None_iff:
  "amount_problem p = None \<longleftrightarrow>
     is_finite (issuedAtMs p) \<and> Fin 0 < issuedAtMs p \<and> is_finite (expiresAtMs p) \<and> Fin 0 < expiresAtMs p
     \<and> is_finite (maxRuntimeMs p) \<and> Fin 0 < maxRuntimeMs p
     \<and> is_finite (maxTotalCostUsd p) \<and> Fin 0 \<le> maxTotalCostUsd p"
  by (auto simp: amount_problem_def is_finite_iff)

lemma expiry_positive: "Fin 0 < issuedAtMs p \<Longrightarrow> issuedAtMs p < expiresAtMs p \<Longrightarrow> Fin 0 < expiresAtMs p"
  by (rule num_less_le_trans [OF _ num_less_imp_le])

lemma validate_permit_Valid_iff:
  "validate_permit po i t = Valid \<longleftrightarrow>
     (\<exists>p. po = Some p \<and> permit_structure p \<and> same_identity p i
          \<and> \<not> t < issuedAtMs p \<and> \<not> expiresAtMs p \<le> t)"
proof (cases po)
  case None
  then show ?thesis by (simp add: validate_permit_def)
next
  case (Some p)
  have nf: "find (\<lambda>x. x \<notin> set PERMIT_OPERATIONS) (operations p) = None"
    by (simp add: find_None_iff)
  show ?thesis
  proof (cases "amount_problem p")
    case (Some m)
    then have "amount_problem p \<noteq> None" by simp
    then have "\<not> permit_structure p"
      unfolding amount_problem_None_iff permit_structure_def using expiry_positive by blast
    then show ?thesis using Some \<open>po = Some p\<close> by (simp add: validate_permit_def)
  next
    case None
    note am = None [unfolded amount_problem_None_iff]
    have sv: "num_eq (schemaVersion p) (Fin 1) \<longleftrightarrow> schemaVersion p = Fin 1"
      by (auto simp: num_eq_def)
    have ms: "\<not> (\<not> is_integer (maxStarts p) \<or> maxStarts p \<le> Fin 0) \<longleftrightarrow>
        is_integer (maxStarts p) \<and> Fin 0 < maxStarts p"
      by (auto simp: is_integer_iff)
    have ex: "\<not> expiresAtMs p \<le> issuedAtMs p \<longleftrightarrow> issuedAtMs p < expiresAtMs p"
      using am by (simp add: finite_compare)
    have "validate_permit (Some p) i t = Valid \<longleftrightarrow>
        schemaVersion p = Fin 1 \<and> (is_integer (maxStarts p) \<and> Fin 0 < maxStarts p)
        \<and> \<not> t < issuedAtMs p \<and> \<not> expiresAtMs p \<le> t \<and> issuedAtMs p < expiresAtMs p
        \<and> operations p \<noteq> [] \<and> same_identity p i"
      by (simp only: validate_permit_def option.case None nf sv ms ex result_simps not_not
          identity_mismatch_None_iff simp_thms)
    then show ?thesis using am \<open>po = Some p\<close> by (simp add: permit_structure_def) blast
  qed
qed

lemma validate_recovery_permit_Valid_iff:
  "validate_recovery_permit po i t = Valid \<longleftrightarrow>
     (\<exists>p. po = Some p \<and> permit_structure p \<and> same_identity p i \<and> \<not> t < issuedAtMs p \<and> recoveryAllowed p)"
proof (cases po)
  case (Some p)
  have st: "validate_permit (Some p) i (issuedAtMs p) = Valid \<longleftrightarrow> permit_structure p \<and> same_identity p i"
    by (auto simp: validate_permit_Valid_iff permit_structure_def is_finite_iff)
  show ?thesis using st
    by (auto simp: Some validate_recovery_permit_def split: permit_validation.splits)
qed (simp add: validate_recovery_permit_def)

lemma permits_iff: "permits po x \<longleftrightarrow> (\<exists>p. po = Some p \<and> x \<in> set (operations p))"
  by (simp add: permits_def split: option.split)

lemma validate_cleanup_permit_Valid_iff:
  "validate_cleanup_permit po i t = Valid \<longleftrightarrow>
     permits po OpDelete \<and> (validate_permit po i t = Valid \<or> validate_recovery_permit po i t = Valid)"
  by (auto simp: validate_cleanup_permit_def Let_def split: permit_validation.splits)

lemma validate_release_permit_Valid_iff:
  "validate_release_permit po i t = Valid \<longleftrightarrow>
     permits po OpReleaseRouting \<and> (validate_permit po i t = Valid \<or> validate_recovery_permit po i t = Valid)"
  by (auto simp: validate_release_permit_def Let_def split: permit_validation.splits)

section \<open>Authorities\<close>

text \<open>
  The contract of everything the code calls before a mutation: whoever it approves holds a well
  formed permit for exactly this identity, issued by now, that allows the operations it claims.
\<close>

locale authority =
  fixes auth :: "permit option \<Rightarrow> permit_identity \<Rightarrow> jsnum \<Rightarrow> permit_validation"
    and claims :: "permit_operation set"
  assumes auth_sound:
    "auth po i t = Valid \<Longrightarrow> \<exists>p. po = Some p \<and> permit_structure p \<and> same_identity p i
       \<and> \<not> t < issuedAtMs p \<and> claims \<subseteq> set (operations p)"
begin

lemma auth_None [simp]: "auth None i t \<noteq> Valid"
  using auth_sound by fastforce

lemma auth_permits: "auth po i t = Valid \<Longrightarrow> x \<in> claims \<Longrightarrow> permits po x"
  using auth_sound by (fastforce simp: permits_iff)

lemma auth_issued:
  assumes "auth (Some p) i t = Valid" "is_finite t"
  shows "issuedAtMs p \<le> t"
  using auth_sound [OF assms(1)] assms(2) by (auto simp: permit_structure_def finite_compare)

lemma auth_identity: "auth (Some p) i t = Valid \<Longrightarrow> same_identity p i"
  using auth_sound by fastforce

text \<open>A decision guarded by an authority and an operation, as \<open>authorized\<close> in the code.\<close>

lemma guarded:
  assumes "(case auth po i t of Invalid m \<Rightarrow> b m
            | Valid \<Rightarrow> if permits po x then d else b' ) = r"
    and "\<And>m. b m \<noteq> r" "b' \<noteq> r"
  shows "r = d \<and> auth po i t = Valid \<and> permits po x"
  using assms by (auto split: permit_validation.splits if_splits)

end

interpretation active: authority validate_permit "{}"
  by unfold_locales (auto simp: validate_permit_Valid_iff)

interpretation recovery: authority validate_recovery_permit "{}"
  by unfold_locales (auto simp: validate_recovery_permit_Valid_iff)

interpretation cleanup: authority validate_cleanup_permit "{OpDelete}"
  by unfold_locales (use active.auth_sound recovery.auth_sound in
      \<open>fastforce simp: validate_cleanup_permit_Valid_iff permits_iff\<close>)

interpretation release: authority validate_release_permit "{OpReleaseRouting}"
  by unfold_locales (use active.auth_sound recovery.auth_sound in
      \<open>fastforce simp: validate_release_permit_Valid_iff permits_iff\<close>)

section \<open>Reading back what was written\<close>

text \<open>A permit the parser accepts: well formed, with no blank string and a finite repository id.\<close>

definition permit_wf :: "permit \<Rightarrow> bool" where
  "permit_wf p \<longleftrightarrow> permit_structure p \<and> is_finite (repositoryId p)
     \<and> (\<forall>s \<in> {permitId p, configHash p, candidateDigest p, projectId p, controllerId p, resourcePrefix p}.
          \<not> is_blank s)"

lemma permit_operations_json [simp]:
  "xs \<noteq> [] \<Longrightarrow>
   permit_operations (JArr (map (\<lambda>x. JStr (permit_operation_str x)) xs)) = Some xs"
  by (auto simp: permit_operations_def comp_def)

lemma same_identity_refl_iff: "same_identity p p \<longleftrightarrow> repositoryId p \<noteq> NaN"
  by (auto simp: same_identity_def)

lemma keys_json_of_permit: "json_of_permit p = JObj kvs \<Longrightarrow> own_keys kvs = PERMIT_KEYS"
  by (auto simp: json_of_permit_def PERMIT_KEYS_def)

lemma own_issue_valid_iff:
  "validate_permit (Some p) p (issuedAtMs p) = Valid \<longleftrightarrow> permit_structure p \<and> repositoryId p \<noteq> NaN"
  by (auto simp: validate_permit_Valid_iff same_identity_refl_iff permit_structure_def is_finite_iff)

lemma field_simps [simp]:
  "get_prop kvs k = JStr s \<Longrightarrow> str_field kvs k = s"
  "get_prop kvs k = JNum n \<Longrightarrow> num_field kvs k = n"
  by (simp_all add: str_field_def num_field_def)

text \<open>Whatever \<open>parsePermit\<close> accepts is well formed.\<close>

lemma validation_case_Inr [result_simps]:
  "(case v of Valid \<Rightarrow> Inr p | Invalid m \<Rightarrow> Inl (e m)) = Inr q \<longleftrightarrow> v = Valid \<and> p = q"
  by (cases v) auto

lemma parse_permit_wf:
  assumes "parse_permit v = Inr p"
  shows "permit_wf p"
proof -
  obtain kvs ops recovery where
    strs: "\<forall>k \<in> set [''permitId'', ''configHash'', ''candidateDigest'', ''projectId'', ''controllerId'',
        ''resourcePrefix'']. nonblank_str (get_prop kvs k)"
    and nums: "\<forall>k \<in> set [''repositoryId'', ''issuedAtMs'', ''expiresAtMs'', ''maxStarts'', ''maxRuntimeMs'',
        ''maxTotalCostUsd'']. finite_num (get_prop kvs k)"
    and p: "p = permit_of_fields kvs ops recovery" "validate_permit (Some p) p (issuedAtMs p) = Valid"
    using assms unfolding parse_permit_def Let_def by (simp only: result_simps find_None_iff) blast
  have "\<forall>k \<in> set [''permitId'', ''configHash'', ''candidateDigest'', ''projectId'', ''controllerId'',
        ''resourcePrefix'']. \<not> is_blank (str_field kvs k)"
    using strs by (fastforce simp: nonblank_str_iff str_field_def)
  moreover have "is_finite (num_field kvs ''repositoryId'')"
    using nums by (fastforce simp: finite_num_iff num_field_def)
  moreover have "permit_structure p" using p(2) by (simp add: own_issue_valid_iff)
  ultimately show ?thesis by (simp add: permit_wf_def p(1) permit_of_fields_def)
qed

text \<open>Whatever is well formed is read back from its JSON as it was.\<close>

lemma parse_json_of_permit:
  assumes wf: "permit_wf p"
  shows "parse_permit (json_of_permit p) = Inr p"
proof -
  obtain kvs where kvs: "json_of_permit p = JObj kvs" by (simp add: json_of_permit_def)
  have keys: "unknown_key kvs PERMIT_KEYS = None" "missing_key kvs PERMIT_KEYS = None"
    using keys_json_of_permit [OF kvs] by (simp_all add: unknown_key_None_iff missing_key_None_iff)
  have st: "permit_structure p" "is_finite (repositoryId p)" using wf by (simp_all add: permit_wf_def)
  have ov: "validate_permit (Some p) p (issuedAtMs p) = Valid"
    using st by (auto simp: own_issue_valid_iff)
  have props [simp]:
    "get_prop kvs ''schemaVersion'' = JNum (schemaVersion p)" "get_prop kvs ''permitId'' = JStr (permitId p)"
    "get_prop kvs ''configHash'' = JStr (configHash p)"
    "get_prop kvs ''candidateDigest'' = JStr (candidateDigest p)"
    "get_prop kvs ''repositoryId'' = JNum (repositoryId p)" "get_prop kvs ''projectId'' = JStr (projectId p)"
    "get_prop kvs ''controllerId'' = JStr (controllerId p)"
    "get_prop kvs ''resourcePrefix'' = JStr (resourcePrefix p)"
    "get_prop kvs ''operations'' = JArr (map (\<lambda>x. JStr (permit_operation_str x)) (operations p))"
    "get_prop kvs ''issuedAtMs'' = JNum (issuedAtMs p)" "get_prop kvs ''expiresAtMs'' = JNum (expiresAtMs p)"
    "get_prop kvs ''maxStarts'' = JNum (maxStarts p)" "get_prop kvs ''maxRuntimeMs'' = JNum (maxRuntimeMs p)"
    "get_prop kvs ''maxTotalCostUsd'' = JNum (maxTotalCostUsd p)"
    "get_prop kvs ''recoveryAllowed'' = JBool (recoveryAllowed p)"
    using kvs by (auto simp: json_of_permit_def)
  have same: "permit_of_fields kvs (operations p) (recoveryAllowed p) = p"
    by (simp add: permit_of_fields_def)
  have "JNum (schemaVersion p) = JNum (Fin 1)" "operations p \<noteq> []" "is_finite (maxStarts p)" "is_finite (issuedAtMs p)"
    "is_finite (expiresAtMs p)" "is_finite (maxRuntimeMs p)" "is_finite (maxTotalCostUsd p)"
    using st by (simp_all add: permit_structure_def is_integer_finite)
  moreover have "\<not> is_blank s" if "s \<in> {permitId p, configHash p, candidateDigest p, projectId p,
      controllerId p, resourcePrefix p}" for s
    using wf that by (auto simp: permit_wf_def)
  ultimately show ?thesis using ov st(2)
    by (simp add: parse_permit_def kvs keys Let_def same)
qed

end
