(* ===== verification/Lifecycle.thy ===== *)
theory Lifecycle
  imports Permit
begin

text \<open>
  The lifecycle decision of \<open>lifecycle.ts\<close>: from one set of observations (provider, queue, guest),
  the journal and the permit, \<open>decideLifecycle\<close> picks the next state and at most one effect. Every
  branch of the code is a branch here, in its order; a throw (\<open>drainDeadlineMs\<close> on a deadline that
  is not finite, \<open>toISOString\<close> on an invalid time) is \<open>Inl\<close>.
\<close>

section \<open>Helpers\<close>

definition DRAIN_FALLBACK_MS :: jsnum where "DRAIN_FALLBACK_MS = Fin 600000"

definition GUEST_UP_STATES :: "lifecycle_state list" where
  "GUEST_UP_STATES = [LStarting, LReady, LBusy, LDraining]"

definition CAPACITY_RETRY_BASE_MS :: jsnum where "CAPACITY_RETRY_BASE_MS = Fin 120000"
definition CAPACITY_RETRY_MAX_MS :: jsnum where "CAPACITY_RETRY_MAX_MS = Fin 960000"

definition decision :: "lifecycle_state \<Rightarrow> lifecycle_effect \<Rightarrow> string \<Rightarrow> lifecycle_decision" where
  "decision st eff reason =
     \<lparr>dstate = st, deffect = eff, dreason = [Lit reason], capacity_hold = False\<rparr>"

definition blocked :: "jsnum message \<Rightarrow> lifecycle_decision" where
  "blocked reason = \<lparr>dstate = LBlocked, deffect = ENone, dreason = reason, capacity_hold = False\<rparr>"

definition safe_cutoff_ms :: "jsnum \<Rightarrow> jsnum \<Rightarrow> jsnum \<Rightarrow> jsnum \<Rightarrow> jsnum" where
  "safe_cutoff_ms grant_deadline permit_deadline max_job margin =
     num_min grant_deadline permit_deadline - max_job - margin"

definition can_begin_assigned_job ::
  "jsnum \<Rightarrow> jsnum \<Rightarrow> jsnum \<Rightarrow> jsnum \<Rightarrow> jsnum \<Rightarrow> jsnum message + unit" where
  "can_begin_assigned_job now grant_deadline permit_deadline max_job margin =
     (if now \<le> safe_cutoff_ms grant_deadline permit_deadline max_job margin then Inr ()
      else Inl [Lit ''assignment arrived after the safe job-start cutoff''])"

definition drain_deadline_ms :: "jsnum \<Rightarrow> jsnum \<Rightarrow> jsnum \<Rightarrow> jsnum exn + jsnum" where
  "drain_deadline_ms original now fallback =
     (if \<not> (is_finite original \<and> is_finite now \<and> is_finite fallback) \<or> fallback < Fin 0
      then Inl (Exn RangeError [Lit ''deadline inputs must be finite and fallback non-negative''])
      else Inr (num_min original (now + fallback)))"

text \<open>\<open>new Date(t).toISOString()\<close> throws outside the range of valid times.\<close>

definition iso_time :: "jsnum \<Rightarrow> jsnum exn + jsnum fragment" where
  "iso_time t =
     (if is_finite t \<and> num_abs t \<le> Fin 8640000000000000 then Inr (IsoTime t)
      else Inl (Exn RangeError [Lit ''Invalid time value'']))"

section \<open>Waiting for capacity\<close>

text \<open>\<open>120000 * 2 ** Math.min(refusals - 1, 16)\<close>, for the positive integers \<open>refusals\<close> takes.\<close>

fun pow2 :: "jsnum \<Rightarrow> jsnum" where
  "pow2 (Fin x) = fl (2 powi \<lfloor>x\<rfloor>)"
| "pow2 NInf = Fin 0"
| "pow2 a = a"

definition capacity_backoff_ms :: "jsnum \<Rightarrow> jsnum" where
  "capacity_backoff_ms n =
     num_min CAPACITY_RETRY_MAX_MS (CAPACITY_RETRY_BASE_MS * pow2 (num_min (n - Fin 1) (Fin 16)))"

definition continues :: "capacity_wait option \<Rightarrow> jsnum \<Rightarrow> capacity_wait option" where
  "continues previous now = (case previous of None \<Rightarrow> None
     | Some w \<Rightarrow> if now - retryAtMs w \<le> CAPACITY_RETRY_MAX_MS then Some w else None)"

fun join_with :: "string \<Rightarrow> string list \<Rightarrow> string" where
  "join_with sep [] = []"
| "join_with sep [s] = s"
| "join_with sep (s # ss) = s @ sep @ join_with sep ss"

definition next_capacity_wait ::
  "capacity_wait option \<Rightarrow> capacity_refusal \<Rightarrow> start_kind \<Rightarrow> jsnum \<Rightarrow> jsnum \<Rightarrow> capacity_wait" where
  "next_capacity_wait previous refusal effect now poll =
     (let prev = continues previous now;
          n = (case prev of Some w \<Rightarrow> refusals w + Fin 1 | None \<Rightarrow> Fin 1)
      in \<lparr>refusedEffect = effect,
          wait_detail = (if quotas refusal \<noteq> [] then join_with '','' (quotas refusal)
                         else ''provider quota exhausted''),
          firstRefusedAtMs = (case prev of Some w \<Rightarrow> firstRefusedAtMs w | None \<Rightarrow> now),
          lastRefusedAtMs = now,
          refusals = n,
          retryAtMs = now + num_max poll (capacity_backoff_ms n)\<rparr>)"

text \<open>\<open>None\<close> is \<open>null\<close>: no wait is in force.\<close>

definition capacity_wait_decision ::
  "lifecycle_input \<Rightarrow> lifecycle_state \<Rightarrow> (jsnum exn + lifecycle_decision) option" where
  "capacity_wait_decision i st =
     (case capacityWait (journal i) of None \<Rightarrow> None
      | Some w \<Rightarrow>
          if retryAtMs w \<le> nowMs i then None
          else Some (rbind (iso_time (retryAtMs w)) (\<lambda>retry. Inr
            \<lparr>dstate = st, deffect = ENone,
             dreason = [Lit (CAPACITY_WAIT_REASON @ '': provider refused capacity (''),
                        Lit (wait_detail w), Lit '') '', Num (refusals w),
                        Lit '' time(s); queued work waits until '', retry],
             capacity_hold = True\<rparr>)))"

section \<open>Authority and budget\<close>

definition authorized ::
  "lifecycle_input \<Rightarrow> permit_operation \<Rightarrow> lifecycle_decision \<Rightarrow> lifecycle_decision" where
  "authorized i x d =
     (case validate_permit (permit i) (identity i) (nowMs i) of
        Invalid m \<Rightarrow> blocked m
      | Valid \<Rightarrow> if permits (permit i) x then d
                 else blocked [Lit ''permit does not authorize '', Lit (permit_operation_str x)])"

definition authorized_cleanup :: "lifecycle_input \<Rightarrow> lifecycle_decision \<Rightarrow> lifecycle_decision" where
  "authorized_cleanup i d =
     (case validate_cleanup_permit (permit i) (identity i) (nowMs i) of
        Invalid m \<Rightarrow> blocked m
      | Valid \<Rightarrow> d)"

definition validate_queue_observation :: "lifecycle_input \<Rightarrow> string option" where
  "validate_queue_observation i =
     (let q = queue i in
      if \<not> is_integer (eligibleQueuedJobs q) \<or> eligibleQueuedJobs q < Fin 0
        then Some ''eligible queued job count must be a non-negative integer''
      else if \<not> is_finite (queue_observedAtMs q) then Some ''queue observation time must be finite''
      else if nowMs i < queue_observedAtMs q then Some ''queue observation cannot be from the future''
      else if pollIntervalMs (timing (config i)) < nowMs i - queue_observedAtMs q
        then Some ''queue observation is stale''
      else None)"

text \<open>The runtime a start may still use, or why there is none.\<close>

definition start_budget :: "lifecycle_input \<Rightarrow> jsnum message + jsnum" where
  "start_budget i =
     (case validate_permit (permit i) (identity i) (nowMs i) of
        Invalid m \<Rightarrow> Inl m
      | Valid \<Rightarrow>
     (case permit i of None \<Rightarrow> Inl [Lit ''approval permit is absent'']
      | Some p \<Rightarrow>
        let j = journal i; t = timing (config i) in
        if \<not> is_finite (cumulativeRuntimeMs j) \<or> cumulativeRuntimeMs j < Fin 0
          then Inl [Lit ''journal cumulative runtime is invalid'']
        else if \<not> is_finite (cumulativeCostUsd j) \<or> cumulativeCostUsd j < Fin 0
          then Inl [Lit ''journal cumulative cost is invalid'']
        else if \<not> is_finite (projectedStartCostUsd i) \<or> projectedStartCostUsd i < Fin 0
          then Inl [Lit ''projected start cost is invalid'']
        else
        let remaining = maxRuntimeMs p - cumulativeRuntimeMs j in
        if remaining \<le> Fin 0 then Inl [Lit ''permit cumulative runtime is exhausted'']
        else if maxTotalCostUsd p < cumulativeCostUsd j + projectedStartCostUsd i
          then Inl [Lit ''permit cost envelope would be exceeded'']
        else
        let available = num_min (num_min (lifetimeMs t) remaining) (expiresAtMs p - nowMs i) in
        if available < maxJobMs t + shutdownMarginMs t
          then Inl [Lit ''remaining permit runtime cannot fit one complete job and shutdown margin'']
        else Inr available))"

section \<open>Drain and idle grace\<close>

definition guest_is_drained :: "lifecycle_input \<Rightarrow> bool" where
  "guest_is_drained i \<longleftrightarrow>
     guestStatus (guest i) = GDrained \<and> admissionEnabled (guest i) = Some False
     \<and> runnerActive (guest i) = Some False \<and> workerActive (guest i) = Some False
     \<and> ownedBusy (queue i) = Some False"

definition idle_entries :: "lifecycle_input \<Rightarrow> jsnum \<Rightarrow> idle_observation list" where
  "idle_entries i generation =
     after_last (\<lambda>e. \<not> idle_complete e)
       (sort_by (\<lambda>a b. idle_observedAtMs a \<le> idle_observedAtMs b)
         (filter (\<lambda>e. num_eq (idle_generation e) generation \<and> idle_observedAtMs e \<le> nowMs i)
           (idleObservations (journal i))))"

definition idle_grace_satisfied :: "lifecycle_input \<Rightarrow> bool" where
  "idle_grace_satisfied i =
     (case grant (guest i) of None \<Rightarrow> False
      | Some g \<Rightarrow>
          let complete = idle_entries i (grant_generation g) in
          2 \<le> length complete
          \<and> num_eq (idle_observedAtMs (last complete)) (queue_observedAtMs (queue i))
          \<and> nowMs i - idle_observedAtMs (last complete) \<le> pollIntervalMs (timing (config i))
          \<and> idleGraceMs (timing (config i)) \<le>
              idle_observedAtMs (last complete) - idle_observedAtMs (hd complete))"

definition valid_snapshot_enums :: "lifecycle_input \<Rightarrow> bool" where
  "valid_snapshot_enums i \<longleftrightarrow>
     vmStatus (provider i) \<in> set [VAbsent, VStopped, VStarting, VRunning, VStopping, VError, VUnknown]
     \<and> ownership (provider i) \<in> set [OAbsent, OOwned, OForeign, OAmbiguous, OUnknown]
     \<and> guestStatus (guest i) \<in> set
         [GOffline, GBooting, GReady, GBusy, GDraining, GDrained, GFailed, GUnknown]"

section \<open>The decision\<close>

abbreviation owns_one :: "lifecycle_input \<Rightarrow> bool" where
  "owns_one i \<equiv> ownership (provider i) = OOwned \<and> num_eq (ownedMatches (provider i)) (Fin 1)"

abbreviation no_demand :: "lifecycle_input \<Rightarrow> bool" where
  "no_demand i \<equiv> num_eq (eligibleQueuedJobs (queue i)) (Fin 0)"

abbreviation demand :: "lifecycle_input \<Rightarrow> bool" where
  "demand i \<equiv> Fin 0 < eligibleQueuedJobs (queue i)"

abbreviation max_starts :: "lifecycle_input \<Rightarrow> jsnum" where
  "max_starts i \<equiv> (case permit i of None \<Rightarrow> Fin 0 | Some p \<Rightarrow> maxStarts p)"

abbreviation permit_expiry :: "lifecycle_input \<Rightarrow> jsnum" where
  "permit_expiry i \<equiv> (case permit i of None \<Rightarrow> Fin 0 | Some p \<Rightarrow> expiresAtMs p)"

text \<open>The guest's grant, its deadline cut to the journal's.\<close>

definition effective_grant :: "lifecycle_input \<Rightarrow> start_grant option" where
  "effective_grant i =
     map_option (\<lambda>g. g\<lparr>grant_deadlineMs :=
         (case grantDeadlineMs (journal i) of None \<Rightarrow> grant_deadlineMs g
          | Some d \<Rightarrow> num_min d (grant_deadlineMs g))\<rparr>)
       (grant (guest i))"

definition cutoff_of :: "lifecycle_input \<Rightarrow> start_grant \<Rightarrow> jsnum" where
  "cutoff_of i g = safe_cutoff_ms (grant_deadlineMs g) (permit_expiry i)
     (maxJobMs (timing (config i))) (shutdownMarginMs (timing (config i)))"

text \<open>The journal's deadline has passed.\<close>

definition deadline_reached :: "lifecycle_input \<Rightarrow> bool" where
  "deadline_reached i =
     (case grantDeadlineMs (journal i) of None \<Rightarrow> False
      | Some d \<Rightarrow> is_finite d \<and> d \<le> nowMs i)"

definition emergency_due :: "lifecycle_input \<Rightarrow> bool" where
  "emergency_due i \<longleftrightarrow>
     deadline_reached i \<and> Fin 0 < startCount (journal i) \<and> outstandingIntent (journal i) = None
     \<and> owns_one i \<and> vmStatus (provider i) \<noteq> VStopped \<and> vmStatus (provider i) \<noteq> VAbsent"

definition emergency_decision :: "lifecycle_input \<Rightarrow> lifecycle_decision" where
  "emergency_decision i =
     (case validate_recovery_permit (permit i) (identity i) (nowMs i) of
        Invalid m \<Rightarrow> blocked m
      | Valid \<Rightarrow>
          if permits (permit i) OpStop
          then decision LStopping (EStopVm True) ''immutable start lifetime reached''
          else blocked [Lit ''permit does not authorize emergency stop''])"

definition adoption_decision :: "lifecycle_input \<Rightarrow> mutation_intent \<Rightarrow> lifecycle_decision" where
  "adoption_decision i intent =
     (let v = vmStatus (provider i); g = guest i in
      if owns_one i then
        if \<not> prov_complete (provider i)
          then blocked [Lit ''create adoption requires a complete provider observation'']
        else if v = VUnknown \<or> v = VError
          then blocked [Lit ''create adoption rejects provider state '', Lit (vm_status_str v)]
        else if v \<notin> set [VStopped, VStarting, VRunning]
          then blocked [Lit ''create adoption cannot reconcile provider state '', Lit (vm_status_str v)]
        else
          let fully_ready = v = VRunning \<and> guest_complete g \<and> guestStatus g = GReady
                \<and> watchdogReady g = Some True \<and> sshIdentityVerified g = Some True
                \<and> registrationReady g = Some True
          in decision (if v = VStopped then LStopped else if fully_ready then LReady else LStarting)
               (EAdoptVm (intent_generation intent) (intent_deadlineMs intent))
               ''adopted the single proven owned resource after create uncertainty''
      else blocked [Lit ''create intent is unresolved and cannot be repeated''])"

definition creation_decision :: "lifecycle_input \<Rightarrow> jsnum exn + lifecycle_decision" where
  "creation_decision i =
     (if \<not> prov_complete (provider i) \<or> \<not> queue_complete (queue i) \<or> no_demand i
      then Inr (decision LAbsent ENone ''no complete eligible demand requires creation'')
      else
      (case (case capacityWait (journal i) of None \<Rightarrow> None
             | Some w \<Rightarrow> if refusedEffect w = CreateVm then capacity_wait_decision i LAbsent else None)
       of Some hold \<Rightarrow> hold
        | None \<Rightarrow>
            (case start_budget i of Inl m \<Rightarrow> Inr (blocked m)
             | Inr available \<Rightarrow>
                 if max_starts i \<le> startCount (journal i)
                 then Inr (blocked [Lit ''permit start count is exhausted''])
                 else
                   let generation = startCount (journal i) + Fin 1
                   in Inr (authorized i OpCreate
                        (decision LStarting (ECreateVm generation generation (nowMs i + available))
                          ''eligible queued job requires creating the owned VM'')))))"

text \<open>A VM the controller believes up was found stopped.\<close>

definition stopped_outside_decision :: "lifecycle_input \<Rightarrow> lifecycle_decision" where
  "stopped_outside_decision i =
     (if deadline_reached i \<and> Fin 1 \<le> startCount (journal i)
      then authorized_cleanup i (decision LAbsent (EDeleteVm (startCount (journal i)))
             ''immutable lifetime expired while the guest was up; deleting the spent generation'')
      else blocked [Lit ''owned VM stopped outside the controller; delete it and create a fresh generation''])"

definition start_decision :: "lifecycle_input \<Rightarrow> jsnum exn + lifecycle_decision" where
  "start_decision i =
     (case capacity_wait_decision i (jstate (journal i)) of Some hold \<Rightarrow> hold
      | None \<Rightarrow>
          if max_starts i \<le> startCount (journal i)
          then Inr (blocked [Lit ''permit start count is exhausted''])
          else
          (case start_budget i of Inl m \<Rightarrow> Inr (blocked m)
           | Inr available \<Rightarrow>
               let generation = startCount (journal i) + Fin 1
               in Inr (authorized i OpStart
                    (decision LStarting (EStartVm generation (nowMs i + available))
                      ''eligible queued job requires the owned stopped VM''))))"

definition registration_decision :: "lifecycle_input \<Rightarrow> lifecycle_decision" where
  "registration_decision i =
     (case effective_grant i of None \<Rightarrow> blocked [Lit ''ready guest has no immutable start grant'']
      | Some g \<Rightarrow>
          if cutoff_of i g < nowMs i
          then blocked [Lit ''insufficient remaining lifetime for a complete job and shutdown margin'']
          else authorized i OpRegister (decision LReady (ERegisterRunner (cutoff_of i g))
                 ''eligible job fits both immutable deadlines''))"

definition drain_decision :: "lifecycle_input \<Rightarrow> string \<Rightarrow> start_grant \<Rightarrow> jsnum exn + lifecycle_decision" where
  "drain_decision i reason g =
     rbind (drain_deadline_ms (grant_deadlineMs g) (nowMs i) DRAIN_FALLBACK_MS) (\<lambda>d.
       Inr (authorized i OpRegister (decision LDraining (EBeginDrain d) reason)))"

definition draining_decision :: "lifecycle_input \<Rightarrow> jsnum exn + lifecycle_decision" where
  "draining_decision i =
     (if \<not> guest_is_drained i then
        (case effective_grant i of
           Some g \<Rightarrow>
             if no_demand i \<and> (guestStatus (guest i) = GReady \<or> guestStatus (guest i) = GDraining)
             then drain_decision i ''idle guest was not drained after the previous drain attempt'' g
             else Inr (blocked [Lit ''guest is not conclusively drained''])
         | None \<Rightarrow> Inr (blocked [Lit ''guest is not conclusively drained'']))
      else if \<not> idle_grace_satisfied i
        then Inr (decision LDraining ENone ''idle grace requires two complete observations'')
      else Inr (authorized i OpStop
             (decision LStopping (EStopVm False) ''idle grace passed and guest is drained'')))"

definition fits_resume :: "lifecycle_input \<Rightarrow> bool" where
  "fits_resume i = (case effective_grant i of None \<Rightarrow> False | Some g \<Rightarrow> nowMs i \<le> cutoff_of i g)"

text \<open>From the check that the VM is proven owned on.\<close>

definition owned_decision :: "lifecycle_input \<Rightarrow> jsnum exn + lifecycle_decision" where
  "owned_decision i =
     (let j = journal i; q = queue i; g = guest i; v = vmStatus (provider i) in
      if \<not> owns_one i
        then Inr (blocked [Lit ''resource ownership is '', Lit (ownership_status_str (ownership (provider i)))])
      else if \<not> prov_complete (provider i) \<or> \<not> queue_complete q \<or> \<not> guest_complete g
          \<or> ownedBusy q = None
        then Inr (blocked [Lit ''complete provider, queue and guest observations are required''])
      else if v = VError \<or> v = VUnknown \<or> guestStatus g = GFailed \<or> guestStatus g = GUnknown
        then Inr (blocked [Lit ''provider or guest state is uncertain''])
      else if outstandingOperation (provider i) \<noteq> None \<or> outstandingIntent j \<noteq> None
        then Inr (decision (jstate j) ENone
               ''reconcile outstanding operation or intent before another mutation'')
      else if v = VRunning \<and> jstate j \<in> set GUEST_UP_STATES
          \<and> (case effective_grant i of None \<Rightarrow> False
             | Some gr \<Rightarrow> \<not> num_eq (grant_generation gr) (startCount j))
        then Inr (blocked [Lit ''guest grant generation '',
               Num (case effective_grant i of None \<Rightarrow> NaN | Some gr \<Rightarrow> grant_generation gr),
               Lit '' does not match journal generation '', Num (startCount j)])
      else if ownedBusy q = Some True \<or> workerActive g = Some True \<or> guestStatus g = GBusy
        then Inr (decision LBusy ENone ''owned job is busy'')
      else if v = VStopped \<and> jstate j \<in> set GUEST_UP_STATES
        then Inr (stopped_outside_decision i)
      else if jstate j = LDraining \<and> demand i \<and> v = VRunning \<and> guestStatus g = GDrained \<and> fits_resume i
        then Inr (authorized i OpRegister
               (decision LReady EResumeAdmission ''eligible work arrived during drain''))
      else if v = VStopped \<and> capacityWait j \<noteq> None \<and> jstate j = LStopped \<and> no_demand i
          \<and> deleteAfterStop (config i)
        then Inr (authorized_cleanup i (decision LAbsent (EDeleteVm (num_max (Fin 1) (startCount j)))
               ''queued work left during a capacity wait; deleting the idle stopped VM and its retained disk''))
      else if v = VStopped \<and> jstate j = LStopping \<and> Fin 0 < startCount j \<and> no_demand i
          \<and> deleteAfterStop (config i)
        then Inr (authorized_cleanup i (decision LAbsent (EDeleteVm (startCount j))
               ''idle stopped VM and its retained disk are no longer needed''))
      else if v = VStopped \<and> demand i then start_decision i
      else if v = VRunning \<and> demand i \<and> guestStatus g = GReady then Inr (registration_decision i)
      else if jstate j = LDraining \<and> v = VRunning then draining_decision i
      else (case effective_grant i of
          Some gr \<Rightarrow>
            if v = VRunning \<and> no_demand i \<and> guestStatus g = GReady
            then drain_decision i ''no eligible work remains'' gr
            else Inr (decision (jstate j) ENone ''no lifecycle transition is required'')
        | None \<Rightarrow> Inr (decision (jstate j) ENone ''no lifecycle transition is required'')))"

definition decide_lifecycle :: "lifecycle_input \<Rightarrow> jsnum exn + lifecycle_decision" where
  "decide_lifecycle i =
     (if \<not> is_finite (nowMs i) then Inr (blocked [Lit ''current time is invalid''])
      else if \<not> valid_snapshot_enums i
        then Inr (blocked [Lit ''provider or guest snapshot contains an unknown value''])
      else if \<not> is_integer (ownedMatches (provider i)) \<or> ownedMatches (provider i) < Fin 0
        then Inr (blocked [Lit ''owned resource match count is invalid''])
      else if emergency_due i then Inr (emergency_decision i)
      else
      (case validate_queue_observation i of Some reason \<Rightarrow> Inr (blocked [Lit reason])
       | None \<Rightarrow>
          (case outstandingIntent (journal i) of
             Some intent \<Rightarrow>
               if intent_type intent = CreateVm then Inr (adoption_decision i intent)
               else if vmStatus (provider i) = VAbsent \<and> ownership (provider i) = OAbsent
                   \<and> num_eq (ownedMatches (provider i)) (Fin 0)
               then creation_decision i else owned_decision i
           | None \<Rightarrow>
               if vmStatus (provider i) = VAbsent \<and> ownership (provider i) = OAbsent
                   \<and> num_eq (ownedMatches (provider i)) (Fin 0)
               then creation_decision i else owned_decision i)))"

section \<open>The transitions that carry an effect\<close>

text \<open>
  The specification of the decision as a relation, one rule per way to carry an effect.
  \<open>settled\<close> is what every effect on an owned VM asks for: complete observations of exactly one
  owned VM in a known state, and nothing in flight.
\<close>

definition settled :: "lifecycle_input \<Rightarrow> bool" where
  "settled i \<longleftrightarrow>
     owns_one i \<and> prov_complete (provider i) \<and> queue_complete (queue i) \<and> guest_complete (guest i)
     \<and> vmStatus (provider i) \<notin> {VError, VUnknown} \<and> guestStatus (guest i) \<notin> {GFailed, GUnknown, GBusy}
     \<and> outstandingOperation (provider i) = None \<and> outstandingIntent (journal i) = None
     \<and> ownedBusy (queue i) = Some False \<and> workerActive (guest i) \<noteq> Some True"

abbreviation grants :: "lifecycle_input \<Rightarrow> permit_operation \<Rightarrow> bool" where
  "grants i x \<equiv> validate_permit (permit i) (identity i) (nowMs i) = Valid \<and> permits (permit i) x"

abbreviation grants_cleanup :: "lifecycle_input \<Rightarrow> bool" where
  "grants_cleanup i \<equiv> validate_cleanup_permit (permit i) (identity i) (nowMs i) = Valid"

inductive transition :: "lifecycle_input \<Rightarrow> lifecycle_state \<Rightarrow> lifecycle_effect \<Rightarrow> bool" for i where
  emergency:
    "emergency_due i \<Longrightarrow> validate_recovery_permit (permit i) (identity i) (nowMs i) = Valid
     \<Longrightarrow> permits (permit i) OpStop \<Longrightarrow> transition i LStopping (EStopVm True)"
| adopt:
    "outstandingIntent (journal i) = Some intent \<Longrightarrow> intent_type intent = CreateVm \<Longrightarrow> owns_one i
     \<Longrightarrow> prov_complete (provider i) \<Longrightarrow> vmStatus (provider i) \<in> {VStopped, VStarting, VRunning}
     \<Longrightarrow> st \<in> {LStopped, LReady, LStarting}
     \<Longrightarrow> transition i st (EAdoptVm (intent_generation intent) (intent_deadlineMs intent))"
| create:
    "vmStatus (provider i) = VAbsent \<Longrightarrow> ownership (provider i) = OAbsent
     \<Longrightarrow> num_eq (ownedMatches (provider i)) (Fin 0) \<Longrightarrow> prov_complete (provider i)
     \<Longrightarrow> queue_complete (queue i) \<Longrightarrow> \<not> no_demand i
     \<Longrightarrow> (\<And>w. capacityWait (journal i) = Some w \<Longrightarrow> refusedEffect w = CreateVm
           \<Longrightarrow> retryAtMs w \<le> nowMs i)
     \<Longrightarrow> start_budget i = Inr available \<Longrightarrow> \<not> max_starts i \<le> startCount (journal i) \<Longrightarrow> grants i OpCreate
     \<Longrightarrow> generation = startCount (journal i) + Fin 1
     \<Longrightarrow> transition i LStarting (ECreateVm generation generation (nowMs i + available))"
| start:
    "settled i \<Longrightarrow> vmStatus (provider i) = VStopped \<Longrightarrow> demand i
     \<Longrightarrow> (\<And>w. capacityWait (journal i) = Some w \<Longrightarrow> retryAtMs w \<le> nowMs i)
     \<Longrightarrow> jstate (journal i) \<notin> set GUEST_UP_STATES
     \<Longrightarrow> start_budget i = Inr available \<Longrightarrow> \<not> max_starts i \<le> startCount (journal i) \<Longrightarrow> grants i OpStart
     \<Longrightarrow> transition i LStarting (EStartVm (startCount (journal i) + Fin 1) (nowMs i + available))"
| register:
    "settled i \<Longrightarrow> vmStatus (provider i) = VRunning \<Longrightarrow> demand i \<Longrightarrow> guestStatus (guest i) = GReady
     \<Longrightarrow> effective_grant i = Some g \<Longrightarrow> \<not> cutoff_of i g < nowMs i \<Longrightarrow> grants i OpRegister
     \<Longrightarrow> transition i LReady (ERegisterRunner (cutoff_of i g))"
| drain:
    "settled i \<Longrightarrow> vmStatus (provider i) = VRunning \<Longrightarrow> no_demand i
     \<Longrightarrow> guestStatus (guest i) \<in> {GReady, GDraining} \<Longrightarrow> effective_grant i = Some g
     \<Longrightarrow> drain_deadline_ms (grant_deadlineMs g) (nowMs i) DRAIN_FALLBACK_MS = Inr d
     \<Longrightarrow> grants i OpRegister \<Longrightarrow> transition i LDraining (EBeginDrain d)"
| resume:
    "settled i \<Longrightarrow> vmStatus (provider i) = VRunning \<Longrightarrow> demand i \<Longrightarrow> guestStatus (guest i) = GDrained
     \<Longrightarrow> jstate (journal i) = LDraining \<Longrightarrow> effective_grant i = Some g \<Longrightarrow> nowMs i \<le> cutoff_of i g
     \<Longrightarrow> grants i OpRegister \<Longrightarrow> transition i LReady EResumeAdmission"
| stop:
    "settled i \<Longrightarrow> vmStatus (provider i) = VRunning \<Longrightarrow> jstate (journal i) = LDraining
     \<Longrightarrow> guest_is_drained i \<Longrightarrow> idle_grace_satisfied i \<Longrightarrow> grants i OpStop
     \<Longrightarrow> transition i LStopping (EStopVm False)"
| delete_spent:
    "settled i \<Longrightarrow> vmStatus (provider i) = VStopped \<Longrightarrow> jstate (journal i) \<in> set GUEST_UP_STATES
     \<Longrightarrow> deadline_reached i \<Longrightarrow> Fin 1 \<le> startCount (journal i) \<Longrightarrow> grants_cleanup i
     \<Longrightarrow> transition i LAbsent (EDeleteVm (startCount (journal i)))"
| delete_waiting:
    "settled i \<Longrightarrow> vmStatus (provider i) = VStopped \<Longrightarrow> jstate (journal i) = LStopped
     \<Longrightarrow> capacityWait (journal i) \<noteq> None \<Longrightarrow> no_demand i \<Longrightarrow> deleteAfterStop (config i)
     \<Longrightarrow> grants_cleanup i \<Longrightarrow> transition i LAbsent (EDeleteVm (num_max (Fin 1) (startCount (journal i))))"
| delete_idle:
    "settled i \<Longrightarrow> vmStatus (provider i) = VStopped \<Longrightarrow> jstate (journal i) = LStopping
     \<Longrightarrow> Fin 0 < startCount (journal i) \<Longrightarrow> no_demand i \<Longrightarrow> deleteAfterStop (config i)
     \<Longrightarrow> grants_cleanup i \<Longrightarrow> transition i LAbsent (EDeleteVm (startCount (journal i)))"

inductive_cases transition_create: "transition i st (ECreateVm g r d)"
inductive_cases transition_adopt: "transition i st (EAdoptVm g d)"
inductive_cases transition_start: "transition i st (EStartVm g d)"
inductive_cases transition_register: "transition i st (ERegisterRunner c)"
inductive_cases transition_drain: "transition i st (EBeginDrain d)"
inductive_cases transition_resume: "transition i st EResumeAdmission"
inductive_cases transition_stop: "transition i st (EStopVm e)"
inductive_cases transition_delete: "transition i st (EDeleteVm g)"
inductive_simps transition_none [simp]: "transition i st ENone"

subsection \<open>The decision takes only these transitions\<close>

named_theorems effect_simps \<open>the effect of a decision\<close>

lemma decision_simps [simp]:
  "deffect (decision st e r) = e" "dstate (decision st e r) = st"
  "deffect (blocked m) = ENone" "dstate (blocked m) = LBlocked"
  "capacity_hold (decision st e r) = False" "capacity_hold (blocked m) = False"
  by (simp_all add: decision_def blocked_def)

lemma authorized_effect:
  "deffect (authorized i x d) \<noteq> ENone \<Longrightarrow> authorized i x d = d \<and> grants i x"
  by (auto simp: authorized_def split: permit_validation.splits if_splits)

lemma authorized_cleanup_effect:
  "deffect (authorized_cleanup i d) \<noteq> ENone \<Longrightarrow> authorized_cleanup i d = d \<and> grants_cleanup i"
  by (auto simp: authorized_cleanup_def split: permit_validation.splits)

text \<open>\<open>carries i d\<close>: \<open>d\<close> has no effect or one the relation allows.\<close>

definition carries :: "lifecycle_input \<Rightarrow> lifecycle_decision \<Rightarrow> bool" where
  "carries i d \<longleftrightarrow> deffect d = ENone \<or> transition i (dstate d) (deffect d)"

lemma carries_blocked [simp]: "carries i (blocked m)" "carries i (decision st ENone r)"
  by (simp_all add: carries_def)

lemma carries_authorized:
  "(grants i x \<Longrightarrow> transition i (dstate d) (deffect d)) \<Longrightarrow> carries i (authorized i x d)"
  unfolding carries_def using authorized_effect [of i x d] by metis

lemma carries_authorized_cleanup:
  "(grants_cleanup i \<Longrightarrow> transition i (dstate d) (deffect d)) \<Longrightarrow> carries i (authorized_cleanup i d)"
  unfolding carries_def using authorized_cleanup_effect [of i d] by metis

lemma capacity_wait_decision_None:
  "capacity_wait_decision i st = None \<longleftrightarrow>
     (\<forall>w. capacityWait (journal i) = Some w \<longrightarrow> retryAtMs w \<le> nowMs i)"
  by (auto simp: capacity_wait_decision_def split: option.splits)

lemma capacity_wait_decision_Some:
  "capacity_wait_decision i st = Some (Inr d) \<Longrightarrow>
     deffect d = ENone \<and> dstate d = st \<and> capacity_hold d"
  by (auto simp: capacity_wait_decision_def result_simps split: option.splits if_splits)

lemma carries_hold: "capacity_wait_decision i st = Some (Inr d) \<Longrightarrow> carries i d"
  using capacity_wait_decision_Some by (simp add: carries_def)

lemma carries_emergency: "emergency_due i \<Longrightarrow> carries i (emergency_decision i)"
  by (auto simp: emergency_decision_def carries_def intro: transition.emergency
      split: permit_validation.splits if_splits)

lemma carries_adoption:
  "outstandingIntent (journal i) = Some intent \<Longrightarrow> intent_type intent = CreateVm
   \<Longrightarrow> carries i (adoption_decision i intent)"
  by (auto simp: adoption_decision_def Let_def carries_def intro!: transition.adopt)

lemma carries_creation:
  assumes "creation_decision i = Inr d" "vmStatus (provider i) = VAbsent"
    "ownership (provider i) = OAbsent" "num_eq (ownedMatches (provider i)) (Fin 0)"
  shows "carries i d"
proof (cases "\<not> prov_complete (provider i) \<or> \<not> queue_complete (queue i) \<or> no_demand i")
  case False
  let ?hold = "case capacityWait (journal i) of None \<Rightarrow> None
    | Some w \<Rightarrow> if refusedEffect w = CreateVm then capacity_wait_decision i LAbsent else None"
  note d = assms(1) [unfolded creation_decision_def if_not_P [OF False]]
  show ?thesis
  proof (cases ?hold)
    case (Some h)
    then show ?thesis using d by (auto split: option.splits if_splits intro: carries_hold)
  next
    case None
    then have "\<And>w. capacityWait (journal i) = Some w \<Longrightarrow> refusedEffect w = CreateVm \<Longrightarrow> retryAtMs w \<le> nowMs i"
      by (auto simp: capacity_wait_decision_None)
    then show ?thesis using d False assms None
      by (auto simp: Let_def split: sum.splits if_splits intro!: carries_authorized transition.create)
  qed
qed (use assms(1) in \<open>auto simp: creation_decision_def\<close>)

lemma carries_start:
  assumes "start_decision i = Inr d" "settled i" "vmStatus (provider i) = VStopped" "demand i"
    "jstate (journal i) \<notin> set GUEST_UP_STATES"
  shows "carries i d"
proof (cases "capacity_wait_decision i (jstate (journal i))")
  case None
  then have "\<And>w. capacityWait (journal i) = Some w \<Longrightarrow> retryAtMs w \<le> nowMs i"
    by (simp add: capacity_wait_decision_None)
  then show ?thesis using assms None
    by (auto simp: start_decision_def Let_def split: sum.splits if_splits
        intro!: carries_authorized transition.start)
qed (use assms(1) in \<open>auto simp: start_decision_def intro: carries_hold\<close>)

lemma carries_stopped_outside:
  "settled i \<Longrightarrow> vmStatus (provider i) = VStopped \<Longrightarrow> jstate (journal i) \<in> set GUEST_UP_STATES
   \<Longrightarrow> carries i (stopped_outside_decision i)"
  by (auto simp: stopped_outside_decision_def intro!: carries_authorized_cleanup transition.delete_spent)

lemma carries_registration:
  "settled i \<Longrightarrow> vmStatus (provider i) = VRunning \<Longrightarrow> demand i \<Longrightarrow> guestStatus (guest i) = GReady
   \<Longrightarrow> carries i (registration_decision i)"
  by (auto simp: registration_decision_def intro!: carries_authorized transition.register split: option.split)

lemma carries_drain:
  "drain_decision i r g = Inr d \<Longrightarrow> settled i \<Longrightarrow> vmStatus (provider i) = VRunning \<Longrightarrow> no_demand i
   \<Longrightarrow> guestStatus (guest i) \<in> {GReady, GDraining} \<Longrightarrow> effective_grant i = Some g \<Longrightarrow> carries i d"
  by (auto simp: drain_decision_def result_simps intro!: carries_authorized transition.drain)

lemma carries_draining:
  "draining_decision i = Inr d \<Longrightarrow> settled i \<Longrightarrow> vmStatus (provider i) = VRunning
   \<Longrightarrow> jstate (journal i) = LDraining \<Longrightarrow> carries i d"
  by (auto simp: draining_decision_def split: if_splits option.splits
      intro!: carries_authorized transition.stop intro: carries_drain)

lemma owned_unsettled:
  assumes "\<not> settled i" "owned_decision i = Inr d"
  shows "deffect d = ENone"
proof -
  have "ownedBusy (queue i) = Some False" if "ownedBusy (queue i) \<noteq> None" "ownedBusy (queue i) \<noteq> Some True"
    using that by auto
  then show ?thesis using assms
    by (auto simp: owned_decision_def Let_def settled_def split: if_splits)
qed

lemma owned_settled:
  assumes "settled i"
  shows "owned_decision i =
    (let j = journal i; g = guest i; v = vmStatus (provider i) in
      if v = VRunning \<and> jstate j \<in> set GUEST_UP_STATES
          \<and> (case effective_grant i of None \<Rightarrow> False
             | Some gr \<Rightarrow> \<not> num_eq (grant_generation gr) (startCount j))
        then Inr (blocked [Lit ''guest grant generation '',
               Num (case effective_grant i of None \<Rightarrow> NaN | Some gr \<Rightarrow> grant_generation gr),
               Lit '' does not match journal generation '', Num (startCount j)])
      else if v = VStopped \<and> jstate j \<in> set GUEST_UP_STATES
        then Inr (stopped_outside_decision i)
      else if jstate j = LDraining \<and> demand i \<and> v = VRunning \<and> guestStatus g = GDrained \<and> fits_resume i
        then Inr (authorized i OpRegister
               (decision LReady EResumeAdmission ''eligible work arrived during drain''))
      else if v = VStopped \<and> capacityWait j \<noteq> None \<and> jstate j = LStopped \<and> no_demand i
          \<and> deleteAfterStop (config i)
        then Inr (authorized_cleanup i (decision LAbsent (EDeleteVm (num_max (Fin 1) (startCount j)))
               ''queued work left during a capacity wait; deleting the idle stopped VM and its retained disk''))
      else if v = VStopped \<and> jstate j = LStopping \<and> Fin 0 < startCount j \<and> no_demand i
          \<and> deleteAfterStop (config i)
        then Inr (authorized_cleanup i (decision LAbsent (EDeleteVm (startCount j))
               ''idle stopped VM and its retained disk are no longer needed''))
      else if v = VStopped \<and> demand i then start_decision i
      else if v = VRunning \<and> demand i \<and> guestStatus g = GReady then Inr (registration_decision i)
      else if jstate j = LDraining \<and> v = VRunning then draining_decision i
      else (case effective_grant i of
          Some gr \<Rightarrow>
            if v = VRunning \<and> no_demand i \<and> guestStatus g = GReady
            then drain_decision i ''no eligible work remains'' gr
            else Inr (decision (jstate j) ENone ''no lifecycle transition is required'')
        | None \<Rightarrow> Inr (decision (jstate j) ENone ''no lifecycle transition is required'')))"
proof -
  have "owns_one i" "prov_complete (provider i)" "queue_complete (queue i)" "guest_complete (guest i)"
    "vmStatus (provider i) \<noteq> VError" "vmStatus (provider i) \<noteq> VUnknown"
    "guestStatus (guest i) \<noteq> GFailed" "guestStatus (guest i) \<noteq> GUnknown" "guestStatus (guest i) \<noteq> GBusy"
    "outstandingOperation (provider i) = None" "outstandingIntent (journal i) = None"
    "ownedBusy (queue i) = Some False" "workerActive (guest i) \<noteq> Some True"
    using assms by (simp_all add: settled_def)
  then show ?thesis
    by (simp only: owned_decision_def Let_def if_False option.distinct option.inject bool_simps
        simp_thms not_True_eq_False)
qed

lemma carries_owned:
  assumes d: "owned_decision i = Inr d"
  shows "carries i d"
proof (cases "settled i")
  case False
  then show ?thesis using owned_unsettled d by (simp add: carries_def)
next
  case True
  have resume: "carries i (authorized i OpRegister (decision LReady EResumeAdmission r))"
    if "jstate (journal i) = LDraining" "demand i" "vmStatus (provider i) = VRunning"
      "guestStatus (guest i) = GDrained" "fits_resume i" for r
    using that True by (auto simp: fits_resume_def intro!: carries_authorized transition.resume
        split: option.splits)
  have idle: "carries i (authorized_cleanup i (decision LAbsent (EDeleteVm (startCount (journal i))) r))"
    if "jstate (journal i) = LStopping" "Fin 0 < startCount (journal i)" "vmStatus (provider i) = VStopped"
      "no_demand i" "deleteAfterStop (config i)" for r
    using that True by (auto intro!: carries_authorized_cleanup transition.delete_idle)
  have waiting: "carries i (authorized_cleanup i
      (decision LAbsent (EDeleteVm (num_max (Fin 1) (startCount (journal i)))) r))"
    if "jstate (journal i) = LStopped" "capacityWait (journal i) \<noteq> None" "vmStatus (provider i) = VStopped"
      "no_demand i" "deleteAfterStop (config i)" for r
    using that True by (intro carries_authorized_cleanup) (simp add: transition.delete_waiting)
  have drain: "carries i d" if "vmStatus (provider i) = VRunning" "no_demand i"
      "guestStatus (guest i) = GReady" "effective_grant i = Some gr" "drain_decision i r gr = Inr d" for r gr
    using carries_drain [OF that(5) True] that by simp
  have rest: "carries i d" if "(case effective_grant i of
          Some gr \<Rightarrow> if vmStatus (provider i) = VRunning \<and> no_demand i \<and> guestStatus (guest i) = GReady
            then drain_decision i r gr else Inr (decision st ENone r')
        | None \<Rightarrow> Inr (decision st ENone r')) = Inr d" for r r' st
    using that drain by (cases "effective_grant i") (auto split: if_splits)
  from d [unfolded owned_settled [OF True] Let_def] show ?thesis
    apply (elim if_eqE)
    subgoal by auto
    subgoal using carries_stopped_outside True by auto
    subgoal using resume by auto
    subgoal using waiting by auto
    subgoal using idle by auto
    subgoal using carries_start True by blast
    subgoal using carries_registration True by auto
    subgoal using carries_draining True by blast
    subgoal by (rule rest)
    done
qed

text \<open>The refinement: whatever effect the decision carries, the relation allows it.\<close>

lemma decide_lifecycle_carries:
  assumes "decide_lifecycle i = Inr d"
  shows "carries i d"
  using assms carries_owned [of i d] carries_creation [of i d]
  by (auto simp: decide_lifecycle_def carries_emergency carries_adoption
      split: if_splits option.splits)

lemma decide_lifecycle_transition:
  "decide_lifecycle i = Inr d \<Longrightarrow> deffect d \<noteq> ENone \<Longrightarrow> transition i (dstate d) (deffect d)"
  using decide_lifecycle_carries by (auto simp: carries_def)

end
