(* ===== verification/ControllerState.thy ===== *)
theory ControllerState
  imports Lifecycle
begin

text \<open>
  The durable state of the controller (\<open>controller.ts\<close>): what the journal file holds, how it is
  written to JSON and strictly read back (\<open>parseControllerState\<close> and its parts), the invariants every
  state satisfies (\<open>assertStateInvariants\<close>), and the pure operations on it: recording a decision,
  merging an observed journal, marking intents, and the checks of a pending effect.
\<close>

section \<open>Data\<close>

datatype stage = Intent | Emitting

fun stage_str :: "stage \<Rightarrow> string" where
  "stage_str Intent = ''intent''"
| "stage_str Emitting = ''emitting''"

record pending_authorization = permit_identity +
  auth_permitId :: string
  permitExpiresAtMs :: jsnum
  auth_operation :: permit_operation
  auth_recoveryAllowed :: bool
  effectDeadlineMs :: "jsnum option"

record pending_effect =
  pe_id :: string
  pe_effect :: lifecycle_effect
  createdAtMs :: jsnum
  pe_status :: intent_status
  pe_stage :: stage
  pe_authorization :: pending_authorization
  pe_operationId :: "string option"

record controller_state =
  cs_identity :: permit_identity
  lifecycle :: lifecycle_journal
  pendingEffect :: "pending_effect option"
  readbacks :: "jsval list"

abbreviation fail :: "string \<Rightarrow> jsnum exn + 'a" where
  "fail s \<equiv> Inl (plain_error [Lit s])"

section \<open>Reading\<close>

text \<open>
  \<open>String(v)\<close> as far as it can equal one of the names it is compared with: a string is itself, a
  one-element array is its element.
\<close>

fun js_string :: "jsval \<Rightarrow> string" where
  "js_string (JStr s) = s"
| "js_string (JArr [v]) = js_string v"
| "js_string _ = []"

definition strict_object ::
  "jsval \<Rightarrow> string list \<Rightarrow> string \<Rightarrow> string list \<Rightarrow> jsnum exn + fields" where
  "strict_object v required name optional =
     (case as_obj v of None \<Rightarrow> Inl (plain_error [Lit name, Lit '' must be an object''])
      | Some kvs \<Rightarrow>
          rbind (reject (unknown_key kvs (required @ optional))
            (\<lambda>k. plain_error [Lit name, Lit '' contains unknown key '', Lit k])) (\<lambda>_.
          rbind (reject (missing_key kvs required)
            (\<lambda>k. plain_error [Lit name, Lit '' is missing '', Lit k])) (\<lambda>_. Inr kvs)))"

fun integer_num :: "jsval \<Rightarrow> bool" where
  "integer_num (JNum n) = is_integer n"
| "integer_num _ = False"

definition num_of :: "jsval \<Rightarrow> jsnum" where
  "num_of v = (case v of JNum n \<Rightarrow> n | _ \<Rightarrow> NaN)"

definition str_of :: "jsval \<Rightarrow> string" where
  "str_of v = (case v of JStr s \<Rightarrow> s | _ \<Rightarrow> [])"

fun nonempty_str :: "jsval \<Rightarrow> bool" where
  "nonempty_str (JStr s) = (s \<noteq> [])"
| "nonempty_str _ = False"

definition positive_integer :: "jsval \<Rightarrow> string \<Rightarrow> jsnum exn + unit" where
  "positive_integer v name = check (integer_num v \<and> Fin 1 \<le> num_of v) (plain_error [Lit name, Lit '' is invalid''])"

definition finite_number :: "jsval \<Rightarrow> string \<Rightarrow> jsnum exn + unit" where
  "finite_number v name = check (finite_num v) (plain_error [Lit name, Lit '' is invalid''])"

text \<open>\<open>root[k] ?? null\<close>\<close>

definition nullish :: "jsval \<Rightarrow> bool" where
  "nullish v \<longleftrightarrow> v = JUndef \<or> v = JNull"

subsection \<open>The identity\<close>

definition IDENTITY_KEYS :: "string list" where
  "IDENTITY_KEYS = [''configHash'', ''candidateDigest'', ''repositoryId'', ''projectId'', ''controllerId'',
     ''resourcePrefix'']"

definition identity_of_fields :: "fields \<Rightarrow> permit_identity" where
  "identity_of_fields kvs =
     \<lparr>configHash = str_of (get_prop kvs ''configHash''), candidateDigest = str_of (get_prop kvs ''candidateDigest''),
      repositoryId = num_of (get_prop kvs ''repositoryId''), projectId = str_of (get_prop kvs ''projectId''),
      controllerId = str_of (get_prop kvs ''controllerId''),
      resourcePrefix = str_of (get_prop kvs ''resourcePrefix'')\<rparr>"

definition parse_identity :: "jsval \<Rightarrow> jsnum exn + permit_identity" where
  "parse_identity v =
     rbind (strict_object v IDENTITY_KEYS ''controller state identity'' []) (\<lambda>kvs.
     rbind (reject (find (\<lambda>k. \<not> nonempty_str (get_prop kvs k))
         [''configHash'', ''candidateDigest'', ''projectId'', ''controllerId'', ''resourcePrefix''])
       (\<lambda>k. plain_error [Lit ''controller state identity '', Lit k, Lit '' is invalid''])) (\<lambda>_.
     rbind (check (integer_num (get_prop kvs ''repositoryId'') \<and> Fin 0 < num_of (get_prop kvs ''repositoryId''))
       (plain_error [Lit ''controller state identity repositoryId is invalid''])) (\<lambda>_.
     Inr (identity_of_fields kvs))))"

subsection \<open>The lifecycle journal\<close>

definition observation_of_fields :: "fields \<Rightarrow> bool \<Rightarrow> idle_observation" where
  "observation_of_fields kvs b =
     \<lparr>idle_observedAtMs = num_of (get_prop kvs ''observedAtMs''), idle_complete = b,
      idle_generation = num_of (get_prop kvs ''generation'')\<rparr>"

definition parse_observation :: "jsval \<Rightarrow> jsnum exn + idle_observation" where
  "parse_observation v =
     rbind (strict_object v [''observedAtMs'', ''complete'', ''generation''] ''idle observation'' []) (\<lambda>kvs.
     rbind (check (finite_num (get_prop kvs ''observedAtMs''))
       (plain_error [Lit ''idle observation time is invalid''])) (\<lambda>_.
     rbind (require (as_bool (get_prop kvs ''complete''))
       (plain_error [Lit ''idle observation fields are invalid''])) (\<lambda>b.
     rbind (check (integer_num (get_prop kvs ''generation'') \<and> Fin 1 \<le> num_of (get_prop kvs ''generation''))
       (plain_error [Lit ''idle observation fields are invalid''])) (\<lambda>_.
     Inr (observation_of_fields kvs b)))))"

definition intent_of_fields :: "fields \<Rightarrow> start_kind \<Rightarrow> intent_status \<Rightarrow> mutation_intent" where
  "intent_of_fields kvs ty st =
     \<lparr>intent_type = ty, intent_generation = num_of (get_prop kvs ''generation''), intent_status = st,
      intent_deadlineMs = num_of (get_prop kvs ''deadlineMs'')\<rparr>"

definition parse_intent :: "jsval \<Rightarrow> jsnum exn + mutation_intent" where
  "parse_intent v =
     (let bad = plain_error [Lit ''controller state lifecycle intent is invalid''] in
      rbind (strict_object v [''type'', ''generation'', ''status'', ''deadlineMs''] ''lifecycle intent'' []) (\<lambda>kvs.
      rbind (require (of_str start_kind_str [CreateVm, StartVm] (js_string (get_prop kvs ''type''))) bad) (\<lambda>ty.
      rbind (check (integer_num (get_prop kvs ''generation'')) bad) (\<lambda>_.
      rbind (require (of_str intent_status_str [Pending, Ambiguous, Blocked]
          (js_string (get_prop kvs ''status''))) bad) (\<lambda>st.
      rbind (check (finite_num (get_prop kvs ''deadlineMs'')) bad) (\<lambda>_.
      Inr (intent_of_fields kvs ty st)))))))"

definition wait_of_fields :: "fields \<Rightarrow> start_kind \<Rightarrow> capacity_wait" where
  "wait_of_fields kvs k =
     \<lparr>refusedEffect = k, wait_detail = str_of (get_prop kvs ''detail''),
      firstRefusedAtMs = num_of (get_prop kvs ''firstRefusedAtMs''),
      lastRefusedAtMs = num_of (get_prop kvs ''lastRefusedAtMs''),
      refusals = num_of (get_prop kvs ''refusals''), retryAtMs = num_of (get_prop kvs ''retryAtMs'')\<rparr>"

definition WAIT_KEYS :: "string list" where
  "WAIT_KEYS = [''reasonCode'', ''refusedEffect'', ''detail'', ''firstRefusedAtMs'', ''lastRefusedAtMs'',
     ''refusals'', ''retryAtMs'']"

definition parse_capacity_wait :: "jsval \<Rightarrow> jsnum exn + capacity_wait" where
  "parse_capacity_wait v =
     rbind (strict_object v WAIT_KEYS ''controller state capacityWait'' []) (\<lambda>kvs.
     rbind (check (get_prop kvs ''reasonCode'' = JStr CAPACITY_WAIT_REASON)
       (plain_error [Lit ''controller state capacityWait reasonCode is invalid''])) (\<lambda>_.
     rbind (require (Option.bind (as_str (get_prop kvs ''refusedEffect'')) (of_str start_kind_str [CreateVm, StartVm]))
       (plain_error [Lit ''controller state capacityWait refusedEffect is invalid''])) (\<lambda>k.
     rbind (check (nonempty_str (get_prop kvs ''detail''))
       (plain_error [Lit ''controller state capacityWait detail is invalid''])) (\<lambda>_.
     rbind (reject (find (\<lambda>k. \<not> finite_num (get_prop kvs k)) [''firstRefusedAtMs'', ''lastRefusedAtMs'', ''retryAtMs''])
       (\<lambda>k. plain_error [Lit (''controller state capacityWait '' @ k), Lit '' is invalid''])) (\<lambda>_.
     rbind (positive_integer (get_prop kvs ''refusals'') ''controller state capacityWait refusals'') (\<lambda>_.
     Inr (wait_of_fields kvs k)))))))"

definition JOURNAL_KEYS :: "string list" where
  "JOURNAL_KEYS = [''state'', ''startCount'', ''cumulativeRuntimeMs'', ''cumulativeCostUsd'', ''outstandingIntent'',
     ''idleObservations'']"

definition JOURNAL_OPTIONAL_KEYS :: "string list" where
  "JOURNAL_OPTIONAL_KEYS = [''grantDeadlineMs'', ''grantStartedAtMs'', ''capacityWait'']"

definition journal_of_fields ::
  "fields \<Rightarrow> lifecycle_state \<Rightarrow> mutation_intent option \<Rightarrow> idle_observation list \<Rightarrow> jsnum option \<Rightarrow> jsnum option
   \<Rightarrow> capacity_wait option \<Rightarrow> lifecycle_journal" where
  "journal_of_fields kvs st intent idle deadline started wait =
     \<lparr>jstate = st, startCount = num_of (get_prop kvs ''startCount''),
      cumulativeRuntimeMs = num_of (get_prop kvs ''cumulativeRuntimeMs''),
      cumulativeCostUsd = num_of (get_prop kvs ''cumulativeCostUsd''),
      outstandingIntent = intent, idleObservations = slice_last 100 idle,
      grantDeadlineMs = deadline, grantStartedAtMs = started, capacityWait = wait\<rparr>"

text \<open>A field that may be absent or null, and is a number otherwise.\<close>

definition optional_number :: "jsval \<Rightarrow> jsnum exn \<Rightarrow> jsnum exn + jsnum option" where
  "optional_number v e =
     (if nullish v then Inr None else if finite_num v then Inr (Some (num_of v)) else Inl e)"

definition parse_lifecycle_journal :: "jsval \<Rightarrow> jsnum exn + lifecycle_journal" where
  "parse_lifecycle_journal v =
     rbind (strict_object v JOURNAL_KEYS ''controller state lifecycle'' JOURNAL_OPTIONAL_KEYS) (\<lambda>kvs.
     rbind (require (Option.bind (as_str (get_prop kvs ''state'')) (of_str lifecycle_state_str LIFECYCLE_STATES))
       (plain_error [Lit ''controller state lifecycle state is invalid''])) (\<lambda>st.
     rbind (check (integer_num (get_prop kvs ''startCount'') \<and> \<not> num_of (get_prop kvs ''startCount'') < Fin 0)
       (plain_error [Lit ''controller state startCount is invalid''])) (\<lambda>_.
     rbind (reject (find (\<lambda>k. \<not> finite_num (get_prop kvs k) \<or> num_of (get_prop kvs k) < Fin 0)
         [''cumulativeRuntimeMs'', ''cumulativeCostUsd''])
       (\<lambda>k. plain_error [Lit ''controller state '', Lit k, Lit '' is invalid''])) (\<lambda>_.
     rbind (require (as_arr (get_prop kvs ''idleObservations''))
       (plain_error [Lit ''controller state idleObservations must be an array''])) (\<lambda>entries.
     rbind (optional_number (get_prop kvs ''grantDeadlineMs'')
       (plain_error [Lit ''controller state grantDeadlineMs is invalid''])) (\<lambda>deadline.
     rbind (optional_number (get_prop kvs ''grantStartedAtMs'')
       (plain_error [Lit ''controller state grantStartedAtMs is invalid''])) (\<lambda>started.
     rbind (check (case started of None \<Rightarrow> True
                   | Some s \<Rightarrow> (case deadline of None \<Rightarrow> False | Some d \<Rightarrow> \<not> d \<le> s))
       (plain_error [Lit ''controller state grantStartedAtMs is invalid''])) (\<lambda>_.
     rbind (rmap parse_observation entries) (\<lambda>idle.
     rbind (if get_prop kvs ''outstandingIntent'' = JNull then Inr None
            else rbind (parse_intent (get_prop kvs ''outstandingIntent'')) (\<lambda>x. Inr (Some x))) (\<lambda>intent.
     rbind (if get_prop kvs ''capacityWait'' = JUndef then Inr None
            else rbind (parse_capacity_wait (get_prop kvs ''capacityWait'')) (\<lambda>x. Inr (Some x))) (\<lambda>wait.
     Inr (journal_of_fields kvs st intent idle deadline started wait))))))))))))"

subsection \<open>The pending effect\<close>

definition parse_generation_effect :: "fields \<Rightarrow> string \<Rightarrow> (jsnum \<Rightarrow> jsnum \<Rightarrow> lifecycle_effect) \<Rightarrow> jsnum exn + lifecycle_effect" where
  "parse_generation_effect kvs type mk =
     rbind (positive_integer (get_prop kvs ''generation'') (type @ '' generation'')) (\<lambda>_.
     rbind (finite_number (get_prop kvs ''deadlineMs'') (type @ '' deadlineMs'')) (\<lambda>_.
     Inr (mk (num_of (get_prop kvs ''generation'')) (num_of (get_prop kvs ''deadlineMs'')))))"

definition parse_effect :: "jsval \<Rightarrow> jsnum exn + lifecycle_effect" where
  "parse_effect v =
     (case as_obj v of None \<Rightarrow> fail ''pending effect value is invalid''
      | Some kvs0 \<Rightarrow>
        if \<not> has_own kvs0 ''type'' then fail ''pending effect value is invalid''
        else
        let type = get_prop kvs0 ''type'' in
        if type = JStr ''create-vm'' then
          rbind (strict_object v [''type'', ''generation'', ''reservedStartCount'', ''deadlineMs''] ''create effect'' []) (\<lambda>kvs.
          rbind (positive_integer (get_prop kvs ''reservedStartCount'') ''create reservedStartCount'') (\<lambda>_.
          parse_generation_effect kvs ''create-vm'' (\<lambda>g d. ECreateVm g (num_of (get_prop kvs ''reservedStartCount'')) d)))
        else if type = JStr ''adopt-vm'' then
          rbind (strict_object v [''type'', ''generation'', ''deadlineMs''] ''adopt-vm effect'' []) (\<lambda>kvs.
          parse_generation_effect kvs ''adopt-vm'' EAdoptVm)
        else if type = JStr ''start-vm'' then
          rbind (strict_object v [''type'', ''generation'', ''deadlineMs''] ''start-vm effect'' []) (\<lambda>kvs.
          parse_generation_effect kvs ''start-vm'' EStartVm)
        else if type = JStr ''register-runner'' then
          rbind (strict_object v [''type'', ''assignmentCutoffMs''] ''register effect'' []) (\<lambda>kvs.
          rbind (finite_number (get_prop kvs ''assignmentCutoffMs'') ''register assignmentCutoffMs'') (\<lambda>_.
          Inr (ERegisterRunner (num_of (get_prop kvs ''assignmentCutoffMs'')))))
        else if type = JStr ''begin-drain'' then
          rbind (strict_object v [''type'', ''fallbackDeadlineMs''] ''drain effect'' []) (\<lambda>kvs.
          rbind (finite_number (get_prop kvs ''fallbackDeadlineMs'') ''drain fallbackDeadlineMs'') (\<lambda>_.
          Inr (EBeginDrain (num_of (get_prop kvs ''fallbackDeadlineMs'')))))
        else if type = JStr ''resume-admission'' then
          rbind (strict_object v [''type''] ''resume effect'' []) (\<lambda>_. Inr EResumeAdmission)
        else if type = JStr ''stop-vm'' then
          rbind (strict_object v [''type'', ''emergency''] ''stop effect'' []) (\<lambda>kvs.
          rbind (require (as_bool (get_prop kvs ''emergency''))
            (plain_error [Lit ''stop effect emergency is invalid''])) (\<lambda>b. Inr (EStopVm b)))
        else if type = JStr ''delete-vm'' then
          rbind (strict_object v [''type'', ''generation''] ''delete effect'' []) (\<lambda>kvs.
          rbind (positive_integer (get_prop kvs ''generation'') ''delete generation'') (\<lambda>_.
          Inr (EDeleteVm (num_of (get_prop kvs ''generation'')))))
        else fail ''pending effect type is invalid'')"

definition authorization_of_fields ::
  "fields \<Rightarrow> permit_identity \<Rightarrow> permit_operation \<Rightarrow> bool \<Rightarrow> jsnum option \<Rightarrow> pending_authorization" where
  "authorization_of_fields kvs ident x recovery deadline =
     \<lparr>configHash = configHash ident, candidateDigest = candidateDigest ident,
      repositoryId = repositoryId ident, projectId = projectId ident, controllerId = controllerId ident,
      resourcePrefix = resourcePrefix ident,
      auth_permitId = str_of (get_prop kvs ''permitId''),
      permitExpiresAtMs = num_of (get_prop kvs ''permitExpiresAtMs''),
      auth_operation = x, auth_recoveryAllowed = recovery, effectDeadlineMs = deadline\<rparr>"

definition AUTHORIZATION_KEYS :: "string list" where
  "AUTHORIZATION_KEYS = [''permitId'', ''configHash'', ''candidateDigest'', ''repositoryId'', ''projectId'',
     ''controllerId'', ''resourcePrefix'', ''permitExpiresAtMs'', ''operation'', ''recoveryAllowed'',
     ''effectDeadlineMs'']"

text \<open>The identity fields of the authorization, as an object of their own.\<close>

definition identity_fields :: "fields \<Rightarrow> jsval" where
  "identity_fields kvs = JObj (map (\<lambda>k. (k, get_prop kvs k)) IDENTITY_KEYS)"

definition parse_pending_authorization :: "jsval \<Rightarrow> jsnum exn + pending_authorization" where
  "parse_pending_authorization v =
     rbind (strict_object v AUTHORIZATION_KEYS ''pending authorization'' []) (\<lambda>kvs.
     rbind (parse_identity (identity_fields kvs)) (\<lambda>ident.
     rbind (check (nonempty_str (get_prop kvs ''permitId''))
       (plain_error [Lit ''pending authorization permitId is invalid''])) (\<lambda>_.
     rbind (check (finite_num (get_prop kvs ''permitExpiresAtMs''))
       (plain_error [Lit ''pending authorization expiry is invalid''])) (\<lambda>_.
     rbind (require (of_str permit_operation_str [OpCreate, OpStart, OpRegister, OpStop, OpDelete]
         (js_string (get_prop kvs ''operation'')))
       (plain_error [Lit ''pending authorization operation is invalid''])) (\<lambda>x.
     rbind (require (as_bool (get_prop kvs ''recoveryAllowed''))
       (plain_error [Lit ''pending authorization recoveryAllowed is invalid''])) (\<lambda>recovery.
     rbind (if get_prop kvs ''effectDeadlineMs'' = JNull then Inr None
            else if finite_num (get_prop kvs ''effectDeadlineMs'')
            then Inr (Some (num_of (get_prop kvs ''effectDeadlineMs'')))
            else fail ''pending authorization effectDeadlineMs is invalid'') (\<lambda>deadline.
     Inr (authorization_of_fields kvs ident x recovery deadline))))))))"

definition pending_of_fields ::
  "fields \<Rightarrow> lifecycle_effect \<Rightarrow> intent_status \<Rightarrow> stage \<Rightarrow> pending_authorization \<Rightarrow> pending_effect" where
  "pending_of_fields kvs eff st sg auth =
     \<lparr>pe_id = str_of (get_prop kvs ''id''), pe_effect = eff, createdAtMs = num_of (get_prop kvs ''createdAtMs''),
      pe_status = st, pe_stage = sg, pe_authorization = auth, pe_operationId = as_str (get_prop kvs ''operationId'')\<rparr>"

definition parse_pending_effect :: "jsval \<Rightarrow> jsnum exn + pending_effect" where
  "parse_pending_effect v =
     rbind (strict_object v [''id'', ''effect'', ''createdAtMs'', ''status'', ''stage'', ''authorization'']
       ''pending effect'' [''operationId'']) (\<lambda>kvs.
     rbind (check (nonempty_str (get_prop kvs ''id'') \<and> finite_num (get_prop kvs ''createdAtMs''))
       (plain_error [Lit ''pending effect metadata is invalid''])) (\<lambda>_.
     rbind (require (of_str intent_status_str [Pending, Ambiguous, Blocked] (js_string (get_prop kvs ''status'')))
       (plain_error [Lit ''pending effect status is invalid''])) (\<lambda>st.
     rbind (require (of_str stage_str [Intent, Emitting] (js_string (get_prop kvs ''stage'')))
       (plain_error [Lit ''pending effect stage is invalid''])) (\<lambda>sg.
     rbind (check (get_prop kvs ''operationId'' = JUndef \<or> as_str (get_prop kvs ''operationId'') \<noteq> None)
       (plain_error [Lit ''pending effect operationId is invalid''])) (\<lambda>_.
     rbind (parse_effect (get_prop kvs ''effect'')) (\<lambda>eff.
     rbind (parse_pending_authorization (get_prop kvs ''authorization'')) (\<lambda>auth.
     Inr (pending_of_fields kvs eff st sg auth))))))))"

section \<open>The invariants of a state\<close>

fun required_permit_operation :: "lifecycle_effect \<Rightarrow> permit_operation option" where
  "required_permit_operation (ECreateVm _ _ _) = Some OpCreate"
| "required_permit_operation (EAdoptVm _ _) = Some OpCreate"
| "required_permit_operation (EStartVm _ _) = Some OpStart"
| "required_permit_operation (ERegisterRunner _) = Some OpRegister"
| "required_permit_operation (EBeginDrain _) = Some OpRegister"
| "required_permit_operation EResumeAdmission = Some OpRegister"
| "required_permit_operation (EStopVm _) = Some OpStop"
| "required_permit_operation (EDeleteVm _) = Some OpDelete"
| "required_permit_operation ENone = None"

fun explicit_effect_deadline :: "lifecycle_effect \<Rightarrow> jsnum option" where
  "explicit_effect_deadline (ECreateVm _ _ d) = Some d"
| "explicit_effect_deadline (EAdoptVm _ d) = Some d"
| "explicit_effect_deadline (EStartVm _ d) = Some d"
| "explicit_effect_deadline (ERegisterRunner c) = Some c"
| "explicit_effect_deadline (EBeginDrain d) = Some d"
| "explicit_effect_deadline _ = None"

text \<open>The kind, generation and deadline of a create or start.\<close>

fun start_effect :: "lifecycle_effect \<Rightarrow> (start_kind \<times> jsnum \<times> jsnum) option" where
  "start_effect (ECreateVm g _ d) = Some (CreateVm, g, d)"
| "start_effect (EStartVm g d) = Some (StartVm, g, d)"
| "start_effect _ = None"

definition invariant_error :: "string \<Rightarrow> jsnum exn" where
  "invariant_error s = plain_error [Lit (''controller state invariant: '' @ s)]"

text \<open>The intent of the lifecycle journal is the pending create or start, and nothing else.\<close>

definition intent_agrees :: "lifecycle_journal \<Rightarrow> pending_effect \<Rightarrow> jsnum exn + unit" where
  "intent_agrees j p =
     (case start_effect (pe_effect p) of
        Some (k, g, d) \<Rightarrow>
          rbind (check (case outstandingIntent j of None \<Rightarrow> False
              | Some it \<Rightarrow> intent_type it = k \<and> num_eq (intent_generation it) g
                  \<and> num_eq (intent_deadlineMs it) d \<and> intent_status it = pe_status p)
            (invariant_error ''pending effect and lifecycle intent disagree'')) (\<lambda>_.
          (case pe_effect p of
             ECreateVm _ reserved _ \<Rightarrow> check (num_eq reserved (startCount j + Fin 1))
               (invariant_error ''create reservation is not the next start generation'')
           | _ \<Rightarrow> check (\<not> startCount j < g)
               (invariant_error ''pending generation exceeds startCount'')))
      | None \<Rightarrow> check (outstandingIntent j = None)
          (invariant_error ''non-start pending effect has a lifecycle start intent''))"

definition authorization_agrees :: "permit_identity \<Rightarrow> pending_effect \<Rightarrow> jsnum exn + unit" where
  "authorization_agrees ident p =
     (let auth = pe_authorization p in
      rbind (check (same_identity auth ident)
        (invariant_error ''pending authorization identity differs from state identity'')) (\<lambda>_.
      rbind (check (Some (auth_operation auth) = required_permit_operation (pe_effect p))
        (invariant_error ''pending authorization operation differs from effect'')) (\<lambda>_.
      check (case explicit_effect_deadline (pe_effect p) of None \<Rightarrow> True
             | Some d \<Rightarrow> (case effectDeadlineMs auth of None \<Rightarrow> False | Some d' \<Rightarrow> num_eq d' d))
        (invariant_error ''pending authorization deadline differs from effect''))))"

definition assert_state_invariants :: "controller_state \<Rightarrow> jsnum exn + unit" where
  "assert_state_invariants s =
     (let j = lifecycle s in
      rbind (case pendingEffect s of
          None \<Rightarrow> check (outstandingIntent j = None)
            (invariant_error ''lifecycle intent exists without pending effect'')
        | Some p \<Rightarrow> rbind (intent_agrees j p) (\<lambda>_. authorization_agrees (cs_identity s) p)) (\<lambda>_.
      check (\<not> (\<exists>e \<in> set (idleObservations j). startCount j < idle_generation e))
        (invariant_error ''idle observation generation exceeds startCount'')))"

definition parse_controller_state :: "jsval \<Rightarrow> jsnum exn + controller_state" where
  "parse_controller_state v =
     rbind (strict_object v [''schemaVersion'', ''identity'', ''lifecycle'', ''pendingEffect'', ''readbacks'']
       ''controller state'' []) (\<lambda>kvs.
     rbind (check (get_prop kvs ''schemaVersion'' = JNum (Fin 1))
       (plain_error [Lit ''controller state schemaVersion must be 1''])) (\<lambda>_.
     rbind (parse_identity (get_prop kvs ''identity'')) (\<lambda>ident.
     rbind (parse_lifecycle_journal (get_prop kvs ''lifecycle'')) (\<lambda>j.
     rbind (if get_prop kvs ''pendingEffect'' = JNull then Inr None
            else rbind (parse_pending_effect (get_prop kvs ''pendingEffect'')) (\<lambda>p. Inr (Some p))) (\<lambda>pending.
     rbind (require (as_arr (get_prop kvs ''readbacks''))
       (plain_error [Lit ''controller state readbacks must be an array''])) (\<lambda>rs.
     let s = \<lparr>cs_identity = ident, lifecycle = j, pendingEffect = pending, readbacks = slice_last 100 rs\<rparr>
     in rbind (assert_state_invariants s) (\<lambda>_. Inr s)))))))"

section \<open>Writing\<close>

text \<open>
  \<open>JSON.stringify\<close>, then \<open>JSON.parse\<close>: a number that is not finite becomes \<open>null\<close>, a property whose
  value is undefined is left out, and so is an undefined array entry, which becomes \<open>null\<close>.
\<close>

definition json_num :: "jsnum \<Rightarrow> jsval" where
  "json_num n = (if is_finite n then JNum n else JNull)"

definition opt_json :: "(jsnum \<Rightarrow> jsval) \<Rightarrow> jsnum option \<Rightarrow> jsval" where
  "opt_json nj x = (case x of None \<Rightarrow> JNull | Some n \<Rightarrow> nj n)"

abbreviation json_opt_num :: "jsnum option \<Rightarrow> jsval" where
  "json_opt_num \<equiv> opt_json json_num"

fun json_clean :: "jsval \<Rightarrow> jsval" and json_clean_fields :: "fields \<Rightarrow> fields" where
  "json_clean JUndef = JNull"
| "json_clean JNull = JNull"
| "json_clean (JBool b) = JBool b"
| "json_clean (JNum n) = json_num n"
| "json_clean (JStr s) = JStr s"
| "json_clean (JArr xs) = JArr (map json_clean xs)"
| "json_clean (JObj kvs) = JObj (json_clean_fields kvs)"
| "json_clean_fields [] = []"
| "json_clean_fields ((k, v) # kvs) =
     (if v = JUndef then json_clean_fields kvs else (k, json_clean v) # json_clean_fields kvs)"

definition identity_json :: "(jsnum \<Rightarrow> jsval) \<Rightarrow> 'a permit_identity_scheme \<Rightarrow> jsval" where
  "identity_json nj i = JObj
     [(''configHash'', JStr (configHash i)), (''candidateDigest'', JStr (candidateDigest i)),
      (''repositoryId'', nj (repositoryId i)), (''projectId'', JStr (projectId i)),
      (''controllerId'', JStr (controllerId i)), (''resourcePrefix'', JStr (resourcePrefix i))]"

definition observation_json :: "(jsnum \<Rightarrow> jsval) \<Rightarrow> idle_observation \<Rightarrow> jsval" where
  "observation_json nj e = JObj
     [(''observedAtMs'', nj (idle_observedAtMs e)), (''complete'', JBool (idle_complete e)),
      (''generation'', nj (idle_generation e))]"

definition intent_json :: "(jsnum \<Rightarrow> jsval) \<Rightarrow> mutation_intent \<Rightarrow> jsval" where
  "intent_json nj it = JObj
     [(''type'', JStr (start_kind_str (intent_type it))), (''generation'', nj (intent_generation it)),
      (''status'', JStr (intent_status_str (intent_status it))), (''deadlineMs'', nj (intent_deadlineMs it))]"

definition wait_json :: "(jsnum \<Rightarrow> jsval) \<Rightarrow> capacity_wait \<Rightarrow> jsval" where
  "wait_json nj w = JObj
     [(''reasonCode'', JStr CAPACITY_WAIT_REASON), (''refusedEffect'', JStr (start_kind_str (refusedEffect w))),
      (''detail'', JStr (wait_detail w)), (''firstRefusedAtMs'', nj (firstRefusedAtMs w)),
      (''lastRefusedAtMs'', nj (lastRefusedAtMs w)), (''refusals'', nj (refusals w)),
      (''retryAtMs'', nj (retryAtMs w))]"

definition journal_json :: "(jsnum \<Rightarrow> jsval) \<Rightarrow> lifecycle_journal \<Rightarrow> jsval" where
  "journal_json nj j = JObj
     ([(''state'', JStr (lifecycle_state_str (jstate j))), (''startCount'', nj (startCount j)),
       (''cumulativeRuntimeMs'', nj (cumulativeRuntimeMs j)),
       (''cumulativeCostUsd'', nj (cumulativeCostUsd j)),
       (''outstandingIntent'', case outstandingIntent j of None \<Rightarrow> JNull | Some it \<Rightarrow> intent_json nj it),
       (''idleObservations'', JArr (map (observation_json nj) (idleObservations j))),
       (''grantDeadlineMs'', opt_json nj (grantDeadlineMs j)),
       (''grantStartedAtMs'', opt_json nj (grantStartedAtMs j))]
      @ (case capacityWait j of None \<Rightarrow> [] | Some w \<Rightarrow> [(''capacityWait'', wait_json nj w)]))"

fun effect_json :: "(jsnum \<Rightarrow> jsval) \<Rightarrow> lifecycle_effect \<Rightarrow> jsval" where
  "effect_json nj ENone = JObj [(''type'', JStr ''none'')]"
| "effect_json nj (ECreateVm g r d) = JObj [(''type'', JStr ''create-vm''), (''generation'', nj g),
     (''reservedStartCount'', nj r), (''deadlineMs'', nj d)]"
| "effect_json nj (EAdoptVm g d) = JObj [(''type'', JStr ''adopt-vm''), (''generation'', nj g),
     (''deadlineMs'', nj d)]"
| "effect_json nj (EStartVm g d) = JObj [(''type'', JStr ''start-vm''), (''generation'', nj g),
     (''deadlineMs'', nj d)]"
| "effect_json nj (ERegisterRunner c) = JObj [(''type'', JStr ''register-runner''), (''assignmentCutoffMs'', nj c)]"
| "effect_json nj (EBeginDrain d) = JObj [(''type'', JStr ''begin-drain''), (''fallbackDeadlineMs'', nj d)]"
| "effect_json nj EResumeAdmission = JObj [(''type'', JStr ''resume-admission'')]"
| "effect_json nj (EStopVm b) = JObj [(''type'', JStr ''stop-vm''), (''emergency'', JBool b)]"
| "effect_json nj (EDeleteVm g) = JObj [(''type'', JStr ''delete-vm''), (''generation'', nj g)]"

definition authorization_json :: "(jsnum \<Rightarrow> jsval) \<Rightarrow> pending_authorization \<Rightarrow> jsval" where
  "authorization_json nj a = JObj
     [(''permitId'', JStr (auth_permitId a)), (''configHash'', JStr (configHash a)),
      (''candidateDigest'', JStr (candidateDigest a)), (''repositoryId'', nj (repositoryId a)),
      (''projectId'', JStr (projectId a)), (''controllerId'', JStr (controllerId a)),
      (''resourcePrefix'', JStr (resourcePrefix a)), (''permitExpiresAtMs'', nj (permitExpiresAtMs a)),
      (''operation'', JStr (permit_operation_str (auth_operation a))),
      (''recoveryAllowed'', JBool (auth_recoveryAllowed a)),
      (''effectDeadlineMs'', opt_json nj (effectDeadlineMs a))]"

definition pending_json :: "(jsnum \<Rightarrow> jsval) \<Rightarrow> pending_effect \<Rightarrow> jsval" where
  "pending_json nj p = JObj
     ([(''id'', JStr (pe_id p)), (''effect'', effect_json nj (pe_effect p)),
       (''createdAtMs'', nj (createdAtMs p)), (''status'', JStr (intent_status_str (pe_status p))),
       (''stage'', JStr (stage_str (pe_stage p))), (''authorization'', authorization_json nj (pe_authorization p))]
      @ (case pe_operationId p of None \<Rightarrow> [] | Some x \<Rightarrow> [(''operationId'', JStr x)]))"

definition state_json :: "(jsnum \<Rightarrow> jsval) \<Rightarrow> (jsval \<Rightarrow> jsval) \<Rightarrow> controller_state \<Rightarrow> jsval" where
  "state_json nj vj s = JObj
     [(''schemaVersion'', JNum (Fin 1)), (''identity'', identity_json nj (cs_identity s)),
      (''lifecycle'', journal_json nj (lifecycle s)),
      (''pendingEffect'', case pendingEffect s of None \<Rightarrow> JNull | Some p \<Rightarrow> pending_json nj p),
      (''readbacks'', JArr (map vj (readbacks s)))]"

text \<open>What the journal file holds, and the object in memory.\<close>

abbreviation json_of_state :: "controller_state \<Rightarrow> jsval" where
  "json_of_state \<equiv> state_json json_num json_clean"

abbreviation value_of_state :: "controller_state \<Rightarrow> jsval" where
  "value_of_state \<equiv> state_json JNum (\<lambda>v. v)"

section \<open>Operations on the journal\<close>

definition apply_decision ::
  "lifecycle_journal \<Rightarrow> lifecycle_effect \<Rightarrow> lifecycle_state \<Rightarrow> jsnum \<Rightarrow> lifecycle_journal" where
  "apply_decision j eff st now =
     (case eff of
        ECreateVm g _ d \<Rightarrow> j\<lparr>jstate := st, grantDeadlineMs := None, grantStartedAtMs := None,
          outstandingIntent := Some \<lparr>intent_type = CreateVm, intent_generation = g,
            intent_status = Pending, intent_deadlineMs = d\<rparr>\<rparr>
      | EStartVm g d \<Rightarrow> j\<lparr>jstate := st, startCount := g, grantDeadlineMs := Some d, grantStartedAtMs := Some now,
          outstandingIntent := Some \<lparr>intent_type = StartVm, intent_generation = g,
            intent_status = Pending, intent_deadlineMs = d\<rparr>\<rparr>
      | _ \<Rightarrow> j\<lparr>jstate := st\<rparr>)"

text \<open>
  The journal the runner observes must extend the saved one: counters never fall, the saved idle
  observations stay a prefix, an intent is either gone or unchanged.
\<close>

definition merge_lifecycle :: "lifecycle_journal \<Rightarrow> lifecycle_journal \<Rightarrow> jsnum exn + lifecycle_journal" where
  "merge_lifecycle saved observed =
     (if startCount observed < startCount saved
        then fail ''controller state regression: startCount decreased''
      else if cumulativeRuntimeMs observed < cumulativeRuntimeMs saved
        then fail ''controller state regression: cumulative runtime decreased''
      else if cumulativeCostUsd observed < cumulativeCostUsd saved
        then fail ''controller state regression: cumulative cost decreased''
      else if idleObservations saved \<noteq> take (length (idleObservations saved)) (idleObservations observed)
        then fail ''controller state regression: idle observations were removed or changed''
      else if outstandingIntent observed \<noteq> None \<and> outstandingIntent observed \<noteq> outstandingIntent saved
        then fail ''controller state regression: outstanding intent changed outside reconciliation''
      else Inr (observed\<lparr>idleObservations := slice_last 100 (idleObservations observed)\<rparr>))"

text \<open>\<open>markIntentAmbiguous\<close>, \<open>markIntentBlocked\<close> and \<open>restoreIntentPending\<close>.\<close>

definition mark_intent :: "intent_status \<Rightarrow> lifecycle_journal \<Rightarrow> lifecycle_journal" where
  "mark_intent st j =
     j\<lparr>outstandingIntent := map_option (\<lambda>it. it\<lparr>intent_status := st\<rparr>) (outstandingIntent j)\<rparr>"

definition without_capacity_wait :: "lifecycle_journal \<Rightarrow> lifecycle_journal" where
  "without_capacity_wait j = j\<lparr>capacityWait := None\<rparr>"

section \<open>Checks of a pending effect\<close>

fun is_start_vm :: "lifecycle_effect \<Rightarrow> bool" where
  "is_start_vm (EStartVm _ _) = True"
| "is_start_vm _ = False"

fun is_create_vm :: "lifecycle_effect \<Rightarrow> bool" where
  "is_create_vm (ECreateVm _ _ _) = True"
| "is_create_vm _ = False"

definition authorization_for :: "lifecycle_effect \<Rightarrow> lifecycle_input \<Rightarrow> jsnum exn + pending_authorization" where
  "authorization_for eff i =
     (case permit i of None \<Rightarrow> fail ''mutation decision has no authorizing permit''
      | Some p \<Rightarrow>
          (case required_permit_operation eff of None \<Rightarrow> fail ''controller decision has no effect to execute''
           | Some x \<Rightarrow>
               if x \<notin> set (operations p)
               then Inl (plain_error [Lit ''permit does not authorize '', Lit (permit_operation_str x)])
               else Inr \<lparr>configHash = configHash p, candidateDigest = candidateDigest p,
                 repositoryId = repositoryId p, projectId = projectId p, controllerId = controllerId p,
                 resourcePrefix = resourcePrefix p, auth_permitId = permitId p,
                 permitExpiresAtMs = expiresAtMs p, auth_operation = x,
                 auth_recoveryAllowed = recoveryAllowed p,
                 effectDeadlineMs =
                   (case explicit_effect_deadline eff of Some d \<Rightarrow> Some d
                    | None \<Rightarrow> (case grantDeadlineMs (journal i) of Some d \<Rightarrow> Some d
                        | None \<Rightarrow> map_option grant_deadlineMs (grant (guest i))))\<rparr>))"

definition recovery_operation :: "permit_operation \<Rightarrow> bool" where
  "recovery_operation x \<longleftrightarrow> x = OpStop \<or> x = OpDelete"

definition EXPIRED :: string where
  "EXPIRED = ''pending authorization is expired''"

definition pending_authorization_problem ::
  "pending_effect \<Rightarrow> lifecycle_input \<Rightarrow> jsnum message option" where
  "pending_authorization_problem p i =
     (let saved = pe_authorization p in
      if \<not> same_identity saved (identity i)
        then Some [Lit ''pending authorization identity no longer matches current identity'']
      else
      (case permit i of None \<Rightarrow> Some [Lit ''pending authorization was revoked or removed'']
       | Some cur \<Rightarrow>
           if \<not> same_identity saved cur \<or> permitId cur \<noteq> auth_permitId saved
             \<or> \<not> num_eq (expiresAtMs cur) (permitExpiresAtMs saved)
             then Some [Lit ''current permit does not match pending authorization'']
           else if auth_operation saved \<notin> set (operations cur)
             then Some [Lit ''current permit no longer authorizes '', Lit (permit_operation_str (auth_operation saved))]
           else if permitExpiresAtMs saved \<le> nowMs i
             \<and> \<not> (recovery_operation (auth_operation saved) \<and> auth_recoveryAllowed saved \<and> recoveryAllowed cur)
             then Some [Lit EXPIRED]
           else None))"

definition pending_effect_is_stale :: "pending_effect \<Rightarrow> lifecycle_input \<Rightarrow> bool" where
  "pending_effect_is_stale p i =
     (let saved = pe_authorization p in
      if is_start_vm (pe_effect p) \<and> vmStatus (provider i) = VStopped then False
      else \<not> recovery_operation (auth_operation saved)
        \<and> (case effectDeadlineMs saved of None \<Rightarrow> False | Some d \<Rightarrow> d < nowMs i))"

definition owned_vm_settled :: "lifecycle_input \<Rightarrow> vm_status \<Rightarrow> bool" where
  "owned_vm_settled i v \<longleftrightarrow>
     prov_complete (provider i) \<and> owns_one i \<and> vmStatus (provider i) = v
     \<and> outstandingOperation (provider i) = None"

definition refused_start_left_owned_stopped_vm :: "pending_effect \<Rightarrow> lifecycle_input \<Rightarrow> bool" where
  "refused_start_left_owned_stopped_vm p i \<longleftrightarrow> is_start_vm (pe_effect p) \<and> owned_vm_settled i VStopped"

definition can_retire_running_start :: "pending_effect \<Rightarrow> lifecycle_input \<Rightarrow> bool" where
  "can_retire_running_start p i \<longleftrightarrow>
     is_start_vm (pe_effect p) \<and> pe_stage p = Emitting
     \<and> num_eq (eff_generation (pe_effect p)) (startCount (journal i)) \<and> owned_vm_settled i VRunning"

definition can_retire_stopped_start :: "pending_effect \<Rightarrow> lifecycle_input \<Rightarrow> bool" where
  "can_retire_stopped_start p i \<longleftrightarrow>
     is_start_vm (pe_effect p)
     \<and> createdAtMs p + bootTimeoutMs (timing (config i)) \<le> nowMs i
     \<and> owned_vm_settled i VStopped
     \<and> queue_complete (queue i) \<and> ownedBusy (queue i) = Some False
     \<and> guest_complete (guest i) \<and> guestStatus (guest i) = GOffline
     \<and> runnerActive (guest i) = Some False \<and> workerActive (guest i) = Some False
     \<and> grant (guest i) = None
     \<and> validate_cleanup_permit (permit i) (identity i) (nowMs i) = Valid"

definition provider_proven_absent :: "lifecycle_input \<Rightarrow> bool" where
  "provider_proven_absent i \<longleftrightarrow>
     prov_complete (provider i) \<and> vmStatus (provider i) = VAbsent
     \<and> ownership (provider i) = OAbsent \<and> num_eq (ownedMatches (provider i)) (Fin 0)"

section \<open>Reading back what was written\<close>

text \<open>The states whose JSON is read back as written.\<close>

definition pos_int :: "jsnum \<Rightarrow> bool" where
  "pos_int n \<longleftrightarrow> is_integer n \<and> Fin 1 \<le> n"

definition identity_wf :: "'a permit_identity_scheme \<Rightarrow> bool" where
  "identity_wf i \<longleftrightarrow>
     configHash i \<noteq> [] \<and> candidateDigest i \<noteq> [] \<and> projectId i \<noteq> [] \<and> controllerId i \<noteq> []
     \<and> resourcePrefix i \<noteq> [] \<and> is_integer (repositoryId i) \<and> Fin 0 < repositoryId i"

definition wait_wf :: "capacity_wait \<Rightarrow> bool" where
  "wait_wf w \<longleftrightarrow> wait_detail w \<noteq> [] \<and> is_finite (firstRefusedAtMs w) \<and> is_finite (lastRefusedAtMs w)
     \<and> is_finite (retryAtMs w) \<and> pos_int (refusals w)"

definition journal_wf :: "lifecycle_journal \<Rightarrow> bool" where
  "journal_wf j \<longleftrightarrow>
     is_integer (startCount j) \<and> Fin 0 \<le> startCount j
     \<and> is_finite (cumulativeRuntimeMs j) \<and> Fin 0 \<le> cumulativeRuntimeMs j
     \<and> is_finite (cumulativeCostUsd j) \<and> Fin 0 \<le> cumulativeCostUsd j
     \<and> (\<forall>it. outstandingIntent j = Some it \<longrightarrow> is_integer (intent_generation it) \<and> is_finite (intent_deadlineMs it))
     \<and> length (idleObservations j) \<le> 100
     \<and> (\<forall>e \<in> set (idleObservations j). is_finite (idle_observedAtMs e) \<and> pos_int (idle_generation e))
     \<and> (\<forall>d. grantDeadlineMs j = Some d \<longrightarrow> is_finite d)
     \<and> (\<forall>s. grantStartedAtMs j = Some s \<longrightarrow> is_finite s \<and> (\<exists>d. grantDeadlineMs j = Some d \<and> s < d))
     \<and> (\<forall>w. capacityWait j = Some w \<longrightarrow> wait_wf w)"

fun effect_wf :: "lifecycle_effect \<Rightarrow> bool" where
  "effect_wf ENone = False"
| "effect_wf (ECreateVm g r d) = (pos_int g \<and> pos_int r \<and> is_finite d)"
| "effect_wf (EAdoptVm g d) = (pos_int g \<and> is_finite d)"
| "effect_wf (EStartVm g d) = (pos_int g \<and> is_finite d)"
| "effect_wf (ERegisterRunner c) = is_finite c"
| "effect_wf (EBeginDrain d) = is_finite d"
| "effect_wf EResumeAdmission = True"
| "effect_wf (EStopVm _) = True"
| "effect_wf (EDeleteVm g) = pos_int g"

definition authorization_wf :: "pending_authorization \<Rightarrow> bool" where
  "authorization_wf a \<longleftrightarrow> identity_wf a \<and> auth_permitId a \<noteq> [] \<and> is_finite (permitExpiresAtMs a)
     \<and> auth_operation a \<noteq> OpReleaseRouting \<and> (\<forall>d. effectDeadlineMs a = Some d \<longrightarrow> is_finite d)"

definition pending_wf :: "pending_effect \<Rightarrow> bool" where
  "pending_wf p \<longleftrightarrow> pe_id p \<noteq> [] \<and> is_finite (createdAtMs p) \<and> effect_wf (pe_effect p)
     \<and> authorization_wf (pe_authorization p)"

definition state_wf :: "controller_state \<Rightarrow> bool" where
  "state_wf s \<longleftrightarrow> identity_wf (cs_identity s) \<and> journal_wf (lifecycle s)
     \<and> (\<forall>p. pendingEffect s = Some p \<longrightarrow> pending_wf p)
     \<and> map json_clean (readbacks s) = readbacks s \<and> length (readbacks s) \<le> 100
     \<and> assert_state_invariants s = Inr ()"

lemma strict_object_fields:
  "set req \<subseteq> set (own_keys kvs) \<Longrightarrow> set (own_keys kvs) \<subseteq> set req \<union> set opt \<Longrightarrow>
   strict_object (JObj kvs) req name opt = Inr kvs"
  using unknown_key_None_iff [of kvs "req @ opt"] missing_key_None_iff [of kvs req]
  by (simp add: strict_object_def)

lemma value_simps [simp]:
  "num_of (JNum n) = n" "str_of (JStr s) = s" "is_finite n \<Longrightarrow> json_num n = JNum n"
  "nullish JNull" "nullish JUndef" "\<not> nullish (JNum n)" "json_opt_num None = JNull"
  by (simp_all add: num_of_def str_of_def json_num_def nullish_def opt_json_def)

lemma json_num_not_undef [simp]: "json_num n \<noteq> JUndef" "json_opt_num x \<noteq> JUndef"
  by (auto simp: json_num_def opt_json_def split: option.splits)

lemma of_str_stage [simp]: "of_str stage_str [Intent, Emitting] (stage_str s) = Some s"
  by (cases s) (simp_all add: of_str_def)

lemma optional_number_json [simp]:
  "(\<And>d. x = Some d \<Longrightarrow> is_finite d) \<Longrightarrow> optional_number (json_opt_num x) e = Inr x"
  by (cases x) (auto simp: optional_number_def opt_json_def)

lemma pos_int_simps: "pos_int n \<Longrightarrow> is_integer n" "pos_int n \<Longrightarrow> is_finite n" "pos_int n \<Longrightarrow> Fin 1 \<le> n"
  by (auto simp: pos_int_def dest: is_integer_finite)

lemma parse_identity_json:
  fixes i :: permit_identity
  shows "identity_wf i \<Longrightarrow> parse_identity (identity_json json_num i) = Inr i"
  by (simp add: parse_identity_def identity_json_def strict_object_fields IDENTITY_KEYS_def
      identity_wf_def identity_of_fields_def is_integer_finite)

lemma parse_observation_json:
  "is_finite (idle_observedAtMs e) \<Longrightarrow> pos_int (idle_generation e) \<Longrightarrow>
   parse_observation (observation_json json_num e) = Inr e"
  by (simp add: parse_observation_def observation_json_def strict_object_fields observation_of_fields_def
      pos_int_simps)

lemma parse_intent_json:
  "is_integer (intent_generation it) \<Longrightarrow> is_finite (intent_deadlineMs it) \<Longrightarrow>
   parse_intent (intent_json json_num it) = Inr it"
  by (simp add: parse_intent_def intent_json_def strict_object_fields intent_of_fields_def
      is_integer_finite Let_def)

lemma parse_capacity_wait_json: "wait_wf w \<Longrightarrow> parse_capacity_wait (wait_json json_num w) = Inr w"
  by (simp add: parse_capacity_wait_def wait_json_def strict_object_fields wait_of_fields_def
      wait_wf_def WAIT_KEYS_def positive_integer_def pos_int_simps)

lemma json_object_not_null [simp]:
  "intent_json json_num it \<noteq> JNull" "wait_json json_num w \<noteq> JUndef" "pending_json json_num p \<noteq> JNull"
  by (simp_all add: intent_json_def wait_json_def pending_json_def)

lemma parse_journal_json:
  assumes wf: "journal_wf j"
  shows "parse_lifecycle_journal (journal_json json_num j) = Inr j"
proof -
  obtain kvs where kvs: "journal_json json_num j = JObj kvs" by (simp add: journal_json_def)
  note fields = kvs [unfolded journal_json_def, THEN sym]
  have keys: "set JOURNAL_KEYS \<subseteq> set (own_keys kvs)"
    "set (own_keys kvs) \<subseteq> set JOURNAL_KEYS \<union> set JOURNAL_OPTIONAL_KEYS"
    using fields by (auto simp: JOURNAL_KEYS_def JOURNAL_OPTIONAL_KEYS_def own_keys_def split: option.splits)
  have fin: "is_finite (startCount j)" using wf by (simp add: journal_wf_def is_integer_finite)
  have props [simp]: "get_prop kvs ''state'' = JStr (lifecycle_state_str (jstate j))"
    "get_prop kvs ''startCount'' = JNum (startCount j)"
    "get_prop kvs ''cumulativeRuntimeMs'' = JNum (cumulativeRuntimeMs j)"
    "get_prop kvs ''cumulativeCostUsd'' = JNum (cumulativeCostUsd j)"
    "get_prop kvs ''outstandingIntent'' = (case outstandingIntent j of None \<Rightarrow> JNull | Some it \<Rightarrow> intent_json json_num it)"
    "get_prop kvs ''idleObservations'' = JArr (map (observation_json json_num) (idleObservations j))"
    "get_prop kvs ''grantDeadlineMs'' = json_opt_num (grantDeadlineMs j)"
    "get_prop kvs ''grantStartedAtMs'' = json_opt_num (grantStartedAtMs j)"
    "get_prop kvs ''capacityWait'' = (case capacityWait j of None \<Rightarrow> JUndef | Some w \<Rightarrow> wait_json json_num w)"
    using fields fin wf by (auto simp: journal_wf_def split: option.splits)
  have obs: "rmap parse_observation (map (observation_json json_num) (idleObservations j)) = Inr (idleObservations j)"
    using wf by (intro rmap_map_Inr parse_observation_json) (auto simp: journal_wf_def)
  have intent: "(if get_prop kvs ''outstandingIntent'' = JNull then Inr None
      else rbind (parse_intent (get_prop kvs ''outstandingIntent'')) (\<lambda>x. Inr (Some x))) = Inr (outstandingIntent j)"
    using wf by (auto simp: journal_wf_def parse_intent_json split: option.split)
  have wait: "(if get_prop kvs ''capacityWait'' = JUndef then Inr None
      else rbind (parse_capacity_wait (get_prop kvs ''capacityWait'')) (\<lambda>x. Inr (Some x))) = Inr (capacityWait j)"
    using wf by (auto simp: journal_wf_def parse_capacity_wait_json split: option.split)
  have started: "case grantStartedAtMs j of None \<Rightarrow> True
      | Some s \<Rightarrow> (case grantDeadlineMs j of None \<Rightarrow> False | Some d \<Rightarrow> \<not> d \<le> s)"
    using wf by (auto simp: journal_wf_def is_finite_iff split: option.split)
  have "\<not> startCount j < Fin 0" "\<not> cumulativeRuntimeMs j < Fin 0" "\<not> cumulativeCostUsd j < Fin 0"
    "is_integer (startCount j)" "is_finite (cumulativeRuntimeMs j)" "is_finite (cumulativeCostUsd j)"
    "\<And>d. grantDeadlineMs j = Some d \<Longrightarrow> is_finite d" "\<And>d. grantStartedAtMs j = Some d \<Longrightarrow> is_finite d"
    "length (idleObservations j) \<le> 100"
    using wf by (auto simp: journal_wf_def is_finite_iff is_integer_iff)
  then show ?thesis
    unfolding kvs parse_lifecycle_journal_def strict_object_fields [OF keys] rbind.simps
    using obs intent wait started by (simp add: journal_of_fields_def del: option.case_eq_if)
qed

lemma parse_effect_json: "effect_wf e \<Longrightarrow> parse_effect (effect_json json_num e) = Inr e"
  by (cases e) (simp_all add: parse_effect_def strict_object_fields parse_generation_effect_def Let_def
      positive_integer_def finite_number_def pos_int_simps)

lemma of_str_operation [simp]:
  "x \<noteq> OpReleaseRouting \<Longrightarrow>
   of_str permit_operation_str [OpCreate, OpStart, OpRegister, OpStop, OpDelete] (permit_operation_str x) = Some x"
  by (cases x) (simp_all add: of_str_def)

lemma parse_authorization_json:
  assumes wf: "authorization_wf a"
  shows "parse_pending_authorization (authorization_json json_num a) = Inr a"
proof -
  let ?i = "\<lparr>configHash = configHash a, candidateDigest = candidateDigest a, repositoryId = repositoryId a,
      projectId = projectId a, controllerId = controllerId a, resourcePrefix = resourcePrefix a\<rparr>"
  have ident: "identity_wf ?i" "is_finite (repositoryId a)"
    using wf by (simp_all add: authorization_wf_def identity_wf_def is_integer_finite)
  have pid: "parse_identity (JObj
     [(''configHash'', JStr (configHash a)), (''candidateDigest'', JStr (candidateDigest a)),
      (''repositoryId'', JNum (repositoryId a)), (''projectId'', JStr (projectId a)),
      (''controllerId'', JStr (controllerId a)), (''resourcePrefix'', JStr (resourcePrefix a))]) = Inr ?i"
    using parse_identity_json [OF ident(1)] ident(2) by (simp add: identity_json_def)
  show ?thesis using wf ident(2)
    by (cases "effectDeadlineMs a")
      (simp_all add: parse_pending_authorization_def authorization_json_def strict_object_fields
        AUTHORIZATION_KEYS_def identity_fields_def IDENTITY_KEYS_def pid authorization_wf_def opt_json_def
        authorization_of_fields_def)
qed

lemma parse_pending_json:
  assumes wf: "pending_wf p"
  shows "parse_pending_effect (pending_json json_num p) = Inr p"
  using wf
  by (cases "pe_operationId p")
    (simp_all add: parse_pending_effect_def pending_json_def strict_object_fields pending_wf_def
      parse_effect_json parse_authorization_json pending_of_fields_def)

text \<open>The next tick reads exactly the state that was written.\<close>

lemma parse_state_json:
  assumes wf: "state_wf s"
  shows "parse_controller_state (json_of_state s) = Inr s"
  using wf
  by (cases s; cases "pendingEffect s")
    (simp_all add: parse_controller_state_def state_json_def strict_object_fields state_wf_def
      parse_identity_json parse_journal_json parse_pending_json Let_def)

lemma parse_state_invariants: "parse_controller_state v = Inr s \<Longrightarrow> assert_state_invariants s = Inr ()"
  unfolding parse_controller_state_def Let_def by (simp only: result_simps) auto

end
