(* ===== verification/Controller.thy ===== *)
theory Controller
  imports ControllerState
begin

text \<open>
  One tick of the controller (\<open>controller.ts\<close>: \<open>tickController\<close> and the functions it awaits). The
  world is the journal file, the trace of everything the tick did outside itself, and a schedule of
  faults: every journal write, event append and boundary callback may fail before or after it took
  effect. A crash at any point leaves the world of a prefix of the trace. The provider is the two
  callbacks of \<open>TickOptions\<close>: what executing an effect and reconciling a pending one answer.
\<close>

section \<open>The world\<close>

datatype boundary =
    AfterIntentJournal | AfterIntentEvent | BeforeProviderIo | AfterEmittingJournal
  | AfterProviderIo | AfterReadbackJournal | AfterFinalEvent

record event =
  ev_type :: string
  ev_fields :: "(string \<times> jsnum message) list"

datatype action =
    AWrite controller_state
  | AEvent event
  | AExecute lifecycle_effect
  | AReconcile pending_effect
  | ABoundary boundary

datatype fault = NoFault | FaultBefore "jsnum exn" | FaultAfter "jsnum exn"

record world =
  journal_file :: "jsval option"
  trace :: "action list"
  faults :: "fault list"

record exec_result =
  er_operationId :: "string option"
  er_resolved :: bool
  er_readback :: "jsval option"

text \<open>\<open>executeEffect\<close> returns, throws a \<open>ProviderCapacityError\<close>, or throws anything else.\<close>

datatype exec_outcome =
    Executed exec_result
  | Refused capacity_refusal "jsnum message"
  | ExecFailed "jsnum exn"

record recon_result =
  rr_resolved :: bool
  rr_retry :: bool
  rr_retireStoppedStart :: bool
  rr_readback :: "jsval option"
  rr_capacityRefusal :: "capacity_refusal option"

record tick_options =
  lock_held :: bool
  tick_input :: lifecycle_input
  dryRun :: bool
  executeEffect :: "lifecycle_effect \<Rightarrow> exec_outcome"
  reconcileEffect :: "pending_effect \<Rightarrow> jsnum exn + recon_result"

datatype tick_status =
    TBlocked | TIdle | TDryRun | TMutated | TReconciled | TPending | TAbandoned | TWaiting

record tick_result =
  tick_status :: tick_status
  tick_decision :: "lifecycle_decision option"

section \<open>Effects and exceptions\<close>

type_synonym ('e, 'a) io = "world \<Rightarrow> ('e + 'a) \<times> world"

definition ret :: "'a \<Rightarrow> ('e, 'a) io" where
  "ret x w = (Inr x, w)"

definition raise :: "'e \<Rightarrow> ('e, 'a) io" where
  "raise e w = (Inl e, w)"

definition bind :: "('e, 'a) io \<Rightarrow> ('a \<Rightarrow> ('e, 'b) io) \<Rightarrow> ('e, 'b) io" where
  "bind m f w = (case m w of (Inl e, w') \<Rightarrow> (Inl e, w') | (Inr x, w') \<Rightarrow> f x w')"

text \<open>\<open>try m catch h\<close>\<close>

definition catch :: "('e, 'a) io \<Rightarrow> ('e \<Rightarrow> ('f, 'a) io) \<Rightarrow> ('f, 'a) io" where
  "catch m h w = (case m w of (Inl e, w') \<Rightarrow> h e w' | (Inr x, w') \<Rightarrow> (Inr x, w'))"

definition lift :: "'e + 'a \<Rightarrow> ('e, 'a) io" where
  "lift r w = (r, w)"

definition file_after :: "jsval option \<Rightarrow> action \<Rightarrow> jsval option" where
  "file_after f a = (case a of AWrite s \<Rightarrow> Some (json_of_state s) | _ \<Rightarrow> f)"

definition perform :: "(jsnum exn \<Rightarrow> 'e) \<Rightarrow> action \<Rightarrow> ('e, unit) io" where
  "perform wrap a w =
     (let w0 = w\<lparr>faults := tl (faults w)\<rparr>;
          w1 = w0\<lparr>journal_file := file_after (journal_file w) a, trace := trace w @ [a]\<rparr>
      in case (case faults w of [] \<Rightarrow> NoFault | f # _ \<Rightarrow> f) of
           NoFault \<Rightarrow> (Inr (), w1)
         | FaultBefore e \<Rightarrow> (Inl (wrap e), w0)
         | FaultAfter e \<Rightarrow> (Inl (wrap e), w1))"

text \<open>A call to the provider is recorded whatever it answers.\<close>

definition observe :: "action \<Rightarrow> 'a \<Rightarrow> ('e, 'a) io" where
  "observe a x w = (Inr x, w\<lparr>trace := trace w @ [a]\<rparr>)"

abbreviation write_journal :: "controller_state \<Rightarrow> (jsnum exn, unit) io" where
  "write_journal s \<equiv> perform (\<lambda>e. e) (AWrite s)"

abbreviation append_event :: "string \<Rightarrow> (string \<times> jsnum message) list \<Rightarrow> (jsnum exn, unit) io" where
  "append_event ty fs \<equiv> perform (\<lambda>e. e) (AEvent \<lparr>ev_type = ty, ev_fields = fs\<rparr>)"

abbreviation at_boundary :: "boundary \<Rightarrow> (jsnum exn, unit) io" where
  "at_boundary b \<equiv> perform (\<lambda>e. e) (ABoundary b)"

definition result :: "tick_status \<Rightarrow> tick_result" where
  "result st = \<lparr>tick_status = st, tick_decision = None\<rparr>"

section \<open>Names\<close>

fun effect_type_str :: "lifecycle_effect \<Rightarrow> string" where
  "effect_type_str ENone = ''none''"
| "effect_type_str (ECreateVm _ _ _) = ''create-vm''"
| "effect_type_str (EAdoptVm _ _) = ''adopt-vm''"
| "effect_type_str (EStartVm _ _) = ''start-vm''"
| "effect_type_str (ERegisterRunner _) = ''register-runner''"
| "effect_type_str (EBeginDrain _) = ''begin-drain''"
| "effect_type_str EResumeAdmission = ''resume-admission''"
| "effect_type_str (EStopVm _) = ''stop-vm''"
| "effect_type_str (EDeleteVm _) = ''delete-vm''"

text \<open>The decimal digits of an integer; other numbers do not occur where a name is built.\<close>

fun digits :: "nat \<Rightarrow> string" where
  "digits n = (if n < 10 then [char_of (48 + n)] else digits (n div 10) @ [char_of (48 + n mod 10)])"

declare digits.simps [simp del]

fun num_str :: "jsnum \<Rightarrow> string" where
  "num_str (Fin x) = (if x < 0 then ''-'' @ digits (nat \<lfloor>- x\<rfloor>) else digits (nat \<lfloor>x\<rfloor>))"
| "num_str NaN = ''NaN''"
| "num_str PInf = ''Infinity''"
| "num_str NInf = ''-Infinity''"

definition pending_id :: "lifecycle_input \<Rightarrow> lifecycle_effect \<Rightarrow> string" where
  "pending_id i eff = controllerId (identity i) @ '':'' @ num_str (nowMs i) @ '':'' @ effect_type_str eff"

definition push_readback :: "jsval list \<Rightarrow> jsval \<Rightarrow> jsval list" where
  "push_readback rs r = slice_last 100 (rs @ [r])"

definition readbacks_with :: "jsval list \<Rightarrow> jsval option \<Rightarrow> jsval list" where
  "readbacks_with rs r = (case r of None \<Rightarrow> rs | Some v \<Rightarrow> push_readback rs v)"

section \<open>Ending a pending effect\<close>

definition abandoned_state :: "controller_state \<Rightarrow> controller_state" where
  "abandoned_state s =
     s\<lparr>lifecycle := (lifecycle s)\<lparr>outstandingIntent := None\<rparr>, pendingEffect := None\<rparr>"

definition abandon_pending_effect :: "controller_state \<Rightarrow> (jsnum exn, tick_result) io" where
  "abandon_pending_effect s =
     (case pendingEffect s of
        None \<Rightarrow> raise (invariant_error ''abandonment has no pending effect'')
      | Some p \<Rightarrow>
          bind (write_journal (abandoned_state s)) (\<lambda>_.
          bind (append_event ''effect-abandoned''
            [(''effect'', [Lit (effect_type_str (pe_effect p))]),
             (''operation'', [Lit (permit_operation_str (auth_operation (pe_authorization p)))]),
             (''reason'', [Lit ''pending effect deadline has expired''])]) (\<lambda>_.
          ret (result TAbandoned))))"

definition blocked_state :: "controller_state \<Rightarrow> pending_effect \<Rightarrow> controller_state" where
  "blocked_state s p =
     s\<lparr>lifecycle := mark_intent Blocked (lifecycle s), pendingEffect := Some (p\<lparr>pe_status := Blocked\<rparr>)\<rparr>"

definition block_pending_authorization ::
  "controller_state \<Rightarrow> jsnum message \<Rightarrow> (jsnum exn, tick_result) io" where
  "block_pending_authorization s reason =
     (case pendingEffect s of
        None \<Rightarrow> raise (invariant_error ''authorization block has no pending effect'')
      | Some p \<Rightarrow>
          bind (write_journal (blocked_state s p)) (\<lambda>_.
          bind (append_event ''effect-authorization-blocked''
            [(''effect'', [Lit (effect_type_str (pe_effect p))]),
             (''operation'', [Lit (permit_operation_str (auth_operation (pe_authorization p)))]),
             (''reason'', reason)]) (\<lambda>_.
          ret (result TBlocked))))"

text \<open>
  A refused create leaves nothing; a refused start leaves the stopped VM and hands its generation
  back.
\<close>

definition waiting_state ::
  "controller_state \<Rightarrow> start_kind \<Rightarrow> jsnum \<Rightarrow> capacity_wait \<Rightarrow> controller_state" where
  "waiting_state s refused count wait =
     s\<lparr>lifecycle := (lifecycle s)\<lparr>startCount := count,
         jstate := (if refused = CreateVm then LAbsent else LStopped), outstandingIntent := None,
         capacityWait := Some wait, grantDeadlineMs := None, grantStartedAtMs := None\<rparr>,
       pendingEffect := None\<rparr>"

definition wait_for_capacity ::
  "tick_options \<Rightarrow> controller_state \<Rightarrow> capacity_refusal \<Rightarrow> start_kind \<Rightarrow> jsnum message option
   \<Rightarrow> (jsnum exn, tick_result) io" where
  "wait_for_capacity opt s refusal refused err =
     (case pendingEffect s of
        None \<Rightarrow> raise (invariant_error ''capacity wait has no pending effect'')
      | Some p \<Rightarrow>
          let i = tick_input opt;
              wait = next_capacity_wait (capacityWait (lifecycle s)) refusal refused (nowMs i)
                (pollIntervalMs (timing (config i)));
              count = startCount (lifecycle s)
          in
          bind (lift (check (is_start_vm (pe_effect p) \<longrightarrow> num_eq count (eff_generation (pe_effect p)))
            (invariant_error ''refused start generation is not the journaled start count''))) (\<lambda>_.
          let count' = (if is_start_vm (pe_effect p) then eff_generation (pe_effect p) - Fin 1 else count);
              waiting = waiting_state s refused count' wait
          in
          bind (lift (assert_state_invariants waiting)) (\<lambda>_.
          bind (write_journal waiting) (\<lambda>_.
          bind (append_event ''provider-capacity-refused''
            ([(''effect'', [Lit (start_kind_str refused)]), (''reasonCode'', [Lit CAPACITY_WAIT_REASON]),
              (''detail'', [Lit (wait_detail wait)]), (''refusals'', [Num (refusals wait)]),
              (''retryAtMs'', [Num (retryAtMs wait)])]
             @ (case err of None \<Rightarrow> [] | Some m \<Rightarrow> [(''error'', m)]))) (\<lambda>_.
          ret (result TWaiting))))))"

section \<open>Executing a pending effect\<close>

datatype thrown = Thrown "jsnum exn" | CapacityError capacity_refusal "jsnum message"

definition completed_state ::
  "controller_state \<Rightarrow> pending_effect \<Rightarrow> exec_result \<Rightarrow> controller_state" where
  "completed_state s emitting r =
     s\<lparr>lifecycle := (if er_resolved r then (lifecycle s)\<lparr>outstandingIntent := None\<rparr> else lifecycle s),
       pendingEffect := (if er_resolved r then None
          else (case er_operationId r of None \<Rightarrow> Some emitting
                | Some x \<Rightarrow> Some (emitting\<lparr>pe_operationId := Some x\<rparr>))),
       readbacks := readbacks_with (readbacks s) (er_readback r)\<rparr>"

text \<open>The body of the \<open>try\<close>.\<close>

definition emit_effect ::
  "tick_options \<Rightarrow> controller_state \<Rightarrow> pending_effect \<Rightarrow> pending_effect \<Rightarrow> lifecycle_decision option
   \<Rightarrow> (thrown, tick_result) io" where
  "emit_effect opt s p emitting dec =
     bind (observe (AExecute (pe_effect p)) (executeEffect opt (pe_effect p))) (\<lambda>outcome.
       case outcome of
         Refused refusal m \<Rightarrow> raise (CapacityError refusal m)
       | ExecFailed e \<Rightarrow> raise (Thrown e)
       | Executed r \<Rightarrow>
           bind (perform Thrown (ABoundary AfterProviderIo)) (\<lambda>_.
           let completed = completed_state s emitting r in
           bind (lift (case assert_state_invariants completed of Inl e \<Rightarrow> Inl (Thrown e) | Inr u \<Rightarrow> Inr u)) (\<lambda>_.
           bind (perform Thrown (AWrite completed)) (\<lambda>_.
           bind (perform Thrown (ABoundary AfterReadbackJournal)) (\<lambda>_.
           bind (perform Thrown (AEvent \<lparr>ev_type = ''effect-result'',
             ev_fields = [(''effect'', [Lit (effect_type_str (pe_effect p))]),
               (''resolved'', [Lit (if er_resolved r then ''true'' else ''false'')])]\<rparr>)) (\<lambda>_.
           bind (perform Thrown (ABoundary AfterFinalEvent)) (\<lambda>_.
           ret \<lparr>tick_status = TMutated, tick_decision = dec\<rparr>)))))))"

definition ambiguous_state :: "controller_state \<Rightarrow> pending_effect \<Rightarrow> controller_state" where
  "ambiguous_state s emitting =
     s\<lparr>lifecycle := mark_intent Ambiguous (lifecycle s),
       pendingEffect := Some (emitting\<lparr>pe_status := Ambiguous\<rparr>)\<rparr>"

definition error_of :: "thrown \<Rightarrow> jsnum exn" where
  "error_of t = (case t of Thrown e \<Rightarrow> e | CapacityError _ m \<Rightarrow> Exn ProviderCapacityError m)"

definition error_message :: "jsnum exn \<Rightarrow> jsnum message" where
  "error_message e = (case e of Exn _ m \<Rightarrow> m)"

text \<open>The \<open>catch\<close>.\<close>

definition handle_failure ::
  "tick_options \<Rightarrow> controller_state \<Rightarrow> pending_effect \<Rightarrow> pending_effect \<Rightarrow> thrown \<Rightarrow> (jsnum exn, tick_result) io" where
  "handle_failure opt s p emitting t =
     (case (t, start_effect (pe_effect p)) of
        (CapacityError refusal m, Some (kind, _, _)) \<Rightarrow> wait_for_capacity opt s refusal kind (Some m)
      | _ \<Rightarrow>
          bind (write_journal (ambiguous_state s emitting)) (\<lambda>_.
          bind (append_event ''effect-failed''
            [(''effect'', [Lit (effect_type_str (pe_effect p))]), (''error'', error_message (error_of t))]) (\<lambda>_.
          raise (error_of t))))"

definition execute_pending_effect ::
  "tick_options \<Rightarrow> controller_state \<Rightarrow> lifecycle_decision option \<Rightarrow> (jsnum exn, tick_result) io" where
  "execute_pending_effect opt s dec =
     (case pendingEffect s of
        None \<Rightarrow> raise (invariant_error ''pending execution has no effect'')
      | Some p \<Rightarrow>
          (case pending_authorization_problem p (tick_input opt) of
             Some reason \<Rightarrow> block_pending_authorization s reason
           | None \<Rightarrow>
               if pending_effect_is_stale p (tick_input opt) then abandon_pending_effect s
               else
               bind (at_boundary BeforeProviderIo) (\<lambda>_.
               let emitting = p\<lparr>pe_stage := Emitting\<rparr> in
               bind (write_journal (s\<lparr>pendingEffect := Some emitting\<rparr>)) (\<lambda>_.
               bind (at_boundary AfterEmittingJournal) (\<lambda>_.
               catch (emit_effect opt s p emitting dec) (handle_failure opt s p emitting))))))"

text \<open>A decision becomes a journaled intent before anything is executed.\<close>

definition intent_state ::
  "lifecycle_input \<Rightarrow> lifecycle_decision \<Rightarrow> lifecycle_journal \<Rightarrow> jsval list \<Rightarrow> pending_authorization
   \<Rightarrow> controller_state" where
  "intent_state i d j rs auth =
     \<lparr>cs_identity = identity i, lifecycle = apply_decision j (deffect d) (dstate d) (nowMs i),
      pendingEffect = Some \<lparr>pe_id = pending_id i (deffect d), pe_effect = deffect d, createdAtMs = nowMs i,
        pe_status = Pending, pe_stage = Intent, pe_authorization = auth, pe_operationId = None\<rparr>,
      readbacks = rs\<rparr>"

definition record_and_execute_decision ::
  "tick_options \<Rightarrow> lifecycle_decision \<Rightarrow> lifecycle_journal \<Rightarrow> jsval list \<Rightarrow> (jsnum exn, tick_result) io" where
  "record_and_execute_decision opt d j rs =
     (if deffect d = ENone then raise (plain_error [Lit ''controller decision has no effect to execute''])
      else
      bind (lift (authorization_for (deffect d) (tick_input opt))) (\<lambda>auth.
      let s = intent_state (tick_input opt) d j rs auth in
      bind (lift (assert_state_invariants s)) (\<lambda>_.
      bind (write_journal s) (\<lambda>_.
      bind (at_boundary AfterIntentJournal) (\<lambda>_.
      bind (append_event ''effect-intent''
        [(''effect'', [Lit (effect_type_str (deffect d))]), (''id'', [Lit (pending_id (tick_input opt) (deffect d))])]) (\<lambda>_.
      bind (at_boundary AfterIntentEvent) (\<lambda>_.
      execute_pending_effect opt s (Some d))))))))"

section \<open>Reconciling\<close>

text \<open>The state once a pending effect is known to have happened.\<close>

definition reconciled_journal :: "lifecycle_journal \<Rightarrow> pending_effect \<Rightarrow> lifecycle_journal" where
  "reconciled_journal j p =
     (case pe_effect p of
        ECreateVm _ _ _ \<Rightarrow> j\<lparr>jstate := LStopped, outstandingIntent := None, grantDeadlineMs := None,
          grantStartedAtMs := None\<rparr>
      | EAdoptVm _ d \<Rightarrow> j\<lparr>outstandingIntent := None, grantDeadlineMs := Some d\<rparr>
      | EStartVm _ d \<Rightarrow> (without_capacity_wait j)\<lparr>outstandingIntent := None, grantDeadlineMs := Some d,
          grantStartedAtMs := Some (createdAtMs p)\<rparr>
      | EDeleteVm _ \<Rightarrow> (without_capacity_wait j)\<lparr>outstandingIntent := None, grantDeadlineMs := None,
          grantStartedAtMs := None\<rparr>
      | _ \<Rightarrow> j\<lparr>outstandingIntent := None\<rparr>)"

definition reconciled_state ::
  "controller_state \<Rightarrow> pending_effect \<Rightarrow> jsval option \<Rightarrow> controller_state" where
  "reconciled_state s p r =
     s\<lparr>lifecycle := reconciled_journal (lifecycle s) p, pendingEffect := None,
       readbacks := push_readback (readbacks s) (case r of None \<Rightarrow> JUndef | Some v \<Rightarrow> v)\<rparr>"

definition retry_state :: "controller_state \<Rightarrow> pending_effect \<Rightarrow> controller_state" where
  "retry_state s p =
     s\<lparr>pendingEffect := Some (p\<lparr>pe_stage := Intent, pe_status := Pending\<rparr>),
       lifecycle := mark_intent Pending (lifecycle s)\<rparr>"

text \<open>What the tick does with the provider's answer about a pending effect in stage \<open>emitting\<close>.\<close>

definition settle_reconciliation ::
  "tick_options \<Rightarrow> controller_state \<Rightarrow> pending_effect \<Rightarrow> recon_result \<Rightarrow> (jsnum exn, tick_result) io" where
  "settle_reconciliation opt prior p r =
     (let i = tick_input opt; rs = readbacks_with (readbacks prior) (rr_readback r) in
      if rr_capacityRefusal r \<noteq> None \<and> rr_retireStoppedStart r \<and> refused_start_left_owned_stopped_vm p i
      then
        bind (lift (merge_lifecycle (lifecycle prior) (journal i))) (\<lambda>j.
        wait_for_capacity opt (prior\<lparr>lifecycle := j, readbacks := rs\<rparr>) (the (rr_capacityRefusal r)) StartVm None)
      else if rr_retireStoppedStart r \<and> can_retire_stopped_start p i
      then
        bind (lift (merge_lifecycle (lifecycle prior) (journal i))) (\<lambda>j.
        record_and_execute_decision opt
          (decision LAbsent (EDeleteVm (startCount j))
            ''start stopped before registration after its boot window; deleting the unusable generation'')
          (j\<lparr>outstandingIntent := None\<rparr>) rs)
      else if rr_capacityRefusal r \<noteq> None \<and> is_create_vm (pe_effect p) \<and> provider_proven_absent i
      then wait_for_capacity opt (prior\<lparr>readbacks := rs\<rparr>) (the (rr_capacityRefusal r)) CreateVm None
      else if \<not> rr_resolved r \<and> rr_retry r
      then
        bind (write_journal (retry_state prior p)) (\<lambda>_.
        execute_pending_effect opt (retry_state prior p) None)
      else if \<not> rr_resolved r
      then
        (case rr_readback r of None \<Rightarrow> ret (result TPending)
         | Some v \<Rightarrow>
             bind (write_journal (prior\<lparr>readbacks := push_readback (readbacks prior) v\<rparr>)) (\<lambda>_.
             ret (result TPending)))
      else
        bind (write_journal (reconciled_state prior p (rr_readback r))) (\<lambda>_.
        bind (at_boundary AfterReadbackJournal) (\<lambda>_.
        bind (append_event ''effect-reconciled'' [(''effect'', [Lit (effect_type_str (pe_effect p))])]) (\<lambda>_.
        bind (at_boundary AfterFinalEvent) (\<lambda>_.
        ret (result TReconciled))))))"

section \<open>The tick\<close>

text \<open>A prior state with a pending effect.\<close>

definition tick_pending ::
  "tick_options \<Rightarrow> controller_state \<Rightarrow> pending_effect \<Rightarrow> (jsnum exn, tick_result) io" where
  "tick_pending opt prior p =
     (let i = tick_input opt in
      bind (lift (assert_state_invariants prior)) (\<lambda>_.
      case pending_authorization_problem p i of
        Some reason \<Rightarrow>
          if reason = [Lit EXPIRED]
            \<and> ((case pe_effect p of EBeginDrain _ \<Rightarrow> True | ERegisterRunner _ \<Rightarrow> True
                | EResumeAdmission \<Rightarrow> True | _ \<Rightarrow> False)
               \<or> can_retire_running_start p i)
            \<and> auth_recoveryAllowed (pe_authorization p)
            \<and> (case permit i of None \<Rightarrow> False | Some q \<Rightarrow> recoveryAllowed q)
            \<and> pending_effect_is_stale p i
          then abandon_pending_effect prior
          else block_pending_authorization prior reason
      | None \<Rightarrow>
          if pending_effect_is_stale p i then abandon_pending_effect prior
          else if pe_stage p = Intent then execute_pending_effect opt prior None
          else
          bind (observe (AReconcile p) (reconcileEffect opt p)) (\<lambda>answer.
          bind (lift answer) (\<lambda>r. settle_reconciliation opt prior p r))))"

definition dry_run_pending ::
  "tick_options \<Rightarrow> controller_state \<Rightarrow> pending_effect \<Rightarrow> (jsnum exn, tick_result) io" where
  "dry_run_pending opt prior p =
     (let i = tick_input opt in
      bind (lift (assert_state_invariants prior)) (\<lambda>_.
      bind (append_event ''dry-run-pending''
        [(''effect'', [Lit (effect_type_str (pe_effect p))]), (''stage'', [Lit (stage_str (pe_stage p))]),
         (''authorization'', case pending_authorization_problem p i of Some m \<Rightarrow> m
            | None \<Rightarrow> [Lit (if pending_effect_is_stale p i then ''stale'' else ''valid'')])]) (\<lambda>_.
      ret (result TDryRun))))"

text \<open>No effect pending: a fresh decision on the merged journal.\<close>

definition observed_state ::
  "lifecycle_input \<Rightarrow> lifecycle_journal \<Rightarrow> jsval list \<Rightarrow> controller_state" where
  "observed_state i j rs =
     \<lparr>cs_identity = identity i, lifecycle = j, pendingEffect = None, readbacks = rs\<rparr>"

definition tick_decide ::
  "tick_options \<Rightarrow> lifecycle_journal \<Rightarrow> jsval list \<Rightarrow> (jsnum exn, tick_result) io" where
  "tick_decide opt current rs =
     (let i = tick_input opt in
      bind (lift (decide_lifecycle (i\<lparr>journal := current\<rparr>))) (\<lambda>d.
      if deffect d = ENone then
        let s = observed_state i current rs in
        bind (lift (parse_controller_state (value_of_state s))) (\<lambda>_.
        bind (write_journal s) (\<lambda>_.
        bind (append_event ''decision''
          ([(''state'', [Lit (lifecycle_state_str (dstate d))]), (''reason'', dreason d)]
           @ (if capacity_hold d then [(''reasonCode'', [Lit CAPACITY_WAIT_REASON])] else []))) (\<lambda>_.
        ret \<lparr>tick_status = (if dstate d = LBlocked then TBlocked
               else if capacity_hold d then TWaiting else TIdle),
             tick_decision = Some d\<rparr>)))
      else if dryRun opt then
        bind (append_event ''dry-run'' [(''effect'', [Lit (effect_type_str (deffect d))])]) (\<lambda>_.
        ret \<lparr>tick_status = TDryRun, tick_decision = Some d\<rparr>)
      else record_and_execute_decision opt d current rs))"

text \<open>\<open>readOptionalState\<close>\<close>

definition read_optional_state :: "world \<Rightarrow> jsnum exn + controller_state option" where
  "read_optional_state w =
     (case journal_file w of None \<Rightarrow> Inr None
      | Some v \<Rightarrow> rbind (parse_controller_state v) (\<lambda>s. Inr (Some s)))"

text \<open>The tick after the journal was read.\<close>

definition tick_from ::
  "tick_options \<Rightarrow> jsnum exn + controller_state option \<Rightarrow> (jsnum exn, tick_result) io" where
  "tick_from opt saved =
     bind (lift saved) (\<lambda>prior.
     bind (lift (check (case prior of None \<Rightarrow> True
              | Some s \<Rightarrow> same_identity (cs_identity s) (identity (tick_input opt)))
         (plain_error [Lit ''controller state identity does not match the active configuration and candidate'']))) (\<lambda>_.
     case prior of
       None \<Rightarrow> tick_decide opt (journal (tick_input opt)) []
     | Some s \<Rightarrow>
         (case pendingEffect s of
            Some p \<Rightarrow> if dryRun opt then dry_run_pending opt s p else tick_pending opt s p
          | None \<Rightarrow>
              bind (lift (assert_state_invariants s)) (\<lambda>_.
              bind (lift (merge_lifecycle (lifecycle s) (journal (tick_input opt)))) (\<lambda>current.
              tick_decide opt current (readbacks s))))))"

definition tick_controller :: "tick_options \<Rightarrow> (jsnum exn, tick_result) io" where
  "tick_controller opt w =
     (if lock_held opt then tick_from opt (read_optional_state w) w
      else (Inl (Exn ControllerLockError [Lit ''a held controller lock capability is required'']), w))"

section \<open>The invariants survive every operation\<close>

abbreviation invariant :: "controller_state \<Rightarrow> bool" where
  "invariant s \<equiv> assert_state_invariants s = Inr ()"

definition idle_bounded :: "lifecycle_journal \<Rightarrow> bool" where
  "idle_bounded j \<longleftrightarrow> \<not> (\<exists>e \<in> set (idleObservations j). startCount j < idle_generation e)"

lemma invariant_iff:
  "invariant s \<longleftrightarrow> idle_bounded (lifecycle s)
     \<and> (case pendingEffect s of None \<Rightarrow> outstandingIntent (lifecycle s) = None
        | Some p \<Rightarrow> intent_agrees (lifecycle s) p = Inr () \<and> authorization_agrees (cs_identity s) p = Inr ())"
  by (auto simp: assert_state_invariants_def Let_def result_simps idle_bounded_def split: option.splits)

lemma authorization_agrees_cong:
  "authorization_agrees ident (p\<lparr>pe_status := st\<rparr>) = authorization_agrees ident p"
  "authorization_agrees ident (p\<lparr>pe_stage := sg\<rparr>) = authorization_agrees ident p"
  "authorization_agrees ident (p\<lparr>pe_operationId := x\<rparr>) = authorization_agrees ident p"
  by (simp_all add: authorization_agrees_def)

lemma intent_agrees_cong:
  "intent_agrees j (p\<lparr>pe_stage := sg\<rparr>) = intent_agrees j p"
  by (auto simp: intent_agrees_def split: option.split lifecycle_effect.split)

lemma intent_agrees_mark:
  assumes "intent_agrees j p = Inr ()"
  shows "intent_agrees (mark_intent st j) (p\<lparr>pe_status := st\<rparr>) = Inr ()"
  using assms
  by (auto simp: intent_agrees_def mark_intent_def result_simps split: option.splits lifecycle_effect.splits)

lemma idle_bounded_mark [simp]: "idle_bounded (mark_intent st j) = idle_bounded j"
  by (simp add: idle_bounded_def mark_intent_def)

lemma invariant_abandoned [preserve]: "invariant s \<Longrightarrow> invariant (abandoned_state s)"
  by (simp add: invariant_iff abandoned_state_def idle_bounded_def)

lemma invariant_blocked [preserve]:
  "invariant s \<Longrightarrow> pendingEffect s = Some p \<Longrightarrow> invariant (blocked_state s p)"
  by (simp add: invariant_iff blocked_state_def intent_agrees_mark authorization_agrees_cong)

lemma invariant_emitting [preserve]:
  "invariant s \<Longrightarrow> pendingEffect s = Some p \<Longrightarrow> invariant (s\<lparr>pendingEffect := Some (p\<lparr>pe_stage := sg\<rparr>)\<rparr>)"
  by (simp add: invariant_iff intent_agrees_cong authorization_agrees_cong)

lemma invariant_ambiguous [preserve]:
  "invariant s \<Longrightarrow> pendingEffect s = Some p \<Longrightarrow> invariant (ambiguous_state s (p\<lparr>pe_stage := sg\<rparr>))"
  by (simp add: invariant_iff ambiguous_state_def intent_agrees_mark intent_agrees_cong authorization_agrees_cong)

lemma invariant_retry [preserve]:
  "invariant s \<Longrightarrow> pendingEffect s = Some p \<Longrightarrow> invariant (retry_state s p)"
  using intent_agrees_mark [of "lifecycle s" "p\<lparr>pe_stage := Intent\<rparr>" Pending]
  by (simp add: invariant_iff retry_state_def intent_agrees_cong authorization_agrees_cong)

lemma invariant_reconciled [preserve]: "invariant s \<Longrightarrow> invariant (reconciled_state s p r)"
  by (auto simp: invariant_iff reconciled_state_def reconciled_journal_def without_capacity_wait_def
      idle_bounded_def split: lifecycle_effect.split)

lemma invariant_readbacks [preserve]: "invariant s \<Longrightarrow> invariant (s\<lparr>readbacks := rs\<rparr>)"
  by (simp add: invariant_iff split: option.splits)

section \<open>Reasoning about what a computation does\<close>

text \<open>
  \<open>runs m Q\<close>: from any world, \<open>m\<close> appends some actions to the trace, the journal file follows
  the writes among them, and \<open>Q\<close> holds of the actions and the outcome, whatever faults occur.
\<close>

definition outcome_ok ::
  "world \<Rightarrow> (action list \<Rightarrow> 'r \<Rightarrow> bool) \<Rightarrow> 'r \<times> world \<Rightarrow> bool" where
  "outcome_ok w Q rw \<longleftrightarrow> (\<exists>as. trace (snd rw) = trace w @ as
     \<and> journal_file (snd rw) = foldl file_after (journal_file w) as \<and> Q as (fst rw))"

definition runs :: "('e, 'a) io \<Rightarrow> (action list \<Rightarrow> 'e + 'a \<Rightarrow> bool) \<Rightarrow> bool" where
  "runs m Q \<longleftrightarrow> (\<forall>w. outcome_ok w Q (m w))"

lemma runsD: "runs m Q \<Longrightarrow> m w = (r, w') \<Longrightarrow> \<exists>as. trace w' = trace w @ as
     \<and> journal_file w' = foldl file_after (journal_file w) as \<and> Q as r"
  unfolding runs_def outcome_ok_def by (metis fst_conv snd_conv)

lemma outcome_okI:
  "trace w' = trace w @ as \<Longrightarrow> journal_file w' = foldl file_after (journal_file w) as \<Longrightarrow> Q as r
   \<Longrightarrow> outcome_ok w Q (r, w')"
  by (auto simp: outcome_ok_def)

lemma runs_ret: "Q [] (Inr x) \<Longrightarrow> runs (ret x) Q"
  by (simp add: runs_def outcome_ok_def ret_def)

lemma runs_raise: "Q [] (Inl e) \<Longrightarrow> runs (raise e) Q"
  by (simp add: runs_def outcome_ok_def raise_def)

lemma runs_lift: "Q [] r \<Longrightarrow> runs (lift r) Q"
  by (simp add: runs_def outcome_ok_def lift_def)

lemma runs_observe: "Q [a] (Inr x) \<Longrightarrow> (\<And>f. file_after f a = f) \<Longrightarrow> runs (observe a x) Q"
  by (auto simp: runs_def outcome_ok_def observe_def)

lemma runs_perform:
  assumes "\<And>e. Q [] (Inl e)" "\<And>e. Q [a] (Inl e)" "Q [a] (Inr ())"
  shows "runs (perform wrap a) Q"
  unfolding runs_def
proof
  fix w
  show "outcome_ok w Q (perform wrap a w)"
    using assms by (auto simp: outcome_ok_def perform_def Let_def split: fault.split list.split)
qed

lemma runs_mono: "runs m R \<Longrightarrow> (\<And>as r. R as r \<Longrightarrow> Q as r) \<Longrightarrow> runs m Q"
  unfolding runs_def outcome_ok_def by metis

lemma runs_bind:
  assumes "runs m (\<lambda>as r. case r of Inl e \<Rightarrow> Q as (Inl e) | Inr x \<Rightarrow> runs (f x) (\<lambda>bs. Q (as @ bs)))"
  shows "runs (bind m f) Q"
  unfolding runs_def
proof
  fix w
  obtain r w' where m: "m w = (r, w')" by (cases "m w")
  from runsD [OF assms m] obtain as where as: "trace w' = trace w @ as"
    "journal_file w' = foldl file_after (journal_file w) as"
    "case r of Inl e \<Rightarrow> Q as (Inl e) | Inr x \<Rightarrow> runs (f x) (\<lambda>bs. Q (as @ bs))" by blast
  show "outcome_ok w Q (bind m f w)"
  proof (cases r)
    case (Inl e)
    then show ?thesis using as by (simp add: bind_def m outcome_okI)
  next
    case (Inr x)
    then have f: "runs (f x) (\<lambda>bs. Q (as @ bs))" using as(3) by simp
    obtain r2 w2 where fx: "f x w' = (r2, w2)" by (cases "f x w'")
    from runsD [OF f fx] obtain bs where "trace w2 = trace w' @ bs"
      "journal_file w2 = foldl file_after (journal_file w') bs" "Q (as @ bs) r2" by blast
    then show ?thesis using as Inr by (simp add: bind_def m fx outcome_okI)
  qed
qed

lemma runs_catch:
  assumes "runs m (\<lambda>as r. case r of Inl e \<Rightarrow> runs (h e) (\<lambda>bs. Q (as @ bs)) | Inr x \<Rightarrow> Q as (Inr x))"
  shows "runs (catch m h) Q"
  unfolding runs_def
proof
  fix w
  obtain r w' where m: "m w = (r, w')" by (cases "m w")
  from runsD [OF assms m] obtain as where as: "trace w' = trace w @ as"
    "journal_file w' = foldl file_after (journal_file w) as"
    "case r of Inl e \<Rightarrow> runs (h e) (\<lambda>bs. Q (as @ bs)) | Inr x \<Rightarrow> Q as (Inr x)" by blast
  show "outcome_ok w Q (catch m h w)"
  proof (cases r)
    case (Inr x)
    then show ?thesis using as by (simp add: catch_def m outcome_okI)
  next
    case (Inl e)
    then have f: "runs (h e) (\<lambda>bs. Q (as @ bs))" using as(3) by simp
    obtain r2 w2 where fx: "h e w' = (r2, w2)" by (cases "h e w'")
    from runsD [OF f fx] obtain bs where "trace w2 = trace w' @ bs"
      "journal_file w2 = foldl file_after (journal_file w') bs" "Q (as @ bs) r2" by blast
    then show ?thesis using as Inl by (simp add: catch_def m fx outcome_okI)
  qed
qed

end
