(* ===== verification/Samples.thy ===== *)
theory Samples
  imports Permit
begin

text \<open>
  Concrete values the witnesses evaluate: one configuration, its permit, and the observations of a
  stopped, a running and an absent VM. They model no code.
\<close>

definition sample_config :: runner_config where
  "sample_config =
     \<lparr>repository = \<lparr>repo_id = Fin 42, nameWithOwner = ''acme/widgets''\<rparr>,
      workflowIds = [Fin 7],
      allowedBranch = ''main'',
      eligibleJobNames = [''verify''],
      runnerLabel = ''cirujano-42'',
      admission = SameRepository,
      deleteAfterStop = True,
      nebius = \<lparr>nebius_profile = ''default'', nebius_projectId = ''project-1'', subnetId = ''subnet-1'',
        imageId = ''image-1'', platform = ''cpu-d3'', preset = ''4vcpu-16gb'', diskType = ''network_ssd'',
        diskSizeGiB = Fin 50\<rparr>,
      ssh = \<lparr>publicKey = ''ssh-ed25519 AAAA'', fingerprint = ''SHA256:abc''\<rparr>,
      config_ownership = \<lparr>own_controllerId = ''controller-1'', own_resourcePrefix = ''cirujano''\<rparr>,
      timing = \<lparr>pollIntervalMs = Fin 60000, idleGraceMs = Fin 120000, bootTimeoutMs = Fin 600000,
        maxJobMs = Fin 1800000, lifetimeMs = Fin 7200000, shutdownMarginMs = Fin 300000\<rparr>,
      rates = \<lparr>currency = ''USD'', quotedAt = ''2026-01-01'', rate_source = ''published'',
        computeUsdPerHour = Fin 1, diskUsdPerGibMonth = Fin 1, networkEgressUsdPerGib = Fin 1,
        hostedUsdPerMinute = None\<rparr>,
      routingVariable = Some ''CIRUJANO_RUNNER''\<rparr>"

definition sample_identity :: permit_identity where
  "sample_identity =
     \<lparr>configHash = ''hash'', candidateDigest = ''digest'', repositoryId = Fin 42,
      projectId = ''project-1'', controllerId = ''controller-1'', resourcePrefix = ''cirujano''\<rparr>"

definition sample_permit :: permit where
  "sample_permit =
     \<lparr>configHash = ''hash'', candidateDigest = ''digest'', repositoryId = Fin 42,
      projectId = ''project-1'', controllerId = ''controller-1'', resourcePrefix = ''cirujano'',
      schemaVersion = Fin 1, permitId = ''permit-1'',
      operations = [OpCreate, OpStart, OpRegister, OpStop, OpDelete, OpReleaseRouting],
      issuedAtMs = Fin 1000000, expiresAtMs = Fin 100000000, maxStarts = Fin 5,
      maxRuntimeMs = Fin 36000000, maxTotalCostUsd = Fin 20, recoveryAllowed = True\<rparr>"

definition sample_provider :: "vm_status \<Rightarrow> provider_snapshot" where
  "sample_provider v =
     \<lparr>prov_complete = True, vmStatus = v, ownership = (if v = VAbsent then OAbsent else OOwned),
      ownedMatches = (if v = VAbsent then Fin 0 else Fin 1), outstandingOperation = None,
      network = None\<rparr>"

definition sample_queue :: "jsnum \<Rightarrow> jsnum \<Rightarrow> queue_snapshot" where
  "sample_queue n t =
     \<lparr>queue_complete = True, eligibleQueuedJobs = n, ownedBusy = Some False, queue_observedAtMs = t\<rparr>"

definition sample_guest :: "guest_status \<Rightarrow> start_grant option \<Rightarrow> guest_snapshot" where
  "sample_guest s g =
     \<lparr>guest_complete = True, guestStatus = s, admissionEnabled = Some (s = GReady),
      runnerActive = Some False, workerActive = Some False, grant = g, watchdogReady = Some True,
      sshIdentityVerified = Some True, registrationReady = Some True\<rparr>"

definition sample_grant :: start_grant where
  "sample_grant = \<lparr>grant_generation = Fin 1, grant_startedAtMs = Fin 2000000, grant_deadlineMs = Fin 9200000\<rparr>"

definition sample_journal :: "lifecycle_state \<Rightarrow> jsnum \<Rightarrow> lifecycle_journal" where
  "sample_journal s n =
     \<lparr>jstate = s, startCount = n, cumulativeRuntimeMs = Fin 0, cumulativeCostUsd = Fin 0,
      outstandingIntent = None, idleObservations = [],
      grantDeadlineMs = (if n = Fin 0 then None else Some (Fin 9200000)),
      grantStartedAtMs = (if n = Fin 0 then None else Some (Fin 2000000)), capacityWait = None\<rparr>"

text \<open>Queue, guest and journal vary; the queue was observed at the current time.\<close>

definition sample_input ::
  "vm_status \<Rightarrow> jsnum \<Rightarrow> jsnum \<Rightarrow> guest_snapshot \<Rightarrow> lifecycle_journal \<Rightarrow> lifecycle_input" where
  "sample_input v jobs t g j =
     \<lparr>nowMs = t, config = sample_config, identity = sample_identity, permit = Some sample_permit,
      provider = sample_provider v, queue = sample_queue jobs t, guest = g, journal = j,
      projectedStartCostUsd = Fin 1\<rparr>"

lemmas sample_defs = sample_config_def sample_identity_def sample_permit_def sample_provider_def
  sample_queue_def sample_guest_def sample_grant_def sample_journal_def sample_input_def

lemma sample_valid:
  "Fin 1000000 \<le> t \<Longrightarrow> t < Fin 100000000 \<Longrightarrow>
   validate_permit (Some sample_permit) sample_identity t = Valid"
  by (cases t) (simp_all add: validate_permit_Valid_iff permit_structure_def same_identity_def sample_defs)

lemma sample_permits [simp]: "permits (Some sample_permit) x"
  by (cases x) (simp_all add: permits_def sample_permit_def)

end
