(* ===== verification/Controller_Properties.thy ===== *)
theory Controller_Properties
  imports Controller Samples
begin

text \<open>
  What a tick does, whatever faults occur: an effect is executed only from a journaled, authorized
  intent, at most once, and every state written satisfies any property that the operations on
  states preserve. The latter is the locale \<open>state_policy\<close>, interpreted for the invariants, the
  identity and the spent budget.
\<close>

section \<open>The shape of a trace\<close>

fun last_write :: "action list \<Rightarrow> controller_state option" where
  "last_write [] = None"
| "last_write (AWrite s # as) = (case last_write as of None \<Rightarrow> Some s | Some s' \<Rightarrow> Some s')"
| "last_write (_ # as) = last_write as"

lemma last_write_append:
  "last_write (as @ bs) = (case last_write bs of None \<Rightarrow> last_write as | Some s \<Rightarrow> Some s)"
  by (induction as rule: last_write.induct) (auto split: option.splits)

lemma file_after_writes:
  "foldl file_after f as = (case last_write as of None \<Rightarrow> f | Some s \<Rightarrow> Some (json_of_state s))"
  by (induction as arbitrary: f rule: last_write.induct) (auto simp: file_after_def split: option.splits)

text \<open>No provider call, and every state written is one \<open>W\<close> allows.\<close>

definition quiet :: "(controller_state \<Rightarrow> bool) \<Rightarrow> action list \<Rightarrow> bool" where
  "quiet W as \<longleftrightarrow> (\<forall>a \<in> set as. case a of AWrite s \<Rightarrow> W s | AExecute _ \<Rightarrow> False | AReconcile _ \<Rightarrow> False
     | _ \<Rightarrow> True)"

lemma quiet_simps [simp]:
  "quiet W []" "quiet W (AWrite s # as) \<longleftrightarrow> W s \<and> quiet W as" "\<not> quiet W (AExecute e # as)"
  "\<not> quiet W (AReconcile p # as)" "quiet W (AEvent ev # as) = quiet W as"
  "quiet W (ABoundary b # as) = quiet W as" "quiet W (as @ bs) \<longleftrightarrow> quiet W as \<and> quiet W bs"
  by (auto simp: quiet_def)

definition authorized_now :: "lifecycle_input \<Rightarrow> pending_effect \<Rightarrow> bool" where
  "authorized_now i p \<longleftrightarrow> pending_authorization_problem p i = None \<and> \<not> pending_effect_is_stale p i"

text \<open>At most one execution, of the effect of the last state written before it.\<close>

definition emits :: "(controller_state \<Rightarrow> bool) \<Rightarrow> lifecycle_input \<Rightarrow> action list \<Rightarrow> bool" where
  "emits W i as \<longleftrightarrow> quiet W as \<or> (\<exists>pre post s p. as = pre @ AExecute (pe_effect p) # post
     \<and> quiet W pre \<and> quiet W post \<and> last_write pre = Some s \<and> pendingEffect s = Some p
     \<and> pe_stage p = Emitting \<and> authorized_now i p)"

lemma emits_quiet: "quiet W as \<Longrightarrow> emits W i as"
  by (simp add: emits_def)

lemma emits_prefix:
  assumes "quiet W as" "emits W i bs"
  shows "emits W i (as @ bs)"
  using assms(2) unfolding emits_def
proof (elim disjE exE conjE)
  assume "quiet W bs"
  then show "quiet W (as @ bs) \<or> (\<exists>pre post s p. as @ bs = pre @ AExecute (pe_effect p) # post
     \<and> quiet W pre \<and> quiet W post \<and> last_write pre = Some s \<and> pendingEffect s = Some p
     \<and> pe_stage p = Emitting \<and> authorized_now i p)" using assms(1) by simp
next
  fix pre post s p
  assume "bs = pre @ AExecute (pe_effect p) # post" "quiet W pre" "quiet W post" "last_write pre = Some s"
    "pendingEffect s = Some p" "pe_stage p = Emitting" "authorized_now i p"
  then show "quiet W (as @ bs) \<or> (\<exists>pre post s p. as @ bs = pre @ AExecute (pe_effect p) # post
     \<and> quiet W pre \<and> quiet W post \<and> last_write pre = Some s \<and> pendingEffect s = Some p
     \<and> pe_stage p = Emitting \<and> authorized_now i p)"
    using assms(1)
    by (intro disjI2 exI [of _ "as @ pre"] exI [of _ post] exI [of _ s] exI [of _ p])
      (simp add: last_write_append)
qed

lemma emits_Cons:
  "emits W i bs \<Longrightarrow> W s \<Longrightarrow> emits W i (AWrite s # bs)" "emits W i bs \<Longrightarrow> emits W i (AEvent ev # bs)"
  "emits W i bs \<Longrightarrow> emits W i (ABoundary b # bs)"
  using emits_prefix [of W "[AWrite s]" i bs] emits_prefix [of W "[AEvent ev]" i bs]
    emits_prefix [of W "[ABoundary b]" i bs] by simp_all

lemma runs_if: "(b \<Longrightarrow> runs x Q) \<Longrightarrow> (\<not> b \<Longrightarrow> runs y Q) \<Longrightarrow> runs (if b then x else y) Q"
  by simp

lemma last_write_quiet: "quiet W as \<Longrightarrow> last_write as = Some s \<Longrightarrow> W s"
  by (induction as rule: last_write.induct) (auto split: option.splits)

lemma quiet_no_execute: "quiet W as \<Longrightarrow> AExecute e \<notin> set as"
  by (auto simp: quiet_def)

lemma quiet_writes: "quiet W as \<Longrightarrow> AWrite s \<in> set as \<Longrightarrow> W s"
  by (auto simp: quiet_def)

lemma execute_split:
  assumes "pre @ AExecute e # post = pre' @ AExecute e' # post'" "quiet W pre'" "quiet W post'"
  shows "pre = pre' \<and> e = e' \<and> post = post'"
proof -
  have "AExecute e \<notin> set pre'" "AExecute e \<notin> set post'" using assms(2,3) by (auto dest: quiet_no_execute)
  then show ?thesis using assms(1) by (auto simp: append_eq_append_conv2 append_eq_Cons_conv Cons_eq_append_conv)
qed

lemma emits_execute:
  assumes "emits W i as" "as = pre @ AExecute e # post"
  shows "\<exists>s p. last_write pre = Some s \<and> W s \<and> pendingEffect s = Some p \<and> pe_effect p = e
     \<and> pe_stage p = Emitting \<and> authorized_now i p \<and> quiet W pre \<and> quiet W post"
proof -
  have "\<not> quiet W as" using assms(2) by simp
  then obtain pre' post' s p where sp: "as = pre' @ AExecute (pe_effect p) # post'" "quiet W pre'" "quiet W post'"
    "last_write pre' = Some s" "pendingEffect s = Some p" "pe_stage p = Emitting" "authorized_now i p"
    using assms(1) unfolding emits_def by blast
  then have "pre = pre'" "e = pe_effect p" "post = post'"
    using execute_split [of pre e post pre' "pe_effect p" post'] assms(2) by simp_all
  then show ?thesis using sp last_write_quiet by blast
qed

lemma emits_writes: "emits W i as \<Longrightarrow> AWrite s \<in> set as \<Longrightarrow> W s"
  unfolding emits_def by (auto dest: quiet_writes)

lemmas runs_intros = runs_ret runs_raise runs_lift runs_bind runs_perform

section \<open>Policies on states\<close>

text \<open>
  \<open>W\<close> holds of every state written, \<open>B\<close> of what a capacity wait starts from, \<open>fresh\<close> of the journal
  a decision is made on.
\<close>

locale state_policy =
  fixes opt :: tick_options
    and W :: "controller_state \<Rightarrow> bool"
    and B :: "controller_state \<Rightarrow> bool"
    and fresh :: "lifecycle_journal \<Rightarrow> bool"
  assumes W_base: "W s \<Longrightarrow> B s"
    and W_abandoned: "W s \<Longrightarrow> W (abandoned_state s)"
    and W_blocked: "W s \<Longrightarrow> pendingEffect s = Some p \<Longrightarrow> W (blocked_state s p)"
    and W_emitting: "W s \<Longrightarrow> pendingEffect s = Some p
      \<Longrightarrow> W (s\<lparr>pendingEffect := Some (p\<lparr>pe_stage := Emitting\<rparr>)\<rparr>)"
    and W_ambiguous: "W s \<Longrightarrow> pendingEffect s = Some p
      \<Longrightarrow> W (ambiguous_state s (p\<lparr>pe_stage := Emitting\<rparr>))"
    and W_retry: "W s \<Longrightarrow> pendingEffect s = Some p \<Longrightarrow> W (retry_state s p)"
    and W_reconciled: "W s \<Longrightarrow> pendingEffect s = Some p \<Longrightarrow> W (reconciled_state s p x)"
    and W_readbacks: "W s \<Longrightarrow> W (s\<lparr>readbacks := rs\<rparr>)"
    and W_completed: "W s \<Longrightarrow> pendingEffect s = Some p
      \<Longrightarrow> invariant (completed_state s (p\<lparr>pe_stage := Emitting\<rparr>) r)
      \<Longrightarrow> W (completed_state s (p\<lparr>pe_stage := Emitting\<rparr>) r)"
    and W_waiting: "B s \<Longrightarrow> invariant (waiting_state s k n wait) \<Longrightarrow> W (waiting_state s k n wait)"
    and B_merged: "W s \<Longrightarrow> merge_lifecycle (lifecycle s) (journal (tick_input opt)) = Inr j
      \<Longrightarrow> B (s\<lparr>lifecycle := j, readbacks := rs\<rparr>)"
    and fresh_merged: "W s \<Longrightarrow> merge_lifecycle (lifecycle s) (journal (tick_input opt)) = Inr j \<Longrightarrow> fresh j"
    and fresh_intent: "fresh j \<Longrightarrow> fresh (j\<lparr>outstandingIntent := None\<rparr>)"
    and W_intent: "fresh j \<Longrightarrow> invariant (intent_state (tick_input opt) d j rs auth)
      \<Longrightarrow> W (intent_state (tick_input opt) d j rs auth)"
    and W_observed: "fresh j \<Longrightarrow> ok (parse_controller_state (value_of_state (observed_state (tick_input opt) j rs)))
      \<Longrightarrow> W (observed_state (tick_input opt) j rs)"
begin

abbreviation i :: lifecycle_input where "i \<equiv> tick_input opt"

lemma abandon_quiet: "W s \<Longrightarrow> runs (abandon_pending_effect s) (\<lambda>as _. quiet W as)"
  unfolding abandon_pending_effect_def
  by (cases "pendingEffect s") (auto intro!: runs_intros W_abandoned)

lemma block_quiet: "W s \<Longrightarrow> runs (block_pending_authorization s m) (\<lambda>as _. quiet W as)"
  unfolding block_pending_authorization_def
  by (cases "pendingEffect s") (auto intro!: runs_intros W_blocked)

lemma wait_quiet: "B s \<Longrightarrow> runs (wait_for_capacity opt s refusal k err) (\<lambda>as _. quiet W as)"
  unfolding wait_for_capacity_def Let_def
  by (cases "pendingEffect s") (auto intro!: runs_intros W_waiting split: sum.splits)

lemma failure_quiet:
  "W s \<Longrightarrow> pendingEffect s = Some p \<Longrightarrow>
   runs (handle_failure opt s p (p\<lparr>pe_stage := Emitting\<rparr>) t) (\<lambda>as _. quiet W as)"
  unfolding handle_failure_def
  by (auto intro!: runs_intros wait_quiet W_base W_ambiguous split: thrown.splits option.splits)

lemma emit_shape:
  "W s \<Longrightarrow> pendingEffect s = Some p \<Longrightarrow>
   runs (emit_effect opt s p (p\<lparr>pe_stage := Emitting\<rparr>) dec)
     (\<lambda>as _. \<exists>bs. as = AExecute (pe_effect p) # bs \<and> quiet W bs)"
  unfolding emit_effect_def Let_def
  by (auto intro!: runs_intros runs_observe W_completed simp: file_after_def
      split: exec_outcome.split sum.split)

lemma execute_emits:
  assumes "W s"
  shows "runs (execute_pending_effect opt s dec) (\<lambda>as _. emits W i as)"
proof (cases "pendingEffect s")
  case None
  then show ?thesis by (simp add: execute_pending_effect_def runs_raise emits_quiet)
next
  case (Some p)
  let ?e = "p\<lparr>pe_stage := Emitting\<rparr>"
  let ?s = "s\<lparr>pendingEffect := Some ?e\<rparr>"
  consider (problem) m where "pending_authorization_problem p i = Some m"
    | (stale) "pending_authorization_problem p i = None" "pending_effect_is_stale p i"
    | (go) "authorized_now i p"
    by (cases "pending_authorization_problem p i") (auto simp: authorized_now_def)
  then show ?thesis
  proof cases
    case problem
    then show ?thesis using block_quiet [OF assms]
      by (auto simp: execute_pending_effect_def Some intro: runs_mono emits_quiet)
  next
    case stale
    then show ?thesis using abandon_quiet [OF assms]
      by (auto simp: execute_pending_effect_def Some intro: runs_mono emits_quiet)
  next
    case go
    have We: "W ?s" using assms Some by (rule W_emitting)
    have auth: "authorized_now i ?e"
      using go by (simp add: authorized_now_def pending_authorization_problem_def pending_effect_is_stale_def)
    have run: "runs (catch (emit_effect opt s p ?e dec) (handle_failure opt s p ?e))
        (\<lambda>as _. \<exists>bs. as = AExecute (pe_effect p) # bs \<and> quiet W bs)"
    proof (rule runs_catch, rule runs_mono [OF emit_shape [OF assms Some]])
      fix as :: "action list" and r :: "thrown + tick_result"
      assume as: "\<exists>bs. as = AExecute (pe_effect p) # bs \<and> quiet W bs"
      then show "case r of Inl t \<Rightarrow> runs (handle_failure opt s p ?e t)
            (\<lambda>cs _. \<exists>bs. as @ cs = AExecute (pe_effect p) # bs \<and> quiet W bs)
          | Inr x \<Rightarrow> \<exists>bs. as = AExecute (pe_effect p) # bs \<and> quiet W bs"
        using failure_quiet [OF assms Some] by (auto split: sum.split elim!: runs_mono)
    qed
    have fin: "emits W i (ABoundary BeforeProviderIo # AWrite ?s # ABoundary AfterEmittingJournal
        # AExecute (pe_effect p) # bs)" if "quiet W bs" for bs
      unfolding emits_def
      by (intro disjI2 exI [of _ "[ABoundary BeforeProviderIo, AWrite ?s, ABoundary AfterEmittingJournal]"]
          exI [of _ bs] exI [of _ ?s] exI [of _ ?e]) (use that We auth in simp)
    have emitting: "runs (catch (emit_effect opt s p ?e dec) (handle_failure opt s p ?e))
        (\<lambda>as _. emits W i (ABoundary BeforeProviderIo # AWrite ?s # ABoundary AfterEmittingJournal # as))"
      by (rule runs_mono [OF run]) (auto intro: fin)
    have "pending_authorization_problem p i = None" "\<not> pending_effect_is_stale p i"
      using go by (auto simp: authorized_now_def)
    then show ?thesis using We emitting
      by (auto simp: execute_pending_effect_def Some Let_def intro!: runs_bind runs_perform emits_quiet)
  qed
qed

lemma record_emits:
  assumes "fresh j"
  shows "runs (record_and_execute_decision opt d j rs) (\<lambda>as _. emits W i as)"
proof (cases "deffect d = ENone")
  case True
  then show ?thesis by (simp add: record_and_execute_decision_def runs_raise emits_quiet)
next
  case False
  show ?thesis
  proof (cases "authorization_for (deffect d) i")
    case (Inl e)
    then show ?thesis using False
      by (auto simp: record_and_execute_decision_def intro!: runs_bind runs_lift emits_quiet)
  next
    case (Inr auth)
    let ?s = "intent_state i d j rs auth"
    show ?thesis
    proof (cases "assert_state_invariants ?s")
      case (Inl e)
      then show ?thesis using False \<open>authorization_for (deffect d) i = Inr auth\<close>
        by (auto simp: record_and_execute_decision_def Let_def intro!: runs_bind runs_lift emits_quiet)
    next
      case Inv: (Inr u)
      then have W: "W ?s" using W_intent [OF assms] by simp
      have "runs (execute_pending_effect opt ?s (Some d))
          (\<lambda>as _. emits W i (AWrite ?s # ABoundary AfterIntentJournal # AEvent ev # ABoundary AfterIntentEvent # as))"
        for ev
        by (rule runs_mono [OF execute_emits [OF W]]) (simp add: emits_Cons W)
      then show ?thesis using False Inv \<open>authorization_for (deffect d) i = Inr auth\<close> W
        by (auto simp: record_and_execute_decision_def Let_def intro!: runs_bind runs_lift runs_perform emits_quiet)
    qed
  qed
qed

lemma decide_emits:
  assumes "fresh j"
  shows "runs (tick_decide opt j rs) (\<lambda>as _. emits W i as \<and> (dryRun opt \<longrightarrow> quiet W as))"
proof (cases "decide_lifecycle (i\<lparr>journal := j\<rparr>)")
  case (Inl e)
  then show ?thesis by (auto simp: tick_decide_def Let_def intro!: runs_bind runs_lift emits_quiet)
next
  case (Inr d)
  show ?thesis
  proof (cases "deffect d = ENone \<or> dryRun opt")
    case True
    have "runs (tick_decide opt j rs) (\<lambda>as _. quiet W as)"
      using Inr True
      by (auto simp: tick_decide_def Let_def intro!: runs_bind runs_lift runs_perform runs_ret
          W_observed [OF assms] split: sum.split)
    then show ?thesis by (rule runs_mono) (simp add: emits_quiet)
  next
    case False
    then show ?thesis using Inr record_emits [OF assms, of d rs]
      by (auto simp: tick_decide_def Let_def intro!: runs_bind runs_lift)
  qed
qed

lemma settle_emits:
  assumes "W s" "pendingEffect s = Some p"
  shows "runs (settle_reconciliation opt s p r) (\<lambda>as _. emits W i as)"
proof -
  have wait: "runs (wait_for_capacity opt s' refusal k err) (\<lambda>as _. emits W i as)" if "B s'" for s' refusal k err
    by (rule runs_mono [OF wait_quiet [OF that]]) (rule emits_quiet)
  have Wr: "W (retry_state s p)" using assms by (rule W_retry)
  have retry: "runs (execute_pending_effect opt (retry_state s p) None)
      (\<lambda>as _. emits W i (AWrite (retry_state s p) # as))"
    by (rule runs_mono [OF execute_emits [OF Wr]]) (simp add: emits_Cons Wr)
  have merged: "runs (bind (lift (merge_lifecycle (lifecycle s) (journal i))) f) (\<lambda>as _. emits W i as)"
    if "\<And>j. merge_lifecycle (lifecycle s) (journal i) = Inr j \<Longrightarrow> runs (f j) (\<lambda>as _. emits W i as)"
    for f :: "lifecycle_journal \<Rightarrow> (jsnum exn, tick_result) io"
    using that by (auto intro!: runs_bind runs_lift emits_quiet split: sum.split)
  show ?thesis
    unfolding settle_reconciliation_def Let_def
    apply (intro runs_if)
    subgoal by (intro merged wait B_merged assms(1))
    subgoal by (intro merged record_emits fresh_intent) (rule fresh_merged [OF assms(1)])
    subgoal by (intro wait W_base W_readbacks assms(1))
    subgoal using Wr retry by (auto intro!: runs_bind runs_perform emits_quiet)
    subgoal using W_readbacks [OF assms(1)]
      by (auto intro!: runs_bind runs_perform runs_ret emits_quiet split: option.split)
    subgoal using W_reconciled [OF assms] by (auto intro!: runs_bind runs_perform runs_ret emits_quiet)
    done
qed

text \<open>A tick on a prior state with a pending effect.\<close>

definition reconciles :: "controller_state \<Rightarrow> action list \<Rightarrow> bool" where
  "reconciles s as \<longleftrightarrow> (\<exists>p bs. pendingEffect s = Some p \<and> pe_stage p = Emitting
     \<and> as = AReconcile p # bs \<and> emits W i bs)"

lemma pending_emits:
  assumes "W s" "pendingEffect s = Some p"
  shows "runs (tick_pending opt s p)
    (\<lambda>as _. quiet W as \<or> pe_stage p = Intent \<and> emits W i as \<or> reconciles s as)"
proof -
  have ab: "runs (abandon_pending_effect s) (\<lambda>as _. quiet W as \<or> Q as)"
    and bl: "runs (block_pending_authorization s m) (\<lambda>as _. quiet W as \<or> Q as)" for Q m
    by (rule runs_mono [OF abandon_quiet [OF assms(1)]], simp)
      (rule runs_mono [OF block_quiet [OF assms(1)]], simp)
  have ex: "runs (execute_pending_effect opt s None) (\<lambda>as _. quiet W as \<or> pe_stage p = Intent \<and> emits W i as \<or> Q as)"
    if "pe_stage p = Intent" for Q
    by (rule runs_mono [OF execute_emits [OF assms(1)]]) (simp add: that)
  have em: "reconciles s [AReconcile p]" if "pe_stage p = Emitting"
    using that assms(2) by (simp add: reconciles_def emits_quiet)
  have rec: "runs (settle_reconciliation opt s p r) (\<lambda>as _. reconciles s (AReconcile p # as))"
    if "pe_stage p = Emitting" for r
    by (rule runs_mono [OF settle_emits [OF assms]]) (use that assms(2) in \<open>simp add: reconciles_def\<close>)
  have answer: "runs (bind (lift (reconcileEffect opt p)) (settle_reconciliation opt s p))
      (\<lambda>as _. reconciles s (AReconcile p # as))" if "pe_stage p = Emitting"
    using rec [OF that] em [OF that] by (auto intro!: runs_bind runs_lift split: sum.split)
  have go: "runs (if pending_effect_is_stale p i then abandon_pending_effect s
          else if pe_stage p = Intent then execute_pending_effect opt s None
          else bind (observe (AReconcile p) (reconcileEffect opt p))
            (\<lambda>answer. bind (lift answer) (settle_reconciliation opt s p)))
      (\<lambda>as _. quiet W as \<or> pe_stage p = Intent \<and> emits W i as \<or> reconciles s as)"
  proof (intro runs_if)
    assume "pe_stage p \<noteq> Intent"
    then have st: "pe_stage p = Emitting" by (cases "pe_stage p") auto
    show "runs (bind (observe (AReconcile p) (reconcileEffect opt p))
        (\<lambda>answer. bind (lift answer) (settle_reconciliation opt s p)))
      (\<lambda>as _. quiet W as \<or> pe_stage p = Intent \<and> emits W i as \<or> reconciles s as)"
      by (intro runs_bind runs_observe) (use answer [OF st] st in \<open>simp_all add: file_after_def\<close>)
  qed (use ab ex in auto)
  show ?thesis
    unfolding tick_pending_def Let_def
    by (intro runs_bind runs_lift) (use ab bl go in \<open>auto split: sum.split option.split\<close>)
qed

definition tick_shape :: "controller_state option \<Rightarrow> action list \<Rightarrow> bool" where
  "tick_shape prior as \<longleftrightarrow>
     (case prior of None \<Rightarrow> emits W i as
      | Some s \<Rightarrow> reconciles s as \<or> emits W i as
          \<and> (\<forall>p. pendingEffect s = Some p \<longrightarrow> pe_stage p = Emitting \<longrightarrow> quiet W as))"

lemma tick_from_shape:
  assumes None: "saved = Inr None \<Longrightarrow> fresh (journal i)"
    and Some: "\<And>s. saved = Inr (Some s) \<Longrightarrow> same_identity (cs_identity s) (identity i) \<Longrightarrow> W s"
  shows "runs (tick_from opt saved) (\<lambda>as _. (case saved of Inl _ \<Rightarrow> as = [] | Inr prior \<Rightarrow> tick_shape prior as)
    \<and> (dryRun opt \<longrightarrow> quiet W as))"
proof (cases saved)
  case (Inl e)
  then show ?thesis by (auto simp: tick_from_def intro!: runs_bind runs_lift)
next
  case (Inr prior)
  show ?thesis
  proof (cases prior)
    case None': None
    then show ?thesis using decide_emits [OF None] Inr
      by (auto simp: tick_from_def tick_shape_def intro!: runs_bind runs_lift)
  next
    case Some': (Some s)
    show ?thesis
    proof (cases "same_identity (cs_identity s) (identity i)")
      case False
      then show ?thesis
        by (auto simp: tick_from_def Inr Some' tick_shape_def emits_quiet intro!: runs_bind runs_lift)
    next
      case True
      then have W: "W s" using Some Inr Some' by simp
      show ?thesis
      proof (cases "pendingEffect s")
        case None
        have dec: "runs (tick_decide opt j rs)
            (\<lambda>as _. (reconciles s as \<or> emits W i as) \<and> (dryRun opt \<longrightarrow> quiet W as))"
          if "merge_lifecycle (lifecycle s) (journal i) = Inr j" for j rs
          by (rule runs_mono [OF decide_emits [OF fresh_merged [OF W that]]]) auto
        show ?thesis
          using True None dec
          by (auto simp: tick_from_def Inr Some' tick_shape_def emits_quiet
              intro!: runs_bind runs_lift split: sum.split)
      next
        case (Some p)
        show ?thesis
        proof (cases "dryRun opt")
          case dry: True
          have "runs (dry_run_pending opt s p) (\<lambda>as _. quiet W as)"
            unfolding dry_run_pending_def Let_def
            by (auto intro!: runs_bind runs_lift runs_perform runs_ret split: sum.split)
          then have "runs (dry_run_pending opt s p) (\<lambda>as _. tick_shape (Some s) as \<and> quiet W as)"
            by (rule runs_mono) (simp add: tick_shape_def emits_quiet)
          then show ?thesis using True Some dry
            by (auto simp: tick_from_def Inr Some' intro!: runs_bind runs_lift)
        next
          case False
          have "runs (tick_pending opt s p) (\<lambda>as _. tick_shape (Some s) as)"
            by (rule runs_mono [OF pending_emits [OF W Some]])
              (use Some in \<open>auto simp: tick_shape_def emits_quiet\<close>)
          then show ?thesis using True Some False
            by (auto simp: tick_from_def Inr Some' intro!: runs_bind runs_lift)
        qed
      qed
    qed
  qed
qed

text \<open>The same for a whole tick on a world.\<close>

lemma tick_shape:
  assumes "tick_controller opt w = (r, w')"
    and "journal_file w = None \<Longrightarrow> fresh (journal i)"
    and "\<And>v s. journal_file w = Some v \<Longrightarrow> parse_controller_state v = Inr s
      \<Longrightarrow> same_identity (cs_identity s) (identity i) \<Longrightarrow> W s"
  obtains as where "trace w' = trace w @ as"
    "journal_file w' = (case last_write as of None \<Rightarrow> journal_file w | Some s \<Rightarrow> Some (json_of_state s))"
    "(case read_optional_state w of Inl _ \<Rightarrow> as = [] | Inr prior \<Rightarrow> tick_shape prior as)"
    "dryRun opt \<longrightarrow> quiet W as"
proof (cases "lock_held opt")
  case False
  then show ?thesis using assms(1) that [of "[]"]
    by (auto simp: tick_controller_def tick_shape_def emits_quiet split: sum.splits option.splits)
next
  case True
  have "runs (tick_from opt (read_optional_state w))
    (\<lambda>as _. (case read_optional_state w of Inl _ \<Rightarrow> as = [] | Inr prior \<Rightarrow> tick_shape prior as)
      \<and> (dryRun opt \<longrightarrow> quiet W as))"
  proof (rule tick_from_shape)
    show "fresh (journal i)" if "read_optional_state w = Inr None"
      using that assms(2) by (auto simp: read_optional_state_def result_simps split: option.splits)
    show "W s" if "read_optional_state w = Inr (Some s)" "same_identity (cs_identity s) (identity i)" for s
      using that assms(3) by (auto simp: read_optional_state_def result_simps split: option.splits)
  qed
  moreover have "tick_from opt (read_optional_state w) w = (r, w')"
    using assms(1) True by (simp add: tick_controller_def)
  ultimately show ?thesis using that by (fastforce dest: runsD simp: file_after_writes)
qed

lemma reconciles_execute:
  assumes "reconciles s as" "as = pre @ AExecute e # post"
  obtains p pre' where "pendingEffect s = Some p" "pe_stage p = Emitting" "pre = AReconcile p # pre'"
    "emits W i (pre' @ AExecute e # post)"
  using assms by (cases pre) (auto simp: reconciles_def)

lemma tick_execute:
  assumes "tick_shape prior as" "as = pre @ AExecute e # post"
  shows "\<exists>s p. last_write pre = Some s \<and> W s \<and> pendingEffect s = Some p \<and> pe_effect p = e
     \<and> pe_stage p = Emitting \<and> authorized_now i p \<and> (\<forall>e'. AExecute e' \<notin> set pre \<and> AExecute e' \<notin> set post)"
    (is ?main)
    and "\<And>s p. prior = Some s \<Longrightarrow> pendingEffect s = Some p \<Longrightarrow> pe_stage p = Emitting
      \<Longrightarrow> \<exists>pre'. pre = AReconcile p # pre'"
proof -
  have direct: ?main if "emits W i as"
    using emits_execute [OF that assms(2)] quiet_no_execute by blast
  have via: ?main if r: "reconciles s as" for s
  proof -
    from reconciles_execute [OF r assms(2)] obtain p pre' where pre: "pre = AReconcile p # pre'"
      "emits W i (pre' @ AExecute e # post)" by blast
    from emits_execute [OF this(2) refl] show ?thesis
      by (auto simp: pre(1) dest: quiet_no_execute)
  qed
  show ?main using assms(1) direct via by (auto simp: tick_shape_def split: option.splits)
  show "\<exists>pre'. pre = AReconcile p # pre'"
    if "prior = Some s" "pendingEffect s = Some p" "pe_stage p = Emitting" for s p
    using assms that reconciles_execute [OF _ assms(2), of s]
    by (auto simp: tick_shape_def dest: quiet_no_execute)
qed

lemma tick_writes:
  assumes "tick_shape prior as" "AWrite s \<in> set as"
  shows "W s"
proof -
  have "W s" if "reconciles s0 as" for s0
    using that assms(2) emits_writes by (auto simp: reconciles_def)
  then show ?thesis using assms emits_writes by (auto simp: tick_shape_def split: option.splits)
qed

end

section \<open>The policies of the controller\<close>

subsection \<open>Invariants and identity\<close>

lemma identity_kept:
  "cs_identity (abandoned_state s) = cs_identity s" "cs_identity (blocked_state s p) = cs_identity s"
  "cs_identity (ambiguous_state s p) = cs_identity s" "cs_identity (retry_state s p) = cs_identity s"
  "cs_identity (reconciled_state s p x) = cs_identity s" "cs_identity (completed_state s p r) = cs_identity s"
  "cs_identity (waiting_state s k n wait) = cs_identity s"
  by (simp_all add: abandoned_state_def blocked_state_def ambiguous_state_def retry_state_def
      reconciled_state_def completed_state_def waiting_state_def)

definition sound_state :: "lifecycle_input \<Rightarrow> controller_state \<Rightarrow> bool" where
  "sound_state inp s \<longleftrightarrow> invariant s \<and> same_identity (cs_identity s) (identity inp)"

lemma own_identity: "repositoryId x \<noteq> NaN \<Longrightarrow> same_identity x x"
  by (simp add: same_identity_def)

lemma same_identity_not_NaN: "same_identity a b \<Longrightarrow> repositoryId b \<noteq> NaN"
  by (auto simp: same_identity_def num_eq_def)

lemma intent_identity:
  assumes "invariant (intent_state inp d j rs auth)"
  shows "same_identity (identity inp) (identity inp)"
proof -
  have "same_identity auth (identity inp)"
    using assms by (auto simp: invariant_iff intent_state_def authorization_agrees_def result_simps Let_def)
  then show ?thesis by (intro own_identity same_identity_not_NaN)
qed

lemma parse_observation_value:
  assumes "parse_observation (observation_json JNum e) = Inr e'"
  shows "e' = e"
  using assms by (auto simp: parse_observation_def observation_json_def strict_object_fields result_simps
      observation_of_fields_def)

lemma parse_observations_value:
  "rmap parse_observation (map (observation_json JNum) es) = Inr es' \<Longrightarrow> es' = es"
  by (induction es arbitrary: es') (auto simp: result_simps dest: parse_observation_value)

lemma parse_journal_value:
  assumes "parse_lifecycle_journal (journal_json JNum j) = Inr j'"
  shows "startCount j' = startCount j" "idleObservations j' = slice_last 100 (idleObservations j)"
    "outstandingIntent j' = None \<Longrightarrow> outstandingIntent j = None"
proof -
  obtain kvs where kvs: "journal_json JNum j = JObj kvs" by (simp add: journal_json_def)
  note fields = kvs [unfolded journal_json_def, THEN sym]
  have props: "get_prop kvs ''startCount'' = JNum (startCount j)"
    "get_prop kvs ''outstandingIntent'' = (case outstandingIntent j of None \<Rightarrow> JNull | Some it \<Rightarrow> intent_json JNum it)"
    "get_prop kvs ''idleObservations'' = JArr (map (observation_json JNum) (idleObservations j))"
    using fields by (auto split: option.splits)
  obtain kvs' where so: "strict_object (JObj kvs) JOURNAL_KEYS ''controller state lifecycle'' JOURNAL_OPTIONAL_KEYS = Inr kvs'"
    using assms unfolding kvs parse_lifecycle_journal_def by (simp only: result_simps) blast
  then have "kvs' = kvs" by (simp add: strict_object_def result_simps)
  with so have so: "strict_object (JObj kvs) JOURNAL_KEYS ''controller state lifecycle'' JOURNAL_OPTIONAL_KEYS = Inr kvs"
    by simp
  obtain st intent idle deadline started wait where
    j': "j' = journal_of_fields kvs st intent idle deadline started wait"
    and idle: "rmap parse_observation (map (observation_json JNum) (idleObservations j)) = Inr idle"
    and intent: "(if get_prop kvs ''outstandingIntent'' = JNull then Inr None
      else rbind (parse_intent (get_prop kvs ''outstandingIntent'')) (\<lambda>x. Inr (Some x))) = Inr intent"
    using assms unfolding kvs parse_lifecycle_journal_def so rbind.simps props(3) as_arr.simps
    by (simp only: result_simps option.inject) blast
  show "startCount j' = startCount j" by (simp add: j' journal_of_fields_def props)
  show "idleObservations j' = slice_last 100 (idleObservations j)"
    using parse_observations_value [OF idle] by (simp add: j' journal_of_fields_def)
  show "outstandingIntent j = None" if "outstandingIntent j' = None"
    using intent that by (auto simp: j' journal_of_fields_def props intent_json_def result_simps split: option.splits)
qed

lemma parse_identity_value:
  "parse_identity (identity_json JNum (x :: permit_identity)) = Inr y \<Longrightarrow> repositoryId x \<noteq> NaN"
  by (auto simp: parse_identity_def identity_json_def strict_object_fields IDENTITY_KEYS_def result_simps)

text \<open>What \<open>parseControllerState\<close> checked of a state about to be written, the state has.\<close>

lemma observed_checked:
  assumes "parse_controller_state (value_of_state (observed_state inp j rs)) = Inr s"
    and len: "length (idleObservations j) \<le> 100"
  shows "invariant (observed_state inp j rs)" "repositoryId (identity inp) \<noteq> NaN"
proof -
  have parts: "\<exists>ident j'. parse_identity (identity_json JNum (identity inp)) = Inr ident
      \<and> parse_lifecycle_journal (journal_json JNum j) = Inr j'
      \<and> invariant \<lparr>cs_identity = ident, lifecycle = j', pendingEffect = None, readbacks = slice_last 100 rs\<rparr>"
    using assms(1) by (auto simp: parse_controller_state_def state_json_def observed_state_def
        strict_object_fields result_simps Let_def)
  then show "repositoryId (identity inp) \<noteq> NaN" by (blast dest: parse_identity_value)
  from parts obtain ident j' where j': "parse_lifecycle_journal (journal_json JNum j) = Inr j'"
    "invariant \<lparr>cs_identity = ident, lifecycle = j', pendingEffect = None, readbacks = slice_last 100 rs\<rparr>" by blast
  show "invariant (observed_state inp j rs)"
    using j'(2) parse_journal_value [OF j'(1)] len
    by (simp add: invariant_iff observed_state_def idle_bounded_def)
qed

interpretation sound: state_policy opt "sound_state (tick_input opt)"
    "\<lambda>s. same_identity (cs_identity s) (identity (tick_input opt))"
    "\<lambda>j. length (idleObservations j) \<le> 100" for opt
proof unfold_locales
  fix j d rs auth
  assume "invariant (intent_state (tick_input opt) d j rs auth)"
  then show "sound_state (tick_input opt) (intent_state (tick_input opt) d j rs auth)"
    using intent_identity by (simp add: sound_state_def intent_state_def)
next
  fix j :: lifecycle_journal and rs
  assume "length (idleObservations j) \<le> 100"
    "ok (parse_controller_state (value_of_state (observed_state (tick_input opt) j rs)))"
  then show "sound_state (tick_input opt) (observed_state (tick_input opt) j rs)"
    unfolding ok_iff sound_state_def
    using observed_checked own_identity by (metis observed_state_def controller_state.select_convs(1))
next
  fix s j
  assume "merge_lifecycle (lifecycle s) (journal (tick_input opt)) = Inr j"
  then show "length (idleObservations j) \<le> 100"
    by (auto simp: merge_lifecycle_def split: if_splits)
qed (simp_all add: sound_state_def preserve identity_kept)

lemma sound_prior:
  "parse_controller_state v = Inr s \<Longrightarrow> same_identity (cs_identity s) (identity inp) \<Longrightarrow> sound_state inp s"
  by (simp add: sound_state_def parse_state_invariants)

text \<open>The actions of a tick, with all that is known of them.\<close>

lemma sound_tick:
  assumes "length (idleObservations (journal (tick_input opt))) \<le> 100"
  obtains as where "trace (snd (tick_controller opt w)) = trace w @ as"
    "journal_file (snd (tick_controller opt w)) =
       (case last_write as of None \<Rightarrow> journal_file w | Some s \<Rightarrow> Some (json_of_state s))"
    "case read_optional_state w of Inl _ \<Rightarrow> as = [] | Inr prior \<Rightarrow> sound.tick_shape opt prior as"
    "dryRun opt \<longrightarrow> quiet (sound_state (tick_input opt)) as"
proof -
  obtain r w' where rw: "tick_controller opt w = (r, w')" by (cases "tick_controller opt w")
  show ?thesis
    by (rule sound.tick_shape [OF rw]) (use assms that rw sound_prior in auto)
qed

section \<open>Properties of a tick\<close>

abbreviation executions :: "action list \<Rightarrow> nat" where
  "executions as \<equiv> length (filter (\<lambda>a. case a of AExecute _ \<Rightarrow> True | _ \<Rightarrow> False) as)"


abbreviation sample_options :: tick_options where
  "sample_options \<equiv> \<lparr>lock_held = True, tick_input = sample_input VStopped (Fin 1) (Fin 2000000)
      (sample_guest GOffline None) (sample_journal LStopped (Fin 0)), dryRun = False,
     executeEffect = (\<lambda>_. Executed \<lparr>er_operationId = None, er_resolved = True, er_readback = None\<rparr>),
     reconcileEffect = (\<lambda>_. Inr \<lparr>rr_resolved = True, rr_retry = False, rr_retireStoppedStart = False,
       rr_readback = None, rr_capacityRefusal = None\<rparr>)\<rparr>"

abbreviation empty_world :: world where
  "empty_world \<equiv> \<lparr>journal_file = None, trace = [], faults = []\<rparr>"


text \<open>The first tick on a stopped VM with queued work starts generation 1.\<close>

lemma sample_start_merged:
  "decide_lifecycle (sample_input VStopped (Fin 1) (Fin 2000000) (sample_guest GOffline None)
     (sample_journal LStopped (Fin 0)) \<lparr>journal := sample_journal LStopped (Fin 0)\<rparr>) =
   Inr (decision LStarting (EStartVm (Fin 1) (Fin 9200000)) ''eligible queued job requires the owned stopped VM'')"
  by (simp add: decide_lifecycle_def emergency_due_def deadline_reached_def validate_queue_observation_def
      valid_snapshot_enums_def owned_decision_def start_decision_def capacity_wait_decision_def
      start_budget_def authorized_def effective_grant_def fits_resume_def GUEST_UP_STATES_def Let_def
      sample_valid [unfolded sample_defs] sample_permits [unfolded sample_permit_def] sample_defs)

text \<open>The definitions a concrete tick unfolds to.\<close>

lemmas tick_defs = tick_controller_def tick_from_def bind_def lift_def tick_decide_def
  record_and_execute_decision_def authorization_for_def Let_def assert_state_invariants_def
  intent_state_def apply_decision_def intent_agrees_def authorization_agrees_def same_identity_def
  perform_def execute_pending_effect_def pending_authorization_problem_def pending_effect_is_stale_def
  recovery_operation_def catch_def emit_effect_def observe_def completed_state_def ret_def
  readbacks_with_def tick_pending_def settle_reconciliation_def retry_state_def mark_intent_def

lemma sample_execution:
  "\<exists>pre post. trace (snd (tick_controller sample_options empty_world)) =
     trace empty_world @ pre @ AExecute (EStartVm (Fin 1) (Fin 9200000)) # post"
proof -
  have "AExecute (EStartVm (Fin 1) (Fin 9200000)) \<in> set (trace (snd (tick_controller sample_options empty_world)))"
    by (simp add: tick_defs read_optional_state_def sample_start_merged [unfolded sample_defs, simplified] sample_defs)
  then show ?thesis by (auto dest: split_list)
qed

text \<open>A journal left with the start in the emitting stage, and a provider that asks for a retry.\<close>

definition sample_emitting :: controller_state where
  "sample_emitting =
     \<lparr>cs_identity = sample_identity,
      lifecycle = (sample_journal LStarting (Fin 1))\<lparr>outstandingIntent := Some \<lparr>intent_type = StartVm,
        intent_generation = Fin 1, intent_status = Pending, intent_deadlineMs = Fin 9200000\<rparr>\<rparr>,
      pendingEffect = Some \<lparr>pe_id = ''controller-1:2000000:start-vm'',
        pe_effect = EStartVm (Fin 1) (Fin 9200000), createdAtMs = Fin 2000000, pe_status = Pending,
        pe_stage = Emitting,
        pe_authorization = \<lparr>configHash = ''hash'', candidateDigest = ''digest'', repositoryId = Fin 42,
          projectId = ''project-1'', controllerId = ''controller-1'', resourcePrefix = ''cirujano'',
          auth_permitId = ''permit-1'', permitExpiresAtMs = Fin 100000000, auth_operation = OpStart,
          auth_recoveryAllowed = True, effectDeadlineMs = Some (Fin 9200000)\<rparr>,
        pe_operationId = None\<rparr>,
      readbacks = []\<rparr>"

lemma sample_emitting_wf: "state_wf sample_emitting"
  by (simp add: state_wf_def identity_wf_def journal_wf_def pending_wf_def authorization_wf_def
      assert_state_invariants_def intent_agrees_def authorization_agrees_def same_identity_def Let_def
      pos_int_def sample_emitting_def sample_identity_def sample_journal_def)

definition retry_options :: tick_options where
  "retry_options = sample_options\<lparr>reconcileEffect := (\<lambda>_. Inr \<lparr>rr_resolved = False, rr_retry = True,
     rr_retireStoppedStart = False, rr_readback = None, rr_capacityRefusal = None\<rparr>)\<rparr>"

definition emitting_world :: world where
  "emitting_world = \<lparr>journal_file = Some (json_of_state sample_emitting), trace = [], faults = []\<rparr>"

lemma emitting_world_read: "read_optional_state emitting_world = Inr (Some sample_emitting)"
  by (simp add: read_optional_state_def emitting_world_def parse_state_json sample_emitting_wf)

lemma sample_retry:
  "\<exists>pre post. trace (snd (tick_controller retry_options emitting_world)) =
     trace emitting_world @ pre @ AExecute (EStartVm (Fin 1) (Fin 9200000)) # post"
proof -
  have "AExecute (EStartVm (Fin 1) (Fin 9200000)) \<in> set (trace (snd (tick_controller retry_options emitting_world)))"
    unfolding tick_controller_def emitting_world_read
    by (simp add: tick_defs retry_options_def sample_emitting_def emitting_world_def sample_defs
        refused_start_left_owned_stopped_vm_def can_retire_stopped_start_def)
  then show ?thesis by (auto simp: emitting_world_def dest: split_list)
qed

lemma sample_lengths:
  "length (idleObservations (journal (tick_input sample_options))) \<le> 100"
  "length (idleObservations (journal (tick_input retry_options))) \<le> 100"
  by (simp_all add: sample_defs retry_options_def)







text \<open>
  A dry run calls the provider neither to execute nor to reconcile.
\<close>

theorem dry_run_calls_no_provider:
  assumes "length (idleObservations (journal (tick_input opt))) \<le> 100" "dryRun opt"
  shows "\<exists>as. trace (snd (tick_controller opt w)) = trace w @ as
    \<and> (\<forall>e p. AExecute e \<notin> set as \<and> AReconcile p \<notin> set as)"
proof -
  obtain as where "trace (snd (tick_controller opt w)) = trace w @ as"
    "quiet (sound_state (tick_input opt)) as"
    using sound_tick [OF assms(1)] assms(2) by metis
  then show ?thesis by (auto simp: quiet_def)
qed

theorem dry_run_calls_no_provider_witness:
  "\<forall>e. AExecute e \<notin> set (trace (snd (tick_controller (sample_options\<lparr>dryRun := True\<rparr>) empty_world)))"
  using dry_run_calls_no_provider [of "sample_options\<lparr>dryRun := True\<rparr>" empty_world] sample_lengths(1) by auto

subsection \<open>The spent budget\<close>

text \<open>At least \<open>r\<close> of runtime and \<open>c\<close> of cost, unless the observed amounts are not numbers.\<close>

definition spent_at_least :: "lifecycle_input \<Rightarrow> jsnum \<Rightarrow> jsnum \<Rightarrow> lifecycle_journal \<Rightarrow> bool" where
  "spent_at_least inp r c j \<longleftrightarrow>
     (cumulativeRuntimeMs (journal inp) \<noteq> NaN \<longrightarrow> r \<le> cumulativeRuntimeMs j)
     \<and> (cumulativeCostUsd (journal inp) \<noteq> NaN \<longrightarrow> c \<le> cumulativeCostUsd j)"

lemma spent_at_least_cong:
  "cumulativeRuntimeMs j' = cumulativeRuntimeMs j \<Longrightarrow> cumulativeCostUsd j' = cumulativeCostUsd j \<Longrightarrow>
   spent_at_least inp r c j' = spent_at_least inp r c j"
  by (simp add: spent_at_least_def)

lemma not_below_trans: "(r::jsnum) \<le> a \<Longrightarrow> \<not> b < a \<Longrightarrow> b \<noteq> NaN \<Longrightarrow> r \<le> b"
  by (cases r; cases a; cases b) (auto simp: num_ops)

lemma spent_merged:
  "spent_at_least inp r c saved \<Longrightarrow> merge_lifecycle saved (journal inp) = Inr j \<Longrightarrow> spent_at_least inp r c j"
  by (auto simp: spent_at_least_def merge_lifecycle_def split: if_splits intro: not_below_trans)

lemma spent_kept:
  "spent_at_least inp r c (lifecycle (abandoned_state s)) = spent_at_least inp r c (lifecycle s)"
  "spent_at_least inp r c (lifecycle (blocked_state s p)) = spent_at_least inp r c (lifecycle s)"
  "spent_at_least inp r c (lifecycle (ambiguous_state s p)) = spent_at_least inp r c (lifecycle s)"
  "spent_at_least inp r c (lifecycle (retry_state s p)) = spent_at_least inp r c (lifecycle s)"
  "spent_at_least inp r c (lifecycle (reconciled_state s p x)) = spent_at_least inp r c (lifecycle s)"
  "spent_at_least inp r c (lifecycle (completed_state s p e)) = spent_at_least inp r c (lifecycle s)"
  "spent_at_least inp r c (lifecycle (waiting_state s k n wait)) = spent_at_least inp r c (lifecycle s)"
  "spent_at_least inp r c (lifecycle (intent_state i d j rs auth)) = spent_at_least inp r c j"
  "spent_at_least inp r c (lifecycle (observed_state i j rs)) = spent_at_least inp r c j"
  "spent_at_least inp r c (j\<lparr>outstandingIntent := x'\<rparr>) = spent_at_least inp r c j"
  by (auto intro!: spent_at_least_cong simp: abandoned_state_def blocked_state_def ambiguous_state_def
      retry_state_def reconciled_state_def completed_state_def waiting_state_def intent_state_def
      observed_state_def mark_intent_def reconciled_journal_def without_capacity_wait_def apply_decision_def
      split: lifecycle_effect.split)

interpretation spent: state_policy opt "\<lambda>s. spent_at_least (tick_input opt) r c (lifecycle s)"
    "\<lambda>s. spent_at_least (tick_input opt) r c (lifecycle s)"
    "spent_at_least (tick_input opt) r c" for opt r c
  by unfold_locales (simp_all add: spent_kept spent_merged)

lemma parsed_spent:
  assumes "parse_controller_state v = Inr s"
  shows "is_finite (cumulativeRuntimeMs (lifecycle s))" "is_finite (cumulativeCostUsd (lifecycle s))"
proof -
  obtain u j where j: "parse_lifecycle_journal u = Inr j" "lifecycle s = j"
    using assms unfolding parse_controller_state_def Let_def by (simp only: result_simps) auto
  have "\<exists>kvs st intent idle deadline started wait.
      (\<forall>k \<in> set [''cumulativeRuntimeMs'', ''cumulativeCostUsd''].
         \<not> (\<not> finite_num (get_prop kvs k) \<or> num_of (get_prop kvs k) < Fin 0))
      \<and> j = journal_of_fields kvs st intent idle deadline started wait"
    using j(1) unfolding parse_lifecycle_journal_def
    by (simp only: result_simps find_None_iff sum.inject) blast
  then have "is_finite (cumulativeRuntimeMs j) \<and> is_finite (cumulativeCostUsd j)"
    by (auto simp: journal_of_fields_def finite_num_iff)
  then show "is_finite (cumulativeRuntimeMs (lifecycle s))" "is_finite (cumulativeCostUsd (lifecycle s))"
    using j(2) by simp_all
qed



section \<open>Behaviour without faults\<close>

text \<open>
  A pending effect whose own deadline has passed never strands the controller: while
  the permit still covers it, the next tick drops it and its intent, keeps everything else, and the
  tick after decides afresh. (A start whose VM is still stopped and the recovery operations are not
  stale.)
\<close>

theorem stale_effect_released:
  assumes "lock_held opt" "\<not> dryRun opt" "read_optional_state w = Inr (Some s)"
    and "same_identity (cs_identity s) (identity (tick_input opt))" "pendingEffect s = Some p"
    and "assert_state_invariants s = Inr ()" "pending_authorization_problem p (tick_input opt) = None"
    and "effectDeadlineMs (pe_authorization p) = Some d" "d < nowMs (tick_input opt)"
    and "auth_operation (pe_authorization p) \<notin> {OpStop, OpDelete}"
    and "\<not> (is_start_vm (pe_effect p) \<and> vmStatus (provider (tick_input opt)) = VStopped)"
    and "faults w = []"
  shows "fst (tick_controller opt w) = Inr (result TAbandoned)
    \<and> journal_file (snd (tick_controller opt w)) = Some (json_of_state
        (s\<lparr>lifecycle := (lifecycle s)\<lparr>outstandingIntent := None\<rparr>, pendingEffect := None\<rparr>))"
proof -
  have "pending_effect_is_stale p (tick_input opt)"
    using assms(8-11) by (auto simp: pending_effect_is_stale_def recovery_operation_def Let_def)
  then show ?thesis using assms(1-7,12)
    by (simp add: tick_controller_def tick_from_def bind_def lift_def tick_pending_def Let_def
        abandon_pending_effect_def abandoned_state_def perform_def ret_def file_after_def)
qed

theorem stale_effect_released_witness:
  "fst (tick_controller (retry_options\<lparr>tick_input := sample_input VStarting (Fin 0) (Fin 9300000)
      (sample_guest GBooting None) (sample_journal LStarting (Fin 1))\<rparr>) emitting_world) = Inr (result TAbandoned)"
proof -
  let ?opt = "retry_options\<lparr>tick_input := sample_input VStarting (Fin 0) (Fin 9300000)
      (sample_guest GBooting None) (sample_journal LStarting (Fin 1))\<rparr>"
  have "assert_state_invariants sample_emitting = Inr ()" using sample_emitting_wf by (simp add: state_wf_def)
  then show ?thesis
    using stale_effect_released [of ?opt emitting_world sample_emitting "the (pendingEffect sample_emitting)" "Fin 9200000",
        OF _ _ emitting_world_read]
    by (simp add: retry_options_def emitting_world_def sample_emitting_def sample_defs same_identity_def
        pending_authorization_problem_def)
qed

text \<open>
  A start the provider refuses for quota is undone in the journal: the tick answers
  \<open>waiting\<close>, the VM stays stopped, the intent is gone, the generation is handed back, and the next
  attempt waits for the backoff.
\<close>

theorem refused_start_waits:
  assumes p: "pendingEffect s = Some p" "pe_effect p = EStartVm (Fin (of_int n + 1)) dl"
    and auth: "pending_authorization_problem p (tick_input opt) = None"
      "\<not> pending_effect_is_stale p (tick_input opt)"
    and count: "startCount (lifecycle s) = Fin (of_int n + 1)" "0 \<le> n" "n < 9007199254740992"
    and idle: "\<forall>e \<in> set (idleObservations (lifecycle s)). idle_generation e \<le> Fin (of_int n)"
    and refused: "executeEffect opt (EStartVm (Fin (of_int n + 1)) dl) = Refused refusal m"
    and "faults w = []"
  shows "fst (execute_pending_effect opt s dec w) = Inr (result TWaiting)
    \<and> journal_file (snd (execute_pending_effect opt s dec w)) = Some (json_of_state
        (s\<lparr>lifecycle := (lifecycle s)\<lparr>startCount := Fin (of_int n), jstate := LStopped, outstandingIntent := None,
            capacityWait := Some (next_capacity_wait (capacityWait (lifecycle s)) refusal StartVm
              (nowMs (tick_input opt)) (pollIntervalMs (timing (config (tick_input opt))))),
            grantDeadlineMs := None, grantStartedAtMs := None\<rparr>,
          pendingEffect := None\<rparr>))"
proof -
  have n: "(of_int n + 1 :: rat) = of_int (n + 1)" by simp
  have minus: "Fin (of_int n + 1) - Fin 1 = Fin (of_int n)"
    using num_diff_of_int [of "n + 1" 1] count(2,3) by simp
  have inv: "assert_state_invariants (waiting_state s StartVm (Fin (of_int n)) wait) = Inr ()" for wait
  proof -
    have "\<not> Fin x < a" if "a \<le> Fin x" for a x using that by (cases a) auto
    then show ?thesis using idle by (auto simp: invariant_iff waiting_state_def idle_bounded_def)
  qed
  show ?thesis
    using p auth count(1) refused assms(10) inv minus
    by (simp add: execute_pending_effect_def bind_def perform_def lift_def catch_def emit_effect_def
        observe_def raise_def handle_failure_def wait_for_capacity_def Let_def ret_def file_after_def
        waiting_state_def)
qed

definition refusing_options :: tick_options where
  "refusing_options = sample_options\<lparr>executeEffect :=
     (\<lambda>_. Refused \<lparr>quotas = [''vpc.ipv4-address.public.count'']\<rparr> [Lit ''quota''])\<rparr>"

theorem refused_start_waits_witness:
  "fst (execute_pending_effect refusing_options sample_emitting None empty_world) = Inr (result TWaiting)"
proof -
  have p: "pendingEffect sample_emitting = Some (the (pendingEffect sample_emitting))"
    "pe_effect (the (pendingEffect sample_emitting)) = EStartVm (Fin (of_int 0 + 1)) (Fin 9200000)"
    "startCount (lifecycle sample_emitting) = Fin (of_int 0 + 1)"
    by (simp_all add: sample_emitting_def sample_journal_def)
  have auth: "pending_authorization_problem (the (pendingEffect sample_emitting)) (tick_input refusing_options) = None"
    "\<not> pending_effect_is_stale (the (pendingEffect sample_emitting)) (tick_input refusing_options)"
    by (simp_all add: pending_authorization_problem_def pending_effect_is_stale_def Let_def same_identity_def
        refusing_options_def sample_emitting_def sample_defs)
  show ?thesis
    using refused_start_waits [OF p(1,2) auth p(3)]
    by (simp add: refusing_options_def sample_emitting_def sample_journal_def)
qed

text \<open>
  C12 (roundtrip). What a tick writes to the journal file, the next tick reads back as the same state,
  for every well-formed state that satisfies the invariants.
\<close>

theorem controller_state_roundtrip:
  "state_wf s \<Longrightarrow> parse_controller_state (json_of_state s) = Inr s"
  by (rule parse_state_json)

theorem controller_state_roundtrip_witness:
  "parse_controller_state (json_of_state sample_emitting) = Inr sample_emitting"
  using controller_state_roundtrip [OF sample_emitting_wf] .

text \<open>
  Recording a decision keeps the counts that limit it: an accepted decision to start
  uses the next generation as the new start count, a decision to create reserves it without using it,
  and any other decision leaves the count alone.
\<close>

theorem recorded_generation:
  assumes "decide_lifecycle (inp\<lparr>journal := j\<rparr>) = Inr d"
  shows "startCount (apply_decision j (deffect d) (dstate d) t) =
      (if is_start_vm (deffect d) then startCount j + Fin 1 else startCount j)
    \<and> (\<forall>g r dl. deffect d = ECreateVm g r dl \<longrightarrow> r = startCount j + Fin 1 \<and> g = r)"
proof (cases "deffect d = ENone")
  case False
  have tr: "transition (inp\<lparr>journal := j\<rparr>) (dstate d) (deffect d)"
    by (rule decide_lifecycle_transition [OF assms False])
  show ?thesis
    using tr by (cases rule: transition.cases) (auto simp: apply_decision_def)
qed (simp add: apply_decision_def)

theorem recorded_generation_witness:
  "startCount (apply_decision (sample_journal LStopped (Fin 0)) (EStartVm (Fin 1) (Fin 9200000)) LStarting (Fin 2000000))
     = startCount (sample_journal LStopped (Fin 0)) + Fin 1"
  using recorded_generation [OF sample_start_merged, of "Fin 2000000"] by simp

text \<open>
  An adoption is decided only while the journal still holds the create intent it resolves, and recording a
  decision leaves that intent in place; but the invariants of the controller's state refuse an intent
  beside a pending adoption. So the state that would carry an adoption is never written.
\<close>

theorem adoption_cannot_be_recorded:
  assumes "decide_lifecycle i = Inr d" "deffect d = EAdoptVm g dl"
    and "lifecycle s = apply_decision (journal i) (deffect d) st now"
    and "pendingEffect s = Some p" "pe_effect p = deffect d"
  shows "assert_state_invariants s \<noteq> Inr ()"
proof -
  have "transition i (dstate d) (EAdoptVm g dl)"
    using decide_lifecycle_transition [OF assms(1)] assms(2) by simp
  then have "outstandingIntent (journal i) \<noteq> None" by (elim transition_adopt) simp
  then show ?thesis
    using assms by (simp add: assert_state_invariants_def Let_def intent_agrees_def apply_decision_def result_simps)
qed

end
