(* ===== verification/Github.thy ===== *)
theory Github
  imports Contracts
begin

text \<open>
  What the runner reads from GitHub (\<open>adapters/github.ts\<close>): parsing workflow runs, jobs and runners
  strictly, collecting paginated responses into a collection that is complete or says why it is not,
  finding the owned runner, and reducing all of it to the queue snapshot of the lifecycle. The
  library conversions \<open>Number(string)\<close> and \<open>Date.parse\<close> are parameters.
\<close>

section \<open>Data\<close>

record github_repository =
  gh_id :: jsnum
  gh_nameWithOwner :: string

record workflow_run =
  run_id :: jsnum
  workflowId :: jsnum
  run_attempt :: jsnum
  run_status :: string
  run_conclusion :: "string option"
  run_event :: string
  headBranch :: string
  run_headSha :: string
  run_repositoryId :: jsnum
  headRepositoryId :: jsnum
  pullRequestCount :: jsnum

text \<open>\<open>key\<close> is a string of \<open>runId\<close>, \<open>runAttempt\<close> and \<open>id\<close>; here it is the three numbers.\<close>

record workflow_job =
  job_id :: jsnum
  job_runId :: jsnum
  job_runAttempt :: jsnum
  job_headSha :: string
  job_status :: string
  job_conclusion :: "string option"
  job_name :: string
  job_labels :: "string list"
  job_runnerId :: "jsnum option"
  job_runnerName :: "string option"
  job_runnerGroupId :: "jsnum option"
  job_runnerGroupName :: "string option"
  job_startedAt :: "string option"
  job_completedAt :: "string option"

record repository_runner =
  runner_id :: jsnum
  runner_name :: string
  runner_os :: string
  runner_online :: bool
  runner_busy :: bool
  runner_labels :: "string list"

record 'a collection =
  col_complete :: bool
  col_items :: "'a list"
  col_reason :: "jsnum message option"
  col_retryAfterMs :: "jsnum option"

record included_response =
  resp_status :: jsnum
  resp_headers :: "string \<Rightarrow> string option"
  resp_body :: jsval

record page =
  page_number :: jsnum
  page_response :: included_response

record job_page = page +
  page_runId :: jsnum
  page_runAttempt :: jsnum

type_synonym context_name = "jsnum message"

section \<open>Parsing\<close>

definition response_error :: "jsnum message \<Rightarrow> jsnum exn" where
  "response_error m = Exn GitHubResponseError m"

definition ACTIVE_RUN_STATUSES :: "string list" where
  "ACTIVE_RUN_STATUSES = [''queued'', ''in_progress'', ''waiting'', ''requested'', ''pending'']"

definition RUN_STATUSES :: "string list" where
  "RUN_STATUSES = ACTIVE_RUN_STATUSES @ [''completed'']"

definition CONCLUSIONS :: "string list" where
  "CONCLUSIONS = [''action_required'', ''cancelled'', ''failure'', ''neutral'', ''skipped'', ''stale'',
     ''startup_failure'', ''success'', ''timed_out'']"

definition gh_record :: "jsval \<Rightarrow> context_name \<Rightarrow> jsnum exn + fields" where
  "gh_record v ctx = require (as_obj v) (response_error (ctx @ [Lit '' must be an object'']))"

definition gh_integer :: "jsval \<Rightarrow> context_name \<Rightarrow> bool \<Rightarrow> jsnum exn + jsnum" where
  "gh_integer v ctx allow_zero =
     (let bad = response_error (ctx @ [Lit '' must be a '',
            Lit (if allow_zero then ''non-negative'' else ''positive''), Lit '' safe integer''])
      in case as_num v of None \<Rightarrow> Inl bad
         | Some n \<Rightarrow> if \<not> is_safe_integer n \<or> n < (if allow_zero then Fin 0 else Fin 1) then Inl bad else Inr n)"

definition gh_string :: "jsval \<Rightarrow> context_name \<Rightarrow> jsnum exn + string" where
  "gh_string v ctx =
     (case as_str v of Some s \<Rightarrow> if s = [] then Inl (response_error (ctx @ [Lit '' must be a non-empty string''])) else Inr s
      | None \<Rightarrow> Inl (response_error (ctx @ [Lit '' must be a non-empty string''])))"

definition nullable_string :: "jsval \<Rightarrow> context_name \<Rightarrow> jsnum exn + string option" where
  "nullable_string v ctx =
     (if v = JNull \<or> v = JStr [] then Inr None else rbind (gh_string v ctx) (\<lambda>s. Inr (Some s)))"

definition nullable_integer :: "jsval \<Rightarrow> context_name \<Rightarrow> jsnum exn + jsnum option" where
  "nullable_integer v ctx =
     (if v = JNull \<or> v = JNum (Fin 0) then Inr None else rbind (gh_integer v ctx False) (\<lambda>n. Inr (Some n)))"

definition parse_conclusion :: "jsval \<Rightarrow> context_name \<Rightarrow> jsnum exn + string option" where
  "parse_conclusion v ctx =
     (case v of JNull \<Rightarrow> Inr None
      | JStr s \<Rightarrow> if s \<in> set CONCLUSIONS then Inr (Some s)
          else Inl (response_error (ctx @ [Lit '' has an unknown conclusion'']))
      | _ \<Rightarrow> Inl (response_error (ctx @ [Lit '' has an unknown conclusion''])))"

definition parse_repository_response :: "jsval \<Rightarrow> jsnum exn + github_repository" where
  "parse_repository_response v =
     rbind (gh_record v [Lit ''repository'']) (\<lambda>kvs.
     rbind (check (get_prop kvs ''private'' = JBool True \<and> get_prop kvs ''visibility'' = JStr ''private''
         \<and> get_prop kvs ''fork'' = JBool False)
       (response_error [Lit ''repository must be private, have private visibility, and not be a fork''])) (\<lambda>_.
     rbind (gh_integer (get_prop kvs ''id'') [Lit ''repository.id''] False) (\<lambda>n.
     rbind (gh_string (get_prop kvs ''full_name'') [Lit ''repository.full_name'']) (\<lambda>name.
     Inr \<lparr>gh_id = n, gh_nameWithOwner = name\<rparr>))))"

definition item_ctx :: "string \<Rightarrow> nat \<Rightarrow> string \<Rightarrow> context_name" where
  "item_ctx arr i rest = [Lit (arr @ ''[''), Num (Fin (of_nat i)), Lit ('']'' @ rest)]"

definition parse_run :: "nat \<Rightarrow> jsval \<Rightarrow> jsnum exn + workflow_run" where
  "parse_run i v =
     (let ctx = item_ctx ''workflow_runs'' i in
      rbind (gh_record v (ctx '''')) (\<lambda>kvs.
      rbind (gh_string (get_prop kvs ''status'') (ctx ''.status'')) (\<lambda>status.
      rbind (check (status \<in> set RUN_STATUSES) (response_error (ctx ''.status'' @ [Lit '' is unknown'']))) (\<lambda>_.
      rbind (require (as_arr (get_prop kvs ''pull_requests''))
        (response_error (ctx ''.pull_requests'' @ [Lit '' must be an array'']))) (\<lambda>prs.
      rbind (gh_integer (get_prop kvs ''id'') (ctx ''.id'') False) (\<lambda>rid.
      rbind (gh_integer (get_prop kvs ''workflow_id'') (ctx ''.workflow_id'') False) (\<lambda>wid.
      rbind (gh_integer (get_prop kvs ''run_attempt'') (ctx ''.run_attempt'') False) (\<lambda>attempt.
      rbind (parse_conclusion (get_prop kvs ''conclusion'') (ctx ''.conclusion'')) (\<lambda>conclusion.
      rbind (gh_string (get_prop kvs ''event'') (ctx ''.event'')) (\<lambda>ev.
      rbind (gh_string (get_prop kvs ''head_branch'') (ctx ''.head_branch'')) (\<lambda>branch.
      rbind (gh_string (get_prop kvs ''head_sha'') (ctx ''.head_sha'')) (\<lambda>sha.
      rbind (gh_record (get_prop kvs ''repository'') (ctx ''.repository'')) (\<lambda>repo.
      rbind (gh_integer (get_prop repo ''id'') (ctx ''.repository.id'') False) (\<lambda>repo_id.
      rbind (gh_record (get_prop kvs ''head_repository'') (ctx ''.head_repository'')) (\<lambda>head.
      rbind (gh_integer (get_prop head ''id'') (ctx ''.head_repository.id'') False) (\<lambda>head_id.
      Inr \<lparr>run_id = rid, workflowId = wid, run_attempt = attempt, run_status = status,
           run_conclusion = conclusion, run_event = ev, headBranch = branch, run_headSha = sha,
           run_repositoryId = repo_id, headRepositoryId = head_id,
           pullRequestCount = Fin (of_nat (length prs))\<rparr>))))))))))))))))"

definition parse_run_page :: "jsval \<Rightarrow> jsnum exn + workflow_run list" where
  "parse_run_page v =
     rbind (gh_record v [Lit ''workflow runs page'']) (\<lambda>kvs.
     rbind (gh_integer (get_prop kvs ''total_count'') [Lit ''workflow runs page.total_count''] True) (\<lambda>_.
     rbind (require (as_arr (get_prop kvs ''workflow_runs''))
       (response_error [Lit ''workflow_runs must be an array''])) (\<lambda>xs. rmapi parse_run 0 xs)))"

definition nonempty_labels :: "jsval \<Rightarrow> string list option" where
  "nonempty_labels v = (case v of JArr xs \<Rightarrow>
       if \<forall>x \<in> set xs. \<exists>s. as_str x = Some s \<and> s \<noteq> [] then Some (map (\<lambda>x. the (as_str x)) xs) else None
     | _ \<Rightarrow> None)"

definition parse_job :: "jsnum \<Rightarrow> jsnum \<Rightarrow> nat \<Rightarrow> jsval \<Rightarrow> jsnum exn + workflow_job" where
  "parse_job runId runAttempt i v =
     (let ctx = item_ctx ''jobs'' i in
      rbind (gh_record v (ctx '''')) (\<lambda>kvs.
      rbind (gh_integer (get_prop kvs ''run_id'') (ctx ''.run_id'') False) (\<lambda>rid.
      rbind (check (num_eq rid runId) (response_error (ctx ''.run_id'' @ [Lit '' does not match its requested run'']))) (\<lambda>_.
      rbind (gh_string (get_prop kvs ''status'') (ctx ''.status'')) (\<lambda>status.
      rbind (check (status \<in> set RUN_STATUSES) (response_error (ctx ''.status'' @ [Lit '' is unknown'']))) (\<lambda>_.
      rbind (require (nonempty_labels (get_prop kvs ''labels''))
        (response_error (ctx ''.labels'' @ [Lit '' must contain non-empty strings'']))) (\<lambda>labels.
      rbind (gh_integer (get_prop kvs ''id'') (ctx ''.id'') False) (\<lambda>jid.
      rbind (gh_integer (JNum runAttempt) [Lit ''runAttempt''] False) (\<lambda>attempt.
      rbind (gh_string (get_prop kvs ''head_sha'') (ctx ''.head_sha'')) (\<lambda>sha.
      rbind (parse_conclusion (get_prop kvs ''conclusion'') (ctx ''.conclusion'')) (\<lambda>conclusion.
      rbind (gh_string (get_prop kvs ''name'') (ctx ''.name'')) (\<lambda>name.
      rbind (nullable_integer (get_prop kvs ''runner_id'') (ctx ''.runner_id'')) (\<lambda>runner.
      rbind (nullable_string (get_prop kvs ''runner_name'') (ctx ''.runner_name'')) (\<lambda>runner_nm.
      rbind (nullable_integer (get_prop kvs ''runner_group_id'') (ctx ''.runner_group_id'')) (\<lambda>grp.
      rbind (nullable_string (get_prop kvs ''runner_group_name'') (ctx ''.runner_group_name'')) (\<lambda>grp_nm.
      rbind (nullable_string (get_prop kvs ''started_at'') (ctx ''.started_at'')) (\<lambda>started.
      rbind (nullable_string (get_prop kvs ''completed_at'') (ctx ''.completed_at'')) (\<lambda>completed.
      Inr \<lparr>job_id = jid, job_runId = runId, job_runAttempt = attempt, job_headSha = sha,
           job_status = status, job_conclusion = conclusion, job_name = name, job_labels = labels,
           job_runnerId = runner, job_runnerName = runner_nm, job_runnerGroupId = grp,
           job_runnerGroupName = grp_nm, job_startedAt = started,
           job_completedAt = completed\<rparr>))))))))))))))))))"

definition parse_job_page :: "jsnum \<Rightarrow> jsnum \<Rightarrow> jsval \<Rightarrow> jsnum exn + workflow_job list" where
  "parse_job_page runId runAttempt v =
     rbind (gh_record v [Lit ''jobs page'']) (\<lambda>kvs.
     rbind (gh_integer (get_prop kvs ''total_count'') [Lit ''jobs page.total_count''] True) (\<lambda>_.
     rbind (require (as_arr (get_prop kvs ''jobs''))
       (response_error [Lit ''jobs must be an array''])) (\<lambda>xs. rmapi (parse_job runId runAttempt) 0 xs)))"

definition parse_runner :: "nat \<Rightarrow> jsval \<Rightarrow> jsnum exn + repository_runner" where
  "parse_runner i v =
     (let ctx = item_ctx ''runners'' i in
      rbind (gh_record v (ctx '''')) (\<lambda>kvs.
      rbind (check (get_prop kvs ''status'' = JStr ''online'' \<or> get_prop kvs ''status'' = JStr ''offline'')
        (response_error (ctx ''.status'' @ [Lit '' is unknown'']))) (\<lambda>_.
      rbind (require (as_bool (get_prop kvs ''busy''))
        (response_error (ctx ''.busy'' @ [Lit '' must be boolean'']))) (\<lambda>busy.
      rbind (require (as_arr (get_prop kvs ''labels''))
        (response_error (ctx ''.labels'' @ [Lit '' must be an array'']))) (\<lambda>raw.
      rbind (rmapi (\<lambda>k label.
          rbind (gh_record label (item_ctx ''runners'' i '''' @ item_ctx ''.labels'' k '''')) (\<lambda>l.
          gh_string (get_prop l ''name'') (item_ctx ''runners'' i '''' @ item_ctx ''.labels'' k ''.name''))) 0 raw) (\<lambda>labels.
      rbind (gh_integer (get_prop kvs ''id'') (ctx ''.id'') False) (\<lambda>rid.
      rbind (gh_string (get_prop kvs ''name'') (ctx ''.name'')) (\<lambda>name.
      rbind (gh_string (get_prop kvs ''os'') (ctx ''.os'')) (\<lambda>os.
      Inr \<lparr>runner_id = rid, runner_name = name, runner_os = os,
           runner_online = (get_prop kvs ''status'' = JStr ''online''), runner_busy = busy,
           runner_labels = labels\<rparr>)))))))))"

definition parse_runner_page :: "jsval \<Rightarrow> jsnum exn + repository_runner list" where
  "parse_runner_page v =
     rbind (gh_record v [Lit ''runners page'']) (\<lambda>kvs.
     rbind (gh_integer (get_prop kvs ''total_count'') [Lit ''runners page.total_count''] True) (\<lambda>_.
     rbind (require (as_arr (get_prop kvs ''runners''))
       (response_error [Lit ''runners must be an array''])) (\<lambda>xs. rmapi parse_runner 0 xs)))"

section \<open>Pagination\<close>

text \<open>
  \<open>number_of\<close> is \<open>Number(string)\<close>, \<open>date_of\<close> is \<open>Date.parse\<close>; both give \<open>NaN\<close> for what they cannot
  read.
\<close>

definition rate_limit_backoff_ms ::
  "(string \<Rightarrow> jsnum) \<Rightarrow> (string \<Rightarrow> jsnum) \<Rightarrow> jsnum \<Rightarrow> (string \<Rightarrow> string option) \<Rightarrow> jsnum \<Rightarrow> jsnum option" where
  "rate_limit_backoff_ms number_of date_of status headers now =
     (if \<not> num_eq status (Fin 403) \<and> \<not> num_eq status (Fin 429) then None
      else
      let from_reset =
        (let reset = (case headers ''x-ratelimit-reset'' of None \<Rightarrow> NaN | Some s \<Rightarrow> number_of s)
         in if is_finite reset then Some (num_max (Fin 0) (num_ceil (reset * Fin 1000 - now))) else None)
      in case headers ''retry-after'' of
           None \<Rightarrow> from_reset
         | Some s \<Rightarrow>
             if is_finite (number_of s) \<and> Fin 0 \<le> number_of s then Some (num_ceil (number_of s * Fin 1000))
             else if date_of s \<noteq> NaN then Some (num_max (Fin 0) (date_of s - now))
             else from_reset)"

fun split_on :: "char \<Rightarrow> string \<Rightarrow> string list" where
  "split_on c [] = [[]]"
| "split_on c (x # xs) =
     (if x = c then [] # split_on c xs
      else (case split_on c xs of p # ps \<Rightarrow> (x # p) # ps | [] \<Rightarrow> [[x]]))"

text \<open>\<open>/;\s*rel="next"\s*$/\<close> on a trimmed string, read from its end.\<close>

definition is_next_link :: "string \<Rightarrow> bool" where
  "is_next_link part =
     (let r = dropWhile is_space (rev part); pat = rev (''rel='' @ [CHR 0x22] @ ''next'' @ [CHR 0x22])
      in prefix pat r
         \<and> (case dropWhile is_space (drop (length pat) r) of c # _ \<Rightarrow> c = CHR '';'' | [] \<Rightarrow> False))"

text \<open>\<open>/[?&]page=(\d+)(?:[&#>]|$)/\<close>: the digits of the first match.\<close>

fun page_digits :: "string \<Rightarrow> string option" where
  "page_digits [] = None"
| "page_digits (c # cs) =
     (let rest = drop 5 cs; ds = takeWhile is_digit rest; after = dropWhile is_digit rest in
      if (c = CHR ''?'' \<or> c = CHR ''&'') \<and> prefix ''page='' cs \<and> ds \<noteq> []
         \<and> (after = [] \<or> hd after \<in> {CHR ''&'', CHR ''#'', CHR ''>''})
      then Some ds else page_digits cs)"

definition digits_value :: "string \<Rightarrow> jsnum" where
  "digits_value ds = fl (of_nat (foldl (\<lambda>n c. n * 10 + (of_char c - 48)) 0 ds))"

definition next_page :: "(string \<Rightarrow> string option) \<Rightarrow> jsnum exn + jsnum option" where
  "next_page headers =
     (case headers ''link'' of None \<Rightarrow> Inr None
      | Some link \<Rightarrow>
          (case find (\<lambda>part. is_next_link (trim part)) (split_on CHR '','' link) of
             None \<Rightarrow> Inr None
           | Some part \<Rightarrow>
               (case page_digits part of
                  None \<Rightarrow> Inl (response_error [Lit ''next Link is missing a page number''])
                | Some ds \<Rightarrow> rbind (gh_integer (JNum (digits_value ds)) [Lit ''next page''] False) (\<lambda>n. Inr (Some n)))))"

text \<open>\<open>x === n\<close> for an \<open>x\<close> that may be \<open>undefined\<close> or \<open>null\<close>.\<close>

definition is_number :: "jsnum option \<Rightarrow> jsnum \<Rightarrow> bool" where
  "is_number x n = (case x of None \<Rightarrow> False | Some a \<Rightarrow> num_eq a n)"

definition col_incomplete :: "jsnum message \<Rightarrow> jsnum option \<Rightarrow> 'a collection" where
  "col_incomplete m retry = \<lparr>col_complete = False, col_items = [], col_reason = Some m, col_retryAfterMs = retry\<rparr>"

definition col_done :: "'a list \<Rightarrow> 'a collection" where
  "col_done xs = \<lparr>col_complete = True, col_items = xs, col_reason = None, col_retryAfterMs = None\<rparr>"

text \<open>
  The loop of \<open>collectPages\<close>: \<open>Inl\<close> is an early \<open>return incomplete(...)\<close>, a throw of a callee is
  caught and becomes one.
\<close>

definition caught :: "jsnum exn + 'a \<Rightarrow> 'b collection + 'a" where
  "caught r = (case r of Inl (Exn _ m) \<Rightarrow> Inl (col_incomplete m None) | Inr x \<Rightarrow> Inr x)"

abbreviation stop :: "string \<Rightarrow> 'b collection + 'a" where
  "stop s \<equiv> Inl (col_incomplete [Lit s] None)"

definition page_ctx :: "jsnum \<Rightarrow> string \<Rightarrow> context_name" where
  "page_ctx n s = [Lit ''page '', Num n, Lit s]"

text \<open>What one page adds: its known, its items, and whether the links agree with its place.\<close>

definition read_page ::
  "(jsnum \<Rightarrow> (string \<Rightarrow> string option) \<Rightarrow> jsnum option) \<Rightarrow> string \<Rightarrow> (jsval \<Rightarrow> jsnum exn + 'a list)
   \<Rightarrow> jsnum \<Rightarrow> jsnum option \<Rightarrow> bool \<Rightarrow> page \<Rightarrow> 'a collection + jsnum \<times> 'a list \<times> jsnum option" where
  "read_page backoff arrayKey parse expected known is_last entry =
     (let resp = page_response entry; n = page_number entry in
      if \<not> num_eq n expected then stop ''pagination page sequence is incomplete''
      else if \<not> num_eq (resp_status resp) (Fin 200)
        then Inl (col_incomplete [Lit ''GitHub returned HTTP '', Num (resp_status resp)]
               (backoff (resp_status resp) (resp_headers resp)))
      else
      rbind (caught (gh_record (resp_body resp) (page_ctx n []))) (\<lambda>body.
      rbind (caught (gh_integer (get_prop body ''total_count'') (page_ctx n ''.total_count'') True)) (\<lambda>t.
      if known \<noteq> None \<and> known \<noteq> Some t then stop ''pagination total_count changed between pages''
      else if as_arr (get_prop body arrayKey) = None
        then Inl (col_incomplete [Lit ''page '', Num n, Lit ''.'', Lit arrayKey, Lit '' must be an array''] None)
      else
      rbind (caught (parse (resp_body resp))) (\<lambda>items.
      rbind (caught (next_page (resp_headers resp))) (\<lambda>next.
      case next of
        Some k \<Rightarrow> if \<not> num_eq k (n + Fin 1) then stop ''pagination Link skips a page''
                  else if is_last then stop ''pagination ended before the advertised next page''
                  else Inr (t, items, next)
      | None \<Rightarrow> if \<not> is_last then stop ''responses continue after the final pagination page''
                else Inr (t, items, next))))))"

fun collect_loop ::
  "(jsnum \<Rightarrow> (string \<Rightarrow> string option) \<Rightarrow> jsnum option) \<Rightarrow> string \<Rightarrow> (jsval \<Rightarrow> jsnum exn + 'a list) \<Rightarrow> ('a \<Rightarrow> 'k)
   \<Rightarrow> jsnum \<Rightarrow> jsnum option \<Rightarrow> ('k, 'a) jsmap \<Rightarrow> page list \<Rightarrow> 'a collection" where
  "collect_loop backoff arrayKey parse key expected known items [] =
     (if \<not> is_number known (Fin (of_nat (length items)))
      then col_incomplete [Lit ''pagination item count does not match total_count''] None
      else col_done (map snd items))"
| "collect_loop backoff arrayKey parse key expected known items (entry # rest) =
     (case read_page backoff arrayKey parse expected known (rest = []) entry of
        Inl c \<Rightarrow> c
      | Inr (t, new, next) \<Rightarrow>
          collect_loop backoff arrayKey parse key
            (case next of Some k \<Rightarrow> k | None \<Rightarrow> page_number entry + Fin 1) (Some t)
            (foldl (\<lambda>m x. map_set (key x) x m) items new) rest)"

definition collect_pages ::
  "(jsnum \<Rightarrow> (string \<Rightarrow> string option) \<Rightarrow> jsnum option) \<Rightarrow> page list \<Rightarrow> string \<Rightarrow> (jsval \<Rightarrow> jsnum exn + 'a list)
   \<Rightarrow> ('a \<Rightarrow> 'k) \<Rightarrow> 'a collection" where
  "collect_pages backoff pages arrayKey parse key =
     (if pages = [] then col_incomplete [Lit ''no response pages were received''] None
      else collect_loop backoff arrayKey parse key (Fin 1) None [] pages)"

definition run_key :: "workflow_run \<Rightarrow> jsnum \<times> jsnum" where
  "run_key r = (run_id r, run_attempt r)"

definition job_key :: "workflow_job \<Rightarrow> jsnum \<times> jsnum \<times> jsnum" where
  "job_key j = (job_runId j, job_runAttempt j, job_id j)"

definition collect_run_pages ::
  "(jsnum \<Rightarrow> (string \<Rightarrow> string option) \<Rightarrow> jsnum option) \<Rightarrow> page list \<Rightarrow> workflow_run collection" where
  "collect_run_pages backoff pages = collect_pages backoff pages ''workflow_runs'' parse_run_page run_key"

definition plain_page :: "job_page \<Rightarrow> page" where
  "plain_page p = \<lparr>page_number = page_number p, page_response = page_response p\<rparr>"

text \<open>The pages of each run attempt, in the order the attempts first appear.\<close>

definition group_pages :: "job_page list \<Rightarrow> (jsnum \<times> jsnum, job_page list) jsmap" where
  "group_pages pages =
     foldl (\<lambda>m p. let k = (page_runId p, page_runAttempt p)
                  in map_set k ((case map_get m k of None \<Rightarrow> [] | Some g \<Rightarrow> g) @ [p]) m) [] pages"

fun collect_groups ::
  "(jsnum \<Rightarrow> (string \<Rightarrow> string option) \<Rightarrow> jsnum option)
   \<Rightarrow> (jsnum \<times> jsnum \<times> jsnum, workflow_job) jsmap \<Rightarrow> ((jsnum \<times> jsnum) \<times> job_page list) list
   \<Rightarrow> workflow_job collection" where
  "collect_groups backoff items [] = col_done (map snd items)"
| "collect_groups backoff items (((runId, runAttempt), pages) # rest) =
     (let c = collect_pages backoff (map plain_page pages) ''jobs'' (parse_job_page runId runAttempt) job_key
      in if \<not> col_complete c then c
         else collect_groups backoff (foldl (\<lambda>m x. map_set (job_key x) x m) items (col_items c)) rest)"

definition collect_job_pages ::
  "(jsnum \<Rightarrow> (string \<Rightarrow> string option) \<Rightarrow> jsnum option) \<Rightarrow> job_page list \<Rightarrow> workflow_job collection" where
  "collect_job_pages backoff pages =
     (if pages = [] then col_done [] else collect_groups backoff [] (group_pages pages))"

section \<open>The owned runner\<close>

record runner_ownership =
  ro_ownership :: ownership_status
  ro_matches :: "repository_runner list"
  ro_runner :: "repository_runner option"

definition classify_owned_runners ::
  "repository_runner list \<Rightarrow> string \<Rightarrow> string \<Rightarrow> jsnum option \<Rightarrow> runner_ownership" where
  "classify_owned_runners runners expectedName ownershipLabel journaledId =
     (let matches = filter (\<lambda>r. runner_name r = expectedName \<and> ownershipLabel \<in> set (runner_labels r)) runners;
          outcome = (\<lambda>own r. \<lparr>ro_ownership = own, ro_matches = matches, ro_runner = r\<rparr>)
      in case journaledId of
           Some jid \<Rightarrow>
             (case find (\<lambda>r. num_eq (runner_id r) jid) runners of
                None \<Rightarrow> if matches = [] then outcome OAbsent None
                        else outcome (if 1 < length matches then OAmbiguous else OForeign) None
              | Some j \<Rightarrow>
                  if j \<notin> set matches \<or> length matches \<noteq> 1
                  then outcome (if 1 < length matches then OAmbiguous else OForeign) None
                  else outcome OOwned (Some j))
         | None \<Rightarrow>
             if matches = [] then outcome OAbsent None
             else if 1 < length matches then outcome OAmbiguous None
             else outcome OOwned (Some (hd matches)))"

section \<open>The queue snapshot\<close>

record queue_collection_input =
  qc_repository :: "github_repository option"
  qc_repositoryReason :: "jsnum message option"
  qc_expected :: github_repository
  qc_runs :: "workflow_run collection"
  qc_jobs :: "workflow_job collection"
  qc_runners :: "repository_runner collection"
  qc_workflowIds :: "jsnum list"
  qc_allowedBranch :: string
  qc_admission :: "admission_policy option"
  qc_eligibleJobNames :: "string list"
  qc_runnerLabel :: string
  qc_expectedRunnerName :: string
  qc_journaledRunnerId :: "jsnum option"
  qc_observedAtMs :: jsnum

record github_queue_snapshot = queue_snapshot +
  gq_retryAfterMs :: "jsnum option"
  gq_reason :: "jsnum message option"

definition run_admitted :: "workflow_run \<Rightarrow> admission_policy \<Rightarrow> string \<Rightarrow> bool" where
  "run_admitted r policy branch =
     (if policy = SameRepository
      then run_event r \<in> set [''push'', ''workflow_dispatch'', ''pull_request'', ''schedule'']
      else num_eq (pullRequestCount r) (Fin 0)
        \<and> (run_event r = ''push'' \<or> run_event r = ''workflow_dispatch'') \<and> headBranch r = branch)"

definition latest_attempts :: "workflow_run list \<Rightarrow> (jsnum, jsnum) jsmap" where
  "latest_attempts runs =
     foldl (\<lambda>m r. map_set (run_id r)
         (num_max (case map_get m (run_id r) of None \<Rightarrow> Fin 0 | Some a \<Rightarrow> a) (run_attempt r)) m) [] runs"

definition runs_by_attempt :: "workflow_run list \<Rightarrow> (jsnum \<times> jsnum, workflow_run) jsmap" where
  "runs_by_attempt runs =
     jm.of_list (map (\<lambda>r. (run_key r, r))
       (filter (\<lambda>r. is_number (map_get (latest_attempts runs) (run_id r)) (run_attempt r)) runs))"

definition includes_num :: "jsnum list \<Rightarrow> jsnum \<Rightarrow> bool" where
  "includes_num xs x \<longleftrightarrow> x \<in> set xs"

definition eligible_jobs :: "queue_collection_input \<Rightarrow> github_repository \<Rightarrow> workflow_job list" where
  "eligible_jobs inp repo =
     filter (\<lambda>j. case map_get (runs_by_attempt (col_items (qc_runs inp))) (job_runId j, job_runAttempt j) of
         None \<Rightarrow> False
       | Some r \<Rightarrow>
           num_eq (run_repositoryId r) (gh_id repo) \<and> num_eq (headRepositoryId r) (gh_id repo)
           \<and> run_admitted r (case qc_admission inp of None \<Rightarrow> DefaultBranchPushes | Some p \<Rightarrow> p) (qc_allowedBranch inp)
           \<and> includes_num (qc_workflowIds inp) (workflowId r)
           \<and> run_headSha r = job_headSha j \<and> job_name j \<in> set (qc_eligibleJobNames inp)
           \<and> qc_runnerLabel inp \<noteq> [] \<and> qc_runnerLabel inp \<in> set (job_labels j))
       (col_items (qc_jobs inp))"

definition incomplete_queue ::
  "queue_collection_input \<Rightarrow> jsnum message \<Rightarrow> jsnum option \<Rightarrow> github_queue_snapshot" where
  "incomplete_queue inp reason retry =
     \<lparr>queue_complete = False, eligibleQueuedJobs = Fin 0, ownedBusy = None,
      queue_observedAtMs = qc_observedAtMs inp, gq_retryAfterMs = retry, gq_reason = Some reason\<rparr>"

text \<open>The first of the three collections that is incomplete: its reason and retry delay.\<close>

definition incomplete_source :: "queue_collection_input \<Rightarrow> (jsnum message option \<times> jsnum option) option" where
  "incomplete_source inp =
     (if \<not> col_complete (qc_runs inp) then Some (col_reason (qc_runs inp), col_retryAfterMs (qc_runs inp))
      else if \<not> col_complete (qc_jobs inp) then Some (col_reason (qc_jobs inp), col_retryAfterMs (qc_jobs inp))
      else if \<not> col_complete (qc_runners inp)
        then Some (col_reason (qc_runners inp), col_retryAfterMs (qc_runners inp))
      else None)"

definition identity_matches :: "queue_collection_input \<Rightarrow> github_repository \<Rightarrow> bool" where
  "identity_matches inp repo \<longleftrightarrow>
     num_eq (gh_id repo) (gh_id (qc_expected inp))
     \<and> gh_nameWithOwner repo = gh_nameWithOwner (qc_expected inp)"

definition build_queue_snapshot :: "queue_collection_input \<Rightarrow> github_queue_snapshot" where
  "build_queue_snapshot inp =
     (let source = incomplete_source inp;
          retry = (case source of None \<Rightarrow> None | Some (_, t) \<Rightarrow> t) in
      case qc_repository inp of
        None \<Rightarrow> incomplete_queue inp
          (case qc_repositoryReason inp of Some m \<Rightarrow> m | None \<Rightarrow> [Lit ''repository observation is incomplete'']) retry
      | Some repo \<Rightarrow>
          if \<not> identity_matches inp repo
            then incomplete_queue inp [Lit ''repository identity does not match configuration''] retry
          else if source \<noteq> None \<or> \<not> is_finite (qc_observedAtMs inp)
            then incomplete_queue inp
              (case source of Some (Some m, _) \<Rightarrow> m | _ \<Rightarrow> [Lit ''snapshot input is incomplete'']) retry
          else
          let eligible = eligible_jobs inp repo;
              queued = length (filter (\<lambda>j. job_status j \<noteq> ''in_progress'' \<and> job_status j \<noteq> ''completed'') eligible);
              own = classify_owned_runners (col_items (qc_runners inp)) (qc_expectedRunnerName inp)
                (qc_runnerLabel inp) (qc_journaledRunnerId inp)
          in if ro_ownership own = OForeign \<or> ro_ownership own = OAmbiguous
             then incomplete_queue inp [Lit ''runner ownership is '', Lit (ownership_status_str (ro_ownership own))] None
             else
             let busy = (case ro_runner own of Some r \<Rightarrow> runner_busy r | None \<Rightarrow> False)
                   \<or> (\<exists>j \<in> set eligible. job_status j = ''in_progress''
                        \<and> (case ro_runner own of Some r \<Rightarrow> is_number (job_runnerId j) (runner_id r) | None \<Rightarrow> False))
             in \<lparr>queue_complete = True, eligibleQueuedJobs = Fin (of_nat queued), ownedBusy = Some busy,
                  queue_observedAtMs = qc_observedAtMs inp, gq_retryAfterMs = None, gq_reason = None\<rparr>)"

end
