(* ===== verification/Lifecycle_Properties.thy ===== *)
theory Lifecycle_Properties
  imports Lifecycle Samples
begin

text \<open>
  What the lifecycle decision promises: authority, budget, deadlines, drain, idle grace and
  capacity waits. Each theorem is a case analysis over \<open>transition\<close>.
\<close>

section \<open>Shared facts\<close>

lemma decide_effect_now:
  assumes "decide_lifecycle i = Inr d" "deffect d \<noteq> ENone"
  shows "is_finite (nowMs i)"
proof (rule ccontr)
  assume "\<not> is_finite (nowMs i)"
  with assms show False by (auto simp: decide_lifecycle_def)
qed

lemma grants_permit:
  assumes "grants i x" "is_finite (nowMs i)"
  obtains p where "permit i = Some p" "permit_structure p" "same_identity p (identity i)"
    "issuedAtMs p \<le> nowMs i" "nowMs i < expiresAtMs p" "x \<in> set (operations p)"
  using assms by (auto simp: validate_permit_Valid_iff permits_iff permit_structure_def finite_compare)

lemma recovery_permit:
  assumes "validate_recovery_permit (permit i) (identity i) (nowMs i) = Valid" "is_finite (nowMs i)"
  obtains p where "permit i = Some p" "permit_structure p" "same_identity p (identity i)"
    "issuedAtMs p \<le> nowMs i" "recoveryAllowed p"
  using assms by (auto simp: validate_recovery_permit_Valid_iff permit_structure_def finite_compare)

lemma start_budget_Inr:
  assumes "start_budget i = Inr available"
  obtains p where "permit i = Some p" "permit_structure p"
    "Fin 0 \<le> cumulativeRuntimeMs (journal i)" "Fin 0 \<le> cumulativeCostUsd (journal i)"
    "Fin 0 \<le> projectedStartCostUsd i"
    "Fin 0 < maxRuntimeMs p - cumulativeRuntimeMs (journal i)"
    "cumulativeCostUsd (journal i) + projectedStartCostUsd i \<le> maxTotalCostUsd p"
    "available = num_min (num_min (lifetimeMs (timing (config i)))
        (maxRuntimeMs p - cumulativeRuntimeMs (journal i))) (expiresAtMs p - nowMs i)"
    "\<not> available < maxJobMs (timing (config i)) + shutdownMarginMs (timing (config i))"
proof -
  obtain p where p: "permit i = Some p" "permit_structure p"
    using assms by (auto simp: start_budget_def validate_permit_Valid_iff split: permit_validation.splits)
  note inv = assms [unfolded start_budget_def p(1) option.case Let_def]
  have fin: "is_finite (cumulativeRuntimeMs (journal i))" "is_finite (cumulativeCostUsd (journal i))"
    "is_finite (projectedStartCostUsd i)" "is_finite (maxRuntimeMs p)" "is_finite (maxTotalCostUsd p)"
    using inv p(2) by (auto simp: permit_structure_def split: permit_validation.splits if_splits)
  obtain a b c r m where eqs: "cumulativeRuntimeMs (journal i) = Fin a" "cumulativeCostUsd (journal i) = Fin b"
    "projectedStartCostUsd i = Fin c" "maxRuntimeMs p = Fin r" "maxTotalCostUsd p = Fin m"
    using fin by (auto simp: is_finite_iff)
  show ?thesis
  proof (rule that [OF p])
    show "cumulativeCostUsd (journal i) + projectedStartCostUsd i \<le> maxTotalCostUsd p"
      using inv by (simp add: eqs num_not_less split: permit_validation.splits if_splits)
    show "Fin 0 < maxRuntimeMs p - cumulativeRuntimeMs (journal i)"
      using inv by (simp add: eqs num_not_le split: permit_validation.splits if_splits)
  qed (use inv in \<open>simp_all add: eqs split: permit_validation.splits if_splits\<close>)
qed

section \<open>Authority\<close>

text \<open>The permit operation an effect needs; adopting a VM changes nothing outside the journal.\<close>

fun effect_operation :: "lifecycle_effect \<Rightarrow> permit_operation option" where
  "effect_operation ENone = None"
| "effect_operation (ECreateVm _ _ _) = Some OpCreate"
| "effect_operation (EAdoptVm _ _) = None"
| "effect_operation (EStartVm _ _) = Some OpStart"
| "effect_operation (ERegisterRunner _) = Some OpRegister"
| "effect_operation (EBeginDrain _) = Some OpRegister"
| "effect_operation EResumeAdmission = Some OpRegister"
| "effect_operation (EStopVm _) = Some OpStop"
| "effect_operation (EDeleteVm _) = Some OpDelete"

lemma transition_authority:
  assumes "transition i st e" "effect_operation e = Some x"
  shows "grants i x
    \<or> x \<in> {OpStop, OpDelete} \<and> permits (permit i) x
       \<and> validate_recovery_permit (permit i) (identity i) (nowMs i) = Valid"
  using assms by (cases rule: transition.cases) (auto simp: validate_cleanup_permit_Valid_iff)


text \<open>The decision a stopped VM with queued work gets in the samples.\<close>

abbreviation stopped_with_work :: lifecycle_input where
  "stopped_with_work \<equiv> sample_input VStopped (Fin 1) (Fin 2000000) (sample_guest GOffline None)
     (sample_journal LStopped (Fin 0))"

lemma sample_start:
  "decide_lifecycle stopped_with_work =
   Inr (decision LStarting (EStartVm (Fin 1) (Fin 9200000)) ''eligible queued job requires the owned stopped VM'')"
  by (simp add: decide_lifecycle_def emergency_due_def deadline_reached_def validate_queue_observation_def
      valid_snapshot_enums_def owned_decision_def start_decision_def capacity_wait_decision_def
      start_budget_def authorized_def effective_grant_def fits_resume_def GUEST_UP_STATES_def Let_def
      sample_valid [unfolded sample_defs] sample_permits [unfolded sample_permit_def] sample_defs)


section \<open>Budget\<close>

lemma start_effect_budget:
  assumes "transition i st e" "e = ECreateVm g r deadline \<or> e = EStartVm g deadline"
  obtains available where "start_budget i = Inr available" "deadline = nowMs i + available"
    "g = startCount (journal i) + Fin 1" "\<not> max_starts i \<le> startCount (journal i)"
  using assms by (auto elim!: transition_create transition_start)

text \<open>The granted runtime against each of its limits.\<close>

lemma start_budget_available:
  assumes b: "start_budget i = Inr available" and p: "permit i = Some p"
    and clock: "clock_integer (nowMs i)" "clock_integer (expiresAtMs p)"
    and fin: "is_finite (lifetimeMs (timing (config i)))" "is_finite (maxJobMs (timing (config i)))"
      "is_finite (shutdownMarginMs (timing (config i)))"
  shows "nowMs i + available \<le> expiresAtMs p"
    and "nowMs i + available \<le> nowMs i + (maxRuntimeMs p - cumulativeRuntimeMs (journal i))"
    and "nowMs i + (maxJobMs (timing (config i)) + shutdownMarginMs (timing (config i))) \<le> nowMs i + available"
proof -
  let ?job = "maxJobMs (timing (config i)) + shutdownMarginMs (timing (config i))"
  let ?left = "maxRuntimeMs p - cumulativeRuntimeMs (journal i)"
  obtain left: "Fin 0 < ?left" and job: "\<not> available < ?job"
    and av: "available = num_min (num_min (lifetimeMs (timing (config i))) ?left) (expiresAtMs p - nowMs i)"
    using start_budget_Inr [OF b] p by auto
  obtain n m where nm: "nowMs i = Fin (of_int n)" "expiresAtMs p = Fin (of_int m)" "0 \<le> n" "0 \<le> m"
    "n \<le> 1125899906842624" "m \<le> 1125899906842624"
    using clock unfolding clock_integer_iff by blast
  have diff: "expiresAtMs p - nowMs i = Fin (of_int (m - n))"
    unfolding nm(1,2) using nm(3-6) by (intro num_of_int_simps) linarith
  have left_nan: "?left \<noteq> NaN" using left by auto
  then have av_nan: "available \<noteq> NaN" using av diff fin(1) by auto
  then have av_le: "available \<le> ?left" "available \<le> expiresAtMs p - nowMs i"
    unfolding av by (metis num_min_bounds num_min_eq_NaN num_le_trans)+
  have now: "is_finite (nowMs i)" using nm(1) by simp
  have "nowMs i + available \<le> nowMs i + Fin (of_int (m - n))"
    using av_le(2) now diff by (simp add: num_add_left_mono)
  also have "nowMs i + Fin (of_int (m - n)) = expiresAtMs p"
    unfolding nm(1,2) using nm(3-6) by (subst num_of_int_simps) auto
  finally show "nowMs i + available \<le> expiresAtMs p" .
  show "nowMs i + available \<le> nowMs i + ?left" using av_le(1) now by (rule num_add_left_mono)
  have "?job \<noteq> NaN" using fin(2,3) by (auto simp: is_finite_iff)
  with job av_nan have "?job \<le> available" by (simp add: num_not_less)
  then show "nowMs i + ?job \<le> nowMs i + available" using now by (rule num_add_left_mono)
qed



section \<open>What may be touched, and when\<close>

text \<open>
  The only effect on anything but exactly one proven owned VM is to create one where a
  complete observation saw none. Any effect on the owned VM other than the emergency stop at the
  deadline and the adoption of a created VM needs complete observations, nothing in flight at the
  provider or in the journal, and no job on the runner.
\<close>

theorem owned_and_idle_only:
  assumes "decide_lifecycle i = Inr d" "deffect d \<noteq> ENone"
  shows "(case deffect d of
      ECreateVm _ _ _ \<Rightarrow> vmStatus (provider i) = VAbsent \<and> ownership (provider i) = OAbsent
        \<and> num_eq (ownedMatches (provider i)) (Fin 0)
        \<and> prov_complete (provider i) \<and> queue_complete (queue i)
    | EAdoptVm _ _ \<Rightarrow> owns_one i \<and> prov_complete (provider i)
    | EStopVm True \<Rightarrow> owns_one i \<and> deadline_reached i \<and> outstandingIntent (journal i) = None
    | _ \<Rightarrow> owns_one i
        \<and> prov_complete (provider i) \<and> queue_complete (queue i) \<and> guest_complete (guest i)
        \<and> outstandingOperation (provider i) = None \<and> outstandingIntent (journal i) = None
        \<and> ownedBusy (queue i) = Some False \<and> workerActive (guest i) \<noteq> Some True
        \<and> guestStatus (guest i) \<noteq> GBusy)"
  using decide_lifecycle_transition [OF assms]
  by (cases rule: transition.cases) (simp_all add: settled_def emergency_due_def)

theorem owned_and_idle_only_witness:
  "owns_one stopped_with_work \<and> outstandingIntent (journal stopped_with_work) = None"
  using owned_and_idle_only [OF sample_start] by simp

lemma create_intent_outcome:
  assumes "decide_lifecycle i = Inr d" "outstandingIntent (journal i) = Some intent"
    "intent_type intent = CreateVm"
  shows "deffect d = ENone \<or> d = adoption_decision i intent"
proof -
  have "\<not> emergency_due i" using assms(2) by (simp add: emergency_due_def)
  then show ?thesis
    using assms(1) [unfolded decide_lifecycle_def assms(2) option.case if_P [OF assms(3)]]
    by (elim if_eqE) (auto split: option.splits)
qed

lemma adoption_effect:
  assumes "deffect (adoption_decision i intent) \<noteq> ENone"
  shows "deffect (adoption_decision i intent) = EAdoptVm (intent_generation intent) (intent_deadlineMs intent)
    \<and> owns_one i
    \<and> dstate (adoption_decision i intent) = (if vmStatus (provider i) = VStopped then LStopped
            else if vmStatus (provider i) = VRunning \<and> guest_complete (guest i)
              \<and> guestStatus (guest i) = GReady \<and> watchdogReady (guest i) = Some True
              \<and> sshIdentityVerified (guest i) = Some True \<and> registrationReady (guest i) = Some True
            then LReady else LStarting)"
  using assms unfolding adoption_decision_def Let_def by (auto split: if_splits)

text \<open>
  A VM whose creation was never confirmed is not created again: while the create intent
  is in the journal the decision either changes nothing, adopts exactly the generation and deadline
  of the intent, or is the emergency stop, which the intent itself rules out.
\<close>

theorem create_intent_not_repeated:
  assumes "decide_lifecycle i = Inr d" "outstandingIntent (journal i) = Some intent"
    "intent_type intent = CreateVm"
  shows "deffect d = ENone
    \<or> deffect d = EAdoptVm (intent_generation intent) (intent_deadlineMs intent) \<and> owns_one i
       \<and> dstate d = (if vmStatus (provider i) = VStopped then LStopped
            else if vmStatus (provider i) = VRunning \<and> guest_complete (guest i)
              \<and> guestStatus (guest i) = GReady \<and> watchdogReady (guest i) = Some True
              \<and> sshIdentityVerified (guest i) = Some True \<and> registrationReady (guest i) = Some True
            then LReady else LStarting)"
  using create_intent_outcome [OF assms] adoption_effect [of i intent] by blast

definition sample_create_intent :: mutation_intent where
  "sample_create_intent = \<lparr>intent_type = CreateVm, intent_generation = Fin 1,
     intent_status = Ambiguous, intent_deadlineMs = Fin 9200000\<rparr>"

abbreviation created_unconfirmed :: lifecycle_input where
  "created_unconfirmed \<equiv> sample_input VStarting (Fin 1) (Fin 2000000) (sample_guest GBooting None)
     (sample_journal LStarting (Fin 1)\<lparr>outstandingIntent := Some sample_create_intent\<rparr>)"

lemma sample_adoption:
  "decide_lifecycle created_unconfirmed =
   Inr (decision LStarting (EAdoptVm (Fin 1) (Fin 9200000))
     ''adopted the single proven owned resource after create uncertainty'')"
  by (simp add: decide_lifecycle_def emergency_due_def deadline_reached_def validate_queue_observation_def
      valid_snapshot_enums_def adoption_decision_def Let_def sample_defs sample_create_intent_def)

theorem create_intent_not_repeated_witness:
  "owns_one created_unconfirmed \<and> LStarting = dstate (decision LStarting (EAdoptVm (Fin 1) (Fin 9200000)) [])"
  using create_intent_not_repeated [OF sample_adoption, of sample_create_intent]
  by (simp add: sample_create_intent_def sample_defs)

section \<open>Stopping and deleting\<close>

text \<open>Idle grace in terms of the journal's observations.\<close>

lemma idle_order:
  assumes "\<forall>e \<in> set xs. idle_observedAtMs e \<le> t"
  shows "total_preorder_on (set xs) (\<lambda>a b. idle_observedAtMs a \<le> idle_observedAtMs b)"
proof -
  have nan: "idle_observedAtMs e \<noteq> NaN" if "e \<in> set xs" for e using assms that by fastforce
  show ?thesis unfolding total_preorder_on_def
  proof (intro conjI ballI impI)
    show "idle_observedAtMs a \<le> idle_observedAtMs b \<or> idle_observedAtMs b \<le> idle_observedAtMs a"
      if "a \<in> set xs" "b \<in> set xs" for a b
      using nan [OF that(1)] nan [OF that(2)] num_not_le num_less_imp_le by blast
  qed (blast intro: num_le_trans)
qed

lemma idle_entries_spec:
  assumes "e \<in> set (idle_entries i g)"
  shows "e \<in> set (idleObservations (journal i))" "idle_complete e" "num_eq (idle_generation e) g"
    "idle_observedAtMs e \<le> nowMs i"
    "x \<in> set (idleObservations (journal i)) \<Longrightarrow> num_eq (idle_generation x) g
     \<Longrightarrow> idle_observedAtMs x \<le> nowMs i \<Longrightarrow> \<not> idle_complete x \<Longrightarrow> idle_observedAtMs x \<le> idle_observedAtMs e"
proof -
  let ?xs = "filter (\<lambda>e. num_eq (idle_generation e) g \<and> idle_observedAtMs e \<le> nowMs i)
      (idleObservations (journal i))"
  let ?le = "\<lambda>a b. idle_observedAtMs a \<le> idle_observedAtMs b"
  have s: "e \<in> set (after_last (\<lambda>e. \<not> idle_complete e) (sort_by ?le ?xs))"
    using assms by (simp add: idle_entries_def)
  have "e \<in> set (sort_by ?le ?xs)" using s by (rule subsetD [OF set_after_last])
  then show "e \<in> set (idleObservations (journal i))" "num_eq (idle_generation e) g"
    "idle_observedAtMs e \<le> nowMs i" by auto
  show "idle_complete e" using after_last_none [OF s] by simp
  have "sorted_wrt ?le (sort_by ?le ?xs)"
    by (intro sorted_sort_by idle_order [where t = "nowMs i"]) auto
  from after_last_sorted [OF this _ _ s] show "idle_observedAtMs x \<le> idle_observedAtMs e"
    if "x \<in> set (idleObservations (journal i))" "num_eq (idle_generation x) g"
      "idle_observedAtMs x \<le> nowMs i" "\<not> idle_complete x" using that by simp
qed

lemma idle_grace_spec:
  assumes "idle_grace_satisfied i"
  shows "\<exists>g a b. grant (guest i) = Some g
    \<and> {a, b} \<subseteq> set (idleObservations (journal i))
    \<and> idle_complete a \<and> idle_complete b
    \<and> num_eq (idle_generation a) (grant_generation g) \<and> num_eq (idle_generation b) (grant_generation g)
    \<and> num_eq (idle_observedAtMs b) (queue_observedAtMs (queue i))
    \<and> idleGraceMs (timing (config i)) \<le> idle_observedAtMs b - idle_observedAtMs a
    \<and> (\<forall>x \<in> set (idleObservations (journal i)). num_eq (idle_generation x) (grant_generation g)
         \<and> idle_observedAtMs x \<le> nowMs i \<and> \<not> idle_complete x \<longrightarrow> idle_observedAtMs x \<le> idle_observedAtMs a)"
proof -
  obtain g where g: "grant (guest i) = Some g"
    using assms by (auto simp: idle_grace_satisfied_def split: option.splits)
  let ?c = "idle_entries i (grant_generation g)"
  from assms have c: "2 \<le> length ?c"
    "num_eq (idle_observedAtMs (last ?c)) (queue_observedAtMs (queue i))"
    "idleGraceMs (timing (config i)) \<le> idle_observedAtMs (last ?c) - idle_observedAtMs (hd ?c)"
    by (simp_all add: idle_grace_satisfied_def g Let_def)
  then have "hd ?c \<in> set ?c" "last ?c \<in> set ?c" by (auto intro!: hd_in_set last_in_set)
  note h = idle_entries_spec [OF this(1)] and l = idle_entries_spec [OF this(2)]
  show ?thesis
    by (rule exI [of _ g], rule exI [of _ "hd ?c"], rule exI [of _ "last ?c"])
      (intro conjI g h(2,3) l(2,3) c(2,3) ballI impI, use h(1) l(1) h(5) in auto)
qed


text \<open>A drained guest after two idle observations.\<close>

abbreviation drained_idle :: lifecycle_input where
  "drained_idle \<equiv> sample_input VRunning (Fin 0) (Fin 3000000)
     (sample_guest GDrained (Some sample_grant))
     (sample_journal LDraining (Fin 1)\<lparr>idleObservations :=
        [\<lparr>idle_observedAtMs = Fin 2880000, idle_complete = True, idle_generation = Fin 1\<rparr>,
         \<lparr>idle_observedAtMs = Fin 3000000, idle_complete = True, idle_generation = Fin 1\<rparr>]\<rparr>)"

lemma sample_stop:
  "decide_lifecycle drained_idle =
   Inr (decision LStopping (EStopVm False) ''idle grace passed and guest is drained'')"
  by (simp add: decide_lifecycle_def emergency_due_def deadline_reached_def validate_queue_observation_def
      valid_snapshot_enums_def owned_decision_def draining_decision_def guest_is_drained_def
      idle_grace_satisfied_def idle_entries_def authorized_def effective_grant_def fits_resume_def
      GUEST_UP_STATES_def Let_def
      sample_valid [unfolded sample_defs] sample_permits [unfolded sample_permit_def] sample_defs)



abbreviation stopped_idle :: lifecycle_input where
  "stopped_idle \<equiv> sample_input VStopped (Fin 0) (Fin 3000000) (sample_guest GOffline None)
     (sample_journal LStopping (Fin 1))"

lemma sample_cleanup_valid: "Fin 1000000 \<le> t \<Longrightarrow> t < Fin 100000000 \<Longrightarrow>
   validate_cleanup_permit (Some sample_permit) sample_identity t = Valid"
  by (simp add: validate_cleanup_permit_Valid_iff sample_valid)

lemma sample_delete:
  "decide_lifecycle stopped_idle =
   Inr (decision LAbsent (EDeleteVm (Fin 1)) ''idle stopped VM and its retained disk are no longer needed'')"
  by (simp add: decide_lifecycle_def emergency_due_def deadline_reached_def validate_queue_observation_def
      valid_snapshot_enums_def owned_decision_def authorized_cleanup_def effective_grant_def fits_resume_def
      GUEST_UP_STATES_def Let_def sample_cleanup_valid [unfolded sample_defs] sample_defs)


section \<open>Deadlines\<close>

text \<open>
  C5 (liveness). Once the journal's deadline has passed, the running owned VM is stopped at once, on
  nothing but the journal, the provider's ownership and a permit that allows recovery and stop: no
  queue or guest observation, whatever it claims, and no expiry of the permit delays it.
\<close>

theorem deadline_enforced:
  assumes "deadline_reached i" "is_finite (nowMs i)" "Fin 0 < startCount (journal i)"
    "outstandingIntent (journal i) = None" "owns_one i" "vmStatus (provider i) \<notin> {VStopped, VAbsent}"
    "permit i = Some p" "permit_structure p" "same_identity p (identity i)" "issuedAtMs p \<le> nowMs i"
    "recoveryAllowed p" "OpStop \<in> set (operations p)"
  shows "decide_lifecycle (i\<lparr>queue := q, guest := g\<rparr>) =
    Inr (decision LStopping (EStopVm True) ''immutable start lifetime reached'')"
proof -
  let ?i = "i\<lparr>queue := q, guest := g\<rparr>"
  have "emergency_due ?i" using assms
    by (auto simp: emergency_due_def deadline_reached_def split: option.splits)
  moreover have "validate_recovery_permit (permit ?i) (identity ?i) (nowMs ?i) = Valid"
    using assms by (auto simp: validate_recovery_permit_Valid_iff permit_structure_def is_finite_iff)
  moreover have "valid_snapshot_enums ?i"
    unfolding valid_snapshot_enums_def
    by (cases "vmStatus (provider i)"; cases "ownership (provider i)"; cases "guestStatus g") simp_all
  moreover have "is_integer (ownedMatches (provider i))" "\<not> ownedMatches (provider i) < Fin 0"
    using assms(5) by (auto dest: num_eqD)
  ultimately show ?thesis using assms
    by (simp add: decide_lifecycle_def emergency_decision_def permits_iff)
qed

theorem deadline_enforced_witness:
  "decide_lifecycle (sample_input VRunning (Fin 3) (Fin 9200000) (sample_guest GBusy (Some sample_grant))
      (sample_journal LBusy (Fin 1))\<lparr>queue := sample_queue (Fin 3) (Fin 1), guest := sample_guest GUnknown None\<rparr>)
   = Inr (decision LStopping (EStopVm True) ''immutable start lifetime reached'')"
  by (rule deadline_enforced [where p = sample_permit])
    (simp_all add: deadline_reached_def permit_structure_def same_identity_def sample_defs)

text \<open>
  A runner is registered only when a job that starts by the assignment cutoff and takes
  the longest job time still ends, shutdown margin included, before the guest's deadline, the
  journal's deadline and the permit's expiry (for integer times).
\<close>

theorem registration_cutoff_fits:
  assumes d: "decide_lifecycle i = Inr d" "deffect d = ERegisterRunner cutoff"
    and g: "grant (guest i) = Some g" and p: "permit i = Some p"
    and ints: "clock_integer (grant_deadlineMs g)" "clock_integer (expiresAtMs p)"
      "clock_integer (maxJobMs (timing (config i)))" "clock_integer (shutdownMarginMs (timing (config i)))"
      "\<And>t. grantDeadlineMs (journal i) = Some t \<Longrightarrow> clock_integer t"
  shows "nowMs i \<le> cutoff
    \<and> (\<forall>limit. limit = grant_deadlineMs g \<or> limit = expiresAtMs p \<or> grantDeadlineMs (journal i) = Some limit
        \<longrightarrow> cutoff + maxJobMs (timing (config i)) + shutdownMarginMs (timing (config i)) \<le> limit)"
proof -
  let ?mj = "maxJobMs (timing (config i))" and ?mg = "shutdownMarginMs (timing (config i))"
  have "transition i (dstate d) (ERegisterRunner cutoff)"
    using decide_lifecycle_transition [OF d(1)] d(2) by simp
  then obtain eg where eg: "effective_grant i = Some eg" "cutoff = cutoff_of i eg" "\<not> cutoff < nowMs i"
    by (auto elim: transition_register)
  define dl where "dl = grant_deadlineMs eg"
  have dl: "dl = (case grantDeadlineMs (journal i) of None \<Rightarrow> grant_deadlineMs g
      | Some t \<Rightarrow> num_min t (grant_deadlineMs g))"
    using eg(1) g by (auto simp: effective_grant_def dl_def)
  have "\<exists>n. dl = Fin (of_int n) \<and> 0 \<le> n \<and> n \<le> 1125899906842624 \<and> dl \<le> grant_deadlineMs g
      \<and> (\<forall>t. grantDeadlineMs (journal i) = Some t \<longrightarrow> dl \<le> t)"
  proof (cases "grantDeadlineMs (journal i)")
    case None
    then show ?thesis using ints(1) by (auto simp: dl clock_integer_iff)
  next
    case (Some t)
    then show ?thesis using ints(1) ints(5) [OF Some] unfolding clock_integer_iff
      by (auto simp: dl num_of_int_simps(5) simp del: num_min_Fin)
  qed
  then obtain n where n: "dl = Fin (of_int n)" "0 \<le> n" "n \<le> 1125899906842624" "dl \<le> grant_deadlineMs g"
    "\<forall>t. grantDeadlineMs (journal i) = Some t \<longrightarrow> dl \<le> t" by blast
  obtain m b c where mbc: "expiresAtMs p = Fin (of_int m)" "?mj = Fin (of_int b)" "?mg = Fin (of_int c)"
    "0 \<le> m" "m \<le> 1125899906842624" "0 \<le> b" "b \<le> 1125899906842624" "0 \<le> c" "c \<le> 1125899906842624"
    using ints(2-4) unfolding clock_integer_iff by blast
  have cut: "cutoff = Fin (of_int (min n m - b - c))"
    using n(1-3) mbc(4-9) p
    by (simp only: eg(2) cutoff_of_def safe_cutoff_ms_def option.case flip: dl_def)
      (simp add: n(1) mbc(1-3) num_of_int_simps del: num_fin_simps num_min_Fin of_int_diff)
  have job_end: "cutoff + ?mj + ?mg = Fin (of_int (min n m))"
    using n(1-3) mbc(4-9) unfolding cut mbc(2,3)
    by (simp add: num_of_int_simps del: num_fin_simps num_min_Fin of_int_diff of_int_add)
  have le: "Fin (of_int (min n m)) \<le> dl" "Fin (of_int (min n m)) \<le> expiresAtMs p"
    unfolding n(1) mbc(1) by simp_all
  have "nowMs i \<noteq> NaN" using decide_effect_now [OF d(1)] d(2) by auto
  then have "nowMs i \<le> cutoff" using eg(3) cut by (simp add: num_not_less)
  then show ?thesis unfolding job_end using le n(4,5) num_le_trans by blast
qed

abbreviation ready_with_work :: lifecycle_input where
  "ready_with_work \<equiv> sample_input VRunning (Fin 1) (Fin 3000000)
     (sample_guest GReady (Some sample_grant)) (sample_journal LStarting (Fin 1))"

lemma sample_register:
  "decide_lifecycle ready_with_work =
   Inr (decision LReady (ERegisterRunner (Fin 7100000)) ''eligible job fits both immutable deadlines'')"
  by (simp add: decide_lifecycle_def emergency_due_def deadline_reached_def validate_queue_observation_def
      valid_snapshot_enums_def owned_decision_def registration_decision_def cutoff_of_def safe_cutoff_ms_def
      authorized_def effective_grant_def fits_resume_def GUEST_UP_STATES_def Let_def
      sample_valid [unfolded sample_defs] sample_permits [unfolded sample_permit_def] sample_defs)

theorem registration_cutoff_fits_witness:
  "Fin 3000000 \<le> Fin 7100000 \<and> Fin 7100000 + Fin 1800000 + Fin 300000 \<le> grant_deadlineMs sample_grant"
  using registration_cutoff_fits [OF sample_register, of "Fin 7100000" sample_grant sample_permit]
  by (simp add: sample_defs)

section \<open>Serving demand and waiting for capacity\<close>

text \<open>
  Queued work starts the stopped owned VM: with complete and fresh observations,
  nothing in flight, no wait in force, starts and budget left and a permit for starting, the decision
  is to start the next generation.
\<close>

theorem demand_starts_stopped_vm:
  assumes "settled i" "vmStatus (provider i) = VStopped" "demand i" "is_finite (nowMs i)"
    "validate_queue_observation i = None" "jstate (journal i) \<in> {LAbsent, LStopped, LStopping, LBlocked}"
    "\<And>w. capacityWait (journal i) = Some w \<Longrightarrow> retryAtMs w \<le> nowMs i"
    "start_budget i = Inr available" "startCount (journal i) < max_starts i" "permits (permit i) OpStart"
  shows "decide_lifecycle i = Inr (decision LStarting
     (EStartVm (startCount (journal i) + Fin 1) (nowMs i + available))
     ''eligible queued job requires the owned stopped VM'')"
proof -
  have up: "jstate (journal i) \<notin> set GUEST_UP_STATES" "jstate (journal i) \<noteq> LDraining"
    using assms(6) by (auto simp: GUEST_UP_STATES_def)
  have jobs: "\<not> no_demand i" using assms(3) by (auto dest: num_eqD)
  have valid: "validate_permit (permit i) (identity i) (nowMs i) = Valid"
    using assms(8) by (auto simp: start_budget_def split: permit_validation.splits)
  have left: "\<not> max_starts i \<le> startCount (journal i)"
    using assms(9) by (cases "max_starts i"; cases "startCount (journal i)") (auto simp: num_ops)
  have "owned_decision i = start_decision i"
    using up jobs assms(2,3) by (simp add: owned_settled [OF assms(1)])
  moreover have "capacity_wait_decision i (jstate (journal i)) = None"
    using assms(7) by (simp add: capacity_wait_decision_None)
  ultimately have own: "owned_decision i = Inr (decision LStarting
     (EStartVm (startCount (journal i) + Fin 1) (nowMs i + available))
     ''eligible queued job requires the owned stopped VM'')"
    using left valid assms(8,10) by (simp add: start_decision_def authorized_def)
  have owns: "owns_one i" "outstandingIntent (journal i) = None" using assms(1) by (auto simp: settled_def)
  then have "is_integer (ownedMatches (provider i))" "\<not> ownedMatches (provider i) < Fin 0"
    by (auto dest: num_eqD)
  moreover have "\<not> emergency_due i" using assms(2) by (simp add: emergency_due_def)
  moreover have "valid_snapshot_enums i" unfolding valid_snapshot_enums_def
    by (cases "vmStatus (provider i)"; cases "ownership (provider i)"; cases "guestStatus (guest i)") simp_all
  ultimately show ?thesis using own owns assms(4,5) by (simp add: decide_lifecycle_def assms(2))
qed

theorem demand_starts_stopped_vm_witness:
  "decide_lifecycle stopped_with_work = Inr (decision LStarting
     (EStartVm (startCount (journal stopped_with_work) + Fin 1) (nowMs stopped_with_work + Fin 7200000))
     ''eligible queued job requires the owned stopped VM'')"
proof (rule demand_starts_stopped_vm)
  show "start_budget stopped_with_work = Inr (Fin 7200000)"
    by (simp add: start_budget_def Let_def sample_valid [unfolded sample_defs] sample_defs)
qed (simp_all add: settled_def validate_queue_observation_def Let_def sample_defs permits_def)

text \<open>
  While a capacity wait is in force no decision starts a VM, and none creates one when
  creation is what the provider refused; an idle stopped VM may still be deleted.
\<close>

theorem capacity_wait_holds:
  assumes "decide_lifecycle i = Inr d" "capacityWait (journal i) = Some w" "nowMs i < retryAtMs w"
  shows "deffect d \<noteq> EStartVm g t \<and> (refusedEffect w = CreateVm \<longrightarrow> deffect d \<noteq> ECreateVm g r t)"
proof -
  have held: "\<not> retryAtMs w \<le> nowMs i"
    using assms(3) by (cases "retryAtMs w"; cases "nowMs i") (auto simp: num_ops)
  have "\<not> transition i st (EStartVm g t)" for st
    using assms(2) held by (auto elim!: transition_start)
  moreover have "\<not> transition i st (ECreateVm g r t)" if "refusedEffect w = CreateVm" for st
    using assms(2) held that by (auto elim!: transition_create)
  ultimately show ?thesis using decide_lifecycle_transition [OF assms(1)] by (metis lifecycle_effect.distinct(1,5))
qed

definition sample_wait :: capacity_wait where
  "sample_wait = next_capacity_wait None \<lparr>quotas = [''vpc.ipv4-address.public.count'']\<rparr> StartVm
     (Fin 2000000) (Fin 60000)"

lemma sample_wait_retry: "retryAtMs sample_wait = Fin 2120000" "refusedEffect sample_wait = StartVm"
  by (simp_all add: sample_wait_def next_capacity_wait_def continues_def capacity_backoff_ms_def
      CAPACITY_RETRY_MAX_MS_def CAPACITY_RETRY_BASE_MS_def Let_def)

abbreviation refused_with_work :: lifecycle_input where
  "refused_with_work \<equiv> sample_input VStopped (Fin 1) (Fin 2050000) (sample_guest GOffline None)
     (sample_journal LStopped (Fin 0)\<lparr>capacityWait := Some sample_wait\<rparr>)"

lemma sample_hold: "\<exists>d. decide_lifecycle refused_with_work = Inr d \<and> capacity_hold d"
  by (simp add: decide_lifecycle_def emergency_due_def deadline_reached_def validate_queue_observation_def
      valid_snapshot_enums_def owned_decision_def start_decision_def capacity_wait_decision_def iso_time_def
      effective_grant_def fits_resume_def GUEST_UP_STATES_def Let_def sample_wait_retry sample_defs)

theorem capacity_wait_holds_witness:
  "\<exists>d. decide_lifecycle refused_with_work = Inr d \<and> deffect d \<noteq> EStartVm (Fin 1) (Fin 9250000)"
proof -
  obtain d where "decide_lifecycle refused_with_work = Inr d" using sample_hold by blast
  from capacity_wait_holds [OF this, of sample_wait "Fin 1" "Fin 9250000" "Fin 1"] this show ?thesis
    by (auto simp: sample_wait_retry sample_input_def)
qed

text \<open>The waits double from two minutes to sixteen.\<close>

lemma capacity_backoff_exact:
  assumes "1 \<le> n" "n \<le> 9007199254740992"
  shows "capacity_backoff_ms (Fin (of_int n)) = Fin (of_int (min 960000 (120000 * 2 ^ nat (min (n - 1) 16))))"
proof -
  define k where "k = nat (min (n - 1) 16)"
  have k: "k \<le> 16" "int k = min (n - 1) 16" using assms by (auto simp: k_def)
  have "Fin (of_int n) - Fin 1 = Fin (of_int (n - 1))" using num_diff_of_int [of n 1] assms by simp
  then have m: "num_min (Fin (of_int n) - Fin 1) (Fin 16) = Fin (of_int (int k))"
    using num_of_int_simps(5) [of "n - 1" 16] by (simp only: of_int_numeral k(2))
  have pw: "(2::int) ^ k \<le> 2 ^ 16" using k(1) by (intro power_increasing) auto
  have "(2::rat) powi int k = of_int (2 ^ k)" by simp
  then have "pow2 (Fin (of_int (int k))) = Fin (of_int (2 ^ k))"
    using fl_of_int [of "2 ^ k"] pw by (simp only: pow2.simps floor_of_int) simp
  moreover have "Fin 120000 * Fin (of_int (2 ^ k)) = Fin (of_int (120000 * 2 ^ k))"
    using fl_of_int [of "120000 * 2 ^ k"] pw by simp
  ultimately show ?thesis
    unfolding capacity_backoff_ms_def CAPACITY_RETRY_BASE_MS_def CAPACITY_RETRY_MAX_MS_def m k_def [symmetric]
    using num_of_int_simps(5) [of 960000 "120000 * 2 ^ k"] by (simp only: of_int_numeral)
qed

text \<open>
  Whatever the history of refusals, the next attempt comes no sooner than two minutes
  and the poll interval from now, and no later than sixteen minutes (or the poll interval, if that
  is longer); a refusal within sixteen minutes of the last retry time continues the episode, counts
  it and keeps its first time, any later one starts a new episode.
\<close>

theorem next_capacity_wait_bounds:
  assumes "clock_integer now" "clock_integer poll"
    and prev: "\<And>w. previous = Some w \<Longrightarrow> \<exists>n. refusals w = Fin (of_int n) \<and> 1 \<le> n \<and> n < 9007199254740992"
  shows "let w = next_capacity_wait previous refusal effect now poll in
      now + num_max poll (Fin 120000) \<le> retryAtMs w \<and> retryAtMs w \<le> now + num_max poll (Fin 960000)
      \<and> refusedEffect w = effect \<and> lastRefusedAtMs w = now
      \<and> (case previous of
           Some p \<Rightarrow> if now - retryAtMs p \<le> Fin 960000
             then refusals w = refusals p + Fin 1 \<and> firstRefusedAtMs w = firstRefusedAtMs p
             else refusals w = Fin 1 \<and> firstRefusedAtMs w = now
         | None \<Rightarrow> refusals w = Fin 1 \<and> firstRefusedAtMs w = now)"
proof -
  let ?w = "next_capacity_wait previous refusal effect now poll"
  obtain t l where tl: "now = Fin (of_int t)" "poll = Fin (of_int l)"
    using assms(1,2) unfolding clock_integer_iff by blast
  have "\<exists>n. refusals ?w = Fin (of_int n) \<and> 1 \<le> n \<and> n \<le> 9007199254740992"
  proof (cases "continues previous now")
    case None
    then show ?thesis by (intro exI [of _ 1]) (simp add: next_capacity_wait_def Let_def)
  next
    case (Some p)
    then have "previous = Some p" by (auto simp: continues_def split: option.splits if_splits)
    with prev obtain n where n: "refusals p = Fin (of_int n)" "1 \<le> n" "n < 9007199254740992" by blast
    have "refusals p + Fin 1 = Fin (of_int (n + 1))" using num_add_of_int [of n 1] n by simp
    with n Some show ?thesis by (intro exI [of _ "n + 1"]) (simp add: next_capacity_wait_def Let_def)
  qed
  then obtain n where n: "refusals ?w = Fin (of_int n)" "1 \<le> n" "n \<le> 9007199254740992" by blast
  define b :: int where "b = min 960000 (120000 * 2 ^ nat (min (n - 1) 16))"
  have "retryAtMs ?w = now + num_max poll (capacity_backoff_ms (refusals ?w))"
    by (simp add: next_capacity_wait_def Let_def)
  moreover have "capacity_backoff_ms (refusals ?w) = Fin (of_int b)"
    unfolding n(1) b_def using n(2,3) by (rule capacity_backoff_exact)
  moreover have "num_max poll (Fin (of_int b)) = Fin (of_int (max l b))"
    unfolding tl(2) by (rule num_of_int_simps)
  ultimately have retry: "retryAtMs ?w = now + Fin (of_int (max l b))" by simp
  have b: "120000 \<le> b" "b \<le> 960000" by (auto simp: b_def)
  have lo: "num_max poll (Fin 120000) \<le> Fin (of_int (max l b))"
    and hi: "Fin (of_int (max l b)) \<le> num_max poll (Fin 960000)"
    using b num_of_int_simps(6) [of l 120000] num_of_int_simps(6) [of l 960000]
    by (simp_all add: tl(2) del: num_max_Fin)
  show ?thesis unfolding Let_def retry
    using num_add_left_mono [OF lo, of now] num_add_left_mono [OF hi, of now] tl(1)
    by (auto simp: next_capacity_wait_def Let_def continues_def CAPACITY_RETRY_MAX_MS_def split: option.split)
qed

theorem next_capacity_wait_bounds_witness:
  "retryAtMs sample_wait \<le> Fin 2000000 + num_max (Fin 60000) (Fin 960000) \<and> refusals sample_wait = Fin 1"
  using next_capacity_wait_bounds [of "Fin 2000000" "Fin 60000" None] by (simp add: sample_wait_def Let_def)

section \<open>Permits\<close>

text \<open>
  C6 (roundtrip). \<open>parsePermit\<close> reads the JSON of a permit back as the same permit exactly when the
  permit is well formed, and everything it accepts is well formed.
\<close>

theorem parse_permit_exact:
  "(parse_permit (json_of_permit p) = Inr p \<longleftrightarrow> permit_wf p) \<and> (parse_permit v = Inr q \<longrightarrow> permit_wf q)"
  using parse_permit_wf parse_json_of_permit by blast

theorem parse_permit_exact_witness:
  "permit_wf sample_permit \<and> parse_permit (json_of_permit sample_permit) = Inr sample_permit"
proof -
  have "permit_wf sample_permit"
    by (simp add: permit_wf_def permit_structure_def sample_permit_def is_space_def)
  then show ?thesis using parse_permit_exact [of sample_permit "json_of_permit sample_permit" sample_permit] by simp
qed

text \<open>
  What each authority accepts: an active permit is well formed, issued, unexpired and
  names the identity; recovery drops the expiry but asks for the permit's own consent; cleanup and
  release accept either kind and ask for their operation.
\<close>

theorem authorities_accept:
  "(validate_permit (Some p) i t = Valid \<longleftrightarrow>
      permit_structure p \<and> same_identity p i \<and> \<not> t < issuedAtMs p \<and> \<not> expiresAtMs p \<le> t)
   \<and> (validate_recovery_permit (Some p) j t = Valid \<longleftrightarrow>
      permit_structure p \<and> same_identity p j \<and> \<not> t < issuedAtMs p \<and> recoveryAllowed p)
   \<and> (validate_cleanup_permit (Some p) j t = Valid \<longleftrightarrow>
      permit_structure p \<and> same_identity p j \<and> \<not> t < issuedAtMs p
      \<and> \<not> (expiresAtMs p \<le> t \<and> \<not> recoveryAllowed p) \<and> OpDelete \<in> set (operations p))
   \<and> (validate_release_permit (Some p) j t = Valid \<longleftrightarrow>
      permit_structure p \<and> same_identity p j \<and> \<not> t < issuedAtMs p
      \<and> \<not> (expiresAtMs p \<le> t \<and> \<not> recoveryAllowed p) \<and> OpReleaseRouting \<in> set (operations p))"
  by (auto simp: validate_permit_Valid_iff validate_recovery_permit_Valid_iff
      validate_cleanup_permit_Valid_iff validate_release_permit_Valid_iff permits_iff)

end
