(* ===== verification/GithubQueue_Properties.thy ===== *)
theory GithubQueue_Properties
  imports Github Lifecycle_Properties
begin

text \<open>
  What the reduction of GitHub's answers to the queue snapshot promises, and what follows for the
  lifecycle decision that reads it.
\<close>

section \<open>Complete collections\<close>

lemma caught_eq_Inr [result_simps]: "caught r = Inr x \<longleftrightarrow> r = Inr x"
  by (auto simp: caught_def split: sum.splits exn.splits)

lemma gh_integer_eq_Inr:
  "gh_integer v ctx allow_zero = Inr n \<longleftrightarrow>
     v = JNum n \<and> is_safe_integer n \<and> (if allow_zero then Fin 0 else Fin 1) \<le> n"
  by (cases n) (auto simp: gh_integer_def Let_def is_safe_integer_def split: option.splits)

lemma gh_record_eq_Inr: "gh_record v ctx = Inr kvs \<longleftrightarrow> v = JObj kvs"
  by (simp add: gh_record_def result_simps)

lemma next_page_safe: "next_page headers = Inr (Some k) \<Longrightarrow> is_safe_integer k"
  by (auto simp: next_page_def result_simps gh_integer_eq_Inr split: option.splits)

lemma read_page_Inr:
  assumes "read_page backoff arr parse expected known is_last entry = Inr (t, new, nxt)"
  shows "num_eq (page_number entry) expected" "num_eq (resp_status (page_response entry)) (Fin 200)"
    "\<exists>kvs. resp_body (page_response entry) = JObj kvs \<and> get_prop kvs ''total_count'' = JNum t"
    "known = None \<or> known = Some t" "parse (resp_body (page_response entry)) = Inr new"
    "next_page (resp_headers (page_response entry)) = Inr nxt" "is_last \<longleftrightarrow> nxt = None"
    "\<And>k. nxt = Some k \<Longrightarrow> num_eq k (page_number entry + Fin 1)"
  using assms
  by (auto simp: read_page_def Let_def result_simps gh_record_eq_Inr gh_integer_eq_Inr
      split: if_splits option.splits)

text \<open>An early return of the page loop is an incomplete collection.\<close>

definition gives_up :: "'b collection + 'a \<Rightarrow> bool" where
  "gives_up r \<longleftrightarrow> (\<forall>c. r = Inl c \<longrightarrow> \<not> col_complete c)"

lemma gives_up_intros:
  "gives_up m \<Longrightarrow> (\<And>x. gives_up (f x)) \<Longrightarrow> gives_up (rbind m f)"
  "gives_up (caught r)"
  "gives_up (Inl (col_incomplete msg t))"
  "gives_up (Inr x)"
  "gives_up a \<Longrightarrow> gives_up b \<Longrightarrow> gives_up (if p then a else b)"
  "gives_up a \<Longrightarrow> (\<And>y. gives_up (g y)) \<Longrightarrow> gives_up (case v of None \<Rightarrow> a | Some y \<Rightarrow> g y)"
  by (auto simp: gives_up_def result_simps col_incomplete_def caught_def split: sum.splits exn.splits option.splits)

lemma read_page_gives_up: "gives_up (read_page backoff arr parse expected known is_last entry)"
  unfolding read_page_def Let_def by (intro gives_up_intros)

text \<open>The items found so far, each under its own key.\<close>

definition keyed :: "('a \<Rightarrow> 'k) \<Rightarrow> ('k, 'a) jsmap \<Rightarrow> bool" where
  "keyed key m \<longleftrightarrow> map_ok m \<and> (\<forall>(k, x) \<in> set m. k = key x)"

lemma set_map_set: "set (map_set k x m) \<subseteq> insert (k, x) (set m)"
  by (induction m) (auto split: if_splits)

lemma keys_set: "fst ` set (map_set k x m) = insert k (fst ` set m)"
proof -
  have "fst ` set (map_set k x m) = set (map fst (map_set k x m))" by simp
  also have "\<dots> = insert k (set (map fst m))"
    unfolding map_keys_set using map_of_eq_None_iff [of m k] by (auto simp: map_get_def)
  finally show ?thesis by simp
qed

lemma keyed_set: "keyed key m \<Longrightarrow> keyed key (map_set (key x) x m)"
  using jm.invar_upd [of m "key x" x] set_map_set [of "key x" x m] by (fastforce simp: keyed_def)

lemma keyed_foldl:
  "keyed key m \<Longrightarrow> keyed key (foldl (\<lambda>m x. map_set (key x) x m) m xs)
     \<and> fst ` set (foldl (\<lambda>m x. map_set (key x) x m) m xs) = fst ` set m \<union> key ` set xs"
  by (induction xs arbitrary: m) (auto simp: keyed_set keys_set)

lemma keyed_items: "keyed key m \<Longrightarrow> distinct (map key (map snd m)) \<and> key ` set (map snd m) = fst ` set m"
proof -
  assume k: "keyed key m"
  then have "map key (map snd m) = map fst m" by (induction m) (auto simp: keyed_def map_ok_def)
  then show ?thesis using k unfolding keyed_def map_ok_def by (metis list.set_map)
qed

definition page_counted :: "(jsval \<Rightarrow> jsnum exn + 'a list) \<Rightarrow> ('a \<Rightarrow> 'k) \<Rightarrow> 'a list \<Rightarrow> page \<Rightarrow> bool" where
  "page_counted parse key items p \<longleftrightarrow>
     num_eq (resp_status (page_response p)) (Fin 200)
     \<and> (\<exists>kvs new. resp_body (page_response p) = JObj kvs
          \<and> get_prop kvs ''total_count'' = JNum (Fin (of_nat (length items)))
          \<and> parse (resp_body (page_response p)) = Inr new \<and> key ` set new \<subseteq> key ` set items)"

lemma safe_nat: "is_safe_integer (Fin (of_nat n)) \<Longrightarrow> Fin (of_nat n) + Fin 1 = Fin (of_nat (Suc n))"
proof -
  assume "is_safe_integer (Fin (of_nat n))"
  then have "int n \<le> 9007199254740991" by (auto simp: is_safe_integer_def)
  then show ?thesis using num_add_of_int [of "int n" 1] by (simp add: add.commute)
qed

lemma collect_loop_whole:
  assumes "collect_loop backoff arr parse key (Fin (of_nat n)) known items pages = c" "col_complete c"
    "is_safe_integer (Fin (of_nat n))" "keyed key items"
  shows "\<exists>final. col_items c = map snd final \<and> keyed key final \<and> fst ` set items \<subseteq> fst ` set final
    \<and> (known \<noteq> None \<longrightarrow> known = Some (Fin (of_nat (length final))))
    \<and> (\<forall>i < length pages. page_number (pages ! i) = Fin (of_nat (n + i))
         \<and> page_counted parse key (map snd final) (pages ! i)
         \<and> (next_page (resp_headers (page_response (pages ! i))) = Inr None \<longleftrightarrow> Suc i = length pages))"
  using assms
proof (induction pages arbitrary: n known items)
  case Nil
  then have "is_number known (Fin (of_nat (length items)))"
    by (auto simp: col_incomplete_def split: if_splits)
  then have "known = Some (Fin (of_nat (length items)))" "c = col_done (map snd items)"
    using Nil.prems(1) by (auto simp: is_number_def num_eq_def split: option.splits)
  then show ?case using Nil.prems(4) by (intro exI [of _ items]) (simp add: col_done_def)
next
  case (Cons p pages)
  show ?case
  proof (cases "read_page backoff arr parse (Fin (of_nat n)) known (pages = []) p")
    case (Inl c')
    have "\<not> col_complete c'" using Inl read_page_gives_up unfolding gives_up_def by blast
    then show ?thesis using Cons.prems(1,2) Inl by simp
  next
    case (Inr r)
    obtain t new nxt where r: "r = (t, new, nxt)" by (cases r)
    note page = read_page_Inr [OF Inr [unfolded r]]
    have pn: "page_number p = Fin (of_nat n)" using page(1) by (simp add: num_eq_def)
    let ?items = "foldl (\<lambda>m x. map_set (key x) x m) items new"
    let ?n = "case nxt of None \<Rightarrow> page_number p + Fin 1 | Some k \<Rightarrow> k"
    have step: "collect_loop backoff arr parse key ?n (Some t) ?items pages = c"
      using Cons.prems(1) Inr r by simp
    note items = keyed_foldl [OF Cons.prems(4), of new]
    have at_next: "?n = Fin (of_nat (Suc n))"
      using page(8) pn safe_nat [OF Cons.prems(3)] by (cases nxt) (auto simp: num_eq_def)
    have "\<exists>final. col_items c = map snd final \<and> keyed key final \<and> fst ` set ?items \<subseteq> fst ` set final
      \<and> t = Fin (of_nat (length final))
      \<and> (\<forall>i < length pages. page_number (pages ! i) = Fin (of_nat (Suc n + i))
           \<and> page_counted parse key (map snd final) (pages ! i)
           \<and> (next_page (resp_headers (page_response (pages ! i))) = Inr None \<longleftrightarrow> Suc i = length pages))"
    proof (cases nxt)
      case None
      then have "pages = []" using page(7) by simp
      then have "is_number (Some t) (Fin (of_nat (length ?items)))" "c = col_done (map snd ?items)"
        using step Cons.prems(2) by (auto simp: col_incomplete_def split: if_splits)
      then show ?thesis using items \<open>pages = []\<close>
        by (intro exI [of _ ?items]) (auto simp: col_done_def is_number_def num_eq_def)
    next
      case (Some k)
      then have "is_safe_integer (Fin (of_nat (Suc n)))" using next_page_safe page(6) at_next by fastforce
      from Cons.IH [OF step [unfolded at_next] Cons.prems(2) this] items show ?thesis by simp
    qed
    then obtain final where f: "col_items c = map snd final" "keyed key final"
        "fst ` set ?items \<subseteq> fst ` set final" "t = Fin (of_nat (length final))"
        "\<forall>i < length pages. page_number (pages ! i) = Fin (of_nat (Suc n + i))
           \<and> page_counted parse key (map snd final) (pages ! i)
           \<and> (next_page (resp_headers (page_response (pages ! i))) = Inr None \<longleftrightarrow> Suc i = length pages)"
      by blast
    have "page_counted parse key (map snd final) p"
      using page(2,3,5) f(3,4) items keyed_items [OF f(2)] by (auto simp: page_counted_def)
    then have "\<forall>i < length (p # pages). page_number ((p # pages) ! i) = Fin (of_nat (n + i))
         \<and> page_counted parse key (map snd final) ((p # pages) ! i)
         \<and> (next_page (resp_headers (page_response ((p # pages) ! i))) = Inr None \<longleftrightarrow> Suc i = length (p # pages))"
      using f(5) page(6,7) pn by (simp add: nth_Cons split: nat.split)
    then show ?thesis using f items page(4) by (intro exI [of _ final]) auto
  qed
qed

lemma collect_pages_whole:
  assumes "collect_pages backoff pages arr parse key = c" "col_complete c"
  shows "pages \<noteq> [] \<and> distinct (map key (col_items c))
    \<and> (\<forall>i < length pages. page_number (pages ! i) = Fin (of_nat (Suc i))
         \<and> page_counted parse key (col_items c) (pages ! i)
         \<and> (next_page (resp_headers (page_response (pages ! i))) = Inr None \<longleftrightarrow> Suc i = length pages))"
proof -
  have ne: "pages \<noteq> []" using assms by (auto simp: collect_pages_def col_incomplete_def)
  have "keyed key []" by (simp add: keyed_def map_ok_def)
  from collect_loop_whole [of backoff arr parse key 1 None "[]" pages, OF _ assms(2) _ this] assms(1) ne
  show ?thesis using keyed_items by (fastforce simp: collect_pages_def is_safe_integer_def)
qed

section \<open>Parsed runs\<close>

text \<open>What the strict parser and the collection by key give every list of runs.\<close>

definition runs_ok :: "workflow_run list \<Rightarrow> bool" where
  "runs_ok runs \<longleftrightarrow> distinct (map run_key runs)
     \<and> (\<forall>r \<in> set runs. is_safe_integer (run_attempt r) \<and> Fin 1 \<le> run_attempt r)"

lemma rmapi_set: "rmapi f i xs = Inr ys \<Longrightarrow> y \<in> set ys \<Longrightarrow> \<exists>k x. f k x = Inr y"
  by (induction xs arbitrary: i ys) (auto simp: result_simps, blast)

lemma parse_run_attempt:
  "parse_run i v = Inr r \<Longrightarrow> is_safe_integer (run_attempt r) \<and> Fin 1 \<le> run_attempt r"
  unfolding parse_run_def Let_def
  by (simp only: result_simps gh_integer_eq_Inr if_False sum.inject) auto

lemma parse_run_page_attempts:
  "parse_run_page v = Inr rs \<Longrightarrow> r \<in> set rs \<Longrightarrow> is_safe_integer (run_attempt r) \<and> Fin 1 \<le> run_attempt r"
  by (auto simp: parse_run_page_def result_simps dest!: rmapi_set parse_run_attempt)

section \<open>The current attempt of a run\<close>

definition latest_in :: "workflow_run list \<Rightarrow> workflow_run \<Rightarrow> bool" where
  "latest_in runs r \<longleftrightarrow> (\<forall>r' \<in> set runs. run_id r' = run_id r \<longrightarrow> run_attempt r' \<le> run_attempt r)"

lemma num_max_safe:
  "is_safe_integer a \<Longrightarrow> is_safe_integer b \<Longrightarrow>
     num_max a b \<in> {a, b} \<and> a \<le> num_max a b \<and> b \<le> num_max a b"
  by (cases a; cases b) (auto simp: num_max_def is_safe_integer_def)

text \<open>The map built so far holds, for every run id seen, the greatest of its attempts.\<close>

definition tracks :: "workflow_run list \<Rightarrow> (jsnum, jsnum) jsmap \<Rightarrow> bool" where
  "tracks seen m \<longleftrightarrow> (\<forall>i. case map_get m i of
       None \<Rightarrow> \<forall>r \<in> set seen. run_id r \<noteq> i
     | Some a \<Rightarrow> is_safe_integer a \<and> (\<exists>r \<in> set seen. run_id r = i \<and> run_attempt r = a)
         \<and> (\<forall>r \<in> set seen. run_id r = i \<longrightarrow> run_attempt r \<le> a))"

lemma tracks_step:
  assumes t: "tracks seen m" and r: "is_safe_integer (run_attempt r)" "Fin 1 \<le> run_attempt r"
  shows "tracks (seen @ [r])
    (map_set (run_id r) (num_max (case map_get m (run_id r) of None \<Rightarrow> Fin 0 | Some a \<Rightarrow> a) (run_attempt r)) m)"
  unfolding tracks_def
proof (rule allI)
  fix i
  let ?old = "case map_get m (run_id r) of None \<Rightarrow> Fin 0 | Some a \<Rightarrow> a"
  let ?m = "map_set (run_id r) (num_max ?old (run_attempt r)) m"
  have here: "case map_get m i of None \<Rightarrow> \<forall>r \<in> set seen. run_id r \<noteq> i
     | Some a \<Rightarrow> is_safe_integer a \<and> (\<exists>r \<in> set seen. run_id r = i \<and> run_attempt r = a)
         \<and> (\<forall>r \<in> set seen. run_id r = i \<longrightarrow> run_attempt r \<le> a)" for i
    using t unfolding tracks_def by blast
  show "case map_get ?m i of None \<Rightarrow> \<forall>r' \<in> set (seen @ [r]). run_id r' \<noteq> i
     | Some a \<Rightarrow> is_safe_integer a \<and> (\<exists>r' \<in> set (seen @ [r]). run_id r' = i \<and> run_attempt r' = a)
         \<and> (\<forall>r' \<in> set (seen @ [r]). run_id r' = i \<longrightarrow> run_attempt r' \<le> a)"
  proof (cases "i = run_id r")
    case False
    then show ?thesis using here [of i] by (auto simp: map_get_set split: option.splits)
  next
    case True
    show ?thesis
    proof (cases "map_get m (run_id r)")
      case None
      have "num_max (Fin 0) (run_attempt r) = run_attempt r" "run_attempt r \<le> run_attempt r"
        using r by (cases "run_attempt r"; simp add: num_max_def)+
      then show ?thesis using True None here [of i] r by (auto simp: map_get_set)
    next
      case (Some a)
      then have a: "is_safe_integer a" using here [of "run_id r"] by simp
      let ?b = "num_max a (run_attempt r)"
      note b = num_max_safe [OF a r(1)]
      have known: "\<exists>r' \<in> set seen. run_id r' = i \<and> run_attempt r' = a"
          "\<forall>r' \<in> set seen. run_id r' = i \<longrightarrow> run_attempt r' \<le> a"
        using here [of i] True Some by simp_all
      have "map_get ?m i = Some ?b" using True Some by (simp add: map_get_set)
      moreover have "is_safe_integer ?b" using b a r(1) by auto
      moreover have "\<exists>r' \<in> set (seen @ [r]). run_id r' = i \<and> run_attempt r' = ?b"
        using known(1) b True by auto
      moreover have "\<forall>r' \<in> set (seen @ [r]). run_id r' = i \<longrightarrow> run_attempt r' \<le> ?b"
        using known(2) b num_le_trans by auto
      ultimately show ?thesis by simp
    qed
  qed
qed

lemma latest_attempts_tracks:
  assumes "\<forall>r \<in> set runs. is_safe_integer (run_attempt r) \<and> Fin 1 \<le> run_attempt r"
  shows "tracks runs (latest_attempts runs)"
  using assms
proof (induction runs rule: rev_induct)
  case Nil
  then show ?case by (simp add: latest_attempts_def tracks_def map_get_def)
next
  case (snoc r runs)
  then show ?case using tracks_step [of runs "latest_attempts runs" r] by (simp add: latest_attempts_def)
qed

lemma latest_attempt_iff:
  assumes "runs_ok runs" "r \<in> set runs"
  shows "is_number (map_get (latest_attempts runs) (run_id r)) (run_attempt r) \<longleftrightarrow> latest_in runs r"
proof -
  have ok: "\<forall>r \<in> set runs. is_safe_integer (run_attempt r) \<and> Fin 1 \<le> run_attempt r"
    using assms(1) by (simp add: runs_ok_def)
  have t: "case map_get (latest_attempts runs) (run_id r) of None \<Rightarrow> \<forall>r' \<in> set runs. run_id r' \<noteq> run_id r
     | Some a \<Rightarrow> is_safe_integer a \<and> (\<exists>r' \<in> set runs. run_id r' = run_id r \<and> run_attempt r' = a)
         \<and> (\<forall>r' \<in> set runs. run_id r' = run_id r \<longrightarrow> run_attempt r' \<le> a)"
    using latest_attempts_tracks [OF ok] unfolding tracks_def by blast
  then obtain a where a: "map_get (latest_attempts runs) (run_id r) = Some a"
    using assms(2) by (auto split: option.splits)
  have anti: "x \<le> y \<Longrightarrow> y \<le> x \<Longrightarrow> x = y" for x y :: jsnum by (cases x; cases y) auto
  show ?thesis
    using t a anti assms(2) ok by (auto simp: is_number_def latest_in_def num_eq_def)
qed

text \<open>The run a job belongs to, as a relation on the lists.\<close>

lemma runs_by_attempt_iff:
  assumes "runs_ok runs"
  shows "map_get (runs_by_attempt runs) k = Some r \<longleftrightarrow> r \<in> set runs \<and> run_key r = k \<and> latest_in runs r"
proof -
  let ?kept = "filter (\<lambda>r. is_number (map_get (latest_attempts runs) (run_id r)) (run_attempt r)) runs"
  let ?kvs = "map (\<lambda>r. (run_key r, r)) ?kept"
  have "distinct (map run_key ?kept)" using assms by (simp add: runs_ok_def distinct_map_filter)
  then have d: "distinct (map fst (rev ?kvs))" by (simp add: rev_map [symmetric] comp_def)
  have "map_get (runs_by_attempt runs) k = map_of (rev ?kvs) k"
    by (simp add: runs_by_attempt_def jm.get_of_list)
  then have "map_get (runs_by_attempt runs) k = Some r \<longleftrightarrow> (k, r) \<in> set ?kvs"
    using map_of_eq_Some_iff [OF d] by simp
  then show ?thesis using latest_attempt_iff [OF assms] by auto
qed

section \<open>The queue snapshot\<close>

text \<open>The job belongs to the current attempt of an admitted run and asks for the owned runner.\<close>

definition job_counts :: "queue_collection_input \<Rightarrow> github_repository \<Rightarrow> workflow_job \<Rightarrow> bool" where
  "job_counts inp repo j \<longleftrightarrow>
     (\<exists>r \<in> set (col_items (qc_runs inp)). run_key r = (job_runId j, job_runAttempt j)
        \<and> latest_in (col_items (qc_runs inp)) r
        \<and> num_eq (run_repositoryId r) (gh_id repo) \<and> num_eq (headRepositoryId r) (gh_id repo)
        \<and> run_admitted r (case qc_admission inp of None \<Rightarrow> DefaultBranchPushes | Some p \<Rightarrow> p) (qc_allowedBranch inp)
        \<and> workflowId r \<in> set (qc_workflowIds inp) \<and> run_headSha r = job_headSha j)
     \<and> job_name j \<in> set (qc_eligibleJobNames inp)
     \<and> qc_runnerLabel inp \<noteq> [] \<and> qc_runnerLabel inp \<in> set (job_labels j)"

lemma eligible_jobs_eq:
  assumes "runs_ok (col_items (qc_runs inp))"
  shows "eligible_jobs inp repo = filter (job_counts inp repo) (col_items (qc_jobs inp))"
  unfolding eligible_jobs_def
proof (rule filter_cong [OF refl])
  fix j :: workflow_job
  let ?runs = "col_items (qc_runs inp)"
  note iff = runs_by_attempt_iff [OF assms, of "(job_runId j, job_runAttempt j)"]
  show "(case map_get (runs_by_attempt ?runs) (job_runId j, job_runAttempt j) of
         None \<Rightarrow> False
       | Some r \<Rightarrow>
           num_eq (run_repositoryId r) (gh_id repo) \<and> num_eq (headRepositoryId r) (gh_id repo)
           \<and> run_admitted r (case qc_admission inp of None \<Rightarrow> DefaultBranchPushes | Some p \<Rightarrow> p) (qc_allowedBranch inp)
           \<and> includes_num (qc_workflowIds inp) (workflowId r)
           \<and> run_headSha r = job_headSha j \<and> job_name j \<in> set (qc_eligibleJobNames inp)
           \<and> qc_runnerLabel inp \<noteq> [] \<and> qc_runnerLabel inp \<in> set (job_labels j)) = job_counts inp repo j"
  proof (cases "map_get (runs_by_attempt ?runs) (job_runId j, job_runAttempt j)")
    case None
    then have "\<not> (r \<in> set ?runs \<and> run_key r = (job_runId j, job_runAttempt j) \<and> latest_in ?runs r)" for r
      using iff [of r] by simp
    then show ?thesis using None unfolding job_counts_def by auto
  next
    case (Some r)
    have "r' = r" if "r' \<in> set ?runs" "run_key r' = (job_runId j, job_runAttempt j)" "latest_in ?runs r'" for r'
      using iff [of r'] that Some by simp
    then show ?thesis using iff [of r] Some by (auto simp: job_counts_def includes_num_def)
  qed
qed

definition job_queued :: "workflow_job \<Rightarrow> bool" where
  "job_queued j \<longleftrightarrow> job_status j \<noteq> ''in_progress'' \<and> job_status j \<noteq> ''completed''"

definition owned_runner :: "queue_collection_input \<Rightarrow> runner_ownership" where
  "owned_runner inp = classify_owned_runners (col_items (qc_runners inp)) (qc_expectedRunnerName inp)
     (qc_runnerLabel inp) (qc_journaledRunnerId inp)"

text \<open>All of GitHub was read, it is the configured repository, and the runners are not in doubt.\<close>

definition observed_whole :: "queue_collection_input \<Rightarrow> bool" where
  "observed_whole inp \<longleftrightarrow>
     (case qc_repository inp of None \<Rightarrow> False | Some repo \<Rightarrow> identity_matches inp repo)
     \<and> col_complete (qc_runs inp) \<and> col_complete (qc_jobs inp) \<and> col_complete (qc_runners inp)
     \<and> is_finite (qc_observedAtMs inp) \<and> ro_ownership (owned_runner inp) \<in> {OAbsent, OOwned}"

lemma classify_status:
  "ro_ownership (classify_owned_runners rs nm lbl jid) \<in> {OAbsent, OOwned, OForeign, OAmbiguous}"
  by (auto simp: classify_owned_runners_def Let_def split: option.split)

lemma incomplete_queue_simps [simp]:
  "\<not> queue_complete (incomplete_queue inp m t)" "eligibleQueuedJobs (incomplete_queue inp m t) = Fin 0"
  "ownedBusy (incomplete_queue inp m t) = None" "gq_reason (incomplete_queue inp m t) = Some m"
  by (simp_all add: incomplete_queue_def)

lemma build_queue_snapshot_unseen:
  assumes "\<not> observed_whole inp"
  shows "\<exists>m t. build_queue_snapshot inp = incomplete_queue inp m t"
proof (cases "qc_repository inp")
  case None
  then show ?thesis by (auto simp: build_queue_snapshot_def Let_def)
next
  case (Some repo)
  have src: "incomplete_source inp = None \<longleftrightarrow>
      col_complete (qc_runs inp) \<and> col_complete (qc_jobs inp) \<and> col_complete (qc_runners inp)"
    by (simp add: incomplete_source_def)
  show ?thesis
  proof (cases "identity_matches inp repo \<and> incomplete_source inp = None \<and> is_finite (qc_observedAtMs inp)")
    case False
    then show ?thesis using Some by (auto simp: build_queue_snapshot_def Let_def)
  next
    case True
    then have "ro_ownership (owned_runner inp) \<in> {OForeign, OAmbiguous}"
      using assms Some src classify_status unfolding observed_whole_def owned_runner_def by fastforce
    then show ?thesis using Some True
      by (auto simp: build_queue_snapshot_def Let_def owned_runner_def)
  qed
qed

lemma build_queue_snapshot_whole:
  assumes "observed_whole inp" "runs_ok (col_items (qc_runs inp))"
  shows "\<exists>repo. qc_repository inp = Some repo \<and> identity_matches inp repo
    \<and> queue_complete (build_queue_snapshot inp)
    \<and> queue_observedAtMs (build_queue_snapshot inp) = qc_observedAtMs inp
    \<and> eligibleQueuedJobs (build_queue_snapshot inp) = Fin (of_nat (length
        (filter (\<lambda>j. job_counts inp repo j \<and> job_queued j) (col_items (qc_jobs inp)))))
    \<and> ownedBusy (build_queue_snapshot inp) = Some (case ro_runner (owned_runner inp) of
         None \<Rightarrow> False
       | Some r \<Rightarrow> runner_busy r \<or> (\<exists>j \<in> set (col_items (qc_jobs inp)). job_counts inp repo j
            \<and> job_status j = ''in_progress'' \<and> is_number (job_runnerId j) (runner_id r)))"
proof -
  obtain repo where repo: "qc_repository inp = Some repo" "identity_matches inp repo"
    using assms(1) by (auto simp: observed_whole_def split: option.splits)
  have src: "incomplete_source inp = None" "is_finite (qc_observedAtMs inp)"
    using assms(1) by (simp_all add: observed_whole_def incomplete_source_def)
  have own: "ro_ownership (owned_runner inp) \<noteq> OForeign" "ro_ownership (owned_runner inp) \<noteq> OAmbiguous"
    using assms(1) by (auto simp: observed_whole_def)
  have queued: "filter (\<lambda>j. job_status j \<noteq> ''in_progress'' \<and> job_status j \<noteq> ''completed'') (eligible_jobs inp repo)
      = filter (\<lambda>j. job_counts inp repo j \<and> job_queued j) (col_items (qc_jobs inp))"
    by (simp add: eligible_jobs_eq [OF assms(2)] job_queued_def conj_commute)
  show ?thesis
    using repo src own queued
    by (cases "ro_runner (owned_runner inp)")
      (auto simp: build_queue_snapshot_def Let_def eligible_jobs_eq [OF assms(2)] simp flip: owned_runner_def)
qed

section \<open>Properties\<close>

text \<open>
  A collection called complete is the whole of what GitHub advertised: the pages
  are numbered from 1 without a gap and only the last has no next link, every page was answered with
  HTTP 200, announces the same total, parses, and every item of it is in the collection under its key;
  the keys are distinct and there are exactly as many items as announced.
\<close>

theorem complete_collection_is_whole:
  assumes "collect_pages backoff pages arr parse key = c" "col_complete c"
  shows "pages \<noteq> [] \<and> distinct (map key (col_items c))
    \<and> (\<forall>i < length pages. page_number (pages ! i) = Fin (of_nat (Suc i))
         \<and> page_counted parse key (col_items c) (pages ! i)
         \<and> (next_page (resp_headers (page_response (pages ! i))) = Inr None \<longleftrightarrow> Suc i = length pages))"
  by (rule collect_pages_whole [OF assms])

definition sample_run_json :: jsval where
  "sample_run_json = JObj [(''id'', JNum (Fin 11)), (''workflow_id'', JNum (Fin 7)), (''run_attempt'', JNum (Fin 2)),
     (''status'', JStr ''queued''), (''conclusion'', JNull), (''event'', JStr ''push''),
     (''head_branch'', JStr ''main''), (''head_sha'', JStr ''abc''),
     (''repository'', JObj [(''id'', JNum (Fin 42))]), (''head_repository'', JObj [(''id'', JNum (Fin 42))]),
     (''pull_requests'', JArr [])]"

definition sample_pages :: "page list" where
  "sample_pages = [\<lparr>page_number = Fin 1, page_response = \<lparr>resp_status = Fin 200, resp_headers = (\<lambda>_. None),
     resp_body = JObj [(''total_count'', JNum (Fin 1)), (''workflow_runs'', JArr [sample_run_json])]\<rparr>\<rparr>]"

definition sample_run :: workflow_run where
  "sample_run = \<lparr>run_id = Fin 11, workflowId = Fin 7, run_attempt = Fin 2, run_status = ''queued'',
     run_conclusion = None, run_event = ''push'', headBranch = ''main'', run_headSha = ''abc'',
     run_repositoryId = Fin 42, headRepositoryId = Fin 42, pullRequestCount = Fin 0\<rparr>"

lemma sample_parse_run: "parse_run i sample_run_json = Inr sample_run"
  by (simp add: parse_run_def sample_run_json_def sample_run_def gh_record_def gh_string_def gh_integer_def
      parse_conclusion_def is_safe_integer_def RUN_STATUSES_def ACTIVE_RUN_STATUSES_def Let_def)

lemma sample_collect: "collect_run_pages backoff sample_pages = col_done [sample_run]"
  by (simp add: collect_run_pages_def collect_pages_def sample_pages_def read_page_def Let_def caught_def
      gh_record_def gh_integer_def is_safe_integer_def parse_run_page_def sample_parse_run next_page_def
      is_number_def)

theorem complete_collection_is_whole_witness:
  "page_counted parse_run_page run_key [sample_run] (sample_pages ! 0)"
  using complete_collection_is_whole [of "\<lambda>_ _. None" sample_pages "''workflow_runs''" parse_run_page run_key "col_done [sample_run]"]
    sample_collect [of "\<lambda>_ _. None"]
  by (simp add: collect_run_pages_def col_done_def sample_pages_def)

text \<open>
  C19 (error). Anything short of a whole observation (a repository that was not read or is not the
  configured one, a collection that is incomplete, a time that is not finite, a runner that is foreign
  or ambiguous) gives a snapshot that is incomplete, counts no job, does not say whether the runner is
  busy and names a reason; the lifecycle decision on such a snapshot carries no effect but the emergency
  stop at the deadline and the adoption of a VM whose creation was interrupted.
\<close>

theorem unseen_queue_fails_closed:
  assumes "\<not> observed_whole inp" "queue i = queue_snapshot.truncate (build_queue_snapshot inp)"
    "decide_lifecycle i = Inr d"
  shows "\<not> queue_complete (build_queue_snapshot inp)
    \<and> eligibleQueuedJobs (build_queue_snapshot inp) = Fin 0 \<and> ownedBusy (build_queue_snapshot inp) = None
    \<and> gq_reason (build_queue_snapshot inp) \<noteq> None
    \<and> (deffect d = ENone \<or> deffect d = EStopVm True \<or> (\<exists>g t. deffect d = EAdoptVm g t))"
proof -
  obtain m t where q: "build_queue_snapshot inp = incomplete_queue inp m t"
    using build_queue_snapshot_unseen [OF assms(1)] by blast
  have "\<not> queue_complete (queue i)"
    by (simp add: assms(2) q queue_snapshot.truncate_def)
  then have "deffect d = ENone \<or> deffect d = EStopVm True \<or> (\<exists>g t. deffect d = EAdoptVm g t)"
    using decide_lifecycle_transition [OF assms(3)]
    by (cases "deffect d = ENone") (auto simp: settled_def elim: transition.cases)
  then show ?thesis by (simp add: q)
qed

definition sample_collection_input :: "jsnum \<Rightarrow> workflow_run collection \<Rightarrow> queue_collection_input" where
  "sample_collection_input t runs =
     \<lparr>qc_repository = Some \<lparr>gh_id = Fin 42, gh_nameWithOwner = ''acme/widgets''\<rparr>, qc_repositoryReason = None,
      qc_expected = \<lparr>gh_id = Fin 42, gh_nameWithOwner = ''acme/widgets''\<rparr>, qc_runs = runs,
      qc_jobs = col_done [\<lparr>job_id = Fin 5, job_runId = Fin 11, job_runAttempt = Fin 2, job_headSha = ''abc'',
        job_status = ''queued'', job_conclusion = None, job_name = ''verify'', job_labels = [''cirujano-42''],
        job_runnerId = None, job_runnerName = None, job_runnerGroupId = None, job_runnerGroupName = None,
        job_startedAt = None, job_completedAt = None\<rparr>],
      qc_runners = col_done [], qc_workflowIds = [Fin 7], qc_allowedBranch = ''main'',
      qc_admission = Some SameRepository, qc_eligibleJobNames = [''verify''], qc_runnerLabel = ''cirujano-42'',
      qc_expectedRunnerName = ''cirujano-runner'', qc_journaledRunnerId = None, qc_observedAtMs = t\<rparr>"

text \<open>
  C20 (equivalence). Of a whole observation the snapshot counts exactly the queued jobs that belong
  to the current attempt of an admitted run of the repository itself, of an enrolled workflow and with
  the run's commit, have an enrolled name and ask for the runner's label; and the owned runner is busy
  exactly when GitHub says so or such a job is in progress on it.
\<close>

theorem snapshot_counts_eligible_jobs:
  assumes "observed_whole inp" "runs_ok (col_items (qc_runs inp))"
  shows "\<exists>repo. qc_repository inp = Some repo \<and> identity_matches inp repo
    \<and> queue_complete (build_queue_snapshot inp)
    \<and> queue_observedAtMs (build_queue_snapshot inp) = qc_observedAtMs inp
    \<and> eligibleQueuedJobs (build_queue_snapshot inp) = Fin (of_nat (length
        (filter (\<lambda>j. job_counts inp repo j \<and> job_queued j) (col_items (qc_jobs inp)))))
    \<and> ownedBusy (build_queue_snapshot inp) = Some (case ro_runner (owned_runner inp) of
         None \<Rightarrow> False
       | Some r \<Rightarrow> runner_busy r \<or> (\<exists>j \<in> set (col_items (qc_jobs inp)). job_counts inp repo j
            \<and> job_status j = ''in_progress'' \<and> is_number (job_runnerId j) (runner_id r)))"
  by (rule build_queue_snapshot_whole [OF assms])

lemma sample_runs_ok: "runs_ok [sample_run]"
  by (simp add: runs_ok_def sample_run_def is_safe_integer_def)

lemma sample_observed: "observed_whole (sample_collection_input (Fin 2000000) (col_done [sample_run]))"
  by (simp add: observed_whole_def sample_collection_input_def identity_matches_def col_done_def
      owned_runner_def classify_owned_runners_def is_finite_def)

lemma sample_job_counts:
  "qc_repository inp = Some repo \<Longrightarrow> inp = sample_collection_input t (col_done [sample_run]) \<Longrightarrow>
     j \<in> set (col_items (qc_jobs inp)) \<Longrightarrow> job_counts inp repo j \<and> job_queued j"
  by (auto simp: job_counts_def job_queued_def sample_collection_input_def col_done_def sample_run_def
      latest_in_def run_key_def run_admitted_def)

theorem snapshot_counts_eligible_jobs_witness:
  "eligibleQueuedJobs (build_queue_snapshot (sample_collection_input (Fin 2000000) (col_done [sample_run]))) = Fin 1"
proof -
  let ?inp = "sample_collection_input (Fin 2000000) (col_done [sample_run])"
  have "runs_ok (col_items (qc_runs ?inp))" by (simp add: sample_collection_input_def col_done_def sample_runs_ok)
  from snapshot_counts_eligible_jobs [OF sample_observed this] obtain repo where
    repo: "qc_repository ?inp = Some repo"
      "eligibleQueuedJobs (build_queue_snapshot ?inp) = Fin (of_nat (length
        (filter (\<lambda>j. job_counts ?inp repo j \<and> job_queued j) (col_items (qc_jobs ?inp)))))" by blast
  have "filter (\<lambda>j. job_counts ?inp repo j \<and> job_queued j) (col_items (qc_jobs ?inp)) = col_items (qc_jobs ?inp)"
    using sample_job_counts [OF repo(1) refl] by (intro filter_True) blast
  then show ?thesis using repo(2) by (simp add: sample_collection_input_def col_done_def)
qed

theorem unseen_queue_fails_closed_witness:
  "\<exists>d. decide_lifecycle (stopped_with_work\<lparr>queue := queue_snapshot.truncate (build_queue_snapshot
        (sample_collection_input (Fin 2000000) (col_incomplete [Lit ''GitHub returned HTTP '', Num (Fin 502)] None)))\<rparr>) = Inr d
     \<and> deffect d = ENone"
proof -
  let ?inp = "sample_collection_input (Fin 2000000) (col_incomplete [Lit ''GitHub returned HTTP '', Num (Fin 502)] None)"
  let ?i = "stopped_with_work\<lparr>queue := queue_snapshot.truncate (build_queue_snapshot ?inp)\<rparr>"
  have u: "\<not> observed_whole ?inp" by (simp add: observed_whole_def sample_collection_input_def col_incomplete_def)
  obtain m t where q: "build_queue_snapshot ?inp = incomplete_queue ?inp m t"
    using build_queue_snapshot_unseen [OF u] by blast
  then have "\<exists>d. decide_lifecycle ?i = Inr d \<and> deffect d \<noteq> EStopVm True \<and> (\<forall>g t. deffect d \<noteq> EAdoptVm g t)"
    by (simp add: decide_lifecycle_def emergency_due_def deadline_reached_def validate_queue_observation_def
      valid_snapshot_enums_def owned_decision_def effective_grant_def Let_def incomplete_queue_def
      queue_snapshot.truncate_def sample_collection_input_def sample_defs)
  then show ?thesis using unseen_queue_fails_closed [OF u, of ?i] by auto
qed

text \<open>
  C21 (safety). A VM is created or started only for work GitHub really holds: the observation was
  whole, and there is a queued job of the current attempt of an admitted run that asks for the owned
  runner. The owned VM is stopped or deleted outside the emergency only when no such job is in
  progress on its runner.
\<close>

theorem start_only_for_admitted_job:
  assumes "decide_lifecycle i = Inr d" "queue i = queue_snapshot.truncate (build_queue_snapshot inp)"
    "runs_ok (col_items (qc_runs inp))"
    "(\<exists>g r t. deffect d = ECreateVm g r t) \<or> (\<exists>g t. deffect d = EStartVm g t)
       \<or> deffect d = EStopVm False \<or> (\<exists>g. deffect d = EDeleteVm g)"
  shows "\<exists>repo. observed_whole inp \<and> qc_repository inp = Some repo \<and> identity_matches inp repo
    \<and> ((\<exists>g r t. deffect d = ECreateVm g r t) \<or> (\<exists>g t. deffect d = EStartVm g t) \<longrightarrow>
         (\<exists>j \<in> set (col_items (qc_jobs inp)). job_counts inp repo j \<and> job_queued j))
    \<and> (deffect d = EStopVm False \<or> (\<exists>g. deffect d = EDeleteVm g) \<longrightarrow>
         (\<forall>r. ro_runner (owned_runner inp) = Some r \<longrightarrow> \<not> runner_busy r
            \<and> (\<forall>j \<in> set (col_items (qc_jobs inp)). job_counts inp repo j \<longrightarrow> job_status j = ''in_progress''
                 \<longrightarrow> \<not> is_number (job_runnerId j) (runner_id r))))"
proof -
  have t: "transition i (dstate d) (deffect d)"
    using decide_lifecycle_transition [OF assms(1)] assms(4) by auto
  have complete: "queue_complete (queue i)"
    using t assms(4) by cases (auto simp: settled_def)
  have ob: "observed_whole inp"
  proof (rule ccontr)
    assume "\<not> observed_whole inp"
    then obtain m u where "build_queue_snapshot inp = incomplete_queue inp m u"
      using build_queue_snapshot_unseen by blast
    then show False using complete by (simp add: assms(2) queue_snapshot.truncate_def)
  qed
  obtain repo where repo: "qc_repository inp = Some repo" "identity_matches inp repo"
    "eligibleQueuedJobs (build_queue_snapshot inp) = Fin (of_nat (length
        (filter (\<lambda>j. job_counts inp repo j \<and> job_queued j) (col_items (qc_jobs inp)))))"
    "ownedBusy (build_queue_snapshot inp) = Some (case ro_runner (owned_runner inp) of
         None \<Rightarrow> False
       | Some r \<Rightarrow> runner_busy r \<or> (\<exists>j \<in> set (col_items (qc_jobs inp)). job_counts inp repo j
            \<and> job_status j = ''in_progress'' \<and> is_number (job_runnerId j) (runner_id r)))"
    using build_queue_snapshot_whole [OF ob assms(3)] by blast
  have q: "eligibleQueuedJobs (queue i) = eligibleQueuedJobs (build_queue_snapshot inp)"
    "ownedBusy (queue i) = ownedBusy (build_queue_snapshot inp)"
    by (simp_all add: assms(2) queue_snapshot.truncate_def)
  have "\<not> no_demand i" if "(\<exists>g r t. deffect d = ECreateVm g r t) \<or> (\<exists>g t. deffect d = EStartVm g t)"
    using t that by cases (auto simp: num_eq_def)
  then have one: "(\<exists>g r t. deffect d = ECreateVm g r t) \<or> (\<exists>g t. deffect d = EStartVm g t) \<longrightarrow>
         (\<exists>j \<in> set (col_items (qc_jobs inp)). job_counts inp repo j \<and> job_queued j)"
    using q(1) repo(3) by (auto simp: filter_empty_conv)
  have "ownedBusy (queue i) = Some False" if "deffect d = EStopVm False \<or> (\<exists>g. deffect d = EDeleteVm g)"
    using t that by cases (auto simp: settled_def)
  then have "deffect d = EStopVm False \<or> (\<exists>g. deffect d = EDeleteVm g) \<longrightarrow>
         (\<forall>r. ro_runner (owned_runner inp) = Some r \<longrightarrow> \<not> runner_busy r
            \<and> (\<forall>j \<in> set (col_items (qc_jobs inp)). job_counts inp repo j \<longrightarrow> job_status j = ''in_progress''
                 \<longrightarrow> \<not> is_number (job_runnerId j) (runner_id r)))"
    using q(2) repo(4) by auto
  with ob repo(1,2) one show ?thesis by blast
qed

lemma sample_snapshot:
  "queue_snapshot.truncate (build_queue_snapshot (sample_collection_input (Fin 2000000) (col_done [sample_run])))
     = sample_queue (Fin 1) (Fin 2000000)"
proof -
  let ?inp = "sample_collection_input (Fin 2000000) (col_done [sample_run])"
  have ok: "runs_ok (col_items (qc_runs ?inp))" by (simp add: sample_collection_input_def col_done_def sample_runs_ok)
  obtain repo where repo: "qc_repository ?inp = Some repo" "queue_complete (build_queue_snapshot ?inp)"
    "queue_observedAtMs (build_queue_snapshot ?inp) = qc_observedAtMs ?inp"
    "eligibleQueuedJobs (build_queue_snapshot ?inp) = Fin (of_nat (length
        (filter (\<lambda>j. job_counts ?inp repo j \<and> job_queued j) (col_items (qc_jobs ?inp)))))"
    "ownedBusy (build_queue_snapshot ?inp) = Some (case ro_runner (owned_runner ?inp) of None \<Rightarrow> False
       | Some r \<Rightarrow> runner_busy r \<or> (\<exists>j \<in> set (col_items (qc_jobs ?inp)). job_counts ?inp repo j
            \<and> job_status j = ''in_progress'' \<and> is_number (job_runnerId j) (runner_id r)))"
    using build_queue_snapshot_whole [OF sample_observed ok] by blast
  have all: "filter (\<lambda>j. job_counts ?inp repo j \<and> job_queued j) (col_items (qc_jobs ?inp)) = col_items (qc_jobs ?inp)"
    using sample_job_counts [OF repo(1) refl] by (intro filter_True) blast
  have "eligibleQueuedJobs (build_queue_snapshot ?inp) = Fin 1"
    unfolding repo(4) all by (simp add: sample_collection_input_def col_done_def)
  moreover have "ro_runner (owned_runner ?inp) = None"
    by (simp add: owned_runner_def sample_collection_input_def col_done_def classify_owned_runners_def)
  then have "ownedBusy (build_queue_snapshot ?inp) = Some False" unfolding repo(5) by simp
  moreover have "queue_observedAtMs (build_queue_snapshot ?inp) = Fin 2000000"
    unfolding repo(3) by (simp add: sample_collection_input_def)
  ultimately show ?thesis using repo(2) by (simp add: queue_snapshot.truncate_def sample_queue_def)
qed

theorem start_only_for_admitted_job_witness:
  "\<exists>j \<in> set (col_items (qc_jobs (sample_collection_input (Fin 2000000) (col_done [sample_run])))). job_queued j"
proof -
  let ?inp = "sample_collection_input (Fin 2000000) (col_done [sample_run])"
  have q: "queue stopped_with_work = queue_snapshot.truncate (build_queue_snapshot ?inp)"
    by (simp add: sample_snapshot sample_input_def)
  have ok: "runs_ok (col_items (qc_runs ?inp))" by (simp add: sample_collection_input_def col_done_def sample_runs_ok)
  show ?thesis using start_only_for_admitted_job [OF sample_start q ok] by auto
qed

end
