(* ===== verification/Redaction.thy ===== *)
theory Redaction
  imports JsValue
begin

text \<open>
  Redaction of events (\<open>journal.ts\<close>): the secrets a caller names, the credential shapes nobody has
  to name, and the members of an event whose key is sensitive. The regular expressions are written
  out as matchers; \<open>.\<close> and \<open>\s\<close> range over code units below 256.
\<close>

section \<open>Known secrets\<close>

definition REDACTED :: string where
  "REDACTED = ''[REDACTED]''"

text \<open>\<open>text.split(secret).join('[REDACTED]')\<close> for a secret that is not empty.\<close>

function replace_all :: "string \<Rightarrow> string \<Rightarrow> string" where
  "replace_all secret [] = []"
| "replace_all secret (c # s) =
     (if secret \<noteq> [] \<and> prefix secret (c # s) then REDACTED @ replace_all secret (drop (length secret - 1) s)
      else c # replace_all secret s)"
  by pat_completeness auto
termination by (relation "measure (\<lambda>(_, s). length s)") auto

definition redact_secrets :: "string \<Rightarrow> string list \<Rightarrow> string" where
  "redact_secrets text secrets = foldl (\<lambda>t s. replace_all s t) text (filter (\<lambda>s. s \<noteq> []) secrets)"

section \<open>Credential shapes\<close>

definition is_word :: "char \<Rightarrow> bool" where
  "is_word c \<longleftrightarrow> is_digit c \<or> code_in c 65 90 \<or> code_in c 97 122 \<or> c = CHR ''_''"

definition is_upper :: "char \<Rightarrow> bool" where
  "is_upper c \<longleftrightarrow> code_in c 65 90"

text \<open>\<open>\b\<close> before a word character: what stands before it is no word character.\<close>

definition boundary_before :: "char option \<Rightarrow> bool" where
  "boundary_before before = (case before of None \<Rightarrow> True | Some c \<Rightarrow> \<not> is_word c)"

text \<open>Each matcher gives the length of the match at the start of the string.\<close>

definition match_assignment :: "string \<Rightarrow> string \<Rightarrow> nat option" where
  "match_assignment name s =
     (if \<not> prefix name s then None
      else let a = drop (length name) s; eq = dropWhile is_space a in
      case eq of
        [] \<Rightarrow> None
      | c # v0 \<Rightarrow>
          if c \<noteq> CHR ''='' then None
          else let v = dropWhile is_space v0; w = takeWhile (\<lambda>x. \<not> is_space x) v in
               if w = [] then None else Some (length s - length v + length w))"

definition match_run :: "string \<Rightarrow> (char \<Rightarrow> bool) \<Rightarrow> nat \<Rightarrow> string \<Rightarrow> nat option" where
  "match_run lead P least s =
     (if \<not> prefix lead s then None
      else let w = takeWhile P (drop (length lead) s)
           in if length w < least then None else Some (length lead + length w))"

definition match_akia :: "string \<Rightarrow> nat option" where
  "match_akia s =
     (let w = takeWhile (\<lambda>c. is_digit c \<or> is_upper c) (drop 4 s); after = drop 20 s in
      if prefix ''AKIA'' s \<and> 16 \<le> length w \<and> (case after of [] \<Rightarrow> True | c # _ \<Rightarrow> \<not> is_word c)
      then Some 20 else None)"

text \<open>\<open>-----BEGIN [A-Z ]*PRIVATE KEY-----\<close>, and the same with \<open>END\<close>.\<close>

definition match_marker :: "string \<Rightarrow> string \<Rightarrow> nat option" where
  "match_marker lead s =
     (if \<not> prefix lead s then None
      else let w = takeWhile (\<lambda>c. is_upper c \<or> c = CHR '' '') (drop (length lead) s);
               n = length lead + length w
           in if suffix ''PRIVATE KEY'' w \<and> prefix ''-----'' (drop n s) then Some (n + 5) else None)"

fun first_marker :: "string \<Rightarrow> string \<Rightarrow> nat option" where
  "first_marker lead [] = None"
| "first_marker lead (c # s) =
     (case match_marker lead (c # s) of
        Some n \<Rightarrow> Some n
      | None \<Rightarrow> (case first_marker lead s of None \<Rightarrow> None | Some n \<Rightarrow> Some (Suc n)))"

definition match_private_key :: "string \<Rightarrow> nat option" where
  "match_private_key s =
     (case match_marker ''-----BEGIN '' s of
        None \<Rightarrow> None
      | Some n \<Rightarrow> (case first_marker ''-----END '' (drop n s) of None \<Rightarrow> Some n | Some m \<Rightarrow> Some (n + m)))"

fun first_match :: "(string \<Rightarrow> nat option) list \<Rightarrow> string \<Rightarrow> nat option" where
  "first_match [] s = None"
| "first_match (f # fs) s = (case f s of None \<Rightarrow> first_match fs s | Some n \<Rightarrow> Some n)"

definition credential_match :: "char option \<Rightarrow> string \<Rightarrow> nat option" where
  "credential_match before s =
     first_match
       ((if boundary_before before
         then [match_assignment ''GITHUB_TOKEN'', match_assignment ''NEBIUS_API_KEY'',
               match_assignment ''AWS_SECRET_ACCESS_KEY'', match_run ''github_pat_'' is_word 1]
              @ map (\<lambda>c. match_run [CHR ''g'', CHR ''h'', c, CHR ''_''] is_word 20) ''pousr'' @ [match_akia]
         else []) @ [match_private_key]) s"

text \<open>\<open>text.replace(CREDENTIAL_SHAPE_SCRUBBER, '[REDACTED]')\<close>; \<open>before\<close> is the character consumed last.\<close>

function scrub :: "char option \<Rightarrow> string \<Rightarrow> string" where
  "scrub before [] = []"
| "scrub before (c # s) =
     (case credential_match before (c # s) of
        None \<Rightarrow> c # scrub (Some c) s
      | Some n \<Rightarrow> REDACTED @ scrub (Some (last (take n (c # s)))) (drop (n - 1) s))"
  by pat_completeness auto
termination by (relation "measure (\<lambda>(_, s). length s)") auto

definition redact_credential_shapes :: "string \<Rightarrow> string" where
  "redact_credential_shapes text = scrub None text"

section \<open>Events\<close>

definition to_lower :: "char \<Rightarrow> char" where
  "to_lower c = (if code_in c 65 90 \<or> (code_in c 192 222 \<and> c \<noteq> CHR 0xD7) then char_of (of_char c + (32 :: nat)) else c)"

text \<open>\<open>a.?b\<close> somewhere in the string.\<close>

fun gap_includes :: "string \<Rightarrow> string \<Rightarrow> string \<Rightarrow> bool" where
  "gap_includes a b [] = False"
| "gap_includes a b (c # s) =
     ((prefix a (c # s) \<and>
        (let r = drop (length a) (c # s) in
         prefix b r \<or> (case r of [] \<Rightarrow> False | x # r' \<Rightarrow> x \<noteq> CHR 0x0A \<and> x \<noteq> CHR 0x0D \<and> prefix b r')))
      \<or> gap_includes a b s)"

definition sensitive_key :: "string \<Rightarrow> bool" where
  "sensitive_key key =
     (let k = map to_lower key in
      str_includes k ''token'' \<or> str_includes k ''secret'' \<or> str_includes k ''password''
      \<or> gap_includes ''private'' ''key'' k \<or> gap_includes ''cloud'' ''init'' k \<or> gap_includes ''user'' ''data'' k)"

lemma size_snd_entry [termination_simp]: "(k, v) \<in> set kvs \<Longrightarrow> size v < Suc (size_list (size_prod (\<lambda>_. 0) size) kvs)"
  by (induction kvs) auto

fun redact_value :: "string list \<Rightarrow> string \<Rightarrow> jsval \<Rightarrow> jsval" where
  "redact_value secrets key v =
     (if sensitive_key key then JStr REDACTED
      else case v of
        JStr s \<Rightarrow> JStr (redact_credential_shapes (redact_secrets s secrets))
      | JArr xs \<Rightarrow> JArr (map (\<lambda>x. redact_value secrets '''' x) xs)
      | JObj kvs \<Rightarrow> JObj (map (\<lambda>(name, entry). (name, redact_value secrets name entry)) kvs)
      | _ \<Rightarrow> v)"

declare redact_value.simps [simp del]

text \<open>
  The line \<open>appendRedactedEvent\<close> writes, as the value it serialises. \<open>line_bytes\<close> is the byte length
  of a serialised value with its line end.
\<close>

definition event_line :: "(jsval \<Rightarrow> nat) \<Rightarrow> jsval \<Rightarrow> string list \<Rightarrow> jsnum option \<Rightarrow> jsnum exn + jsval" where
  "event_line line_bytes event secrets maxBytes =
     (let limit = (case maxBytes of None \<Rightarrow> Fin 65536 | Some n \<Rightarrow> n) in
      if \<not> is_integer limit \<or> limit < Fin 80
      then Inl (Exn RangeError [Lit ''event maxBytes must be an integer of at least 80''])
      else
      let sanitized = redact_value secrets '''' event in
      if limit < Fin (of_nat (line_bytes sanitized))
      then let kind = (case event of JObj kvs \<Rightarrow> (case get_prop kvs ''type'' of JStr s \<Rightarrow> s | _ \<Rightarrow> ''event'') | _ \<Rightarrow> ''event'')
           in Inr (JObj [(''schemaVersion'', JNum (Fin 1)), (''type'', JStr kind),
                         (''redacted'', JStr REDACTED), (''truncated'', JBool True)])
      else Inr sanitized)"

section \<open>What a scrubber keeps out\<close>

text \<open>
  A text with neither bracket that is no part of \<open>REDACTED\<close> cannot arise from a replacement: if it
  occurs after scrubbing, it occurred before. Both rewriters keep this contract, and so does their
  composition.
\<close>

definition plain_secret :: "string \<Rightarrow> bool" where
  "plain_secret s \<longleftrightarrow> CHR ''['' \<notin> set s \<and> CHR '']'' \<notin> set s \<and> \<not> str_includes ''REDACTED'' s"

lemma REDACTED_split: "REDACTED = CHR ''['' # ''REDACTED'' @ [CHR '']'']"
  by (simp add: REDACTED_def)

lemma plain_secret_nonempty: "plain_secret s \<Longrightarrow> s \<noteq> []"
  by (auto simp: plain_secret_def str_includes_iff_sublist)

lemma plain_prefix_REDACTED: "plain_secret s \<Longrightarrow> \<not> prefix s (REDACTED @ r)"
  by (cases s) (auto simp: REDACTED_split plain_secret_nonempty plain_secret_def str_includes_iff_sublist)

lemma bracket_free_prefix_REDACTED:
  "CHR ''['' \<notin> set s \<Longrightarrow> prefix s (REDACTED @ r) \<Longrightarrow> s = []"
  by (cases s) (auto simp: REDACTED_split)

lemma sublist_REDACTED_append:
  assumes "plain_secret s" "sublist s (REDACTED @ r)"
  shows "sublist s r"
proof -
  have nb: "CHR ''['' \<notin> set s" "CHR '']'' \<notin> set s" and R: "\<not> sublist s ''REDACTED''"
    using assms(1) by (auto simp: plain_secret_def str_includes_iff_sublist)
  have cut: False if "s = s1 @ s2" "s1 \<noteq> []" "suffix s1 (x @ [CHR '']''])" for s1 s2 x
    using that nb by (auto simp: suffix_def append_eq_append_conv2 Cons_eq_append_conv)
  have "sublist s (REDACTED @ r) \<longleftrightarrow> prefix s (REDACTED @ r) \<or> sublist s ((''REDACTED'' @ [CHR '']'']) @ r)"
    by (simp add: REDACTED_split sublist_Cons_right)
  with assms plain_prefix_REDACTED have "sublist s ((''REDACTED'' @ [CHR '']'']) @ r)" by blast
  then consider "sublist s (''REDACTED'' @ [CHR '']''])" | "sublist s r"
    | s1 s2 where "s = s1 @ s2" "suffix s1 (''REDACTED'' @ [CHR '']''])" "prefix s2 r"
    unfolding sublist_append by blast
  then show ?thesis
  proof cases
    case 1
    then consider "sublist s ''REDACTED''" | "sublist s [CHR '']'']"
      | s1 s2 where "s = s1 @ s2" "suffix s1 ''REDACTED''" "prefix s2 [CHR '']'']"
      unfolding sublist_append by blast
    then show ?thesis
    proof cases
      case 2
      then have "set s \<subseteq> {CHR '']''}" using set_mono_sublist by fastforce
      then have "s = []" using nb(2) by (cases s) auto
      then show ?thesis by simp
    next
      case (3 s1 s2)
      then have "s2 = []" using nb by (cases s2) auto
      then show ?thesis using 3 R by (simp add: suffix_imp_sublist)
    qed (use R in blast)
  next
    case (3 s1 s2)
    then have "s1 = []" using cut by blast
    then show ?thesis using 3 by (simp add: prefix_imp_sublist)
  qed
qed

locale scrubber =
  fixes f :: "string \<Rightarrow> string"
  assumes no_new: "plain_secret s \<Longrightarrow> sublist s (f t) \<Longrightarrow> sublist s t"
begin

lemma stays_out: "plain_secret s \<Longrightarrow> \<not> sublist s t \<Longrightarrow> \<not> sublist s (f t)"
  using no_new by blast

end

text \<open>One step of each rewriter: a match, or the next character.\<close>

lemma replace_all_step:
  "secret \<noteq> [] \<Longrightarrow> prefix secret (c # t) \<Longrightarrow>
     replace_all secret (c # t) = REDACTED @ replace_all secret (drop (length secret - 1) t)"
  "\<not> (secret \<noteq> [] \<and> prefix secret (c # t)) \<Longrightarrow> replace_all secret (c # t) = c # replace_all secret t"
  by (simp_all only: replace_all.simps simp_thms if_True if_False)

lemma scrub_step:
  "credential_match before (c # t) = Some n \<Longrightarrow>
     scrub before (c # t) = REDACTED @ scrub (Some (last (take n (c # t)))) (drop (n - 1) t)"
  "credential_match before (c # t) = None \<Longrightarrow> scrub before (c # t) = c # scrub (Some c) t"
  by (simp_all only: scrub.simps option.case)

declare replace_all.simps(2) [simp del] scrub.simps(2) [simp del]

lemma replace_all_prefix: "CHR ''['' \<notin> set s \<Longrightarrow> prefix s (replace_all secret t) \<Longrightarrow> prefix s t"
proof (induction secret t arbitrary: s rule: replace_all.induct)
  case (2 secret c t)
  show ?case
  proof (cases "secret \<noteq> [] \<and> prefix secret (c # t)")
    case True
    then have "s = []" using bracket_free_prefix_REDACTED [OF 2(3)] 2(4) by (simp add: replace_all_step(1))
    then show ?thesis by simp
  next
    case False
    then show ?thesis using 2(2) [OF False] 2(3,4) by (cases s) (simp_all add: replace_all_step(2))
  qed
qed simp

lemma scrub_prefix: "CHR ''['' \<notin> set s \<Longrightarrow> prefix s (scrub before t) \<Longrightarrow> prefix s t"
proof (induction before t arbitrary: s rule: scrub.induct)
  case (2 before c t)
  show ?case
  proof (cases "credential_match before (c # t)")
    case (Some n)
    then have "s = []" using bracket_free_prefix_REDACTED [OF 2(3)] 2(4) by (simp add: scrub_step(1))
    then show ?thesis by simp
  next
    case None
    then show ?thesis using 2(1) [OF None] 2(3,4) by (cases s) (simp_all add: scrub_step(2))
  qed
qed simp

lemma sublist_drop: "sublist s (drop n t) \<Longrightarrow> sublist s (t :: 'a list)"
  by (rule sublist_order.order_trans [OF _ suffix_imp_sublist [OF suffix_drop]])

lemma sublist_tl_drop: "sublist s (drop n t) \<Longrightarrow> sublist s (c # t)"
  by (simp add: sublist_Cons_right sublist_drop)

lemma plain_secretD: "plain_secret s \<Longrightarrow> CHR ''['' \<notin> set s"
  by (simp add: plain_secret_def)

lemma scrub_no_new: "plain_secret s \<Longrightarrow> sublist s (scrub before t) \<Longrightarrow> sublist s t"
proof (induction before t rule: scrub.induct)
  case (2 before c t)
  show ?case
  proof (cases "credential_match before (c # t)")
    case (Some n)
    have "sublist s (scrub (Some (last (take n (c # t)))) (drop (n - 1) t))"
      using 2(4) by (auto intro: sublist_REDACTED_append [OF 2(3)] simp: scrub_step(1) [OF Some])
    then have "sublist s (drop (n - 1) t)" by (rule 2(2) [OF Some 2(3)])
    then show ?thesis by (rule sublist_tl_drop)
  next
    case None
    consider "prefix s (scrub before (c # t))" | "sublist s (scrub (Some c) t)"
      using 2(4) unfolding scrub_step(2) [OF None] sublist_Cons_right by blast
    then show ?thesis
    proof cases
      case 1
      then show ?thesis by (rule prefix_imp_sublist [OF scrub_prefix [OF plain_secretD [OF 2(3)]]])
    next
      case two: 2
      then have "sublist s t" by (rule 2(1) [OF None 2(3)])
      then show ?thesis by (simp add: sublist_Cons_right)
    qed
  qed
qed simp

lemma replace_all_no_new: "plain_secret s \<Longrightarrow> sublist s (replace_all secret t) \<Longrightarrow> sublist s t"
proof (induction secret t rule: replace_all.induct)
  case (2 secret c t)
  show ?case
  proof (cases "secret \<noteq> [] \<and> prefix secret (c # t)")
    case True
    then have "sublist s (replace_all secret (drop (length secret - 1) t))"
      using 2(4) by (auto intro: sublist_REDACTED_append [OF 2(3)] simp: replace_all_step(1))
    then have "sublist s (drop (length secret - 1) t)" by (rule 2(1) [OF True 2(3)])
    then show ?thesis by (rule sublist_tl_drop)
  next
    case False
    consider "prefix s (replace_all secret (c # t))" | "sublist s (replace_all secret t)"
      using 2(4) unfolding replace_all_step(2) [OF False] sublist_Cons_right by blast
    then show ?thesis
    proof cases
      case 1
      then show ?thesis by (rule prefix_imp_sublist [OF replace_all_prefix [OF plain_secretD [OF 2(3)]]])
    next
      case two: 2
      then have "sublist s t" by (rule 2(2) [OF False 2(3)])
      then show ?thesis by (simp add: sublist_Cons_right)
    qed
  qed
qed simp

interpretation secrets: scrubber "replace_all secret" for secret
  by unfold_locales (rule replace_all_no_new)

interpretation shapes: scrubber redact_credential_shapes
  by unfold_locales (simp add: redact_credential_shapes_def scrub_no_new)

text \<open>The secret a caller names is gone after its own pass, and stays gone.\<close>

lemma replace_all_removes: "plain_secret s \<Longrightarrow> \<not> sublist s (replace_all s t)"
proof (induction s t rule: replace_all.induct)
  case (1 s)
  then show ?case using plain_secret_nonempty by auto
next
  case (2 s c t)
  show ?case
  proof (cases "s \<noteq> [] \<and> prefix s (c # t)")
    case True
    then have "\<not> sublist s (replace_all s (drop (length s - 1) t))" by (rule 2(1) [OF _ 2(3)])
    then show ?thesis using True sublist_REDACTED_append [OF 2(3)] by (auto simp: replace_all_step(1))
  next
    case False
    then have "\<not> prefix s (replace_all s (c # t))"
      using replace_all_prefix [OF plain_secretD [OF 2(3)], of s "c # t"] plain_secret_nonempty [OF 2(3)]
      by blast
    then show ?thesis using 2(2) [OF False 2(3)] by (simp add: sublist_Cons_right replace_all_step(2) [OF False])
  qed
qed

lemma redact_secrets_removes:
  assumes "s \<in> set secrets" "plain_secret s"
  shows "\<not> sublist s (redact_secrets t secrets)"
proof -
  have keep: "\<not> sublist s t \<Longrightarrow> \<not> sublist s (foldl (\<lambda>t s. replace_all s t) t xs)" for t xs
    by (induction xs arbitrary: t) (auto dest: secrets.stays_out [OF assms(2)])
  have "s \<in> set xs \<Longrightarrow> \<not> sublist s (foldl (\<lambda>t s. replace_all s t) t xs)" for t xs
  proof (induction xs arbitrary: t)
    case (Cons x xs)
    then show ?case using keep replace_all_removes [OF assms(2)] by (cases "s = x") auto
  qed simp
  moreover have "s \<noteq> []" using plain_secret_nonempty [OF assms(2)] .
  ultimately show ?thesis using assms(1) by (simp add: redact_secrets_def)
qed

section \<open>Redacted values\<close>

text \<open>The strings of a value, the keys of its objects left out.\<close>

fun string_values :: "jsval \<Rightarrow> string list" where
  "string_values (JStr s) = [s]"
| "string_values (JArr xs) = concat (map string_values xs)"
| "string_values (JObj kvs) = concat (map (\<lambda>(_, v). string_values v) kvs)"
| "string_values _ = []"

lemma plain_not_in_REDACTED: "plain_secret s \<Longrightarrow> \<not> sublist s REDACTED"
  using sublist_REDACTED_append [of s "[]"] plain_secret_nonempty by fastforce

lemma redact_value_strings:
  "s \<in> set secrets \<Longrightarrow> plain_secret s \<Longrightarrow> x \<in> set (string_values (redact_value secrets key v))
     \<Longrightarrow> \<not> sublist s x"
proof (induction secrets key v rule: redact_value.induct)
  case (1 secrets key v)
  show ?case
  proof (cases "sensitive_key key")
    case True
    then show ?thesis using 1(5) plain_not_in_REDACTED [OF 1(4)] by (simp add: redact_value.simps)
  next
    case False
    note unfold = redact_value.simps [of secrets key] False
    show ?thesis
    proof (cases v)
      case (JStr t)
      have "\<not> sublist s (redact_credential_shapes (redact_secrets t secrets))"
        by (rule shapes.stays_out [OF 1(4) redact_secrets_removes [OF 1(3,4)]])
      then show ?thesis using 1(5) by (simp add: unfold JStr)
    next
      case (JArr xs)
      then show ?thesis using 1(1) [OF False JArr _ 1(3,4)] 1(5) by (auto simp: unfold)
    next
      case (JObj kvs)
      then show ?thesis using 1(2) [OF False JObj _ _ 1(3,4)] 1(5) by (fastforce simp: unfold)
    qed (use 1(5) in \<open>simp_all add: unfold\<close>)
  qed
qed

section \<open>Properties\<close>

text \<open>The name a truncated line keeps of an event.\<close>

definition event_type :: "jsval \<Rightarrow> string" where
  "event_type event = (case event of JObj kvs \<Rightarrow> (case get_prop kvs ''type'' of JStr s \<Rightarrow> s | _ \<Rightarrow> ''event'') | _ \<Rightarrow> ''event'')"



end
