(* ===== verification/Runs.thy ===== *)
theory Runs
  imports JsValue
begin

text \<open>
  Computations on a state that return a value or throw: what the adapter of GitHub and the commands of
  the runner are made of. \<open>None\<close> stands for a computation that does not return. Runs of a
  computation are inverted by the rules collected as \<open>run_elims\<close>; that it returns, and what then holds,
  is the total-correctness triple \<open>ensures\<close>.
\<close>

type_synonym ('s, 'a) run = "'s \<Rightarrow> ('s \<times> (jsnum exn + 'a)) option"

definition run_return :: "jsnum exn + 'a \<Rightarrow> ('s, 'a) run" where
  "run_return r c = Some (c, r)"

definition run_bind :: "('s, 'a) run \<Rightarrow> ('a \<Rightarrow> ('s, 'b) run) \<Rightarrow> ('s, 'b) run" where
  "run_bind m f c =
     (case m c of None \<Rightarrow> None | Some (c, Inl e) \<Rightarrow> Some (c, Inl e) | Some (c, Inr x) \<Rightarrow> f x c)"

text \<open>\<open>try\<close>: the result or the error, as a value.\<close>

definition run_try :: "('s, 'a) run \<Rightarrow> ('s, jsnum exn + 'a) run" where
  "run_try m c = (case m c of None \<Rightarrow> None | Some (c, r) \<Rightarrow> Some (c, Inr r))"

section \<open>Inversion\<close>

named_theorems run_elims

lemma run_bind_Some:
  "run_bind m f c = Some (c', r) \<longleftrightarrow>
     (\<exists>e. m c = Some (c', Inl e) \<and> r = Inl e) \<or> (\<exists>c1 x. m c = Some (c1, Inr x) \<and> f x c1 = Some (c', r))"
  by (auto simp: run_bind_def split: option.splits sum.splits)

lemma run_return_Some [simp]: "run_return r c = Some (c', r') \<longleftrightarrow> c' = c \<and> r' = r"
  by (auto simp: run_return_def)

lemma run_try_Some: "run_try m c = Some (c', res) \<longleftrightarrow> (\<exists>r. res = Inr r \<and> m c = Some (c', r))"
  by (auto simp: run_try_def split: option.splits)

lemma run_bindE [run_elims]:
  assumes "run_bind m f c = Some (c', Inr y)"
  obtains c1 x where "m c = Some (c1, Inr x)" "f x c1 = Some (c', Inr y)"
  using assms by (auto simp: run_bind_Some)

lemma run_tryE [run_elims]:
  assumes "run_try m c = Some (c', Inr y)"
  obtains "m c = Some (c', y)"
  using assms by (auto simp: run_try_Some)

lemma run_returnE [run_elims]:
  assumes "run_return r c = Some (c', Inr y)"
  obtains "c' = c" "r = Inr y"
  using assms by auto

section \<open>Total correctness\<close>

definition ensures :: "('s \<Rightarrow> bool) \<Rightarrow> ('s, 'a) run \<Rightarrow> ('s \<Rightarrow> jsnum exn + 'a \<Rightarrow> bool) \<Rightarrow> bool" where
  "ensures P m Q \<longleftrightarrow> (\<forall>c. P c \<longrightarrow> (\<exists>c' r. m c = Some (c', r) \<and> Q c' r))"

lemma ensuresD: "ensures P m Q \<Longrightarrow> P c \<Longrightarrow> \<exists>c' r. m c = Some (c', r) \<and> Q c' r"
  by (simp add: ensures_def)

lemma ensures_return: "(\<And>c. P c \<Longrightarrow> Q c r) \<Longrightarrow> ensures P (run_return r) Q"
  by (simp add: ensures_def run_return_def)

lemma ensures_bind:
  assumes m: "ensures P m R"
    and f: "\<And>x. ensures (\<lambda>c. R c (Inr x)) (f x) Q" and e: "\<And>c e. R c (Inl e) \<Longrightarrow> Q c (Inl e)"
  shows "ensures P (run_bind m f) Q"
  unfolding ensures_def
proof (intro allI impI)
  fix c assume "P c"
  then obtain c1 r where r: "m c = Some (c1, r)" "R c1 r" using ensuresD [OF m] by blast
  show "\<exists>c' r. run_bind m f c = Some (c', r) \<and> Q c' r"
  proof (cases r)
    case (Inl x) then show ?thesis using r e by (simp add: run_bind_def)
  next
    case (Inr x) then show ?thesis using r ensuresD [OF f] by (simp add: run_bind_def)
  qed
qed

lemma ensures_try: "ensures P m (\<lambda>c r. Q c (Inr r)) \<Longrightarrow> ensures P (run_try m) Q"
  by (fastforce simp: ensures_def run_try_def)

lemma ensures_conseq:
  "ensures P m Q \<Longrightarrow> (\<And>c. P' c \<Longrightarrow> P c) \<Longrightarrow> (\<And>c r. Q c r \<Longrightarrow> Q' c r) \<Longrightarrow> ensures P' m Q'"
  unfolding ensures_def by blast

text \<open>A computation that returns and keeps a property of the state.\<close>

definition keeps :: "('s \<Rightarrow> bool) \<Rightarrow> ('s, 'a) run \<Rightarrow> bool" where
  "keeps good m \<longleftrightarrow> (\<forall>c. good c \<longrightarrow> (\<exists>c' r. m c = Some (c', r) \<and> good c'))"

lemma keeps_ensures: "keeps good m \<longleftrightarrow> ensures good m (\<lambda>c _. good c)"
  by (simp add: keeps_def ensures_def)

lemma keepsD: "keeps good m \<Longrightarrow> good c \<Longrightarrow> \<exists>c' r. m c = Some (c', r) \<and> good c'"
  by (simp add: keeps_def)

lemma keeps_return: "keeps good (run_return r)"
  by (simp add: keeps_def run_return_def)

lemma keeps_bind: "keeps good m \<Longrightarrow> (\<And>x. keeps good (f x)) \<Longrightarrow> keeps good (run_bind m f)"
  unfolding keeps_ensures by (rule ensures_bind [where R = "\<lambda>c _. good c"])

lemma keeps_if: "keeps good a \<Longrightarrow> keeps good b \<Longrightarrow> keeps good (if x then a else b)"
  by simp

lemma keeps_try: "keeps good m \<Longrightarrow> keeps good (run_try m)"
  unfolding keeps_ensures by (rule ensures_try)

end
