(* ===== verification/GithubClient.thy ===== *)
theory GithubClient
  imports Github Redaction Runs
begin

text \<open>
  The stateful half of \<open>adapters/github.ts\<close>: \<open>GitHubAdapter\<close>, which runs the \<open>gh\<close> command, keeps a
  bounded cache of representations to revalidate, and holds back reads while GitHub asks for it.

  Every operation is a function of the adapter's state. The world is a record of what the code cannot
  compute: the clock by the number of times it was read, the answer of the \<open>gh\<close> process to the n-th
  request, and the library conversions. An operation yields \<open>None\<close> when it does not return, and
  otherwise the next state with the result or the throw.
\<close>

section \<open>Responses on the wire\<close>

record response_head =
  head_status :: jsnum
  head_headers :: "string \<Rightarrow> string option"
  rawBody :: string

fun normalize_newlines :: "string \<Rightarrow> string" where
  "normalize_newlines [] = []"
| "normalize_newlines [c] = [c]"
| "normalize_newlines (c # d # s) =
     (if c = CHR 0x0D \<and> d = CHR 0x0A then CHR 0x0A # normalize_newlines s else c # normalize_newlines (d # s))"

text \<open>What stands before the first empty line and what after it.\<close>

fun split_boundary :: "string \<Rightarrow> (string \<times> string) option" where
  "split_boundary [] = None"
| "split_boundary (c # s) =
     (if prefix [CHR 0x0A, CHR 0x0A] (c # s) then Some ([], tl s)
      else (case split_boundary s of None \<Rightarrow> None | Some (a, b) \<Rightarrow> Some (c # a, b)))"

text \<open>\<open>/^HTTP\/\S+\s+(\d{3})(?:\s|$)/\<close>\<close>

definition status_line :: "string \<Rightarrow> jsnum option" where
  "status_line line =
     (let r = drop 5 line; version = takeWhile (\<lambda>c. \<not> is_space c) r;
          r' = dropWhile (\<lambda>c. \<not> is_space c) r; code = dropWhile is_space r' in
      if prefix ''HTTP/'' line \<and> version \<noteq> [] \<and> r' \<noteq> [] \<and> 3 \<le> length code
         \<and> list_all is_digit (take 3 code) \<and> (case drop 3 code of [] \<Rightarrow> True | c # _ \<Rightarrow> is_space c)
      then Some (digits_value (take 3 code)) else None)"

fun parse_headers :: "string list \<Rightarrow> (string \<Rightarrow> string option) \<Rightarrow> jsnum exn + (string \<Rightarrow> string option)" where
  "parse_headers [] headers = Inr headers"
| "parse_headers (line # rest) headers =
     (let before = takeWhile (\<lambda>c. c \<noteq> CHR '':'') line; after = dropWhile (\<lambda>c. c \<noteq> CHR '':'') line in
      if after = [] \<or> before = []
      then Inl (response_error [Lit ''GitHub response contains a malformed header''])
      else
      let name = map to_lower (trim before); v = trim (tl after) in
      if name = [] then Inl (response_error [Lit ''GitHub response contains an empty header name''])
      else parse_headers rest
        (headers(name \<mapsto> (case headers name of None \<Rightarrow> v | Some w \<Rightarrow> w @ '', '' @ v))))"

definition parse_response_head :: "string \<Rightarrow> jsnum exn + response_head" where
  "parse_response_head stdout =
     (case split_boundary (normalize_newlines stdout) of
        None \<Rightarrow> Inl (response_error [Lit ''GitHub response is missing its header boundary''])
      | Some (head, body) \<Rightarrow>
          let lines = split_on CHR 0x0A head in
          (case status_line (hd lines) of
             None \<Rightarrow> Inl (response_error [Lit ''GitHub response is missing its HTTP status''])
           | Some status \<Rightarrow>
               rbind (parse_headers (tl lines) (\<lambda>_. None)) (\<lambda>headers.
               Inr \<lparr>head_status = status, head_headers = headers, rawBody = body\<rparr>)))"

definition parse_response_body :: "(string \<Rightarrow> jsval option) \<Rightarrow> response_head \<Rightarrow> jsnum exn + included_response" where
  "parse_response_body json_parse h =
     (let done = (\<lambda>body. Inr \<lparr>resp_status = head_status h, resp_headers = head_headers h, resp_body = body\<rparr>) in
      if num_eq (head_status h) (Fin 304) \<and> rawBody h \<noteq> []
      then Inl (response_error [Lit ''GitHub 304 response body must be empty''])
      else if rawBody h = [] \<and> (num_eq (head_status h) (Fin 204) \<or> num_eq (head_status h) (Fin 304))
      then done JNull
      else (case json_parse (rawBody h) of
              None \<Rightarrow> Inl (response_error [Lit ''GitHub response body is not valid JSON''])
            | Some body \<Rightarrow> done body))"

definition parse_included_response :: "(string \<Rightarrow> jsval option) \<Rightarrow> string \<Rightarrow> jsnum exn + included_response" where
  "parse_included_response json_parse stdout =
     rbind (parse_response_head stdout) (parse_response_body json_parse)"

section \<open>State and world\<close>

datatype http_method = GET | POST | DELETE

record process_result =
  exitCode :: jsnum
  proc_stdout :: string
  proc_stderr :: string

text \<open>The arguments of one run of \<open>gh\<close>, with the entity tag of the representation to revalidate.\<close>

record gh_request =
  req_method :: http_method
  req_endpoint :: string
  req_fields :: "(string \<times> string) list"
  req_etag :: "string option"

record gh_world =
  wclock :: "nat \<Rightarrow> jsnum"
  wprocess :: "nat \<Rightarrow> gh_request \<Rightarrow> jsnum exn + process_result"
  wnumber_of :: "string \<Rightarrow> jsnum"
  wdate_of :: "string \<Rightarrow> jsnum"
  wjson_parse :: "string \<Rightarrow> jsval option"
  wbyte_length :: "included_response \<Rightarrow> nat"
  wshow_number :: "jsnum \<Rightarrow> string"
  wlocale_le :: "string \<times> string \<Rightarrow> string \<times> string \<Rightarrow> bool"

type_synonym request_key = "string \<times> (string \<times> string) list"

record cached_read =
  cr_endpoint :: string
  cr_response :: included_response
  cr_bytes :: int

record read_hold =
  hold_reason :: "jsnum message"
  hold_retryAtMs :: jsnum

record gh_client =
  gc_cache :: "(request_key, cached_read) jsmap"
  gc_cacheBytes :: int
  gc_hold :: "read_hold option"
  gc_throttled :: nat
  gc_reads :: nat
  gc_log :: "gh_request list"

definition new_client :: gh_client where
  "new_client = \<lparr>gc_cache = [], gc_cacheBytes = 0, gc_hold = None, gc_throttled = 0, gc_reads = 0, gc_log = []\<rparr>"

definition CACHE_ENTRY_LIMIT :: nat where "CACHE_ENTRY_LIMIT = 128"
definition CACHE_BYTE_LIMIT :: int where "CACHE_BYTE_LIMIT = 8 * 1024 * 1024"
definition CORE_RESERVE :: jsnum where "CORE_RESERVE = Fin 2000"
definition BACKOFF_FALLBACK_MS :: jsnum where "BACKOFF_FALLBACK_MS = Fin 60000"
definition BACKOFF_MAX_MS :: jsnum where "BACKOFF_MAX_MS = Fin (15 * 60000)"

definition tick_clock :: "gh_world \<Rightarrow> gh_client \<Rightarrow> jsnum \<times> gh_client" where
  "tick_clock w c = (wclock w (gc_reads c), c\<lparr>gc_reads := Suc (gc_reads c)\<rparr>)"

section \<open>The cache\<close>

text \<open>\<open>Map.delete\<close>\<close>

definition map_delete :: "'k \<Rightarrow> ('k, 'v) jsmap \<Rightarrow> ('k, 'v) jsmap" where
  "map_delete k m = filter (\<lambda>(k', _). k' \<noteq> k) m"

definition forget :: "request_key \<Rightarrow> gh_client \<Rightarrow> gh_client" where
  "forget k c =
     c\<lparr>gc_cacheBytes := (case map_get (gc_cache c) k of None \<Rightarrow> gc_cacheBytes c
                          | Some e \<Rightarrow> gc_cacheBytes c - cr_bytes e),
       gc_cache := map_delete k (gc_cache c)\<rparr>"

text \<open>
  The eviction loop of \<open>#remember\<close>. On an empty cache the oldest key is \<open>undefined\<close> and forgetting
  it changes nothing, so nothing in the code rules out that the loop runs forever.
\<close>

partial_function (option) evict :: "int \<Rightarrow> gh_client \<Rightarrow> gh_client option" where
  "evict bytes c =
     (if CACHE_ENTRY_LIMIT \<le> length (gc_cache c) \<or> CACHE_BYTE_LIMIT < gc_cacheBytes c + bytes
      then (case gc_cache c of [] \<Rightarrow> evict bytes c | (k, _) # _ \<Rightarrow> evict bytes (forget k c))
      else Some c)"

definition has_etag :: "included_response \<Rightarrow> bool" where
  "has_etag r \<longleftrightarrow> (case resp_headers r ''etag'' of None \<Rightarrow> False | Some e \<Rightarrow> e \<noteq> [])"

definition remember :: "gh_world \<Rightarrow> request_key \<Rightarrow> string \<Rightarrow> included_response \<Rightarrow> gh_client \<Rightarrow> gh_client option" where
  "remember w k endpoint r c =
     (let c = forget k c; bytes = int (wbyte_length w r) in
      if \<not> has_etag r then Some c
      else if CACHE_BYTE_LIMIT < bytes then Some c
      else (case evict bytes c of
              None \<Rightarrow> None
            | Some c \<Rightarrow> Some (c\<lparr>gc_cache := map_set k \<lparr>cr_endpoint = endpoint, cr_response = r, cr_bytes = bytes\<rparr>
                                   (gc_cache c),
                                gc_cacheBytes := gc_cacheBytes c + bytes\<rparr>)))"

section \<open>The hold on reads\<close>

text \<open>\<open>readHold\<close>: the hold that is in force with the time left; one that has run out is dropped.\<close>

definition read_hold :: "gh_world \<Rightarrow> gh_client \<Rightarrow> (read_hold \<times> jsnum) option \<times> gh_client" where
  "read_hold w c =
     (case gc_hold c of
        None \<Rightarrow> (None, c)
      | Some h \<Rightarrow>
          let (now, c) = tick_clock w c; left = hold_retryAtMs h - now in
          if left \<le> Fin 0 then (None, c\<lparr>gc_hold := None\<rparr>) else (Some (h, left), c))"

definition hold_for :: "jsnum \<Rightarrow> jsnum \<Rightarrow> jsnum message \<Rightarrow> gh_client \<Rightarrow> gh_client" where
  "hold_for now delay reason c =
     (let retry = now + delay in
      case gc_hold c of
        None \<Rightarrow> c\<lparr>gc_hold := Some \<lparr>hold_reason = reason, hold_retryAtMs = retry\<rparr>\<rparr>
      | Some h \<Rightarrow> if hold_retryAtMs h < retry
                  then c\<lparr>gc_hold := Some \<lparr>hold_reason = reason, hold_retryAtMs = retry\<rparr>\<rparr> else c)"

definition fallback_delay :: "nat \<Rightarrow> jsnum" where
  "fallback_delay throttled = num_min BACKOFF_MAX_MS (BACKOFF_FALLBACK_MS * Fin (2 ^ min throttled 4))"

definition throttle_delay :: "gh_world \<Rightarrow> jsnum \<Rightarrow> response_head \<Rightarrow> nat \<Rightarrow> jsnum" where
  "throttle_delay w now h throttled =
     (case rate_limit_backoff_ms (wnumber_of w) (wdate_of w) (head_status h) (head_headers h) now of
        Some d \<Rightarrow> if Fin 0 < d then d else fallback_delay throttled
      | None \<Rightarrow> fallback_delay throttled)"

definition observe_throttle :: "gh_world \<Rightarrow> jsnum \<Rightarrow> response_head \<Rightarrow> gh_client \<Rightarrow> gh_client" where
  "observe_throttle w now h c =
     (if num_eq (head_status h) (Fin 403) \<or> num_eq (head_status h) (Fin 429)
      then hold_for now (throttle_delay w now h (gc_throttled c))
             [Lit ''GitHub HTTP '', Num (head_status h), Lit '' read backoff'']
             (c\<lparr>gc_throttled := Suc (gc_throttled c)\<rparr>)
      else c)"

definition reserve_reached :: "gh_world \<Rightarrow> response_head \<Rightarrow> bool" where
  "reserve_reached w h \<longleftrightarrow>
     head_headers h ''x-ratelimit-resource'' = Some ''core''
     \<and> (case head_headers h ''x-ratelimit-remaining'' of None \<Rightarrow> False
        | Some s \<Rightarrow> trim s \<noteq> [] \<and> is_safe_integer (wnumber_of w s)
                    \<and> Fin 0 \<le> wnumber_of w s \<and> wnumber_of w s \<le> CORE_RESERVE)"

definition observe_quota :: "gh_world \<Rightarrow> response_head \<Rightarrow> gh_client \<Rightarrow> gh_client" where
  "observe_quota w h c =
     (let (now, c) = tick_clock w c; c = observe_throttle w now h c in
      if reserve_reached w h
      then let reset = (case head_headers h ''x-ratelimit-reset'' of None \<Rightarrow> NaN | Some s \<Rightarrow> wnumber_of w s) * Fin 1000
           in hold_for now (if is_finite reset \<and> now < reset then num_ceil (reset - now) else BACKOFF_FALLBACK_MS)
                [Lit ''GitHub Core quota reserve reached''] c
      else c)"

section \<open>A call\<close>

definition request_key :: "gh_world \<Rightarrow> string \<Rightarrow> (string \<times> string) list \<Rightarrow> request_key" where
  "request_key w endpoint params = (endpoint, sort_by (wlocale_le w) params)"

text \<open>The prefix up to \<open>/actions/runners/\<close>, when it is there.\<close>

fun before_runner_suffix :: "string \<Rightarrow> string option" where
  "before_runner_suffix [] = None"
| "before_runner_suffix (c # s) =
     (if prefix ''/actions/runners/'' (c # s) then Some []
      else (case before_runner_suffix s of None \<Rightarrow> None | Some p \<Rightarrow> Some (c # p)))"

definition runner_list_endpoint :: "string \<Rightarrow> string" where
  "runner_list_endpoint endpoint =
     (case before_runner_suffix endpoint of None \<Rightarrow> endpoint | Some p \<Rightarrow> p @ ''/actions/runners'')"

definition forget_endpoint :: "string \<Rightarrow> gh_client \<Rightarrow> gh_client" where
  "forget_endpoint endpoint c =
     foldl (\<lambda>c k. forget k c) c (map fst (filter (\<lambda>(_, e). cr_endpoint e = endpoint) (gc_cache c)))"

definition successful :: "jsnum \<Rightarrow> bool" where
  "successful status \<longleftrightarrow> Fin 200 \<le> status \<and> status < Fin 300"

type_synonym 'a gh = "(gh_client, 'a) run"

definition gh_fail :: "jsnum message \<Rightarrow> 'a gh" where
  "gh_fail m c = Some (c, Inl (response_error m))"

text \<open>What follows once head and body are read: revalidation, the cache, and the reset of the backoff.\<close>

definition accept_response ::
  "gh_world \<Rightarrow> http_method \<Rightarrow> string \<Rightarrow> request_key \<Rightarrow> cached_read option \<Rightarrow> included_response \<Rightarrow> included_response gh" where
  "accept_response w meth endpoint k cached r c =
     (if num_eq (resp_status r) (Fin 304)
      then (case cached of
              None \<Rightarrow> gh_fail [Lit ''GitHub returned 304 without a matching cached representation''] c
            | Some e \<Rightarrow>
                let revalidated = \<lparr>resp_status = Fin 200,
                      resp_headers = resp_headers (cr_response e) ++ resp_headers r,
                      resp_body = resp_body (cr_response e)\<rparr>
                in (case remember w k endpoint revalidated c of None \<Rightarrow> None
                    | Some c \<Rightarrow> Some (c\<lparr>gc_throttled := 0\<rparr>, Inr revalidated)))
      else
      let c = (if successful (resp_status r) then c\<lparr>gc_throttled := 0\<rparr> else c) in
      case (if meth = GET \<and> num_eq (resp_status r) (Fin 200) then remember w k endpoint r c else Some c) of
        None \<Rightarrow> None
      | Some c \<Rightarrow>
          Some ((if meth \<noteq> GET \<and> (successful (resp_status r) \<or> meth = DELETE \<and> num_eq (resp_status r) (Fin 404))
                 then forget_endpoint (runner_list_endpoint endpoint) c else c), Inr r))"

definition handle_result ::
  "gh_world \<Rightarrow> http_method \<Rightarrow> string \<Rightarrow> bool \<Rightarrow> request_key \<Rightarrow> cached_read option \<Rightarrow> process_result \<Rightarrow> included_response gh" where
  "handle_result w meth endpoint acceptErrors k cached res c =
     (if proc_stdout res = []
      then let t = redact_credential_shapes (trim (proc_stderr res)); tl' = slice_last 300 t in
        gh_fail [Lit ''gh exited '', Num (exitCode res), Lit '' without a parseable response'',
                 Lit (if tl' = [] then '' (no stderr)'' else '': '' @ tl')] c
      else
      case parse_response_head (proc_stdout res) of
        Inl e \<Rightarrow> Some (c, Inl e)
      | Inr h \<Rightarrow>
          let c = observe_quota w h c in
          case parse_response_body (wjson_parse w) h of
            Inl e \<Rightarrow> Some (c, Inl e)
          | Inr r \<Rightarrow>
              let matched304 = (num_eq (resp_status r) (Fin 304) \<and> cached \<noteq> None);
                  acceptedError = (acceptErrors \<and> num_eq (exitCode res) (Fin 1) \<and> Fin 400 \<le> resp_status r)
              in if \<not> num_eq (exitCode res) (Fin 0) \<and> \<not> (num_eq (exitCode res) (Fin 1) \<and> matched304) \<and> \<not> acceptedError
                 then gh_fail [Lit ''gh exited '', Num (exitCode res), Lit '' while reading HTTP '', Num (resp_status r)] c
                 else accept_response w meth endpoint k cached r c)"

definition gh_call ::
  "gh_world \<Rightarrow> http_method \<Rightarrow> string \<Rightarrow> (string \<times> string) list \<Rightarrow> bool \<Rightarrow> included_response gh" where
  "gh_call w meth endpoint params acceptErrors c =
     (let (hold, c) = read_hold w c in
      case (if meth = GET then hold else None) of
        Some (h, _) \<Rightarrow> gh_fail (hold_reason h) c
      | None \<Rightarrow>
          let k = request_key w endpoint params;
              cached = (if meth = GET then map_get (gc_cache c) k else None);
              req = \<lparr>req_method = meth, req_endpoint = endpoint, req_fields = params,
                     req_etag = (case cached of None \<Rightarrow> None | Some e \<Rightarrow> resp_headers (cr_response e) ''etag'')\<rparr>;
              answer = wprocess w (length (gc_log c)) req;
              c = c\<lparr>gc_log := gc_log c @ [req]\<rparr>
          in case answer of
               Inl e \<Rightarrow> Some (c, Inl e)
             | Inr res \<Rightarrow> handle_result w meth endpoint acceptErrors k cached res c)"

section \<open>The operations of the adapter\<close>

definition is_segment_char :: "char \<Rightarrow> bool" where
  "is_segment_char c \<longleftrightarrow> is_word c \<or> c = CHR ''.'' \<or> c = CHR ''-''"

definition segment :: "string \<Rightarrow> jsnum exn + string" where
  "segment v =
     (if v \<noteq> [] \<and> list_all is_segment_char v then Inr v
      else Inl (response_error [Lit ''GitHub owner and repository must be URL-safe path segments'']))"

definition repo_endpoint :: "string \<Rightarrow> string \<Rightarrow> string \<Rightarrow> jsnum exn + string" where
  "repo_endpoint owner repo path =
     rbind (segment owner) (\<lambda>a. rbind (segment repo) (\<lambda>b. Inr (''/repos/'' @ a @ ''/'' @ b @ path)))"

definition variable_endpoint :: "string \<Rightarrow> string \<Rightarrow> string \<Rightarrow> jsnum exn + string" where
  "variable_endpoint owner repo name =
     (if name \<noteq> [] \<and> is_upper (hd name)
         \<and> list_all (\<lambda>c. is_upper c \<or> is_digit c \<or> c = CHR ''_'') name
      then repo_endpoint owner repo (''/actions/variables/'' @ name)
      else Inl (response_error [Lit ''variable name must be an upper-case repository variable identifier'']))"

text \<open>\<open>(body as {...} | null)?.name\<close>\<close>

definition body_member :: "included_response \<Rightarrow> string \<Rightarrow> jsval" where
  "body_member r name = (case resp_body r of JObj kvs \<Rightarrow> get_prop kvs name | _ \<Rightarrow> JUndef)"

definition http_error :: "included_response \<Rightarrow> jsnum message \<Rightarrow> jsnum exn" where
  "http_error r action =
     (let detail = (case body_member r ''message'' of
            JStr m \<Rightarrow> '': '' @ take 300 (redact_credential_shapes m) | _ \<Rightarrow> [])
      in response_error ([Lit ''GitHub returned HTTP '', Num (resp_status r), Lit '' ''] @ action @ [Lit detail]))"

fun error_name :: "jsnum exn \<Rightarrow> string" where
  "error_name (Exn GitHubResponseError _) = ''GitHubResponseError''"
| "error_name (Exn _ _) = ''Error''"

fun read_pages_loop ::
  "gh_world \<Rightarrow> string \<Rightarrow> (string \<times> string) list \<Rightarrow> nat \<Rightarrow> nat \<Rightarrow> page list \<Rightarrow> page list gh" where
  "read_pages_loop w endpoint params n 0 pages c = Some (c, Inr pages)"
| "read_pages_loop w endpoint params n (Suc left) pages c =
     (let number = Fin (of_nat n) in
      case gh_call w GET endpoint
             (params @ [(''per_page'', ''100''), (''page'', wshow_number w number)]) False c of
        None \<Rightarrow> None
      | Some (c, Inl e) \<Rightarrow>
          let (hold, c) = read_hold w c;
              status = (case hold of None \<Rightarrow> Fin 0 | Some _ \<Rightarrow> Fin 429);
              headers = (case hold of None \<Rightarrow> (\<lambda>_. None)
                | Some (_, t) \<Rightarrow> [''retry-after'' \<mapsto> wshow_number w (num_div t (Fin 1000))])
          in Some (c, Inr (pages @ [\<lparr>page_number = number,
                page_response = \<lparr>resp_status = status, resp_headers = headers,
                                 resp_body = JObj [(''error'', JStr (error_name e))]\<rparr>\<rparr>]))
      | Some (c, Inr r) \<Rightarrow>
          let pages = pages @ [\<lparr>page_number = number, page_response = r\<rparr>] in
          if \<not> num_eq (resp_status r) (Fin 200) then Some (c, Inr pages)
          else (case next_page (resp_headers r) of
                  Inl e \<Rightarrow> Some (c, Inl e)
                | Inr None \<Rightarrow> Some (c, Inr pages)
                | Inr (Some _) \<Rightarrow> read_pages_loop w endpoint params (Suc n) left pages c))"

definition read_pages :: "gh_world \<Rightarrow> string \<Rightarrow> (string \<times> string) list \<Rightarrow> page list gh" where
  "read_pages w endpoint params = read_pages_loop w endpoint params 1 10000 []"

text \<open>Collecting the pages that were read, at the time of a fresh look at the clock.\<close>

definition backoff_at :: "gh_world \<Rightarrow> jsnum \<Rightarrow> jsnum \<Rightarrow> (string \<Rightarrow> string option) \<Rightarrow> jsnum option" where
  "backoff_at w now status headers = rate_limit_backoff_ms (wnumber_of w) (wdate_of w) status headers now"

definition collected :: "gh_world \<Rightarrow> ((jsnum \<Rightarrow> (string \<Rightarrow> string option) \<Rightarrow> jsnum option) \<Rightarrow> 'a) \<Rightarrow> 'a gh" where
  "collected w f c = (let (now, c) = tick_clock w c in Some (c, Inr (f (backoff_at w now))))"

definition list_runs :: "gh_world \<Rightarrow> string \<Rightarrow> string \<Rightarrow> string \<Rightarrow> workflow_run collection gh" where
  "list_runs w owner repo status =
     (if status \<notin> set ACTIVE_RUN_STATUSES
      then run_return (Inr (col_incomplete [Lit ''unsupported active run status''] None))
      else run_bind (run_return (repo_endpoint owner repo ''/actions/runs'')) (\<lambda>endpoint.
           run_bind (read_pages w endpoint [(''status'', status)]) (\<lambda>pages.
           collected w (\<lambda>backoff. collect_run_pages backoff pages))))"

fun active_runs_loop ::
  "gh_world \<Rightarrow> string \<Rightarrow> string \<Rightarrow> (jsnum \<times> jsnum, workflow_run) jsmap \<Rightarrow> string list \<Rightarrow> workflow_run collection gh" where
  "active_runs_loop w owner repo runs [] c = Some (c, Inr (col_done (map snd runs)))"
| "active_runs_loop w owner repo runs (status # rest) c =
     (case list_runs w owner repo status c of
        None \<Rightarrow> None
      | Some (c, Inl e) \<Rightarrow> Some (c, Inl e)
      | Some (c, Inr result) \<Rightarrow>
          if \<not> col_complete result then Some (c, Inr result)
          else active_runs_loop w owner repo
                 (foldl (\<lambda>m x. map_set (run_key x) x m) runs (col_items result)) rest c)"

definition list_active_runs :: "gh_world \<Rightarrow> string \<Rightarrow> string \<Rightarrow> workflow_run collection gh" where
  "list_active_runs w owner repo = active_runs_loop w owner repo [] ACTIVE_RUN_STATUSES"

definition get_repository :: "gh_world \<Rightarrow> string \<Rightarrow> string \<Rightarrow> github_repository gh" where
  "get_repository w owner repo =
     run_bind (run_return (repo_endpoint owner repo [])) (\<lambda>endpoint.
     run_bind (gh_call w GET endpoint [] False) (\<lambda>r.
     if \<not> num_eq (resp_status r) (Fin 200)
     then gh_fail [Lit ''GitHub returned HTTP '', Num (resp_status r)]
     else run_return (parse_repository_response (resp_body r))))"

definition list_jobs :: "gh_world \<Rightarrow> string \<Rightarrow> string \<Rightarrow> jsnum \<Rightarrow> jsnum \<Rightarrow> workflow_job collection gh" where
  "list_jobs w owner repo runId runAttempt =
     run_bind (run_return (gh_integer (JNum runId) [Lit ''runId''] False)) (\<lambda>_.
     run_bind (run_return (gh_integer (JNum runAttempt) [Lit ''runAttempt''] False)) (\<lambda>_.
     run_bind (run_return (repo_endpoint owner repo (''/actions/runs/'' @ wshow_number w runId
         @ ''/attempts/'' @ wshow_number w runAttempt @ ''/jobs''))) (\<lambda>endpoint.
     run_bind (read_pages w endpoint []) (\<lambda>pages.
     collected w (\<lambda>backoff. collect_job_pages backoff
       (map (\<lambda>p. page.extend p \<lparr>page_runId = runId, page_runAttempt = runAttempt\<rparr>) pages))))))"

definition list_runners :: "gh_world \<Rightarrow> string \<Rightarrow> string \<Rightarrow> repository_runner collection gh" where
  "list_runners w owner repo =
     run_bind (run_return (repo_endpoint owner repo ''/actions/runners'')) (\<lambda>endpoint.
     run_bind (read_pages w endpoint []) (\<lambda>pages.
     collected w (\<lambda>backoff. collect_pages backoff pages ''runners'' parse_runner_page runner_id)))"

datatype variable_state = VarOn | VarOther | VarAbsent

definition get_variable :: "gh_world \<Rightarrow> string \<Rightarrow> string \<Rightarrow> string \<Rightarrow> variable_state gh" where
  "get_variable w owner repo name =
     run_bind (run_return (variable_endpoint owner repo name)) (\<lambda>endpoint.
     run_bind (gh_call w GET endpoint [] True) (\<lambda>r.
     if num_eq (resp_status r) (Fin 404) then run_return (Inr VarAbsent)
     else if \<not> num_eq (resp_status r) (Fin 200)
     then run_return (Inl (http_error r [Lit ''reading variable '', Lit name]))
     else run_return (Inr (case body_member r ''value'' of
            JStr s \<Rightarrow> if map to_lower s = ''on'' then VarOn else VarOther | _ \<Rightarrow> VarOther))))"

text \<open>\<open>True\<close> is \<open>deleted\<close>, \<open>False\<close> is \<open>absent\<close>.\<close>

definition delete_variable :: "gh_world \<Rightarrow> string \<Rightarrow> string \<Rightarrow> string \<Rightarrow> bool gh" where
  "delete_variable w owner repo name =
     run_bind (run_return (variable_endpoint owner repo name)) (\<lambda>endpoint.
     run_bind (gh_call w DELETE endpoint [] True) (\<lambda>r.
     if num_eq (resp_status r) (Fin 204) then run_return (Inr True)
     else if num_eq (resp_status r) (Fin 404) then run_return (Inr False)
     else run_return (Inl (http_error r [Lit ''deleting variable '', Lit name]))))"

text \<open>\<open>True\<close> is \<open>accepted\<close>, \<open>False\<close> is \<open>completed\<close>.\<close>

definition force_cancel_run :: "gh_world \<Rightarrow> string \<Rightarrow> string \<Rightarrow> jsnum \<Rightarrow> bool gh" where
  "force_cancel_run w owner repo runId =
     run_bind (run_return (gh_integer (JNum runId) [Lit ''runId''] False)) (\<lambda>_.
     run_bind (run_return (repo_endpoint owner repo (''/actions/runs/'' @ wshow_number w runId @ ''/force-cancel''))) (\<lambda>endpoint.
     run_bind (gh_call w POST endpoint [] True) (\<lambda>r.
     if num_eq (resp_status r) (Fin 202) then run_return (Inr True)
     else if num_eq (resp_status r) (Fin 409) then run_return (Inr False)
     else run_return (Inl (http_error r [Lit ''force-cancelling run '', Num runId])))))"

definition rerun_job :: "gh_world \<Rightarrow> string \<Rightarrow> string \<Rightarrow> jsnum \<Rightarrow> unit gh" where
  "rerun_job w owner repo jobId =
     run_bind (run_return (gh_integer (JNum jobId) [Lit ''jobId''] False)) (\<lambda>_.
     run_bind (run_return (repo_endpoint owner repo (''/actions/jobs/'' @ wshow_number w jobId @ ''/rerun''))) (\<lambda>endpoint.
     run_bind (gh_call w POST endpoint [] True) (\<lambda>r.
     if num_eq (resp_status r) (Fin 201) then run_return (Inr ())
     else run_return (Inl (http_error r [Lit ''re-running job '', Num jobId])))))"

definition remove_owned_runner :: "gh_world \<Rightarrow> string \<Rightarrow> string \<Rightarrow> runner_ownership \<Rightarrow> unit gh" where
  "remove_owned_runner w owner repo own =
     (case ro_runner own of
        Some r \<Rightarrow>
          if ro_ownership own \<noteq> OOwned \<or> length (ro_matches own) \<noteq> 1
          then gh_fail [Lit ''runner removal requires one proven owned runner'']
          else run_bind (run_return (repo_endpoint owner repo (''/actions/runners/'' @ wshow_number w (runner_id r)))) (\<lambda>endpoint.
               run_bind (gh_call w DELETE endpoint [] False) (\<lambda>resp.
               if \<not> num_eq (resp_status resp) (Fin 204) \<and> \<not> num_eq (resp_status resp) (Fin 404)
               then gh_fail [Lit ''GitHub returned HTTP '', Num (resp_status resp), Lit '' while removing runner'']
               else run_return (Inr ())))
      | None \<Rightarrow> gh_fail [Lit ''runner removal requires one proven owned runner''])"

section \<open>The registration token\<close>

text \<open>\<open>RegistrationToken\<close>: the secret leaves it only through \<open>consume\<close>; every rendering is redacted.\<close>

datatype registration_token = RegistrationToken (token_secret: string) (token_expiresAt: string)

definition consume_token :: "registration_token \<Rightarrow> string" where
  "consume_token t = token_secret t"

definition token_to_json :: "registration_token \<Rightarrow> jsval" where
  "token_to_json t = JObj [(''expiresAt'', JStr (token_expiresAt t)), (''token'', JStr REDACTED)]"

definition token_to_string :: "registration_token \<Rightarrow> string" where
  "token_to_string t = ''[REDACTED GitHub registration token]''"

definition parse_registration_token :: "(string \<Rightarrow> jsnum) \<Rightarrow> jsval \<Rightarrow> jsnum exn + registration_token" where
  "parse_registration_token date_of v =
     rbind (gh_record v [Lit ''registration token response'']) (\<lambda>kvs.
     rbind (gh_string (get_prop kvs ''expires_at'') [Lit ''registration token response.expires_at'']) (\<lambda>expires.
     rbind (check (\<not> is_nan (date_of expires)) (response_error [Lit ''registration token expiry must be a timestamp''])) (\<lambda>_.
     rbind (gh_string (get_prop kvs ''token'') [Lit ''registration token response.token'']) (\<lambda>secret.
     Inr (RegistrationToken secret expires)))))"

definition create_registration_token :: "gh_world \<Rightarrow> string \<Rightarrow> string \<Rightarrow> registration_token gh" where
  "create_registration_token w owner repo =
     run_bind (run_return (repo_endpoint owner repo ''/actions/runners/registration-token'')) (\<lambda>endpoint.
     run_bind (gh_call w POST endpoint [] False) (\<lambda>r.
     if \<not> num_eq (resp_status r) (Fin 201)
     then gh_fail [Lit ''GitHub returned HTTP '', Num (resp_status r), Lit '' while creating registration token'']
     else run_return (parse_registration_token (wdate_of w) (resp_body r))))"

end
