(* ===== verification/Github_Properties.thy ===== *)
theory Github_Properties
  imports GithubClient
begin

text \<open>
  What the GitHub adapter promises: its cache stays within its bounds and every operation returns;
  a collection called complete holds every item of consecutive, agreeing pages; the queue snapshot
  counts exactly the eligible jobs, or says that it is incomplete and counts none.
\<close>

section \<open>The cache\<close>

definition cache_ok :: "gh_client \<Rightarrow> bool" where
  "cache_ok c \<longleftrightarrow> map_ok (gc_cache c) \<and> (\<forall>e \<in> snd ` set (gc_cache c). 0 \<le> cr_bytes e)
     \<and> gc_cacheBytes c = sum_list (map (cr_bytes \<circ> snd) (gc_cache c))
     \<and> gc_cacheBytes c \<le> CACHE_BYTE_LIMIT \<and> length (gc_cache c) \<le> CACHE_ENTRY_LIMIT"

lemma map_ok_simps [simp]: "map_ok []" "map_ok ((k, v) # m) \<longleftrightarrow> k \<notin> fst ` set m \<and> map_ok m"
  by (simp_all add: map_ok_def)

lemma map_delete_absent: "k \<notin> fst ` set m \<Longrightarrow> map_delete k m = m"
  by (induction m) (auto simp: map_delete_def)

lemma map_delete_sum:
  "map_ok m \<Longrightarrow> sum_list (map (f \<circ> snd) (map_delete k m)) =
     sum_list (map (f \<circ> snd) m) - (case map_get m k of None \<Rightarrow> 0 | Some e \<Rightarrow> (f e :: int))"
proof (induction m)
  case (Cons e m)
  obtain k' v where e: "e = (k', v)" by (cases e)
  show ?case
  proof (cases "k' = k")
    case True
    then have "map_delete k m = m" using Cons.prems by (intro map_delete_absent) (auto simp: e)
    then have "map_delete k (e # m) = m" using True by (simp add: map_delete_def e)
    then show ?thesis using True by (simp add: map_get_def e)
  next
    case False
    then show ?thesis using Cons by (simp add: map_delete_def map_get_def e)
  qed
qed (simp add: map_delete_def map_get_def)

lemma map_delete_ok: "map_ok m \<Longrightarrow> map_ok (map_delete k m)"
  by (induction m) (auto simp: map_delete_def)

lemma set_map_delete: "set (map_delete k m) \<subseteq> set m" "k \<notin> fst ` set (map_delete k m)"
  by (auto simp: map_delete_def)

lemma length_map_delete: "length (map_delete k m) \<le> length m"
  by (simp add: map_delete_def)

lemma sum_bytes_nonneg: "\<forall>e \<in> snd ` set m. 0 \<le> cr_bytes e \<Longrightarrow> 0 \<le> sum_list (map (cr_bytes \<circ> snd) m)"
  by (intro sum_list_nonneg) auto

lemma forget_ok: "cache_ok c \<Longrightarrow> cache_ok (forget k c)"
proof -
  assume c: "cache_ok c"
  let ?m = "map_delete k (gc_cache c)"
  have bytes: "gc_cacheBytes (forget k c) = sum_list (map (cr_bytes \<circ> snd) ?m)"
    using c by (simp add: cache_ok_def forget_def map_delete_sum split: option.split)
  have le: "gc_cacheBytes (forget k c) \<le> gc_cacheBytes c"
  proof (cases "map_get (gc_cache c) k")
    case (Some e)
    then have "(k, e) \<in> set (gc_cache c)" by (simp add: map_get_def map_of_SomeD)
    then have "0 \<le> cr_bytes e" using c by (force simp: cache_ok_def)
    then show ?thesis using Some by (simp add: forget_def)
  qed (simp add: forget_def)
  have "\<forall>e \<in> snd ` set ?m. 0 \<le> cr_bytes e" using c set_map_delete(1) [of k "gc_cache c"] by (fastforce simp: cache_ok_def)
  moreover have "length ?m \<le> CACHE_ENTRY_LIMIT"
    using c length_map_delete [of k "gc_cache c"] by (simp add: cache_ok_def)
  ultimately show ?thesis using c bytes le by (simp add: cache_ok_def forget_def map_delete_ok)
qed

lemma forget_removes: "k \<notin> fst ` set (gc_cache (forget k c))"
  using set_map_delete(2) by (simp add: forget_def)

lemma forget_keys: "fst ` set (gc_cache (forget k c)) \<subseteq> fst ` set (gc_cache c)"
  by (simp add: forget_def image_mono set_map_delete(1))

text \<open>The loop of \<open>#remember\<close> returns whenever the entry alone would fit: every round drops an entry,
and an empty cache holds no bytes.\<close>

lemma evict_returns:
  "cache_ok c \<Longrightarrow> bytes \<le> CACHE_BYTE_LIMIT \<Longrightarrow>
     \<exists>c'. evict bytes c = Some c' \<and> cache_ok c' \<and> length (gc_cache c') < CACHE_ENTRY_LIMIT
        \<and> gc_cacheBytes c' + bytes \<le> CACHE_BYTE_LIMIT \<and> fst ` set (gc_cache c') \<subseteq> fst ` set (gc_cache c)"
proof (induction "length (gc_cache c)" arbitrary: c rule: less_induct)
  case less
  show ?case
  proof (cases "CACHE_ENTRY_LIMIT \<le> length (gc_cache c) \<or> CACHE_BYTE_LIMIT < gc_cacheBytes c + bytes")
    case False
    then show ?thesis using less.prems by (auto simp: evict.simps [of bytes c])
  next
    case True
    have "gc_cache c \<noteq> []"
      using True less.prems by (auto simp: cache_ok_def CACHE_ENTRY_LIMIT_def)
    then obtain k e m where c: "gc_cache c = (k, e) # m" by (cases "gc_cache c") auto
    have "k \<notin> fst ` set m" using less.prems c by (simp add: cache_ok_def)
    then have "map_delete k (gc_cache c) = m" by (simp add: c map_delete_def filter_id_conv) force
    then have "length (gc_cache (forget k c)) < length (gc_cache c)" by (simp add: forget_def c)
    then obtain c' where c': "evict bytes (forget k c) = Some c'" "cache_ok c'"
        "length (gc_cache c') < CACHE_ENTRY_LIMIT" "gc_cacheBytes c' + bytes \<le> CACHE_BYTE_LIMIT"
        "fst ` set (gc_cache c') \<subseteq> fst ` set (gc_cache (forget k c))"
      using less.hyps [OF _ forget_ok [OF less.prems(1)] less.prems(2)] by blast
    moreover have "evict bytes c = evict bytes (forget k c)"
      using True by (simp add: evict.simps [of bytes c] c)
    ultimately show ?thesis using forget_keys [of k c] by auto
  qed
qed

lemma map_set_absent: "k \<notin> fst ` set m \<Longrightarrow> map_set k v m = m @ [(k, v)]"
  by (induction m) auto

lemma remember_ok:
  assumes c: "cache_ok c"
  shows "\<exists>c'. remember w k endpoint r c = Some c' \<and> cache_ok c'"
proof -
  let ?c = "forget k c"
  have ok: "cache_ok ?c" by (rule forget_ok [OF c])
  show ?thesis
  proof (cases "has_etag r \<and> int (wbyte_length w r) \<le> CACHE_BYTE_LIMIT")
    case False
    then show ?thesis using ok by (auto simp: remember_def Let_def)
  next
    case True
    then obtain c' where c': "evict (int (wbyte_length w r)) ?c = Some c'" "cache_ok c'"
        "length (gc_cache c') < CACHE_ENTRY_LIMIT" "gc_cacheBytes c' + int (wbyte_length w r) \<le> CACHE_BYTE_LIMIT"
        "fst ` set (gc_cache c') \<subseteq> fst ` set (gc_cache ?c)"
      using evict_returns [OF ok] by blast
    then have "k \<notin> fst ` set (gc_cache c')" using forget_removes [of k c] by blast
    then show ?thesis using True c'
      by (auto simp: remember_def Let_def map_set_absent cache_ok_def map_ok_def)
  qed
qed

text \<open>Everything else of the state leaves the cache alone.\<close>

lemma cache_ok_cong:
  "gc_cache c' = gc_cache c \<Longrightarrow> gc_cacheBytes c' = gc_cacheBytes c \<Longrightarrow> cache_ok c' = cache_ok c"
  by (simp add: cache_ok_def)

lemma tick_clock_cache [simp]:
  "gc_cache (snd (tick_clock w c)) = gc_cache c" "gc_cacheBytes (snd (tick_clock w c)) = gc_cacheBytes c"
  by (simp_all add: tick_clock_def)

lemma read_hold_cache [simp]:
  "gc_cache (snd (read_hold w c)) = gc_cache c" "gc_cacheBytes (snd (read_hold w c)) = gc_cacheBytes c"
  by (simp_all add: read_hold_def tick_clock_def Let_def split: option.split)

lemma hold_for_cache [simp]:
  "gc_cache (hold_for now d m c) = gc_cache c" "gc_cacheBytes (hold_for now d m c) = gc_cacheBytes c"
  by (simp_all add: hold_for_def Let_def split: option.split)

lemma observe_throttle_cache [simp]:
  "gc_cache (observe_throttle w now h c) = gc_cache c"
  "gc_cacheBytes (observe_throttle w now h c) = gc_cacheBytes c"
  by (simp_all add: observe_throttle_def)

lemma observe_quota_cache [simp]:
  "gc_cache (observe_quota w h c) = gc_cache c" "gc_cacheBytes (observe_quota w h c) = gc_cacheBytes c"
  by (simp_all add: observe_quota_def tick_clock_def Let_def)

lemma forget_endpoint_ok: "cache_ok c \<Longrightarrow> cache_ok (forget_endpoint endpoint c)"
proof -
  have "cache_ok c \<Longrightarrow> cache_ok (foldl (\<lambda>c k. forget k c) c ks)" for ks
    by (induction ks arbitrary: c) (auto simp: forget_ok)
  then show "cache_ok c \<Longrightarrow> cache_ok (forget_endpoint endpoint c)" by (simp add: forget_endpoint_def)
qed

section \<open>Every operation returns\<close>

text \<open>
  The contract of the private calls of the adapter: reading the clock and the hold, and one call of
  \<open>gh\<close>, return and keep \<open>good\<close>. What the public operations promise follows from it alone.
\<close>

locale adapter_contract =
  fixes w :: gh_world and methods :: "http_method set" and good :: "gh_client \<Rightarrow> bool"
  assumes reads: "GET \<in> methods"
    and clock_good: "good c \<Longrightarrow> good (snd (tick_clock w c))"
    and hold_good: "good c \<Longrightarrow> good (snd (read_hold w c))"
    and call_good: "meth \<in> methods \<Longrightarrow> keeps good (gh_call w meth endpoint params acceptErrors)"
begin

lemma keeps_fail: "keeps good (gh_fail m)"
  by (simp add: keeps_def gh_fail_def)

lemma keeps_collected: "keeps good (collected w f)"
  using clock_good by (auto simp: keeps_def collected_def Let_def case_prod_beta)

lemma keeps_read_pages_loop: "keeps good (read_pages_loop w endpoint params n left pages)"
proof (induction left arbitrary: n pages)
  case (Suc left)
  show ?case unfolding keeps_def
  proof (intro allI impI)
    fix c assume "good c"
    let ?call = "gh_call w GET endpoint
        (params @ [(''per_page'', ''100''), (''page'', wshow_number w (Fin (of_nat n)))]) False"
    obtain c' r where r: "?call c = Some (c', r)" "good c'"
      using keepsD [OF call_good [OF reads] \<open>good c\<close>] by blast
    show "\<exists>c' r. read_pages_loop w endpoint params n (Suc left) pages c = Some (c', r) \<and> good c'"
    proof (cases r)
      case (Inl e)
      then show ?thesis using r hold_good [OF r(2)] by (simp add: Let_def case_prod_beta)
    next
      case (Inr resp)
      then show ?thesis using r keepsD [OF Suc.IH r(2)]
        by (auto simp: Let_def split: sum.split option.split)
    qed
  qed
qed (simp add: keeps_def)

lemma keeps_read_pages: "keeps good (read_pages w endpoint params)"
  by (simp add: read_pages_def keeps_read_pages_loop)

lemmas keeps_intros = keeps_return keeps_fail keeps_bind keeps_if keeps_collected keeps_read_pages call_good reads

lemma keeps_list_runs: "keeps good (list_runs w owner repo status)"
  unfolding list_runs_def by (intro keeps_intros)

lemma keeps_active_runs_loop: "keeps good (active_runs_loop w owner repo runs statuses)"
proof (induction statuses arbitrary: runs)
  case (Cons status rest)
  show ?case unfolding keeps_def
  proof (intro allI impI)
    fix c assume "good c"
    then obtain c' r where "list_runs w owner repo status c = Some (c', r)" "good c'"
      using keepsD [OF keeps_list_runs] by blast
    then show "\<exists>c' r. active_runs_loop w owner repo runs (status # rest) c = Some (c', r) \<and> good c'"
      using keepsD [OF Cons.IH] by (cases r) auto
  qed
qed (simp add: keeps_def)

lemma keeps_reads:
  "keeps good (list_active_runs w owner repo)"
  "keeps good (get_repository w owner repo)"
  "keeps good (list_jobs w owner repo runId runAttempt)"
  "keeps good (list_runners w owner repo)"
  "keeps good (get_variable w owner repo name)"
  subgoal by (simp add: list_active_runs_def keeps_active_runs_loop)
  subgoal unfolding get_repository_def by (intro keeps_intros)
  subgoal unfolding list_jobs_def by (intro keeps_intros)
  subgoal unfolding list_runners_def by (intro keeps_intros)
  subgoal unfolding get_variable_def by (intro keeps_intros)
  done

lemma keeps_writes:
  "DELETE \<in> methods \<Longrightarrow> keeps good (delete_variable w owner repo name)"
  "POST \<in> methods \<Longrightarrow> keeps good (force_cancel_run w owner repo runId)"
  "POST \<in> methods \<Longrightarrow> keeps good (rerun_job w owner repo jobId)"
  "DELETE \<in> methods \<Longrightarrow> keeps good (remove_owned_runner w owner repo own)"
  "POST \<in> methods \<Longrightarrow> keeps good (create_registration_token w owner repo)"
  subgoal unfolding delete_variable_def by (intro keeps_intros)
  subgoal unfolding force_cancel_run_def by (intro keeps_intros)
  subgoal unfolding rerun_job_def by (intro keeps_intros)
  subgoal unfolding remove_owned_runner_def by (cases "ro_runner own") (auto intro!: keeps_intros)
  subgoal unfolding create_registration_token_def by (intro keeps_intros)
  done

end

lemma accept_response_ok:
  assumes c: "cache_ok c"
  shows "\<exists>c' res. accept_response w meth endpoint k cached r c = Some (c', res) \<and> cache_ok c'"
proof (cases "num_eq (resp_status r) (Fin 304)")
  case True
  show ?thesis
  proof (cases cached)
    case None
    then show ?thesis using True c by (simp add: accept_response_def gh_fail_def)
  next
    case (Some e)
    define rv where "rv = \<lparr>resp_status = Fin 200,
        resp_headers = resp_headers (cr_response e) ++ resp_headers r, resp_body = resp_body (cr_response e)\<rparr>"
    obtain c' where "remember w k endpoint rv c = Some c'" "cache_ok c'" using remember_ok [OF c] by blast
    then show ?thesis using True Some
      by (simp add: accept_response_def Let_def rv_def [symmetric] cache_ok_cong [of "c'\<lparr>gc_throttled := 0\<rparr>" c'])
  qed
next
  case False
  let ?c = "if successful (resp_status r) then c\<lparr>gc_throttled := 0\<rparr> else c"
  have "cache_ok ?c" using c by (simp add: cache_ok_def)
  then have "\<exists>c'. (if meth = GET \<and> num_eq (resp_status r) (Fin 200) then remember w k endpoint r ?c else Some ?c) = Some c'
      \<and> cache_ok c'" using remember_ok by auto
  then obtain c' where "(if meth = GET \<and> num_eq (resp_status r) (Fin 200) then remember w k endpoint r ?c else Some ?c) = Some c'"
      "cache_ok c'" by blast
  then show ?thesis using False forget_endpoint_ok [of c']
    by (auto simp: accept_response_def Let_def)
qed

lemma handle_result_ok:
  assumes c: "cache_ok c"
  shows "\<exists>c' res. handle_result w meth endpoint acc k cached r c = Some (c', res) \<and> cache_ok c'"
proof (cases "proc_stdout r = []")
  case True
  then show ?thesis using c by (simp add: handle_result_def gh_fail_def Let_def)
next
  case False
  show ?thesis
  proof (cases "parse_response_head (proc_stdout r)")
    case (Inl e)
    then show ?thesis using False c by (simp add: handle_result_def)
  next
    case (Inr h)
    have oc: "cache_ok (observe_quota w h c)" using c by (simp add: cache_ok_cong [of "observe_quota w h c" c])
    show ?thesis
      using False Inr oc accept_response_ok [OF oc, of w meth endpoint k cached]
      by (auto simp: handle_result_def Let_def gh_fail_def split: sum.split)
  qed
qed

lemma gh_call_ok:
  "keeps cache_ok (gh_call w meth endpoint params acc)"
  unfolding keeps_def
proof (intro allI impI)
  fix c assume c: "cache_ok c"
  obtain hold c1 where h: "read_hold w c = (hold, c1)" by (cases "read_hold w c")
  have c1: "cache_ok c1" using c read_hold_cache [of w c] cache_ok_cong [of c1 c] by (simp add: h)
  show "\<exists>c' r. gh_call w meth endpoint params acc c = Some (c', r) \<and> cache_ok c'"
  proof (cases "if meth = GET then hold else None")
    case (Some x)
    then show ?thesis using c1 by (cases x) (simp add: gh_call_def h gh_fail_def)
  next
    case None
    have c2: "cache_ok (c1\<lparr>gc_log := l\<rparr>)" for l using c1 by (simp add: cache_ok_def)
    show ?thesis
      using None c2 handle_result_ok [OF c2]
      by (auto simp: gh_call_def h Let_def split: sum.split)
  qed
qed

text \<open>The adapter's own calls keep the cache within its bounds, so the contract holds of them.\<close>

interpretation bounded: adapter_contract w UNIV cache_ok for w
proof
  show "cache_ok (snd (tick_clock w c))" if "cache_ok c" for c
    using that cache_ok_cong [of "snd (tick_clock w c)" c] by simp
  show "cache_ok (snd (read_hold w c))" if "cache_ok c" for c
    using that cache_ok_cong [of "snd (read_hold w c)" c] by simp
qed (simp_all add: gh_call_ok)

text \<open>
  C18 (termination). From a cache within its bounds (at most 128 entries and 8 MiB, the byte count
  the sum over the entries) every operation of the adapter returns, whatever \<open>gh\<close>
  answers, and leaves the cache within its bounds: the eviction loop of \<open>#remember\<close> cannot run forever
  and \<open>#readPages\<close> stops after 10,000 pages. A new adapter has such a cache.
\<close>

theorem adapter_operations_return:
  "cache_ok new_client
   \<and> keeps cache_ok (gh_call w meth endpoint params acceptErrors)
   \<and> keeps cache_ok (list_active_runs w owner repo) \<and> keeps cache_ok (get_repository w owner repo)
   \<and> keeps cache_ok (list_jobs w owner repo runId runAttempt) \<and> keeps cache_ok (list_runners w owner repo)
   \<and> keeps cache_ok (get_variable w owner repo name) \<and> keeps cache_ok (delete_variable w owner repo name)
   \<and> keeps cache_ok (force_cancel_run w owner repo runId) \<and> keeps cache_ok (rerun_job w owner repo jobId)
   \<and> keeps cache_ok (remove_owned_runner w owner repo own) \<and> keeps cache_ok (create_registration_token w owner repo)"
  using bounded.keeps_reads bounded.keeps_writes bounded.call_good
  by (simp add: cache_ok_def new_client_def CACHE_BYTE_LIMIT_def)

section \<open>The hold on reads\<close>

text \<open>A hold that every later look at the clock still finds in force, after the requests \<open>l\<close>.\<close>

definition held :: "gh_world \<Rightarrow> read_hold \<Rightarrow> gh_request list \<Rightarrow> gh_client \<Rightarrow> bool" where
  "held w h l c \<longleftrightarrow> gc_hold c = Some h \<and> gc_log c = l \<and> (\<forall>i. Fin 0 < hold_retryAtMs h - wclock w (gc_reads c + i))"

lemma num_pos_not_le: "Fin 0 < x \<Longrightarrow> \<not> x \<le> Fin 0"
  by (cases x) auto

lemma held_tick: "held w h l c \<Longrightarrow> held w h l (c\<lparr>gc_reads := Suc (gc_reads c)\<rparr>)"
  by (simp add: held_def) (metis add_Suc_right)

lemma held_read_hold:
  assumes "held w h l c"
  shows "read_hold w c = (Some (h, hold_retryAtMs h - wclock w (gc_reads c)), c\<lparr>gc_reads := Suc (gc_reads c)\<rparr>)"
proof -
  have "Fin 0 < hold_retryAtMs h - wclock w (gc_reads c)"
    using assms unfolding held_def by (metis add_0_right)
  then show ?thesis using assms num_pos_not_le
    by (simp add: read_hold_def tick_clock_def Let_def held_def)
qed

lemma held_get:
  "held w h l c \<Longrightarrow> gh_call w GET endpoint params acc c =
     Some (c\<lparr>gc_reads := Suc (gc_reads c)\<rparr>, Inl (response_error (hold_reason h)))"
  by (simp add: gh_call_def held_read_hold gh_fail_def)

interpretation held: adapter_contract w "{GET}" "held w h l" for w h l
proof
  show "held w h l (snd (tick_clock w c))" if "held w h l c" for c
    using held_tick [OF that] by (simp add: tick_clock_def)
  show "held w h l (snd (read_hold w c))" if "held w h l c" for c
    using held_tick [OF that] by (simp add: held_read_hold [OF that])
  show "keeps (held w h l) (gh_call w meth endpoint params acc)" if "meth \<in> {GET}" for meth endpoint params acc
    using that by (auto simp: keeps_def held_get held_tick)
qed simp

text \<open>
  While a hold on reads is in force, a read throws the reason of the hold, and no
  reading operation of the adapter runs \<open>gh\<close> at all: the log of its requests stays what it was and the
  hold stays.
\<close>

theorem held_reads_send_nothing:
  assumes "held w h l c"
  shows "gh_call w GET endpoint params acc c =
           Some (c\<lparr>gc_reads := Suc (gc_reads c)\<rparr>, Inl (response_error (hold_reason h)))
    \<and> (\<exists>c' r. list_active_runs w owner repo c = Some (c', r) \<and> held w h l c')
    \<and> (\<exists>c' r. get_repository w owner repo c = Some (c', r) \<and> held w h l c')
    \<and> (\<exists>c' r. list_jobs w owner repo runId runAttempt c = Some (c', r) \<and> held w h l c')
    \<and> (\<exists>c' r. list_runners w owner repo c = Some (c', r) \<and> held w h l c')
    \<and> (\<exists>c' r. get_variable w owner repo name c = Some (c', r) \<and> held w h l c')"
  using held_get [OF assms] held.keeps_reads [THEN keepsD, OF assms] by blast

definition sample_world :: gh_world where
  "sample_world = \<lparr>wclock = (\<lambda>_. Fin 1000),
     wprocess = (\<lambda>_ _. Inl (Exn PlainError [Lit ''no process''])),
     wnumber_of = (\<lambda>_. NaN), wdate_of = (\<lambda>_. NaN), wjson_parse = (\<lambda>_. None), wbyte_length = (\<lambda>_. 0),
     wshow_number = (\<lambda>_. ''1''), wlocale_le = (\<lambda>_ _. True)\<rparr>"

definition sample_read_hold :: read_hold where
  "sample_read_hold = \<lparr>hold_reason = [Lit ''GitHub HTTP '', Num (Fin 429), Lit '' read backoff''], hold_retryAtMs = Fin 61000\<rparr>"

theorem held_reads_send_nothing_witness:
  "gh_call sample_world GET ''/repos/o/r'' [] False (new_client\<lparr>gc_hold := Some sample_read_hold\<rparr>) =
     Some (new_client\<lparr>gc_hold := Some sample_read_hold, gc_reads := 1\<rparr>, Inl (response_error (hold_reason sample_read_hold)))"
proof -
  have "held sample_world sample_read_hold [] (new_client\<lparr>gc_hold := Some sample_read_hold\<rparr>)"
    by (simp add: held_def new_client_def sample_read_hold_def sample_world_def)
  from held_reads_send_nothing [OF this, of "''/repos/o/r''" "[]" False] show ?thesis
    by (simp add: new_client_def)
qed

lemma num_min_cases: "num_min a b = a \<or> num_min a b = b \<or> num_min a b = NaN"
  by (auto simp: num_min_def)

lemma fallback_delay_bounds: "Fin 60000 \<le> fallback_delay n \<and> fallback_delay n \<le> Fin 900000"
proof -
  have "min n 4 \<in> {0, 1, 2, 3, 4}" by auto
  then show ?thesis by (auto simp: fallback_delay_def BACKOFF_MAX_MS_def BACKOFF_FALLBACK_MS_def num_min_def)
qed

lemma throttle_delay_pos: "Fin 0 < throttle_delay w now h n"
proof -
  have "Fin 0 < fallback_delay n" using fallback_delay_bounds [of n] by (cases "fallback_delay n") auto
  then show ?thesis by (auto simp: throttle_delay_def split: option.split)
qed

text \<open>A hold only ever gets longer.\<close>

lemma hold_for_extends:
  assumes "now + delay \<noteq> NaN" "\<And>h. gc_hold c = Some h \<Longrightarrow> hold_retryAtMs h \<noteq> NaN"
  shows "\<exists>h. gc_hold (hold_for now delay m c) = Some h \<and> now + delay \<le> hold_retryAtMs h
    \<and> hold_retryAtMs h \<noteq> NaN \<and> (\<forall>h0. gc_hold c = Some h0 \<longrightarrow> hold_retryAtMs h0 \<le> hold_retryAtMs h)"
proof (cases "gc_hold c")
  case None
  then show ?thesis using assms by (simp add: hold_for_def Let_def num_le_refl)
next
  case (Some h0)
  then show ?thesis using assms num_not_less [of "hold_retryAtMs h0" "now + delay"]
    by (cases "hold_retryAtMs h0 < now + delay") (auto simp: hold_for_def Let_def num_less_imp_le num_le_refl)
qed

lemma num_Fin_add_NaN [simp]: "Fin x + y = NaN \<longleftrightarrow> y = NaN"
  by (cases y) (auto simp: num_ops fl_not_NaN [unfolded num_ops])

lemma num_ceil_NaN [simp]: "num_ceil x = NaN \<longleftrightarrow> x = NaN"
  by (cases x) auto

lemma observe_throttle_hold:
  assumes "is_finite now" "\<And>h. gc_hold c = Some h \<Longrightarrow> hold_retryAtMs h \<noteq> NaN"
    "num_eq (head_status hdr) (Fin 403) \<or> num_eq (head_status hdr) (Fin 429)"
  shows "\<exists>h. gc_hold (observe_throttle w now hdr c) = Some h
    \<and> now + throttle_delay w now hdr (gc_throttled c) \<le> hold_retryAtMs h \<and> hold_retryAtMs h \<noteq> NaN
    \<and> (\<forall>h0. gc_hold c = Some h0 \<longrightarrow> hold_retryAtMs h0 \<le> hold_retryAtMs h)"
proof -
  have "now + throttle_delay w now hdr (gc_throttled c) \<noteq> NaN"
    using throttle_delay_pos [of w now hdr "gc_throttled c"] assms(1)
    by (cases "throttle_delay w now hdr (gc_throttled c)") (auto simp: is_finite_iff)
  from hold_for_extends [OF this, of "c\<lparr>gc_throttled := Suc (gc_throttled c)\<rparr>"] show ?thesis
    using assms(2,3) by (simp add: observe_throttle_def)
qed

lemma reserve_delay_not_NaN:
  assumes "is_finite now"
  shows "now + (if is_finite r \<and> now < r then num_ceil (r - now) else BACKOFF_FALLBACK_MS) \<noteq> NaN"
  using assms
  by (cases now; cases r) (auto simp: is_finite_def BACKOFF_FALLBACK_MS_def)

text \<open>
  A response of HTTP 403 or 429 puts reads on hold: the delay is positive, and between
  one minute and 15 minutes when GitHub names none; the hold reaches at least that far after the time of
  the observation, and never ends before one that was in force.
\<close>

theorem throttled_response_holds_reads:
  assumes "is_finite (wclock w (gc_reads c))"
    and "\<And>h. gc_hold c = Some h \<Longrightarrow> hold_retryAtMs h \<noteq> NaN"
    and "num_eq (head_status hdr) (Fin 403) \<or> num_eq (head_status hdr) (Fin 429)"
  shows "\<exists>h. gc_hold (observe_quota w hdr c) = Some h
    \<and> Fin 0 < throttle_delay w (wclock w (gc_reads c)) hdr (gc_throttled c)
    \<and> Fin 60000 \<le> fallback_delay n \<and> fallback_delay n \<le> Fin 900000
    \<and> wclock w (gc_reads c) + throttle_delay w (wclock w (gc_reads c)) hdr (gc_throttled c) \<le> hold_retryAtMs h
    \<and> (\<forall>h0. gc_hold c = Some h0 \<longrightarrow> hold_retryAtMs h0 \<le> hold_retryAtMs h)"
proof -
  let ?now = "wclock w (gc_reads c)" and ?c = "c\<lparr>gc_reads := Suc (gc_reads c)\<rparr>"
  obtain h1 where h1: "gc_hold (observe_throttle w ?now hdr ?c) = Some h1"
      "?now + throttle_delay w ?now hdr (gc_throttled c) \<le> hold_retryAtMs h1" "hold_retryAtMs h1 \<noteq> NaN"
      "\<And>h0. gc_hold c = Some h0 \<Longrightarrow> hold_retryAtMs h0 \<le> hold_retryAtMs h1"
    using observe_throttle_hold [OF assms(1) _ assms(3), of ?c w] assms(2) by auto
  define delay where "delay = (let reset = (case head_headers hdr ''x-ratelimit-reset'' of None \<Rightarrow> NaN | Some s \<Rightarrow> wnumber_of w s) * Fin 1000
      in if is_finite reset \<and> ?now < reset then num_ceil (reset - ?now) else BACKOFF_FALLBACK_MS)"
  have "?now + delay \<noteq> NaN" unfolding delay_def Let_def by (rule reserve_delay_not_NaN [OF assms(1)])
  then obtain h2 where h2: "gc_hold (hold_for ?now delay [Lit ''GitHub Core quota reserve reached'']
        (observe_throttle w ?now hdr ?c)) = Some h2" "hold_retryAtMs h1 \<le> hold_retryAtMs h2"
    using hold_for_extends [of ?now delay "observe_throttle w ?now hdr ?c"] h1(1,3) by auto
  have "\<exists>h. gc_hold (observe_quota w hdr c) = Some h \<and> hold_retryAtMs h1 \<le> hold_retryAtMs h"
    using h1(1,3) h2 by (simp add: observe_quota_def tick_clock_def Let_def delay_def num_le_refl)
  then show ?thesis
    using h1(2,4) num_le_trans throttle_delay_pos fallback_delay_bounds by metis
qed

theorem throttled_response_holds_reads_witness:
  "\<exists>h. gc_hold (observe_quota sample_world
         \<lparr>head_status = Fin 429, head_headers = (\<lambda>_. None), rawBody = []\<rparr> new_client) = Some h
     \<and> Fin 61000 \<le> hold_retryAtMs h"
proof -
  let ?h = "\<lparr>head_status = Fin 429, head_headers = (\<lambda>_. None), rawBody = []\<rparr>"
  have "throttle_delay sample_world (Fin 1000) ?h 0 = Fin 60000"
    by (simp add: throttle_delay_def rate_limit_backoff_ms_def fallback_delay_def BACKOFF_MAX_MS_def
        BACKOFF_FALLBACK_MS_def num_min_def is_finite_def)
  then show ?thesis
    using throttled_response_holds_reads [of sample_world new_client ?h 0]
    by (auto simp: sample_world_def new_client_def is_finite_def)
qed

end
