(* ===== verification/Cost.thy ===== *)
theory Cost
  imports Contracts
begin

text \<open>
  Calendar dates and the cost estimate of a runner (\<open>cost.ts\<close>): dated rates, observed compute
  intervals, retained disk, egress and the hosted baseline, or the reason why there is no estimate.
\<close>

section \<open>Dates\<close>

text \<open>
  \<open>YYYY-MM-DD\<close> of the proleptic Gregorian calendar. The code parses the date and compares what the
  standard library prints back; that is the test whether the day exists.
\<close>

definition digits_nat :: "string \<Rightarrow> nat" where
  "digits_nat ds = foldl (\<lambda>n c. n * 10 + (of_char c - 48)) 0 ds"

definition leap_year :: "nat \<Rightarrow> bool" where
  "leap_year y \<longleftrightarrow> 4 dvd y \<and> (\<not> 100 dvd y \<or> 400 dvd y)"

definition days_in_month :: "nat \<Rightarrow> nat \<Rightarrow> nat" where
  "days_in_month y m = (if m = 2 then (if leap_year y then 29 else 28) else if m \<in> {4, 6, 9, 11} then 30 else 31)"

definition date_shape :: "string \<Rightarrow> bool" where
  "date_shape s \<longleftrightarrow> length s = 10 \<and> list_all is_digit (take 4 s) \<and> s ! 4 = CHR ''-''
     \<and> list_all is_digit (take 2 (drop 5 s)) \<and> s ! 7 = CHR ''-'' \<and> list_all is_digit (drop 8 s)"

definition date_parts :: "string \<Rightarrow> nat \<times> nat \<times> nat" where
  "date_parts s = (digits_nat (take 4 s), digits_nat (take 2 (drop 5 s)), digits_nat (drop 8 s))"

definition valid_date_only :: "string \<Rightarrow> bool" where
  "valid_date_only s \<longleftrightarrow>
     date_shape s \<and> (let (y, m, d) = date_parts s in 1 \<le> m \<and> m \<le> 12 \<and> 1 \<le> d \<and> d \<le> days_in_month y m)"

text \<open>Days since 1970-01-01, counted in years that begin in March.\<close>

definition days_from_civil :: "nat \<Rightarrow> nat \<Rightarrow> nat \<Rightarrow> int" where
  "days_from_civil y m d =
     (let y' = int y - (if m \<le> 2 then 1 else 0); era = y' div 400; yoe = y' mod 400;
          mp = (if 2 < m then int m - 3 else int m + 9); doy = (153 * mp + 2) div 5 + int d - 1;
          doe = yoe * 365 + yoe div 4 - yoe div 100 + doy
      in era * 146097 + doe - 719468)"

text \<open>\<open>Date.parse(`${value}T00:00:00Z`)\<close> for a date that exists.\<close>

definition date_ms :: "string \<Rightarrow> jsnum" where
  "date_ms s = (let (y, m, d) = date_parts s in Fin (of_int (days_from_civil y m d * 86400000)))"

section \<open>The estimate\<close>

definition HOUR_MS :: jsnum where "HOUR_MS = Fin 3600000"
definition THIRTY_DAY_MONTH_MS :: jsnum where "THIRTY_DAY_MONTH_MS = Fin (30 * 24 * 3600000)"

text \<open>\<open>Number.EPSILON\<close>\<close>

definition EPSILON :: jsnum where "EPSILON = Fin (1 / 2 ^ 52)"

definition nonnegative_finite :: "jsnum \<Rightarrow> bool" where
  "nonnegative_finite n \<longleftrightarrow> is_finite n \<and> Fin 0 \<le> n"

definition money :: "jsnum \<Rightarrow> jsnum" where
  "money v = num_div (num_round ((v + EPSILON) * Fin 1000000)) (Fin 1000000)"

definition validate_rates :: "cost_rates \<Rightarrow> string option" where
  "validate_rates r =
     (if is_blank (currency r) \<or> is_blank (quotedAt r) \<or> is_blank (rate_source r)
      then Some ''rates require currency, quote date and source''
      else if \<not> valid_date_only (quotedAt r) then Some ''quotedAt must be a valid YYYY-MM-DD date''
      else case find (\<lambda>(_, v). \<not> nonnegative_finite v)
             [(''computeUsdPerHour'', computeUsdPerHour r), (''diskUsdPerGibMonth'', diskUsdPerGibMonth r),
              (''networkEgressUsdPerGib'', networkEgressUsdPerGib r)] of
        Some (name, _) \<Rightarrow> Some (name @ '' must be a non-negative finite number'')
      | None \<Rightarrow>
          (case hostedUsdPerMinute r of
             Some h \<Rightarrow> if nonnegative_finite h then None
                       else Some ''hostedUsdPerMinute must be a non-negative finite number''
           | None \<Rightarrow> None))"

text \<open>The loop over the intervals: \<open>None\<close> when one has no finite ordered bounds.\<close>

fun compute_ms :: "jsnum \<Rightarrow> time_interval list \<Rightarrow> jsnum option" where
  "compute_ms acc [] = Some acc"
| "compute_ms acc (x # xs) =
     (case endMs x of
        None \<Rightarrow> None
      | Some e \<Rightarrow>
          if \<not> nonnegative_finite (startMs x) \<or> \<not> nonnegative_finite e \<or> e < startMs x then None
          else compute_ms (acc + (e - startMs x)) xs)"

definition cost_incomplete :: "string \<Rightarrow> runner_cost_estimate" where
  "cost_incomplete reason = CostIncomplete [Lit reason]"

definition complete_cost :: "runner_cost_input \<Rightarrow> cost_rates \<Rightarrow> jsnum \<Rightarrow> jsnum \<Rightarrow> jsnum \<Rightarrow> cost_breakdown" where
  "complete_cost inp r minutes hosted ms =
     (let compute = money (num_div ms HOUR_MS * computeUsdPerHour r);
          disk = money (num_div (disk_retainedMs inp) THIRTY_DAY_MONTH_MS * disk_sizeGiB inp * diskUsdPerGibMonth r);
          network = money (networkEgressGiB inp * networkEgressUsdPerGib r)
      in \<lparr>cost_currency = currency r, computeUsd = compute, diskUsd = disk, networkUsd = network,
          runnerTotalUsd = money (compute + disk + network), hostedBaselineUsd = money (minutes * hosted)\<rparr>)"

definition estimate_runner_cost :: "runner_cost_input \<Rightarrow> runner_cost_estimate" where
  "estimate_runner_cost inp =
     (case cost_rates inp of
        None \<Rightarrow> cost_incomplete ''explicit dated rates are required''
      | Some r \<Rightarrow>
     (case validate_rates r of
        Some problem \<Rightarrow> cost_incomplete problem
      | None \<Rightarrow>
      if computeIntervals inp = [] then cost_incomplete ''at least one observed compute interval is required''
      else if \<not> nonnegative_finite (disk_sizeGiB inp) \<or> \<not> nonnegative_finite (disk_retainedMs inp)
        then cost_incomplete ''disk size and retained interval must be non-negative finite numbers''
      else if \<not> nonnegative_finite (networkEgressGiB inp)
        then cost_incomplete ''network egress must be a non-negative finite number''
      else (case hostedBillableMinutes inp of
        None \<Rightarrow> cost_incomplete ''hosted baseline requires explicit billable minutes''
      | Some minutes \<Rightarrow>
      if \<not> nonnegative_finite minutes
        then cost_incomplete ''hosted baseline requires explicit billable minutes''
      else (case hostedUsdPerMinute r of
        None \<Rightarrow> cost_incomplete ''hosted baseline requires an explicit rate''
      | Some hosted \<Rightarrow>
      (case compute_ms (Fin 0) (computeIntervals inp) of
        None \<Rightarrow> cost_incomplete ''every compute interval must have finite ordered bounds''
      | Some ms \<Rightarrow> CostComplete (complete_cost inp r minutes hosted ms))))))"

section \<open>What an estimate needs, and what it is\<close>

definition interval_ok :: "time_interval \<Rightarrow> bool" where
  "interval_ok x \<longleftrightarrow> nonnegative_finite (startMs x) \<and>
     (\<exists>e. endMs x = Some e \<and> nonnegative_finite e \<and> startMs x \<le> e)"

lemma nonneg_less: "nonnegative_finite a \<Longrightarrow> nonnegative_finite b \<Longrightarrow> \<not> a < b \<longleftrightarrow> b \<le> a"
  by (cases a; cases b) (auto simp: nonnegative_finite_def is_finite_def)

lemma compute_ms_Some:
  "compute_ms t xs = Some ms \<longleftrightarrow> list_all interval_ok xs \<and>
     ms = foldl (\<lambda>acc x. acc + (the (endMs x) - startMs x)) t xs"
proof (induction xs arbitrary: t)
  case (Cons x xs)
  show ?case
  proof (cases "interval_ok x")
    case True
    then obtain e where "endMs x = Some e" "nonnegative_finite (startMs x)" "nonnegative_finite e" "startMs x \<le> e"
      by (auto simp: interval_ok_def)
    then show ?thesis using Cons True nonneg_less [of e "startMs x"] by simp
  next
    case False
    then have "compute_ms t (x # xs) = None"
      by (auto simp: interval_ok_def nonneg_less split: option.split)
    then show ?thesis using False by simp
  qed
qed auto

definition rates_ok :: "cost_rates \<Rightarrow> bool" where
  "rates_ok r \<longleftrightarrow> \<not> is_blank (currency r) \<and> \<not> is_blank (rate_source r) \<and> valid_date_only (quotedAt r)
     \<and> nonnegative_finite (computeUsdPerHour r) \<and> nonnegative_finite (diskUsdPerGibMonth r)
     \<and> nonnegative_finite (networkEgressUsdPerGib r)
     \<and> (\<forall>h. hostedUsdPerMinute r = Some h \<longrightarrow> nonnegative_finite h)"

lemma valid_date_not_blank: "valid_date_only s \<Longrightarrow> \<not> is_blank s"
proof -
  assume "valid_date_only s"
  then have "length s = 10" "s ! 4 = CHR ''-''" by (simp_all add: valid_date_only_def date_shape_def)
  moreover from this have "s ! 4 \<in> set s" by (intro nth_mem) simp
  ultimately have "CHR ''-'' \<in> set s" by simp
  moreover have "\<not> is_space CHR ''-''" by (simp add: is_space_def)
  ultimately show ?thesis unfolding is_blank_iff by blast
qed

lemma validate_rates_None: "validate_rates r = None \<longleftrightarrow> rates_ok r"
  using valid_date_not_blank [of "quotedAt r"]
  by (cases "hostedUsdPerMinute r") (auto simp: validate_rates_def rates_ok_def split: option.splits)

definition negative :: "jsnum \<Rightarrow> bool" where
  "negative x \<longleftrightarrow> x < Fin 0"

lemma negative_simps [simp]:
  "negative (Fin x) \<longleftrightarrow> x < 0" "\<not> negative NaN" "\<not> negative PInf" "negative NInf"
  by (simp_all add: negative_def)

lemma fl_not_negative [simp]: "0 \<le> x \<Longrightarrow> \<not> negative (fl x)"
  using fl_nonneg [of x] by (cases "fl x") auto

lemma not_negative_ops:
  "\<not> negative a \<Longrightarrow> \<not> negative b \<Longrightarrow> \<not> negative (a + b)"
  "\<not> negative a \<Longrightarrow> \<not> negative b \<Longrightarrow> \<not> negative (a * b)"
  "\<not> negative a \<Longrightarrow> 0 < x \<Longrightarrow> \<not> negative (num_div a (Fin x))"
  "\<not> negative a \<Longrightarrow> \<not> negative (num_round a)"
  subgoal by (cases a; cases b) (auto simp: num_ops)
  subgoal by (cases a; cases b) (auto simp: num_ops signed_inf_def sgn_if)
  subgoal by (cases a) (auto simp: signed_inf_def)
  subgoal by (cases a) auto
  done

lemma money_not_negative: "\<not> negative v \<Longrightarrow> \<not> negative (money v)"
  unfolding money_def by (intro not_negative_ops) (simp_all add: EPSILON_def)

end
