(* ===== verification/Routing.thy ===== *)
theory Routing
  imports Cost Github Lifecycle
begin

text \<open>
  The routing switch (\<open>routing.ts\<close>): whether the controller could still start a runner, which runs are
  stranded once it cannot, when to look again, and whether an owned VM may still take their jobs.
\<close>

section \<open>Serviceability\<close>

datatype service_refusal =
    RepositoryNotPrivate | PermitAbsent | PermitIdentityMismatch | PermitOperationsMissing
  | PermitNotActive | PermitExpired | StartsExhausted | PastServiceEnd | RuntimeExhausted | CostExhausted

datatype service_assessment = Serviceable jsnum | Unserviceable service_refusal "jsnum option"

definition SERVING_OPERATIONS :: "permit_operation list" where
  "SERVING_OPERATIONS = [OpCreate, OpStart, OpRegister]"

definition projected_start_cost_usd :: "runner_config \<Rightarrow> jsnum option \<Rightarrow> jsnum" where
  "projected_start_cost_usd c limit =
     (case limit of
        None \<Rightarrow> PInf
      | Some egress \<Rightarrow>
          if \<not> is_finite egress \<or> egress < Fin 0 then PInf
          else
          let compute = num_div (lifetimeMs (timing c)) (Fin 3600000) * computeUsdPerHour (rates c);
              disk = num_div (lifetimeMs (timing c)) THIRTY_DAY_MONTH_MS * diskSizeGiB (nebius c)
                       * diskUsdPerGibMonth (rates c)
          in compute + disk + egress * networkEgressUsdPerGib (rates c))"

definition service_end :: "permit \<Rightarrow> timing_config \<Rightarrow> jsnum" where
  "service_end p t = expiresAtMs p - maxJobMs t - shutdownMarginMs t"

text \<open>\<open>Partial<PermitIdentity>\<close>: the fields the caller knows.\<close>

datatype identity_entry =
    IdConfigHash string | IdCandidateDigest string | IdRepositoryId jsnum
  | IdProjectId string | IdControllerId string | IdResourcePrefix string

fun entry_matches :: "permit \<Rightarrow> identity_entry \<Rightarrow> bool" where
  "entry_matches p (IdConfigHash s) \<longleftrightarrow> configHash p = s"
| "entry_matches p (IdCandidateDigest s) \<longleftrightarrow> candidateDigest p = s"
| "entry_matches p (IdRepositoryId n) \<longleftrightarrow> num_eq (repositoryId p) n"
| "entry_matches p (IdProjectId s) \<longleftrightarrow> projectId p = s"
| "entry_matches p (IdControllerId s) \<longleftrightarrow> controllerId p = s"
| "entry_matches p (IdResourcePrefix s) \<longleftrightarrow> resourcePrefix p = s"

record service_input =
  sv_permit :: "permit option"
  sv_nowMs :: jsnum
  sv_timing :: timing_config
  sv_identity :: "identity_entry list"
  sv_startCount :: jsnum
  sv_cumulativeRuntimeMs :: jsnum
  sv_cumulativeCostUsd :: jsnum
  sv_projectedStartCostUsd :: jsnum
  sv_repositoryPrivate :: bool

definition assess_service :: "service_input \<Rightarrow> service_assessment" where
  "assess_service inp =
     (let t = sv_timing inp; now = sv_nowMs inp;
          refuse = (\<lambda>r. Unserviceable r (map_option (\<lambda>p. service_end p t) (sv_permit inp))) in
      if \<not> sv_repositoryPrivate inp then refuse RepositoryNotPrivate
      else case sv_permit inp of
        None \<Rightarrow> refuse PermitAbsent
      | Some p \<Rightarrow>
      if \<exists>e \<in> set (sv_identity inp). \<not> entry_matches p e then refuse PermitIdentityMismatch
      else if \<exists>x \<in> set SERVING_OPERATIONS. x \<notin> set (operations p) then refuse PermitOperationsMissing
      else if now < issuedAtMs p then refuse PermitNotActive
      else if expiresAtMs p \<le> now then refuse PermitExpired
      else if maxStarts p \<le> sv_startCount inp then refuse StartsExhausted
      else
      let one_job = maxJobMs t + shutdownMarginMs t in
      if maxRuntimeMs p - sv_cumulativeRuntimeMs inp < one_job then refuse RuntimeExhausted
      else if maxTotalCostUsd p < sv_cumulativeCostUsd inp + sv_projectedStartCostUsd inp then refuse CostExhausted
      else if service_end p t < now then refuse PastServiceEnd
      else Serviceable (service_end p t))"

section \<open>Stranded runs\<close>

record stranded_selection =
  cancellable :: "jsnum list"
  waiting :: "jsnum list"
  strandedJobs :: "jsnum list"
  strandedJobsByRun :: "(jsnum, jsnum list) jsmap"

text \<open>The unfinished jobs of a run's current attempt, and those of them queued on the label.\<close>

definition current_jobs :: "workflow_job list \<Rightarrow> workflow_run \<Rightarrow> workflow_job list" where
  "current_jobs jobs r =
     filter (\<lambda>j. num_eq (job_runId j) (run_id r) \<and> num_eq (job_runAttempt j) (run_attempt r)
               \<and> job_status j \<noteq> ''completed'') jobs"

definition stranded_jobs :: "workflow_job list \<Rightarrow> string \<Rightarrow> workflow_run \<Rightarrow> workflow_job list" where
  "stranded_jobs jobs label r =
     filter (\<lambda>j. job_status j \<noteq> ''in_progress'' \<and> label \<in> set (job_labels j)) (current_jobs jobs r)"

definition strand_run :: "workflow_job list \<Rightarrow> string \<Rightarrow> stranded_selection \<Rightarrow> workflow_run \<Rightarrow> stranded_selection" where
  "strand_run jobs label s r =
     (let current = current_jobs jobs r; stranded = stranded_jobs jobs label r; ids = map job_id stranded in
      if stranded = [] then s
      else
      let s = s\<lparr>strandedJobs := strandedJobs s @ ids,
                strandedJobsByRun := map_set (run_id r) ids (strandedJobsByRun s)\<rparr>
      in if length stranded = length current then s\<lparr>cancellable := cancellable s @ [run_id r]\<rparr>
         else s\<lparr>waiting := waiting s @ [run_id r]\<rparr>)"

definition select_stranded_runs :: "workflow_run list \<Rightarrow> workflow_job list \<Rightarrow> string \<Rightarrow> stranded_selection" where
  "select_stranded_runs runs jobs label =
     foldl (strand_run jobs label)
       \<lparr>cancellable = [], waiting = [], strandedJobs = [], strandedJobsByRun = []\<rparr> runs"

section \<open>Release checks\<close>

record release_mark =
  mark_atMs :: jsnum
  mark_reason :: string

definition RELEASE_CHECK_INTERVAL_MS :: jsnum where
  "RELEASE_CHECK_INTERVAL_MS = Fin (10 * 60 * 1000)"

definition release_check_due :: "release_mark option \<Rightarrow> string \<Rightarrow> jsnum \<Rightarrow> bool" where
  "release_check_due last_check reason now \<longleftrightarrow>
     (case last_check of
        None \<Rightarrow> True
      | Some m \<Rightarrow> mark_reason m \<noteq> reason \<or> RELEASE_CHECK_INTERVAL_MS \<le> now - mark_atMs m)"

text \<open>Whether a check is due, and what the process remembers then.\<close>

definition claim_release_check :: "release_mark option \<Rightarrow> string \<Rightarrow> jsnum \<Rightarrow> bool \<times> release_mark option" where
  "claim_release_check last_check reason now =
     (if release_check_due last_check reason now
      then (True, Some \<lparr>mark_atMs = now, mark_reason = reason\<rparr>) else (False, last_check))"

definition owned_runner_may_take_jobs ::
  "provider_snapshot \<Rightarrow> lifecycle_journal \<Rightarrow> lifecycle_decision option \<Rightarrow> bool" where
  "owned_runner_may_take_jobs prov j tick \<longleftrightarrow>
     vmStatus prov \<notin> {VAbsent, VStopped} \<or> outstandingIntent j \<noteq> None
     \<or> (case tick of None \<Rightarrow> False | Some d \<Rightarrow> deffect d \<noteq> ENone)"

section \<open>Facts\<close>

lemma select_stranded_runs_spec:
  "cancellable (select_stranded_runs runs jobs label) =
     map run_id (filter (\<lambda>r. stranded_jobs jobs label r \<noteq> []
       \<and> length (stranded_jobs jobs label r) = length (current_jobs jobs r)) runs)
   \<and> waiting (select_stranded_runs runs jobs label) =
     map run_id (filter (\<lambda>r. stranded_jobs jobs label r \<noteq> []
       \<and> length (stranded_jobs jobs label r) \<noteq> length (current_jobs jobs r)) runs)
   \<and> strandedJobs (select_stranded_runs runs jobs label) =
     map job_id (concat (map (stranded_jobs jobs label) runs))"
  by (induction runs rule: rev_induct)
    (simp_all add: select_stranded_runs_def strand_run_def Let_def)

lemma length_filter_eq_iff: "length (filter P xs) = length xs \<longleftrightarrow> (\<forall>x \<in> set xs. P x)"
proof (induction xs)
  case (Cons x xs)
  moreover have "length (filter P xs) \<noteq> Suc (length xs)" using length_filter_le [of P xs] by linarith
  ultimately show ?case by simp
qed simp

lemma stranded_all_iff:
  "length (stranded_jobs jobs label r) = length (current_jobs jobs r) \<longleftrightarrow>
     (\<forall>j \<in> set (current_jobs jobs r). job_status j \<noteq> ''in_progress'' \<and> label \<in> set (job_labels j))"
  by (simp add: stranded_jobs_def length_filter_eq_iff)

end
