(* ===== verification/Routing_Properties.thy ===== *)
theory Routing_Properties
  imports Routing Lifecycle_Properties
begin

text \<open>
  Routing is released exactly when starts stop, stranded runs are cancelled only when that interrupts
  nothing, and a cost estimate is given exactly for complete input.
\<close>

section \<open>Serviceability is the start budget\<close>

definition full_identity :: "permit_identity \<Rightarrow> identity_entry list" where
  "full_identity d = [IdConfigHash (configHash d), IdCandidateDigest (candidateDigest d),
     IdRepositoryId (repositoryId d), IdProjectId (projectId d), IdControllerId (controllerId d),
     IdResourcePrefix (resourcePrefix d)]"

lemma full_identity_matches: "(\<forall>e \<in> set (full_identity d). entry_matches p e) \<longleftrightarrow> same_identity p d"
  by (auto simp: full_identity_def same_identity_def)

lemma refuse_iff:
  "(\<exists>e. (if c then Unserviceable r t else m) = Serviceable e) \<longleftrightarrow> \<not> c \<and> (\<exists>e. m = Serviceable e)"
  by auto

text \<open>What the controller hands to \<open>assessService\<close> about its own state.\<close>

definition service_view :: "lifecycle_input \<Rightarrow> service_input" where
  "service_view i =
     \<lparr>sv_permit = permit i, sv_nowMs = nowMs i, sv_timing = timing (config i),
      sv_identity = full_identity (identity i), sv_startCount = startCount (journal i),
      sv_cumulativeRuntimeMs = cumulativeRuntimeMs (journal i),
      sv_cumulativeCostUsd = cumulativeCostUsd (journal i),
      sv_projectedStartCostUsd = projectedStartCostUsd i, sv_repositoryPrivate = True\<rparr>"

definition timing_fits :: "timing_config \<Rightarrow> bool" where
  "timing_fits t \<longleftrightarrow> clock_integer (maxJobMs t) \<and> clock_integer (shutdownMarginMs t) \<and> clock_integer (lifetimeMs t)
     \<and> Fin 0 < maxJobMs t \<and> maxJobMs t + shutdownMarginMs t \<le> lifetimeMs t"

definition spent_ok :: "lifecycle_input \<Rightarrow> bool" where
  "spent_ok i \<longleftrightarrow> clock_integer (cumulativeRuntimeMs (journal i))
     \<and> nonnegative_finite (cumulativeCostUsd (journal i)) \<and> nonnegative_finite (projectedStartCostUsd i)"

text \<open>The time conditions of the two, on whole milliseconds.\<close>

lemma time_conditions:
  assumes "clock_integer now" "clock_integer ex" "clock_integer mr" "clock_integer cr"
    "clock_integer mj" "clock_integer sm" "clock_integer lt" "Fin 0 < mj" "mj + sm \<le> lt"
  shows "\<not> mr - cr < mj + sm \<and> \<not> ex - mj - sm < now \<longleftrightarrow>
    \<not> mr - cr \<le> Fin 0 \<and> \<not> num_min (num_min lt (mr - cr)) (ex - now) < mj + sm"
proof -
  obtain n e r c j s l where eqs: "now = Fin (of_int n)" "ex = Fin (of_int e)" "mr = Fin (of_int r)"
      "cr = Fin (of_int c)" "mj = Fin (of_int j)" "sm = Fin (of_int s)" "lt = Fin (of_int l)"
    and b: "0 \<le> n" "n \<le> 1125899906842624" "0 \<le> e" "e \<le> 1125899906842624" "0 \<le> r" "r \<le> 1125899906842624"
      "0 \<le> c" "c \<le> 1125899906842624" "0 \<le> j" "j \<le> 1125899906842624" "0 \<le> s" "s \<le> 1125899906842624"
      "0 \<le> l" "l \<le> 1125899906842624"
    using assms unfolding clock_integer_iff by blast
  have sums: "mj + sm = Fin (of_int (j + s))" "mr - cr = Fin (of_int (r - c))"
    "ex - mj = Fin (of_int (e - j))" "Fin (of_int (e - j)) - sm = Fin (of_int (e - j - s))"
    "ex - now = Fin (of_int (e - n))"
    unfolding eqs using b by (intro num_of_int_simps; linarith)+
  have z: "Fin 0 = Fin (of_int 0)" by simp
  have j: "0 < j" and fits: "j + s \<le> l"
    using assms(8,9) unfolding sums(1) unfolding eqs z num_of_int_simps by simp_all
  show ?thesis unfolding sums unfolding eqs z num_of_int_simps using j fits b by linarith
qed

text \<open>
  For a well-formed permit, whole milliseconds and a configuration whose job
  and margin fit the lifetime, a repository counts as serviceable exactly when the lifecycle would still
  grant a start: the start budget has room, a start is left, and the permit has the serving operations.
  Routing is thus released no later and no earlier than starts stop.
\<close>

theorem serviceable_iff_startable:
  assumes "permit i = Some p" "permit_structure p" "timing_fits (timing (config i))" "spent_ok i"
    "clock_integer (nowMs i)" "clock_integer (expiresAtMs p)" "clock_integer (maxRuntimeMs p)"
  shows "(\<exists>e. assess_service (service_view i) = Serviceable e) \<longleftrightarrow>
    (\<exists>a. start_budget i = Inr a) \<and> \<not> max_starts i \<le> startCount (journal i)
      \<and> set SERVING_OPERATIONS \<subseteq> set (operations p)"
proof -
  let ?t = "timing (config i)" and ?j = "journal i"
  let ?rem = "maxRuntimeMs p - cumulativeRuntimeMs ?j" and ?one = "maxJobMs ?t + shutdownMarginMs ?t"
  let ?cost = "maxTotalCostUsd p < cumulativeCostUsd ?j + projectedStartCostUsd i"
  have time: "\<not> ?rem < ?one \<and> \<not> service_end p ?t < nowMs i \<longleftrightarrow>
      \<not> ?rem \<le> Fin 0 \<and> \<not> num_min (num_min (lifetimeMs ?t) ?rem) (expiresAtMs p - nowMs i) < ?one"
    unfolding service_end_def
    by (rule time_conditions) (use assms(3-7) in \<open>simp_all add: timing_fits_def spent_ok_def\<close>)
  have valid: "validate_permit (permit i) (identity i) (nowMs i) = Valid \<longleftrightarrow>
      same_identity p (identity i) \<and> \<not> nowMs i < issuedAtMs p \<and> \<not> expiresAtMs p \<le> nowMs i"
    using assms(1,2) by (auto simp: validate_permit_Valid_iff)
  have fin: "is_finite (cumulativeRuntimeMs ?j)" "\<not> cumulativeRuntimeMs ?j < Fin 0"
    "is_finite (cumulativeCostUsd ?j)" "\<not> cumulativeCostUsd ?j < Fin 0"
    "is_finite (projectedStartCostUsd i)" "\<not> projectedStartCostUsd i < Fin 0"
    using assms(4) by (auto simp: spent_ok_def clock_integer_iff nonnegative_finite_def is_finite_iff)
  have budget: "(\<exists>a. start_budget i = Inr a) \<longleftrightarrow>
      validate_permit (permit i) (identity i) (nowMs i) = Valid \<and> \<not> ?rem \<le> Fin 0 \<and> \<not> ?cost
      \<and> \<not> num_min (num_min (lifetimeMs ?t) ?rem) (expiresAtMs p - nowMs i) < ?one"
    using fin assms(1) by (auto simp: start_budget_def Let_def split: permit_validation.splits)
  have service: "(\<exists>e. assess_service (service_view i) = Serviceable e) \<longleftrightarrow>
      same_identity p (identity i) \<and> set SERVING_OPERATIONS \<subseteq> set (operations p)
      \<and> \<not> nowMs i < issuedAtMs p \<and> \<not> expiresAtMs p \<le> nowMs i \<and> \<not> maxStarts p \<le> startCount ?j
      \<and> \<not> ?rem < ?one \<and> \<not> ?cost \<and> \<not> service_end p ?t < nowMs i"
    using assms(1) full_identity_matches [of "identity i" p]
    by (simp only: assess_service_def service_view_def Let_def refuse_iff service_input.simps option.case
        option.map subset_iff not_not bex_simps ball_simps simp_thms service_assessment.inject) blast
  show ?thesis unfolding budget service valid using time assms(1) by auto
qed

lemma sample_permit_structure: "permit_structure sample_permit"
  by (simp add: permit_structure_def sample_permit_def is_finite_def is_integer_def)

theorem serviceable_iff_startable_witness:
  "\<exists>e. assess_service (service_view stopped_with_work) = Serviceable e"
proof -
  have "start_budget stopped_with_work = Inr (Fin 7200000)"
    by (simp add: start_budget_def Let_def sample_valid [unfolded sample_defs] sample_defs)
  then show ?thesis
    using serviceable_iff_startable [of stopped_with_work sample_permit] sample_permit_structure
    by (simp add: timing_fits_def spent_ok_def nonnegative_finite_def SERVING_OPERATIONS_def sample_input_def
        sample_journal_def sample_config_def sample_permit_def is_finite_def)
qed

text \<open>
  A run is selected for cancelling exactly when it has a job queued on the label in
  its current attempt and every unfinished job of that attempt is such a job, so cancelling never
  interrupts a job that runs or waits elsewhere; the other runs with stranded jobs wait, and the stranded
  jobs are those of all of them, in order.
\<close>

theorem stranded_runs_selected:
  "cancellable (select_stranded_runs runs jobs label) =
     map run_id (filter (\<lambda>r. current_jobs jobs r \<noteq> [] \<and> (\<forall>j \<in> set (current_jobs jobs r).
       job_status j \<noteq> ''in_progress'' \<and> label \<in> set (job_labels j))) runs)
   \<and> waiting (select_stranded_runs runs jobs label) =
     map run_id (filter (\<lambda>r. (\<exists>j \<in> set (current_jobs jobs r).
         job_status j \<noteq> ''in_progress'' \<and> label \<in> set (job_labels j))
       \<and> (\<exists>j \<in> set (current_jobs jobs r). \<not> (job_status j \<noteq> ''in_progress'' \<and> label \<in> set (job_labels j)))) runs)
   \<and> strandedJobs (select_stranded_runs runs jobs label) =
     map job_id (concat (map (stranded_jobs jobs label) runs))"
proof -
  have some: "stranded_jobs jobs label r \<noteq> [] \<longleftrightarrow> (\<exists>j \<in> set (current_jobs jobs r).
      job_status j \<noteq> ''in_progress'' \<and> label \<in> set (job_labels j))" for r
    by (auto simp: stranded_jobs_def filter_empty_conv)
  have "(stranded_jobs jobs label r \<noteq> [] \<and> length (stranded_jobs jobs label r) = length (current_jobs jobs r))
      = (current_jobs jobs r \<noteq> [] \<and> (\<forall>j \<in> set (current_jobs jobs r).
           job_status j \<noteq> ''in_progress'' \<and> label \<in> set (job_labels j)))" for r
    unfolding some stranded_all_iff by (cases "current_jobs jobs r") auto
  then show ?thesis
    using select_stranded_runs_spec [of runs jobs label] unfolding some stranded_all_iff by simp
qed

theorem stranded_runs_selected_witness:
  "cancellable (select_stranded_runs [] [] ''label'') = []"
  using stranded_runs_selected [of "[]" "[]" "''label''"] by simp

section \<open>Cost estimates\<close>

definition cost_input_ok :: "runner_cost_input \<Rightarrow> bool" where
  "cost_input_ok inp \<longleftrightarrow>
     (\<exists>r. cost_rates inp = Some r \<and> rates_ok r \<and> hostedUsdPerMinute r \<noteq> None)
     \<and> computeIntervals inp \<noteq> [] \<and> list_all interval_ok (computeIntervals inp)
     \<and> nonnegative_finite (disk_sizeGiB inp) \<and> nonnegative_finite (disk_retainedMs inp)
     \<and> nonnegative_finite (networkEgressGiB inp)
     \<and> (\<exists>m. hostedBillableMinutes inp = Some m \<and> nonnegative_finite m)"

lemma compute_ms_eq:
  "compute_ms t xs = (if list_all interval_ok xs
     then Some (foldl (\<lambda>acc x. acc + (the (endMs x) - startMs x)) t xs) else None)"
  using compute_ms_Some [of t xs] by (cases "compute_ms t xs") auto

lemma estimate_complete_iff:
  "estimate_runner_cost inp = CostComplete b \<longleftrightarrow> cost_input_ok inp \<and>
     b = complete_cost inp (the (cost_rates inp)) (the (hostedBillableMinutes inp))
           (the (hostedUsdPerMinute (the (cost_rates inp))))
           (foldl (\<lambda>acc x. acc + (the (endMs x) - startMs x)) (Fin 0) (computeIntervals inp))"
proof (cases "cost_rates inp")
  case (Some r)
  show ?thesis
  proof (cases "rates_ok r")
    case True
    then show ?thesis
      using Some validate_rates_None [of r]
      by (cases "hostedBillableMinutes inp"; cases "hostedUsdPerMinute r";
          cases "list_all interval_ok (computeIntervals inp)")
        (auto simp: estimate_runner_cost_def cost_input_ok_def cost_incomplete_def compute_ms_eq)
  next
    case False
    then show ?thesis using Some validate_rates_None [of r]
      by (auto simp: estimate_runner_cost_def cost_input_ok_def cost_incomplete_def split: option.splits)
  qed
qed (simp add: estimate_runner_cost_def cost_input_ok_def cost_incomplete_def)

lemma nonnegative_not_negative: "nonnegative_finite x \<Longrightarrow> \<not> negative x"
  by (cases x) (auto simp: nonnegative_finite_def)

lemma ordered_diff_not_negative: "a \<le> b \<Longrightarrow> nonnegative_finite a \<Longrightarrow> nonnegative_finite b \<Longrightarrow> \<not> negative (b - a)"
  by (cases a; cases b) (simp_all add: nonnegative_finite_def is_finite_def)

lemma compute_ms_not_negative:
  "list_all interval_ok xs \<Longrightarrow> \<not> negative t \<Longrightarrow> \<not> negative (foldl (\<lambda>acc x. acc + (the (endMs x) - startMs x)) t xs)"
proof (induction xs arbitrary: t)
  case (Cons x xs)
  then obtain e where "endMs x = Some e" "nonnegative_finite (startMs x)" "nonnegative_finite e" "startMs x \<le> e"
    by (auto simp: interval_ok_def)
  then have d: "\<not> negative (the (endMs x) - startMs x)"
    using ordered_diff_not_negative [of "startMs x" e] by simp
  have "list_all interval_ok xs" using Cons.prems(1) by simp
  from Cons.IH [OF this not_negative_ops(1) [OF Cons.prems(2) d]] show ?case by simp
qed simp

text \<open>
  A cost estimate is complete exactly when the input is: dated rates with a
  calendar date and non-negative amounts, at least one interval, every interval with ordered bounds, and
  non-negative disk, egress and hosted minutes. Its total is then the rounded sum of its three
  parts, the compute part is billed on the sum of the intervals, and no amount is negative.
\<close>

theorem cost_estimate_exact:
  "(estimate_runner_cost inp = CostComplete b \<longleftrightarrow> cost_input_ok inp \<and>
     b = complete_cost inp (the (cost_rates inp)) (the (hostedBillableMinutes inp))
           (the (hostedUsdPerMinute (the (cost_rates inp))))
           (foldl (\<lambda>acc x. acc + (the (endMs x) - startMs x)) (Fin 0) (computeIntervals inp)))
   \<and> (estimate_runner_cost inp = CostComplete b \<longrightarrow>
       runnerTotalUsd b = money (computeUsd b + diskUsd b + networkUsd b)
       \<and> \<not> negative (computeUsd b) \<and> \<not> negative (diskUsd b) \<and> \<not> negative (networkUsd b)
       \<and> \<not> negative (runnerTotalUsd b) \<and> \<not> negative (hostedBaselineUsd b))"
proof (intro conjI impI)
  assume "estimate_runner_cost inp = CostComplete b"
  then obtain r m h where inp: "cost_rates inp = Some r" "rates_ok r" "hostedUsdPerMinute r = Some h"
      "hostedBillableMinutes inp = Some m" "nonnegative_finite m" "list_all interval_ok (computeIntervals inp)"
      "nonnegative_finite (disk_sizeGiB inp)" "nonnegative_finite (disk_retainedMs inp)"
      "nonnegative_finite (networkEgressGiB inp)"
    and b: "b = complete_cost inp r m h (foldl (\<lambda>acc x. acc + (the (endMs x) - startMs x)) (Fin 0) (computeIntervals inp))"
    by (auto simp: estimate_complete_iff cost_input_ok_def)
  have rates: "\<not> negative (computeUsdPerHour r)" "\<not> negative (diskUsdPerGibMonth r)"
    "\<not> negative (networkEgressUsdPerGib r)" "\<not> negative h"
    using inp(2,3) by (simp_all add: rates_ok_def nonnegative_not_negative)
  note amounts = inp(5,7-9) [THEN nonnegative_not_negative]
  note ms = compute_ms_not_negative [OF inp(6), of "Fin 0"]
  have parts: "\<not> negative (computeUsd b)" "\<not> negative (diskUsd b)" "\<not> negative (networkUsd b)" "\<not> negative (hostedBaselineUsd b)"
    unfolding b complete_cost_def Let_def cost_breakdown.simps HOUR_MS_def THIRTY_DAY_MONTH_MS_def
    by (intro money_not_negative not_negative_ops rates amounts; use ms in simp)+
  then show "\<not> negative (computeUsd b)" "\<not> negative (diskUsd b)" "\<not> negative (networkUsd b)" "\<not> negative (hostedBaselineUsd b)"
    by blast+
  show total: "runnerTotalUsd b = money (computeUsd b + diskUsd b + networkUsd b)"
    by (simp add: b complete_cost_def Let_def)
  show "\<not> negative (runnerTotalUsd b)"
    unfolding total by (intro money_not_negative not_negative_ops parts)
qed (simp_all add: estimate_complete_iff)

definition sample_cost_input :: runner_cost_input where
  "sample_cost_input =
     \<lparr>cost_rates = Some \<lparr>currency = ''USD'', quotedAt = ''2024-02-29'', rate_source = ''published'',
        computeUsdPerHour = Fin 1, diskUsdPerGibMonth = Fin 1, networkEgressUsdPerGib = Fin 0,
        hostedUsdPerMinute = Some (Fin 1)\<rparr>,
      computeIntervals = [\<lparr>startMs = Fin 1000, endMs = Some (Fin 3601000)\<rparr>], disk_sizeGiB = Fin 80,
      disk_retainedMs = Fin 7200000, networkEgressGiB = Fin 0, hostedBillableMinutes = Some (Fin 60)\<rparr>"

theorem cost_estimate_exact_witness:
  "\<exists>b. estimate_runner_cost sample_cost_input = CostComplete b \<and> \<not> negative (runnerTotalUsd b)"
proof -
  have "valid_date_only ''2024-02-29''"
    by (simp add: valid_date_only_def date_shape_def date_parts_def is_digit_def code_in_def digits_nat_def
        days_in_month_def leap_year_def)
  then have "cost_input_ok sample_cost_input"
    by (simp add: cost_input_ok_def sample_cost_input_def rates_ok_def interval_ok_def nonnegative_finite_def
        is_finite_def is_space_def)
  then show ?thesis using cost_estimate_exact [of sample_cost_input] by blast
qed

end
