(* ===== verification/Config.thy ===== *)
theory Config
  imports Contracts
begin

text \<open>
  The runner configuration (\<open>config.ts\<close>): strict parsing of one JSON object, in the order of the
  checks, and the canonical value the permit identity hashes.
\<close>

section \<open>Checked fields\<close>

definition config_error :: "jsnum message \<Rightarrow> jsnum exn" where
  "config_error m = Exn ConfigError m"

definition object_at :: "jsval \<Rightarrow> string \<Rightarrow> jsnum exn + (string \<times> jsval) list" where
  "object_at v path = require (as_obj v) (config_error [Lit path, Lit '' must be an object''])"

definition exact_keys :: "(string \<times> jsval) list \<Rightarrow> string list \<Rightarrow> string \<Rightarrow> string list \<Rightarrow> jsnum exn + unit" where
  "exact_keys kvs allowed path opts =
     rbind (reject (unknown_key kvs (allowed @ opts))
       (\<lambda>k. config_error [Lit path, Lit '' contains unknown key '', Lit k])) (\<lambda>_.
     reject (missing_key kvs allowed) (\<lambda>k. config_error [Lit path, Lit '' is missing '', Lit k]))"

definition nonempty_string :: "jsval \<Rightarrow> jsnum message \<Rightarrow> jsnum exn + string" where
  "nonempty_string v path =
     (case v of JStr s \<Rightarrow> if is_blank s then Inl (config_error (path @ [Lit '' must be a nonempty string''])) else Inr s
      | _ \<Rightarrow> Inl (config_error (path @ [Lit '' must be a nonempty string''])))"

definition positive_finite :: "jsval \<Rightarrow> jsnum message \<Rightarrow> jsnum exn + jsnum" where
  "positive_finite v path =
     (case v of JNum n \<Rightarrow> if \<not> is_finite n \<or> n \<le> Fin 0
          then Inl (config_error (path @ [Lit '' must be a positive finite number''])) else Inr n
      | _ \<Rightarrow> Inl (config_error (path @ [Lit '' must be a positive finite number''])))"

definition nonnegative_number :: "jsval \<Rightarrow> jsnum message \<Rightarrow> jsnum exn + jsnum" where
  "nonnegative_number v path =
     (case v of JNum n \<Rightarrow> if \<not> is_finite n \<or> n < Fin 0
          then Inl (config_error (path @ [Lit '' must be a non-negative finite number''])) else Inr n
      | _ \<Rightarrow> Inl (config_error (path @ [Lit '' must be a non-negative finite number''])))"

definition positive_integer_at :: "jsval \<Rightarrow> jsnum message \<Rightarrow> jsnum exn + jsnum" where
  "positive_integer_at v path =
     rbind (positive_finite v path) (\<lambda>n.
     if is_integer n then Inr n else Inl (config_error (path @ [Lit '' must be an integer''])))"

definition entry_path :: "string \<Rightarrow> nat \<Rightarrow> jsnum message" where
  "entry_path path i = [Lit path, Lit ''['', Num (Fin (of_nat i)), Lit '']'']"

text \<open>A nonempty array without duplicates, its entries parsed in order.\<close>

definition distinct_array :: "(jsval \<Rightarrow> jsnum message \<Rightarrow> jsnum exn + 'a) \<Rightarrow> jsval \<Rightarrow> string \<Rightarrow> jsnum exn + 'a list" where
  "distinct_array parse v path =
     (case v of
        JArr xs \<Rightarrow>
          if xs = [] then Inl (config_error [Lit path, Lit '' must be a nonempty array''])
          else rbind (rmapi (\<lambda>i x. parse x (entry_path path i)) 0 xs) (\<lambda>ys.
               if distinct ys then Inr ys
               else Inl (config_error [Lit path, Lit '' must not contain duplicates'']))
      | _ \<Rightarrow> Inl (config_error [Lit path, Lit '' must be a nonempty array'']))"

definition positive_integer_array :: "jsval \<Rightarrow> string \<Rightarrow> jsnum exn + jsnum list" where
  "positive_integer_array = distinct_array positive_integer_at"

definition string_array :: "jsval \<Rightarrow> string \<Rightarrow> jsnum exn + string list" where
  "string_array = distinct_array nonempty_string"

text \<open>\<open>/^[^/\s]+\/[^/\s]+$/\<close>\<close>

definition owner_and_name :: "string \<Rightarrow> bool" where
  "owner_and_name s \<longleftrightarrow>
     (let owner = takeWhile (\<lambda>c. c \<noteq> CHR ''/'') s; rest = dropWhile (\<lambda>c. c \<noteq> CHR ''/'') s in
      owner \<noteq> [] \<and> rest \<noteq> [] \<and> tl rest \<noteq> [] \<and> CHR ''/'' \<notin> set (tl rest) \<and> \<not> list_ex is_space s)"

text \<open>\<open>P[1-9]\d{0,3}\<close>, the handle of an enrollment.\<close>

definition handle_digits :: "string \<Rightarrow> bool" where
  "handle_digits ds \<longleftrightarrow> ds \<noteq> [] \<and> length ds \<le> 4 \<and> list_all is_digit ds \<and> hd ds \<noteq> CHR ''0''"

definition routing_variable_name :: "string \<Rightarrow> bool" where
  "routing_variable_name s \<longleftrightarrow> prefix ''CIRUJANO_RUNNER_P'' s \<and> handle_digits (drop 17 s)"

section \<open>The parser\<close>

definition ROOT_KEYS :: "string list" where
  "ROOT_KEYS = [''schemaVersion'', ''repository'', ''workflowIds'', ''allowedBranch'', ''eligibleJobNames'',
     ''runnerLabel'', ''slots'', ''nebius'', ''ssh'', ''ownership'', ''timing'', ''rates'']"

definition OPTIONAL_ROOT_KEYS :: "string list" where
  "OPTIONAL_ROOT_KEYS = [''admission'', ''idleResourcePolicy'', ''routingSwitch'']"

definition REPOSITORY_KEYS :: "string list" where
  "REPOSITORY_KEYS = [''id'', ''nameWithOwner'', ''visibility'']"

definition NEBIUS_KEYS :: "string list" where
  "NEBIUS_KEYS = [''profile'', ''projectId'', ''subnetId'', ''imageId'', ''platform'', ''preset'', ''diskType'', ''diskSizeGiB'']"

definition SSH_KEYS :: "string list" where "SSH_KEYS = [''publicKey'', ''fingerprint'']"

definition OWNERSHIP_KEYS :: "string list" where "OWNERSHIP_KEYS = [''controllerId'', ''resourcePrefix'']"

definition TIMING_KEYS :: "string list" where
  "TIMING_KEYS = [''pollIntervalMs'', ''idleGraceMs'', ''bootTimeoutMs'', ''maxJobMs'', ''lifetimeMs'', ''shutdownMarginMs'']"

definition RATE_KEYS :: "string list" where
  "RATE_KEYS = [''currency'', ''quotedAt'', ''source'', ''computeUsdPerHour'', ''diskUsdPerGibMonth'',
     ''networkEgressUsdPerGib'', ''hostedUsdPerMinute'']"

definition parse_nebius :: "(string \<times> jsval) list \<Rightarrow> jsnum exn + nebius_config" where
  "parse_nebius kvs =
     (let str = (\<lambda>k. nonempty_string (get_prop kvs k) [Lit (''nebius.'' @ k)]) in
      rbind (str ''profile'') (\<lambda>a. rbind (str ''projectId'') (\<lambda>b. rbind (str ''subnetId'') (\<lambda>c.
      rbind (str ''imageId'') (\<lambda>d. rbind (str ''platform'') (\<lambda>e. rbind (str ''preset'') (\<lambda>f.
      rbind (str ''diskType'') (\<lambda>g.
      rbind (positive_finite (get_prop kvs ''diskSizeGiB'') [Lit ''nebius.diskSizeGiB'']) (\<lambda>h.
      Inr \<lparr>nebius_profile = a, nebius_projectId = b, subnetId = c, imageId = d, platform = e, preset = f,
           diskType = g, diskSizeGiB = h\<rparr>)))))))))"

definition parse_ssh :: "(string \<times> jsval) list \<Rightarrow> jsnum exn + ssh_config" where
  "parse_ssh kvs =
     rbind (nonempty_string (get_prop kvs ''publicKey'') [Lit ''ssh.publicKey'']) (\<lambda>a.
     rbind (nonempty_string (get_prop kvs ''fingerprint'') [Lit ''ssh.fingerprint'']) (\<lambda>b.
     Inr \<lparr>publicKey = a, fingerprint = b\<rparr>))"

definition parse_ownership :: "(string \<times> jsval) list \<Rightarrow> jsnum exn + ownership_config" where
  "parse_ownership kvs =
     rbind (nonempty_string (get_prop kvs ''controllerId'') [Lit ''ownership.controllerId'']) (\<lambda>a.
     rbind (nonempty_string (get_prop kvs ''resourcePrefix'') [Lit ''ownership.resourcePrefix'']) (\<lambda>b.
     Inr \<lparr>own_controllerId = a, own_resourcePrefix = b\<rparr>))"

definition parse_timing :: "(string \<times> jsval) list \<Rightarrow> jsnum exn + timing_config" where
  "parse_timing kvs =
     (let num = (\<lambda>k. positive_finite (get_prop kvs k) [Lit (''timing.'' @ k)]) in
      rbind (num ''pollIntervalMs'') (\<lambda>a. rbind (num ''idleGraceMs'') (\<lambda>b. rbind (num ''bootTimeoutMs'') (\<lambda>c.
      rbind (num ''maxJobMs'') (\<lambda>d. rbind (num ''lifetimeMs'') (\<lambda>e. rbind (num ''shutdownMarginMs'') (\<lambda>f.
      Inr \<lparr>pollIntervalMs = a, idleGraceMs = b, bootTimeoutMs = c, maxJobMs = d, lifetimeMs = e,
           shutdownMarginMs = f\<rparr>)))))))"

definition parse_rates :: "(string \<times> jsval) list \<Rightarrow> jsnum exn + cost_rates" where
  "parse_rates kvs =
     (let str = (\<lambda>k. nonempty_string (get_prop kvs k) [Lit (''rates.'' @ k)]);
          num = (\<lambda>k. nonnegative_number (get_prop kvs k) [Lit (''rates.'' @ k)]) in
      rbind (str ''currency'') (\<lambda>a. rbind (str ''quotedAt'') (\<lambda>b. rbind (str ''source'') (\<lambda>c.
      rbind (num ''computeUsdPerHour'') (\<lambda>d. rbind (num ''diskUsdPerGibMonth'') (\<lambda>e.
      rbind (num ''networkEgressUsdPerGib'') (\<lambda>f. rbind (num ''hostedUsdPerMinute'') (\<lambda>g.
      Inr \<lparr>currency = a, quotedAt = b, rate_source = c, computeUsdPerHour = d, diskUsdPerGibMonth = e,
           networkEgressUsdPerGib = f, hostedUsdPerMinute = Some g\<rparr>))))))))"

definition parse_routing_switch :: "jsval \<Rightarrow> jsnum exn + string" where
  "parse_routing_switch v =
     rbind (object_at v ''routingSwitch'') (\<lambda>kvs.
     rbind (exact_keys kvs [''variable''] ''routingSwitch'' []) (\<lambda>_.
     case get_prop kvs ''variable'' of
       JStr s \<Rightarrow> if routing_variable_name s then Inr s
                 else Inl (config_error [Lit ''routingSwitch.variable must look like CIRUJANO_RUNNER_P1''])
     | _ \<Rightarrow> Inl (config_error [Lit ''routingSwitch.variable must look like CIRUJANO_RUNNER_P1''])))"

definition parse_optional_switch :: "(string \<times> jsval) list \<Rightarrow> jsnum exn + string option" where
  "parse_optional_switch kvs =
     (if has_own kvs ''routingSwitch''
      then rbind (parse_routing_switch (get_prop kvs ''routingSwitch'')) (\<lambda>s. Inr (Some s)) else Inr None)"

definition parse_admission :: "(string \<times> jsval) list \<Rightarrow> jsnum exn + admission_policy" where
  "parse_admission kvs =
     require
       (case (if has_own kvs ''admission'' then get_prop kvs ''admission'' else JStr ''default-branch-pushes'') of
          JStr s \<Rightarrow> of_str admission_policy_str ADMISSION_POLICIES s | _ \<Rightarrow> None)
       (config_error [Lit ''admission must be default-branch-pushes or same-repository''])"

definition parse_repository :: "(string \<times> jsval) list \<Rightarrow> jsnum exn + repository_config" where
  "parse_repository obj =
     rbind (object_at (get_prop obj ''repository'') ''repository'') (\<lambda>kvs.
     rbind (exact_keys kvs REPOSITORY_KEYS ''repository'' []) (\<lambda>_.
     rbind (positive_integer_at (get_prop kvs ''id'') [Lit ''repository.id'']) (\<lambda>n.
     rbind (nonempty_string (get_prop kvs ''nameWithOwner'') [Lit ''repository.nameWithOwner'']) (\<lambda>name.
     rbind (check (owner_and_name name) (config_error [Lit ''repository.nameWithOwner must be owner/name''])) (\<lambda>_.
     rbind (check (get_prop kvs ''visibility'' = JStr ''private'')
       (config_error [Lit ''repository.visibility must be private''])) (\<lambda>_.
     Inr \<lparr>repo_id = n, nameWithOwner = name\<rparr>))))))"

definition section_at :: "(string \<times> jsval) list \<Rightarrow> string \<Rightarrow> string list \<Rightarrow> jsnum exn + (string \<times> jsval) list" where
  "section_at obj name keys =
     rbind (object_at (get_prop obj name) name) (\<lambda>kvs.
     rbind (exact_keys kvs keys name []) (\<lambda>_. Inr kvs))"

text \<open>The last checks, on the parsed configuration.\<close>

definition pilot_limits :: "runner_config \<Rightarrow> jsnum exn + unit" where
  "pilot_limits c =
     (let n = nebius c; t = timing c; fail = (\<lambda>s. config_error [Lit s]) in
      rbind (check (platform n = ''cpu-d3'') (fail ''nebius.platform must be cpu-d3 for the pilot'')) (\<lambda>_.
      rbind (check (preset n = ''4vcpu-16gb'') (fail ''nebius.preset must be 4vcpu-16gb for the pilot'')) (\<lambda>_.
      rbind (check (diskType n = ''network-ssd'') (fail ''nebius.diskType must be network-ssd for the pilot'')) (\<lambda>_.
      rbind (check (num_eq (diskSizeGiB n) (Fin 80)) (fail ''nebius.diskSizeGiB must equal 80 for the pilot'')) (\<lambda>_.
      rbind (check (\<not> pollIntervalMs t < Fin 2000) (fail ''timing.pollIntervalMs must be at least 2000'')) (\<lambda>_.
      check (\<not> lifetimeMs t < maxJobMs t + shutdownMarginMs t)
        (fail ''maxJobMs plus shutdownMarginMs must fit within lifetimeMs'')))))))"

definition parse_runner_config :: "jsval \<Rightarrow> jsnum exn + runner_config" where
  "parse_runner_config v =
     rbind (object_at v ''config'') (\<lambda>obj.
     rbind (exact_keys obj ROOT_KEYS ''config'' OPTIONAL_ROOT_KEYS) (\<lambda>_.
     rbind (check (get_prop obj ''schemaVersion'' = JNum (Fin 1)) (config_error [Lit ''schemaVersion must be 1''])) (\<lambda>_.
     rbind (parse_repository obj) (\<lambda>repo.
     rbind (section_at obj ''nebius'' NEBIUS_KEYS) (\<lambda>neb.
     rbind (section_at obj ''ssh'' SSH_KEYS) (\<lambda>sh.
     rbind (section_at obj ''ownership'' OWNERSHIP_KEYS) (\<lambda>own.
     rbind (section_at obj ''timing'' TIMING_KEYS) (\<lambda>tim.
     rbind (section_at obj ''rates'' RATE_KEYS) (\<lambda>rat.
     rbind (positive_integer_array (get_prop obj ''workflowIds'') ''workflowIds'') (\<lambda>wids.
     rbind (string_array (get_prop obj ''eligibleJobNames'') ''eligibleJobNames'') (\<lambda>names.
     rbind (check (get_prop obj ''slots'' = JNum (Fin 1)) (config_error [Lit ''slots must equal 1 for the pilot''])) (\<lambda>_.
     rbind (parse_admission obj) (\<lambda>adm.
     rbind (check (\<not> has_own obj ''idleResourcePolicy'' \<or> get_prop obj ''idleResourcePolicy'' = JStr ''delete-after-stop'')
       (config_error [Lit ''idleResourcePolicy must be delete-after-stop when set''])) (\<lambda>_.
     rbind (nonempty_string (get_prop obj ''allowedBranch'') [Lit ''allowedBranch'']) (\<lambda>branch.
     rbind (nonempty_string (get_prop obj ''runnerLabel'') [Lit ''runnerLabel'']) (\<lambda>lbl.
     rbind (parse_nebius neb) (\<lambda>n.
     rbind (parse_ssh sh) (\<lambda>s.
     rbind (parse_ownership own) (\<lambda>ow.
     rbind (parse_timing tim) (\<lambda>t.
     rbind (parse_rates rat) (\<lambda>r.
     rbind (parse_optional_switch obj) (\<lambda>sw.
     let c = \<lparr>repository = repo, workflowIds = wids, allowedBranch = branch, eligibleJobNames = names,
              runnerLabel = lbl, admission = adm,
              deleteAfterStop = (get_prop obj ''idleResourcePolicy'' = JStr ''delete-after-stop''),
              nebius = n, ssh = s, config_ownership = ow, timing = t, rates = r, routingVariable = sw\<rparr>
     in rbind (pilot_limits c) (\<lambda>_. Inr c)))))))))))))))))))))))"

section \<open>The canonical value\<close>

text \<open>The parsed object as the code builds it: key order fixed, optional members only when present.\<close>

definition config_fields :: "runner_config \<Rightarrow> (string \<times> jsval) list" where
  "config_fields c =
     (let n = nebius c; t = timing c; r = rates c in
      [(''schemaVersion'', JNum (Fin 1)),
        (''repository'', JObj [(''id'', JNum (repo_id (repository c))),
           (''nameWithOwner'', JStr (nameWithOwner (repository c))), (''visibility'', JStr ''private'')]),
        (''workflowIds'', JArr (map JNum (workflowIds c))), (''allowedBranch'', JStr (allowedBranch c)),
        (''eligibleJobNames'', JArr (map JStr (eligibleJobNames c))), (''runnerLabel'', JStr (runnerLabel c)),
        (''slots'', JNum (Fin 1)), (''admission'', JStr (admission_policy_str (admission c)))]
       @ (if deleteAfterStop c then [(''idleResourcePolicy'', JStr ''delete-after-stop'')] else [])
       @ [(''nebius'', JObj [(''profile'', JStr (nebius_profile n)), (''projectId'', JStr (nebius_projectId n)),
            (''subnetId'', JStr (subnetId n)), (''imageId'', JStr (imageId n)), (''platform'', JStr (platform n)),
            (''preset'', JStr (preset n)), (''diskType'', JStr (diskType n)), (''diskSizeGiB'', JNum (diskSizeGiB n))]),
          (''ssh'', JObj [(''publicKey'', JStr (publicKey (ssh c))), (''fingerprint'', JStr (fingerprint (ssh c)))]),
          (''ownership'', JObj [(''controllerId'', JStr (own_controllerId (config_ownership c))),
            (''resourcePrefix'', JStr (own_resourcePrefix (config_ownership c)))]),
          (''timing'', JObj [(''pollIntervalMs'', JNum (pollIntervalMs t)), (''idleGraceMs'', JNum (idleGraceMs t)),
            (''bootTimeoutMs'', JNum (bootTimeoutMs t)), (''maxJobMs'', JNum (maxJobMs t)),
            (''lifetimeMs'', JNum (lifetimeMs t)), (''shutdownMarginMs'', JNum (shutdownMarginMs t))]),
          (''rates'', JObj [(''currency'', JStr (currency r)), (''quotedAt'', JStr (quotedAt r)),
            (''source'', JStr (rate_source r)), (''computeUsdPerHour'', JNum (computeUsdPerHour r)),
            (''diskUsdPerGibMonth'', JNum (diskUsdPerGibMonth r)),
            (''networkEgressUsdPerGib'', JNum (networkEgressUsdPerGib r)),
            (''hostedUsdPerMinute'', (case hostedUsdPerMinute r of None \<Rightarrow> JNull | Some h \<Rightarrow> JNum h))])]
       @ (case routingVariable c of None \<Rightarrow> [] | Some s \<Rightarrow> [(''routingSwitch'', JObj [(''variable'', JStr s)])]))"

definition config_value :: "runner_config \<Rightarrow> jsval" where
  "config_value c = JObj (config_fields c)"

text \<open>\<open>sha256(JSON.stringify(config))\<close>; both functions belong to the platform.\<close>

definition runner_config_hash :: "(string \<Rightarrow> string) \<Rightarrow> (jsval \<Rightarrow> string) \<Rightarrow> runner_config \<Rightarrow> string" where
  "runner_config_hash sha256_hex stringify c = sha256_hex (stringify (config_value c))"

end
