(* ===== verification/Config_Properties.thy ===== *)
theory Config_Properties
  imports Config Cost
begin

text \<open>
  The configuration parser accepts exactly the values of well-formed configurations, and reads each
  back as it was.
\<close>

section \<open>Well-formed configurations\<close>

definition positive_number :: "jsnum \<Rightarrow> bool" where
  "positive_number n \<longleftrightarrow> is_finite n \<and> Fin 0 < n"

definition nebius_ok :: "nebius_config \<Rightarrow> bool" where
  "nebius_ok n \<longleftrightarrow> \<not> is_blank (nebius_profile n) \<and> \<not> is_blank (nebius_projectId n) \<and> \<not> is_blank (subnetId n)
     \<and> \<not> is_blank (imageId n) \<and> platform n = ''cpu-d3'' \<and> preset n = ''4vcpu-16gb''
     \<and> diskType n = ''network-ssd'' \<and> diskSizeGiB n = Fin 80"

definition timing_ok :: "timing_config \<Rightarrow> bool" where
  "timing_ok t \<longleftrightarrow> positive_number (pollIntervalMs t) \<and> positive_number (idleGraceMs t)
     \<and> positive_number (bootTimeoutMs t) \<and> positive_number (maxJobMs t) \<and> positive_number (lifetimeMs t)
     \<and> positive_number (shutdownMarginMs t)
     \<and> Fin 2000 \<le> pollIntervalMs t \<and> maxJobMs t + shutdownMarginMs t \<le> lifetimeMs t"

definition config_rates_ok :: "cost_rates \<Rightarrow> bool" where
  "config_rates_ok r \<longleftrightarrow> \<not> is_blank (currency r) \<and> \<not> is_blank (quotedAt r) \<and> \<not> is_blank (rate_source r)
     \<and> nonnegative_finite (computeUsdPerHour r) \<and> nonnegative_finite (diskUsdPerGibMonth r)
     \<and> nonnegative_finite (networkEgressUsdPerGib r)
     \<and> (\<exists>h. hostedUsdPerMinute r = Some h \<and> nonnegative_finite h)"

definition positive_id :: "jsnum \<Rightarrow> bool" where
  "positive_id n \<longleftrightarrow> positive_number n \<and> is_integer n"

definition config_ok :: "runner_config \<Rightarrow> bool" where
  "config_ok c \<longleftrightarrow>
     positive_id (repo_id (repository c)) \<and> owner_and_name (nameWithOwner (repository c))
     \<and> workflowIds c \<noteq> [] \<and> distinct (workflowIds c) \<and> list_all positive_id (workflowIds c)
     \<and> eligibleJobNames c \<noteq> [] \<and> distinct (eligibleJobNames c) \<and> list_all (\<lambda>s. \<not> is_blank s) (eligibleJobNames c)
     \<and> \<not> is_blank (allowedBranch c) \<and> \<not> is_blank (runnerLabel c)
     \<and> nebius_ok (nebius c) \<and> \<not> is_blank (publicKey (ssh c)) \<and> \<not> is_blank (fingerprint (ssh c))
     \<and> \<not> is_blank (own_controllerId (config_ownership c)) \<and> \<not> is_blank (own_resourcePrefix (config_ownership c))
     \<and> timing_ok (timing c) \<and> config_rates_ok (rates c)
     \<and> (case routingVariable c of None \<Rightarrow> True | Some s \<Rightarrow> routing_variable_name s)"

section \<open>Inversion of the field checks\<close>

named_theorems config_inv \<open>when a configuration field is accepted\<close>

lemma nonempty_string_iff [config_inv]: "nonempty_string v p = Inr s \<longleftrightarrow> v = JStr s \<and> \<not> is_blank s"
  by (auto simp: nonempty_string_def split: jsval.splits)

lemma positive_finite_iff [config_inv]: "positive_finite v p = Inr n \<longleftrightarrow> v = JNum n \<and> positive_number n"
  by (cases v; cases n)
    (auto simp: positive_finite_def positive_number_def is_finite_def split: if_splits jsnum.splits)

lemma nonnegative_number_iff [config_inv]: "nonnegative_number v p = Inr n \<longleftrightarrow> v = JNum n \<and> nonnegative_finite n"
  by (cases v; cases n)
    (auto simp: nonnegative_number_def nonnegative_finite_def is_finite_def split: if_splits jsnum.splits)

lemma positive_integer_at_iff [config_inv]: "positive_integer_at v p = Inr n \<longleftrightarrow> v = JNum n \<and> positive_id n"
  by (auto simp: positive_integer_at_def result_simps positive_finite_iff positive_id_def split: if_splits)

lemma object_at_iff [config_inv]: "object_at v p = Inr kvs \<longleftrightarrow> v = JObj kvs"
  by (simp add: object_at_def result_simps)

lemma rmapi_Inr_all:
  assumes "\<And>i x y. f i x = Inr y \<longleftrightarrow> x = g y \<and> P y"
  shows "rmapi f i xs = Inr ys \<longleftrightarrow> xs = map g ys \<and> list_all P ys"
proof (induction xs arbitrary: i ys)
  case (Cons x xs)
  then show ?case by (cases ys) (auto simp: result_simps assms)
qed auto

lemma if_Inr_eq: "(if b then Inr x else Inl e) = Inr y \<longleftrightarrow> b \<and> x = y"
  by auto

lemma distinct_array_iff:
  assumes "\<And>p x y. parse x p = Inr y \<longleftrightarrow> x = g y \<and> P y"
  shows "distinct_array parse v path = Inr ys \<longleftrightarrow>
    v = JArr (map g ys) \<and> ys \<noteq> [] \<and> distinct ys \<and> list_all P ys"
proof (cases v)
  case (JArr xs)
  have "rmapi (\<lambda>i x. parse x (entry_path path i)) 0 xs = Inr ys \<longleftrightarrow> xs = map g ys \<and> list_all P ys" for ys
    by (rule rmapi_Inr_all) (rule assms)
  then have "distinct_array parse v path = Inr ys \<longleftrightarrow> xs \<noteq> [] \<and> xs = map g ys \<and> list_all P ys \<and> distinct ys"
    by (simp add: distinct_array_def JArr rbind_eq_Inr if_Inr_eq)
  then show ?thesis using JArr by auto
qed (simp_all add: distinct_array_def)

lemma arrays_iff [config_inv]:
  "positive_integer_array v p = Inr ns \<longleftrightarrow> v = JArr (map JNum ns) \<and> ns \<noteq> [] \<and> distinct ns \<and> list_all positive_id ns"
  "string_array v p = Inr ss \<longleftrightarrow> v = JArr (map JStr ss) \<and> ss \<noteq> [] \<and> distinct ss \<and> list_all (\<lambda>s. \<not> is_blank s) ss"
  unfolding positive_integer_array_def string_array_def
  by (rule distinct_array_iff; simp add: config_inv)+

section \<open>Sections of the configuration\<close>

lemma parse_repositoryD:
  "parse_repository obj = Inr r \<Longrightarrow> positive_id (repo_id r) \<and> owner_and_name (nameWithOwner r)"
  by (auto simp: parse_repository_def result_simps config_inv)

lemma parse_nebiusD:
  "parse_nebius kvs = Inr n \<Longrightarrow> \<not> is_blank (nebius_profile n) \<and> \<not> is_blank (nebius_projectId n)
     \<and> \<not> is_blank (subnetId n) \<and> \<not> is_blank (imageId n)"
  by (auto simp: parse_nebius_def result_simps config_inv)

lemma parse_sshD: "parse_ssh kvs = Inr s \<Longrightarrow> \<not> is_blank (publicKey s) \<and> \<not> is_blank (fingerprint s)"
  by (auto simp: parse_ssh_def result_simps config_inv)

lemma parse_ownershipD:
  "parse_ownership kvs = Inr w \<Longrightarrow> \<not> is_blank (own_controllerId w) \<and> \<not> is_blank (own_resourcePrefix w)"
  by (auto simp: parse_ownership_def result_simps config_inv)

lemma parse_timingD:
  "parse_timing kvs = Inr t \<Longrightarrow> positive_number (pollIntervalMs t) \<and> positive_number (idleGraceMs t)
     \<and> positive_number (bootTimeoutMs t) \<and> positive_number (maxJobMs t) \<and> positive_number (lifetimeMs t)
     \<and> positive_number (shutdownMarginMs t)"
  by (auto simp: parse_timing_def result_simps config_inv)

lemma parse_ratesD: "parse_rates kvs = Inr r \<Longrightarrow> config_rates_ok r"
  by (auto simp: parse_rates_def result_simps config_inv config_rates_ok_def)

lemma accepted_string:
  "(case v of JStr s \<Rightarrow> if P s then Inr s else Inl e | _ \<Rightarrow> Inl e) = Inr t \<longleftrightarrow> v = JStr t \<and> P t"
  by (cases v) auto

lemma parse_routing_switchD: "parse_routing_switch v = Inr s \<Longrightarrow> routing_variable_name s"
  unfolding parse_routing_switch_def rbind_eq_Inr accepted_string by blast

lemma parse_optional_switchD:
  "parse_optional_switch kvs = Inr sw \<Longrightarrow> case sw of None \<Rightarrow> True | Some s \<Rightarrow> routing_variable_name s"
  unfolding parse_optional_switch_def
  by (cases "has_own kvs ''routingSwitch''") (auto simp: rbind_eq_Inr dest: parse_routing_switchD)

lemma pilot_limits_iff:
  assumes "positive_number (pollIntervalMs (timing c))" "positive_number (maxJobMs (timing c))"
    "positive_number (shutdownMarginMs (timing c))" "positive_number (lifetimeMs (timing c))"
  shows "pilot_limits c = Inr u \<longleftrightarrow> platform (nebius c) = ''cpu-d3'' \<and> preset (nebius c) = ''4vcpu-16gb''
    \<and> diskType (nebius c) = ''network-ssd'' \<and> diskSizeGiB (nebius c) = Fin 80
    \<and> Fin 2000 \<le> pollIntervalMs (timing c)
    \<and> maxJobMs (timing c) + shutdownMarginMs (timing c) \<le> lifetimeMs (timing c)"
proof -
  obtain p j s l where t: "pollIntervalMs (timing c) = Fin p" "maxJobMs (timing c) = Fin j"
      "shutdownMarginMs (timing c) = Fin s" "lifetimeMs (timing c) = Fin l"
    using assms by (auto simp: positive_number_def is_finite_iff)
  have "\<not> Fin l < Fin j + Fin s \<longleftrightarrow> Fin j + Fin s \<le> Fin l"
    by (rule num_not_less) simp_all
  then show ?thesis by (auto simp: pilot_limits_def Let_def result_simps t num_eq_def)
qed

text \<open>
  C22 (type). Every configuration the parser accepts is well-formed: ids are positive integers,
  names and labels are not blank, lists are nonempty and without duplicates, the VM is the pilot's
  shape, the poll interval is at least two seconds, one job and the shutdown margin fit in the lifetime,
  rates are not negative and the routing variable is the enrollment's.
\<close>

theorem parsed_config_ok:
  assumes "parse_runner_config v = Inr c"
  shows "config_ok c"
proof -
  obtain obj neb sh own tim rat repo wids names adm branch lbl n s ow t r sw
    where steps: "parse_repository obj = Inr repo"
      "positive_integer_array (get_prop obj ''workflowIds'') ''workflowIds'' = Inr wids"
      "string_array (get_prop obj ''eligibleJobNames'') ''eligibleJobNames'' = Inr names"
      "nonempty_string (get_prop obj ''allowedBranch'') [Lit ''allowedBranch''] = Inr branch"
      "nonempty_string (get_prop obj ''runnerLabel'') [Lit ''runnerLabel''] = Inr lbl"
      "parse_nebius neb = Inr n" "parse_ssh sh = Inr s" "parse_ownership own = Inr ow"
      "parse_timing tim = Inr t" "parse_rates rat = Inr r" "parse_optional_switch obj = Inr sw"
    and limits: "\<exists>u. pilot_limits c = Inr u"
    and c: "c = \<lparr>repository = repo, workflowIds = wids, allowedBranch = branch, eligibleJobNames = names,
              runnerLabel = lbl, admission = adm,
              deleteAfterStop = (get_prop obj ''idleResourcePolicy'' = JStr ''delete-after-stop''),
              nebius = n, ssh = s, config_ownership = ow, timing = t, rates = r, routingVariable = sw\<rparr>"
    using assms unfolding parse_runner_config_def Let_def
    by (simp only: rbind_eq_Inr sum.inject) blast
  have tm: "timing c = t" "nebius c = n" by (simp_all add: c)
  note time = parse_timingD [OF steps(9)]
  have lim: "platform n = ''cpu-d3'' \<and> preset n = ''4vcpu-16gb'' \<and> diskType n = ''network-ssd''
      \<and> diskSizeGiB n = Fin 80 \<and> Fin 2000 \<le> pollIntervalMs t \<and> maxJobMs t + shutdownMarginMs t \<le> lifetimeMs t"
    using limits pilot_limits_iff [of c] time unfolding tm by blast
  show ?thesis
    using steps(2-5) parse_repositoryD [OF steps(1)] parse_nebiusD [OF steps(6)] parse_sshD [OF steps(7)]
      parse_ownershipD [OF steps(8)] time lim parse_ratesD [OF steps(10)] parse_optional_switchD [OF steps(11)]
    by (simp add: config_ok_def c nebius_ok_def timing_ok_def config_inv)
qed

section \<open>Reading a configuration back\<close>

text \<open>The members of the canonical value, whatever optional ones it has.\<close>

lemma config_value_fields:
  "unknown_key (config_fields c) (ROOT_KEYS @ OPTIONAL_ROOT_KEYS) = None"
  "missing_key (config_fields c) ROOT_KEYS = None"
  "get_prop (config_fields c) ''schemaVersion'' = JNum (Fin 1)"
  "get_prop (config_fields c) ''slots'' = JNum (Fin 1)"
  "get_prop (config_fields c) ''repository'' = JObj [(''id'', JNum (repo_id (repository c))),
     (''nameWithOwner'', JStr (nameWithOwner (repository c))), (''visibility'', JStr ''private'')]"
  "get_prop (config_fields c) ''workflowIds'' = JArr (map JNum (workflowIds c))"
  "get_prop (config_fields c) ''eligibleJobNames'' = JArr (map JStr (eligibleJobNames c))"
  "get_prop (config_fields c) ''allowedBranch'' = JStr (allowedBranch c)"
  "get_prop (config_fields c) ''runnerLabel'' = JStr (runnerLabel c)"
  "has_own (config_fields c) ''admission''"
  "get_prop (config_fields c) ''admission'' = JStr (admission_policy_str (admission c))"
  "has_own (config_fields c) ''idleResourcePolicy'' \<longleftrightarrow> deleteAfterStop c"
  "get_prop (config_fields c) ''idleResourcePolicy'' = (if deleteAfterStop c then JStr ''delete-after-stop'' else JUndef)"
  "has_own (config_fields c) ''routingSwitch'' \<longleftrightarrow> routingVariable c \<noteq> None"
  "get_prop (config_fields c) ''routingSwitch'' =
     (case routingVariable c of None \<Rightarrow> JUndef | Some s \<Rightarrow> JObj [(''variable'', JStr s)])"
  by (cases "deleteAfterStop c"; cases "routingVariable c";
      simp add: config_fields_def Let_def unknown_key_None_iff missing_key_None_iff ROOT_KEYS_def OPTIONAL_ROOT_KEYS_def)+

lemma section_at_value:
  "get_prop kvs name = JObj fs \<Longrightarrow> unknown_key fs keys = None \<Longrightarrow> missing_key fs keys = None \<Longrightarrow>
     section_at kvs name keys = Inr fs"
  by (simp add: section_at_def object_at_def exact_keys_def)

lemma field_values:
  "\<not> is_blank s \<Longrightarrow> nonempty_string (JStr s) p = Inr s"
  "positive_number n \<Longrightarrow> positive_finite (JNum n) p = Inr n"
  "nonnegative_finite n \<Longrightarrow> nonnegative_number (JNum n) p = Inr n"
  by (simp_all add: config_inv)

lemma pilot_shape_values:
  "nonempty_string (JStr ''cpu-d3'') p = Inr ''cpu-d3''"
  "nonempty_string (JStr ''4vcpu-16gb'') p = Inr ''4vcpu-16gb''"
  "nonempty_string (JStr ''network-ssd'') p = Inr ''network-ssd''" "positive_number (Fin 80)"
  by (simp_all add: is_space_def positive_number_def is_finite_def nonempty_string_def)

lemma exact_keys_value:
  "set (own_keys kvs) \<subseteq> set (allowed @ opts) \<Longrightarrow> set allowed \<subseteq> set (own_keys kvs) \<Longrightarrow>
     exact_keys kvs allowed path opts = Inr ()"
  unfolding exact_keys_def
  by (simp add: rbind_eq_Inr step_eq_Inr unknown_key_None_iff [THEN iffD2] missing_key_None_iff [THEN iffD2])

lemma nebius_section:
  assumes "nebius_ok (nebius c)"
  shows "\<exists>fs. section_at (config_fields c) ''nebius'' NEBIUS_KEYS = Inr fs \<and> parse_nebius fs = Inr (nebius c)"
proof (intro exI conjI)
  let ?n = "nebius c"
  let ?fs = "[(''profile'', JStr (nebius_profile ?n)), (''projectId'', JStr (nebius_projectId ?n)),
      (''subnetId'', JStr (subnetId ?n)), (''imageId'', JStr (imageId ?n)), (''platform'', JStr (platform ?n)),
      (''preset'', JStr (preset ?n)), (''diskType'', JStr (diskType ?n)), (''diskSizeGiB'', JNum (diskSizeGiB ?n))]"
  show "section_at (config_fields c) ''nebius'' NEBIUS_KEYS = Inr ?fs"
    by (rule section_at_value) (simp_all add: config_fields_def Let_def NEBIUS_KEYS_def unknown_key_None_iff missing_key_None_iff)
  show "parse_nebius ?fs = Inr ?n"
    using assms by (cases ?n) (simp add: parse_nebius_def nebius_ok_def Let_def field_values pilot_shape_values)
qed

lemma ssh_section:
  assumes "\<not> is_blank (publicKey (ssh c))" "\<not> is_blank (fingerprint (ssh c))"
  shows "\<exists>fs. section_at (config_fields c) ''ssh'' SSH_KEYS = Inr fs \<and> parse_ssh fs = Inr (ssh c)"
proof (intro exI conjI)
  let ?fs = "[(''publicKey'', JStr (publicKey (ssh c))), (''fingerprint'', JStr (fingerprint (ssh c)))]"
  show "section_at (config_fields c) ''ssh'' SSH_KEYS = Inr ?fs"
    by (rule section_at_value) (simp_all add: config_fields_def Let_def SSH_KEYS_def unknown_key_None_iff missing_key_None_iff)
  show "parse_ssh ?fs = Inr (ssh c)" using assms by (simp add: parse_ssh_def field_values)
qed

lemma ownership_section:
  assumes "\<not> is_blank (own_controllerId (config_ownership c))" "\<not> is_blank (own_resourcePrefix (config_ownership c))"
  shows "\<exists>fs. section_at (config_fields c) ''ownership'' OWNERSHIP_KEYS = Inr fs
    \<and> parse_ownership fs = Inr (config_ownership c)"
proof (intro exI conjI)
  let ?fs = "[(''controllerId'', JStr (own_controllerId (config_ownership c))),
       (''resourcePrefix'', JStr (own_resourcePrefix (config_ownership c)))]"
  show "section_at (config_fields c) ''ownership'' OWNERSHIP_KEYS = Inr ?fs"
    by (rule section_at_value) (simp_all add: config_fields_def Let_def OWNERSHIP_KEYS_def unknown_key_None_iff missing_key_None_iff)
  show "parse_ownership ?fs = Inr (config_ownership c)" using assms by (simp add: parse_ownership_def field_values)
qed

lemma timing_section:
  assumes "timing_ok (timing c)"
  shows "\<exists>fs. section_at (config_fields c) ''timing'' TIMING_KEYS = Inr fs \<and> parse_timing fs = Inr (timing c)"
proof (intro exI conjI)
  let ?t = "timing c"
  let ?fs = "[(''pollIntervalMs'', JNum (pollIntervalMs ?t)), (''idleGraceMs'', JNum (idleGraceMs ?t)),
       (''bootTimeoutMs'', JNum (bootTimeoutMs ?t)), (''maxJobMs'', JNum (maxJobMs ?t)),
       (''lifetimeMs'', JNum (lifetimeMs ?t)), (''shutdownMarginMs'', JNum (shutdownMarginMs ?t))]"
  show "section_at (config_fields c) ''timing'' TIMING_KEYS = Inr ?fs"
    by (rule section_at_value) (simp_all add: config_fields_def Let_def TIMING_KEYS_def unknown_key_None_iff missing_key_None_iff)
  show "parse_timing ?fs = Inr ?t"
    using assms by (simp add: parse_timing_def timing_ok_def Let_def field_values)
qed

lemma rates_section:
  assumes "config_rates_ok (rates c)"
  shows "\<exists>fs. section_at (config_fields c) ''rates'' RATE_KEYS = Inr fs \<and> parse_rates fs = Inr (rates c)"
proof (intro exI conjI)
  let ?r = "rates c"
  let ?fs = "[(''currency'', JStr (currency ?r)), (''quotedAt'', JStr (quotedAt ?r)),
       (''source'', JStr (rate_source ?r)), (''computeUsdPerHour'', JNum (computeUsdPerHour ?r)),
       (''diskUsdPerGibMonth'', JNum (diskUsdPerGibMonth ?r)),
       (''networkEgressUsdPerGib'', JNum (networkEgressUsdPerGib ?r)),
       (''hostedUsdPerMinute'', (case hostedUsdPerMinute ?r of None \<Rightarrow> JNull | Some h \<Rightarrow> JNum h))]"
  show "section_at (config_fields c) ''rates'' RATE_KEYS = Inr ?fs"
    by (rule section_at_value) (simp_all add: config_fields_def Let_def RATE_KEYS_def unknown_key_None_iff missing_key_None_iff)
  obtain h where h: "hostedUsdPerMinute ?r = Some h" "nonnegative_finite h"
    using assms by (auto simp: config_rates_ok_def)
  have "?r = \<lparr>currency = currency ?r, quotedAt = quotedAt ?r, rate_source = rate_source ?r,
      computeUsdPerHour = computeUsdPerHour ?r, diskUsdPerGibMonth = diskUsdPerGibMonth ?r,
      networkEgressUsdPerGib = networkEgressUsdPerGib ?r, hostedUsdPerMinute = Some h\<rparr>"
    using h(1) by (cases ?r) simp
  then show "parse_rates ?fs = Inr ?r"
    using assms h by (simp add: parse_rates_def config_rates_ok_def Let_def field_values)
qed

lemma repository_section:
  assumes "positive_id (repo_id (repository c))" "owner_and_name (nameWithOwner (repository c))"
  shows "parse_repository (config_fields c) = Inr (repository c)"
proof -
  have "\<not> is_blank (nameWithOwner (repository c))"
    using assms(2) by (cases "nameWithOwner (repository c)")
      (auto simp: owner_and_name_def Let_def is_blank_iff list_ex_iff)
  then show ?thesis using assms
    by (simp add: parse_repository_def config_value_fields object_at_def exact_keys_value REPOSITORY_KEYS_def
        field_values positive_integer_at_def positive_id_def)
qed

lemma config_value_parses:
  assumes "config_ok c"
  shows "parse_runner_config (config_value c) = Inr c"
proof -
  note ok = assms [unfolded config_ok_def]
  obtain neb sh own tim rat where sec:
    "section_at (config_fields c) ''nebius'' NEBIUS_KEYS = Inr neb" "parse_nebius neb = Inr (nebius c)"
    "section_at (config_fields c) ''ssh'' SSH_KEYS = Inr sh" "parse_ssh sh = Inr (ssh c)"
    "section_at (config_fields c) ''ownership'' OWNERSHIP_KEYS = Inr own" "parse_ownership own = Inr (config_ownership c)"
    "section_at (config_fields c) ''timing'' TIMING_KEYS = Inr tim" "parse_timing tim = Inr (timing c)"
    "section_at (config_fields c) ''rates'' RATE_KEYS = Inr rat" "parse_rates rat = Inr (rates c)"
    using nebius_section ssh_section ownership_section timing_section rates_section ok by blast
  have arrays: "positive_integer_array (JArr (map JNum (workflowIds c))) ''workflowIds'' = Inr (workflowIds c)"
    "string_array (JArr (map JStr (eligibleJobNames c))) ''eligibleJobNames'' = Inr (eligibleJobNames c)"
    using ok by (simp_all add: config_inv)
  have switch: "parse_optional_switch (config_fields c) = Inr (routingVariable c)"
    using ok by (cases "routingVariable c")
      (simp_all add: parse_optional_switch_def parse_routing_switch_def config_value_fields object_at_def
        exact_keys_value)
  have limits: "pilot_limits c = Inr ()"
    using ok pilot_limits_iff [of c] by (simp add: nebius_ok_def timing_ok_def)
  have policy: "(if deleteAfterStop c then JStr ''delete-after-stop'' else JUndef) = JStr ''delete-after-stop'' \<longleftrightarrow> deleteAfterStop c"
    by simp
  have repo: "parse_repository (config_fields c) = Inr (repository c)"
    using repository_section ok by blast
  have strings: "nonempty_string (JStr (allowedBranch c)) [Lit ''allowedBranch''] = Inr (allowedBranch c)"
    "nonempty_string (JStr (runnerLabel c)) [Lit ''runnerLabel''] = Inr (runnerLabel c)"
    using ok by (simp_all add: field_values)
  have keys: "exact_keys (config_fields c) ROOT_KEYS ''config'' OPTIONAL_ROOT_KEYS = Inr ()"
    by (simp add: exact_keys_def config_value_fields)
  have adm: "parse_admission (config_fields c) = Inr (admission c)"
    by (simp add: parse_admission_def config_value_fields)
  have same: "\<lparr>repository = repository c, workflowIds = workflowIds c, allowedBranch = allowedBranch c,
      eligibleJobNames = eligibleJobNames c, runnerLabel = runnerLabel c, admission = admission c,
      deleteAfterStop = deleteAfterStop c, nebius = nebius c, ssh = ssh c, config_ownership = config_ownership c,
      timing = timing c, rates = rates c, routingVariable = routingVariable c\<rparr> = c" by simp
  show ?thesis
    by (simp add: parse_runner_config_def config_value_def object_at_def keys config_value_fields repo sec arrays adm
        strings switch policy Let_def same limits)
qed

text \<open>
  The canonical value of a well-formed configuration, the one whose hash is the
  permit identity, parses back to that configuration: parsing is the inverse of rendering on everything
  the parser can produce, so the hash names one configuration.
\<close>

theorem config_roundtrip:
  assumes "config_ok c"
  shows "parse_runner_config (config_value c) = Inr c"
  by (rule config_value_parses [OF assms])

definition pilot_config :: runner_config where
  "pilot_config =
     \<lparr>repository = \<lparr>repo_id = Fin 42, nameWithOwner = ''acme/widgets''\<rparr>, workflowIds = [Fin 7],
      allowedBranch = ''main'', eligibleJobNames = [''verify''], runnerLabel = ''cirujano-42'',
      admission = SameRepository, deleteAfterStop = True,
      nebius = \<lparr>nebius_profile = ''default'', nebius_projectId = ''project-1'', subnetId = ''subnet-1'',
        imageId = ''image-1'', platform = ''cpu-d3'', preset = ''4vcpu-16gb'', diskType = ''network-ssd'',
        diskSizeGiB = Fin 80\<rparr>,
      ssh = \<lparr>publicKey = ''ssh-ed25519 AAAA'', fingerprint = ''SHA256:abc''\<rparr>,
      config_ownership = \<lparr>own_controllerId = ''controller-1'', own_resourcePrefix = ''cirujano''\<rparr>,
      timing = \<lparr>pollIntervalMs = Fin 60000, idleGraceMs = Fin 120000, bootTimeoutMs = Fin 600000,
        maxJobMs = Fin 1800000, lifetimeMs = Fin 7200000, shutdownMarginMs = Fin 300000\<rparr>,
      rates = \<lparr>currency = ''USD'', quotedAt = ''2026-01-01'', rate_source = ''published'',
        computeUsdPerHour = Fin 1, diskUsdPerGibMonth = Fin 1, networkEgressUsdPerGib = Fin 0,
        hostedUsdPerMinute = Some (Fin 0)\<rparr>,
      routingVariable = Some ''CIRUJANO_RUNNER_P7''\<rparr>"

lemma pilot_config_ok: "config_ok pilot_config"
  by (simp add: config_ok_def pilot_config_def positive_id_def positive_number_def is_finite_def is_integer_def
      owner_and_name_def Let_def nebius_ok_def timing_ok_def config_rates_ok_def nonnegative_finite_def
      routing_variable_name_def handle_digits_def is_digit_def code_in_def is_space_def)

theorem config_roundtrip_witness: "parse_runner_config (config_value pilot_config) = Inr pilot_config"
  by (rule config_roundtrip [OF pilot_config_ok])

theorem parsed_config_ok_witness:
  "config_ok pilot_config \<and> parse_runner_config (config_value pilot_config) = Inr pilot_config"
  using parsed_config_ok [OF config_value_parses [OF pilot_config_ok]] config_value_parses [OF pilot_config_ok]
  by blast

end
