(* ===== verification/Pilot.thy ===== *)
theory Pilot
  imports Cost
begin

text \<open>
  The runner pilot (\<open>pilot.ts\<close>): its manifest, the analysis of its results, its permit proposal and
  the R14 evidence matrix. Every verdict is a list of reasons; a verdict without reasons is a pass.
\<close>

section \<open>Data\<close>

datatype pilot_target = Hosted | SelfHosted

datatype pilot_sequence = Seq1 | Seq2

fun pilot_target_str :: "pilot_target \<Rightarrow> string" where
  "pilot_target_str Hosted = ''hosted''"
| "pilot_target_str SelfHosted = ''self-hosted''"

fun pilot_sequence_str :: "pilot_sequence \<Rightarrow> string" where
  "pilot_sequence_str Seq1 = ''1''"
| "pilot_sequence_str Seq2 = ''2''"

record pilot_dispatch =
  dispatch_id :: string
  dispatch_target :: pilot_target
  dispatch_sequence :: pilot_sequence

record pilot_step =
  step_id :: string
  step_run :: string
  whenSequence :: "pilot_sequence option"

record pilot_manifest =
  fixtureId :: string
  workflowFile :: string
  pilot_label :: string
  hostedRunsOn :: "string list"
  selfHostedRunsOn :: "string list"
  dispatches :: "pilot_dispatch list"
  steps :: "pilot_step list"

record pilot_job =
  pj_dispatchId :: string
  pj_target :: pilot_target
  pj_sequence :: pilot_sequence
  pj_candidateDigest :: string
  pj_workflowFile :: string
  pj_steps :: "pilot_step list"
  pj_runsOn :: "string list"

record pilot_assertions =
  node22 :: bool
  pnpmPinned :: bool
  deterministicTests :: bool
  dockerFixedPort :: bool
  sentinelAbsent :: bool

record pilot_result =
  pr_dispatchId :: string
  pr_target :: pilot_target
  pr_sequence :: pilot_sequence
  pr_candidateDigest :: string
  pr_workflowFile :: string
  pr_conclusion :: string
  assertions :: pilot_assertions
  runnerRegistrationId :: jsnum
  workspaceIdentity :: string

record pilot_analysis =
  pa_complete :: bool
  pa_reasons :: "string list"
  dispatchCount :: nat
  passedDispatches :: nat

record complete_quote =
  q_currency :: string
  q_quotedAt :: string
  q_source :: string
  q_computeUsdPerHour :: jsnum
  q_diskUsdPerGibMonth :: jsnum
  publicIpUsdPerHour :: jsnum
  networkUsdPerGib :: jsnum
  maxRetainedDiskHours :: jsnum
  maxPublicIpHours :: jsnum
  maxNetworkEgressGiB :: jsnum
  estimatedMaximumUsd :: jsnum
  includesRetainedDiskAndIp :: bool

datatype pilot_quote = QuoteComplete complete_quote | QuoteIncomplete string

section \<open>The manifest\<close>

definition pilot_record :: "jsval \<Rightarrow> jsnum message \<Rightarrow> jsnum exn + (string \<times> jsval) list" where
  "pilot_record v name = require (as_obj v) (plain_error (name @ [Lit '' must be an object'']))"

definition pilot_text :: "jsval \<Rightarrow> jsnum message \<Rightarrow> jsnum exn + string" where
  "pilot_text v name =
     (case v of JStr s \<Rightarrow> if is_blank s then Inl (plain_error (name @ [Lit '' must be a nonempty string''])) else Inr s
      | _ \<Rightarrow> Inl (plain_error (name @ [Lit '' must be a nonempty string''])))"

definition pilot_strings :: "jsval \<Rightarrow> string \<Rightarrow> jsnum exn + string list" where
  "pilot_strings v name =
     require
       (case v of
          JArr xs \<Rightarrow> if xs \<noteq> [] \<and> (\<forall>x \<in> set xs. \<exists>s. as_str x = Some s \<and> s \<noteq> [])
                     then Some (map (\<lambda>x. the (as_str x)) xs) else None
        | _ \<Rightarrow> None)
       (plain_error [Lit name, Lit '' must be a nonempty string array''])"

definition at_index :: "string \<Rightarrow> nat \<Rightarrow> string \<Rightarrow> jsnum message" where
  "at_index name i rest = [Lit name, Lit ''['', Num (Fin (of_nat i)), Lit '']'', Lit rest]"

definition read_sequence :: "jsval \<Rightarrow> pilot_sequence option" where
  "read_sequence v = (if v = JNum (Fin 1) then Some Seq1 else if v = JNum (Fin 2) then Some Seq2 else None)"

definition read_target :: "jsval \<Rightarrow> pilot_target option" where
  "read_target v =
     (if v = JStr ''hosted'' then Some Hosted else if v = JStr ''self-hosted'' then Some SelfHosted else None)"

definition parse_dispatch :: "nat \<Rightarrow> jsval \<Rightarrow> jsnum exn + pilot_dispatch" where
  "parse_dispatch i v =
     rbind (pilot_record v (at_index ''dispatches'' i [])) (\<lambda>item.
     rbind (require (read_target (get_prop item ''target''))
       (plain_error (at_index ''dispatches'' i ''.target is invalid''))) (\<lambda>target.
     rbind (require (read_sequence (get_prop item ''sequence''))
       (plain_error (at_index ''dispatches'' i ''.sequence is invalid''))) (\<lambda>sequence.
     rbind (pilot_text (get_prop item ''id'') (at_index ''dispatches'' i ''.id'')) (\<lambda>ident.
     Inr \<lparr>dispatch_id = ident, dispatch_target = target, dispatch_sequence = sequence\<rparr>))))"

definition EXPECTED_DISPATCHES :: "string list" where
  "EXPECTED_DISPATCHES = [''hosted-1'', ''hosted-2'', ''self-hosted-1'', ''self-hosted-2'']"

definition REQUIRED_STEPS :: "string list" where
  "REQUIRED_STEPS = [''node'', ''pnpm'', ''deterministic-tests'', ''sentinel-absent'', ''docker-fixed-port'', ''first-run-sentinel'']"

text \<open>As many entries as expected, no id twice, none missing.\<close>

definition exact_ids :: "string list \<Rightarrow> string list \<Rightarrow> bool" where
  "exact_ids expected ids \<longleftrightarrow> length ids = length expected \<and> distinct ids \<and> list_all (\<lambda>x. x \<in> set ids) expected"

definition dispatch_name :: "pilot_target \<Rightarrow> pilot_sequence \<Rightarrow> string" where
  "dispatch_name t s = pilot_target_str t @ ''-'' @ pilot_sequence_str s"

definition misdirected :: "pilot_dispatch list \<Rightarrow> pilot_target \<times> pilot_sequence \<Rightarrow> bool" where
  "misdirected ds ts = (case find (\<lambda>d. dispatch_id d = dispatch_name (fst ts) (snd ts)) ds of
     None \<Rightarrow> False
   | Some d \<Rightarrow> dispatch_target d \<noteq> fst ts \<or> dispatch_sequence d \<noteq> snd ts)"

definition parse_step :: "nat \<Rightarrow> jsval \<Rightarrow> jsnum exn + pilot_step" where
  "parse_step i v =
     rbind (pilot_record v (at_index ''steps'' i [])) (\<lambda>item.
     let w = get_prop item ''whenSequence'' in
     rbind (check (w = JUndef \<or> read_sequence w \<noteq> None)
       (plain_error (at_index ''steps'' i ''.whenSequence is invalid''))) (\<lambda>_.
     rbind (pilot_text (get_prop item ''id'') (at_index ''steps'' i ''.id'')) (\<lambda>ident.
     rbind (pilot_text (get_prop item ''run'') (at_index ''steps'' i ''.run'')) (\<lambda>run.
     Inr \<lparr>step_id = ident, step_run = run, whenSequence = read_sequence w\<rparr>))))"

definition docker_pinned :: "pilot_step list \<Rightarrow> bool" where
  "docker_pinned ss = (case find (\<lambda>s. step_id s = ''docker-fixed-port'') ss of
     None \<Rightarrow> False
   | Some s \<Rightarrow> str_includes (step_run s) ''-p 43119:43119'' \<and> str_includes (step_run s) ''@sha256:'')"

definition sentinel_first :: "pilot_step list \<Rightarrow> bool" where
  "sentinel_first ss = (case find (\<lambda>s. step_id s = ''first-run-sentinel'') ss of
     None \<Rightarrow> False | Some s \<Rightarrow> whenSequence s = Some Seq1)"

definition parse_pilot_manifest :: "jsval \<Rightarrow> jsnum exn + pilot_manifest" where
  "parse_pilot_manifest v =
     (let fail = (\<lambda>s. plain_error [Lit s]) in
     rbind (pilot_record v [Lit ''pilot manifest'']) (\<lambda>kvs.
     rbind (check (get_prop kvs ''schemaVersion'' = JNum (Fin 1)) (fail ''pilot manifest schemaVersion must be 1'')) (\<lambda>_.
     rbind (pilot_text (get_prop kvs ''fixtureId'') [Lit ''fixtureId'']) (\<lambda>fixture.
     rbind (pilot_text (get_prop kvs ''workflowFile'') [Lit ''workflowFile'']) (\<lambda>workflow.
     rbind (pilot_text (get_prop kvs ''runnerLabel'') [Lit ''runnerLabel'']) (\<lambda>label.
     rbind (check (get_prop kvs ''timeoutMinutes'' = JNum (Fin 60)) (fail ''pilot timeout must be exactly 60 minutes'')) (\<lambda>_.
     rbind (pilot_strings (get_prop kvs ''hostedRunsOn'') ''hostedRunsOn'') (\<lambda>hosted.
     rbind (pilot_strings (get_prop kvs ''selfHostedRunsOn'') ''selfHostedRunsOn'') (\<lambda>self_hosted.
     rbind (check (hosted = [''ubuntu-24.04'']) (fail ''hosted runner selection must be ubuntu-24.04'')) (\<lambda>_.
     rbind (check (''self-hosted'' \<in> set self_hosted \<and> label \<in> set self_hosted)
       (fail ''self-hosted runner selection must include self-hosted and the pilot label'')) (\<lambda>_.
     rbind (require (as_arr (get_prop kvs ''dispatches'')) (fail ''dispatches must be an array'')) (\<lambda>raw.
     rbind (rmapi parse_dispatch 0 raw) (\<lambda>ds.
     rbind (check (exact_ids EXPECTED_DISPATCHES (map dispatch_id ds))
       (fail ''pilot manifest must contain the exact four hosted and self-hosted dispatches'')) (\<lambda>_.
     rbind (reject (find (misdirected ds) [(Hosted, Seq1), (Hosted, Seq2), (SelfHosted, Seq1), (SelfHosted, Seq2)])
       (\<lambda>(t, s). plain_error [Lit ''dispatch '', Lit (dispatch_name t s), Lit '' must select '',
          Lit (pilot_target_str t), Lit '' sequence '', Lit (pilot_sequence_str s)])) (\<lambda>_.
     rbind (require (as_arr (get_prop kvs ''steps'')) (fail ''steps must be an array'')) (\<lambda>raw_steps.
     rbind (rmapi parse_step 0 raw_steps) (\<lambda>ss.
     rbind (check (exact_ids REQUIRED_STEPS (map step_id ss))
       (fail ''pilot manifest must contain every deterministic workload step exactly once'')) (\<lambda>_.
     rbind (check (docker_pinned ss) (fail ''Docker fixture must use fixed port 43119 and a digest-pinned image'')) (\<lambda>_.
     rbind (check (sentinel_first ss) (fail ''sentinel creation must run only on the first sequence'')) (\<lambda>_.
     Inr \<lparr>fixtureId = fixture, workflowFile = workflow, pilot_label = label, hostedRunsOn = hosted,
          selfHostedRunsOn = self_hosted, dispatches = ds, steps = ss\<rparr>))))))))))))))))))))"

definition exact_dispatch_count :: "pilot_manifest \<Rightarrow> nat" where
  "exact_dispatch_count m = length (dispatches m)"

definition materialize_pilot_jobs :: "pilot_manifest \<Rightarrow> string \<Rightarrow> jsnum exn + pilot_job list" where
  "materialize_pilot_jobs m digest =
     (if is_blank digest then Inl (plain_error [Lit ''candidate digest is required''])
      else Inr (map (\<lambda>d. \<lparr>pj_dispatchId = dispatch_id d, pj_target = dispatch_target d,
             pj_sequence = dispatch_sequence d, pj_candidateDigest = digest, pj_workflowFile = workflowFile m,
             pj_steps = steps m,
             pj_runsOn = (if dispatch_target d = Hosted then hostedRunsOn m else selfHostedRunsOn m)\<rparr>)
           (dispatches m)))"

section \<open>The analysis of results\<close>

text \<open>\<open>[...new Set(reasons)]\<close>: the first occurrences, in order.\<close>

fun uniq_from :: "'a list \<Rightarrow> 'a list \<Rightarrow> 'a list" where
  "uniq_from seen [] = []"
| "uniq_from seen (x # xs) = (if x \<in> set seen then uniq_from seen xs else x # uniq_from (x # seen) xs)"

definition uniq :: "'a list \<Rightarrow> 'a list" where
  "uniq xs = uniq_from [] xs"

definition ASSERTIONS :: "((pilot_assertions \<Rightarrow> bool) \<times> string) list" where
  "ASSERTIONS = [(node22, ''Node 22''), (pnpmPinned, ''the fixture-pinned pnpm version''),
     (deterministicTests, ''deterministic tests''), (dockerFixedPort, ''fixed-port Docker service''),
     (sentinelAbsent, ''sentinel absence'')]"

definition reason_if :: "bool \<Rightarrow> 'a \<Rightarrow> 'a list" where
  "reason_if b x = (if b then [x] else [])"

definition same_identity_as :: "pilot_dispatch \<Rightarrow> pilot_result \<Rightarrow> bool" where
  "same_identity_as d r \<longleftrightarrow> pr_target r = dispatch_target d \<and> pr_sequence r = dispatch_sequence d"

definition dispatch_reasons :: "pilot_manifest \<Rightarrow> string \<Rightarrow> pilot_result list \<Rightarrow> pilot_dispatch \<Rightarrow> string list" where
  "dispatch_reasons m digest results d =
     (let name = ''dispatch '' @ dispatch_id d; matches = filter (\<lambda>r. pr_dispatchId r = dispatch_id d) results in
      case matches of
        [] \<Rightarrow> [name @ '' is missing'']
      | r # _ \<Rightarrow>
          reason_if (1 < length matches) (name @ '' has duplicate results'')
          @ reason_if (\<not> same_identity_as d r) (name @ '' identity is mismatched'')
          @ reason_if (pr_candidateDigest r \<noteq> digest) (name @ '' has a mismatched candidate'')
          @ reason_if (pr_workflowFile r \<noteq> workflowFile m) (name @ '' used a mismatched workflow'')
          @ reason_if (pr_conclusion r \<noteq> ''success'') (name @ '' concluded '' @ pr_conclusion r)
          @ concat (map (\<lambda>(a, label). reason_if (\<not> a (assertions r)) (name @ '' failed '' @ label)) ASSERTIONS))"

definition result_passes :: "pilot_manifest \<Rightarrow> string \<Rightarrow> pilot_dispatch \<Rightarrow> pilot_result \<Rightarrow> bool" where
  "result_passes m digest d r \<longleftrightarrow>
     same_identity_as d r \<and> pr_candidateDigest r = digest \<and> pr_workflowFile r = workflowFile m
     \<and> pr_conclusion r = ''success'' \<and> list_all (\<lambda>(a, _). a (assertions r)) ASSERTIONS"

definition dispatch_passes :: "pilot_manifest \<Rightarrow> string \<Rightarrow> pilot_result list \<Rightarrow> pilot_dispatch \<Rightarrow> bool" where
  "dispatch_passes m digest results d =
     (case filter (\<lambda>r. pr_dispatchId r = dispatch_id d) results of
        [r] \<Rightarrow> result_passes m digest d r | _ \<Rightarrow> False)"

definition target_results :: "pilot_manifest \<Rightarrow> pilot_result list \<Rightarrow> pilot_target \<Rightarrow> pilot_result list" where
  "target_results m results t =
     filter (\<lambda>r. pr_target r = t \<and> pr_dispatchId r \<in> set (map dispatch_id (dispatches m))) results"

definition target_reasons :: "pilot_manifest \<Rightarrow> pilot_result list \<Rightarrow> pilot_target \<Rightarrow> string list" where
  "target_reasons m results t =
     (let rs = target_results m results t in
      reason_if (\<not> distinct (map runnerRegistrationId rs))
        (pilot_target_str t @ '' sequential runs reused a runner registration'')
      @ reason_if (\<not> distinct (map workspaceIdentity rs)) (pilot_target_str t @ '' sequential runs reused a workspace''))"

definition analyze_pilot_results :: "pilot_manifest \<Rightarrow> string \<Rightarrow> pilot_result list \<Rightarrow> pilot_analysis" where
  "analyze_pilot_results m digest results =
     (let expected = map dispatch_id (dispatches m);
          passed = length (filter (dispatch_passes m digest results) (dispatches m));
          reasons = concat (map (\<lambda>r. reason_if (pr_dispatchId r \<notin> set expected)
                (''unexpected dispatch '' @ pr_dispatchId r)) results)
            @ concat (map (dispatch_reasons m digest results) (dispatches m))
            @ concat (map (target_reasons m results) [Hosted, SelfHosted])
            @ reason_if (passed = 0) ''pilot has zero passing dispatches''
      in \<lparr>pa_complete = (reasons = []), pa_reasons = uniq reasons, dispatchCount = length results,
          passedDispatches = passed\<rparr>)"

section \<open>Permit proposals\<close>

record pilot_permit_input =
  pp_nowMs :: jsnum
  pp_expiresAtMs :: jsnum
  pp_candidateDigest :: string
  pp_configHash :: string
  pp_repositoryId :: jsnum
  pp_projectId :: string
  pp_controllerId :: string
  pp_resourcePrefix :: string
  pp_maxConcurrentVms :: "jsnum option"
  pp_maxStarts :: jsnum
  pp_maxRuntimeMs :: jsnum
  pp_maxTotalCostUsd :: jsnum
  pp_quote :: pilot_quote

text \<open>The members of a proposal with one possible value (\<open>approved: false\<close>, the resources) have no field.\<close>

record pilot_permit_proposal = permit_identity +
  pq_issuedAtMs :: jsnum
  pq_expiresAtMs :: jsnum
  pq_maxStarts :: jsnum
  pq_maxRuntimeMs :: jsnum
  pq_maxTotalCostUsd :: jsnum
  pq_operations :: "permit_operation list"
  resourceGenerations :: "jsnum message list"
  pq_quote :: complete_quote

definition finite_positive :: "jsnum \<Rightarrow> bool" where
  "finite_positive n \<longleftrightarrow> is_finite n \<and> Fin 0 < n"

definition valid_recent_quote_date :: "string \<Rightarrow> jsnum \<Rightarrow> bool" where
  "valid_recent_quote_date s now \<longleftrightarrow>
     valid_date_only s \<and> (let age = now - date_ms s in Fin 0 \<le> age \<and> age \<le> Fin (7 * 24 * 60 * 60 * 1000))"

definition calculate_pilot_quote_maximum :: "complete_quote \<Rightarrow> jsnum \<Rightarrow> jsnum" where
  "calculate_pilot_quote_maximum q runtime =
     num_div runtime (Fin 3600000) * q_computeUsdPerHour q
       + num_div (maxRetainedDiskHours q * Fin 80 * q_diskUsdPerGibMonth q) (Fin 730)
       + maxPublicIpHours q * publicIpUsdPerHour q
       + maxNetworkEgressGiB q * networkUsdPerGib q"

definition quote_rates :: "complete_quote \<Rightarrow> jsnum list" where
  "quote_rates q = [q_computeUsdPerHour q, q_diskUsdPerGibMonth q, publicIpUsdPerHour q, networkUsdPerGib q,
     maxRetainedDiskHours q, maxPublicIpHours q, maxNetworkEgressGiB q]"

text \<open>\<open>1e-9\<close>\<close>

definition QUOTE_TOLERANCE :: jsnum where "QUOTE_TOLERANCE = fl (1 / 1000000000)"

definition missing_names :: "(string \<times> string) list \<Rightarrow> jsnum message list" where
  "missing_names xs = concat (map (\<lambda>(name, v). reason_if (is_blank v) [Lit name, Lit '' is required'']) xs)"

definition pilot_quote_reasons :: "pilot_permit_input \<Rightarrow> complete_quote \<Rightarrow> jsnum message list" where
  "pilot_quote_reasons inp q =
     (let hours = num_div (pp_expiresAtMs inp - pp_nowMs inp) (Fin 3600000);
          calculated = calculate_pilot_quote_maximum q (pp_maxRuntimeMs inp) in
      reason_if (q_currency q \<noteq> ''USD'') [Lit ''pilot quote currency must be USD'']
      @ reason_if (\<not> valid_recent_quote_date (q_quotedAt q) (pp_nowMs inp) \<or> is_blank (q_source q))
          [Lit ''pilot quote must have a valid source dated within seven days'']
      @ reason_if (\<not> list_all nonnegative_finite (quote_rates q)) [Lit ''pilot quote rates are incomplete'']
      @ reason_if (\<not> finite_positive (estimatedMaximumUsd q)) [Lit ''pilot quote maximum must be positive'']
      @ reason_if (maxRetainedDiskHours q < hours) [Lit ''pilot quote disk retention does not cover the permit lifetime'']
      @ reason_if (maxPublicIpHours q < hours) [Lit ''pilot quote IP retention does not cover the permit lifetime'']
      @ (if \<not> is_finite calculated then [[Lit ''pilot quote calculated total must be finite'']]
         else reason_if (QUOTE_TOLERANCE < num_abs (estimatedMaximumUsd q - calculated))
                [Lit ''pilot quote supplied total does not match its rates and bounds''])
      @ reason_if (Fin 5 < estimatedMaximumUsd q \<or> pp_maxTotalCostUsd inp < estimatedMaximumUsd q)
          [Lit ''pilot quote exceeds the cost ceiling'']
      @ reason_if (\<not> includesRetainedDiskAndIp q) [Lit ''pilot quote must include retained disk and IP costs''])"

definition pilot_permit_reasons :: "pilot_permit_input \<Rightarrow> jsnum message list" where
  "pilot_permit_reasons inp =
     (let now = pp_nowMs inp; ex = pp_expiresAtMs inp in
      reason_if (\<not> num_eq (case pp_maxConcurrentVms inp of None \<Rightarrow> Fin 1 | Some n \<Rightarrow> n) (Fin 1))
          [Lit ''pilot permits exactly one concurrent VM'']
      @ reason_if (\<not> is_integer (pp_maxStarts inp) \<or> pp_maxStarts inp < Fin 1 \<or> Fin 4 < pp_maxStarts inp)
          [Lit ''pilot permits at most four starts'']
      @ reason_if (\<not> finite_positive (pp_maxRuntimeMs inp) \<or> Fin (6 * 60 * 60 * 1000) < pp_maxRuntimeMs inp)
          [Lit ''pilot runtime must not exceed six hours'']
      @ reason_if (\<not> finite_positive now \<or> \<not> finite_positive ex \<or> ex \<le> now
            \<or> Fin (24 * 60 * 60 * 1000) < ex - now)
          [Lit ''pilot proposal expiry must be within 24 hours'']
      @ reason_if (\<not> finite_positive (pp_maxTotalCostUsd inp) \<or> Fin 5 < pp_maxTotalCostUsd inp)
          [Lit ''pilot cost ceiling must not exceed USD 5'']
      @ missing_names [(''candidateDigest'', pp_candidateDigest inp), (''configHash'', pp_configHash inp),
          (''projectId'', pp_projectId inp), (''controllerId'', pp_controllerId inp),
          (''resourcePrefix'', pp_resourcePrefix inp)]
      @ reason_if (\<not> is_integer (pp_repositoryId inp) \<or> pp_repositoryId inp \<le> Fin 0)
          [Lit ''repositoryId must be a positive integer'']
      @ (case pp_quote inp of
           QuoteIncomplete r \<Rightarrow> [[Lit ''pilot quote is incomplete: '', Lit r]]
         | QuoteComplete q \<Rightarrow> pilot_quote_reasons inp q))"

fun nat_of_num :: "jsnum \<Rightarrow> nat" where
  "nat_of_num (Fin x) = nat \<lfloor>x\<rfloor>"
| "nat_of_num _ = 0"

definition build_permit_proposal :: "pilot_permit_input \<Rightarrow> jsnum message list + pilot_permit_proposal" where
  "build_permit_proposal inp =
     (let reasons = pilot_permit_reasons inp in
      case (if reasons = [] then pp_quote inp else QuoteIncomplete []) of
        QuoteIncomplete _ \<Rightarrow> Inl reasons
      | QuoteComplete q \<Rightarrow>
          Inr \<lparr>configHash = pp_configHash inp, candidateDigest = pp_candidateDigest inp,
               repositoryId = pp_repositoryId inp, projectId = pp_projectId inp,
               controllerId = pp_controllerId inp, resourcePrefix = pp_resourcePrefix inp,
               pq_issuedAtMs = pp_nowMs inp, pq_expiresAtMs = pp_expiresAtMs inp,
               pq_maxStarts = pp_maxStarts inp, pq_maxRuntimeMs = pp_maxRuntimeMs inp,
               pq_maxTotalCostUsd = pp_maxTotalCostUsd inp,
               pq_operations = [OpCreate, OpStart, OpRegister, OpStop, OpDelete],
               resourceGenerations = map (\<lambda>i. [Lit (pp_resourcePrefix inp), Lit ''-g'', Num (Fin (of_nat (Suc i)))])
                 [0..<nat_of_num (pp_maxStarts inp)],
               pq_quote = q\<rparr>)"

section \<open>The evidence matrix\<close>

definition R14_SCENARIOS :: "string list" where
  "R14_SCENARIOS = [''provider-contract'', ''first-boot-failure'', ''watchdog-first'', ''queue-and-execute'',
     ''sequential-isolation'', ''normal-idle'', ''restart-and-failure'', ''comparison'', ''cleanup'']"

datatype r14_status = R14Passed | R14Failed | R14Skipped | R14NotRun

fun r14_status_str :: "r14_status \<Rightarrow> string" where
  "r14_status_str R14Passed = ''passed''"
| "r14_status_str R14Failed = ''failed''"
| "r14_status_str R14Skipped = ''skipped''"
| "r14_status_str R14NotRun = ''not-run''"

record r14_row =
  row_scenario :: string
  row_status :: r14_status
  row_candidateDigest :: string
  row_evidence :: "string list"

record r14_input =
  r14_candidateDigest :: string
  liveAuthorized :: bool
  prerequisitesComplete :: bool
  r14_rows :: "r14_row list"

record r14_verdict =
  r14_complete :: bool
  passCount :: nat
  r14_reasons :: "string list"

definition scenario_reasons :: "r14_input \<Rightarrow> string \<Rightarrow> string list" where
  "scenario_reasons inp scenario =
     (let rows = filter (\<lambda>r. row_scenario r = scenario) (r14_rows inp);
          name = ''required R14 scenario '' @ scenario in
      case rows of
        [] \<Rightarrow> [name @ '' is missing'']
      | first # _ \<Rightarrow>
          let selected = (case find (\<lambda>r. row_candidateDigest r = r14_candidateDigest inp) rows of
                None \<Rightarrow> first | Some r \<Rightarrow> r) in
          reason_if (1 < length rows) (name @ '' has duplicate results'')
          @ reason_if (\<exists>r \<in> set rows. row_candidateDigest r \<noteq> r14_candidateDigest inp) (name @ '' has a mismatched candidate'')
          @ reason_if (row_status selected \<noteq> R14Passed) (name @ '' is '' @ r14_status_str (row_status selected))
          @ reason_if (row_evidence selected = [] \<or> list_ex is_blank (row_evidence selected)) (name @ '' has no evidence''))"

definition validate_r14_matrix :: "r14_input \<Rightarrow> r14_verdict" where
  "validate_r14_matrix inp =
     (let passes = length (filter (\<lambda>r. row_status r = R14Passed) (r14_rows inp));
          reasons = reason_if (\<not> liveAuthorized inp) ''live pilot authorization is absent''
            @ reason_if (\<not> prerequisitesComplete inp) ''live pilot prerequisites are incomplete''
            @ reason_if (passes = 0) ''R14 matrix has zero passing rows''
            @ concat (map (\<lambda>r. reason_if (row_scenario r \<notin> set R14_SCENARIOS)
                (''unexpected R14 scenario '' @ row_scenario r)) (r14_rows inp))
            @ concat (map (scenario_reasons inp) R14_SCENARIOS)
      in \<lparr>r14_complete = (reasons = []), passCount = passes, r14_reasons = uniq reasons\<rparr>)"

end
