(* ===== verification/Operating.thy ===== *)
theory Operating
  imports Pilot Config
begin

text \<open>
  Operating permits of enrollments (\<open>operating.ts\<close>): the maximums one permit may carry, the fleet
  ceiling over all of them, the proposal the owner confirms and the permit it renders to.
\<close>

definition BOUND_MAX_STARTS :: jsnum where "BOUND_MAX_STARTS = Fin 600"
definition BOUND_MAX_RUNTIME_MS :: jsnum where "BOUND_MAX_RUNTIME_MS = Fin 540000000"
definition BOUND_MAX_TOTAL_COST_USD :: jsnum where "BOUND_MAX_TOTAL_COST_USD = Fin 40"
definition BOUND_FLEET_CEILING_USD :: jsnum where "BOUND_FLEET_CEILING_USD = Fin 440"

definition OPERATING_OPERATIONS :: "permit_operation list" where
  "OPERATING_OPERATIONS = [OpCreate, OpStart, OpRegister, OpStop, OpDelete, OpReleaseRouting]"

text \<open>Of the permits of the other enrollments only the cost ceilings are read.\<close>

record operating_input =
  op_enrollmentId :: string
  op_nowMs :: jsnum
  op_expiresAtMs :: jsnum
  op_windowEndMs :: jsnum
  op_candidateDigest :: string
  op_configHash :: string
  op_repositoryId :: jsnum
  op_projectId :: string
  op_controllerId :: string
  op_resourcePrefix :: string
  op_maxStarts :: jsnum
  op_maxRuntimeMs :: jsnum
  op_maxTotalCostUsd :: jsnum
  otherPermits :: "(string \<times> jsnum) list"
  op_quote :: pilot_quote

record operating_proposal = permit_identity +
  oq_enrollmentId :: string
  oq_issuedAtMs :: jsnum
  oq_expiresAtMs :: jsnum
  oq_maxStarts :: jsnum
  oq_maxRuntimeMs :: jsnum
  oq_maxTotalCostUsd :: jsnum
  fleetCeilingUsd :: jsnum
  fleetCommittedUsd :: jsnum
  oq_operations :: "permit_operation list"
  oq_quote :: complete_quote

definition calculate_operating_quote_maximum :: "complete_quote \<Rightarrow> jsnum \<Rightarrow> jsnum \<Rightarrow> jsnum" where
  "calculate_operating_quote_maximum q runtime permit_lifetime =
     (let retained = num_div permit_lifetime (Fin 3600000) in
      num_div runtime (Fin 3600000) * q_computeUsdPerHour q
        + num_div (retained * Fin 80 * q_diskUsdPerGibMonth q) (Fin 730)
        + retained * publicIpUsdPerHour q
        + maxNetworkEgressGiB q * networkUsdPerGib q)"

definition enrollment_handle :: "string \<Rightarrow> bool" where
  "enrollment_handle s \<longleftrightarrow> prefix ''P'' s \<and> handle_digits (drop 1 s)"

definition other_committed :: "operating_input \<Rightarrow> jsnum" where
  "other_committed inp = foldl (\<lambda>acc (_, cost). acc + cost) (Fin 0) (otherPermits inp)"

definition fleet_committed :: "operating_input \<Rightarrow> jsnum" where
  "fleet_committed inp = other_committed inp + op_maxTotalCostUsd inp"

definition operating_reasons :: "operating_input \<Rightarrow> jsnum message list" where
  "operating_reasons inp =
     (let now = op_nowMs inp; ex = op_expiresAtMs inp in
      reason_if (\<not> enrollment_handle (op_enrollmentId inp)) [Lit ''enrollmentId must be a registry handle such as P1'']
      @ reason_if (\<not> finite_positive now \<or> \<not> finite_positive ex \<or> ex \<le> now) [Lit ''expiry must follow now'']
      @ (if \<not> finite_positive (op_windowEndMs inp) then [[Lit ''measurement window end is required'']]
         else reason_if (op_windowEndMs inp < ex)
           [Lit ''expiry must not follow the measurement window end '', IsoTime (op_windowEndMs inp)])
      @ reason_if (\<not> is_integer (op_maxStarts inp) \<or> op_maxStarts inp < Fin 1 \<or> BOUND_MAX_STARTS < op_maxStarts inp)
          [Lit ''operating permits allow at most '', Num BOUND_MAX_STARTS, Lit '' starts'']
      @ reason_if (\<not> finite_positive (op_maxRuntimeMs inp) \<or> BOUND_MAX_RUNTIME_MS < op_maxRuntimeMs inp)
          [Lit ''operating runtime must not exceed '', Num (num_div BOUND_MAX_RUNTIME_MS (Fin 3600000)), Lit '' hours'']
      @ reason_if (\<not> finite_positive (op_maxTotalCostUsd inp) \<or> BOUND_MAX_TOTAL_COST_USD < op_maxTotalCostUsd inp)
          [Lit ''operating cost ceiling must not exceed USD '', Num BOUND_MAX_TOTAL_COST_USD]
      @ missing_names [(''candidateDigest'', op_candidateDigest inp), (''configHash'', op_configHash inp),
          (''projectId'', op_projectId inp), (''controllerId'', op_controllerId inp),
          (''resourcePrefix'', op_resourcePrefix inp)]
      @ reason_if (\<not> is_integer (op_repositoryId inp) \<or> op_repositoryId inp \<le> Fin 0)
          [Lit ''repositoryId must be a positive integer'']
      @ reason_if (\<not> is_finite (other_committed inp) \<or> other_committed inp < Fin 0)
          [Lit ''other permits carry invalid cost ceilings'']
      @ reason_if (BOUND_FLEET_CEILING_USD < fleet_committed inp)
          [Lit ''fleet ceiling USD '', Num BOUND_FLEET_CEILING_USD, Lit '' would be exceeded: USD '',
           Num (other_committed inp), Lit '' already committed plus USD '', Num (op_maxTotalCostUsd inp)])"

text \<open>\<open>calculated.toFixed(2)\<close> is left as the number.\<close>

definition operating_quote_reasons :: "operating_input \<Rightarrow> complete_quote \<Rightarrow> jsnum message list" where
  "operating_quote_reasons inp q =
     (let permit_lifetime = op_expiresAtMs inp - op_nowMs inp; hours = num_div permit_lifetime (Fin 3600000);
          calculated = calculate_operating_quote_maximum q (op_maxRuntimeMs inp) permit_lifetime in
      reason_if (q_currency q \<noteq> ''USD'') [Lit ''quote currency must be USD'']
      @ reason_if (\<not> valid_recent_quote_date (q_quotedAt q) (op_nowMs inp) \<or> is_blank (q_source q))
          [Lit ''quote must have a valid source dated within seven days'']
      @ reason_if (\<not> list_all nonnegative_finite (quote_rates q)) [Lit ''quote rates are incomplete'']
      @ reason_if (maxRetainedDiskHours q < hours) [Lit ''quote disk retention does not cover the permit lifetime'']
      @ reason_if (maxPublicIpHours q < hours) [Lit ''quote IP retention does not cover the permit lifetime'']
      @ (if \<not> is_finite calculated \<or> calculated \<le> Fin 0
         then [[Lit ''quote calculated total must be positive and finite'']]
         else reason_if (QUOTE_TOLERANCE < num_abs (estimatedMaximumUsd q - calculated))
                [Lit ''quote supplied total does not match its rates and bounds''])
      @ reason_if (op_maxTotalCostUsd inp < calculated)
          [Lit ''quote maximum USD '', Num calculated, Lit '' exceeds the cost ceiling USD '', Num (op_maxTotalCostUsd inp)]
      @ reason_if (\<not> includesRetainedDiskAndIp q) [Lit ''quote must include retained disk and IP costs''])"

text \<open>
  Printing the window end in the reason of a late expiry is the one step that can throw: a date of the
  platform reaches no further than \<open>MAX_DATE_MS\<close>. The members of a proposal with one possible value
  (\<open>kind\<close>, \<open>approved: false\<close>, the resources) have no field.
\<close>

definition MAX_DATE_MS :: jsnum where "MAX_DATE_MS = Fin 8640000000000000"

definition window_unprintable :: "operating_input \<Rightarrow> bool" where
  "window_unprintable inp \<longleftrightarrow>
     finite_positive (op_windowEndMs inp) \<and> op_windowEndMs inp < op_expiresAtMs inp \<and> MAX_DATE_MS < op_windowEndMs inp"

definition accepted_proposal :: "operating_input \<Rightarrow> complete_quote \<Rightarrow> operating_proposal" where
  "accepted_proposal inp q =
     \<lparr>configHash = op_configHash inp, candidateDigest = op_candidateDigest inp,
      repositoryId = op_repositoryId inp, projectId = op_projectId inp,
      controllerId = op_controllerId inp, resourcePrefix = op_resourcePrefix inp,
      oq_enrollmentId = op_enrollmentId inp,
      oq_issuedAtMs = op_nowMs inp, oq_expiresAtMs = op_expiresAtMs inp,
      oq_maxStarts = op_maxStarts inp, oq_maxRuntimeMs = op_maxRuntimeMs inp,
      oq_maxTotalCostUsd = op_maxTotalCostUsd inp,
      fleetCeilingUsd = BOUND_FLEET_CEILING_USD, fleetCommittedUsd = fleet_committed inp,
      oq_operations = OPERATING_OPERATIONS, oq_quote = q\<rparr>"

definition build_operating_permit_proposal ::
  "operating_input \<Rightarrow> jsnum exn + (jsnum message list + operating_proposal)" where
  "build_operating_permit_proposal inp =
     (if window_unprintable inp then Inl (Exn RangeError [Lit ''Invalid time value''])
      else case op_quote inp of
        QuoteIncomplete r \<Rightarrow> Inr (Inl (operating_reasons inp @ [[Lit ''quote is incomplete: '', Lit r]]))
      | QuoteComplete q \<Rightarrow>
          let reasons = operating_reasons inp @ operating_quote_reasons inp q in
          Inr (if reasons \<noteq> [] then Inl reasons else Inr (accepted_proposal inp q)))"

definition render_operating_permit :: "operating_proposal \<Rightarrow> string \<Rightarrow> jsnum exn + permit" where
  "render_operating_permit p ident =
     (if is_blank ident then Inl (plain_error [Lit ''permitId is required''])
      else Inr \<lparr>configHash = configHash p, candidateDigest = candidateDigest p, repositoryId = repositoryId p,
             projectId = projectId p, controllerId = controllerId p, resourcePrefix = resourcePrefix p,
             schemaVersion = Fin 1, permitId = ident, operations = oq_operations p,
             issuedAtMs = oq_issuedAtMs p, expiresAtMs = oq_expiresAtMs p, maxStarts = oq_maxStarts p,
             maxRuntimeMs = oq_maxRuntimeMs p, maxTotalCostUsd = oq_maxTotalCostUsd p, recoveryAllowed = True\<rparr>)"

end
