(* ===== verification/Operating_Properties.thy ===== *)
theory Operating_Properties
  imports Operating Permit
begin

text \<open>
  What an accepted operating proposal promises: the amounts of the permit it renders to, and that the
  permit is one the rest of the program reads and obeys.
\<close>

section \<open>Reasons\<close>

text \<open>A checklist is clean when every one of its tests is.\<close>

lemma reason_if_Nil [result_simps]: "reason_if b x = [] \<longleftrightarrow> \<not> b"
  by (simp add: reason_if_def)

lemma missing_names_Nil [result_simps]: "missing_names xs = [] \<longleftrightarrow> (\<forall>(name, v) \<in> set xs. \<not> is_blank v)"
  by (auto simp: missing_names_def reason_if_Nil)

lemma if_list_Nil [result_simps]: "(if b then [x] else xs) = [] \<longleftrightarrow> \<not> b \<and> xs = []"
  by simp

lemmas checklist_simps = result_simps append_is_Nil_conv de_Morgan_disj not_not

definition within_bounds :: "operating_input \<Rightarrow> bool" where
  "within_bounds inp \<longleftrightarrow>
     finite_positive (op_nowMs inp) \<and> finite_positive (op_expiresAtMs inp) \<and> op_nowMs inp < op_expiresAtMs inp
     \<and> op_expiresAtMs inp \<le> op_windowEndMs inp
     \<and> is_integer (op_maxStarts inp) \<and> Fin 1 \<le> op_maxStarts inp \<and> op_maxStarts inp \<le> Fin 600
     \<and> finite_positive (op_maxRuntimeMs inp) \<and> op_maxRuntimeMs inp \<le> Fin 540000000
     \<and> finite_positive (op_maxTotalCostUsd inp) \<and> op_maxTotalCostUsd inp \<le> Fin 40
     \<and> is_integer (op_repositoryId inp) \<and> Fin 0 < op_repositoryId inp
     \<and> Fin 0 \<le> other_committed inp \<and> \<not> Fin 440 < fleet_committed inp
     \<and> list_all (\<lambda>s. \<not> is_blank s) [op_candidateDigest inp, op_configHash inp, op_projectId inp,
          op_controllerId inp, op_resourcePrefix inp]"

lemma finite_positiveD: "finite_positive a \<Longrightarrow> is_finite a \<and> Fin 0 < a"
  by (simp add: finite_positive_def)

lemma operating_reasons_Nil:
  assumes "operating_reasons inp = []"
  shows "within_bounds inp"
proof -
  note clean = assms [unfolded operating_reasons_def Let_def]
  have window: "finite_positive (op_windowEndMs inp) \<and> \<not> op_windowEndMs inp < op_expiresAtMs inp"
    and times: "finite_positive (op_nowMs inp)" "finite_positive (op_expiresAtMs inp)"
      "\<not> op_expiresAtMs inp \<le> op_nowMs inp"
    and starts: "is_integer (op_maxStarts inp)" "\<not> op_maxStarts inp < Fin 1" "\<not> BOUND_MAX_STARTS < op_maxStarts inp"
    and amounts: "finite_positive (op_maxRuntimeMs inp)" "\<not> BOUND_MAX_RUNTIME_MS < op_maxRuntimeMs inp"
      "finite_positive (op_maxTotalCostUsd inp)" "\<not> BOUND_MAX_TOTAL_COST_USD < op_maxTotalCostUsd inp"
    and repo: "is_integer (op_repositoryId inp)" "\<not> op_repositoryId inp \<le> Fin 0"
    and other: "is_finite (other_committed inp)" "\<not> other_committed inp < Fin 0"
      "\<not> BOUND_FLEET_CEILING_USD < fleet_committed inp"
    and names: "\<forall>(name, v) \<in> set [(''candidateDigest'', op_candidateDigest inp), (''configHash'', op_configHash inp),
        (''projectId'', op_projectId inp), (''controllerId'', op_controllerId inp),
        (''resourcePrefix'', op_resourcePrefix inp)]. \<not> is_blank v"
    using clean by (simp_all only: checklist_simps) blast+
  have fin: "is_finite (op_nowMs inp)" "is_finite (op_expiresAtMs inp)" "is_finite (op_windowEndMs inp)"
    "is_finite (op_maxStarts inp)" "is_finite (op_maxRuntimeMs inp)" "is_finite (op_maxTotalCostUsd inp)"
    "is_finite (op_repositoryId inp)"
    using window times starts amounts repo by (simp_all add: finite_positiveD is_integer_finite)
  show ?thesis
    using window times starts amounts repo other names
    by (simp add: within_bounds_def fin finite_compare BOUND_MAX_STARTS_def BOUND_MAX_RUNTIME_MS_def
        BOUND_MAX_TOTAL_COST_USD_def BOUND_FLEET_CEILING_USD_def)
qed

lemma accepted_iff:
  "build_operating_permit_proposal inp = Inr (Inr p) \<longleftrightarrow>
     \<not> window_unprintable inp \<and>
     (\<exists>q. op_quote inp = QuoteComplete q \<and> operating_reasons inp = [] \<and> operating_quote_reasons inp q = []
          \<and> p = accepted_proposal inp q)"
  by (auto simp: build_operating_permit_proposal_def split: pilot_quote.split)


section \<open>Operating permits\<close>

lemma num_le_sum:
  assumes "\<not> c < a" "is_finite c" "a \<noteq> NaN" shows "a \<le> (c::jsnum)"
  using assms by (simp add: num_not_less is_finite_iff) (metis jsnum.distinct(5) num_not_less)

lemma other_fleet_finite:
  assumes "within_bounds inp" shows "fleet_committed inp \<le> Fin 440"
proof -
  obtain c where c: "op_maxTotalCostUsd inp = Fin c" "0 < c" "c \<le> 40"
    using assms by (auto simp: within_bounds_def finite_positive_def is_finite_iff)
  have "other_committed inp \<noteq> NaN" using assms by (auto simp: within_bounds_def)
  then have "fleet_committed inp \<noteq> NaN" by (cases "other_committed inp") (auto simp: fleet_committed_def c num_ops)
  then show ?thesis using assms by (simp add: within_bounds_def num_not_less)
qed

text \<open>What the rendered permit grants: the proposal's identity and amounts, every operation, recovery.\<close>

lemma rendered_wf:
  assumes b: "within_bounds inp" and i: "\<not> is_blank ident"
    and r: "render_operating_permit (accepted_proposal inp q) ident = Inr x"
  shows "permit_wf x" "expiresAtMs x = op_expiresAtMs inp" "issuedAtMs x = op_nowMs inp"
    "same_identity x (permit_identity.truncate (accepted_proposal inp q))"
    "set (operations x) = {OpCreate, OpStart, OpRegister, OpStop, OpDelete, OpReleaseRouting}"
    "maxStarts x = op_maxStarts inp" "maxRuntimeMs x = op_maxRuntimeMs inp"
    "maxTotalCostUsd x = op_maxTotalCostUsd inp"
proof -
  note x = r [unfolded render_operating_permit_def if_not_P [OF i] sum.inject, symmetric]
  have rid: "repositoryId x \<noteq> NaN" "is_finite (repositoryId x)"
    using b by (auto simp: x within_bounds_def accepted_proposal_def is_integer_finite)
  have "permit_structure x"
    using b by (auto simp: x within_bounds_def accepted_proposal_def permit_structure_def finite_positive_def
        OPERATING_OPERATIONS_def num_less_imp_le is_integer_iff)
  then show "permit_wf x" using b i rid by (simp add: permit_wf_def x within_bounds_def accepted_proposal_def)
  show "same_identity x (permit_identity.truncate (accepted_proposal inp q))"
    using rid(1) by (simp add: same_identity_def x permit_identity.defs)
qed (simp_all add: r [unfolded render_operating_permit_def if_not_P [OF i] sum.inject, symmetric]
      accepted_proposal_def OPERATING_OPERATIONS_def)

text \<open>
  C23 (refinement). An accepted operating proposal renders, under any permit id that is not blank, to a
  permit that implements it: \<open>parsePermit\<close> reads its JSON back as it is; it authorizes the proposal's
  identity exactly from the issue to the expiry, which lies within the measurement window; it allows at
  most 600 starts, 150 hours and USD 40; and with the permits of the other enrollments the fleet stays
  within USD 440.
\<close>

theorem operating_permit_implements_proposal:
  assumes "build_operating_permit_proposal inp = Inr (Inr p)" and "\<not> is_blank ident"
  shows "\<exists>x. render_operating_permit p ident = Inr x
    \<and> parse_permit (json_of_permit x) = Inr x
    \<and> (\<forall>t. validate_permit (Some x) (permit_identity.truncate p) t = Valid
           \<longleftrightarrow> \<not> t < op_nowMs inp \<and> \<not> op_expiresAtMs inp \<le> t)
    \<and> expiresAtMs x \<le> op_windowEndMs inp
    \<and> is_integer (maxStarts x) \<and> Fin 1 \<le> maxStarts x \<and> maxStarts x \<le> Fin 600
    \<and> maxRuntimeMs x \<le> Fin (150 * 3600000) \<and> maxTotalCostUsd x \<le> Fin 40
    \<and> other_committed inp + maxTotalCostUsd x \<le> Fin 440"
proof -
  obtain q where q: "p = accepted_proposal inp q" "operating_reasons inp = []"
    using assms(1) by (auto simp: accepted_iff)
  have b: "within_bounds inp" using q(2) by (rule operating_reasons_Nil)
  obtain x where x: "render_operating_permit p ident = Inr x"
    using assms(2) by (simp add: render_operating_permit_def)
  note w = rendered_wf [OF b assms(2) x [unfolded q(1)]]
  have st: "permit_structure x" using w(1) by (simp add: permit_wf_def)
  have "validate_permit (Some x) (permit_identity.truncate p) t = Valid
      \<longleftrightarrow> \<not> t < op_nowMs inp \<and> \<not> op_expiresAtMs inp \<le> t" for t
    using st w(4) by (simp add: validate_permit_Valid_iff w(2,3) q(1))
  then show ?thesis
    using x parse_json_of_permit [OF w(1)] b other_fleet_finite [OF b] w(2,6-8)
    by (simp add: within_bounds_def fleet_committed_def)
qed

definition sample_quote :: complete_quote where
  "sample_quote = \<lparr>q_currency = ''USD'', q_quotedAt = ''2026-01-01'', q_source = ''published'',
     q_computeUsdPerHour = Fin 1, q_diskUsdPerGibMonth = Fin 73, publicIpUsdPerHour = Fin 1,
     networkUsdPerGib = Fin 1, maxRetainedDiskHours = Fin 2, maxPublicIpHours = Fin 2,
     maxNetworkEgressGiB = Fin 1, estimatedMaximumUsd = Fin 29, includesRetainedDiskAndIp = True\<rparr>"

definition sample_operating_input :: operating_input where
  "sample_operating_input = \<lparr>op_enrollmentId = ''P1'', op_nowMs = Fin 1767225600000,
     op_expiresAtMs = Fin 1767232800000, op_windowEndMs = Fin 1767312000000, op_candidateDigest = ''digest'',
     op_configHash = ''hash'', op_repositoryId = Fin 42, op_projectId = ''project-1'',
     op_controllerId = ''controller-1'', op_resourcePrefix = ''cirujano'', op_maxStarts = Fin 10,
     op_maxRuntimeMs = Fin 36000000, op_maxTotalCostUsd = Fin 30, otherPermits = [(''permit-0'', Fin 40)],
     op_quote = QuoteComplete sample_quote\<rparr>"

lemma tolerance_nonneg: "\<not> QUOTE_TOLERANCE < Fin 0"
  using fl_nonneg [of "1 / 1000000000"] by (simp add: QUOTE_TOLERANCE_def num_not_less)

lemma sample_quote_max: "calculate_operating_quote_maximum sample_quote (Fin 36000000) (Fin 7200000) = Fin 29"
  by (simp add: calculate_operating_quote_maximum_def sample_quote_def)

lemma sample_quote_date:
  "valid_recent_quote_date ''2026-01-01'' (Fin 1767225600000)"
  by (simp add: valid_recent_quote_date_def valid_date_only_def date_shape_def date_parts_def is_digit_def code_in_def
      digits_nat_def days_in_month_def leap_year_def date_ms_def days_from_civil_def)

theorem operating_permit_implements_proposal_witness:
  "\<exists>p x. build_operating_permit_proposal sample_operating_input = Inr (Inr p)
     \<and> render_operating_permit p ''permit-1'' = Inr x \<and> parse_permit (json_of_permit x) = Inr x"
proof -
  have nb: "\<not> is_blank ''digest''" "\<not> is_blank ''hash''" "\<not> is_blank ''project-1''"
    "\<not> is_blank ''controller-1''" "\<not> is_blank ''cirujano''" "\<not> is_blank ''permit-1''"
    "\<not> is_blank ''published''"
    by (simp_all add: is_space_def)
  have h: "enrollment_handle ''P1''" by (simp add: enrollment_handle_def handle_digits_def is_digit_def code_in_def)
  have r: "operating_reasons sample_operating_input = []"
    unfolding operating_reasons_def Let_def checklist_simps
    by (simp del: is_blank_Cons add: nb h sample_operating_input_def finite_positive_def other_committed_def
        fleet_committed_def BOUND_MAX_STARTS_def BOUND_MAX_RUNTIME_MS_def BOUND_MAX_TOTAL_COST_USD_def
        BOUND_FLEET_CEILING_USD_def)
  have q: "operating_quote_reasons sample_operating_input sample_quote = []"
    unfolding operating_quote_reasons_def Let_def checklist_simps
    using sample_quote_max sample_quote_date
    by (simp del: is_blank_Cons add: nb sample_operating_input_def sample_quote_def quote_rates_def
        nonnegative_finite_def tolerance_nonneg)
  have w: "\<not> window_unprintable sample_operating_input"
    by (simp add: window_unprintable_def sample_operating_input_def)
  show ?thesis
    using operating_permit_implements_proposal [of sample_operating_input _ "''permit-1''"] nb(6) w r q
    by (fastforce simp: accepted_iff sample_operating_input_def simp del: is_blank_Cons)
qed

end
