(* ===== verification/Pilot_Properties.thy ===== *)
theory Pilot_Properties
  imports Pilot
begin

text \<open>
  The verdicts of the pilot against what they claim: a complete analysis is one passing result for each
  of the four dispatches, on fresh runners and workspaces; a complete evidence matrix is one passing row
  with evidence for each scenario.
\<close>

section \<open>The dispatches of a manifest\<close>

lemma EXPECTED_DISPATCHES_names:
  "set EXPECTED_DISPATCHES = {dispatch_name t s | t s. True}"
proof -
  have "set EXPECTED_DISPATCHES \<subseteq> {dispatch_name t s | t s. True}"
    by (simp add: EXPECTED_DISPATCHES_def dispatch_name_def)
      (metis pilot_sequence_str.simps pilot_target_str.simps append_Cons append_Nil)
  moreover have "dispatch_name t s \<in> set EXPECTED_DISPATCHES" for t s
    by (cases t; cases s) (simp_all add: EXPECTED_DISPATCHES_def dispatch_name_def)
  ultimately show ?thesis by blast
qed

lemma dispatch_name_inject [simp]: "dispatch_name t s = dispatch_name t' s' \<longleftrightarrow> t = t' \<and> s = s'"
  by (cases t; cases t'; cases s; cases s') (simp_all add: dispatch_name_def)

lemma exact_ids_set: "exact_ids expected ids \<Longrightarrow> distinct expected \<Longrightarrow> set ids = set expected \<and> distinct ids"
  unfolding exact_ids_def list_all_iff
  by (metis card_subset_eq distinct_card finite_set subsetI)

lemma find_unique_key: "distinct (map f xs) \<Longrightarrow> x \<in> set xs \<Longrightarrow> find (\<lambda>y. f y = f x) xs = Some x"
  by (induction xs) (auto simp: image_iff)

definition well_directed :: "pilot_manifest \<Rightarrow> bool" where
  "well_directed m \<longleftrightarrow> distinct (map dispatch_id (dispatches m))
     \<and> set (map dispatch_id (dispatches m)) = set EXPECTED_DISPATCHES
     \<and> (\<forall>d \<in> set (dispatches m). dispatch_id d = dispatch_name (dispatch_target d) (dispatch_sequence d))"

lemma parsed_well_directed:
  assumes "parse_pilot_manifest v = Inr m"
  shows "well_directed m"
proof -
  have "\<exists>ds. exact_ids EXPECTED_DISPATCHES (map dispatch_id ds)
      \<and> find (misdirected ds) [(Hosted, Seq1), (Hosted, Seq2), (SelfHosted, Seq1), (SelfHosted, Seq2)] = None
      \<and> dispatches m = ds"
    using assms unfolding parse_pilot_manifest_def Let_def rbind_eq_Inr step_eq_Inr sum.inject
    by (elim exE conjE) (rule exI, rule conjI, assumption, rule conjI, assumption, erule subst,
        simp only: pilot_manifest.simps)
  then obtain ds where ds: "exact_ids EXPECTED_DISPATCHES (map dispatch_id ds)" "dispatches m = ds"
    and dir: "find (misdirected ds) [(Hosted, Seq1), (Hosted, Seq2), (SelfHosted, Seq1), (SelfHosted, Seq2)] = None"
    by blast
  have ids: "set (map dispatch_id ds) = set EXPECTED_DISPATCHES" "distinct (map dispatch_id ds)"
    using exact_ids_set [OF ds(1)] by (simp_all add: EXPECTED_DISPATCHES_def)
  have "dispatch_id d = dispatch_name (dispatch_target d) (dispatch_sequence d)" if d: "d \<in> set ds" for d
  proof -
    have "dispatch_id d \<in> set EXPECTED_DISPATCHES" using ids(1) d by auto
    then obtain t s where n: "dispatch_id d = dispatch_name t s" unfolding EXPECTED_DISPATCHES_names by blast
    have "find (\<lambda>e. dispatch_id e = dispatch_name t s) ds = Some d"
      using find_unique_key [OF ids(2) d] by (simp add: n)
    moreover have "\<not> misdirected ds (t, s)" using dir by (cases t; cases s) (simp_all split: if_split_asm)
    ultimately show ?thesis using n by (simp add: misdirected_def)
  qed
  then show ?thesis using ids ds(2) by (simp add: well_directed_def)
qed

section \<open>The analysis\<close>

lemma concat_map_Nil: "concat (map f xs) = [] \<longleftrightarrow> (\<forall>x \<in> set xs. f x = [])"
  by simp

lemma reason_Nil: "reason_if b x = [] \<longleftrightarrow> \<not> b"
  by (simp add: reason_if_def)

lemma dispatch_reasons_Nil:
  "dispatch_reasons m digest results d = [] \<longleftrightarrow> dispatch_passes m digest results d"
proof (cases "filter (\<lambda>r. pr_dispatchId r = dispatch_id d) results")
  case (Cons r rs)
  have "concat (map (\<lambda>(a, label). reason_if (\<not> a (assertions r)) (f label)) ASSERTIONS) = []
      \<longleftrightarrow> list_all (\<lambda>(a, _). a (assertions r)) ASSERTIONS" for f :: "string \<Rightarrow> string"
    by (auto simp: list_all_iff reason_if_def split: if_splits)
  then show ?thesis
    by (cases rs) (auto simp: dispatch_reasons_def dispatch_passes_def result_passes_def Cons reason_Nil
        Let_def)
qed (simp add: dispatch_reasons_def dispatch_passes_def)

text \<open>What the pilot asks for, without the bookkeeping of the code.\<close>

definition fresh_runners :: "pilot_result list \<Rightarrow> pilot_target \<Rightarrow> bool" where
  "fresh_runners results t \<longleftrightarrow>
     (let rs = filter (\<lambda>r. pr_target r = t) results in
      distinct (map runnerRegistrationId rs) \<and> distinct (map workspaceIdentity rs))"

definition cell_passes :: "pilot_manifest \<Rightarrow> string \<Rightarrow> pilot_target \<Rightarrow> pilot_sequence \<Rightarrow> pilot_result \<Rightarrow> bool" where
  "cell_passes m digest t s r \<longleftrightarrow>
     pr_target r = t \<and> pr_sequence r = s \<and> pr_candidateDigest r = digest \<and> pr_workflowFile r = workflowFile m
     \<and> pr_conclusion r = ''success''
     \<and> node22 (assertions r) \<and> pnpmPinned (assertions r) \<and> deterministicTests (assertions r)
     \<and> dockerFixedPort (assertions r) \<and> sentinelAbsent (assertions r)"

definition pilot_passed :: "pilot_manifest \<Rightarrow> string \<Rightarrow> pilot_result list \<Rightarrow> bool" where
  "pilot_passed m digest results \<longleftrightarrow>
     (\<forall>r \<in> set results. \<exists>t s. pr_dispatchId r = dispatch_name t s)
     \<and> (\<forall>t s. \<exists>r. filter (\<lambda>r. pr_dispatchId r = dispatch_name t s) results = [r] \<and> cell_passes m digest t s r)
     \<and> (\<forall>t. fresh_runners results t)"

lemma dispatch_passes_iff:
  assumes "dispatch_id d = dispatch_name (dispatch_target d) (dispatch_sequence d)"
  shows "dispatch_passes m digest results d \<longleftrightarrow>
    (\<exists>r. filter (\<lambda>r. pr_dispatchId r = dispatch_name (dispatch_target d) (dispatch_sequence d)) results = [r]
       \<and> cell_passes m digest (dispatch_target d) (dispatch_sequence d) r)"
  using assms
  by (auto simp: dispatch_passes_def result_passes_def same_identity_as_def cell_passes_def ASSERTIONS_def
      split: list.splits)

lemma all_dispatches_iff:
  assumes "well_directed m"
  shows "(\<forall>d \<in> set (dispatches m). P (dispatch_target d) (dispatch_sequence d)) \<longleftrightarrow> (\<forall>t s. P t s)"
proof -
  have "\<exists>d \<in> set (dispatches m). dispatch_target d = t \<and> dispatch_sequence d = s" for t s
  proof -
    have "dispatch_name t s \<in> dispatch_id ` set (dispatches m)"
      using assms EXPECTED_DISPATCHES_names by (auto simp: well_directed_def)
    then show ?thesis using assms by (fastforce simp: well_directed_def)
  qed
  then show ?thesis by metis
qed

lemma target_results_all:
  assumes "\<forall>r \<in> set results. pr_dispatchId r \<in> set (map dispatch_id (dispatches m))"
  shows "target_results m results t = filter (\<lambda>r. pr_target r = t) results"
  unfolding target_results_def using assms by (intro filter_cong) auto

lemma target_reasons_Nil:
  "\<forall>r \<in> set results. pr_dispatchId r \<in> set (map dispatch_id (dispatches m)) \<Longrightarrow>
   target_reasons m results t = [] \<longleftrightarrow> fresh_runners results t"
  by (simp add: target_reasons_def fresh_runners_def Let_def reason_Nil target_results_all)

lemma all_targets: "(\<forall>t \<in> set [Hosted, SelfHosted]. P t) \<longleftrightarrow> (\<forall>t. P t)"
  by (auto intro: pilot_target.induct)

text \<open>
  C24 (equivalence). For a manifest the parser accepts, the analysis of the results is complete exactly
  when the pilot passed: every result belongs to one of the four dispatches, each dispatch has exactly
  one result, which is a success of the candidate on the right target, sequence and workflow with all
  five assertions, and the two runs on a target shared neither a runner registration nor a workspace.
  A complete analysis counts four passing dispatches.
\<close>

theorem pilot_analysis_exact:
  assumes "parse_pilot_manifest v = Inr m"
  shows "(pa_complete (analyze_pilot_results m digest results) \<longleftrightarrow> pilot_passed m digest results)
    \<and> (pa_complete (analyze_pilot_results m digest results) \<longrightarrow>
         passedDispatches (analyze_pilot_results m digest results) = 4)"
proof -
  have wd: "well_directed m" using assms by (rule parsed_well_directed)
  then have dir: "\<forall>d \<in> set (dispatches m). dispatch_id d = dispatch_name (dispatch_target d) (dispatch_sequence d)"
    and ids: "set (map dispatch_id (dispatches m)) = {dispatch_name t s | t s. True}"
    and dist: "distinct (map dispatch_id (dispatches m))"
    unfolding well_directed_def EXPECTED_DISPATCHES_names by blast+
  have four: "length (dispatches m) = 4"
    using distinct_card [OF dist] wd [unfolded well_directed_def, THEN conjunct2, THEN conjunct1]
    by (simp only: length_map) (simp add: EXPECTED_DISPATCHES_def)
  let ?passing = "filter (dispatch_passes m digest results) (dispatches m)"
  have complete: "pa_complete (analyze_pilot_results m digest results) \<longleftrightarrow>
      (\<forall>r \<in> set results. pr_dispatchId r \<in> set (map dispatch_id (dispatches m)))
      \<and> (\<forall>d \<in> set (dispatches m). dispatch_passes m digest results d)
      \<and> (\<forall>t. target_reasons m results t = []) \<and> length ?passing \<noteq> 0"
    by (simp only: analyze_pilot_results_def Let_def pilot_analysis.simps append_is_Nil_conv concat_map_Nil reason_Nil
        dispatch_reasons_Nil all_targets not_not)
  have all_pass: "(\<forall>d \<in> set (dispatches m). dispatch_passes m digest results d) \<longrightarrow> length ?passing = 4"
    using four by simp
  have passes: "(\<forall>d \<in> set (dispatches m). dispatch_passes m digest results d) \<longleftrightarrow>
      (\<forall>t s. \<exists>r. filter (\<lambda>r. pr_dispatchId r = dispatch_name t s) results = [r] \<and> cell_passes m digest t s r)"
    unfolding all_dispatches_iff [OF wd, symmetric] using dir by (simp add: dispatch_passes_iff)
  have "pa_complete (analyze_pilot_results m digest results) \<longleftrightarrow> pilot_passed m digest results"
    unfolding complete pilot_passed_def passes [symmetric] using all_pass target_reasons_Nil [of results m]
    by (auto simp: ids simp del: set_map)
  moreover have "passedDispatches (analyze_pilot_results m digest results) = length ?passing"
    by (simp add: analyze_pilot_results_def Let_def)
  ultimately show ?thesis using complete all_pass by metis
qed

definition sample_manifest_json :: jsval where
  "sample_manifest_json = JObj
     [(''schemaVersion'', JNum (Fin 1)), (''fixtureId'', JStr ''f''), (''workflowFile'', JStr ''pilot.yml''),
      (''timeoutMinutes'', JNum (Fin 60)), (''runnerLabel'', JStr ''pilot''),
      (''hostedRunsOn'', JArr [JStr ''ubuntu-24.04'']),
      (''selfHostedRunsOn'', JArr [JStr ''self-hosted'', JStr ''pilot'']),
      (''dispatches'', JArr (map (\<lambda>(i, t, s). JObj [(''id'', JStr i), (''target'', JStr t), (''sequence'', JNum s)])
         [(''hosted-1'', ''hosted'', Fin 1), (''hosted-2'', ''hosted'', Fin 2),
          (''self-hosted-1'', ''self-hosted'', Fin 1), (''self-hosted-2'', ''self-hosted'', Fin 2)])),
      (''steps'', JArr (map (\<lambda>(i, r, w). JObj ((''id'', JStr i) # (''run'', JStr r) # w))
         [(''node'', ''n'', []), (''pnpm'', ''n'', []), (''deterministic-tests'', ''n'', []),
          (''sentinel-absent'', ''n'', []), (''docker-fixed-port'', ''-p 43119:43119 i@sha256:0'', []),
          (''first-run-sentinel'', ''n'', [(''whenSequence'', JNum (Fin 1))])]))]"

definition sample_result :: "pilot_target \<Rightarrow> pilot_sequence \<Rightarrow> jsnum \<Rightarrow> string \<Rightarrow> pilot_result" where
  "sample_result t s n w = \<lparr>pr_dispatchId = dispatch_name t s, pr_target = t, pr_sequence = s,
     pr_candidateDigest = ''d'', pr_workflowFile = ''pilot.yml'', pr_conclusion = ''success'',
     assertions = \<lparr>node22 = True, pnpmPinned = True, deterministicTests = True, dockerFixedPort = True,
       sentinelAbsent = True\<rparr>, runnerRegistrationId = n, workspaceIdentity = w\<rparr>"

definition sample_results :: "pilot_result list" where
  "sample_results = [sample_result Hosted Seq1 (Fin 1) ''a'', sample_result Hosted Seq2 (Fin 2) ''b'',
     sample_result SelfHosted Seq1 (Fin 3) ''c'', sample_result SelfHosted Seq2 (Fin 4) ''e'']"

lemma sample_manifest_ok:
  "\<exists>m. parse_pilot_manifest sample_manifest_json = Inr m \<and> workflowFile m = ''pilot.yml''"
  by (simp add: parse_pilot_manifest_def sample_manifest_json_def pilot_record_def pilot_text_def pilot_strings_def
      is_space_def parse_dispatch_def parse_step_def read_target_def read_sequence_def exact_ids_def
      EXPECTED_DISPATCHES_def REQUIRED_STEPS_def misdirected_def dispatch_name_def docker_pinned_def
      sentinel_first_def)

lemma sample_results_pass:
  assumes "workflowFile m = ''pilot.yml''" shows "pilot_passed m ''d'' sample_results"
proof -
  have "\<exists>r. filter (\<lambda>r. pr_dispatchId r = dispatch_name t s) sample_results = [r] \<and> cell_passes m ''d'' t s r" for t s
    using assms by (cases t; cases s) (simp_all add: sample_results_def sample_result_def cell_passes_def)
  moreover have "fresh_runners sample_results t" for t
    by (cases t) (simp_all add: sample_results_def sample_result_def fresh_runners_def)
  moreover have "\<forall>r \<in> set sample_results. \<exists>t s. pr_dispatchId r = dispatch_name t s"
    by (auto simp: sample_results_def sample_result_def)
  ultimately show ?thesis by (simp add: pilot_passed_def)
qed

theorem pilot_analysis_exact_witness:
  "\<exists>m. parse_pilot_manifest sample_manifest_json = Inr m
     \<and> pa_complete (analyze_pilot_results m ''d'' sample_results)
     \<and> passedDispatches (analyze_pilot_results m ''d'' sample_results) = 4"
  using sample_manifest_ok pilot_analysis_exact [of sample_manifest_json _ "''d''" sample_results]
    sample_results_pass by blast

section \<open>The evidence matrix\<close>

definition scenario_proved :: "r14_input \<Rightarrow> string \<Rightarrow> bool" where
  "scenario_proved inp scenario \<longleftrightarrow>
     (\<exists>r. filter (\<lambda>r. row_scenario r = scenario) (r14_rows inp) = [r] \<and> row_candidateDigest r = r14_candidateDigest inp
        \<and> row_status r = R14Passed \<and> row_evidence r \<noteq> [] \<and> (\<forall>e \<in> set (row_evidence r). \<not> is_blank e))"

lemma scenario_reasons_Nil: "scenario_reasons inp s = [] \<longleftrightarrow> scenario_proved inp s"
proof (cases "filter (\<lambda>r. row_scenario r = s) (r14_rows inp)")
  case (Cons r rs)
  then show ?thesis
    by (cases rs) (auto simp: scenario_reasons_def scenario_proved_def Let_def reason_Nil list_ex_iff)
qed (simp add: scenario_reasons_def scenario_proved_def)

lemma r14_matrix_exact:
  "r14_complete (validate_r14_matrix inp) \<longleftrightarrow>
     liveAuthorized inp \<and> prerequisitesComplete inp
     \<and> (\<forall>r \<in> set (r14_rows inp). row_scenario r \<in> set R14_SCENARIOS)
     \<and> (\<forall>s \<in> set R14_SCENARIOS. scenario_proved inp s)"
proof -
  have "filter (\<lambda>r. row_status r = R14Passed) (r14_rows inp) \<noteq> []" if "\<forall>s \<in> set R14_SCENARIOS. scenario_proved inp s"
  proof -
    have "scenario_proved inp ''cleanup''" using that by (simp add: R14_SCENARIOS_def)
    then obtain r where "r \<in> set (r14_rows inp)" "row_status r = R14Passed"
      unfolding scenario_proved_def by (metis list.set_intros(1) filter_is_subset subsetD)
    then show ?thesis by (auto simp: filter_empty_conv)
  qed
  moreover have "r14_complete (validate_r14_matrix inp) \<longleftrightarrow>
     liveAuthorized inp \<and> prerequisitesComplete inp
     \<and> length (filter (\<lambda>r. row_status r = R14Passed) (r14_rows inp)) \<noteq> 0
     \<and> (\<forall>r \<in> set (r14_rows inp). row_scenario r \<in> set R14_SCENARIOS)
     \<and> (\<forall>s \<in> set R14_SCENARIOS. scenario_proved inp s)"
    by (simp only: validate_r14_matrix_def Let_def r14_verdict.simps append_is_Nil_conv concat_map_Nil reason_Nil
        scenario_reasons_Nil not_not)
  ultimately show ?thesis by auto
qed

end
