(* ===== verification/Registry.thy ===== *)
theory Registry
  imports Operating Redaction
begin

text \<open>
  The fleet registry (\<open>fleet-registry.ts\<close>): the enrollments of workflow jobs on Cirujano runners, the
  strict parser that every read and every write of the registry goes through, and the lookups on it.
  \<open>date_of\<close> is \<open>Date.parse\<close>.
\<close>

section \<open>Data\<close>

datatype enrollment_status = Proposed | CutOver | Reverted

datatype hosted_sku = ActionsLinux | ActionsLinuxArm | ActionsWindows | ActionsMacos

fun enrollment_status_str :: "enrollment_status \<Rightarrow> string" where
  "enrollment_status_str Proposed = ''proposed''"
| "enrollment_status_str CutOver = ''cut-over''"
| "enrollment_status_str Reverted = ''reverted''"

fun hosted_sku_str :: "hosted_sku \<Rightarrow> string" where
  "hosted_sku_str ActionsLinux = ''actions_linux''"
| "hosted_sku_str ActionsLinuxArm = ''actions_linux_arm''"
| "hosted_sku_str ActionsWindows = ''actions_windows''"
| "hosted_sku_str ActionsMacos = ''actions_macos''"

definition STATUSES :: "enrollment_status list" where "STATUSES = [Proposed, CutOver, Reverted]"

definition HOSTED_SKUS :: "hosted_sku list" where
  "HOSTED_SKUS = [ActionsLinux, ActionsLinuxArm, ActionsWindows, ActionsMacos]"

record fleet_exclusion =
  ex_repository :: string
  ex_reason :: string
  ex_lockedBy :: string

record workflow_identity =
  wi_commit :: string
  workflowBlobSha :: string
  wi_runsOn :: "string list"
  recordedAt :: string

record enrollment_controller =
  stateDirectory :: string
  ec_controllerId :: string
  ec_resourcePrefix :: string
  ec_permitId :: "string option"

record fleet_enrollment =
  fe_id :: string
  fe_repository :: string
  fe_repositoryId :: jsnum
  targetBranch :: "string option"
  workflowPath :: string
  fe_workflowId :: jsnum
  workflowName :: string
  jobKey :: string
  jobNames :: "string list"
  fe_sku :: hosted_sku
  fe_runnerLabel :: string
  fe_status :: enrollment_status
  routingSwitch :: "string option"
  before :: workflow_identity
  after :: "workflow_identity option"
  controller :: "enrollment_controller option"
  fe_notes :: "string list"

record fleet_registry =
  fr_owner :: string
  window_since :: string
  window_through :: string
  exclusions :: "fleet_exclusion list"
  enrollments :: "fleet_enrollment list"

definition LOCKED_EXCLUSIONS :: "string list" where
  "LOCKED_EXCLUSIONS = [''frivas/contribution-dashboard'', ''behboud/opencode-rpi'', ''juan294/home-network'']"

section \<open>Shapes of names\<close>

definition is_alnum :: "char \<Rightarrow> bool" where
  "is_alnum c \<longleftrightarrow> is_word c \<and> c \<noteq> CHR ''_''"

text \<open>\<open>OWNER_PATTERN\<close>, \<open>REPOSITORY_PATTERN\<close>, \<open>SHA_PATTERN\<close>\<close>

definition owner_name :: "string \<Rightarrow> bool" where
  "owner_name s \<longleftrightarrow> s \<noteq> [] \<and> length s \<le> 39 \<and> is_alnum (hd s) \<and> list_all (\<lambda>c. is_alnum c \<or> c = CHR ''-'') (tl s)"

definition repository_name :: "string \<Rightarrow> bool" where
  "repository_name s \<longleftrightarrow>
     (let name = tl (dropWhile (\<lambda>c. c \<noteq> CHR ''/'') s) in
      CHR ''/'' \<in> set s \<and> owner_name (takeWhile (\<lambda>c. c \<noteq> CHR ''/'') s)
      \<and> name \<noteq> [] \<and> length name \<le> 100 \<and> list_all (\<lambda>c. is_word c \<or> c = CHR ''.'' \<or> c = CHR ''-'') name)"

definition is_sha :: "string \<Rightarrow> bool" where
  "is_sha s \<longleftrightarrow> length s = 40 \<and> list_all (\<lambda>c. is_digit c \<or> code_in c 97 102) s"

fun split_slash :: "string \<Rightarrow> string list" where
  "split_slash [] = [[]]"
| "split_slash (c # s) =
     (if c = CHR ''/'' then [] # split_slash s
      else (case split_slash s of [] \<Rightarrow> [[c]] | p # ps \<Rightarrow> (c # p) # ps))"

definition valid_git_branch_name :: "string \<Rightarrow> bool" where
  "valid_git_branch_name s \<longleftrightarrow>
     length s \<le> 200
     \<and> list_all (\<lambda>p. p \<noteq> [] \<and> (is_word (hd p) \<or> hd p = CHR ''-'')
                    \<and> list_all (\<lambda>c. is_word c \<or> c = CHR ''.'' \<or> c = CHR ''-'') p) (split_slash s)
     \<and> \<not> str_includes s ''..''
     \<and> \<not> list_ex (\<lambda>p. suffix ''.'' p \<or> suffix ''.lock'' p) (split_slash s)"

text \<open>The order of strings by code units.\<close>

fun str_less :: "string \<Rightarrow> string \<Rightarrow> bool" where
  "str_less s [] = False"
| "str_less [] (d # t) = True"
| "str_less (c # s) (d # t) = (if c = d then str_less s t else (of_char c :: nat) < of_char d)"

section \<open>Labels and switches\<close>

definition cirujano_sku_for_label :: "string \<Rightarrow> hosted_sku option" where
  "cirujano_sku_for_label label =
     (if label \<in> {''cirujano-pilot-fixture'', ''cirujano-baseline-actions_linux''} then Some ActionsLinux
      else if prefix ''cirujano-p'' label \<and> suffix ''-actions_linux'' label
              \<and> handle_digits (take (length label - 24) (drop 10 label))
      then Some ActionsLinux else None)"

definition reg_error :: "jsnum message \<Rightarrow> jsnum exn" where
  "reg_error m = Exn FleetRegistryError m"

definition enrollment_label_for :: "hosted_sku \<Rightarrow> jsnum exn + string" where
  "enrollment_label_for sku =
     (if sku = ActionsLinux then Inr ''cirujano-baseline-actions_linux''
      else Inl (reg_error [Lit ''sku '', Lit (hosted_sku_str sku), Lit '' has no enrolled Cirujano label'']))"

definition required_self_hosted_labels :: "string \<Rightarrow> string list" where
  "required_self_hosted_labels label = [''self-hosted'', ''linux'', ''x64'', label]"

definition switch_variable_for :: "string \<Rightarrow> jsnum exn + string" where
  "switch_variable_for ident =
     (if \<not> enrollment_handle ident
      then Inl (reg_error [Lit ''enrollment id '', Lit ident, Lit '' must look like P1''])
      else Inr (''CIRUJANO_RUNNER_'' @ ident))"

definition live :: "fleet_enrollment \<Rightarrow> bool" where
  "live e \<longleftrightarrow> fe_status e \<noteq> Reverted"

definition find_active_enrollment ::
  "fleet_enrollment list \<Rightarrow> string \<Rightarrow> string \<Rightarrow> string \<Rightarrow> fleet_enrollment option" where
  "find_active_enrollment es repo path key =
     find (\<lambda>e. live e \<and> fe_repository e = repo \<and> workflowPath e = path \<and> jobKey e = key) es"

definition is_excluded_repository :: "fleet_exclusion list \<Rightarrow> string \<Rightarrow> bool" where
  "is_excluded_repository xs repo \<longleftrightarrow> (\<exists>x \<in> set xs. ex_repository x = repo)"

section \<open>The parser\<close>

definition registry_object :: "jsval \<Rightarrow> string list \<Rightarrow> jsnum message \<Rightarrow> string list \<Rightarrow> jsnum exn + fields" where
  "registry_object v allowed name optional =
     rbind (require (as_obj v) (reg_error (name @ [Lit '' must be an object'']))) (\<lambda>kvs.
     rbind (reject (unknown_key kvs allowed) (\<lambda>k. reg_error (name @ [Lit '' contains unknown key '', Lit k]))) (\<lambda>_.
     rbind (reject (missing_key kvs (filter (\<lambda>k. k \<notin> set optional) allowed))
       (\<lambda>k. reg_error (name @ [Lit '' is missing '', Lit k]))) (\<lambda>_.
     Inr kvs)))"

definition registry_array :: "jsval \<Rightarrow> jsnum message \<Rightarrow> jsnum exn + jsval list" where
  "registry_array v name = require (as_arr v) (reg_error (name @ [Lit '' must be an array'']))"

definition registry_text :: "jsval \<Rightarrow> jsnum message \<Rightarrow> jsnum exn + string" where
  "registry_text v name =
     (case v of JStr s \<Rightarrow> if s = [] then Inl (reg_error (name @ [Lit '' must be a nonempty string''])) else Inr s
      | _ \<Rightarrow> Inl (reg_error (name @ [Lit '' must be a nonempty string''])))"

definition sub_index :: "jsnum message \<Rightarrow> nat \<Rightarrow> jsnum message" where
  "sub_index name i = name @ [Lit ''['', Num (Fin (of_nat i)), Lit '']'']"

definition registry_texts :: "jsval \<Rightarrow> jsnum message \<Rightarrow> jsnum exn + string list" where
  "registry_texts v name =
     rbind (registry_array v name) (\<lambda>xs. rmapi (\<lambda>i x. registry_text x (sub_index name i)) 0 xs)"

definition registry_strings :: "jsval \<Rightarrow> jsnum message \<Rightarrow> jsnum exn + string list" where
  "registry_strings v name =
     rbind (registry_texts v name) (\<lambda>items.
     rbind (check (items \<noteq> []) (reg_error (name @ [Lit '' must not be empty'']))) (\<lambda>_. Inr items))"

definition registry_positive :: "jsval \<Rightarrow> jsnum message \<Rightarrow> jsnum exn + jsnum" where
  "registry_positive v name =
     (case v of
        JNum n \<Rightarrow> if is_integer n \<and> Fin 0 < n then Inr n
                  else Inl (reg_error (name @ [Lit '' must be a positive integer'']))
      | _ \<Rightarrow> Inl (reg_error (name @ [Lit '' must be a positive integer''])))"

definition registry_timestamp :: "(string \<Rightarrow> jsnum) \<Rightarrow> jsval \<Rightarrow> jsnum message \<Rightarrow> jsnum exn + string" where
  "registry_timestamp date_of v name =
     rbind (registry_text v name) (\<lambda>s.
     rbind (check (is_finite (date_of s)) (reg_error (name @ [Lit '' must be a timestamp'']))) (\<lambda>_. Inr s))"

definition registry_date :: "jsval \<Rightarrow> jsnum message \<Rightarrow> jsnum exn + string" where
  "registry_date v name =
     rbind (registry_text v name) (\<lambda>s.
     rbind (check (valid_date_only s) (reg_error (name @ [Lit '' must be a YYYY-MM-DD date'']))) (\<lambda>_. Inr s))"

definition parse_workflow_identity ::
  "(string \<Rightarrow> jsnum) \<Rightarrow> jsval \<Rightarrow> jsnum message \<Rightarrow> jsnum exn + workflow_identity" where
  "parse_workflow_identity date_of v name =
     (let field = (\<lambda>k. name @ [Lit (''.'' @ k)]) in
      rbind (registry_object v [''commit'', ''workflowBlobSha'', ''runsOn'', ''recordedAt''] name []) (\<lambda>kvs.
      rbind (registry_text (get_prop kvs ''commit'') (field ''commit'')) (\<lambda>commit.
      rbind (registry_text (get_prop kvs ''workflowBlobSha'') (field ''workflowBlobSha'')) (\<lambda>blob.
      rbind (check (is_sha commit \<and> is_sha blob)
        (reg_error (name @ [Lit '' requires 40-character commit and blob SHAs'']))) (\<lambda>_.
      rbind (registry_strings (get_prop kvs ''runsOn'') (field ''runsOn'')) (\<lambda>runsOn.
      rbind (registry_timestamp date_of (get_prop kvs ''recordedAt'') (field ''recordedAt'')) (\<lambda>recorded.
      Inr \<lparr>wi_commit = commit, workflowBlobSha = blob, wi_runsOn = runsOn, recordedAt = recorded\<rparr>)))))))"

definition parse_enrollment_controller :: "jsval \<Rightarrow> jsnum message \<Rightarrow> jsnum exn + enrollment_controller option" where
  "parse_enrollment_controller v name =
     (if v = JNull then Inr None
      else
      rbind (registry_object v [''stateDirectory'', ''controllerId'', ''resourcePrefix'', ''permitId'']
        (name @ [Lit ''.controller'']) []) (\<lambda>kvs.
      rbind (check (case get_prop kvs ''permitId'' of JNull \<Rightarrow> True | JStr s \<Rightarrow> s \<noteq> [] | _ \<Rightarrow> False)
        (reg_error (name @ [Lit ''.controller.permitId must be null or a nonempty string'']))) (\<lambda>_.
      rbind (registry_text (get_prop kvs ''stateDirectory'') (name @ [Lit ''.controller.stateDirectory''])) (\<lambda>dir.
      rbind (registry_text (get_prop kvs ''controllerId'') (name @ [Lit ''.controller.controllerId''])) (\<lambda>ctl.
      rbind (registry_text (get_prop kvs ''resourcePrefix'') (name @ [Lit ''.controller.resourcePrefix''])) (\<lambda>pre.
      Inr (Some \<lparr>stateDirectory = dir, ec_controllerId = ctl, ec_resourcePrefix = pre,
             ec_permitId = as_str (get_prop kvs ''permitId'')\<rparr>)))))))"

definition ENROLLMENT_KEYS :: "string list" where
  "ENROLLMENT_KEYS = [''id'', ''repository'', ''repositoryId'', ''workflowPath'', ''workflowId'', ''workflowName'',
     ''jobKey'', ''jobNames'', ''sku'', ''runnerLabel'', ''status'', ''before'', ''after'', ''controller'', ''notes'']"

definition optional_text :: "fields \<Rightarrow> string \<Rightarrow> jsnum message \<Rightarrow> jsnum exn + string option" where
  "optional_text kvs k name =
     (if get_prop kvs k = JUndef then Inr None
      else rbind (registry_text (get_prop kvs k) name) (\<lambda>s. Inr (Some s)))"

definition hosted_selection :: "string list \<Rightarrow> bool" where
  "hosted_selection labels \<longleftrightarrow> \<not> list_ex (\<lambda>l. prefix ''cirujano-'' l \<or> l = ''self-hosted'') labels"

definition label_fits :: "string \<Rightarrow> hosted_sku \<Rightarrow> string \<Rightarrow> bool" where
  "label_fits ident sku label \<longleftrightarrow>
     cirujano_sku_for_label label = Some sku
     \<and> (label = ''cirujano-baseline-'' @ hosted_sku_str sku
        \<or> label = ''cirujano-'' @ map to_lower ident @ ''-'' @ hosted_sku_str sku)"

definition sku_names :: "jsnum message" where
  "sku_names = [Lit ''actions_linux, actions_linux_arm, actions_windows, actions_macos'']"

definition parse_enrollment ::
  "(string \<Rightarrow> jsnum) \<Rightarrow> jsval \<Rightarrow> jsnum message \<Rightarrow> string \<Rightarrow> fleet_exclusion list \<Rightarrow> jsnum exn + fleet_enrollment" where
  "parse_enrollment date_of v name owner excluded =
     (let field = (\<lambda>k. name @ [Lit (''.'' @ k)]); fail = (\<lambda>k s. reg_error (name @ [Lit (''.'' @ k @ s)])) in
      rbind (registry_object v (ENROLLMENT_KEYS @ [''targetBranch'', ''routingSwitch'']) name
        [''targetBranch'', ''routingSwitch'']) (\<lambda>kvs.
      let str = (\<lambda>k. registry_text (get_prop kvs k) (field k)) in
      rbind (str ''id'') (\<lambda>ident.
      rbind (check (enrollment_handle ident) (fail ''id'' '' must look like P1'')) (\<lambda>_.
      rbind (str ''repository'') (\<lambda>repo.
      rbind (optional_text kvs ''targetBranch'' (field ''targetBranch'')) (\<lambda>branch.
      rbind (check (case branch of None \<Rightarrow> True | Some b \<Rightarrow> valid_git_branch_name b)
        (fail ''targetBranch'' '' must be a safe Git branch name'')) (\<lambda>_.
      rbind (check (repository_name repo) (fail ''repository'' '' must be owner/name'')) (\<lambda>_.
      rbind (check (prefix (owner @ ''/'') repo) (reg_error (field ''repository'' @ [Lit '' must belong to '', Lit owner]))) (\<lambda>_.
      rbind (check (\<not> is_excluded_repository excluded repo)
        (reg_error (field ''repository'' @ [Lit '' '', Lit repo, Lit '' is excluded from migration'']))) (\<lambda>_.
      rbind (require (case get_prop kvs ''sku'' of JStr s \<Rightarrow> of_str hosted_sku_str HOSTED_SKUS s | _ \<Rightarrow> None)
        (reg_error (field ''sku'' @ [Lit '' must be one of ''] @ sku_names))) (\<lambda>sku.
      rbind (str ''runnerLabel'') (\<lambda>label.
      rbind (check (label_fits ident sku label)
        (reg_error (field ''runnerLabel'' @ [Lit '' '', Lit label, Lit '' is not enrolled for sku '', Lit (hosted_sku_str sku)]))) (\<lambda>_.
      rbind (require (case get_prop kvs ''status'' of JStr s \<Rightarrow> of_str enrollment_status_str STATUSES s | _ \<Rightarrow> None)
        (fail ''status'' '' must be one of proposed, cut-over, reverted'')) (\<lambda>status.
      rbind (parse_workflow_identity date_of (get_prop kvs ''before'') (field ''before'')) (\<lambda>before.
      rbind (check (hosted_selection (wi_runsOn before)) (fail ''before'' ''.runsOn must be a hosted runner selection'')) (\<lambda>_.
      rbind (if get_prop kvs ''after'' = JNull then Inr None
             else rbind (parse_workflow_identity date_of (get_prop kvs ''after'') (field ''after'')) (\<lambda>a. Inr (Some a))) (\<lambda>after.
      rbind (check (status = Proposed \<longrightarrow> after = None)
        (reg_error [Lit ''proposed enrollment '', Lit ident, Lit '' must not carry an after record''])) (\<lambda>_.
      rbind (check (status \<noteq> Proposed \<longrightarrow> after \<noteq> None)
        (reg_error [Lit (enrollment_status_str status), Lit '' enrollment '', Lit ident, Lit '' requires an after record''])) (\<lambda>_.
      rbind (optional_text kvs ''routingSwitch'' (field ''routingSwitch'')) (\<lambda>switch.
      rbind (check (switch \<noteq> None \<longrightarrow> status \<noteq> Proposed)
        (reg_error [Lit ''proposed enrollment '', Lit ident, Lit '' must not carry a routing switch''])) (\<lambda>_.
      rbind (switch_variable_for ident) (\<lambda>expected.
      rbind (check (switch = None \<or> switch = Some expected)
        (reg_error (field ''routingSwitch'' @ [Lit '' must be '', Lit expected]))) (\<lambda>_.
      rbind (check (case after of None \<Rightarrow> True | Some a \<Rightarrow> set (required_self_hosted_labels label) \<subseteq> set (wi_runsOn a))
        (reg_error (field ''after'' @ [Lit ''.runsOn must include self-hosted, linux, x64 and '', Lit label]))) (\<lambda>_.
      rbind (parse_enrollment_controller (get_prop kvs ''controller'') name) (\<lambda>ctl.
      rbind (registry_positive (get_prop kvs ''repositoryId'') (field ''repositoryId'')) (\<lambda>repoId.
      rbind (str ''workflowPath'') (\<lambda>path.
      rbind (registry_positive (get_prop kvs ''workflowId'') (field ''workflowId'')) (\<lambda>wfId.
      rbind (str ''workflowName'') (\<lambda>wfName.
      rbind (str ''jobKey'') (\<lambda>key.
      rbind (registry_strings (get_prop kvs ''jobNames'') (field ''jobNames'')) (\<lambda>names.
      rbind (registry_texts (get_prop kvs ''notes'') (field ''notes'')) (\<lambda>noted.
      Inr \<lparr>fe_id = ident, fe_repository = repo, fe_repositoryId = repoId, targetBranch = branch, workflowPath = path,
           fe_workflowId = wfId, workflowName = wfName, jobKey = key, jobNames = names, fe_sku = sku,
           fe_runnerLabel = label, fe_status = status, routingSwitch = switch, before = before, after = after,
           controller = ctl, fe_notes = noted\<rparr>))))))))))))))))))))))))))))))))"

definition parse_exclusion :: "nat \<Rightarrow> jsval \<Rightarrow> jsnum exn + fleet_exclusion" where
  "parse_exclusion i v =
     rbind (registry_object v [''repository'', ''reason'', ''lockedBy''] (at_index ''exclusions'' i []) []) (\<lambda>kvs.
     rbind (registry_text (get_prop kvs ''repository'') (at_index ''exclusions'' i ''.repository'')) (\<lambda>repo.
     rbind (check (repository_name repo) (reg_error (at_index ''exclusions'' i ''.repository must be owner/name''))) (\<lambda>_.
     rbind (registry_text (get_prop kvs ''reason'') (at_index ''exclusions'' i ''.reason'')) (\<lambda>reason.
     rbind (registry_text (get_prop kvs ''lockedBy'') (at_index ''exclusions'' i ''.lockedBy'')) (\<lambda>by_whom.
     Inr \<lparr>ex_repository = repo, ex_reason = reason, ex_lockedBy = by_whom\<rparr>)))))"

text \<open>One more enrollment after those already read: a new id, and among the live ones a new job and a new label.\<close>

definition add_enrollment :: "fleet_enrollment list \<Rightarrow> fleet_enrollment \<Rightarrow> jsnum exn + fleet_enrollment list" where
  "add_enrollment es e =
     rbind (check (\<forall>x \<in> set es. fe_id x \<noteq> fe_id e) (reg_error [Lit ''duplicate enrollment id '', Lit (fe_id e)])) (\<lambda>_.
     rbind (reject (if live e then find_active_enrollment es (fe_repository e) (workflowPath e) (jobKey e) else None)
       (\<lambda>x. reg_error [Lit (fe_repository e), Lit '' '', Lit (workflowPath e), Lit '' job '', Lit (jobKey e),
          Lit '' is already enrolled as '', Lit (fe_id x)])) (\<lambda>_.
     rbind (reject (if live e then find (\<lambda>x. live x \<and> fe_repository x = fe_repository e \<and> fe_runnerLabel x = fe_runnerLabel e) es
                    else None)
       (\<lambda>x. reg_error [Lit (fe_repository e), Lit '' runner label '', Lit (fe_runnerLabel e),
          Lit '' already belongs to '', Lit (fe_id x)])) (\<lambda>_.
     Inr (es @ [e]))))"

fun parse_enrollments ::
  "(string \<Rightarrow> jsnum) \<Rightarrow> string \<Rightarrow> fleet_exclusion list \<Rightarrow> nat \<Rightarrow> jsval list \<Rightarrow> fleet_enrollment list
     \<Rightarrow> jsnum exn + fleet_enrollment list" where
  "parse_enrollments date_of owner excluded i [] es = Inr es"
| "parse_enrollments date_of owner excluded i (v # vs) es =
     rbind (parse_enrollment date_of v (at_index ''enrollments'' i []) owner excluded) (\<lambda>e.
     rbind (add_enrollment es e) (\<lambda>es.
     parse_enrollments date_of owner excluded (Suc i) vs es))"

definition parse_fleet_registry :: "(string \<Rightarrow> jsnum) \<Rightarrow> jsval \<Rightarrow> jsnum exn + fleet_registry" where
  "parse_fleet_registry date_of v =
     rbind (registry_object v [''schemaVersion'', ''owner'', ''measurementWindow'', ''exclusions'', ''enrollments'']
       [Lit ''registry''] []) (\<lambda>kvs.
     rbind (check (get_prop kvs ''schemaVersion'' = JNum (Fin 1)) (reg_error [Lit ''registry schemaVersion must be 1''])) (\<lambda>_.
     rbind (registry_text (get_prop kvs ''owner'') [Lit ''owner'']) (\<lambda>owner.
     rbind (check (owner_name owner) (reg_error [Lit ''owner must be a GitHub login''])) (\<lambda>_.
     rbind (registry_object (get_prop kvs ''measurementWindow'') [''since'', ''through''] [Lit ''measurementWindow''] []) (\<lambda>window.
     rbind (registry_date (get_prop window ''since'') [Lit ''measurementWindow.since'']) (\<lambda>since.
     rbind (registry_date (get_prop window ''through'') [Lit ''measurementWindow.through'']) (\<lambda>through.
     rbind (check (\<not> str_less through since) (reg_error [Lit ''measurementWindow.since must not follow through''])) (\<lambda>_.
     rbind (registry_array (get_prop kvs ''exclusions'') [Lit ''exclusions'']) (\<lambda>raw.
     rbind (rmapi parse_exclusion 0 raw) (\<lambda>excluded.
     rbind (reject (find (\<lambda>l. l \<notin> set (map ex_repository excluded)) LOCKED_EXCLUSIONS)
       (\<lambda>l. reg_error [Lit ''locked exclusion '', Lit l, Lit '' is missing''])) (\<lambda>_.
     rbind (registry_array (get_prop kvs ''enrollments'') [Lit ''enrollments'']) (\<lambda>vs.
     rbind (parse_enrollments date_of owner excluded 0 vs []) (\<lambda>es.
     Inr \<lparr>fr_owner = owner, window_since = since, window_through = through, exclusions = excluded,
          enrollments = es\<rparr>)))))))))))))"

section \<open>Writing\<close>

definition json_opt :: "string \<Rightarrow> string option \<Rightarrow> fields" where
  "json_opt k x = (case x of None \<Rightarrow> [] | Some s \<Rightarrow> [(k, JStr s)])"

definition json_identity :: "workflow_identity \<Rightarrow> jsval" where
  "json_identity i = JObj [(''commit'', JStr (wi_commit i)), (''workflowBlobSha'', JStr (workflowBlobSha i)),
     (''runsOn'', JArr (map JStr (wi_runsOn i))), (''recordedAt'', JStr (recordedAt i))]"

definition json_enrollment :: "fleet_enrollment \<Rightarrow> jsval" where
  "json_enrollment e = JObj
     ([(''id'', JStr (fe_id e)), (''repository'', JStr (fe_repository e)), (''repositoryId'', JNum (fe_repositoryId e))]
      @ json_opt ''targetBranch'' (targetBranch e)
      @ [(''workflowPath'', JStr (workflowPath e)), (''workflowId'', JNum (fe_workflowId e)),
         (''workflowName'', JStr (workflowName e)), (''jobKey'', JStr (jobKey e)),
         (''jobNames'', JArr (map JStr (jobNames e))), (''sku'', JStr (hosted_sku_str (fe_sku e))),
         (''runnerLabel'', JStr (fe_runnerLabel e)), (''status'', JStr (enrollment_status_str (fe_status e)))]
      @ json_opt ''routingSwitch'' (routingSwitch e)
      @ [(''before'', json_identity (before e)),
         (''after'', case after e of None \<Rightarrow> JNull | Some a \<Rightarrow> json_identity a),
         (''controller'', case controller e of None \<Rightarrow> JNull
            | Some c \<Rightarrow> JObj [(''stateDirectory'', JStr (stateDirectory c)), (''controllerId'', JStr (ec_controllerId c)),
                (''resourcePrefix'', JStr (ec_resourcePrefix c)),
                (''permitId'', case ec_permitId c of None \<Rightarrow> JNull | Some s \<Rightarrow> JStr s)]),
         (''notes'', JArr (map JStr (fe_notes e)))])"

definition json_registry :: "fleet_registry \<Rightarrow> jsval" where
  "json_registry r = JObj
     [(''schemaVersion'', JNum (Fin 1)), (''owner'', JStr (fr_owner r)),
      (''measurementWindow'', JObj [(''since'', JStr (window_since r)), (''through'', JStr (window_through r))]),
      (''exclusions'', JArr (map (\<lambda>x. JObj [(''repository'', JStr (ex_repository x)), (''reason'', JStr (ex_reason x)),
         (''lockedBy'', JStr (ex_lockedBy x))]) (exclusions r))),
      (''enrollments'', JArr (map json_enrollment (enrollments r)))]"

text \<open>
  \<open>writeFleetRegistry\<close>: nothing is written that the parser would not read. \<open>persist\<close> is the write itself
  (a temporary file renamed into place), which may fail.
\<close>

definition write_fleet_registry ::
  "(string \<Rightarrow> jsnum) \<Rightarrow> (jsval \<Rightarrow> jsnum exn + unit) \<Rightarrow> fleet_registry \<Rightarrow> jsnum exn + unit" where
  "write_fleet_registry date_of persist r =
     rbind (parse_fleet_registry date_of (json_registry r)) (\<lambda>_. persist (json_registry r))"

end
