(* ===== verification/Registry_Properties.thy ===== *)
theory Registry_Properties
  imports Registry
begin

text \<open>
  What every registry the parser accepts satisfies, and that every registry that satisfies it is read
  back from its JSON as it was, so that nothing the fleet commands write is lost or refused.
\<close>

section \<open>Fields\<close>

lemma registry_text_iff: "registry_text v name = Inr s \<longleftrightarrow> v = JStr s \<and> s \<noteq> []"
  by (cases v) (auto simp: registry_text_def)

lemma registry_positive_iff: "registry_positive v name = Inr n \<longleftrightarrow> v = JNum n \<and> is_integer n \<and> Fin 0 < n"
  by (cases v) (auto simp: registry_positive_def)

lemma registry_array_iff: "registry_array v name = Inr xs \<longleftrightarrow> v = JArr xs"
  by (simp add: registry_array_def step_eq_Inr)

lemma rmapi_texts_iff:
  "rmapi (\<lambda>i x. registry_text x (sub_index name i)) i xs = Inr ss \<longleftrightarrow> xs = map JStr ss \<and> [] \<notin> set ss"
  by (induction xs arbitrary: i ss) (auto simp: rbind_eq_Inr registry_text_iff Cons_eq_map_conv)

lemma registry_texts_iff: "registry_texts v name = Inr ss \<longleftrightarrow> v = JArr (map JStr ss) \<and> [] \<notin> set ss"
  by (auto simp: registry_texts_def rbind_eq_Inr registry_array_iff rmapi_texts_iff)

lemma registry_strings_iff: "registry_strings v name = Inr ss \<longleftrightarrow> v = JArr (map JStr ss) \<and> [] \<notin> set ss \<and> ss \<noteq> []"
  by (auto simp: registry_strings_def rbind_eq_Inr registry_texts_iff step_eq_Inr)

lemma optional_text_iff:
  "optional_text kvs k name = Inr x \<longleftrightarrow>
     (case x of None \<Rightarrow> get_prop kvs k = JUndef | Some s \<Rightarrow> get_prop kvs k = JStr s \<and> s \<noteq> [])"
  by (cases x) (auto simp: optional_text_def rbind_eq_Inr registry_text_iff)

lemmas field_iffs = registry_text_iff registry_positive_iff registry_array_iff registry_texts_iff registry_strings_iff
  optional_text_iff

section \<open>Enrollments\<close>

definition identity_ok :: "(string \<Rightarrow> jsnum) \<Rightarrow> workflow_identity \<Rightarrow> bool" where
  "identity_ok date_of i \<longleftrightarrow> is_sha (wi_commit i) \<and> is_sha (workflowBlobSha i) \<and> wi_runsOn i \<noteq> []
     \<and> [] \<notin> set (wi_runsOn i) \<and> recordedAt i \<noteq> [] \<and> is_finite (date_of (recordedAt i))"

text \<open>What the fleet relies on in one enrollment, before the plain shape of its fields.\<close>

definition enrollment_ok :: "string \<Rightarrow> fleet_exclusion list \<Rightarrow> fleet_enrollment \<Rightarrow> bool" where
  "enrollment_ok owner excluded e \<longleftrightarrow>
     enrollment_handle (fe_id e)
     \<and> repository_name (fe_repository e) \<and> prefix (owner @ ''/'') (fe_repository e)
     \<and> \<not> is_excluded_repository excluded (fe_repository e)
     \<and> label_fits (fe_id e) (fe_sku e) (fe_runnerLabel e)
     \<and> hosted_selection (wi_runsOn (before e))
     \<and> (fe_status e = Proposed \<longleftrightarrow> after e = None)
     \<and> (\<forall>s. routingSwitch e = Some s \<longrightarrow> fe_status e \<noteq> Proposed \<and> s = ''CIRUJANO_RUNNER_'' @ fe_id e)
     \<and> (\<forall>a. after e = Some a \<longrightarrow> set (required_self_hosted_labels (fe_runnerLabel e)) \<subseteq> set (wi_runsOn a))"

definition enrollment_fields :: "(string \<Rightarrow> jsnum) \<Rightarrow> fleet_enrollment \<Rightarrow> bool" where
  "enrollment_fields date_of e \<longleftrightarrow>
     (\<forall>b. targetBranch e = Some b \<longrightarrow> b \<noteq> [] \<and> valid_git_branch_name b)
     \<and> is_integer (fe_repositoryId e) \<and> Fin 0 < fe_repositoryId e
     \<and> is_integer (fe_workflowId e) \<and> Fin 0 < fe_workflowId e
     \<and> workflowPath e \<noteq> [] \<and> workflowName e \<noteq> [] \<and> jobKey e \<noteq> []
     \<and> [] \<notin> set (jobNames e) \<and> jobNames e \<noteq> [] \<and> [] \<notin> set (fe_notes e)
     \<and> identity_ok date_of (before e) \<and> (\<forall>a. after e = Some a \<longrightarrow> identity_ok date_of a)
     \<and> (\<forall>c. controller e = Some c \<longrightarrow> stateDirectory c \<noteq> [] \<and> ec_controllerId c \<noteq> [] \<and> ec_resourcePrefix c \<noteq> []
              \<and> ec_permitId c \<noteq> Some [])"

lemma parse_workflow_identityD:
  "parse_workflow_identity date_of v name = Inr i \<Longrightarrow> identity_ok date_of i"
  unfolding parse_workflow_identity_def Let_def
  by (auto simp: rbind_eq_Inr step_eq_Inr field_iffs registry_timestamp_def identity_ok_def is_sha_def)

lemma switch_variable_for_iff:
  "switch_variable_for ident = Inr s \<longleftrightarrow> enrollment_handle ident \<and> s = ''CIRUJANO_RUNNER_'' @ ident"
  by (auto simp: switch_variable_for_def)

lemma permit_id_iff:
  "(case p of JNull \<Rightarrow> True | JStr s \<Rightarrow> s \<noteq> [] | _ \<Rightarrow> False) \<longleftrightarrow> p = JNull \<or> (\<exists>s. p = JStr s \<and> s \<noteq> [])"
  by (cases p) simp_all

lemma parse_enrollment_controllerD:
  "parse_enrollment_controller v name = Inr (Some c) \<Longrightarrow>
   stateDirectory c \<noteq> [] \<and> ec_controllerId c \<noteq> [] \<and> ec_resourcePrefix c \<noteq> [] \<and> ec_permitId c \<noteq> Some []"
  unfolding parse_enrollment_controller_def permit_id_iff
  by (auto simp: rbind_eq_Inr step_eq_Inr field_iffs split: if_split_asm)

lemma parse_enrollmentD:
  assumes "parse_enrollment date_of v name owner excluded = Inr e"
  shows "enrollment_ok owner excluded e \<and> enrollment_fields date_of e"
proof -
  obtain kvs ident repo branch sku label status bef aft switch expected ctl repoId path wfId wfName key names noted where
    e: "\<lparr>fe_id = ident, fe_repository = repo, fe_repositoryId = repoId, targetBranch = branch, workflowPath = path,
           fe_workflowId = wfId, workflowName = wfName, jobKey = key, jobNames = names, fe_sku = sku,
           fe_runnerLabel = label, fe_status = status, routingSwitch = switch, before = bef, after = aft,
           controller = ctl, fe_notes = noted\<rparr> = e"
    and ident: "enrollment_handle ident"
    and repo: "repository_name repo" "prefix (owner @ ''/'') repo" "\<not> is_excluded_repository excluded repo"
    and branch: "optional_text kvs ''targetBranch'' (name @ [Lit (''.'' @ ''targetBranch'')]) = Inr branch"
      "case branch of None \<Rightarrow> True | Some b \<Rightarrow> valid_git_branch_name b"
    and label: "label_fits ident sku label"
    and bef: "parse_workflow_identity date_of (get_prop kvs ''before'') (name @ [Lit (''.'' @ ''before'')]) = Inr bef"
      "hosted_selection (wi_runsOn bef)"
    and aft: "(if get_prop kvs ''after'' = JNull then Inr None
        else rbind (parse_workflow_identity date_of (get_prop kvs ''after'') (name @ [Lit (''.'' @ ''after'')]))
               (\<lambda>a. Inr (Some a))) = Inr aft"
      "status = Proposed \<longrightarrow> aft = None" "status \<noteq> Proposed \<longrightarrow> aft \<noteq> None"
      "case aft of None \<Rightarrow> True | Some a \<Rightarrow> set (required_self_hosted_labels label) \<subseteq> set (wi_runsOn a)"
    and switch: "switch \<noteq> None \<longrightarrow> status \<noteq> Proposed" "switch_variable_for ident = Inr expected"
      "switch = None \<or> switch = Some expected"
    and ctl: "parse_enrollment_controller (get_prop kvs ''controller'') name = Inr ctl"
    and ids: "registry_positive (get_prop kvs ''repositoryId'') (name @ [Lit (''.'' @ ''repositoryId'')]) = Inr repoId"
      "registry_positive (get_prop kvs ''workflowId'') (name @ [Lit (''.'' @ ''workflowId'')]) = Inr wfId"
    and texts: "registry_text (get_prop kvs ''workflowPath'') (name @ [Lit (''.'' @ ''workflowPath'')]) = Inr path"
      "registry_text (get_prop kvs ''workflowName'') (name @ [Lit (''.'' @ ''workflowName'')]) = Inr wfName"
      "registry_text (get_prop kvs ''jobKey'') (name @ [Lit (''.'' @ ''jobKey'')]) = Inr key"
      "registry_strings (get_prop kvs ''jobNames'') (name @ [Lit (''.'' @ ''jobNames'')]) = Inr names"
      "registry_texts (get_prop kvs ''notes'') (name @ [Lit (''.'' @ ''notes'')]) = Inr noted"
    using assms unfolding parse_enrollment_def Let_def rbind_eq_Inr [of "registry_object v _ name _"]
    unfolding rbind_eq_Inr [where ?'b = fleet_enrollment] step_eq_Inr sum.inject
    by (elim exE conjE) (rule that; assumption)
  have after: "status = Proposed \<longleftrightarrow> aft = None" "\<forall>a. aft = Some a \<longrightarrow> identity_ok date_of a"
    using aft parse_workflow_identityD by (auto simp: rbind_eq_Inr split: if_split_asm)
  have "enrollment_ok owner excluded e"
    using ident repo label bef(2) after(1) aft(4) switch
    by (auto simp: e [symmetric] enrollment_ok_def switch_variable_for_iff)
  moreover have "enrollment_fields date_of e"
    using branch parse_workflow_identityD [OF bef(1)] after(2) ids texts parse_enrollment_controllerD [of _ name] ctl
    by (auto simp: e [symmetric] enrollment_fields_def field_iffs)
  ultimately show ?thesis by simp
qed

section \<open>The whole registry\<close>

definition job_of :: "fleet_enrollment \<Rightarrow> string \<times> string \<times> string" where
  "job_of e = (fe_repository e, workflowPath e, jobKey e)"

definition label_of :: "fleet_enrollment \<Rightarrow> string \<times> string" where
  "label_of e = (fe_repository e, fe_runnerLabel e)"

definition enrolled_once :: "fleet_enrollment list \<Rightarrow> bool" where
  "enrolled_once es \<longleftrightarrow> distinct (map fe_id es) \<and> distinct (map job_of (filter live es))
     \<and> distinct (map label_of (filter live es))"

definition registry_ok :: "(string \<Rightarrow> jsnum) \<Rightarrow> fleet_registry \<Rightarrow> bool" where
  "registry_ok date_of r \<longleftrightarrow>
     owner_name (fr_owner r)
     \<and> valid_date_only (window_since r) \<and> valid_date_only (window_through r)
     \<and> \<not> str_less (window_through r) (window_since r)
     \<and> (\<forall>x \<in> set (exclusions r). repository_name (ex_repository x) \<and> ex_reason x \<noteq> [] \<and> ex_lockedBy x \<noteq> [])
     \<and> set LOCKED_EXCLUSIONS \<subseteq> ex_repository ` set (exclusions r)
     \<and> (\<forall>e \<in> set (enrollments r). enrollment_ok (fr_owner r) (exclusions r) e \<and> enrollment_fields date_of e)
     \<and> enrolled_once (enrollments r)"

lemma distinct_snoc: "distinct (map f (xs @ [x])) \<longleftrightarrow> distinct (map f xs) \<and> (\<forall>y \<in> set xs. f y \<noteq> f x)"
  by (simp add: image_iff) metis

lemma live_snoc: "filter live (es @ [e]) = (if live e then filter live es @ [e] else filter live es)"
  by simp

lemma add_enrollment_iff:
  assumes "enrolled_once es"
  shows "add_enrollment es e = Inr es' \<longleftrightarrow> es' = es @ [e] \<and> enrolled_once (es @ [e])"
proof -
  have "add_enrollment es e = Inr es' \<longleftrightarrow> es' = es @ [e] \<and> (\<forall>x \<in> set es. fe_id x \<noteq> fe_id e)
      \<and> (live e \<longrightarrow> (\<forall>x \<in> set (filter live es). job_of x \<noteq> job_of e) \<and> (\<forall>x \<in> set (filter live es). label_of x \<noteq> label_of e))"
    by (auto simp: add_enrollment_def rbind_eq_Inr step_eq_Inr find_active_enrollment_def find_None_iff job_of_def
        label_of_def)
  then show ?thesis using assms
    by (cases "live e") (simp_all only: enrolled_once_def live_snoc if_True if_False distinct_snoc simp_thms)
qed

lemma parse_enrollmentsD:
  assumes "parse_enrollments date_of owner excluded i vs es = Inr es'"
    and "enrolled_once es" "\<forall>e \<in> set es. enrollment_ok owner excluded e \<and> enrollment_fields date_of e"
  shows "enrolled_once es' \<and> (\<forall>e \<in> set es'. enrollment_ok owner excluded e \<and> enrollment_fields date_of e)"
  using assms
proof (induction vs arbitrary: i es)
  case (Cons v vs)
  then obtain e where e: "parse_enrollment date_of v (at_index ''enrollments'' i []) owner excluded = Inr e"
      "enrolled_once (es @ [e])" "parse_enrollments date_of owner excluded (Suc i) vs (es @ [e]) = Inr es'"
    by (auto simp: rbind_eq_Inr add_enrollment_iff)
  then show ?case using Cons.IH [OF e(3,2)] parse_enrollmentD [OF e(1)] Cons.prems(3) by auto
qed simp

lemma registry_date_iff: "registry_date v name = Inr s \<longleftrightarrow> v = JStr s \<and> s \<noteq> [] \<and> valid_date_only s"
  by (auto simp: registry_date_def rbind_eq_Inr field_iffs step_eq_Inr)

lemma parse_exclusionD:
  "parse_exclusion i v = Inr x \<Longrightarrow> repository_name (ex_repository x) \<and> ex_reason x \<noteq> [] \<and> ex_lockedBy x \<noteq> []"
  unfolding parse_exclusion_def by (auto simp: rbind_eq_Inr step_eq_Inr field_iffs)

lemma rmapi_InrD: "rmapi f i xs = Inr ys \<Longrightarrow> y \<in> set ys \<Longrightarrow> \<exists>j x. f j x = Inr y"
proof (induction xs arbitrary: i ys)
  case (Cons x xs)
  then obtain z zs where "ys = z # zs" "f i x = Inr z" "rmapi f (Suc i) xs = Inr zs" by (auto simp: rbind_eq_Inr)
  then show ?case using Cons by (cases "y = z") auto
qed simp

lemma parse_fleet_registryD:
  assumes "parse_fleet_registry date_of v = Inr r"
  shows "registry_ok date_of r"
proof -
  obtain window owner since through raw excluded vs es where
    r: "\<lparr>fr_owner = owner, window_since = since, window_through = through, exclusions = excluded, enrollments = es\<rparr> = r"
    and owner: "owner_name owner"
    and window: "registry_date (get_prop window ''since'') [Lit ''measurementWindow.since''] = Inr since"
      "registry_date (get_prop window ''through'') [Lit ''measurementWindow.through''] = Inr through"
      "\<not> str_less through since"
    and excluded: "rmapi parse_exclusion 0 raw = Inr excluded"
      "find (\<lambda>l. l \<notin> set (map ex_repository excluded)) LOCKED_EXCLUSIONS = None"
    and es: "parse_enrollments date_of owner excluded 0 vs [] = Inr es"
    using assms unfolding parse_fleet_registry_def rbind_eq_Inr step_eq_Inr sum.inject
    by (elim exE conjE) (rule that; assumption)
  have "enrolled_once es \<and> (\<forall>e \<in> set es. enrollment_ok owner excluded e \<and> enrollment_fields date_of e)"
    by (rule parse_enrollmentsD [OF es]) (simp_all add: enrolled_once_def)
  moreover have "\<forall>x \<in> set excluded. repository_name (ex_repository x) \<and> ex_reason x \<noteq> [] \<and> ex_lockedBy x \<noteq> []"
    using rmapi_InrD [OF excluded(1)] parse_exclusionD by blast
  moreover have "set LOCKED_EXCLUSIONS \<subseteq> ex_repository ` set excluded" using excluded(2) by (auto simp: find_None_iff)
  ultimately show ?thesis using owner window by (simp add: registry_ok_def r [symmetric] registry_date_iff)
qed

section \<open>Reading back what was written\<close>

lemma registry_object_value:
  "set (own_keys kvs) \<subseteq> set allowed \<Longrightarrow> set allowed - set optional \<subseteq> set (own_keys kvs) \<Longrightarrow>
   registry_object (JObj kvs) allowed name optional = Inr kvs"
  unfolding registry_object_def rbind_eq_Inr step_eq_Inr by (auto simp: unknown_key_None_iff missing_key_None_iff)

lemma text_value: "s \<noteq> [] \<Longrightarrow> registry_text (JStr s) name = Inr s"
  by (simp add: registry_text_def)

lemma strings_value: "[] \<notin> set ss \<Longrightarrow> ss \<noteq> [] \<Longrightarrow> registry_strings (JArr (map JStr ss)) name = Inr ss"
  by (simp add: registry_strings_iff)

lemma texts_value: "[] \<notin> set ss \<Longrightarrow> registry_texts (JArr (map JStr ss)) name = Inr ss"
  by (simp add: registry_texts_iff)

lemma positive_value: "is_integer n \<Longrightarrow> Fin 0 < n \<Longrightarrow> registry_positive (JNum n) name = Inr n"
  by (simp add: registry_positive_iff)

lemma is_sha_nonempty: "is_sha s \<Longrightarrow> s \<noteq> []"
  by (auto simp: is_sha_def)

lemma identity_value: "identity_ok date_of i \<Longrightarrow> parse_workflow_identity date_of (json_identity i) name = Inr i"
  by (simp add: parse_workflow_identity_def json_identity_def registry_object_value text_value strings_value
      registry_timestamp_def identity_ok_def is_sha_nonempty)

lemma json_identity_not_null: "json_identity i \<noteq> JNull"
  by (simp add: json_identity_def)

lemma controller_value:
  "(\<And>c. x = Some c \<Longrightarrow> stateDirectory c \<noteq> [] \<and> ec_controllerId c \<noteq> [] \<and> ec_resourcePrefix c \<noteq> [] \<and> ec_permitId c \<noteq> Some [])
   \<Longrightarrow> parse_enrollment_controller
     (case x of None \<Rightarrow> JNull
      | Some c \<Rightarrow> JObj [(''stateDirectory'', JStr (stateDirectory c)), (''controllerId'', JStr (ec_controllerId c)),
          (''resourcePrefix'', JStr (ec_resourcePrefix c)),
          (''permitId'', case ec_permitId c of None \<Rightarrow> JNull | Some s \<Rightarrow> JStr s)]) name = Inr x"
  by (cases x) (auto simp: parse_enrollment_controller_def registry_object_value text_value split: option.splits)

lemma optional_value: "x \<noteq> Some [] \<Longrightarrow> get_prop kvs k = (case x of None \<Rightarrow> JUndef | Some s \<Rightarrow> JStr s) \<Longrightarrow>
   optional_text kvs k name = Inr x"
  by (cases x) (simp_all add: optional_text_iff)

lemma of_str_values [simp]:
  "of_str hosted_sku_str HOSTED_SKUS (hosted_sku_str sku) = Some sku"
  "of_str enrollment_status_str STATUSES (enrollment_status_str st) = Some st"
  by (cases sku; simp add: of_str_def HOSTED_SKUS_def; fail)
    (cases st; simp add: of_str_def STATUSES_def; fail)

lemma get_prop_append: "get_prop (xs @ ys) k = (if has_own xs k then get_prop xs k else get_prop ys k)"
  by (induction xs) auto

lemma has_own_append: "has_own (xs @ ys) k \<longleftrightarrow> has_own xs k \<or> has_own ys k"
  by (induction xs) auto

lemma json_opt_props:
  "has_own (json_opt k x) k' \<longleftrightarrow> k' = k \<and> x \<noteq> None"
  "k' = k \<Longrightarrow> get_prop (json_opt k x) k' = (case x of None \<Rightarrow> JUndef | Some s \<Rightarrow> JStr s)"
  "k' \<noteq> k \<Longrightarrow> get_prop (json_opt k x) k' = JUndef"
  "set (own_keys (json_opt k x)) = (if x = None then {} else {k})"
  by (auto simp: json_opt_def split: option.splits)

lemma own_keys_append: "own_keys (xs @ ys) = own_keys xs @ own_keys ys"
  by (simp add: own_keys_def)

text \<open>The members of an enrollment's JSON, whether or not the optional ones are there.\<close>

lemma json_enrollment_fields:
  obtains kvs where "json_enrollment e = JObj kvs"
    "set (own_keys kvs) \<subseteq> set (ENROLLMENT_KEYS @ [''targetBranch'', ''routingSwitch''])"
    "set ENROLLMENT_KEYS \<subseteq> set (own_keys kvs)"
    "get_prop kvs ''id'' = JStr (fe_id e)" "get_prop kvs ''repository'' = JStr (fe_repository e)"
    "get_prop kvs ''repositoryId'' = JNum (fe_repositoryId e)"
    "get_prop kvs ''targetBranch'' = (case targetBranch e of None \<Rightarrow> JUndef | Some s \<Rightarrow> JStr s)"
    "get_prop kvs ''workflowPath'' = JStr (workflowPath e)" "get_prop kvs ''workflowId'' = JNum (fe_workflowId e)"
    "get_prop kvs ''workflowName'' = JStr (workflowName e)" "get_prop kvs ''jobKey'' = JStr (jobKey e)"
    "get_prop kvs ''jobNames'' = JArr (map JStr (jobNames e))" "get_prop kvs ''sku'' = JStr (hosted_sku_str (fe_sku e))"
    "get_prop kvs ''runnerLabel'' = JStr (fe_runnerLabel e)"
    "get_prop kvs ''status'' = JStr (enrollment_status_str (fe_status e))"
    "get_prop kvs ''routingSwitch'' = (case routingSwitch e of None \<Rightarrow> JUndef | Some s \<Rightarrow> JStr s)"
    "get_prop kvs ''before'' = json_identity (before e)"
    "get_prop kvs ''after'' = (case after e of None \<Rightarrow> JNull | Some a \<Rightarrow> json_identity a)"
    "get_prop kvs ''controller'' = (case controller e of None \<Rightarrow> JNull
       | Some c \<Rightarrow> JObj [(''stateDirectory'', JStr (stateDirectory c)), (''controllerId'', JStr (ec_controllerId c)),
           (''resourcePrefix'', JStr (ec_resourcePrefix c)),
           (''permitId'', case ec_permitId c of None \<Rightarrow> JNull | Some s \<Rightarrow> JStr s)])"
    "get_prop kvs ''notes'' = JArr (map JStr (fe_notes e))"
proof -
  obtain kvs where kvs: "json_enrollment e = JObj kvs" by (simp add: json_enrollment_def)
  note k = kvs [unfolded json_enrollment_def jsval.inject, symmetric]
  show ?thesis
    by (rule that [OF kvs]) (simp_all add: k get_prop_append has_own_append json_opt_props own_keys_append
        ENROLLMENT_KEYS_def)
qed

lemma enrollment_value:
  assumes ok: "enrollment_ok owner excluded e" and f: "enrollment_fields date_of e"
  shows "parse_enrollment date_of (json_enrollment e) name owner excluded = Inr e"
proof -
  obtain kvs where kvs: "json_enrollment e = JObj kvs" and keys: "set (own_keys kvs) \<subseteq> set (ENROLLMENT_KEYS @ [''targetBranch'', ''routingSwitch''])"
    "set ENROLLMENT_KEYS \<subseteq> set (own_keys kvs)"
    and p [simp]: "get_prop kvs ''id'' = JStr (fe_id e)" "get_prop kvs ''repository'' = JStr (fe_repository e)"
    "get_prop kvs ''repositoryId'' = JNum (fe_repositoryId e)"
    "get_prop kvs ''workflowPath'' = JStr (workflowPath e)" "get_prop kvs ''workflowId'' = JNum (fe_workflowId e)"
    "get_prop kvs ''workflowName'' = JStr (workflowName e)" "get_prop kvs ''jobKey'' = JStr (jobKey e)"
    "get_prop kvs ''jobNames'' = JArr (map JStr (jobNames e))" "get_prop kvs ''sku'' = JStr (hosted_sku_str (fe_sku e))"
    "get_prop kvs ''runnerLabel'' = JStr (fe_runnerLabel e)"
    "get_prop kvs ''status'' = JStr (enrollment_status_str (fe_status e))"
    "get_prop kvs ''before'' = json_identity (before e)"
    "get_prop kvs ''notes'' = JArr (map JStr (fe_notes e))"
    and o: "get_prop kvs ''targetBranch'' = (case targetBranch e of None \<Rightarrow> JUndef | Some s \<Rightarrow> JStr s)"
    "get_prop kvs ''routingSwitch'' = (case routingSwitch e of None \<Rightarrow> JUndef | Some s \<Rightarrow> JStr s)"
    and aft: "get_prop kvs ''after'' = (case after e of None \<Rightarrow> JNull | Some a \<Rightarrow> json_identity a)"
    and ctl: "get_prop kvs ''controller'' = (case controller e of None \<Rightarrow> JNull
       | Some c \<Rightarrow> JObj [(''stateDirectory'', JStr (stateDirectory c)), (''controllerId'', JStr (ec_controllerId c)),
           (''resourcePrefix'', JStr (ec_resourcePrefix c)),
           (''permitId'', case ec_permitId c of None \<Rightarrow> JNull | Some s \<Rightarrow> JStr s)])"
    by (rule json_enrollment_fields)
  have id: "enrollment_handle (fe_id e)" "fe_id e \<noteq> []" "fe_repository e \<noteq> []" "fe_runnerLabel e \<noteq> []"
    using ok by (auto simp: enrollment_ok_def enrollment_handle_def handle_digits_def repository_name_def label_fits_def)
  have obj: "registry_object (JObj kvs) (ENROLLMENT_KEYS @ [''targetBranch'', ''routingSwitch'']) name
      [''targetBranch'', ''routingSwitch''] = Inr kvs"
    using keys by (intro registry_object_value) auto
  have branch: "optional_text kvs ''targetBranch'' m = Inr (targetBranch e)" for m
    using f o(1) by (intro optional_value) (auto simp: enrollment_fields_def)
  have switch: "optional_text kvs ''routingSwitch'' m = Inr (routingSwitch e)" for m
    using ok o(2) by (intro optional_value) (auto simp: enrollment_ok_def)
  have bef: "parse_workflow_identity date_of (json_identity (before e)) m = Inr (before e)" for m
    using f by (simp add: identity_value enrollment_fields_def)
  have after: "(if get_prop kvs ''after'' = JNull then Inr None
      else rbind (parse_workflow_identity date_of (get_prop kvs ''after'') m) (\<lambda>a. Inr (Some a))) = Inr (after e)" for m
    using f aft by (cases "after e") (simp_all add: identity_value enrollment_fields_def json_identity_not_null)
  have control: "parse_enrollment_controller (get_prop kvs ''controller'') m = Inr (controller e)" for m
    unfolding ctl by (rule controller_value) (use f in \<open>auto simp: enrollment_fields_def\<close>)
  have sw: "switch_variable_for (fe_id e) = Inr (''CIRUJANO_RUNNER_'' @ fe_id e)"
    using id(1) by (simp add: switch_variable_for_def)
  have checks: "case targetBranch e of None \<Rightarrow> True | Some b \<Rightarrow> valid_git_branch_name b"
    "fe_status e = Proposed \<longrightarrow> after e = None" "fe_status e \<noteq> Proposed \<longrightarrow> after e \<noteq> None"
    "routingSwitch e \<noteq> None \<longrightarrow> fe_status e \<noteq> Proposed"
    "case after e of None \<Rightarrow> True | Some a \<Rightarrow> set (required_self_hosted_labels (fe_runnerLabel e)) \<subseteq> set (wi_runsOn a)"
    using ok f by (auto simp: enrollment_ok_def enrollment_fields_def split: option.split)
  have own: "routingSwitch e = None \<or> routingSwitch e = Some (''CIRUJANO_RUNNER_'' @ fe_id e)"
    using ok unfolding enrollment_ok_def by (cases "routingSwitch e") blast+
  have passed: "check (case targetBranch e of None \<Rightarrow> True | Some b \<Rightarrow> valid_git_branch_name b) = check True"
    "check (fe_status e = Proposed \<longrightarrow> after e = None) = check True"
    "check (fe_status e \<noteq> Proposed \<longrightarrow> after e \<noteq> None) = check True"
    "check (routingSwitch e \<noteq> None \<longrightarrow> fe_status e \<noteq> Proposed) = check True"
    "check (routingSwitch e = None \<or> routingSwitch e = Some (''CIRUJANO_RUNNER_'' @ fe_id e)) = check True"
    "check (case after e of None \<Rightarrow> True | Some a \<Rightarrow> set (required_self_hosted_labels (fe_runnerLabel e)) \<subseteq> set (wi_runsOn a))
       = check True"
    using checks own by presburger+
  note fd = f [unfolded enrollment_fields_def]
  have okd: "repository_name (fe_repository e)" "prefix (owner @ ''/'') (fe_repository e)"
    "\<not> is_excluded_repository excluded (fe_repository e)" "label_fits (fe_id e) (fe_sku e) (fe_runnerLabel e)"
    "hosted_selection (wi_runsOn (before e))"
    using ok by (simp_all add: enrollment_ok_def)
  show ?thesis
    unfolding parse_enrollment_def Let_def kvs obj rbind.simps branch switch control after passed p
    using okd fd id
    by (simp only: text_value positive_value strings_value texts_value bef sw passed rbind.simps check_simps require_simps
        jsval.case of_str_values simp_thms) simp
qed

lemma exclusions_value:
  "(\<And>x. x \<in> set xs \<Longrightarrow> repository_name (ex_repository x) \<and> ex_reason x \<noteq> [] \<and> ex_lockedBy x \<noteq> []) \<Longrightarrow>
   rmapi parse_exclusion i (map (\<lambda>x. JObj [(''repository'', JStr (ex_repository x)), (''reason'', JStr (ex_reason x)),
     (''lockedBy'', JStr (ex_lockedBy x))]) xs) = Inr xs"
proof (induction xs arbitrary: i)
  case (Cons x xs)
  have "ex_repository x \<noteq> []" using Cons.prems [of x] by (auto simp: repository_name_def)
  then show ?case using Cons by (simp add: parse_exclusion_def registry_object_value text_value)
qed simp

lemma enrolled_once_prefix: "enrolled_once (es @ fs) \<Longrightarrow> enrolled_once es"
  by (simp add: enrolled_once_def)

lemma enrollments_value:
  assumes "\<forall>e \<in> set es. enrollment_ok owner excluded e \<and> enrollment_fields date_of e" and "enrolled_once (done @ es)"
  shows "parse_enrollments date_of owner excluded i (map json_enrollment es) done = Inr (done @ es)"
  using assms
proof (induction es arbitrary: i "done")
  case (Cons e es)
  have once: "enrolled_once done" "enrolled_once (done @ [e])"
    using Cons.prems(2) enrolled_once_prefix [of "done" "e # es"] enrolled_once_prefix [of "done @ [e]" es] by simp_all
  have "add_enrollment done e = Inr (done @ [e])" using add_enrollment_iff [OF once(1)] once(2) by blast
  then show ?case using Cons by (simp add: enrollment_value)
qed simp

lemma registry_value:
  assumes ok: "registry_ok date_of r"
  shows "parse_fleet_registry date_of (json_registry r) = Inr r"
proof -
  have nonempty: "fr_owner r \<noteq> []" "window_since r \<noteq> []" "window_through r \<noteq> []"
    using ok by (auto simp: registry_ok_def owner_name_def valid_date_only_def date_shape_def)
  have "find (\<lambda>l. l \<notin> set (map ex_repository (exclusions r))) LOCKED_EXCLUSIONS = None"
    using ok by (auto simp: registry_ok_def find_None_iff)
  moreover have "registry_date (JStr (window_since r)) m = Inr (window_since r)"
    "registry_date (JStr (window_through r)) m = Inr (window_through r)" for m
    using ok nonempty by (simp_all add: registry_date_iff registry_ok_def)
  moreover have "rmapi parse_exclusion 0 (map (\<lambda>x. JObj [(''repository'', JStr (ex_repository x)), (''reason'', JStr (ex_reason x)),
       (''lockedBy'', JStr (ex_lockedBy x))]) (exclusions r)) = Inr (exclusions r)"
    using ok by (intro exclusions_value) (auto simp: registry_ok_def)
  moreover have "parse_enrollments date_of (fr_owner r) (exclusions r) 0 (map json_enrollment (enrollments r)) [] = Inr (enrollments r)"
    using ok enrollments_value [of "enrollments r" "fr_owner r" "exclusions r" date_of "[]" 0] by (simp add: registry_ok_def)
  moreover have "owner_name (fr_owner r)" "\<not> str_less (window_through r) (window_since r)"
    using ok by (simp_all add: registry_ok_def)
  ultimately show ?thesis
    by (simp add: parse_fleet_registry_def json_registry_def registry_object_value registry_array_def text_value nonempty
        del: set_map)
qed

text \<open>
  C26 (invariant). Every registry the parser accepts is sound: no id twice; among the enrollments not
  reverted no job and no runner label of a repository twice; every enrollment is in a repository of the
  owner that is not excluded, runs on a label of its SKU, has an after record exactly when it was cut over
  or reverted, whose selection carries the runner label, and at most the switch variable of its own
  handle; and the locked exclusions are all there.
\<close>

theorem parsed_registry_ok:
  assumes "parse_fleet_registry date_of v = Inr r"
  shows "registry_ok date_of r"
  using assms by (rule parse_fleet_registryD)

text \<open>
  A registry is read back from its JSON as it is exactly when it is sound, and a sound
  registry is what \<open>writeFleetRegistry\<close> hands to the file system.
\<close>

theorem registry_roundtrip:
  "(parse_fleet_registry date_of (json_registry r) = Inr r \<longleftrightarrow> registry_ok date_of r)
   \<and> (registry_ok date_of r \<longrightarrow> write_fleet_registry date_of persist r = persist (json_registry r))"
  using registry_value parse_fleet_registryD by (auto simp: write_fleet_registry_def)

definition sample_sha :: string where "sample_sha = replicate 40 (CHR ''a'')"

definition sample_enrollment :: fleet_enrollment where
  "sample_enrollment = \<lparr>fe_id = ''P1'', fe_repository = ''acme/widgets'', fe_repositoryId = Fin 42, targetBranch = None,
     workflowPath = ''ci.yml'', fe_workflowId = Fin 7, workflowName = ''CI'', jobKey = ''verify'', jobNames = [''verify''],
     fe_sku = ActionsLinux, fe_runnerLabel = ''cirujano-baseline-actions_linux'', fe_status = CutOver,
     routingSwitch = Some ''CIRUJANO_RUNNER_P1'',
     before = \<lparr>wi_commit = sample_sha, workflowBlobSha = sample_sha, wi_runsOn = [''ubuntu-latest''], recordedAt = ''t''\<rparr>,
     after = Some \<lparr>wi_commit = sample_sha, workflowBlobSha = sample_sha,
       wi_runsOn = required_self_hosted_labels ''cirujano-baseline-actions_linux'', recordedAt = ''t''\<rparr>,
     controller = None, fe_notes = []\<rparr>"

definition sample_registry :: fleet_registry where
  "sample_registry = \<lparr>fr_owner = ''acme'', window_since = ''2026-01-01'', window_through = ''2026-02-01'',
     exclusions = map (\<lambda>r. \<lparr>ex_repository = r, ex_reason = ''locked'', ex_lockedBy = ''plan''\<rparr>) LOCKED_EXCLUSIONS,
     enrollments = [sample_enrollment]\<rparr>"

lemma sample_sha_ok: "is_sha sample_sha"
  by (simp add: is_sha_def sample_sha_def list_all_iff is_digit_def code_in_def)

lemmas shape_defs = is_alnum_def owner_name_def repository_name_def is_word_def is_upper_def is_digit_def code_in_def

lemma sample_enrollment_ok:
  "enrollment_ok ''acme'' (exclusions sample_registry) sample_enrollment \<and> enrollment_fields (\<lambda>_. Fin 0) sample_enrollment"
  using sample_sha_ok
  by (simp add: enrollment_ok_def enrollment_fields_def sample_enrollment_def identity_ok_def shape_defs
      enrollment_handle_def handle_digits_def label_fits_def cirujano_sku_for_label_def hosted_selection_def
      required_self_hosted_labels_def is_excluded_repository_def sample_registry_def LOCKED_EXCLUSIONS_def)

lemma sample_registry_ok: "registry_ok (\<lambda>_. Fin 0) sample_registry"
proof -
  have "valid_date_only ''2026-01-01''" "valid_date_only ''2026-02-01''"
    by (simp_all add: valid_date_only_def date_shape_def date_parts_def is_digit_def code_in_def digits_nat_def
        days_in_month_def leap_year_def)
  moreover have "owner_name ''acme''" by (simp add: shape_defs)
  moreover have "\<forall>x \<in> set (exclusions sample_registry). repository_name (ex_repository x) \<and> ex_reason x \<noteq> [] \<and> ex_lockedBy x \<noteq> []"
    by (simp add: sample_registry_def LOCKED_EXCLUSIONS_def shape_defs)
  moreover have "enrolled_once [sample_enrollment]" by (simp add: enrolled_once_def)
  ultimately show ?thesis
    using sample_enrollment_ok by (simp add: registry_ok_def) (simp add: sample_registry_def image_image)
qed

theorem registry_roundtrip_witness:
  "parse_fleet_registry (\<lambda>_. Fin 0) (json_registry sample_registry) = Inr sample_registry
   \<and> write_fleet_registry (\<lambda>_. Fin 0) (\<lambda>_. Inr ()) sample_registry = Inr ()"
  using registry_roundtrip [of "\<lambda>_. Fin 0" sample_registry "\<lambda>_. Inr ()"] sample_registry_ok by simp

theorem parsed_registry_ok_witness:
  "\<exists>r. parse_fleet_registry (\<lambda>_. Fin 0) (json_registry sample_registry) = Inr r \<and> registry_ok (\<lambda>_. Fin 0) r"
  using parsed_registry_ok [of "\<lambda>_. Fin 0" "json_registry sample_registry"] registry_value [OF sample_registry_ok] by blast

end
