(* ===== verification/Release.thy ===== *)
theory Release
  imports GithubClient Registry Routing Config ControllerState
begin

text \<open>
  Fleet health and the owner's release of one runner (\<open>fleet-health.ts\<close>), as computations on the state
  of the GitHub adapter: turning the routing switch off, finding the runs stranded on the runner's label,
  cancelling them and re-running their jobs on the hosted runner. Sleeping between polls changes no
  state; the clock of the world moves by itself.
\<close>

section \<open>Errors that are caught\<close>

text \<open>\<open>message\<close>: the text of an error.\<close>

fun exn_message :: "jsnum exn \<Rightarrow> jsnum message" where
  "exn_message (Exn _ m) = m"

text \<open>\<open>complete\<close>: the items of a complete collection.\<close>

definition complete_items :: "'a collection \<Rightarrow> jsnum exn + 'a list" where
  "complete_items col =
     (if col_complete col then Inr (col_items col)
      else Inl (plain_error (case col_reason col of None \<Rightarrow> [Lit ''GitHub collection is incomplete''] | Some m \<Rightarrow> m)))"

section \<open>Cancelling and re-running\<close>

record cancel_outcome =
  cancelled :: "jsnum list"
  alreadyCompleted :: "jsnum list"
  rerun :: "jsnum list"
  notRerun :: "jsnum list"
  stillActive :: "jsnum list option"
  failedCancels :: "(jsnum \<times> jsnum message) list"
  failedReruns :: "(jsnum \<times> jsnum message) list"

definition empty_outcome :: cancel_outcome where
  "empty_outcome = \<lparr>cancelled = [], alreadyCompleted = [], rerun = [], notRerun = [], stillActive = Some [],
     failedCancels = [], failedReruns = []\<rparr>"

definition cancel_outcome_clean :: "cancel_outcome \<Rightarrow> bool" where
  "cancel_outcome_clean out \<longleftrightarrow>
     stillActive out = Some [] \<and> notRerun out = [] \<and> failedReruns out = [] \<and> failedCancels out = []"

fun cancel_runs :: "gh_world \<Rightarrow> string \<Rightarrow> string \<Rightarrow> jsnum list \<Rightarrow> cancel_outcome \<Rightarrow> cancel_outcome gh" where
  "cancel_runs w owner name [] out = run_return (Inr out)"
| "cancel_runs w owner name (r # rs) out =
     run_bind (run_try (force_cancel_run w owner name r)) (\<lambda>res.
     cancel_runs w owner name rs
       (case res of
          Inr True \<Rightarrow> out\<lparr>cancelled := cancelled out @ [r]\<rparr>
        | Inr False \<Rightarrow> out\<lparr>alreadyCompleted := alreadyCompleted out @ [r]\<rparr>
        | Inl e \<Rightarrow> out\<lparr>failedCancels := failedCancels out @ [(r, exn_message e)]\<rparr>))"

text \<open>The runs still active after at most \<open>attempts\<close> polls; none when there was no poll at all.\<close>

fun poll_active :: "gh_world \<Rightarrow> string \<Rightarrow> string \<Rightarrow> jsnum list \<Rightarrow> nat \<Rightarrow> jsnum list \<Rightarrow> jsnum list gh" where
  "poll_active w owner name runs 0 active = run_return (Inr active)"
| "poll_active w owner name runs (Suc attempts) active =
     run_bind (list_active_runs w owner name) (\<lambda>col.
     run_bind (run_return (complete_items col)) (\<lambda>items.
     let active = filter (\<lambda>r. r \<in> set (map run_id items)) runs in
     if active = [] then run_return (Inr []) else poll_active w owner name runs attempts active))"

fun rerun_first_jobs ::
  "gh_world \<Rightarrow> string \<Rightarrow> string \<Rightarrow> (jsnum, jsnum list) jsmap \<Rightarrow> jsnum list \<Rightarrow> cancel_outcome \<Rightarrow> cancel_outcome gh" where
  "rerun_first_jobs w owner name jobs [] out = run_return (Inr out)"
| "rerun_first_jobs w owner name jobs (r # rs) out =
     (case (case map_get jobs r of None \<Rightarrow> [] | Some js \<Rightarrow> js) of
        [] \<Rightarrow> rerun_first_jobs w owner name jobs rs out
      | j # rest \<Rightarrow>
          let out = out\<lparr>notRerun := notRerun out @ rest\<rparr> in
          run_bind (run_try (rerun_job w owner name j)) (\<lambda>res.
          rerun_first_jobs w owner name jobs rs
            (case res of
               Inr _ \<Rightarrow> out\<lparr>rerun := rerun out @ [j]\<rparr>
             | Inl e \<Rightarrow> out\<lparr>failedReruns := failedReruns out @ [(j, exn_message e)]\<rparr>)))"

definition cancel_and_rerun ::
  "gh_world \<Rightarrow> string \<Rightarrow> string \<Rightarrow> jsnum list \<Rightarrow> (jsnum, jsnum list) jsmap \<Rightarrow> nat \<Rightarrow> cancel_outcome gh" where
  "cancel_and_rerun w owner name runs jobs attempts =
     run_bind (cancel_runs w owner name runs empty_outcome) (\<lambda>out.
     if cancelled out = [] then run_return (Inr out)
     else
     run_bind (run_try (poll_active w owner name (cancelled out) attempts [])) (\<lambda>res.
     case res of
       Inl _ \<Rightarrow> run_return (Inr (out\<lparr>stillActive := None\<rparr>))
     | Inr active \<Rightarrow>
         rerun_first_jobs w owner name jobs (filter (\<lambda>r. r \<notin> set active) (cancelled out))
           (out\<lparr>stillActive := Some active\<rparr>)))"

section \<open>Stranded runs\<close>

fun jobs_of_runs :: "gh_world \<Rightarrow> string \<Rightarrow> string \<Rightarrow> workflow_run list \<Rightarrow> workflow_job list \<Rightarrow> workflow_job list gh" where
  "jobs_of_runs w owner name [] jobs = run_return (Inr jobs)"
| "jobs_of_runs w owner name (r # rs) jobs =
     run_bind (list_jobs w owner name (run_id r) (run_attempt r)) (\<lambda>col.
     run_bind (run_return (complete_items col)) (\<lambda>js.
     jobs_of_runs w owner name rs (jobs @ js)))"

definition stranded_runs :: "gh_world \<Rightarrow> string \<Rightarrow> string \<Rightarrow> jsnum list \<Rightarrow> string \<Rightarrow> stranded_selection gh" where
  "stranded_runs w owner name wanted label =
     run_bind (list_active_runs w owner name) (\<lambda>col.
     run_bind (run_return (complete_items col)) (\<lambda>items.
     let runs = filter (\<lambda>r. includes_num wanted (workflowId r)) items in
     run_bind (jobs_of_runs w owner name runs []) (\<lambda>jobs.
     run_return (Inr (select_stranded_runs runs jobs label)))))"

definition split_repository :: "string \<Rightarrow> string \<times> string" where
  "split_repository s =
     (takeWhile (\<lambda>c. c \<noteq> CHR ''/'') s,
      takeWhile (\<lambda>c. c \<noteq> CHR ''/'') (tl (dropWhile (\<lambda>c. c \<noteq> CHR ''/'') s)))"

section \<open>Release\<close>

text \<open>At most two rounds of deleting the variable and reading it back: what the last delete found, and whether the switch is still on.\<close>

fun switch_off :: "gh_world \<Rightarrow> string \<Rightarrow> string \<Rightarrow> string \<Rightarrow> nat \<Rightarrow> bool \<Rightarrow> (bool \<times> bool) gh" where
  "switch_off w owner name var 0 deleted = run_return (Inr (deleted, True))"
| "switch_off w owner name var (Suc k) deleted =
     run_bind (delete_variable w owner name var) (\<lambda>deleted.
     run_bind (get_variable w owner name var) (\<lambda>state.
     if state = VarOn then switch_off w owner name var k deleted else run_return (Inr (deleted, False))))"

definition next_step :: "cancel_outcome \<Rightarrow> jsnum list \<Rightarrow> jsnum list \<Rightarrow> string \<Rightarrow> string" where
  "next_step out wait not_cancelled again =
     (let waiting_note = (if wait \<noteq> [] then ''; '' @ again @ '' once the runs still waiting on other jobs finish'' else []) in
      if not_cancelled \<noteq> [] then again @ '' to cancel the stranded runs and re-run their jobs on ubuntu-latest''
      else if (cancelled out \<noteq> [] \<and> \<not> cancel_outcome_clean out) \<or> failedCancels out \<noteq> []
      then ''push or dispatch a new run for the runs whose jobs were not re-run; with the switch off it runs on ubuntu-latest''
             @ (if failedCancels out \<noteq> [] then ''. '' @ again @ '' to retry the failed cancels'' else []) @ waiting_note
      else if rerun out \<noteq> [] then ''the stranded jobs were re-run on ubuntu-latest'' @ waiting_note
      else if wait \<noteq> [] then again @ '' once the runs still waiting on other jobs finish''
      else ''nothing is stranded; new runs use ubuntu-latest while the switch is off'')"

datatype release_report =
    StillOn
  | ScanFailed "jsnum message"
  | ReleaseDone cancel_outcome "jsnum list" "jsnum list" string

text \<open>The exit code of the command with what it prints and the registry it wrote, if it got that far.\<close>

record release_result =
  exit_code :: nat
  rr_report :: release_report
  rr_registry :: "fleet_registry option"

definition release_note :: "string \<Rightarrow> string \<Rightarrow> bool \<Rightarrow> string" where
  "release_note released_at var deleted =
     ''routing released at '' @ released_at @ '' by fleet release ('' @ var @ '' ''
       @ (if deleted then ''deleted'' else ''absent'') @ '')''"

definition note_release :: "string \<Rightarrow> string \<Rightarrow> fleet_registry \<Rightarrow> fleet_registry" where
  "note_release ident note r =
     r\<lparr>enrollments := map (\<lambda>e. if fe_id e = ident then e\<lparr>fe_notes := fe_notes e @ [note]\<rparr> else e) (enrollments r)\<rparr>"

text \<open>The enrollment to release and its switch variable.\<close>

definition releasable :: "fleet_registry \<Rightarrow> string \<Rightarrow> jsnum exn + fleet_enrollment \<times> string" where
  "releasable r ident =
     rbind (require (find (\<lambda>e. fe_id e = ident) (enrollments r))
       (plain_error [Lit ''enrollment '', Lit ident, Lit '' does not exist''])) (\<lambda>e.
     rbind (check (fe_status e = CutOver)
       (plain_error [Lit ''enrollment '', Lit ident, Lit '' is '', Lit (enrollment_status_str (fe_status e)), Lit '', not cut-over''])) (\<lambda>_.
     rbind (require (routingSwitch e)
       (plain_error [Lit ''enrollment '', Lit ident,
          Lit '' has no routing switch; its runner can only be released by a workflow push''])) (\<lambda>var.
     Inr (e, var))))"

definition release_command :: "string \<Rightarrow> string \<Rightarrow> string" where
  "release_command path ident = ''cirujano fleet release --registry '' @ path @ '' --id '' @ ident"

text \<open>\<open>write\<close> stands for \<open>write_fleet_registry\<close> on the registry's path, \<open>released_at\<close> for the time of the release.\<close>

definition fleet_release ::
  "gh_world \<Rightarrow> (fleet_registry \<Rightarrow> jsnum exn + unit) \<Rightarrow> string \<Rightarrow> fleet_registry \<Rightarrow> string \<Rightarrow> string \<Rightarrow> bool \<Rightarrow> nat
     \<Rightarrow> release_result gh" where
  "fleet_release w write released_at registry path ident cancel_stranded attempts =
     run_bind (run_return (releasable registry ident)) (\<lambda>(e, var).
     let (owner, name) = split_repository (fe_repository e) in
     run_bind (switch_off w owner name var 2 False) (\<lambda>(deleted, still_on).
     if still_on then run_return (Inr \<lparr>exit_code = 1, rr_report = StillOn, rr_registry = None\<rparr>)
     else
     let written = note_release ident (release_note released_at var deleted) registry;
         again = ''re-run '' @ release_command path ident @ '' --cancel-stranded'' in
     run_bind (run_return (write written)) (\<lambda>_.
     run_bind (run_try (stranded_runs w owner name [fe_workflowId e] (fe_runnerLabel e))) (\<lambda>scan.
     case scan of
       Inl err \<Rightarrow> run_return (Inr \<lparr>exit_code = 1, rr_report = ScanFailed (exn_message err), rr_registry = Some written\<rparr>)
     | Inr s \<Rightarrow>
         run_bind (if cancel_stranded then cancel_and_rerun w owner name (cancellable s) (strandedJobsByRun s) attempts
                  else cancel_and_rerun w owner name [] [] attempts) (\<lambda>out.
         let not_cancelled = (if cancel_stranded then [] else cancellable s);
             failed = (failedCancels out \<noteq> [] \<or> failedReruns out \<noteq> [] \<or> stillActive out = None) in
         run_return (Inr \<lparr>exit_code = (if failed then 1 else 0),
           rr_report = ReleaseDone out (waiting s) not_cancelled (next_step out (waiting s) not_cancelled again),
           rr_registry = Some written\<rparr>))))))"

section \<open>Health\<close>

datatype health_status = Serving | Expiring | NoAutoRelease | HealthUnserviceable | HealthReleased | Stranded | Ungated | HealthUnknown

datatype colour = Green | Amber | Red

record health_row =
  hr_id :: string
  hr_repository :: string
  hr_status :: health_status
  hr_colour :: colour
  hr_reason :: "jsnum message option"
  hr_switch :: "variable_state option"
  hr_serviceEnd :: "jsnum option"
  hr_stranded :: "(jsnum list \<times> jsnum list) option"
  hr_recovery :: "jsnum message option"

record controller_evidence =
  ev_permit :: "permit option"
  ev_permitError :: "jsnum message option"
  ev_timing :: timing_config
  ev_identity :: "identity_entry list"
  ev_startCount :: jsnum
  ev_cumulativeRuntimeMs :: jsnum
  ev_cumulativeCostUsd :: jsnum
  ev_projectedStartCostUsd :: jsnum

definition no_evidence :: "timing_config \<Rightarrow> controller_evidence" where
  "no_evidence t = \<lparr>ev_permit = None, ev_permitError = None, ev_timing = t, ev_identity = [], ev_startCount = Fin 0,
     ev_cumulativeRuntimeMs = Fin 0, ev_cumulativeCostUsd = Fin 0, ev_projectedStartCostUsd = Fin 0\<rparr>"

text \<open>A file that is read as JSON and parsed when it is there; \<open>readOptionalJson\<close> gives \<open>null\<close> for a missing one.\<close>

definition parse_optional :: "jsnum exn + jsval \<Rightarrow> (jsval \<Rightarrow> jsnum exn + 'a) \<Rightarrow> jsnum exn + 'a option" where
  "parse_optional raw parse =
     rbind raw (\<lambda>v. if v = JNull then Inr None else rbind (parse v) (\<lambda>x. Inr (Some x)))"

definition known_identity :: "(runner_config \<Rightarrow> string) \<Rightarrow> runner_config \<Rightarrow> identity_entry list" where
  "known_identity hash c =
     [IdConfigHash (hash c), IdRepositoryId (repo_id (repository c)), IdProjectId (nebius_projectId (nebius c)),
      IdControllerId (own_controllerId (config_ownership c)), IdResourcePrefix (own_resourcePrefix (config_ownership c))]"

text \<open>\<open>read dir file\<close> is \<open>readOptionalJson(join(dir, file))\<close>; \<open>hash\<close> is \<open>runnerConfigHash\<close>.\<close>

definition read_controller ::
  "(runner_config \<Rightarrow> string) \<Rightarrow> (string \<Rightarrow> string \<Rightarrow> jsnum exn + jsval) \<Rightarrow> fleet_enrollment \<Rightarrow> timing_config \<Rightarrow> jsnum
     \<Rightarrow> jsnum exn + controller_evidence" where
  "read_controller hash read e default_timing egress =
     (case controller e of
        None \<Rightarrow> Inr (no_evidence default_timing)
      | Some ctl \<Rightarrow>
          let dir = stateDirectory ctl;
              (p, perr) = (case parse_optional (read dir ''permit.json'') parse_permit of
                 Inl err \<Rightarrow> (None, Some (exn_message err)) | Inr p \<Rightarrow> (p, None)) in
          rbind (parse_optional (read dir ''config.json'') parse_runner_config) (\<lambda>config.
          rbind (parse_optional (read dir ''controller-state.json'') parse_controller_state) (\<lambda>state.
          Inr \<lparr>ev_permit = p, ev_permitError = perr,
               ev_timing = (case config of None \<Rightarrow> default_timing | Some c \<Rightarrow> timing c),
               ev_identity = (case config of None \<Rightarrow> [] | Some c \<Rightarrow> known_identity hash c),
               ev_startCount = (case state of None \<Rightarrow> Fin 0 | Some s \<Rightarrow> startCount (lifecycle s)),
               ev_cumulativeRuntimeMs = (case state of None \<Rightarrow> Fin 0 | Some s \<Rightarrow> cumulativeRuntimeMs (lifecycle s)),
               ev_cumulativeCostUsd = (case state of None \<Rightarrow> Fin 0 | Some s \<Rightarrow> cumulativeCostUsd (lifecycle s)),
               ev_projectedStartCostUsd = (case config of None \<Rightarrow> Fin 0
                 | Some c \<Rightarrow> projected_start_cost_usd c (Some egress))\<rparr>)))"

definition evidence_service :: "controller_evidence \<Rightarrow> jsnum \<Rightarrow> bool \<Rightarrow> service_input" where
  "evidence_service ev now private =
     \<lparr>sv_permit = ev_permit ev, sv_nowMs = now, sv_timing = ev_timing ev, sv_identity = ev_identity ev,
      sv_startCount = ev_startCount ev, sv_cumulativeRuntimeMs = ev_cumulativeRuntimeMs ev,
      sv_cumulativeCostUsd = ev_cumulativeCostUsd ev, sv_projectedStartCostUsd = ev_projectedStartCostUsd ev,
      sv_repositoryPrivate = private\<rparr>"

fun service_refusal_str :: "service_refusal \<Rightarrow> string" where
  "service_refusal_str RepositoryNotPrivate = ''repository-not-private''"
| "service_refusal_str PermitAbsent = ''permit-absent''"
| "service_refusal_str PermitIdentityMismatch = ''permit-identity-mismatch''"
| "service_refusal_str PermitOperationsMissing = ''permit-operations-missing''"
| "service_refusal_str PermitNotActive = ''permit-not-active''"
| "service_refusal_str PermitExpired = ''permit-expired''"
| "service_refusal_str StartsExhausted = ''starts-exhausted''"
| "service_refusal_str PastServiceEnd = ''past-service-end''"
| "service_refusal_str RuntimeExhausted = ''runtime-exhausted''"
| "service_refusal_str CostExhausted = ''cost-exhausted''"

fun assessed_end :: "service_assessment \<Rightarrow> jsnum option" where
  "assessed_end (Serviceable t) = Some t"
| "assessed_end (Unserviceable _ t) = t"

fun serves :: "service_assessment \<Rightarrow> bool" where
  "serves (Serviceable _) = True"
| "serves (Unserviceable _ _) = False"

text \<open>\<open>new Date(ms).toISOString()\<close> throws outside the dates of the platform.\<close>

definition printable_date :: "jsnum \<Rightarrow> bool" where
  "printable_date t \<longleftrightarrow> is_finite t \<and> t \<le> MAX_DATE_MS \<and> - MAX_DATE_MS \<le> t"

definition WARNING_MS :: jsnum where "WARNING_MS = Fin (7 * 24 * 60 * 60 * 1000)"

definition blank_row :: "fleet_enrollment \<Rightarrow> health_status \<Rightarrow> colour \<Rightarrow> health_row" where
  "blank_row e st col = \<lparr>hr_id = fe_id e, hr_repository = fe_repository e, hr_status = st, hr_colour = col,
     hr_reason = None, hr_switch = None, hr_serviceEnd = None, hr_stranded = None, hr_recovery = None\<rparr>"

text \<open>The row once everything is read: the switch, the controller's evidence or the error reading it, the
assessment, and the stranded runs when the switch does not route jobs to a runner that serves.\<close>

definition judged_row ::
  "fleet_enrollment \<Rightarrow> string \<Rightarrow> jsnum \<Rightarrow> controller_evidence \<Rightarrow> jsnum message option \<Rightarrow> variable_state
     \<Rightarrow> service_assessment \<Rightarrow> stranded_selection option \<Rightarrow> health_row" where
  "judged_row e path now ev ctl_error state assessment found =
     (let command = release_command path (fe_id e);
          recovery = (case found of None \<Rightarrow> command
            | Some s \<Rightarrow> if strandedJobs s \<noteq> [] then command @ '' --cancel-stranded'' else command);
          row = (\<lambda>st col. (blank_row e st col)\<lparr>hr_switch := Some state, hr_serviceEnd := assessed_end assessment,
             hr_stranded := map_option (\<lambda>s. (cancellable s, waiting s)) found\<rparr>);
          refuse = (\<lambda>reason. (row HealthUnserviceable Red)\<lparr>hr_reason := Some reason, hr_recovery := Some [Lit recovery]\<rparr>) in
      if state \<noteq> VarOn
      then (if recovery = command then row HealthReleased Green
            else (row Stranded Red)\<lparr>hr_recovery := Some [Lit recovery]\<rparr>)
      else case ctl_error of
        Some m \<Rightarrow> (row HealthUnserviceable Red)\<lparr>hr_reason := Some (Lit ''controller-state-unreadable: '' # m),
            hr_recovery := Some [Lit (''repair or archive the controller files in ''
              @ (case controller e of None \<Rightarrow> ''the controller directory'' | Some c \<Rightarrow> stateDirectory c)
              @ '', or run '' @ recovery)]\<rparr>
      | None \<Rightarrow>
      case ev_permitError ev of
        Some m \<Rightarrow> refuse (Lit ''permit-invalid: '' # m)
      | None \<Rightarrow>
      case assessment of
        Unserviceable r _ \<Rightarrow> refuse [Lit (service_refusal_str r)]
      | Serviceable end_ms \<Rightarrow>
          if end_ms - now \<le> WARNING_MS
          then (row Expiring Amber)\<lparr>hr_recovery := Some [Lit ''service ends '', IsoTime end_ms,
                  Lit (''; renew the permit or run '' @ command)]\<rparr>
          else if \<not> permits (ev_permit ev) OpReleaseRouting
          then (row NoAutoRelease Amber)\<lparr>hr_recovery := Some [Lit ''the controller cannot release this runner; reissue the permit with release-routing, or release by hand before '', IsoTime end_ms]\<rparr>
          else row Serving Green)"

text \<open>
  \<open>private\<close> is the answer of \<open>source.repository\<close>, read through another client at the same time as the
  variable; when both reads fail the row carries the error of the repository.
\<close>

definition observed_row ::
  "gh_world \<Rightarrow> fleet_enrollment \<Rightarrow> string \<Rightarrow> string \<Rightarrow> jsnum \<Rightarrow> (jsnum exn + bool) \<Rightarrow> controller_evidence
     \<Rightarrow> jsnum message option \<Rightarrow> health_row gh" where
  "observed_row w e var path now private ev ctl_error =
     (let (owner, name) = split_repository (fe_repository e) in
      run_bind (run_try (get_variable w owner name var)) (\<lambda>switch.
      run_bind (run_return private) (\<lambda>is_private.
      run_bind (run_return switch) (\<lambda>state.
      let assessment = assess_service (evidence_service ev now is_private) in
      run_bind (run_return (check (case assessed_end assessment of None \<Rightarrow> True | Some t \<Rightarrow> printable_date t)
        (Exn RangeError [Lit ''Invalid time value'']))) (\<lambda>_.
      if state = VarOn \<and> serves assessment \<and> ev_permitError ev = None
      then run_return (Inr (judged_row e path now ev ctl_error state assessment None))
      else run_bind (stranded_runs w owner name [fe_workflowId e] (fe_runnerLabel e)) (\<lambda>s.
           run_return (Inr (judged_row e path now ev ctl_error state assessment (Some s)))))))))"

definition health_row_of ::
  "gh_world \<Rightarrow> (runner_config \<Rightarrow> string) \<Rightarrow> (string \<Rightarrow> string \<Rightarrow> jsnum exn + jsval) \<Rightarrow> fleet_enrollment \<Rightarrow> string \<Rightarrow> jsnum
     \<Rightarrow> (jsnum exn + bool) \<Rightarrow> timing_config \<Rightarrow> jsnum \<Rightarrow> health_row gh" where
  "health_row_of w hash read e path now private default_timing egress =
     (case routingSwitch e of
        None \<Rightarrow> run_return (Inr ((blank_row e Ungated Red)\<lparr>hr_recovery :=
          Some [Lit (''generate the selection with cirujano fleet runs-on --registry '' @ path @ '' --id '' @ fe_id e)]\<rparr>))
      | Some var \<Rightarrow>
          let (ev, ctl_error) = (case read_controller hash read e default_timing egress of
                Inl err \<Rightarrow> (no_evidence default_timing, Some (exn_message err)) | Inr ev \<Rightarrow> (ev, None)) in
          run_bind (run_try (observed_row w e var path now private ev ctl_error)) (\<lambda>res.
          run_return (Inr (case res of
             Inr row \<Rightarrow> row
           | Inl err \<Rightarrow> (blank_row e HealthUnknown Red)\<lparr>hr_reason := Some (exn_message err),
               hr_recovery := Some (Lit ''retry; GitHub read incomplete: '' # exn_message err)\<rparr>))))"

definition report_colour :: "health_row list \<Rightarrow> colour" where
  "report_colour rows =
     (if \<exists>r \<in> set rows. hr_colour r = Red then Red
      else if \<exists>r \<in> set rows. hr_colour r = Amber then Amber else Green)"

text \<open>\<open>fleetHealth\<close>: a row for every enrollment that was cut over, each read through a client of its own.\<close>

definition fleet_health ::
  "(fleet_enrollment \<Rightarrow> health_row option) \<Rightarrow> fleet_registry \<Rightarrow> (colour \<times> health_row list) option" where
  "fleet_health row_of registry =
     (let rows = map row_of (filter (\<lambda>e. fe_status e = CutOver) (enrollments registry)) in
      if None \<in> set rows then None
      else let rows = map the rows in Some (report_colour rows, rows))"

end
