(* ===== verification/Release_Properties.thy ===== *)
theory Release_Properties
  imports Release Github_Properties Registry_Properties Samples "HOL-Library.Multiset"
begin

text \<open>
  What the fleet commands send to GitHub and when: health only reads; a release cancels and re-runs
  nothing before it has read the switch back as off, re-runs only jobs of runs it cancelled itself and
  saw finished, and accounts for every run and every stranded job.
\<close>

section \<open>The log of requests\<close>

lemma forget_log [simp]: "gc_log (forget k c) = gc_log c"
  by (simp add: forget_def)

lemma evict_log:
  assumes e: "evict bytes c = Some c'" shows "gc_log c' = gc_log c"
proof (rule evict.raw_induct [where P = "\<lambda>b c c'. gc_log c' = gc_log c", OF _ e])
  fix ev :: "int \<Rightarrow> gh_client \<Rightarrow> gh_client option" and b c c'
  assume IH: "\<And>b c c'. ev b c = Some c' \<Longrightarrow> gc_log c' = gc_log c"
    and run: "(if CACHE_ENTRY_LIMIT \<le> length (gc_cache c) \<or> CACHE_BYTE_LIMIT < gc_cacheBytes c + b
      then (case gc_cache c of [] \<Rightarrow> ev b c | (k, _) # _ \<Rightarrow> ev b (forget k c)) else Some c) = Some c'"
  show "gc_log c' = gc_log c"
  proof (cases "CACHE_ENTRY_LIMIT \<le> length (gc_cache c) \<or> CACHE_BYTE_LIMIT < gc_cacheBytes c + b")
    case True
    then show ?thesis using run IH [of b c c'] IH [of b _ c'] by (cases "gc_cache c") auto
  qed (use run in simp)
qed

lemma remember_log: "remember w k endpoint r c = Some c' \<Longrightarrow> gc_log c' = gc_log c"
  by (auto simp: remember_def Let_def split: if_split_asm option.split_asm dest!: evict_log)

lemma forget_endpoint_log [simp]: "gc_log (forget_endpoint endpoint c) = gc_log c"
proof -
  have "gc_log (foldl (\<lambda>c k. forget k c) c ks) = gc_log c" for ks by (induction ks arbitrary: c) auto
  then show ?thesis by (simp add: forget_endpoint_def)
qed

lemma clock_log [simp]:
  "gc_log (snd (tick_clock w c)) = gc_log c" "gc_log (snd (read_hold w c)) = gc_log c"
  "gc_log (hold_for now d m c) = gc_log c" "gc_log (observe_throttle w now h c) = gc_log c"
  "gc_log (observe_quota w h c) = gc_log c"
proof -
  show *: "gc_log (hold_for now d m c) = gc_log c" for now d m c
    by (simp add: hold_for_def Let_def split: option.split)
  then show "gc_log (observe_throttle w now h c) = gc_log c" for now c
    by (simp add: observe_throttle_def)
  then show "gc_log (observe_quota w h c) = gc_log c"
    by (simp add: observe_quota_def tick_clock_def Let_def *)
qed (simp_all add: tick_clock_def read_hold_def Let_def split: option.split)

lemma accept_response_log:
  "accept_response w meth endpoint k cached r c = Some (c', res) \<Longrightarrow> gc_log c' = gc_log c"
  by (auto simp: accept_response_def gh_fail_def Let_def split: if_split_asm option.split_asm dest!: remember_log)

lemma handle_result_log:
  "handle_result w meth endpoint acc k cached r c = Some (c', res) \<Longrightarrow> gc_log c' = gc_log c"
  by (auto simp: handle_result_def gh_fail_def Let_def split: if_split_asm sum.split_asm dest!: accept_response_log)

lemma gh_call_log:
  assumes "gh_call w meth endpoint params acc c = Some (c', res)"
  shows "\<exists>new. gc_log c' = gc_log c @ new \<and> (\<forall>x \<in> set new. req_method x = meth)"
proof -
  obtain hold c1 where h: "read_hold w c = (hold, c1)" by (cases "read_hold w c")
  then have "gc_log c1 = gc_log c" using clock_log(2) [of w c] by simp
  then show ?thesis using assms
    by (auto simp: gh_call_def h gh_fail_def Let_def split: if_split_asm option.split_asm sum.split_asm
        dest!: handle_result_log)
qed

text \<open>After the requests \<open>l\<close> only requests of the methods \<open>ms\<close> were sent.\<close>

definition sent_only :: "gh_request list \<Rightarrow> http_method set \<Rightarrow> gh_client \<Rightarrow> bool" where
  "sent_only l ms c \<longleftrightarrow> cache_ok c \<and> (\<exists>new. gc_log c = l @ new \<and> (\<forall>x \<in> set new. req_method x \<in> ms))"

lemma sent_only_start: "cache_ok c \<Longrightarrow> sent_only (gc_log c) ms c"
  by (simp add: sent_only_def)

interpretation sends: adapter_contract w "insert GET ms" "sent_only l (insert GET ms)" for w ms l
proof
  show "sent_only l (insert GET ms) (snd (tick_clock w c))" if "sent_only l (insert GET ms) c" for c
    using that cache_ok_cong [of "snd (tick_clock w c)" c] by (simp add: sent_only_def)
  show "sent_only l (insert GET ms) (snd (read_hold w c))" if "sent_only l (insert GET ms) c" for c
    using that cache_ok_cong [of "snd (read_hold w c)" c] by (simp add: sent_only_def)
  show "keeps (sent_only l (insert GET ms)) (gh_call w meth endpoint params acc)"
    if m: "meth \<in> insert GET ms" for meth endpoint params acc
    unfolding keeps_def
  proof (intro allI impI)
    fix c assume c: "sent_only l (insert GET ms) c"
    then obtain new where new: "gc_log c = l @ new" "\<forall>x \<in> set new. req_method x \<in> insert GET ms" "cache_ok c"
      by (auto simp: sent_only_def)
    obtain c' r where r: "gh_call w meth endpoint params acc c = Some (c', r)" "cache_ok c'"
      using keepsD [OF gh_call_ok new(3)] by blast
    obtain more where "gc_log c' = gc_log c @ more" "\<forall>x \<in> set more. req_method x = meth"
      using gh_call_log [OF r(1)] by blast
    then have "sent_only l (insert GET ms) c'"
      unfolding sent_only_def using r(2) new m by (intro conjI exI [of _ "new @ more"]) auto
    then show "\<exists>c' r. gh_call w meth endpoint params acc c = Some (c', r) \<and> sent_only l (insert GET ms) c'"
      using r(1) by blast
  qed
qed simp

section \<open>The fleet computations keep the adapter's contract\<close>

context adapter_contract
begin

lemma keeps_cancel_runs: "POST \<in> methods \<Longrightarrow> keeps good (cancel_runs w owner name runs out)"
  by (induction runs arbitrary: out) (auto intro!: keeps_bind keeps_try keeps_writes(2) keeps_return)

lemma keeps_poll_active: "keeps good (poll_active w owner name runs attempts active)"
  by (induction attempts arbitrary: active)
    (auto simp: Let_def intro!: keeps_bind keeps_reads(1) keeps_return)

lemma keeps_rerun_first_jobs: "POST \<in> methods \<Longrightarrow> keeps good (rerun_first_jobs w owner name jobs runs out)"
  by (induction runs arbitrary: out)
    (auto simp: Let_def split: list.split intro!: keeps_bind keeps_try keeps_writes(3) keeps_return)

lemma keeps_cancel_and_rerun: "POST \<in> methods \<Longrightarrow> keeps good (cancel_and_rerun w owner name runs jobs attempts)"
  unfolding cancel_and_rerun_def
  by (auto simp: split: sum.split
      intro!: keeps_bind keeps_try keeps_cancel_runs keeps_poll_active keeps_rerun_first_jobs keeps_return)

lemma keeps_jobs_of_runs: "keeps good (jobs_of_runs w owner name runs jobs)"
  by (induction runs arbitrary: jobs) (auto intro!: keeps_bind keeps_reads(3) keeps_return)

lemma keeps_stranded_runs: "keeps good (stranded_runs w owner name wanted label)"
  unfolding stranded_runs_def
  by (auto simp: Let_def intro!: keeps_bind keeps_reads(1) keeps_jobs_of_runs keeps_return)

lemma keeps_switch_off: "DELETE \<in> methods \<Longrightarrow> keeps good (switch_off w owner name var k deleted)"
  by (induction k arbitrary: deleted)
    (auto intro!: keeps_bind keeps_writes(1) keeps_reads(5) keeps_return)

lemma keeps_observed_row: "keeps good (observed_row w e var path now private ev ctl_error)"
  unfolding observed_row_def
  by (auto simp: Let_def split: prod.split
      intro!: keeps_bind keeps_try keeps_reads(5) keeps_stranded_runs keeps_return)

lemma keeps_health_row: "keeps good (health_row_of w hash read e path now private default_timing egress)"
  unfolding health_row_of_def
  by (auto simp: Let_def split: option.split prod.split intro!: keeps_bind keeps_try keeps_observed_row keeps_return)

end

section \<open>What is sent\<close>

lemma sent_only_trans:
  assumes "sent_only (gc_log c) ms c1" "sent_only (gc_log c1) ms c2"
  shows "sent_only (gc_log c) ms c2"
proof -
  obtain a b where "gc_log c1 = gc_log c @ a" "\<forall>x \<in> set a. req_method x \<in> ms"
      "gc_log c2 = gc_log c1 @ b" "\<forall>x \<in> set b. req_method x \<in> ms" "cache_ok c2"
    using assms by (auto simp: sent_only_def)
  then show ?thesis unfolding sent_only_def by (intro conjI exI [of _ "a @ b"]) auto
qed

text \<open>What a computation of the contract sends, from a state it ran in.\<close>

lemma keeps_sent:
  assumes "\<And>l. keeps (sent_only l ms) m" and "cache_ok c" and "m c = Some (c', r)"
  shows "sent_only (gc_log c) ms c'"
  using keepsD [OF assms(1) sent_only_start [OF assms(2)]] assms(3) by auto

lemma switch_off_read:
  "switch_off w owner name var k d c = Some (c', Inr (deleted, False)) \<Longrightarrow>
   \<exists>c1 state. get_variable w owner name var c1 = Some (c', Inr state) \<and> state \<noteq> VarOn"
  by (induction k arbitrary: d c) (auto simp: run_bind_Some split: if_split_asm)

section \<open>Health\<close>

lemma judged_row_green:
  assumes "hr_colour (judged_row e path now ev err state assessment found) = Green"
    "state \<noteq> VarOn \<Longrightarrow> found \<noteq> None"
  shows "(state \<noteq> VarOn \<and> (\<exists>s. found = Some s \<and> strandedJobs s = []))
    \<or> (state = VarOn \<and> err = None \<and> ev_permitError ev = None \<and> permits (ev_permit ev) OpReleaseRouting
       \<and> (\<exists>t. assessment = Serviceable t \<and> \<not> t - now \<le> WARNING_MS))"
  using assms
  by (auto simp: judged_row_def Let_def blank_row_def split: if_split_asm option.split_asm service_assessment.split_asm)

definition green_evidence :: "gh_world \<Rightarrow> fleet_enrollment \<Rightarrow> string \<Rightarrow> jsnum \<Rightarrow> bool \<Rightarrow> controller_evidence \<Rightarrow> bool" where
  "green_evidence w e var now private ev \<longleftrightarrow>
     (\<exists>c1 c2 state. get_variable w (fst (split_repository (fe_repository e))) (snd (split_repository (fe_repository e))) var c1
        = Some (c2, Inr state)
      \<and> (if state = VarOn
         then ev_permitError ev = None \<and> permits (ev_permit ev) OpReleaseRouting
              \<and> (\<exists>t. assess_service (evidence_service ev now private) = Serviceable t \<and> \<not> t - now \<le> WARNING_MS)
         else \<exists>c3 c4 s. stranded_runs w (fst (split_repository (fe_repository e))) (snd (split_repository (fe_repository e)))
                [fe_workflowId e] (fe_runnerLabel e) c3 = Some (c4, Inr s) \<and> strandedJobs s = []))"

lemma observed_row_judged:
  assumes "observed_row w e var path now private ev err c = Some (c', Inr row)"
  obtains c1 state p found where
    "get_variable w (fst (split_repository (fe_repository e))) (snd (split_repository (fe_repository e))) var c
       = Some (c1, Inr state)"
    "private = Inr p"
    "row = judged_row e path now ev err state (assess_service (evidence_service ev now p)) found"
    "found = None \<and> state = VarOn \<or> (\<exists>c3 c4 s. found = Some s
       \<and> stranded_runs w (fst (split_repository (fe_repository e))) (snd (split_repository (fe_repository e)))
           [fe_workflowId e] (fe_runnerLabel e) c3 = Some (c4, Inr s))"
  using assms unfolding observed_row_def split_beta Let_def
proof (elim run_bindE)
  let ?o = "fst (split_repository (fe_repository e))" and ?n = "snd (split_repository (fe_repository e))"
  fix c1 switch c2 p c3 state c4 u
  assume read: "run_try (get_variable w ?o ?n var) c = Some (c1, Inr switch)"
    and priv: "run_return private c1 = Some (c2, Inr p)"
    and switch: "run_return switch c2 = Some (c3, Inr state)"
    and last_step: "(if state = VarOn \<and> serves (assess_service (evidence_service ev now p)) \<and> ev_permitError ev = None
      then run_return (Inr (judged_row e path now ev err state (assess_service (evidence_service ev now p)) None))
      else run_bind (stranded_runs w ?o ?n [fe_workflowId e] (fe_runnerLabel e))
             (\<lambda>s. run_return (Inr (judged_row e path now ev err state (assess_service (evidence_service ev now p)) (Some s))))) c4
      = Some (c', Inr row)"
  have g: "get_variable w ?o ?n var c = Some (c1, Inr state)" "private = Inr p"
    using read priv switch by (auto simp: run_try_Some)
  show thesis
  proof (cases "state = VarOn \<and> serves (assess_service (evidence_service ev now p)) \<and> ev_permitError ev = None")
    case True
    then show thesis using last_step that [OF g, of None] by simp
  next
    case False
    then obtain c5 s where "stranded_runs w ?o ?n [fe_workflowId e] (fe_runnerLabel e) c4 = Some (c5, Inr s)"
        "row = judged_row e path now ev err state (assess_service (evidence_service ev now p)) (Some s)"
      using last_step by (simp only: if_False) (auto elim: run_bindE)
    then show thesis using that [OF g, of "Some s"] by blast
  qed
qed

lemma observed_row_green:
  assumes "observed_row w e var path now private ev err c = Some (c', Inr row)" "hr_colour row = Green"
  shows "\<exists>p. private = Inr p \<and> green_evidence w e var now p ev"
proof -
  obtain c1 state p found where g: "get_variable w (fst (split_repository (fe_repository e)))
      (snd (split_repository (fe_repository e))) var c = Some (c1, Inr state)" "private = Inr p"
    and row: "row = judged_row e path now ev err state (assess_service (evidence_service ev now p)) found"
    and f: "found = None \<and> state = VarOn \<or> (\<exists>c3 c4 s. found = Some s
       \<and> stranded_runs w (fst (split_repository (fe_repository e))) (snd (split_repository (fe_repository e)))
           [fe_workflowId e] (fe_runnerLabel e) c3 = Some (c4, Inr s))"
    by (rule observed_row_judged [OF assms(1)])
  have "green_evidence w e var now p ev"
    unfolding green_evidence_def
    using g(1) judged_row_green [OF assms(2) [unfolded row]] f
    by (intro exI [of _ c] exI [of _ c1] exI [of _ state] conjI) auto
  then show ?thesis using g(2) by blast
qed

text \<open>
  Checking the health of an enrollment returns a row whatever GitHub answers and whatever
  the controller's files hold, and sends nothing but reads. An error is never shown green: a row is green
  only when the switch was read, and then either it is not on and no job is stranded, or it is on, the
  permit was readable and the runner is serviceable for more than a week by a permit that may release it.
\<close>

theorem health_reads_only:
  assumes "cache_ok c"
  shows "\<exists>c' row. health_row_of w hash read e path now private dt egress c = Some (c', Inr row)
    \<and> sent_only (gc_log c) {GET} c'
    \<and> (hr_colour row = Green \<longrightarrow> (\<exists>var p ev. routingSwitch e = Some var \<and> private = Inr p
         \<and> green_evidence w e var now p ev
         \<and> (read_controller hash read e dt egress = Inr ev \<or> ev = no_evidence dt)))"
proof -
  have k: "keeps (sent_only l {GET}) (health_row_of w hash read e path now private dt egress)" for l
    using sends.keeps_health_row [of l "{}"] by simp
  obtain c' r where r: "health_row_of w hash read e path now private dt egress c = Some (c', r)"
      "sent_only (gc_log c) {GET} c'"
    using keepsD [OF k sent_only_start [OF assms]] by blast
  show ?thesis
  proof (cases "routingSwitch e")
    case None
    then show ?thesis using r by (auto simp: health_row_of_def blank_row_def)
  next
    case (Some var)
    obtain ev err where ev: "(case read_controller hash read e dt egress of
        Inl x \<Rightarrow> (no_evidence dt, Some (exn_message x)) | Inr ev \<Rightarrow> (ev, None)) = (ev, err)"
      and known: "read_controller hash read e dt egress = Inr ev \<or> ev = no_evidence dt"
      by (cases "read_controller hash read e dt egress") auto
    obtain res where o: "observed_row w e var path now private ev err c = Some (c', res)"
      and row: "r = Inr (case res of Inr row \<Rightarrow> row
         | Inl x \<Rightarrow> (blank_row e HealthUnknown Red)\<lparr>hr_reason := Some (exn_message x),
             hr_recovery := Some (Lit ''retry; GitHub read incomplete: '' # exn_message x)\<rparr>)"
      using r(1) by (auto simp: health_row_of_def Some ev run_bind_Some run_try_Some)
    show ?thesis
    proof (cases res)
      case (Inl x)
      then show ?thesis using r row by (auto simp: blank_row_def)
    next
      case (Inr b)
      have "hr_colour b = Green \<Longrightarrow> \<exists>p. private = Inr p \<and> green_evidence w e var now p ev"
        using observed_row_green [of w e var path now "private" ev err c c' b] o Inr by simp
      then show ?thesis using r row known Some Inr by (simp only: sum.case sum.inject) blast
    qed
  qed
qed

section \<open>Release\<close>

definition no_post :: "gh_request list \<Rightarrow> bool" where
  "no_post rs \<longleftrightarrow> (\<forall>x \<in> set rs. req_method x \<noteq> POST)"

lemma cancel_nothing: "cancel_and_rerun w owner name [] jobs attempts c = Some (c, Inr empty_outcome)"
  by (simp add: cancel_and_rerun_def run_bind_def run_return_def empty_outcome_def)


lemma note_no_post: "sent_only (gc_log c) {GET, DELETE} c1 \<Longrightarrow> \<exists>new. gc_log c1 = gc_log c @ new \<and> no_post new"
  by (fastforce simp: sent_only_def no_post_def)

text \<open>The requests of a release that was asked to cancel, up to the cancelling: first the switch, then the scan.\<close>

lemma switch_off_sends:
  assumes "cache_ok c"
  obtains c1 r new where "switch_off w owner name var 2 False c = Some (c1, r)" "cache_ok c1"
    "gc_log c1 = gc_log c @ new" "no_post new"
proof -
  obtain c1 r where "switch_off w owner name var 2 False c = Some (c1, r)" "sent_only (gc_log c) {GET, DELETE} c1"
    using keepsD [OF sends.keeps_switch_off [where ms = "{DELETE}", simplified] sent_only_start [OF assms]] by blast
  moreover from this obtain new where "gc_log c1 = gc_log c @ new" "no_post new" using note_no_post by blast
  ultimately show thesis using that by (auto simp: sent_only_def)
qed

lemma stranded_runs_sends:
  assumes "cache_ok c"
  obtains c1 r new where "stranded_runs w owner name wanted label c = Some (c1, r)" "cache_ok c1"
    "gc_log c1 = gc_log c @ new" "no_post new"
proof -
  obtain c1 r where "stranded_runs w owner name wanted label c = Some (c1, r)" "sent_only (gc_log c) {GET} c1"
    using keepsD [OF sends.keeps_stranded_runs [where ms = "{}"] sent_only_start [OF assms]] by blast
  then show thesis using that by (fastforce simp: sent_only_def no_post_def)
qed

lemma cancel_and_rerun_sends:
  assumes "cache_ok c"
  obtains c1 r new where "cancel_and_rerun w owner name runs jobs attempts c = Some (c1, r)" "gc_log c1 = gc_log c @ new"
  using keepsD [OF sends.keeps_cancel_and_rerun [where ms = UNIV, simplified] sent_only_start [OF assms]]
  by (fastforce simp: sent_only_def)

text \<open>How far a release gets, by what its steps return.\<close>

lemma fleet_release_stops:
  assumes "releasable registry ident = Inr (e, var)"
    and "switch_off w (fst (split_repository (fe_repository e))) (snd (split_repository (fe_repository e))) var 2 False c = Some (c1, r1)"
  shows "(\<nexists>deleted. r1 = Inr (deleted, False)
           \<and> write_reg (note_release ident (release_note at_time var deleted) registry) = Inr ())
    \<Longrightarrow> \<exists>r. fleet_release w write_reg at_time registry path ident cancel_stranded attempts c = Some (c1, r)"
  using assms
  by (cases r1; cases "write_reg (note_release ident (release_note at_time var (fst (projr r1))) registry)")
    (auto simp: fleet_release_def split_beta run_bind_def run_return_def Let_def)

lemma fleet_release_scans:
  assumes "releasable registry ident = Inr (e, var)"
    and "switch_off w (fst (split_repository (fe_repository e))) (snd (split_repository (fe_repository e))) var 2 False c
      = Some (c1, Inr (deleted, False))"
    and "write_reg (note_release ident (release_note at_time var deleted) registry) = Inr ()"
    and "stranded_runs w (fst (split_repository (fe_repository e))) (snd (split_repository (fe_repository e)))
      [fe_workflowId e] (fe_runnerLabel e) c1 = Some (c2, r2)"
  shows "(\<nexists>s. r2 = Inr s \<and> cancel_stranded)
      \<Longrightarrow> \<exists>r. fleet_release w write_reg at_time registry path ident cancel_stranded attempts c = Some (c2, r)"
    and "r2 = Inr s \<Longrightarrow> cancel_stranded
      \<Longrightarrow> cancel_and_rerun w (fst (split_repository (fe_repository e))) (snd (split_repository (fe_repository e)))
            (cancellable s) (strandedJobsByRun s) attempts c2 = Some (c3, r3)
      \<Longrightarrow> \<exists>r. fleet_release w write_reg at_time registry path ident cancel_stranded attempts c = Some (c3, r)"
  using assms
  by (cases r2; cases r3;
      auto simp: fleet_release_def split_beta run_bind_def run_return_def run_try_def Let_def cancel_nothing)+

lemma no_post_append [simp]: "no_post (a @ b) \<longleftrightarrow> no_post a \<and> no_post b"
  by (auto simp: no_post_def)


lemma new_client_ok: "cache_ok new_client"
  by (simp add: cache_ok_def new_client_def CACHE_BYTE_LIMIT_def)

theorem health_reads_only_witness:
  "\<exists>c' row. health_row_of sample_world (\<lambda>_. ''hash'') (\<lambda>_ _. Inr JNull) sample_enrollment ''fleet.json'' (Fin 1000)
       (Inr True) (timing sample_config) (Fin 0) new_client = Some (c', Inr row)
     \<and> sent_only [] {GET} c'"
proof -
  have "gc_log new_client = []" by (simp add: new_client_def)
  then show ?thesis
    using health_reads_only [OF new_client_ok, of sample_world "\<lambda>_. ''hash''" "\<lambda>_ _. Inr JNull" sample_enrollment
      "''fleet.json''" "Fin 1000" "Inr True" "timing sample_config" "Fin 0"] by auto
qed


section \<open>Accounting for cancelled runs\<close>

definition asked :: "cancel_outcome \<Rightarrow> jsnum multiset" where
  "asked out = mset (cancelled out) + mset (alreadyCompleted out) + mset (map fst (failedCancels out))"

definition handled :: "cancel_outcome \<Rightarrow> jsnum multiset" where
  "handled out = mset (rerun out) + mset (map fst (failedReruns out)) + mset (notRerun out)"

definition jobs_for :: "(jsnum, jsnum list) jsmap \<Rightarrow> jsnum \<Rightarrow> jsnum list" where
  "jobs_for jobs r = (case map_get jobs r of None \<Rightarrow> [] | Some js \<Rightarrow> js)"

lemma cancel_runs_accounts:
  "cancel_runs w owner name rs out c = Some (c', r) \<Longrightarrow>
   \<exists>out'. r = Inr out' \<and> asked out' = asked out + mset rs \<and> handled out' = handled out
     \<and> stillActive out' = stillActive out"
proof (induction rs arbitrary: out c)
  case (Cons x rs)
  obtain c1 res where "cancel_runs w owner name rs
       (case res of
          Inr True \<Rightarrow> out\<lparr>cancelled := cancelled out @ [x]\<rparr>
        | Inr False \<Rightarrow> out\<lparr>alreadyCompleted := alreadyCompleted out @ [x]\<rparr>
        | Inl e \<Rightarrow> out\<lparr>failedCancels := failedCancels out @ [(x, exn_message e)]\<rparr>) c1 = Some (c', r)"
    using Cons.prems by (auto simp: run_bind_Some run_try_Some)
  from Cons.IH [OF this] show ?case
    by (cases res) (auto simp: asked_def handled_def split: bool.splits)
qed simp

lemma rerun_first_jobs_accounts:
  "rerun_first_jobs w owner name jobs rs out c = Some (c', r) \<Longrightarrow>
   \<exists>out'. r = Inr out' \<and> handled out' = handled out + mset (concat (map (jobs_for jobs) rs))
     \<and> asked out' = asked out \<and> cancelled out' = cancelled out \<and> stillActive out' = stillActive out"
proof (induction rs arbitrary: out c)
  case (Cons x rs)
  show ?case
  proof (cases "jobs_for jobs x")
    case Nil
    then have "rerun_first_jobs w owner name jobs rs out c = Some (c', r)"
      using Cons.prems by (simp add: jobs_for_def)
    from Cons.IH [OF this] show ?thesis using Nil by simp
  next
    case (Cons j rest)
    let ?out = "out\<lparr>notRerun := notRerun out @ rest\<rparr>"
    obtain c1 and res :: "jsnum exn + unit" where "rerun_first_jobs w owner name jobs rs
       (case res of
          Inr _ \<Rightarrow> ?out\<lparr>rerun := rerun ?out @ [j]\<rparr>
        | Inl e \<Rightarrow> ?out\<lparr>failedReruns := failedReruns ?out @ [(j, exn_message e)]\<rparr>) c1 = Some (c', r)"
      using Cons.prems Cons by (auto simp: run_bind_Some run_try_Some jobs_for_def Let_def)
    from Cons.IH [OF this] show ?thesis
      by (cases res) (auto simp: asked_def handled_def Cons)
  qed
qed simp

definition listed_active :: "gh_world \<Rightarrow> string \<Rightarrow> string \<Rightarrow> jsnum list \<Rightarrow> jsnum list \<Rightarrow> gh_client \<Rightarrow> bool" where
  "listed_active w owner name runs active c \<longleftrightarrow>
     (\<exists>c0 col. list_active_runs w owner name c0 = Some (c, Inr col) \<and> col_complete col
        \<and> active = filter (\<lambda>r. r \<in> set (map run_id (col_items col))) runs)"

lemma poll_active_last:
  assumes "poll_active w owner name runs (Suc attempts) start c = Some (c', Inr active)"
  shows "listed_active w owner name runs active c'"
  using assms
proof (induction attempts arbitrary: start c)
  case 0
  then obtain c1 col where "list_active_runs w owner name c = Some (c1, Inr col)" "col_complete col"
      "c' = c1" "active = filter (\<lambda>r. r \<in> set (map run_id (col_items col))) runs"
    by (fastforce simp: run_bind_Some complete_items_def Let_def split: if_split_asm)
  then show ?case unfolding listed_active_def by blast
next
  case (Suc n)
  obtain c1 col where col: "list_active_runs w owner name c = Some (c1, Inr col)" "col_complete col"
    and rest: "(let active = filter (\<lambda>r. r \<in> set (map run_id (col_items col))) runs in
      if active = [] then run_return (Inr []) else poll_active w owner name runs (Suc n) active) c1 = Some (c', Inr active)"
    using Suc.prems
    by (subst (asm) poll_active.simps)
       (auto simp: run_bind_Some complete_items_def simp del: poll_active.simps split: if_split_asm)
  show ?case
  proof (cases "filter (\<lambda>r. r \<in> set (map run_id (col_items col))) runs = []")
    case True
    then have "active = filter (\<lambda>r. r \<in> set (map run_id (col_items col))) runs" "c' = c1"
      using rest by (auto simp: Let_def simp del: poll_active.simps)
    then show ?thesis unfolding listed_active_def using col by blast
  next
    case False
    then show ?thesis using rest Suc.IH by (simp only: Let_def if_False)
  qed
qed

lemma no_runs_no_jobs: "asked empty_outcome = {#}" "handled empty_outcome = {#}" "stillActive empty_outcome = Some []"
  by (simp_all add: asked_def handled_def empty_outcome_def)

text \<open>
  Cancelling and re-running never throws and accounts for everything: every run it was
  given is reported exactly once, as cancelled, as already completed or as a failed cancel. Nothing is
  re-run when no run was cancelled or the state of the runs could not be read; otherwise the runs still
  active are those a complete listing of the active runs still named, and the stranded jobs of the other
  cancelled runs, and only those, are each re-run, failed to be, or listed as not re-run.
\<close>

theorem cancel_and_rerun_accounts:
  assumes "cache_ok c"
  shows "\<exists>c' out. cancel_and_rerun w owner name runs jobs (Suc attempts) c = Some (c', Inr out)
    \<and> asked out = mset runs
    \<and> (case stillActive out of
         None \<Rightarrow> handled out = {#}
       | Some active \<Rightarrow>
           handled out = mset (concat (map (jobs_for jobs) (filter (\<lambda>r. r \<notin> set active) (cancelled out))))
           \<and> (cancelled out = [] \<and> active = [] \<or> (\<exists>c1. listed_active w owner name (cancelled out) active c1)))"
proof -
  obtain c' r where run: "cancel_and_rerun w owner name runs jobs (Suc attempts) c = Some (c', r)"
    using keepsD [OF sends.keeps_cancel_and_rerun [where ms = UNIV, simplified] sent_only_start [OF assms]] by blast
  obtain c1 res where first: "cancel_runs w owner name runs empty_outcome c = Some (c1, res)"
    using keepsD [OF sends.keeps_cancel_runs [where ms = UNIV, simplified] sent_only_start [OF assms]] by blast
  obtain out where out: "res = Inr out" "asked out = mset runs" "handled out = {#}" "stillActive out = Some []"
    using cancel_runs_accounts [OF first] by (auto simp: no_runs_no_jobs)
  show ?thesis
  proof (cases "cancelled out = []")
    case True
    then have "c' = c1" "r = Inr out"
      using run first out by (auto simp: cancel_and_rerun_def run_bind_Some)
    then show ?thesis using run out True by auto
  next
    case False
    obtain c2 polled where poll: "run_try (poll_active w owner name (cancelled out) (Suc attempts) []) c1 = Some (c2, Inr polled)"
      and rest: "(case polled of Inl _ \<Rightarrow> run_return (Inr (out\<lparr>stillActive := None\<rparr>))
        | Inr active \<Rightarrow> rerun_first_jobs w owner name jobs (filter (\<lambda>r. r \<notin> set active) (cancelled out))
            (out\<lparr>stillActive := Some active\<rparr>)) c2 = Some (c', r)"
      using run False unfolding cancel_and_rerun_def
      by (auto simp: run_bind_Some first out run_try_Some simp del: poll_active.simps)
    show ?thesis
    proof (cases polled)
      case (Inl e)
      then show ?thesis using rest run out by (auto simp: asked_def handled_def)
    next
      case (Inr active)
      have "listed_active w owner name (cancelled out) active c2"
        using poll_active_last poll Inr by (simp only: run_try_Some sum.inject) blast
      moreover obtain out' where "r = Inr out'" "asked out' = asked out" "cancelled out' = cancelled out"
          "stillActive out' = Some active"
          "handled out' = handled out + mset (concat (map (jobs_for jobs) (filter (\<lambda>r. r \<notin> set active) (cancelled out))))"
        using rerun_first_jobs_accounts rest Inr by (fastforce simp: asked_def handled_def)
      ultimately show ?thesis using run out by auto
    qed
  qed
qed

theorem cancel_and_rerun_accounts_witness:
  "\<exists>c' out. cancel_and_rerun sample_world ''acme'' ''widgets'' [Fin 7] [] 10 new_client = Some (c', Inr out)
     \<and> asked out = {#Fin 7#}"
  using cancel_and_rerun_accounts [OF new_client_ok, of sample_world "''acme''" "''widgets''" "[Fin 7]" "[]" 9] by auto

end
