(* ===== verification/Nebius.thy ===== *)
theory Nebius
  imports Contracts Redaction
begin

text \<open>
  The provider adapter (\<open>adapters/nebius.ts\<close>): what is asked of the provider when a VM is created, how its
  listings are read, which listed VM is the controller's own, and what may be done with it. \<open>json_parse\<close>
  is \<open>JSON.parse\<close>, \<open>number_of\<close> is \<open>Number\<close> on a string.
\<close>

section \<open>Data\<close>

datatype instance_state = ICreating | IUpdating | IStarting | IRunning | IStopping | IStopped | IDeleting | IError

datatype operation_state = PPending | PRunning | PSucceeded | PFailed | PCancelled

definition INSTANCE_STATES :: "instance_state list" where
  "INSTANCE_STATES = [ICreating, IUpdating, IStarting, IRunning, IStopping, IStopped, IDeleting, IError]"

definition OPERATION_STATES :: "operation_state list" where
  "OPERATION_STATES = [PPending, PRunning, PSucceeded, PFailed, PCancelled]"

fun instance_state_str :: "instance_state \<Rightarrow> string" where
  "instance_state_str ICreating = ''CREATING''"
| "instance_state_str IUpdating = ''UPDATING''"
| "instance_state_str IStarting = ''STARTING''"
| "instance_state_str IRunning = ''RUNNING''"
| "instance_state_str IStopping = ''STOPPING''"
| "instance_state_str IStopped = ''STOPPED''"
| "instance_state_str IDeleting = ''DELETING''"
| "instance_state_str IError = ''ERROR''"

fun operation_state_str :: "operation_state \<Rightarrow> string" where
  "operation_state_str PPending = ''PENDING''"
| "operation_state_str PRunning = ''RUNNING''"
| "operation_state_str PSucceeded = ''SUCCEEDED''"
| "operation_state_str PFailed = ''FAILED''"
| "operation_state_str PCancelled = ''CANCELLED''"

text \<open>\<open>Record<string, string>\<close>: the own properties in order.\<close>

type_synonym labels = "(string \<times> string) list"

record expected_resource =
  ex_parentId :: string
  ex_name :: string
  ex_labels :: labels
  ex_nebius :: nebius_config
  ex_instanceId :: "string option"

record nebius_instance =
  ni_id :: string
  ni_parentId :: string
  ni_name :: string
  ni_labels :: labels
  providerState :: instance_state
  ni_state :: vm_status
  ni_stopped :: bool
  recoveryPolicy :: string
  ni_platform :: string
  ni_preset :: string
  ni_subnetId :: string
  diskName :: string
  ni_diskType :: string
  ni_diskSizeGiB :: jsnum
  ni_imageId :: string
  privateIp :: "string option"
  publicIp :: "string option"
  diskIds :: "string list"

record nebius_operation =
  no_id :: string
  no_resourceId :: "string option"
  no_state :: operation_state
  no_capacityRefusal :: "capacity_refusal option"

text \<open>\<open>ParsedPage\<close>: the items and the token of the next page.\<close>

type_synonym 'a parsed_page = "'a list \<times> string option"

datatype create_reconciliation = CreateNew | Adopt string | CreateBlock "jsnum message"

datatype mutation_decision = DoStop string | DoDelete string | Done | Wait | MutationBlock "jsnum message"

definition nebius_error :: "jsnum message \<Rightarrow> jsnum exn" where
  "nebius_error m = Exn NebiusParseError m"

section \<open>Reading JSON\<close>

definition neb_object :: "jsval \<Rightarrow> jsnum message \<Rightarrow> jsnum exn + fields" where
  "neb_object v loc = require (as_obj v) (nebius_error (loc @ [Lit '' must be an object'']))"

definition neb_array :: "jsval \<Rightarrow> jsnum message \<Rightarrow> jsnum exn + jsval list" where
  "neb_array v loc = require (as_arr v) (nebius_error (loc @ [Lit '' must be an array'']))"

definition optional_array :: "jsval \<Rightarrow> jsnum message \<Rightarrow> jsnum exn + jsval list" where
  "optional_array v loc = (if v = JUndef then Inr [] else neb_array v loc)"

definition neb_string :: "jsval \<Rightarrow> jsnum message \<Rightarrow> jsnum exn + string" where
  "neb_string v loc =
     (case v of
        JStr s \<Rightarrow> if s = [] then Inl (nebius_error (loc @ [Lit '' must be a nonempty string''])) else Inr s
      | _ \<Rightarrow> Inl (nebius_error (loc @ [Lit '' must be a nonempty string''])))"

definition nullable_string_at :: "jsval \<Rightarrow> jsnum message \<Rightarrow> jsnum exn + string option" where
  "nullable_string_at v loc =
     (if v = JUndef \<or> v = JNull \<or> v = JStr [] then Inr None else rbind (neb_string v loc) (\<lambda>s. Inr (Some s)))"

definition neb_boolean :: "jsval \<Rightarrow> jsnum message \<Rightarrow> jsnum exn + bool" where
  "neb_boolean v loc = require (as_bool v) (nebius_error (loc @ [Lit '' must be a boolean'']))"

definition protobuf_boolean :: "jsval \<Rightarrow> jsnum message \<Rightarrow> jsnum exn + bool" where
  "protobuf_boolean v loc = (if v = JUndef then Inr False else neb_boolean v loc)"

text \<open>\<open>/^(?:0|[1-9]\d*)(?:\.\d+)?$/\<close>\<close>

definition decimal_text :: "string \<Rightarrow> bool" where
  "decimal_text s \<longleftrightarrow>
     (let whole = takeWhile is_digit s; rest = dropWhile is_digit s in
      (whole = ''0'' \<or> whole \<noteq> [] \<and> hd whole \<noteq> CHR ''0'')
      \<and> (rest = [] \<or> hd rest = CHR ''.'' \<and> tl rest \<noteq> [] \<and> list_all is_digit (tl rest)))"

definition finite_number_at :: "(string \<Rightarrow> jsnum) \<Rightarrow> jsval \<Rightarrow> jsnum message \<Rightarrow> jsnum exn + jsnum" where
  "finite_number_at number_of v loc =
     (let parsed = (case v of JStr s \<Rightarrow> if decimal_text s then JNum (number_of s) else v | _ \<Rightarrow> v) in
      case parsed of
        JNum n \<Rightarrow> if is_finite n then Inr n else Inl (nebius_error (loc @ [Lit '' must be a finite number'']))
      | _ \<Rightarrow> Inl (nebius_error (loc @ [Lit '' must be a finite number''])))"

fun label_entry :: "jsnum message \<Rightarrow> string \<times> jsval \<Rightarrow> jsnum exn + string \<times> string" where
  "label_entry loc (k, v) =
     (case v of JStr s \<Rightarrow> Inr (k, s) | _ \<Rightarrow> Inl (nebius_error (loc @ [Lit (''.'' @ k @ '' must be a string'')])))"

definition string_map_at :: "jsval \<Rightarrow> jsnum message \<Rightarrow> jsnum exn + labels" where
  "string_map_at v loc = rbind (neb_object v loc) (rmap (label_entry loc))"

text \<open>\<open>String(value)\<close>, for values that come from JSON.\<close>

fun commas :: "jsnum message list \<Rightarrow> jsnum message" where
  "commas [] = []"
| "commas [m] = m"
| "commas (m # ms) = m @ Lit '','' # commas ms"

fun json_text :: "jsval \<Rightarrow> jsnum message" where
  "json_text JUndef = [Lit ''undefined'']"
| "json_text JNull = [Lit ''null'']"
| "json_text (JBool b) = [Lit (if b then ''true'' else ''false'')]"
| "json_text (JNum n) = [Num n]"
| "json_text (JStr s) = [Lit s]"
| "json_text (JArr xs) = commas (map (\<lambda>x. if x = JUndef \<or> x = JNull then [] else json_text x) xs)"
| "json_text (JObj _) = [Lit ''[object Object]'']"

definition enum_at :: "('a \<Rightarrow> string) \<Rightarrow> 'a list \<Rightarrow> jsval \<Rightarrow> jsnum message \<Rightarrow> jsnum exn + 'a" where
  "enum_at str allowed v loc =
     require (case v of JStr s \<Rightarrow> of_str str allowed s | _ \<Rightarrow> None)
       (nebius_error (loc @ Lit '' has unsupported value '' # json_text v))"

definition optional_page_token :: "jsval \<Rightarrow> jsnum message \<Rightarrow> jsnum exn + string option" where
  "optional_page_token v loc =
     (if v = JUndef \<or> v = JStr [] then Inr None else rbind (neb_string v loc) (\<lambda>s. Inr (Some s)))"

text \<open>\<open>.replace(/\/\d+$/, '')\<close>\<close>

definition strip_prefix_length :: "string \<Rightarrow> string" where
  "strip_prefix_length s =
     (case dropWhile is_digit (rev s) of
        c # r \<Rightarrow> if c = CHR ''/'' \<and> takeWhile is_digit (rev s) \<noteq> [] then rev r else s
      | [] \<Rightarrow> s)"

definition address_at :: "jsval \<Rightarrow> jsnum message \<Rightarrow> jsnum exn + string option" where
  "address_at v loc =
     (if v = JUndef then Inr None
      else rbind (neb_object v loc) (\<lambda>kvs.
        let a = get_prop kvs ''address'' in
        if a = JUndef \<or> a = JStr [] then Inr None
        else rbind (neb_string a (loc @ [Lit ''.address''])) (\<lambda>s. Inr (Some (strip_prefix_length s)))))"

definition parse_json_object :: "(string \<Rightarrow> jsval option) \<Rightarrow> string \<Rightarrow> jsnum message \<Rightarrow> jsnum exn + fields" where
  "parse_json_object json_parse s loc =
     (case json_parse s of
        None \<Rightarrow> Inl (nebius_error (loc @ [Lit '' is not valid JSON'']))
      | Some v \<Rightarrow> neb_object v loc)"

text \<open>\<open>toUpperCase\<close>, for letters whose capital is one code unit below 256.\<close>

definition to_upper :: "char \<Rightarrow> char" where
  "to_upper c =
     (if code_in c 97 122 \<or> (code_in c 224 254 \<and> c \<noteq> CHR 0xF7) then char_of (of_char c - (32 :: nat)) else c)"

section \<open>Refusals for exhausted quota\<close>

text \<open>\<open>\bword\b\<close> somewhere in the text; \<open>before\<close> is the character before it.\<close>

fun word_in :: "string \<Rightarrow> char option \<Rightarrow> string \<Rightarrow> bool" where
  "word_in word b [] = False"
| "word_in word b (c # s) =
     ((boundary_before b \<and> prefix word (c # s)
       \<and> (case drop (length word) (c # s) of [] \<Rightarrow> True | d # _ \<Rightarrow> \<not> is_word d))
      \<or> word_in word (Some c) s)"

definition capacity_text :: "string \<Rightarrow> bool" where
  "capacity_text s \<longleftrightarrow>
     word_in ''ResourceExhausted'' None s \<or> word_in ''RESOURCE_EXHAUSTED'' None s \<or> word_in ''QuotaFailure'' None s
     \<or> str_includes s ''Quota limit exceeded''"

definition quota_char :: "char \<Rightarrow> bool" where
  "quota_char c \<longleftrightarrow> code_in c 97 122 \<or> is_digit c"

text \<open>\<open>[a-z0-9][a-z0-9_.-]*[a-z0-9]\<close> at the start of the text: the longest match.\<close>

definition quota_name :: "string \<Rightarrow> string option" where
  "quota_name s =
     (let w = takeWhile (\<lambda>c. quota_char c \<or> c = CHR ''_'' \<or> c = CHR ''.'' \<or> c = CHR ''-'') s;
          n = rev (dropWhile (\<lambda>c. \<not> quota_char c) (rev w)) in
      if 2 \<le> length n \<and> quota_char (hd n) then Some n else None)"

function quota_names :: "char option \<Rightarrow> string \<Rightarrow> string list" where
  "quota_names b [] = []"
| "quota_names b (c # s) =
     (case (if boundary_before b \<and> prefix ''quota '' (c # s) then quota_name (drop 5 s) else None) of
        None \<Rightarrow> quota_names (Some c) s
      | Some n \<Rightarrow> n # quota_names (Some (last n)) (drop (5 + length n) s))"
  by pat_completeness auto
termination by (relation "measure (\<lambda>(_, s). length s)") auto

text \<open>\<open>[...new Set(xs)]\<close>\<close>

definition dedup :: "'a list \<Rightarrow> 'a list" where
  "dedup xs = rev (remdups (rev xs))"

definition classify_capacity_refusal :: "string \<Rightarrow> capacity_refusal option" where
  "classify_capacity_refusal text =
     (if \<not> capacity_text text then None else Some \<lparr>quotas = dedup (quota_names None text)\<rparr>)"

text \<open>\<open>typeof v === 'object' && v !== null\<close>, with its named properties; an array has none of them.\<close>

fun js_object :: "jsval \<Rightarrow> fields option" where
  "js_object (JObj kvs) = Some kvs"
| "js_object (JArr _) = Some []"
| "js_object _ = None"

definition violation_quota :: "jsval \<Rightarrow> string list" where
  "violation_quota v =
     (case js_object v of
        None \<Rightarrow> []
      | Some kvs \<Rightarrow> (case get_prop kvs ''quota'' of JStr q \<Rightarrow> if q = [] then [] else [q] | _ \<Rightarrow> []))"

definition detail_quotas :: "jsval \<Rightarrow> string list" where
  "detail_quotas d =
     (case js_object d of
        None \<Rightarrow> []
      | Some kvs \<Rightarrow> (case js_object (get_prop kvs ''quota_failure'') of
           None \<Rightarrow> []
         | Some f \<Rightarrow> (case get_prop f ''violations'' of JArr vs \<Rightarrow> concat (map violation_quota vs) | _ \<Rightarrow> [])))"

definition quota_detail :: "jsval \<Rightarrow> bool" where
  "quota_detail d =
     (case js_object d of
        None \<Rightarrow> False
      | Some kvs \<Rightarrow> get_prop kvs ''code'' = JStr ''QuotaFailure'' \<or> get_prop kvs ''quota_failure'' \<noteq> JUndef)"

definition operation_capacity_refusal ::
  "(string \<Rightarrow> jsnum) \<Rightarrow> fields \<Rightarrow> operation_state \<Rightarrow> capacity_refusal option" where
  "operation_capacity_refusal number_of status st =
     (if st \<noteq> PFailed then None
      else
      let details = (case get_prop status ''details'' of JArr ds \<Rightarrow> ds | _ \<Rightarrow> []);
          code = (case get_prop status ''code'' of JStr s \<Rightarrow> JNum (number_of s) | v \<Rightarrow> v);
          exhausted = (case code of JNum n \<Rightarrow> num_eq n (Fin 8) | _ \<Rightarrow> False) in
      if \<not> exhausted \<and> \<not> list_ex quota_detail details then None
      else Some \<lparr>quotas = dedup (concat (map detail_quotas details)
             @ (case get_prop status ''message'' of
                  JStr m \<Rightarrow> (case classify_capacity_refusal m of None \<Rightarrow> [] | Some r \<Rightarrow> quotas r)
                | _ \<Rightarrow> []))\<rparr>)"

section \<open>Creating\<close>

definition ownership_labels :: "string \<Rightarrow> string \<Rightarrow> jsnum exn + labels" where
  "ownership_labels controller hash =
     rbind (check (\<not> is_blank hash) (plain_error [Lit ''config hash must be nonempty''])) (\<lambda>_.
     Inr [(''cirujano-controller'', controller), (''cirujano-config'', hash)])"

definition json_labels :: "labels \<Rightarrow> jsval" where
  "json_labels ls = JObj (map (\<lambda>(k, v). (k, JStr v)) ls)"

text \<open>The request as the JSON it is sent as.\<close>

definition render_create_request :: "runner_config \<Rightarrow> string \<Rightarrow> string \<Rightarrow> jsnum exn + jsval" where
  "render_create_request c hash cloud_init =
     rbind (ownership_labels (own_controllerId (config_ownership c)) hash) (\<lambda>ls.
     let prefix = own_resourcePrefix (config_ownership c) in
     Inr (JObj
       [(''metadata'', JObj [(''parent_id'', JStr (nebius_projectId (nebius c))), (''name'', JStr (prefix @ ''-vm'')),
          (''labels'', json_labels ls)]),
        (''spec'', JObj
          [(''stopped'', JBool True), (''recovery_policy'', JStr ''FAIL''),
           (''resources'', JObj [(''platform'', JStr ''cpu-d3''), (''preset'', JStr ''4vcpu-16gb'')]),
           (''network_interfaces'', JArr [JObj [(''name'', JStr ''primary''), (''subnet_id'', JStr (subnetId (nebius c))),
              (''ip_address'', JObj []), (''public_ip_address'', JObj [])]]),
           (''boot_disk'', JObj [(''attach_mode'', JStr ''READ_WRITE''),
              (''managed_disk'', JObj [(''name'', JStr (prefix @ ''-boot'')), (''labels'', json_labels ls),
                 (''spec'', JObj [(''type'', JStr ''NETWORK_SSD''), (''size_gibibytes'', JNum (Fin 80)),
                    (''source_image_id'', JStr (imageId (nebius c)))])])]),
           (''cloud_init_user_data'', JStr cloud_init)])]))"

section \<open>Listings\<close>

fun map_instance_state :: "instance_state \<Rightarrow> vm_status" where
  "map_instance_state ICreating = VStarting"
| "map_instance_state IUpdating = VStarting"
| "map_instance_state IStarting = VStarting"
| "map_instance_state IRunning = VRunning"
| "map_instance_state IStopping = VStopping"
| "map_instance_state IDeleting = VStopping"
| "map_instance_state IStopped = VStopped"
| "map_instance_state IError = VError"

definition attachment_id :: "jsnum message \<Rightarrow> nat \<Rightarrow> jsval \<Rightarrow> jsnum exn + string" where
  "attachment_id loc i v =
     (let here = loc @ [Lit ''.status.disk_attachments['', Num (Fin (of_nat i)), Lit '']''] in
      rbind (neb_object v here) (\<lambda>kvs. neb_string (get_prop kvs ''id'') (here @ [Lit ''.id''])))"

definition parse_instance :: "(string \<Rightarrow> jsnum) \<Rightarrow> jsval \<Rightarrow> jsnum message \<Rightarrow> jsnum exn + nebius_instance" where
  "parse_instance number_of v loc =
     (let sub = (\<lambda>p. loc @ [Lit p]) in
      rbind (neb_object v loc) (\<lambda>item.
      rbind (neb_object (get_prop item ''metadata'') (sub ''.metadata'')) (\<lambda>metadata.
      rbind (neb_object (get_prop item ''spec'') (sub ''.spec'')) (\<lambda>spec.
      rbind (neb_object (get_prop item ''status'') (sub ''.status'')) (\<lambda>status.
      rbind (neb_object (get_prop spec ''resources'') (sub ''.spec.resources'')) (\<lambda>resources.
      rbind (neb_object (get_prop spec ''boot_disk'') (sub ''.spec.boot_disk'')) (\<lambda>boot_disk.
      rbind (neb_object (get_prop boot_disk ''managed_disk'') (sub ''.spec.boot_disk.managed_disk'')) (\<lambda>managed.
      rbind (neb_object (get_prop managed ''spec'') (sub ''.spec.boot_disk.managed_disk.spec'')) (\<lambda>disk_spec.
      rbind (neb_array (get_prop spec ''network_interfaces'') (sub ''.spec.network_interfaces'')) (\<lambda>networks.
      rbind (check (length networks = 1)
        (nebius_error (sub ''.spec.network_interfaces must contain exactly one item''))) (\<lambda>_.
      rbind (neb_object (networks ! 0) (sub ''.spec.network_interfaces[0]'')) (\<lambda>net.
      rbind (enum_at instance_state_str INSTANCE_STATES (get_prop status ''state'') (sub ''.status.state'')) (\<lambda>st.
      rbind (optional_array (get_prop status ''network_interfaces'') (sub ''.status.network_interfaces'')) (\<lambda>nets.
      rbind (case nets of [] \<Rightarrow> Inr [] | n # _ \<Rightarrow> neb_object n (sub ''.status.network_interfaces[0]'')) (\<lambda>first_net.
      rbind (optional_array (get_prop status ''disk_attachments'') (sub ''.status.disk_attachments'')) (\<lambda>attachments.
      rbind (neb_string (get_prop metadata ''id'') (sub ''.metadata.id'')) (\<lambda>ident.
      rbind (neb_string (get_prop metadata ''parent_id'') (sub ''.metadata.parent_id'')) (\<lambda>parent.
      rbind (neb_string (get_prop metadata ''name'') (sub ''.metadata.name'')) (\<lambda>nm.
      rbind (string_map_at (get_prop metadata ''labels'') (sub ''.metadata.labels'')) (\<lambda>ls.
      rbind (protobuf_boolean (get_prop spec ''stopped'') (sub ''.spec.stopped'')) (\<lambda>halted.
      rbind (neb_string (get_prop spec ''recovery_policy'') (sub ''.spec.recovery_policy'')) (\<lambda>policy.
      rbind (neb_string (get_prop resources ''platform'') (sub ''.spec.resources.platform'')) (\<lambda>plat.
      rbind (neb_string (get_prop resources ''preset'') (sub ''.spec.resources.preset'')) (\<lambda>pre.
      rbind (neb_string (get_prop net ''subnet_id'') (sub ''.spec.network_interfaces[0].subnet_id'')) (\<lambda>subnet.
      rbind (neb_string (get_prop managed ''name'') (sub ''.spec.boot_disk.managed_disk.name'')) (\<lambda>disk.
      rbind (neb_string (get_prop disk_spec ''type'') (sub ''.spec.boot_disk.managed_disk.spec.type'')) (\<lambda>dtype.
      rbind (finite_number_at number_of (get_prop disk_spec ''size_gibibytes'')
        (sub ''.spec.boot_disk.managed_disk.spec.size_gibibytes'')) (\<lambda>size.
      rbind (neb_string (get_prop disk_spec ''source_image_id'')
        (sub ''.spec.boot_disk.managed_disk.spec.source_image_id'')) (\<lambda>image.
      rbind (address_at (get_prop first_net ''ip_address'') (sub ''.status.network_interfaces[0].ip_address'')) (\<lambda>priv.
      rbind (address_at (get_prop first_net ''public_ip_address'')
        (sub ''.status.network_interfaces[0].public_ip_address'')) (\<lambda>pub.
      rbind (rmapi (attachment_id loc) 0 attachments) (\<lambda>disks.
      Inr \<lparr>ni_id = ident, ni_parentId = parent, ni_name = nm, ni_labels = ls, providerState = st,
           ni_state = map_instance_state st, ni_stopped = halted, recoveryPolicy = map to_upper policy,
           ni_platform = plat, ni_preset = pre, ni_subnetId = subnet, diskName = disk,
           ni_diskType = map to_upper dtype, ni_diskSizeGiB = size, ni_imageId = image, privateIp = priv,
           publicIp = pub, diskIds = disks\<rparr>))))))))))))))))))))))))))))))))"

definition item_at :: "string \<Rightarrow> nat \<Rightarrow> jsnum message" where
  "item_at name i = [Lit name, Lit ''['', Num (Fin (of_nat i)), Lit '']'']"

definition parse_instance_page ::
  "(string \<Rightarrow> jsval option) \<Rightarrow> (string \<Rightarrow> jsnum) \<Rightarrow> string \<Rightarrow> jsnum exn + nebius_instance parsed_page" where
  "parse_instance_page json_parse number_of s =
     rbind (parse_json_object json_parse s [Lit ''instance page'']) (\<lambda>root.
     rbind (optional_array (get_prop root ''items'') [Lit ''instance page.items'']) (\<lambda>raw.
     rbind (rmapi (\<lambda>i v. parse_instance number_of v (item_at ''instance page.items'' i)) 0 raw) (\<lambda>items.
     rbind (optional_page_token (get_prop root ''next_page_token'') [Lit ''instance page.next_page_token'']) (\<lambda>next_token.
     Inr (items, next_token)))))"

definition operation_status_state ::
  "(string \<Rightarrow> jsnum) \<Rightarrow> fields \<Rightarrow> fields \<Rightarrow> jsnum message \<Rightarrow> jsnum exn + operation_state" where
  "operation_status_state number_of oper status loc =
     (if get_prop status ''state'' \<noteq> JUndef
      then enum_at operation_state_str OPERATION_STATES (get_prop status ''state'') (loc @ [Lit ''.status.state''])
      else
      let code = get_prop status ''code'';
          numeric = (case code of JStr s \<Rightarrow> if s \<noteq> [] \<and> list_all is_digit s then JNum (number_of s) else code | _ \<Rightarrow> code);
          finished = (let f = get_prop oper ''finished_at'' in
            if f = JUndef then Inr PRunning
            else rbind (neb_string f (loc @ [Lit ''.finished_at''])) (\<lambda>_. Inr PSucceeded)) in
      if code = JUndef then finished
      else case numeric of
        JNum n \<Rightarrow> if \<not> is_safe_integer n \<or> n < Fin 0
                  then Inl (nebius_error (loc @ [Lit ''.status.code must be a non-negative integer'']))
                  else if \<not> num_eq n (Fin 0) then Inr PFailed else finished
      | _ \<Rightarrow> Inl (nebius_error (loc @ [Lit ''.status.code must be a non-negative integer''])))"

definition parse_operation :: "(string \<Rightarrow> jsnum) \<Rightarrow> jsval \<Rightarrow> jsnum message \<Rightarrow> jsnum exn + nebius_operation" where
  "parse_operation number_of v loc =
     rbind (neb_object v loc) (\<lambda>oper.
     rbind (if get_prop oper ''metadata'' = JUndef then Inr oper
            else neb_object (get_prop oper ''metadata'') (loc @ [Lit ''.metadata''])) (\<lambda>metadata.
     rbind (if get_prop oper ''spec'' = JUndef then Inr oper
            else neb_object (get_prop oper ''spec'') (loc @ [Lit ''.spec''])) (\<lambda>spec.
     rbind (neb_object (get_prop oper ''status'') (loc @ [Lit ''.status''])) (\<lambda>status.
     rbind (operation_status_state number_of oper status loc) (\<lambda>st.
     rbind (neb_string (get_prop metadata ''id'') (loc @ [Lit ''.id''])) (\<lambda>ident.
     rbind (nullable_string_at (get_prop spec ''resource_id'') (loc @ [Lit ''.resource_id''])) (\<lambda>res.
     Inr \<lparr>no_id = ident, no_resourceId = res, no_state = st,
          no_capacityRefusal = operation_capacity_refusal number_of status st\<rparr>)))))))"

definition parse_operation_page ::
  "(string \<Rightarrow> jsval option) \<Rightarrow> (string \<Rightarrow> jsnum) \<Rightarrow> string \<Rightarrow> jsnum exn + nebius_operation parsed_page" where
  "parse_operation_page json_parse number_of s =
     rbind (parse_json_object json_parse s [Lit ''operation page'']) (\<lambda>root.
     rbind (check (get_prop root ''items'' = JUndef \<or> get_prop root ''operations'' = JUndef)
       (nebius_error [Lit ''operation page contains ambiguous collections''])) (\<lambda>_.
     let key = (if get_prop root ''operations'' = JUndef then ''items'' else ''operations'') in
     rbind (optional_array (get_prop root key) [Lit (''operation page.'' @ key)]) (\<lambda>raw.
     rbind (rmapi (\<lambda>i v. parse_operation number_of v (item_at (''operation page.'' @ key) i)) 0 raw) (\<lambda>items.
     rbind (optional_page_token (get_prop root ''next_page_token'') [Lit ''operation page.next_page_token'']) (\<lambda>next_token.
     Inr (items, next_token))))))"

text \<open>\<open>/^computeoperation-[a-z0-9]+$/\<close>\<close>

definition operation_name :: "string \<Rightarrow> bool" where
  "operation_name s \<longleftrightarrow> prefix ''computeoperation-'' s \<and> drop 17 s \<noteq> [] \<and> list_all quota_char (drop 17 s)"

definition parse_mutation_operation_id :: "(string \<Rightarrow> jsval option) \<Rightarrow> string \<Rightarrow> jsnum exn + string option" where
  "parse_mutation_operation_id json_parse stdout =
     (let v = trim stdout in
      if operation_name v then Inr (Some v)
      else case json_parse v of
        None \<Rightarrow> Inl (nebius_error [Lit ''mutation response is neither an operation id nor valid JSON''])
      | Some parsed \<Rightarrow>
          rbind (neb_object parsed [Lit ''mutation response'']) (\<lambda>root.
          if get_prop root ''metadata'' = JUndef then Inr None
          else rbind (neb_object (get_prop root ''metadata'') [Lit ''mutation response.metadata'']) (\<lambda>metadata.
               if get_prop metadata ''id'' = JUndef then Inr None
               else rbind (neb_string (get_prop metadata ''id'') [Lit ''mutation response.metadata.id'']) (\<lambda>s.
                    Inr (Some s)))))"

section \<open>The controller's own VM\<close>

definition CONTROLLER_LABEL :: string where "CONTROLLER_LABEL = ''cirujano-controller''"
definition CONFIG_LABEL :: string where "CONFIG_LABEL = ''cirujano-config''"

definition related_to_expected :: "nebius_instance \<Rightarrow> expected_resource \<Rightarrow> bool" where
  "related_to_expected i e \<longleftrightarrow>
     ni_name i = ex_name e
     \<or> map_of (ni_labels i) CONTROLLER_LABEL = map_of (ex_labels e) CONTROLLER_LABEL
     \<or> map_of (ni_labels i) CONFIG_LABEL = map_of (ex_labels e) CONFIG_LABEL"

definition same_string_map :: "labels \<Rightarrow> labels \<Rightarrow> bool" where
  "same_string_map actual expected \<longleftrightarrow>
     length actual = length expected \<and> list_all (\<lambda>(k, v). map_of expected k = Some v) actual"

text \<open>\<open>diskType.replaceAll('-', '_').toUpperCase()\<close> and \<open>name.replace(/-vm$/, '-boot')\<close>\<close>

definition disk_type_code :: "string \<Rightarrow> string" where
  "disk_type_code s = map (\<lambda>c. to_upper (if c = CHR ''-'' then CHR ''_'' else c)) s"

definition boot_name :: "string \<Rightarrow> string" where
  "boot_name s = (if suffix ''-vm'' s then take (length s - 3) s @ ''-boot'' else s)"

definition mismatch_reason :: "nebius_instance \<Rightarrow> expected_resource \<Rightarrow> jsnum message option" where
  "mismatch_reason i e =
     (let n = ex_nebius e; drift = (\<lambda>s. Some [Lit ''instance '', Lit (ni_id i), Lit s]) in
      if ex_instanceId e \<noteq> None \<and> ex_instanceId e \<noteq> Some (ni_id i)
        then Some [Lit ''instance id '', Lit (ni_id i), Lit '' is not permit-owned'']
      else if ni_parentId i \<noteq> ex_parentId e then drift '' has the wrong parent''
      else if ni_name i \<noteq> ex_name e then drift '' has the wrong name''
      else if \<not> same_string_map (ni_labels i) (ex_labels e) then drift '' has ownership label drift''
      else if recoveryPolicy i \<noteq> ''FAIL'' then drift '' has lifecycle configuration drift''
      else if ni_platform i \<noteq> platform n \<or> ni_preset i \<noteq> preset n then drift '' has compute configuration drift''
      else if ni_subnetId i \<noteq> subnetId n then drift '' has network configuration drift''
      else if diskName i \<noteq> boot_name (ex_name e) \<or> ni_diskType i \<noteq> disk_type_code (diskType n)
        \<or> \<not> num_eq (ni_diskSizeGiB i) (diskSizeGiB n) \<or> ni_imageId i \<noteq> imageId n
        then drift '' has disk configuration drift''
      else None)"

definition reconcile_create ::
  "bool \<Rightarrow> nebius_instance list \<Rightarrow> nebius_operation option \<Rightarrow> expected_resource \<Rightarrow> create_reconciliation" where
  "reconcile_create timed_out instances oper e =
     (case filter (\<lambda>i. related_to_expected i e) instances of
        [] \<Rightarrow>
          if \<not> timed_out then CreateNew
          else (case oper of
            None \<Rightarrow> CreateBlock [Lit ''timed-out create has no conclusive operation result'']
          | Some p \<Rightarrow>
              if no_state p = PFailed \<or> no_state p = PCancelled
              then CreateBlock [Lit ''timed-out create resolved '', Lit (operation_state_str (no_state p)),
                     Lit '' but no owned resource was found'']
              else CreateBlock [Lit ''create operation '', Lit (no_id p), Lit '' is '', Lit (operation_state_str (no_state p))])
      | [c] \<Rightarrow>
          (case mismatch_reason c e of
             Some m \<Rightarrow> CreateBlock m
           | None \<Rightarrow>
               if \<not> ni_stopped c then CreateBlock [Lit ''created instance '', Lit (ni_id c), Lit '' was not stopped'']
               else if ni_state c = VError then CreateBlock [Lit ''instance '', Lit (ni_id c), Lit '' is in ERROR state'']
               else (case oper of
                 None \<Rightarrow> Adopt (ni_id c)
               | Some p \<Rightarrow> (case no_resourceId p of
                   None \<Rightarrow> Adopt (ni_id c)
                 | Some r \<Rightarrow> if r \<noteq> ni_id c
                     then CreateBlock [Lit ''operation resource '', Lit r, Lit '' does not match '', Lit (ni_id c)]
                     else Adopt (ni_id c))))
      | rs \<Rightarrow> CreateBlock [Lit ''found '', Num (Fin (of_nat (length rs))), Lit '' matching resources''])"

definition decide_stop :: "nebius_instance option \<Rightarrow> expected_resource \<Rightarrow> mutation_decision" where
  "decide_stop found e =
     (case found of
        None \<Rightarrow> Done
      | Some i \<Rightarrow> (case mismatch_reason i e of
          Some m \<Rightarrow> MutationBlock m
        | None \<Rightarrow>
            if ni_state i = VStopped \<or> ni_state i = VAbsent then Done
            else if ni_state i = VStopping then Wait
            else if ni_state i = VRunning then DoStop (ni_id i)
            else MutationBlock [Lit ''cannot stop instance '', Lit (ni_id i), Lit '' from '', Lit (instance_state_str (providerState i))]))"

definition decide_delete :: "nebius_instance option \<Rightarrow> expected_resource \<Rightarrow> mutation_decision" where
  "decide_delete found e =
     (case found of
        None \<Rightarrow> Done
      | Some i \<Rightarrow> (case mismatch_reason i e of
          Some m \<Rightarrow> MutationBlock m
        | None \<Rightarrow>
            if providerState i = IDeleting then Wait
            else if ni_state i \<noteq> VStopped
            then MutationBlock [Lit ''cannot delete instance '', Lit (ni_id i), Lit '' from '', Lit (instance_state_str (providerState i))]
            else DoDelete (ni_id i)))"

section \<open>Commands\<close>

text \<open>\<open>cmd_stdin\<close> is the JSON value whose text the command reads; \<open>shell\<close> is always \<open>false\<close>.\<close>

record nebius_command =
  cmd_file :: string
  cmd_args :: "string list"
  cmd_stdin :: "jsval option"
  cmd_timeoutMs :: jsnum

record nebius_result =
  nr_exitCode :: jsnum
  nr_stdout :: string
  nr_stderr :: string
  nr_timedOut :: bool

record nebius_cli =
  binaryPath :: string
  cli_profile :: string
  cli_projectId :: string
  readTimeoutMs :: jsnum
  mutationTimeoutMs :: jsnum

definition new_nebius_cli ::
  "string \<Rightarrow> string \<Rightarrow> string \<Rightarrow> jsnum option \<Rightarrow> jsnum option \<Rightarrow> jsnum exn + nebius_cli" where
  "new_nebius_cli path prof project reading mutating =
     rbind (check (prefix ''/'' path) (plain_error [Lit ''Nebius CLI path must be absolute''])) (\<lambda>_.
     rbind (check (\<not> is_blank prof) (plain_error [Lit ''Nebius profile must be nonempty''])) (\<lambda>_.
     rbind (check (\<not> is_blank project) (plain_error [Lit ''Nebius project id must be nonempty''])) (\<lambda>_.
     Inr \<lparr>binaryPath = path, cli_profile = prof, cli_projectId = project,
          readTimeoutMs = (case reading of None \<Rightarrow> Fin 30000 | Some t \<Rightarrow> t),
          mutationTimeoutMs = (case mutating of None \<Rightarrow> Fin 60000 | Some t \<Rightarrow> t)\<rparr>)))"

text \<open>\<open>/^[A-Za-z0-9][A-Za-z0-9._:-]*$/\<close>\<close>

definition resource_id :: "string \<Rightarrow> bool" where
  "resource_id s \<longleftrightarrow>
     s \<noteq> [] \<and> is_word (hd s) \<and> hd s \<noteq> CHR ''_''
     \<and> list_all (\<lambda>c. is_word c \<or> c = CHR ''.'' \<or> c = CHR '':'' \<or> c = CHR ''-'') s"

definition assert_resource_id :: "string \<Rightarrow> jsnum exn + unit" where
  "assert_resource_id s = check (resource_id s) (plain_error [Lit ''invalid Nebius resource id''])"

definition nonempty_argument :: "string \<Rightarrow> string \<Rightarrow> jsnum exn + string" where
  "nonempty_argument v name =
     rbind (check (v \<noteq> [] \<and> CHR 0x00 \<notin> set v) (plain_error [Lit (name @ '' must be a nonempty argument'')])) (\<lambda>_. Inr v)"

definition common_arguments :: "string \<Rightarrow> string \<Rightarrow> string list" where
  "common_arguments prof timeout =
     [''--profile'', prof, ''--format'', ''json'', ''--no-browser'', ''--no-progress'', ''--no-check-update'',
      ''--color=false'', ''--timeout'', timeout, ''--per-retry-timeout'', timeout]"

definition whole_seconds :: "jsnum \<Rightarrow> bool" where
  "whole_seconds ms \<longleftrightarrow> (case ms of Fin x \<Rightarrow> \<lfloor>x\<rfloor> mod 1000 = 0 | _ \<Rightarrow> False)"

text \<open>\<open>show_number\<close> is the text of a number in a template.\<close>

definition duration_seconds :: "(jsnum \<Rightarrow> string) \<Rightarrow> jsnum \<Rightarrow> jsnum exn + string" where
  "duration_seconds show_number ms =
     rbind (check (is_safe_integer ms \<and> Fin 0 < ms \<and> whole_seconds ms)
       (plain_error [Lit ''timeout must be a positive whole number of seconds''])) (\<lambda>_.
     Inr (show_number (num_div ms (Fin 1000)) @ ''s''))"

definition read_command :: "(jsnum \<Rightarrow> string) \<Rightarrow> nebius_cli \<Rightarrow> string list \<Rightarrow> jsnum exn + nebius_command" where
  "read_command show_number n args =
     rbind (duration_seconds show_number (readTimeoutMs n)) (\<lambda>t.
     Inr \<lparr>cmd_file = binaryPath n, cmd_args = args @ common_arguments (cli_profile n) t @ [''--retries'', ''3''],
          cmd_stdin = None, cmd_timeoutMs = readTimeoutMs n\<rparr>)"

definition mutate_command ::
  "(jsnum \<Rightarrow> string) \<Rightarrow> nebius_cli \<Rightarrow> string list \<Rightarrow> jsval option \<Rightarrow> jsnum exn + nebius_command" where
  "mutate_command show_number n args stdin =
     rbind (duration_seconds show_number (mutationTimeoutMs n)) (\<lambda>t.
     Inr \<lparr>cmd_file = binaryPath n, cmd_args = args @ common_arguments (cli_profile n) t @ [''--retries'', ''1'', ''--async''],
          cmd_stdin = stdin, cmd_timeoutMs = mutationTimeoutMs n\<rparr>)"

definition page_arguments :: "string option \<Rightarrow> jsnum exn + string list" where
  "page_arguments token =
     (case token of None \<Rightarrow> Inr []
      | Some t \<Rightarrow> rbind (nonempty_argument t ''page token'') (\<lambda>t. Inr [''--page-token'', t]))"

definition create_command :: "(jsnum \<Rightarrow> string) \<Rightarrow> nebius_cli \<Rightarrow> jsval \<Rightarrow> jsnum exn + nebius_command" where
  "create_command show_number n request =
     mutate_command show_number n [''compute'', ''instance'', ''create'', ''-''] (Some request)"

definition list_instances_command :: "(jsnum \<Rightarrow> string) \<Rightarrow> nebius_cli \<Rightarrow> string option \<Rightarrow> jsnum exn + nebius_command" where
  "list_instances_command show_number n token =
     rbind (page_arguments token) (\<lambda>pg.
     read_command show_number n
       ([''compute'', ''instance'', ''list'', ''--parent-id'', cli_projectId n, ''--page-size'', ''999''] @ pg))"

definition list_operations_command :: "(jsnum \<Rightarrow> string) \<Rightarrow> nebius_cli \<Rightarrow> string option \<Rightarrow> jsnum exn + nebius_command" where
  "list_operations_command show_number n token =
     rbind (page_arguments token) (\<lambda>pg.
     read_command show_number n
       ([''compute'', ''instance'', ''list-operations-by-parent'', ''--parent-id'', cli_projectId n, ''--page-size'', ''999''] @ pg))"

text \<open>\<open>start\<close>, \<open>stop\<close> and \<open>delete\<close> are \<open>verb\<close>s on one instance; \<open>getInstance\<close> and \<open>getOperation\<close> read one resource.\<close>

definition instance_command :: "(jsnum \<Rightarrow> string) \<Rightarrow> nebius_cli \<Rightarrow> string \<Rightarrow> string \<Rightarrow> jsnum exn + nebius_command" where
  "instance_command show_number n verb ident =
     rbind (assert_resource_id ident) (\<lambda>_.
     mutate_command show_number n [''compute'', ''instance'', verb, ''--id'', ident] None)"

definition start_command :: "(jsnum \<Rightarrow> string) \<Rightarrow> nebius_cli \<Rightarrow> string \<Rightarrow> jsnum exn + nebius_command" where
  "start_command show_number n ident = instance_command show_number n ''start'' ident"

definition stop_command :: "(jsnum \<Rightarrow> string) \<Rightarrow> nebius_cli \<Rightarrow> string \<Rightarrow> jsnum exn + nebius_command" where
  "stop_command show_number n ident = instance_command show_number n ''stop'' ident"

definition delete_command :: "(jsnum \<Rightarrow> string) \<Rightarrow> nebius_cli \<Rightarrow> string \<Rightarrow> jsnum exn + nebius_command" where
  "delete_command show_number n ident = instance_command show_number n ''delete'' ident"

definition get_instance_command :: "(jsnum \<Rightarrow> string) \<Rightarrow> nebius_cli \<Rightarrow> string \<Rightarrow> jsnum exn + nebius_command" where
  "get_instance_command show_number n ident =
     rbind (assert_resource_id ident) (\<lambda>_. read_command show_number n [''compute'', ''instance'', ''get'', ''--id'', ident])"

definition get_operation_command :: "(jsnum \<Rightarrow> string) \<Rightarrow> nebius_cli \<Rightarrow> string \<Rightarrow> jsnum exn + nebius_command" where
  "get_operation_command show_number n ident =
     rbind (assert_resource_id ident) (\<lambda>_.
     read_command show_number n [''compute'', ''instance'', ''operation'', ''get'', ''--id'', ident])"

end
