(* ===== verification/Ssh.thy ===== *)
theory Ssh
  imports Contracts Redaction
begin

text \<open>
  The transport to the guest (\<open>adapters/ssh.ts\<close>): the command line it is reached with, how long an attempt
  may take, and what a failed attempt means. Comparison without case is by \<open>to_lower\<close>.
\<close>

section \<open>The command line\<close>

record ssh_request =
  sr_sshPath :: "string option"
  sr_host :: string
  sr_port :: jsnum
  sr_user :: string
  sr_identityFile :: string
  sr_knownHostsFile :: string
  sr_helper :: string
  sr_stdin :: "string option"
  sr_timeoutSeconds :: jsnum

record ssh_invocation =
  si_command :: string
  si_args :: "string list"
  si_stdin :: "string option"

definition letter_or_digit :: "char \<Rightarrow> bool" where
  "letter_or_digit c \<longleftrightarrow> is_word c \<and> c \<noteq> CHR ''_''"

text \<open>\<open>(?:\d{1,3}\.){3}\d{1,3}\<close>\<close>

fun dotted_groups :: "nat \<Rightarrow> string \<Rightarrow> bool" where
  "dotted_groups 0 s = (s \<noteq> [] \<and> length s \<le> 3 \<and> list_all is_digit s)"
| "dotted_groups (Suc n) s =
     (let d = takeWhile is_digit s in
      d \<noteq> [] \<and> length d \<le> 3 \<and> (case dropWhile is_digit s of c # r \<Rightarrow> c = CHR ''.'' \<and> dotted_groups n r | [] \<Rightarrow> False))"

definition valid_host :: "string \<Rightarrow> bool" where
  "valid_host s \<longleftrightarrow>
     ((s \<noteq> [] \<and> length s \<le> 253 \<and> letter_or_digit (hd s) \<and> letter_or_digit (last s)
       \<and> list_all (\<lambda>c. letter_or_digit c \<or> c = CHR ''.'' \<or> c = CHR ''-'') s)
      \<or> dotted_groups 3 s)
     \<and> \<not> str_includes s ''..''"

definition lower_letter :: "char \<Rightarrow> bool" where
  "lower_letter c \<longleftrightarrow> code_in c 97 122"

definition valid_user :: "string \<Rightarrow> bool" where
  "valid_user s \<longleftrightarrow>
     s \<noteq> [] \<and> (lower_letter (hd s) \<or> hd s = CHR ''_'')
     \<and> list_all (\<lambda>c. lower_letter c \<or> is_digit c \<or> c = CHR ''_'' \<or> c = CHR ''-'') (tl s)"

definition valid_helper :: "string \<Rightarrow> bool" where
  "valid_helper s \<longleftrightarrow>
     prefix ''/opt/cirujano/'' s \<and> drop 14 s \<noteq> []
     \<and> list_all (\<lambda>c. lower_letter c \<or> is_digit c \<or> c = CHR ''-'') (drop 14 s)"

definition is_absolute :: "string \<Rightarrow> bool" where
  "is_absolute s \<longleftrightarrow> prefix ''/'' s"

definition type_error :: "string \<Rightarrow> jsnum exn" where
  "type_error m = Exn TypeError [Lit m]"

definition range_error :: "string \<Rightarrow> jsnum exn" where
  "range_error m = Exn RangeError [Lit m]"

text \<open>\<open>show_number\<close> is the text of a number.\<close>

definition build_ssh_invocation :: "(jsnum \<Rightarrow> string) \<Rightarrow> ssh_request \<Rightarrow> jsnum exn + ssh_invocation" where
  "build_ssh_invocation show_number r =
     (let path = (case sr_sshPath r of None \<Rightarrow> ''/usr/bin/ssh'' | Some p \<Rightarrow> p) in
      rbind (check (is_absolute path) (type_error ''SSH executable path must be absolute'')) (\<lambda>_.
      rbind (check (valid_host (sr_host r)) (type_error ''SSH host must be a validated IP address or DNS name'')) (\<lambda>_.
      rbind (check (is_integer (sr_port r) \<and> \<not> sr_port r < Fin 1 \<and> \<not> Fin 65535 < sr_port r)
        (range_error ''SSH port is invalid'')) (\<lambda>_.
      rbind (check (valid_user (sr_user r)) (type_error ''SSH user is invalid'')) (\<lambda>_.
      rbind (check (is_absolute (sr_identityFile r) \<and> is_absolute (sr_knownHostsFile r))
        (type_error ''SSH private paths must be absolute'')) (\<lambda>_.
      rbind (check (valid_helper (sr_helper r)) (type_error ''SSH helper must be an allowlisted constant path'')) (\<lambda>_.
      rbind (check (is_integer (sr_timeoutSeconds r) \<and> \<not> sr_timeoutSeconds r < Fin 1 \<and> \<not> Fin 60 < sr_timeoutSeconds r)
        (range_error ''SSH timeout is invalid'')) (\<lambda>_.
      Inr \<lparr>si_command = path,
           si_args = [''-o'', ''BatchMode=yes'', ''-o'', ''StrictHostKeyChecking=yes'',
             ''-o'', ''UserKnownHostsFile='' @ sr_knownHostsFile r, ''-o'', ''IdentitiesOnly=yes'',
             ''-o'', ''ConnectTimeout='' @ show_number (sr_timeoutSeconds r), ''-o'', ''ConnectionAttempts=1'',
             ''-i'', sr_identityFile r, ''-p'', show_number (sr_port r), sr_user r @ ''@'' @ sr_host r, sr_helper r],
           si_stdin = sr_stdin r\<rparr>))))))))"

section \<open>Timing\<close>

fun num_floor :: "jsnum \<Rightarrow> jsnum" where
  "num_floor (Fin x) = Fin (of_int \<lfloor>x\<rfloor>)"
| "num_floor a = a"

text \<open>Seconds to connect and milliseconds for the process.\<close>

definition ssh_attempt_timing :: "jsnum \<Rightarrow> jsnum exn + jsnum \<times> jsnum" where
  "ssh_attempt_timing poll =
     rbind (check (is_finite poll \<and> \<not> poll < Fin 2000) (range_error ''pollIntervalMs must be at least 2000'')) (\<lambda>_.
     let process = num_min (Fin 60000) poll in
     Inr (num_floor (num_div (process - Fin 1000) (Fin 1000)), process))"

section \<open>Classifying a failure\<close>

datatype ssh_reason =
    ConnectionRefused | ConnectionReset | ConnectionTimeout | NoRoute | PreBannerReset
  | AttemptTimeout | HostKey | Authentication | IdentityFile | Configuration | HelperFailed | UnknownFailure

fun ssh_reason_str :: "ssh_reason \<Rightarrow> string" where
  "ssh_reason_str ConnectionRefused = ''connection-refused''"
| "ssh_reason_str ConnectionReset = ''connection-reset''"
| "ssh_reason_str ConnectionTimeout = ''connection-timeout''"
| "ssh_reason_str NoRoute = ''no-route''"
| "ssh_reason_str PreBannerReset = ''pre-banner-reset''"
| "ssh_reason_str AttemptTimeout = ''attempt-timeout''"
| "ssh_reason_str HostKey = ''host-key''"
| "ssh_reason_str Authentication = ''authentication''"
| "ssh_reason_str IdentityFile = ''identity-file''"
| "ssh_reason_str Configuration = ''configuration''"
| "ssh_reason_str HelperFailed = ''helper''"
| "ssh_reason_str UnknownFailure = ''unknown''"

fun ssh_transient :: "ssh_reason \<Rightarrow> bool" where
  "ssh_transient ConnectionRefused = True"
| "ssh_transient ConnectionReset = True"
| "ssh_transient ConnectionTimeout = True"
| "ssh_transient NoRoute = True"
| "ssh_transient PreBannerReset = True"
| "ssh_transient _ = False"

record ssh_result =
  sx_exitCode :: "jsnum option"
  sx_timedOut :: bool
  sx_stdout :: string
  sx_stderr :: string

text \<open>\<open>split(/[\r\n]/)\<close>; the other line separators are no code units below 256.\<close>

fun split_lines :: "string \<Rightarrow> string list" where
  "split_lines [] = [[]]"
| "split_lines (c # s) =
     (if c = CHR 0x0A \<or> c = CHR 0x0D then [] # split_lines s
      else (case split_lines s of [] \<Rightarrow> [[c]] | l # ls \<Rightarrow> (c # l) # ls))"

text \<open>What follows the first occurrence of \<open>t\<close>.\<close>

fun after_first :: "string \<Rightarrow> string \<Rightarrow> string option" where
  "after_first t [] = (if t = [] then Some [] else None)"
| "after_first t (c # s) = (if prefix t (c # s) then Some (drop (length t) (c # s)) else after_first t s)"

definition identity_line :: "string \<Rightarrow> bool" where
  "identity_line line \<longleftrightarrow>
     (case after_first ''identity file '' line of None \<Rightarrow> False | Some rest \<Rightarrow> str_includes rest '' not accessible'')"

text \<open>\<open>lead\<close>, then \<open>\S+ port \d+: \<close>; what remains of the line.\<close>

definition host_and_port :: "string \<Rightarrow> string \<Rightarrow> string option" where
  "host_and_port lead line =
     (if \<not> prefix lead line then None
      else let r = drop (length lead) line; host = takeWhile (\<lambda>c. \<not> is_space c) r;
               r = dropWhile (\<lambda>c. \<not> is_space c) r in
           if host = [] \<or> \<not> prefix '' port '' r then None
           else let d = drop 6 r; digits = takeWhile is_digit d; e = dropWhile is_digit d in
                if digits = [] \<or> \<not> prefix '': '' e then None else Some (drop 2 e))"

definition connect_line :: "string list \<Rightarrow> string \<Rightarrow> bool" where
  "connect_line endings line \<longleftrightarrow>
     (case host_and_port ''ssh: connect to host '' line of
        None \<Rightarrow> False
      | Some rest \<Rightarrow> list_ex (\<lambda>e. rest = e \<or> rest = e @ ''.'') endings)"

definition banner_line :: "string \<Rightarrow> bool" where
  "banner_line line \<longleftrightarrow>
     line = ''kex_exchange_identification: read: connection reset by peer''
     \<or> host_and_port ''banner exchange: connection to '' line = Some ''connection reset by peer''"

text \<open>\<open>command-line line \d+:\<close> somewhere in the text.\<close>

fun configuration_line :: "string \<Rightarrow> bool" where
  "configuration_line [] = False"
| "configuration_line (c # s) =
     ((prefix ''command-line line '' (c # s)
       \<and> (let d = drop 18 (c # s) in
          takeWhile is_digit d \<noteq> [] \<and> prefix '':'' (dropWhile is_digit d)))
      \<or> configuration_line s)"

definition classify_ssh_failure :: "ssh_result \<Rightarrow> ssh_reason" where
  "classify_ssh_failure r =
     (let message = map to_lower (sx_stderr r); rows = split_lines message in
      if sx_timedOut r then AttemptTimeout
      else if (case sx_exitCode r of None \<Rightarrow> True | Some c \<Rightarrow> \<not> num_eq c (Fin 255)) then HelperFailed
      else if str_includes message ''remote host identification has changed''
        \<or> str_includes message ''host key verification failed'' then HostKey
      else if str_includes message ''permission denied'' then Authentication
      else if list_ex identity_line rows then IdentityFile
      else if str_includes message ''bad configuration option'' \<or> configuration_line message then Configuration
      else if list_ex banner_line rows then PreBannerReset
      else if list_ex (connect_line [''connection refused'']) rows then ConnectionRefused
      else if list_ex (connect_line [''connection reset by peer'']) rows then ConnectionReset
      else if list_ex (connect_line [''connection timed out'', ''operation timed out'']) rows then ConnectionTimeout
      else if list_ex (connect_line [''no route to host'']) rows then NoRoute
      else UnknownFailure)"

end
