(* ===== verification/Service.thy ===== *)
theory Service
  imports GithubClient Nebius Ssh Controller
begin

text \<open>
  The runner's service on its host (\<open>cli/runner-service.ts\<close>): the context of a command, the state it
  works on (the adapter of GitHub, the commands run at the provider and on the guest, the files of the
  state directory), and the readings and guards the commands share. The world answers the processes, the
  clock and the file system; what a process was asked is recorded in the state.
\<close>

section \<open>Context, world and state\<close>

record run_context =
  rc_config :: runner_config
  rc_permit :: "permit option"
  rc_identity :: permit_identity
  rc_nebius :: nebius_cli
  rc_owner :: string
  rc_repository :: string
  rc_stateDirectory :: string
  rc_environment :: "string \<Rightarrow> string option"

text \<open>The files \<open>controller-state.json\<close>, \<open>direct-action-state.json\<close> and so on.\<close>

datatype host_file = ControllerFile | DirectActionFile | ActiveJobFile | AssignmentFile | AccountingFile

text \<open>One run of \<open>ssh\<close>: the invocation, the limit of the process and the secrets its output is cleared of.\<close>

record guest_call =
  call_invocation :: ssh_invocation
  call_timeoutMs :: jsnum
  call_secrets :: "string list"

text \<open>\<open>persistHelperFailure\<close> without the tails of the output.\<close>

record helper_failure =
  hf_observedAtMs :: jsnum
  hf_helper :: string
  hf_reason :: ssh_reason
  hf_exitCode :: "jsnum option"
  hf_timedOut :: bool

record host =
  h_github :: gh_client
  h_commands :: "nebius_command list"
  h_guest :: "guest_call list"
  h_failures :: "helper_failure list"
  h_files :: "host_file \<Rightarrow> jsval option"
  h_writes :: nat

text \<open>
  \<open>hw_knownHosts\<close> is the check of the fingerprint with the writing of the \<open>known_hosts\<close> file,
  \<open>hw_cloudInit\<close> the user data read from the guest's files, \<open>hw_write\<close> what the n-th replacement of a
  file does.
\<close>

record host_world =
  hw_github :: gh_world
  hw_nebius :: "nat \<Rightarrow> nebius_command \<Rightarrow> jsnum exn + nebius_result"
  hw_ssh :: "nat \<Rightarrow> guest_call \<Rightarrow> jsnum exn + ssh_result"
  hw_knownHosts :: "nat \<Rightarrow> string \<Rightarrow> jsnum exn + unit"
  hw_cloudInit :: "jsnum exn + string"
  hw_write :: "nat \<Rightarrow> fault"

type_synonym 'a service = "(host, 'a) run"

definition service_fail :: "jsnum message \<Rightarrow> 'a service" where
  "service_fail m = run_return (Inl (plain_error m))"

definition on_github :: "'a gh \<Rightarrow> 'a service" where
  "on_github m h =
     (case m (h_github h) of None \<Rightarrow> None | Some (c, r) \<Rightarrow> Some (h\<lparr>h_github := c\<rparr>, r))"

text \<open>\<open>Date.now()\<close>\<close>

definition service_now :: "host_world \<Rightarrow> jsnum service" where
  "service_now w h =
     (let (now, c) = tick_clock (hw_github w) (h_github h) in Some (h\<lparr>h_github := c\<rparr>, Inr now))"

definition run_command :: "host_world \<Rightarrow> nebius_command \<Rightarrow> nebius_result service" where
  "run_command w cmd h = Some (h\<lparr>h_commands := h_commands h @ [cmd]\<rparr>, hw_nebius w (length (h_commands h)) cmd)"

text \<open>A call of the provider's adapter: the command it builds, or its refusal of the arguments.\<close>

definition call_nebius :: "host_world \<Rightarrow> jsnum exn + nebius_command \<Rightarrow> nebius_result service" where
  "call_nebius w cmd = run_bind (run_return cmd) (run_command w)"

definition show_num :: "host_world \<Rightarrow> jsnum \<Rightarrow> string" where
  "show_num w = wshow_number (hw_github w)"

text \<open>\<open>writeJournalAtomic\<close> of a value as it is read back: the file is replaced as a whole, or the write throws before or after that.\<close>

definition write_file :: "host_world \<Rightarrow> host_file \<Rightarrow> jsval \<Rightarrow> unit service" where
  "write_file w f v h =
     (let h0 = h\<lparr>h_writes := Suc (h_writes h)\<rparr>;
          h1 = h0\<lparr>h_files := (h_files h)(f := Some v)\<rparr>
      in case hw_write w (h_writes h) of
           NoFault \<Rightarrow> Some (h1, Inr ())
         | FaultBefore e \<Rightarrow> Some (h0, Inl e)
         | FaultAfter e \<Rightarrow> Some (h1, Inl e))"

definition host_read :: "host_file \<Rightarrow> jsval option service" where
  "host_read f h = Some (h, Inr (h_files h f))"

section \<open>The environment\<close>

definition absolute_path :: "string \<Rightarrow> string \<Rightarrow> jsnum exn + string" where
  "absolute_path v name =
     rbind (check (starts_with v ''/'') (plain_error [Lit (name @ '' path must be absolute'')])) (\<lambda>_. Inr v)"

definition required_environment :: "run_context \<Rightarrow> string \<Rightarrow> jsnum exn + string" where
  "required_environment ctx name =
     (case rc_environment ctx name of
        None \<Rightarrow> Inl (plain_error [Lit (name @ '' is required'')])
      | Some v \<Rightarrow> if v = [] then Inl (plain_error [Lit (name @ '' is required'')]) else Inr v)"

definition required_absolute_environment :: "run_context \<Rightarrow> string \<Rightarrow> jsnum exn + string" where
  "required_absolute_environment ctx name =
     rbind (required_environment ctx name) (\<lambda>v. absolute_path v name)"

section \<open>Permits\<close>

definition require_permit :: "run_context \<Rightarrow> host_world \<Rightarrow> permit_operation \<Rightarrow> unit service" where
  "require_permit ctx w oper =
     run_bind (service_now w) (\<lambda>now.
     case validate_permit (rc_permit ctx) (rc_identity ctx) now of
       Invalid m \<Rightarrow> service_fail m
     | Valid \<Rightarrow>
         if permits (rc_permit ctx) oper then run_return (Inr ())
         else service_fail [Lit ''permit does not authorize '', Lit (permit_operation_str oper)])"

definition require_recovery_permit :: "run_context \<Rightarrow> host_world \<Rightarrow> permit_operation \<Rightarrow> unit service" where
  "require_recovery_permit ctx w oper =
     (case rc_permit ctx of
        None \<Rightarrow> service_fail [Lit ''approval permit is absent'']
      | Some p \<Rightarrow>
          (case validate_permit (Some p) (rc_identity ctx) (issuedAtMs p) of
             Invalid m \<Rightarrow> service_fail m
           | Valid \<Rightarrow>
               run_bind (service_now w) (\<lambda>now.
               if now < issuedAtMs p then service_fail [Lit ''permit is not active yet'']
               else if \<not> recoveryAllowed p then service_fail [Lit ''permit does not authorize recovery'']
               else if oper \<notin> set (operations p)
               then service_fail [Lit ''permit does not authorize '', Lit (permit_operation_str oper), Lit '' recovery'']
               else run_return (Inr ()))))"

section \<open>Answers of the provider\<close>

definition require_successful :: "nebius_result \<Rightarrow> string \<Rightarrow> jsnum exn + nebius_result" where
  "require_successful r name =
     (if nr_timedOut r then Inl (plain_error [Lit (name @ '' timed out'')])
      else if \<not> num_eq (nr_exitCode r) (Fin 0) then Inl (plain_error [Lit (name @ '' failed: ''), Lit (nr_stderr r)])
      else Inr r)"

text \<open>A refusal with the message of its error, or the result as it is.\<close>

definition refuse_on_capacity :: "nebius_result \<Rightarrow> string \<Rightarrow> capacity_refusal \<times> jsnum message + nebius_result" where
  "refuse_on_capacity r name =
     (if nr_timedOut r \<or> num_eq (nr_exitCode r) (Fin 0) then Inr r
      else case classify_capacity_refusal (nr_stderr r @ CHR 0x0A # nr_stdout r) of
             None \<Rightarrow> Inr r
           | Some refusal \<Rightarrow> Inl (refusal,
               [Lit (name @ '' refused for exhausted quota''),
                Lit (if quotas refusal = [] then [] else '' ('' @ join_with '','' (quotas refusal) @ '')'')]))"

definition provider_operation :: "host_world \<Rightarrow> nebius_result \<Rightarrow> string \<Rightarrow> jsnum exn + string option" where
  "provider_operation w r name =
     rbind (require_successful r name) (\<lambda>r. parse_mutation_operation_id (wjson_parse (hw_github w)) (nr_stdout r))"

section \<open>Listings\<close>

text \<open>The loop over the pages of a listing, with the pages that are left.\<close>

fun list_pages ::
  "host_world \<Rightarrow> (string option \<Rightarrow> jsnum exn + nebius_command) \<Rightarrow> string
   \<Rightarrow> (string \<Rightarrow> jsnum exn + 'a parsed_page) \<Rightarrow> nat \<Rightarrow> string option \<Rightarrow> 'a list \<Rightarrow> 'a list service" where
  "list_pages w command what parse 0 token items =
     service_fail [Lit (''Nebius '' @ what @ '' pagination exceeded its bound'')]"
| "list_pages w command what parse (Suc left) token items =
     run_bind (call_nebius w (command token)) (\<lambda>res.
     run_bind (run_return (require_successful res (''Nebius '' @ what @ '' list''))) (\<lambda>res.
     run_bind (run_return (parse (nr_stdout res))) (\<lambda>pg.
     case snd pg of
       None \<Rightarrow> run_return (Inr (items @ fst pg))
     | Some t \<Rightarrow> list_pages w command what parse left (Some t) (items @ fst pg))))"

definition list_instances :: "run_context \<Rightarrow> host_world \<Rightarrow> nebius_instance list service" where
  "list_instances ctx w =
     list_pages w (list_instances_command (show_num w) (rc_nebius ctx)) ''instance''
       (parse_instance_page (wjson_parse (hw_github w)) (wnumber_of (hw_github w))) 10000 None []"

definition list_operations :: "run_context \<Rightarrow> host_world \<Rightarrow> nebius_operation list service" where
  "list_operations ctx w =
     list_pages w (list_operations_command (show_num w) (rc_nebius ctx)) ''operation''
       (parse_operation_page (wjson_parse (hw_github w)) (wnumber_of (hw_github w))) 10000 None []"

definition read_repository :: "run_context \<Rightarrow> host_world \<Rightarrow> github_repository service" where
  "read_repository ctx w =
     run_bind (on_github (get_repository (hw_github w) (rc_owner ctx) (rc_repository ctx))) (\<lambda>r.
     if \<not> num_eq (gh_id r) (repo_id (repository (rc_config ctx)))
       \<or> gh_nameWithOwner r \<noteq> nameWithOwner (repository (rc_config ctx))
     then service_fail [Lit ''live repository identity does not match configuration'']
     else run_return (Inr r))"

section \<open>The owned VM\<close>

definition expected_resource_of :: "run_context \<Rightarrow> expected_resource" where
  "expected_resource_of ctx =
     \<lparr>ex_parentId = nebius_projectId (nebius (rc_config ctx)),
      ex_name = own_resourcePrefix (config_ownership (rc_config ctx)) @ ''-vm'',
      ex_labels = [(CONTROLLER_LABEL, own_controllerId (config_ownership (rc_config ctx))),
        (CONFIG_LABEL, configHash (rc_identity ctx))],
      ex_nebius = nebius (rc_config ctx), ex_instanceId = None\<rparr>"

definition instance_matches :: "nebius_instance \<Rightarrow> expected_resource \<Rightarrow> bool" where
  "instance_matches i e \<longleftrightarrow>
     ni_parentId i = ex_parentId e \<and> ni_name i = ex_name e
     \<and> list_all (\<lambda>(k, v). map_of (ni_labels i) k = Some v) (ex_labels e)
     \<and> length (ni_labels i) = length (ex_labels e)
     \<and> recoveryPolicy i = ''FAIL'' \<and> ni_platform i = platform (ex_nebius e)
     \<and> ni_preset i = preset (ex_nebius e) \<and> ni_subnetId i = subnetId (ex_nebius e)
     \<and> ni_diskType i = disk_type_code (diskType (ex_nebius e))
     \<and> num_eq (ni_diskSizeGiB i) (diskSizeGiB (ex_nebius e)) \<and> ni_imageId i = imageId (ex_nebius e)"

definition exact_owned_instance ::
  "nebius_instance list \<Rightarrow> expected_resource \<Rightarrow> jsnum exn + nebius_instance option" where
  "exact_owned_instance instances e =
     (let matches = filter (\<lambda>i. instance_matches i e) instances in
      rbind (check (length matches \<le> 1)
        (plain_error [Lit ''found '', Num (Fin (of_nat (length matches))), Lit '' matching owned VMs''])) (\<lambda>_.
      rbind (check (\<not> (matches = [] \<and> list_ex (\<lambda>i. related_to_expected i e) instances))
        (plain_error [Lit ''found a related VM whose immutable identity does not match''])) (\<lambda>_.
      Inr (case matches of [] \<Rightarrow> None | i # _ \<Rightarrow> Some i))))"

text \<open>The snapshot of a complete listing, and that of a failed one.\<close>

definition provider_of_listing :: "nebius_instance list \<Rightarrow> expected_resource \<Rightarrow> provider_snapshot" where
  "provider_of_listing instances e =
     (let exact = filter (\<lambda>i. instance_matches i e) instances;
          related = filter (\<lambda>i. related_to_expected i e) instances;
          snapshot = (\<lambda>v own n net. \<lparr>prov_complete = True, vmStatus = v, ownership = own, ownedMatches = n,
            outstandingOperation = None, network = net\<rparr>)
      in case exact of
           [] \<Rightarrow> if related \<noteq> [] then snapshot VUnknown OForeign (Fin 0) None
                 else snapshot VAbsent OAbsent (Fin 0) None
         | [i] \<Rightarrow> snapshot (ni_state i) OOwned (Fin 1)
                   (map_option (\<lambda>ip. \<lparr>vmId = ni_id i, ipAddress = ip\<rparr>) (publicIp i))
         | _ \<Rightarrow> snapshot VUnknown OAmbiguous (Fin (of_nat (length exact))) None)"

definition unknown_provider :: provider_snapshot where
  "unknown_provider =
     \<lparr>prov_complete = False, vmStatus = VUnknown, ownership = OUnknown, ownedMatches = Fin 0,
      outstandingOperation = None, network = None\<rparr>"

definition observe_provider :: "run_context \<Rightarrow> host_world \<Rightarrow> provider_snapshot service" where
  "observe_provider ctx w =
     run_bind (run_try (list_instances ctx w)) (\<lambda>res.
     run_return (Inr (case res of Inl _ \<Rightarrow> unknown_provider
       | Inr instances \<Rightarrow> provider_of_listing instances (expected_resource_of ctx))))"

section \<open>The journal and the registration\<close>

definition prior_state :: "controller_state option service" where
  "prior_state =
     run_bind (host_read ControllerFile) (\<lambda>f.
     case f of None \<Rightarrow> run_return (Inr None)
     | Some v \<Rightarrow> run_return (rbind (parse_controller_state v) (\<lambda>s. Inr (Some s))))"

text \<open>\<open>Math.max(1, state?.lifecycle.startCount ?? 1)\<close>\<close>

definition current_generation :: "controller_state option \<Rightarrow> jsnum" where
  "current_generation s = num_max (Fin 1) (case s of None \<Rightarrow> Fin 1 | Some s \<Rightarrow> startCount (lifecycle s))"

definition expected_runner_name :: "run_context \<Rightarrow> host_world \<Rightarrow> controller_state option \<Rightarrow> string" where
  "expected_runner_name ctx w s =
     own_resourcePrefix (config_ownership (rc_config ctx)) @ ''-g'' @ show_num w (current_generation s)"

definition owned_runner ::
  "run_context \<Rightarrow> host_world \<Rightarrow> controller_state option \<Rightarrow> repository_runner list \<Rightarrow> runner_ownership" where
  "owned_runner ctx w s runners =
     classify_owned_runners runners (expected_runner_name ctx w s) (runnerLabel (rc_config ctx)) None"

definition read_runners :: "run_context \<Rightarrow> host_world \<Rightarrow> repository_runner collection service" where
  "read_runners ctx w = on_github (list_runners (hw_github w) (rc_owner ctx) (rc_repository ctx))"

definition reason_or :: "'a collection \<Rightarrow> string \<Rightarrow> jsnum message" where
  "reason_or c m = (case col_reason c of None \<Rightarrow> [Lit m] | Some r \<Rightarrow> r)"

definition remove_owned_registration ::
  "run_context \<Rightarrow> host_world \<Rightarrow> controller_state option \<Rightarrow> string \<Rightarrow> bool \<Rightarrow> unit service" where
  "remove_owned_registration ctx w s phase refuseBusy =
     run_bind (read_runners ctx w) (\<lambda>runners.
     if \<not> col_complete runners
     then service_fail (reason_or runners (''GitHub runner observation is incomplete '' @ phase))
     else
     let own = owned_runner ctx w s (col_items runners) in
     if refuseBusy \<and> (case ro_runner own of None \<Rightarrow> False | Some r \<Rightarrow> runner_busy r)
     then service_fail [Lit (''owned runner reports busy '' @ phase @ ''; refusing to continue'')]
     else if ro_ownership own = OOwned
     then on_github (remove_owned_runner (hw_github w) (rc_owner ctx) (rc_repository ctx) own)
     else if ro_ownership own \<noteq> OAbsent
     then service_fail [Lit (''runner ownership is '' @ ownership_status_str (ro_ownership own) @ '' '' @ phase)]
     else run_return (Inr ()))"

end
