(* ===== verification/Guest.thy ===== *)
theory Guest
  imports Service
begin

text \<open>
  The guest as the service sees it (\<open>cli/runner-service.ts\<close>): its helpers are run over \<open>ssh\<close>, and its
  status is strictly read back.
\<close>

section \<open>The status of the guest\<close>

definition GUEST_STATUSES :: "guest_status list" where
  "GUEST_STATUSES = [GOffline, GBooting, GReady, GBusy, GDraining, GDrained, GFailed, GUnknown]"

fun guest_status_str :: "guest_status \<Rightarrow> string" where
  "guest_status_str GOffline = ''offline''"
| "guest_status_str GBooting = ''booting''"
| "guest_status_str GReady = ''ready''"
| "guest_status_str GBusy = ''busy''"
| "guest_status_str GDraining = ''draining''"
| "guest_status_str GDrained = ''drained''"
| "guest_status_str GFailed = ''failed''"
| "guest_status_str GUnknown = ''unknown''"

text \<open>\<open>ExtendedGuestSnapshot\<close>\<close>

record guest_report = guest_snapshot +
  guest_networkEgressBytes :: "jsnum option"

definition GUEST_KEYS :: "string list" where
  "GUEST_KEYS = [''complete'', ''status'', ''admissionEnabled'', ''runnerActive'', ''workerActive'', ''grant'',
     ''watchdogReady'', ''sshIdentityVerified'', ''registrationReady'', ''networkEgressBytes'']"

definition guest_grant :: "jsval \<Rightarrow> jsnum exn + start_grant option" where
  "guest_grant v =
     (if v = JNull then Inr None
      else rbind (require (as_obj v) (plain_error [Lit ''guest grant is invalid''])) (\<lambda>source.
      rbind (check (integer_num (get_prop source ''generation'') \<and> finite_num (get_prop source ''startedAtMs'')
          \<and> finite_num (get_prop source ''deadlineMs''))
        (plain_error [Lit ''guest grant fields are invalid''])) (\<lambda>_.
      Inr (Some \<lparr>grant_generation = num_of (get_prop source ''generation''),
        grant_startedAtMs = num_of (get_prop source ''startedAtMs''),
        grant_deadlineMs = num_of (get_prop source ''deadlineMs'')\<rparr>))))"

definition nullable_boolean :: "jsval \<Rightarrow> bool" where
  "nullable_boolean v \<longleftrightarrow> v = JNull \<or> as_bool v \<noteq> None"

definition parse_guest_snapshot :: "(string \<Rightarrow> jsval option) \<Rightarrow> string \<Rightarrow> jsnum exn + guest_report" where
  "parse_guest_snapshot json_parse text =
     rbind (require (json_parse text) (plain_error [Lit ''guest status is not valid JSON''])) (\<lambda>parsed.
     rbind (require (as_obj parsed) (plain_error [Lit ''guest status must be an object''])) (\<lambda>item.
     rbind (reject (unknown_key item GUEST_KEYS) (\<lambda>_. plain_error [Lit ''guest status contains an unknown field''])) (\<lambda>_.
     let bad = plain_error [Lit ''guest status fields are invalid''] in
     rbind (require (as_bool (get_prop item ''complete'')) bad) (\<lambda>complete.
     rbind (require (Option.bind (as_str (get_prop item ''status'')) (of_str guest_status_str GUEST_STATUSES)) bad) (\<lambda>status.
     rbind (reject (find (\<lambda>k. \<not> nullable_boolean (get_prop item k)) [''admissionEnabled'', ''runnerActive'', ''workerActive''])
       (\<lambda>k. plain_error [Lit (''guest '' @ k @ '' is invalid'')])) (\<lambda>_.
     rbind (guest_grant (get_prop item ''grant'')) (\<lambda>g.
     Inr \<lparr>guest_complete = complete, guestStatus = status,
          admissionEnabled = as_bool (get_prop item ''admissionEnabled''),
          runnerActive = as_bool (get_prop item ''runnerActive''),
          workerActive = as_bool (get_prop item ''workerActive''), grant = g,
          watchdogReady = as_bool (get_prop item ''watchdogReady''),
          sshIdentityVerified = as_bool (get_prop item ''sshIdentityVerified''),
          registrationReady = as_bool (get_prop item ''registrationReady''),
          guest_networkEgressBytes = (case get_prop item ''networkEgressBytes'' of
             JNum n \<Rightarrow> if is_finite n \<and> Fin 0 \<le> n then Some n else None | _ \<Rightarrow> None)\<rparr>)))))))"

section \<open>Running a helper\<close>

text \<open>\<open>SshInvocationError\<close>: the helper and the result of its process.\<close>

datatype guest_failure = GuestFailure (gf_helper: string) (gf_result: ssh_result)

definition gf_reason :: "guest_failure \<Rightarrow> ssh_reason" where
  "gf_reason f = classify_ssh_failure (gf_result f)"

definition ssh_invocation_error :: "guest_failure \<Rightarrow> jsnum exn" where
  "ssh_invocation_error f = Exn SshInvocationError [Lit (gf_helper f), Lit '' failed: '', Lit (ssh_reason_str (gf_reason f))]"

text \<open>The diagnostics are best effort: a failure to append them is swallowed.\<close>

definition persist_helper_failure :: "host_world \<Rightarrow> guest_failure \<Rightarrow> unit service" where
  "persist_helper_failure w f =
     run_bind (service_now w) (\<lambda>now h.
     Some (h\<lparr>h_failures := h_failures h @ [\<lparr>hf_observedAtMs = now, hf_helper = gf_helper f, hf_reason = gf_reason f,
       hf_exitCode = sx_exitCode (gf_result f), hf_timedOut = sx_timedOut (gf_result f)\<rparr>]\<rparr>, Inr ()))"

definition prepare_known_hosts :: "host_world \<Rightarrow> string \<Rightarrow> unit service" where
  "prepare_known_hosts w ip h = Some (h, hw_knownHosts w (length (h_guest h)) ip)"

definition run_ssh :: "host_world \<Rightarrow> guest_call \<Rightarrow> ssh_result service" where
  "run_ssh w call h = Some (h\<lparr>h_guest := h_guest h @ [call]\<rparr>, hw_ssh w (length (h_guest h)) call)"

definition ssh_failed :: "ssh_result \<Rightarrow> bool" where
  "ssh_failed r \<longleftrightarrow> sx_timedOut r \<or> (case sx_exitCode r of None \<Rightarrow> True | Some c \<Rightarrow> \<not> num_eq c (Fin 0))"

text \<open>The identity file, the executable, and the seconds and milliseconds of an attempt.\<close>

definition ssh_settings :: "run_context \<Rightarrow> jsnum exn + string \<times> string \<times> jsnum \<times> jsnum" where
  "ssh_settings ctx =
     rbind (required_absolute_environment ctx ''CIRUJANO_SSH_KEY_PATH'') (\<lambda>key.
     rbind (absolute_path (case rc_environment ctx ''CIRUJANO_SSH_PATH'' of None \<Rightarrow> ''/usr/bin/ssh'' | Some p \<Rightarrow> p)
       ''SSH executable'') (\<lambda>path.
     rbind (ssh_attempt_timing (pollIntervalMs (timing (rc_config ctx)))) (\<lambda>(connect, process).
     Inr (key, path, connect, process))))"

definition try_guest ::
  "run_context \<Rightarrow> host_world \<Rightarrow> string \<Rightarrow> string option \<Rightarrow> string \<Rightarrow> string \<Rightarrow> string list \<Rightarrow> bool
   \<Rightarrow> (guest_failure + string) service" where
  "try_guest ctx w ident public helper stdin secrets persist =
     (case public of
        None \<Rightarrow> service_fail [Lit ''VM '', Lit ident, Lit '' has no public IP'']
      | Some ip \<Rightarrow>
          run_bind (run_return (ssh_settings ctx)) (\<lambda>(key, path, connect, process).
          run_bind (prepare_known_hosts w ip) (\<lambda>_.
          run_bind (run_return (build_ssh_invocation (show_num w)
            \<lparr>sr_sshPath = Some path, sr_host = ip, sr_port = Fin 22, sr_user = ''runner'', sr_identityFile = key,
             sr_knownHostsFile = rc_stateDirectory ctx @ ''/known_hosts'', sr_helper = helper, sr_stdin = Some stdin,
             sr_timeoutSeconds = connect\<rparr>)) (\<lambda>invocation.
          run_bind (run_ssh w \<lparr>call_invocation = invocation, call_timeoutMs = process, call_secrets = secrets\<rparr>) (\<lambda>res.
          if ssh_failed res
          then (let f = GuestFailure helper res in
                run_bind (if persist \<and> \<not> ssh_transient (gf_reason f) then persist_helper_failure w f
                          else run_return (Inr ())) (\<lambda>_.
                run_return (Inr (Inl f))))
          else run_return (Inr (Inr (sx_stdout res))))))))"

text \<open>\<open>runGuest\<close>, with the error thrown.\<close>

definition run_guest ::
  "run_context \<Rightarrow> host_world \<Rightarrow> nebius_instance \<Rightarrow> string \<Rightarrow> string \<Rightarrow> string list \<Rightarrow> string service" where
  "run_guest ctx w i helper stdin secrets =
     run_bind (try_guest ctx w (ni_id i) (publicIp i) helper stdin secrets True) (\<lambda>r.
     case r of Inl f \<Rightarrow> run_return (Inl (ssh_invocation_error f)) | Inr out \<Rightarrow> run_return (Inr out))"

section \<open>Observing the guest\<close>

definition absent_guest :: guest_report where
  "absent_guest =
     \<lparr>guest_complete = True, guestStatus = GOffline, admissionEnabled = Some False, runnerActive = Some False,
      workerActive = Some False, grant = None, watchdogReady = None, sshIdentityVerified = None,
      registrationReady = None, guest_networkEgressBytes = None\<rparr>"

definition unobserved_guest :: "vm_status \<Rightarrow> guest_report" where
  "unobserved_guest v =
     \<lparr>guest_complete = False, guestStatus = (if v = VStarting then GBooting else GUnknown), admissionEnabled = None,
      runnerActive = None, workerActive = None, grant = None, watchdogReady = None, sshIdentityVerified = None,
      registrationReady = None, guest_networkEgressBytes = None\<rparr>"

definition status_probe :: "run_context \<Rightarrow> host_world \<Rightarrow> resolved_vm_network \<Rightarrow> guest_report service" where
  "status_probe ctx w net =
     run_bind (try_guest ctx w (vmId net) (Some (ipAddress net)) ''/opt/cirujano/status'' [] [] False) (\<lambda>r.
     case r of Inl f \<Rightarrow> run_return (Inl (ssh_invocation_error f))
     | Inr out \<Rightarrow> run_return (parse_guest_snapshot (wjson_parse (hw_github w)) out))"

definition observe_guest :: "run_context \<Rightarrow> host_world \<Rightarrow> provider_snapshot \<Rightarrow> guest_report service" where
  "observe_guest ctx w prov =
     (if vmStatus prov = VAbsent \<or> vmStatus prov = VStopped then run_return (Inr absent_guest)
      else if ownership prov \<noteq> OOwned then run_return (Inr (unobserved_guest (vmStatus prov)))
      else case network prov of
        None \<Rightarrow> run_return (Inr (unobserved_guest (vmStatus prov)))
      | Some net \<Rightarrow>
          run_bind (run_try (status_probe ctx w net)) (\<lambda>res.
          run_return (Inr (case res of Inl _ \<Rightarrow> unobserved_guest (vmStatus prov) | Inr g \<Rightarrow> g))))"

end
