(* ===== verification/Effects.thy ===== *)
theory Effects
  imports Guest
begin

text \<open>
  The two callbacks the controller's tick is given (\<open>cli/runner-service.ts\<close>): \<open>executeEffect\<close>, which
  carries an effect out, and \<open>reconcileEffect\<close>, which looks whether a pending one came true.
\<close>

section \<open>Carrying an effect out\<close>

definition executed :: "string option \<Rightarrow> bool \<Rightarrow> exec_outcome" where
  "executed oper resolved = Executed \<lparr>er_operationId = oper, er_resolved = resolved, er_readback = None\<rparr>"

text \<open>\<open>operation(await context.nebius...., name)\<close>, and the same behind \<open>refuseOnCapacity\<close>.\<close>

definition mutate_instance :: "host_world \<Rightarrow> jsnum exn + nebius_command \<Rightarrow> string \<Rightarrow> string option service" where
  "mutate_instance w cmd name =
     run_bind (call_nebius w cmd) (\<lambda>res. run_return (provider_operation w res name))"

definition mutate_or_refuse :: "host_world \<Rightarrow> jsnum exn + nebius_command \<Rightarrow> string \<Rightarrow> exec_outcome service" where
  "mutate_or_refuse w cmd name =
     run_bind (call_nebius w cmd) (\<lambda>res.
     case refuse_on_capacity res name of
       Inl (refusal, m) \<Rightarrow> run_return (Inr (Refused refusal m))
     | Inr res \<Rightarrow> run_bind (run_return (provider_operation w res name)) (\<lambda>oper. run_return (Inr (executed oper False))))"

definition create_vm :: "run_context \<Rightarrow> host_world \<Rightarrow> exec_outcome service" where
  "create_vm ctx w =
     run_bind (require_permit ctx w OpCreate) (\<lambda>_.
     run_bind (run_return (hw_cloudInit w)) (\<lambda>user_data.
     run_bind (run_return (render_create_request (rc_config ctx) (configHash (rc_identity ctx)) user_data)) (\<lambda>request.
     mutate_or_refuse w (create_command (show_num w) (rc_nebius ctx) request) ''Nebius create'')))"

definition delete_vm ::
  "run_context \<Rightarrow> host_world \<Rightarrow> controller_state option \<Rightarrow> nebius_instance \<Rightarrow> exec_outcome service" where
  "delete_vm ctx w s i =
     run_bind (service_now w) (\<lambda>now.
     case validate_cleanup_permit (rc_permit ctx) (rc_identity ctx) now of
       Invalid m \<Rightarrow> service_fail m
     | Valid \<Rightarrow>
         if ni_state i \<noteq> VStopped
         then service_fail [Lit ''delete-vm requires a stopped VM, found '', Lit (vm_status_str (ni_state i))]
         else
         run_bind (remove_owned_registration ctx w s ''before delete'' True) (\<lambda>_.
         run_bind (mutate_instance w (delete_command (show_num w) (rc_nebius ctx) (ni_id i)) ''Nebius delete'') (\<lambda>oper.
         run_return (Inr (executed oper False)))))"

definition newline :: string where
  "newline = [CHR 0x0A]"

definition lines_of :: "string list \<Rightarrow> string" where
  "lines_of ls = join_with newline ls @ newline"

definition register_runner ::
  "run_context \<Rightarrow> host_world \<Rightarrow> controller_state option \<Rightarrow> nebius_instance \<Rightarrow> exec_outcome service" where
  "register_runner ctx w s i =
     run_bind (require_permit ctx w OpRegister) (\<lambda>_.
     run_bind (on_github (create_registration_token (hw_github w) (rc_owner ctx) (rc_repository ctx))) (\<lambda>token.
     let secret = consume_token token in
     if CHR 0x0A \<in> set secret \<or> CHR 0x0D \<in> set secret
     then service_fail [Lit ''registration token contains a line break'']
     else
     run_bind (run_guest ctx w i ''/opt/cirujano/register-runner''
       (lines_of [nameWithOwner (repository (rc_config ctx)), expected_runner_name ctx w s, runnerLabel (rc_config ctx),
          show_num w (current_generation s), secret]) [secret]) (\<lambda>_.
     run_return (Inr (executed None True)))))"

definition begin_drain ::
  "run_context \<Rightarrow> host_world \<Rightarrow> controller_state option \<Rightarrow> nebius_instance \<Rightarrow> exec_outcome service" where
  "begin_drain ctx w s i =
     run_bind (run_guest ctx w i ''/opt/cirujano/drain'' (lines_of [show_num w (current_generation s)]) []) (\<lambda>_.
     run_bind (remove_owned_registration ctx w s ''after drain'' False) (\<lambda>_.
     run_return (Inr (executed None False))))"

definition resume_admission :: "run_context \<Rightarrow> host_world \<Rightarrow> nebius_instance \<Rightarrow> exec_outcome service" where
  "resume_admission ctx w i =
     run_bind (run_guest ctx w i ''/opt/cirujano/resume-admission'' [] []) (\<lambda>_.
     run_return (Inr (executed None False)))"

text \<open>The effect on the one owned VM.\<close>

definition effect_on_instance ::
  "run_context \<Rightarrow> host_world \<Rightarrow> lifecycle_effect \<Rightarrow> nebius_instance \<Rightarrow> exec_outcome service" where
  "effect_on_instance ctx w eff i =
     (case eff of
        EStartVm _ _ \<Rightarrow> mutate_or_refuse w (start_command (show_num w) (rc_nebius ctx) (ni_id i)) ''Nebius start''
      | EStopVm _ \<Rightarrow>
          run_bind (mutate_instance w (stop_command (show_num w) (rc_nebius ctx) (ni_id i)) ''Nebius stop'') (\<lambda>oper.
          run_return (Inr (executed oper False)))
      | _ \<Rightarrow>
          run_bind prior_state (\<lambda>s.
          case eff of
            EDeleteVm _ \<Rightarrow> delete_vm ctx w s i
          | ERegisterRunner _ \<Rightarrow> register_runner ctx w s i
          | EBeginDrain _ \<Rightarrow> begin_drain ctx w s i
          | EResumeAdmission \<Rightarrow> resume_admission ctx w i
          | _ \<Rightarrow> run_return (Inr (executed None False))))"

fun is_adopt_vm :: "lifecycle_effect \<Rightarrow> bool" where
  "is_adopt_vm (EAdoptVm _ _) = True"
| "is_adopt_vm _ = False"

definition execute_effect :: "run_context \<Rightarrow> host_world \<Rightarrow> lifecycle_effect \<Rightarrow> exec_outcome service" where
  "execute_effect ctx w eff =
     (if is_adopt_vm eff then run_return (Inr (executed None False))
      else
      run_bind (list_instances ctx w) (\<lambda>instances.
      run_bind (run_return (exact_owned_instance instances (expected_resource_of ctx))) (\<lambda>found.
      if is_create_vm eff then create_vm ctx w
      else case found of
        None \<Rightarrow> service_fail [Lit (effect_type_str eff), Lit '' requires one owned VM'']
      | Some i \<Rightarrow> effect_on_instance ctx w eff i)))"

section \<open>Readbacks\<close>

definition json_provider :: "provider_snapshot \<Rightarrow> jsval" where
  "json_provider p = JObj
     ([(''complete'', JBool (prov_complete p)), (''vmStatus'', JStr (vm_status_str (vmStatus p))),
       (''ownership'', JStr (ownership_status_str (ownership p))), (''ownedMatches'', JNum (ownedMatches p)),
       (''outstandingOperation'', case outstandingOperation p of None \<Rightarrow> JNull | Some x \<Rightarrow> JStr x)]
      @ (case network p of None \<Rightarrow> []
         | Some n \<Rightarrow> [(''network'', JObj [(''vmId'', JStr (vmId n)), (''ipAddress'', JStr (ipAddress n))])]))"

definition json_opt_bool :: "bool option \<Rightarrow> jsval" where
  "json_opt_bool b = (case b of None \<Rightarrow> JNull | Some b \<Rightarrow> JBool b)"

definition json_if_known :: "string \<Rightarrow> bool option \<Rightarrow> fields" where
  "json_if_known k b = (case b of None \<Rightarrow> [] | Some b \<Rightarrow> [(k, JBool b)])"

definition json_guest :: "guest_report \<Rightarrow> jsval" where
  "json_guest g = JObj
     ([(''complete'', JBool (guest_complete g)), (''status'', JStr (guest_status_str (guestStatus g))),
       (''admissionEnabled'', json_opt_bool (admissionEnabled g)), (''runnerActive'', json_opt_bool (runnerActive g)),
       (''workerActive'', json_opt_bool (workerActive g)),
       (''grant'', case grant g of None \<Rightarrow> JNull
          | Some x \<Rightarrow> JObj [(''generation'', JNum (grant_generation x)), (''startedAtMs'', JNum (grant_startedAtMs x)),
              (''deadlineMs'', JNum (grant_deadlineMs x))])]
      @ json_if_known ''watchdogReady'' (watchdogReady g) @ json_if_known ''sshIdentityVerified'' (sshIdentityVerified g)
      @ json_if_known ''registrationReady'' (registrationReady g)
      @ (case guest_networkEgressBytes g of None \<Rightarrow> [] | Some n \<Rightarrow> [(''networkEgressBytes'', JNum n)]))"

definition json_refusal :: "capacity_refusal \<Rightarrow> jsval" where
  "json_refusal r = JObj [(''quotas'', JArr (map JStr (quotas r)))]"

definition reconciled :: "bool \<Rightarrow> jsval \<Rightarrow> recon_result" where
  "reconciled resolved readback =
     \<lparr>rr_resolved = resolved, rr_retry = False, rr_retireStoppedStart = False, rr_readback = Some readback,
      rr_capacityRefusal = None\<rparr>"

section \<open>Reconciling a pending effect\<close>

definition absent_provider :: "provider_snapshot \<Rightarrow> bool" where
  "absent_provider p \<longleftrightarrow> prov_complete p \<and> vmStatus p = VAbsent \<and> ownership p = OAbsent \<and> num_eq (ownedMatches p) (Fin 0)"

definition reconcile_lost_registration ::
  "run_context \<Rightarrow> host_world \<Rightarrow> provider_snapshot \<Rightarrow> recon_result service" where
  "reconcile_lost_registration ctx w prov =
     run_bind (read_runners ctx w) (\<lambda>runners.
     if \<not> col_complete runners then run_return (Inr (reconciled False (json_provider prov)))
     else
     run_bind prior_state (\<lambda>s.
     let own = ro_ownership (owned_runner ctx w s (col_items runners)) in
     run_return (Inr (reconciled (own = OAbsent)
       (JObj [(''provider'', json_provider prov), (''runnerOwnership'', JStr (ownership_status_str own))])))))"

definition armed :: "guest_report \<Rightarrow> jsnum \<Rightarrow> bool" where
  "armed g generation \<longleftrightarrow> (case grant g of None \<Rightarrow> False | Some x \<Rightarrow> num_eq (grant_generation x) generation)"

definition json_both :: "provider_snapshot \<Rightarrow> guest_report \<Rightarrow> jsval" where
  "json_both prov g = JObj [(''provider'', json_provider prov), (''guest'', json_guest g)]"

text \<open>The \<open>catch\<close> around arming the grant; each comparison with the deadline looks at the clock again.\<close>

definition arming_failed ::
  "host_world \<Rightarrow> provider_snapshot \<Rightarrow> jsnum \<Rightarrow> guest_failure \<Rightarrow> recon_result service" where
  "arming_failed w prov bootDeadline f =
     (let reason = gf_reason f; r = gf_result f;
          lock_busy = (\<not> sx_timedOut r \<and> (case sx_exitCode r of None \<Rightarrow> False | Some c \<Rightarrow> num_eq c (Fin 4)));
          in_time = (\<lambda>b. if b then run_bind (service_now w) (\<lambda>now. run_return (Inr (now < bootDeadline)))
                         else run_return (Inr False))
      in
      run_bind (in_time lock_busy) (\<lambda>busy.
      if busy
      then run_return (Inr (reconciled False (JObj [(''provider'', json_provider prov), (''grantLockBusy'', JBool True)])))
      else
      run_bind (in_time (ssh_transient reason)) (\<lambda>again.
      if again
      then run_return (Inr (reconciled False (JObj [(''provider'', json_provider prov),
             (''sshReadiness'', JObj [(''transient'', JBool True), (''reason'', JStr (ssh_reason_str reason)),
                (''bootDeadlineMs'', JNum bootDeadline)])])))
      else if ssh_transient reason
      then service_fail [Lit ''ssh readiness failed: boot deadline expired ('', Lit (ssh_reason_str reason), Lit '')'']
      else service_fail [Lit ''ssh readiness failed: '', Lit (ssh_reason_str reason)])))"

text \<open>Arming the grant on the guest, then looking at the guest again.\<close>

definition arm_grant ::
  "run_context \<Rightarrow> host_world \<Rightarrow> pending_effect \<Rightarrow> jsnum \<Rightarrow> jsnum \<Rightarrow> provider_snapshot \<Rightarrow> nebius_instance \<Rightarrow> recon_result service" where
  "arm_grant ctx w p generation deadline prov i =
     (let tm = timing (rc_config ctx) in
      run_bind (service_now w) (\<lambda>now.
      run_bind (try_guest ctx w (ni_id i) (publicIp i) ''/opt/cirujano/arm-grant''
        (lines_of [show_num w generation, show_num w now, show_num w deadline, show_num w (maxJobMs tm),
           show_num w (shutdownMarginMs tm), show_num w (num_max (Fin 0) (generation - Fin 1))]) [] True) (\<lambda>r.
      case r of
        Inl f \<Rightarrow> arming_failed w prov (createdAtMs p + bootTimeoutMs tm) f
      | Inr _ \<Rightarrow>
          run_bind (observe_guest ctx w prov) (\<lambda>g.
          run_return (Inr (reconciled (armed g generation) (json_both prov g)))))))"

definition reconcile_running_start ::
  "run_context \<Rightarrow> host_world \<Rightarrow> pending_effect \<Rightarrow> jsnum \<Rightarrow> jsnum \<Rightarrow> provider_snapshot \<Rightarrow> recon_result service" where
  "reconcile_running_start ctx w p generation deadline prov =
     run_bind (list_instances ctx w) (\<lambda>instances.
     run_bind (run_return (exact_owned_instance instances (expected_resource_of ctx))) (\<lambda>found.
     case found of
       None \<Rightarrow> run_return (Inr (reconciled False (json_provider prov)))
     | Some i \<Rightarrow>
         run_bind (observe_guest ctx w prov) (\<lambda>g.
         if armed g generation then run_return (Inr (reconciled True (json_both prov g)))
         else arm_grant ctx w p generation deadline prov i)))"

definition start_operation :: "nebius_operation list \<Rightarrow> string \<Rightarrow> string \<Rightarrow> nebius_operation option" where
  "start_operation listed oper ident =
     find (\<lambda>x. no_id x = oper \<and> (no_resourceId x = None \<or> no_resourceId x = Some ident)) listed"

definition in_flight :: "nebius_operation list \<Rightarrow> string \<Rightarrow> bool" where
  "in_flight listed ident =
     list_ex (\<lambda>x. (no_resourceId x = Some ident \<or> no_resourceId x = None)
       \<and> (no_state x = PPending \<or> no_state x = PRunning)) listed"

definition refusal_field :: "capacity_refusal option \<Rightarrow> fields" where
  "refusal_field r = (case r of None \<Rightarrow> [] | Some r \<Rightarrow> [(''capacityRefusal'', json_refusal r)])"

definition reconcile_stopped_start ::
  "run_context \<Rightarrow> host_world \<Rightarrow> string \<Rightarrow> provider_snapshot \<Rightarrow> recon_result service" where
  "reconcile_stopped_start ctx w oper prov =
     run_bind (list_instances ctx w) (\<lambda>instances.
     run_bind (run_return (exact_owned_instance instances (expected_resource_of ctx))) (\<lambda>found.
     case found of
       None \<Rightarrow> run_return (Inr (reconciled False (json_provider prov)))
     | Some i \<Rightarrow>
         if ni_state i \<noteq> VStopped then run_return (Inr (reconciled False (json_provider prov)))
         else
         run_bind (list_operations ctx w) (\<lambda>listed.
         let start = start_operation listed oper (ni_id i); busy = in_flight listed (ni_id i);
             refusal = (case start of None \<Rightarrow> None | Some x \<Rightarrow> no_capacityRefusal x)
         in run_return (Inr
           \<lparr>rr_resolved = False, rr_retry = False,
            rr_retireStoppedStart = (case start of None \<Rightarrow> False
              | Some x \<Rightarrow> \<not> busy \<and> no_state x \<in> {PSucceeded, PFailed, PCancelled}),
            rr_readback = Some (JObj ([(''provider'', json_provider prov),
              (''startOperation'', JStr (case start of None \<Rightarrow> ''missing'' | Some x \<Rightarrow> operation_state_str (no_state x))),
              (''inFlight'', JBool busy)] @ refusal_field refusal)),
            rr_capacityRefusal = refusal\<rparr>))))"

definition reconcile_absent_create ::
  "run_context \<Rightarrow> host_world \<Rightarrow> string \<Rightarrow> provider_snapshot \<Rightarrow> recon_result service" where
  "reconcile_absent_create ctx w oper prov =
     run_bind (run_try (list_operations ctx w)) (\<lambda>answer.
     let create = (case answer of Inl _ \<Rightarrow> None | Inr listed \<Rightarrow> find (\<lambda>x. no_id x = oper) listed);
         st = (case create of None \<Rightarrow> ''missing'' | Some x \<Rightarrow> operation_state_str (no_state x));
         refusal = (case create of None \<Rightarrow> None
           | Some x \<Rightarrow> if no_state x = PFailed then no_capacityRefusal x else None)
     in run_return (Inr
       \<lparr>rr_resolved = False, rr_retry = False, rr_retireStoppedStart = False,
        rr_readback = Some (JObj ([(''provider'', json_provider prov), (''createOperation'', JStr st)] @ refusal_field refusal)),
        rr_capacityRefusal = refusal\<rparr>))"

definition reconcile_registration ::
  "run_context \<Rightarrow> host_world \<Rightarrow> provider_snapshot \<Rightarrow> recon_result service" where
  "reconcile_registration ctx w prov =
     run_bind (observe_guest ctx w prov) (\<lambda>g.
     run_bind (read_runners ctx w) (\<lambda>runners.
     if \<not> col_complete runners then run_return (Inr (reconciled False (json_both prov g)))
     else
     run_bind prior_state (\<lambda>s.
     let own = ro_ownership (owned_runner ctx w s (col_items runners)) in
     run_return (Inr (reconciled (own = OOwned \<and> runnerActive g = Some True)
       (JObj [(''provider'', json_provider prov), (''guest'', json_guest g),
          (''runnerOwnership'', JStr (ownership_status_str own))]))))))"

text \<open>What the provider and the guest show of an effect that is done.\<close>

fun provider_shows :: "lifecycle_effect \<Rightarrow> provider_snapshot \<Rightarrow> bool" where
  "provider_shows (EStartVm _ _) prov = False"
| "provider_shows (EStopVm _) prov = (vmStatus prov = VStopped)"
| "provider_shows (ECreateVm _ _ _) prov = (ownership prov = OOwned)"
| "provider_shows (EDeleteVm _) prov = (prov_complete prov \<and> vmStatus prov = VAbsent \<and> ownership prov = OAbsent)"
| "provider_shows _ prov = True"

definition drained :: "guest_report \<Rightarrow> bool" where
  "drained g \<longleftrightarrow> guestStatus g = GDrained \<and> runnerActive g = Some False \<and> workerActive g = Some False"

definition reconcile_effect :: "run_context \<Rightarrow> host_world \<Rightarrow> pending_effect \<Rightarrow> recon_result service" where
  "reconcile_effect ctx w p =
     run_bind (observe_provider ctx w) (\<lambda>prov.
     let rest = run_return (Inr (reconciled (provider_shows (pe_effect p) prov) (json_provider prov))) in
     case pe_effect p of
       ERegisterRunner _ \<Rightarrow>
         if absent_provider prov then reconcile_lost_registration ctx w prov else reconcile_registration ctx w prov
     | EStartVm generation deadline \<Rightarrow>
         if vmStatus prov = VRunning then reconcile_running_start ctx w p generation deadline prov
         else if prov_complete prov \<and> ownership prov = OOwned \<and> num_eq (ownedMatches prov) (Fin 1)
           \<and> vmStatus prov = VStopped
         then (case pe_operationId p of None \<Rightarrow> rest | Some oper \<Rightarrow> reconcile_stopped_start ctx w oper prov)
         else rest
     | ECreateVm _ _ _ \<Rightarrow>
         if absent_provider prov
         then (case pe_operationId p of None \<Rightarrow> rest | Some oper \<Rightarrow> reconcile_absent_create ctx w oper prov)
         else rest
     | EBeginDrain _ \<Rightarrow>
         run_bind (observe_guest ctx w prov) (\<lambda>g. run_return (Inr (reconciled (drained g) (json_both prov g))))
     | EResumeAdmission \<Rightarrow>
         run_bind (observe_guest ctx w prov) (\<lambda>g.
         run_return (Inr (reconciled (admissionEnabled g = Some True) (json_both prov g))))
     | _ \<Rightarrow> rest)"

end
