(* ===== verification/Accounting.thy ===== *)
theory Accounting
  imports Effects Cost
begin

text \<open>
  What the runner keeps beside the controller's journal (\<open>cli/runner-service.ts\<close>): the accounting of
  disk, runtime and network, how a tick advances it together with the journal, the jobs it knows to be
  assigned to its runner, and the files that hold them.
\<close>

section \<open>Advancing the accounting\<close>

record accounting =
  diskStartedAtMs :: "jsnum option"
  diskRetainedMs :: jsnum
  runtimeBaselineMs :: jsnum
  acc_generation :: "jsnum option"
  networkEgressBytes :: jsnum
  networkBaselineBytes :: "jsnum option"
  networkGenerationStartBytes :: "jsnum option"

record observed_input =
  ol_nowMs :: jsnum
  ol_lifecycle :: lifecycle_journal
  providerPresent :: bool
  providerRunning :: bool
  ol_lifetimeMs :: jsnum
  ol_queueComplete :: bool
  ol_ownedBusy :: "bool option"
  ol_guestComplete :: bool
  ol_guestStatus :: guest_status
  ol_guestGeneration :: "jsnum option"
  ol_guestEgress :: "jsnum option"
  ol_accounting :: accounting
  ol_rates :: cost_rates
  ol_diskSizeGiB :: jsnum

definition or_zero :: "jsnum option \<Rightarrow> jsnum" where
  "or_zero x = (case x of None \<Rightarrow> Fin 0 | Some n \<Rightarrow> n)"

definition same_num :: "jsnum option \<Rightarrow> jsnum \<Rightarrow> bool" where
  "same_num x n \<longleftrightarrow> (case x of None \<Rightarrow> False | Some m \<Rightarrow> num_eq m n)"

text \<open>The disk, then the start of a new generation, then the network.\<close>

definition advance_disk :: "observed_input \<Rightarrow> accounting \<Rightarrow> accounting" where
  "advance_disk inp a =
     (let started = (if providerPresent inp \<and> diskStartedAtMs a = None then Some (ol_nowMs inp) else diskStartedAtMs a) in
      case started of
        None \<Rightarrow> a
      | Some t \<Rightarrow> a\<lparr>diskRetainedMs := diskRetainedMs a + num_max (Fin 0) (ol_nowMs inp - t),
                    diskStartedAtMs := (if providerPresent inp then Some (ol_nowMs inp) else None)\<rparr>)"

definition advance_generation :: "observed_input \<Rightarrow> accounting \<Rightarrow> accounting" where
  "advance_generation inp a =
     (let generation = startCount (ol_lifecycle inp);
          first = (acc_generation a = None \<and> num_eq (networkEgressBytes a) (Fin 0)) in
      if providerRunning inp \<and> Fin 0 < generation \<and> \<not> same_num (acc_generation a) generation
      then a\<lparr>acc_generation := Some generation,
             runtimeBaselineMs := cumulativeRuntimeMs (ol_lifecycle inp),
             networkBaselineBytes := Some (networkEgressBytes a),
             networkGenerationStartBytes := Some (if first then Fin 0 else or_zero (ol_guestEgress inp))\<rparr>
      else a)"

definition advance_network :: "observed_input \<Rightarrow> accounting \<Rightarrow> accounting" where
  "advance_network inp a =
     (case ol_guestEgress inp of
        None \<Rightarrow> a
      | Some n \<Rightarrow>
          let bytes = num_max (Fin 0) (n - or_zero (networkGenerationStartBytes a)) in
          a\<lparr>networkEgressBytes := num_max (networkEgressBytes a) (or_zero (networkBaselineBytes a) + bytes)\<rparr>)"

definition started_at :: "observed_input \<Rightarrow> jsnum option" where
  "started_at inp =
     (case grantStartedAtMs (ol_lifecycle inp) of
        Some t \<Rightarrow> Some t
      | None \<Rightarrow> map_option (\<lambda>d. d - ol_lifetimeMs inp) (grantDeadlineMs (ol_lifecycle inp)))"

definition observed_runtime :: "observed_input \<Rightarrow> accounting \<Rightarrow> jsnum" where
  "observed_runtime inp a =
     (let j = ol_lifecycle inp in
      if providerRunning inp \<and> Fin 0 < startCount j \<and> same_num (acc_generation a) (startCount j)
      then num_max (cumulativeRuntimeMs j)
             (runtimeBaselineMs a
              + (case started_at inp of None \<Rightarrow> ol_lifetimeMs inp | Some t \<Rightarrow> num_max (Fin 0) (ol_nowMs inp - t)))
      else cumulativeRuntimeMs j)"

definition observed_cost :: "observed_input \<Rightarrow> accounting \<Rightarrow> jsnum \<Rightarrow> jsnum" where
  "observed_cost inp a runtime =
     (let r = ol_rates inp;
          compute = num_div runtime HOUR_MS * computeUsdPerHour r;
          disk = num_div (diskRetainedMs a) THIRTY_DAY_MONTH_MS * ol_diskSizeGiB inp * diskUsdPerGibMonth r;
          net = num_div (networkEgressBytes a) (Fin 1073741824) * networkEgressUsdPerGib r
      in num_max (cumulativeCostUsd (ol_lifecycle inp)) (money (compute + disk + net)))"

text \<open>The idle observations, with the one this tick adds: complete when idle, else a mark that work resumed.\<close>

definition observed_idle :: "observed_input \<Rightarrow> idle_observation list" where
  "observed_idle inp =
     (let seen = idleObservations (ol_lifecycle inp);
          current = (ol_queueComplete inp \<and> ol_ownedBusy inp \<noteq> None \<and> ol_guestComplete inp
            \<and> same_num (ol_guestGeneration inp) (startCount (ol_lifecycle inp)));
          idle = (current \<and> ol_ownedBusy inp = Some False \<and> ol_guestStatus inp = GDrained);
          interrupted = (current \<and> \<not> idle \<and> seen \<noteq> [] \<and> same_num (ol_guestGeneration inp) (idle_generation (last seen))
            \<and> idle_complete (last seen))
      in case ol_guestGeneration inp of
           None \<Rightarrow> seen
         | Some g \<Rightarrow>
             if (idle \<or> interrupted) \<and> (seen = [] \<or> \<not> num_eq (idle_observedAtMs (last seen)) (ol_nowMs inp))
             then seen @ [\<lparr>idle_observedAtMs = ol_nowMs inp, idle_complete = idle, idle_generation = g\<rparr>]
             else seen)"

definition advance_observed_lifecycle :: "observed_input \<Rightarrow> lifecycle_journal \<times> accounting" where
  "advance_observed_lifecycle inp =
     (let a = advance_generation inp (advance_disk inp (ol_accounting inp));
          runtime = observed_runtime inp a;
          a = advance_network inp a
      in ((ol_lifecycle inp)\<lparr>cumulativeRuntimeMs := runtime, cumulativeCostUsd := observed_cost inp a runtime,
            idleObservations := observed_idle inp\<rparr>, a))"

section \<open>The files\<close>

text \<open>\<open>(value as Record<string, unknown>)\<close>: reading a member of \<open>null\<close> throws.\<close>

definition journal_fields :: "jsval \<Rightarrow> jsnum exn + fields" where
  "journal_fields v =
     (if v = JNull then Inl (type_error ''Cannot read properties of null'')
      else Inr (case v of JObj kvs \<Rightarrow> kvs | _ \<Rightarrow> []))"

definition version_and_identity :: "run_context \<Rightarrow> fields \<Rightarrow> bool" where
  "version_and_identity ctx kvs \<longleftrightarrow>
     get_prop kvs ''schemaVersion'' = JNum (Fin 1)
     \<and> get_prop kvs ''identity'' = identity_json json_num (rc_identity ctx)"

definition file_json :: "run_context \<Rightarrow> fields \<Rightarrow> jsval" where
  "file_json ctx kvs =
     JObj ([(''schemaVersion'', JNum (Fin 1)), (''identity'', identity_json json_num (rc_identity ctx))] @ kvs)"

definition nonnegative_num :: "jsval \<Rightarrow> bool" where
  "nonnegative_num v \<longleftrightarrow> finite_num v \<and> \<not> num_of v < Fin 0"

definition accounting_fields :: "accounting \<Rightarrow> fields" where
  "accounting_fields a =
     [(''diskStartedAtMs'', json_opt_num (diskStartedAtMs a)), (''diskRetainedMs'', json_num (diskRetainedMs a)),
      (''runtimeBaselineMs'', json_num (runtimeBaselineMs a)), (''generation'', json_opt_num (acc_generation a)),
      (''networkEgressBytes'', json_num (networkEgressBytes a))]
     @ (case networkBaselineBytes a of None \<Rightarrow> [] | Some n \<Rightarrow> [(''networkBaselineBytes'', json_num n)])
     @ (case networkGenerationStartBytes a of None \<Rightarrow> [] | Some n \<Rightarrow> [(''networkGenerationStartBytes'', json_num n)])"

definition parse_accounting :: "run_context \<Rightarrow> jsval \<Rightarrow> jsnum exn + accounting" where
  "parse_accounting ctx v =
     (let bad = (\<lambda>k. plain_error [Lit (''accounting '' @ k @ '' is invalid'')]) in
      rbind (journal_fields v) (\<lambda>kvs.
      rbind (check (version_and_identity ctx kvs) (plain_error [Lit ''accounting identity does not match''])) (\<lambda>_.
      rbind (reject (find (\<lambda>k. \<not> nonnegative_num (get_prop kvs k)) [''diskRetainedMs'', ''runtimeBaselineMs'', ''networkEgressBytes''])
        bad) (\<lambda>_.
      rbind (check (get_prop kvs ''diskStartedAtMs'' = JNull \<or> finite_num (get_prop kvs ''diskStartedAtMs''))
        (bad ''disk timestamp'')) (\<lambda>_.
      rbind (check (get_prop kvs ''generation'' = JNull
          \<or> integer_num (get_prop kvs ''generation'') \<and> \<not> num_of (get_prop kvs ''generation'') < Fin 1)
        (bad ''generation'')) (\<lambda>_.
      rbind (reject (find (\<lambda>k. get_prop kvs k \<noteq> JUndef \<and> \<not> nonnegative_num (get_prop kvs k))
          [''networkBaselineBytes'', ''networkGenerationStartBytes'']) bad) (\<lambda>_.
      Inr \<lparr>diskStartedAtMs = as_num (get_prop kvs ''diskStartedAtMs''),
           diskRetainedMs = num_of (get_prop kvs ''diskRetainedMs''),
           runtimeBaselineMs = num_of (get_prop kvs ''runtimeBaselineMs''),
           acc_generation = as_num (get_prop kvs ''generation''),
           networkEgressBytes = num_of (get_prop kvs ''networkEgressBytes''),
           networkBaselineBytes = as_num (get_prop kvs ''networkBaselineBytes''),
           networkGenerationStartBytes = as_num (get_prop kvs ''networkGenerationStartBytes'')\<rparr>)))))))"

definition read_accounting ::
  "run_context \<Rightarrow> controller_state option \<Rightarrow> provider_snapshot \<Rightarrow> jsnum \<Rightarrow> accounting service" where
  "read_accounting ctx s prov now =
     run_bind (host_read AccountingFile) (\<lambda>f.
     case f of
       Some v \<Rightarrow> run_return (parse_accounting ctx v)
     | None \<Rightarrow>
         if ownership prov = OOwned \<and> s = None then service_fail [Lit ''owned VM has no durable accounting baseline'']
         else
         let created = (case Option.bind s pendingEffect of None \<Rightarrow> now
               | Some p \<Rightarrow> if is_create_vm (pe_effect p) then createdAtMs p else now)
         in run_return (Inr \<lparr>diskStartedAtMs = (if ownership prov = OOwned then Some created else None),
              diskRetainedMs = Fin 0,
              runtimeBaselineMs = (case s of None \<Rightarrow> Fin 0 | Some s \<Rightarrow> cumulativeRuntimeMs (lifecycle s)),
              acc_generation = None, networkEgressBytes = Fin 0, networkBaselineBytes = None,
              networkGenerationStartBytes = None\<rparr>))"

definition read_active_job_marker :: "run_context \<Rightarrow> bool service" where
  "read_active_job_marker ctx =
     run_bind (host_read ActiveJobFile) (\<lambda>f.
     case f of
       None \<Rightarrow> run_return (Inr False)
     | Some v \<Rightarrow>
         run_return (rbind (journal_fields v) (\<lambda>kvs.
           let bad = plain_error [Lit ''active-job state is invalid or belongs to another identity''] in
           rbind (check (version_and_identity ctx kvs) bad) (\<lambda>_.
           require (as_bool (get_prop kvs ''activeJobKnown'')) bad))))"

section \<open>Known assignments\<close>

record known_assignment =
  ka_runId :: jsnum
  ka_runAttempt :: jsnum
  ka_jobId :: jsnum
  ka_runnerId :: jsnum
  ka_runnerName :: string
  ka_conclusion :: "string option"

definition parse_assignment :: "nat \<Rightarrow> jsval \<Rightarrow> jsnum exn + known_assignment" where
  "parse_assignment i v =
     (let at_index = (\<lambda>rest. plain_error ([Lit ''assignment '', Num (Fin (of_nat i))] @ [Lit rest])) in
      rbind (require (as_obj v) (at_index '' is invalid'')) (\<lambda>item.
      rbind (reject (find (\<lambda>k. \<not> integer_num (get_prop item k) \<or> num_of (get_prop item k) < Fin 1)
          [''runId'', ''runAttempt'', ''jobId'', ''runnerId'']) (\<lambda>k. at_index ('' '' @ k @ '' is invalid''))) (\<lambda>_.
      rbind (check (nonempty_str (get_prop item ''runnerName'')
          \<and> (get_prop item ''conclusion'' = JNull \<or> as_str (get_prop item ''conclusion'') \<noteq> None))
        (at_index '' identity is invalid'')) (\<lambda>_.
      Inr \<lparr>ka_runId = num_of (get_prop item ''runId''), ka_runAttempt = num_of (get_prop item ''runAttempt''),
           ka_jobId = num_of (get_prop item ''jobId''), ka_runnerId = num_of (get_prop item ''runnerId''),
           ka_runnerName = str_of (get_prop item ''runnerName''), ka_conclusion = as_str (get_prop item ''conclusion'')\<rparr>))))"

definition parse_assignments :: "run_context \<Rightarrow> jsval \<Rightarrow> jsnum exn + known_assignment list" where
  "parse_assignments ctx v =
     (let bad = plain_error [Lit ''assignment state is invalid or belongs to another identity''] in
      rbind (journal_fields v) (\<lambda>kvs.
      rbind (check (version_and_identity ctx kvs) bad) (\<lambda>_.
      rbind (require (as_arr (get_prop kvs ''assignments'')) bad) (\<lambda>entries.
      rmapi parse_assignment 0 entries))))"

definition read_assignments :: "run_context \<Rightarrow> known_assignment list service" where
  "read_assignments ctx =
     run_bind (host_read AssignmentFile) (\<lambda>f.
     case f of None \<Rightarrow> run_return (Inr []) | Some v \<Rightarrow> run_return (parse_assignments ctx v))"

definition assignment_json :: "known_assignment \<Rightarrow> jsval" where
  "assignment_json k = JObj
     [(''runId'', json_num (ka_runId k)), (''runAttempt'', json_num (ka_runAttempt k)), (''jobId'', json_num (ka_jobId k)),
      (''runnerId'', json_num (ka_runnerId k)), (''runnerName'', JStr (ka_runnerName k)),
      (''conclusion'', case ka_conclusion k of None \<Rightarrow> JNull | Some s \<Rightarrow> JStr s)]"

definition ka_key :: "known_assignment \<Rightarrow> jsnum \<times> jsnum \<times> jsnum" where
  "ka_key k = (ka_runId k, ka_runAttempt k, ka_jobId k)"

text \<open>What the job says of the runner, or else what was known.\<close>

definition merged_assignment :: "known_assignment option \<Rightarrow> workflow_job \<Rightarrow> string \<Rightarrow> known_assignment option" where
  "merged_assignment prev j runner =
     (if \<not> (job_runnerId j \<noteq> None \<and> job_runnerName j = Some runner) \<and> prev = None then None
      else
      case (case job_runnerId j of Some r \<Rightarrow> Some r | None \<Rightarrow> map_option ka_runnerId prev,
            case job_runnerName j of Some n \<Rightarrow> Some n | None \<Rightarrow> map_option ka_runnerName prev) of
        (Some rid, Some rname) \<Rightarrow>
          Some \<lparr>ka_runId = job_runId j, ka_runAttempt = job_runAttempt j, ka_jobId = job_id j, ka_runnerId = rid,
                ka_runnerName = rname,
                ka_conclusion = (if job_status j = ''completed''
                  then Some (case job_conclusion j of None \<Rightarrow> ''unknown'' | Some c \<Rightarrow> c) else None)\<rparr>
      | _ \<Rightarrow> None)"

definition merge_job :: "string \<Rightarrow> (jsnum \<times> jsnum \<times> jsnum, known_assignment) jsmap \<Rightarrow> workflow_job
    \<Rightarrow> (jsnum \<times> jsnum \<times> jsnum, known_assignment) jsmap" where
  "merge_job runner m j =
     (case merged_assignment (map_get m (job_key j)) j runner of None \<Rightarrow> m | Some k \<Rightarrow> map_set (job_key j) k m)"

definition merge_assignments :: "known_assignment list \<Rightarrow> workflow_job list \<Rightarrow> string \<Rightarrow> known_assignment list" where
  "merge_assignments prior jobs runner =
     map snd (foldl (merge_job runner) (foldl (\<lambda>m k. map_set (ka_key k) k m) [] prior) jobs)"

end
