(* ===== verification/Observe.thy ===== *)
theory Observe
  imports Accounting Routing
begin

text \<open>
  One observation of everything the controller decides on (\<open>cli/runner-service.ts\<close>: \<open>observe\<close>): GitHub's
  queue and runners, the provider, the guest and the files, put together as the input of a tick. The five
  reads the code starts together are run here one after the other, in the order they are started; as in
  the code all of them run, and the first that failed is thrown.
\<close>

section \<open>The first reads\<close>

definition is_response_error :: "jsnum exn \<Rightarrow> bool" where
  "is_response_error e \<longleftrightarrow> (case e of Exn c _ \<Rightarrow> c = GitHubResponseError)"

text \<open>The repository, or why it could not be read.\<close>

definition observe_repository ::
  "run_context \<Rightarrow> host_world \<Rightarrow> (github_repository option \<times> jsnum message option) service" where
  "observe_repository ctx w =
     run_bind (run_try (read_repository ctx w)) (\<lambda>r.
     case r of
       Inr repo \<Rightarrow> run_return (Inr (Some repo, None))
     | Inl e \<Rightarrow>
         if \<not> is_response_error e then run_return (Inl e)
         else run_return (Inr (None, Some (Lit ''repository observation is incomplete: '' # error_message e))))"

record first_reads =
  fr_repository :: "github_repository option"
  fr_reason :: "jsnum message option"
  fr_provider :: provider_snapshot
  fr_runs :: "workflow_run collection"
  fr_runners :: "repository_runner collection"
  fr_state :: "controller_state option"

definition observe_first :: "run_context \<Rightarrow> host_world \<Rightarrow> first_reads service" where
  "observe_first ctx w =
     run_bind (run_try (observe_repository ctx w)) (\<lambda>repo.
     run_bind (run_try (observe_provider ctx w)) (\<lambda>prov.
     run_bind (run_try (on_github (list_active_runs (hw_github w) (rc_owner ctx) (rc_repository ctx)))) (\<lambda>runs.
     run_bind (run_try (read_runners ctx w)) (\<lambda>runners.
     run_bind (run_try prior_state) (\<lambda>state.
     run_return
       (rbind repo (\<lambda>(repo, reason). rbind prov (\<lambda>prov. rbind runs (\<lambda>runs. rbind runners (\<lambda>runners. rbind state (\<lambda>state.
          Inr \<lparr>fr_repository = repo, fr_reason = reason, fr_provider = prov, fr_runs = runs, fr_runners = runners,
               fr_state = state\<rparr>)))))))))))"

section \<open>The jobs\<close>

record job_reads =
  jr_jobs :: "workflow_job list"
  jr_complete :: bool
  jr_reason :: "jsnum message option"
  jr_retryAfterMs :: "jsnum option"

definition read_jobs :: "run_context \<Rightarrow> host_world \<Rightarrow> jsnum \<Rightarrow> jsnum \<Rightarrow> workflow_job collection service" where
  "read_jobs ctx w runId runAttempt =
     on_github (list_jobs (hw_github w) (rc_owner ctx) (rc_repository ctx) runId runAttempt)"

fun jobs_of_active_runs :: "run_context \<Rightarrow> host_world \<Rightarrow> workflow_run list \<Rightarrow> job_reads \<Rightarrow> job_reads service" where
  "jobs_of_active_runs ctx w [] r = run_return (Inr r)"
| "jobs_of_active_runs ctx w (x # xs) r =
     run_bind (read_jobs ctx w (run_id x) (run_attempt x)) (\<lambda>pg.
     if \<not> col_complete pg
     then run_return (Inr (r\<lparr>jr_complete := False, jr_reason := col_reason pg, jr_retryAfterMs := col_retryAfterMs pg\<rparr>))
     else jobs_of_active_runs ctx w xs (r\<lparr>jr_jobs := jr_jobs r @ col_items pg\<rparr>))"

definition known_name :: "known_assignment \<Rightarrow> jsnum message" where
  "known_name k = [Lit ''known assignment '', Num (ka_runId k), Lit '':'', Num (ka_runAttempt k), Lit '':'', Num (ka_jobId k),
     Lit '' disappeared'']"

fun jobs_of_known :: "run_context \<Rightarrow> host_world \<Rightarrow> known_assignment list \<Rightarrow> job_reads \<Rightarrow> job_reads service" where
  "jobs_of_known ctx w [] r = run_return (Inr r)"
| "jobs_of_known ctx w (k # ks) r =
     (if list_ex (\<lambda>j. job_key j = ka_key k) (jr_jobs r) then jobs_of_known ctx w ks r
      else
      run_bind (read_jobs ctx w (ka_runId k) (ka_runAttempt k)) (\<lambda>pg.
      if \<not> col_complete pg
      then run_return (Inr (r\<lparr>jr_complete := False,
             jr_reason := Some (reason_or pg ''known assignment lookup is incomplete''),
             jr_retryAfterMs := col_retryAfterMs pg\<rparr>))
      else case find (\<lambda>j. num_eq (job_id j) (ka_jobId k)) (col_items pg) of
        None \<Rightarrow> run_return (Inr (r\<lparr>jr_complete := False, jr_reason := Some (known_name k)\<rparr>))
      | Some j \<Rightarrow> jobs_of_known ctx w ks (r\<lparr>jr_jobs := jr_jobs r @ [j]\<rparr>)))"

definition observe_jobs ::
  "run_context \<Rightarrow> host_world \<Rightarrow> first_reads \<Rightarrow> known_assignment list \<Rightarrow> job_reads service" where
  "observe_jobs ctx w fr known =
     (let complete = (col_complete (fr_runs fr) \<and> fr_repository fr \<noteq> None);
          r = \<lparr>jr_jobs = [], jr_complete = complete,
               jr_reason = (case fr_reason fr of Some m \<Rightarrow> Some m | None \<Rightarrow> col_reason (fr_runs fr)),
               jr_retryAfterMs = col_retryAfterMs (fr_runs fr)\<rparr>
      in
      run_bind (if complete then jobs_of_active_runs ctx w (col_items (fr_runs fr)) r else run_return (Inr r)) (\<lambda>r.
      run_bind (jobs_of_known ctx w (filter (\<lambda>k. ka_conclusion k = None \<and> fr_repository fr \<noteq> None) known) r) (\<lambda>r.
      run_return (Inr (r\<lparr>jr_jobs := map snd (foldl (\<lambda>m j. map_set (job_key j) j m) [] (jr_jobs r))\<rparr>)))))"

section \<open>The queue, the journal and the guest\<close>

definition observed_queue ::
  "run_context \<Rightarrow> host_world \<Rightarrow> jsnum \<Rightarrow> first_reads \<Rightarrow> job_reads \<Rightarrow> github_queue_snapshot" where
  "observed_queue ctx w now fr r =
     (let c = rc_config ctx in
      build_queue_snapshot
        \<lparr>qc_repository = fr_repository fr, qc_repositoryReason = fr_reason fr,
         qc_expected = \<lparr>gh_id = repo_id (repository c), gh_nameWithOwner = nameWithOwner (repository c)\<rparr>,
         qc_runs = fr_runs fr,
         qc_jobs = \<lparr>col_complete = jr_complete r, col_items = jr_jobs r, col_reason = jr_reason r,
           col_retryAfterMs = jr_retryAfterMs r\<rparr>,
         qc_runners = fr_runners fr, qc_workflowIds = workflowIds c, qc_allowedBranch = allowedBranch c,
         qc_admission = Some (admission c), qc_eligibleJobNames = eligibleJobNames c, qc_runnerLabel = runnerLabel c,
         qc_expectedRunnerName = expected_runner_name ctx w (fr_state fr), qc_journaledRunnerId = None,
         qc_observedAtMs = now\<rparr>)"

text \<open>While GitHub asks to be left alone the queue is not known.\<close>

definition held_queue :: "host_world \<Rightarrow> github_queue_snapshot \<Rightarrow> github_queue_snapshot service" where
  "held_queue w q h =
     (let (hold, c) = read_hold (hw_github w) (h_github h) in
      Some (h\<lparr>h_github := c\<rparr>,
        Inr (case hold of None \<Rightarrow> q
          | Some (x, left) \<Rightarrow> q\<lparr>queue_complete := False, eligibleQueuedJobs := Fin 0, gq_reason := Some (hold_reason x),
              gq_retryAfterMs := Some left\<rparr>)))"

definition first_journal :: "vm_status \<Rightarrow> lifecycle_journal" where
  "first_journal v =
     \<lparr>jstate = (if v = VAbsent then LAbsent else if v = VStopped then LStopped else LBlocked), startCount = Fin 0,
      cumulativeRuntimeMs = Fin 0, cumulativeCostUsd = Fin 0, outstandingIntent = None, idleObservations = [],
      grantDeadlineMs = None, grantStartedAtMs = None, capacityWait = None\<rparr>"

text \<open>Only complete and agreeing evidence ends what is known of an active job.\<close>

definition conclusively_idle ::
  "github_queue_snapshot \<Rightarrow> guest_report \<Rightarrow> runner_ownership \<Rightarrow> bool" where
  "conclusively_idle q g own \<longleftrightarrow>
     queue_complete q \<and> ownedBusy q = Some False \<and> guest_complete g \<and> workerActive g = Some False
     \<and> ro_ownership own \<noteq> OAmbiguous \<and> ro_ownership own \<noteq> OForeign
     \<and> \<not> (case ro_runner own of None \<Rightarrow> False | Some r \<Rightarrow> runner_busy r)"

definition active_job_known :: "bool \<Rightarrow> github_queue_snapshot \<Rightarrow> guest_report \<Rightarrow> runner_ownership \<Rightarrow> bool" where
  "active_job_known preserved q g own \<longleftrightarrow>
     ownedBusy q = Some True \<or> (preserved \<and> \<not> conclusively_idle q g own)"

definition accounting_input ::
  "run_context \<Rightarrow> jsnum \<Rightarrow> lifecycle_journal \<Rightarrow> provider_snapshot \<Rightarrow> github_queue_snapshot \<Rightarrow> guest_report \<Rightarrow> accounting
   \<Rightarrow> observed_input" where
  "accounting_input ctx now j prov q g a =
     \<lparr>ol_nowMs = now, ol_lifecycle = j, providerPresent = (ownership prov = OOwned),
      providerRunning = (ownership prov = OOwned \<and> vmStatus prov \<noteq> VAbsent \<and> vmStatus prov \<noteq> VStopped),
      ol_lifetimeMs = lifetimeMs (timing (rc_config ctx)), ol_queueComplete = queue_complete q, ol_ownedBusy = ownedBusy q,
      ol_guestComplete = guest_complete g, ol_guestStatus = guestStatus g,
      ol_guestGeneration = map_option grant_generation (grant g), ol_guestEgress = guest_networkEgressBytes g,
      ol_accounting = a, ol_rates = rates (rc_config ctx), ol_diskSizeGiB = diskSizeGiB (nebius (rc_config ctx))\<rparr>"

definition projected_start_cost :: "run_context \<Rightarrow> host_world \<Rightarrow> jsnum" where
  "projected_start_cost ctx w =
     projected_start_cost_usd (rc_config ctx)
       (map_option (wnumber_of (hw_github w)) (rc_environment ctx ''CIRUJANO_NETWORK_EGRESS_LIMIT_GIB''))"

section \<open>The observation\<close>

definition observe_assignments ::
  "run_context \<Rightarrow> host_world \<Rightarrow> first_reads \<Rightarrow> (job_reads \<times> known_assignment list) service" where
  "observe_assignments ctx w fr =
     run_bind (read_assignments ctx) (\<lambda>known.
     run_bind (observe_jobs ctx w fr known) (\<lambda>r.
     let assignments = merge_assignments known (jr_jobs r) (expected_runner_name ctx w (fr_state fr)) in
     run_bind (if assignments \<noteq> known
               then write_file w AssignmentFile (file_json ctx [(''assignments'', JArr (map assignment_json assignments))])
               else run_return (Inr ())) (\<lambda>_.
     run_return (Inr (r, assignments)))))"

definition observe_activity ::
  "run_context \<Rightarrow> host_world \<Rightarrow> jsnum \<Rightarrow> first_reads \<Rightarrow> known_assignment list \<Rightarrow> github_queue_snapshot \<Rightarrow> guest_report
   \<Rightarrow> github_queue_snapshot service" where
  "observe_activity ctx w now fr assignments q g =
     run_bind (read_active_job_marker ctx) (\<lambda>marked.
     let preserved = (marked \<or> list_ex (\<lambda>k. ka_conclusion k = None) assignments);
         known = active_job_known preserved q g (owned_runner ctx w (fr_state fr) (col_items (fr_runners fr)))
     in
     run_bind (if known \<noteq> preserved
               then write_file w ActiveJobFile (file_json ctx [(''activeJobKnown'', JBool known), (''observedAtMs'', json_num now)])
               else run_return (Inr ())) (\<lambda>_.
     run_return (Inr (if known then q\<lparr>ownedBusy := Some True\<rparr> else q))))"

definition observe_host :: "run_context \<Rightarrow> host_world \<Rightarrow> (lifecycle_input \<times> guest_report) service" where
  "observe_host ctx w =
     run_bind (service_now w) (\<lambda>now.
     run_bind (observe_first ctx w) (\<lambda>fr.
     run_bind (observe_assignments ctx w fr) (\<lambda>(r, assignments).
     run_bind (held_queue w (observed_queue ctx w now fr r)) (\<lambda>q.
     let prov = fr_provider fr;
         j = (case fr_state fr of Some s \<Rightarrow> lifecycle s | None \<Rightarrow> first_journal (vmStatus prov))
     in
     run_bind (observe_guest ctx w prov) (\<lambda>g.
     run_bind (observe_activity ctx w now fr assignments q g) (\<lambda>q.
     run_bind (read_accounting ctx (fr_state fr) prov now) (\<lambda>a.
     let (j, a) = advance_observed_lifecycle (accounting_input ctx now j prov q g a) in
     run_bind (write_file w AccountingFile (file_json ctx (accounting_fields a))) (\<lambda>_.
     run_return (Inr
       (\<lparr>nowMs = now, config = rc_config ctx, identity = rc_identity ctx, permit = rc_permit ctx, provider = prov,
         queue = queue_snapshot.truncate q, guest = guest_snapshot.truncate g, journal = j,
         projectedStartCostUsd = projected_start_cost ctx w\<rparr>, g))))))))))"

end
