(* ===== verification/Direct.thy ===== *)
theory Direct
  imports Observe
begin

text \<open>
  The direct commands of the runner, \<open>runner stop\<close> and \<open>runner cleanup\<close> (\<open>cli/runner-service.ts\<close>:
  \<open>mutateOwned\<close>, \<open>recoverDirectEmission\<close> and what they call), inside the controller's lock. Their progress
  is kept in \<open>direct-action-state.json\<close>, so that a command that was cut off is taken up again without a
  second emission. What is printed is the outcome with the exit code.
\<close>

section \<open>Data\<close>

datatype direct_action = StopAction | CleanupAction

fun direct_action_str :: "direct_action \<Rightarrow> string" where
  "direct_action_str StopAction = ''stop''"
| "direct_action_str CleanupAction = ''cleanup''"

datatype direct_stage = DIntent | DEmitting | DResolved

fun direct_stage_str :: "direct_stage \<Rightarrow> string" where
  "direct_stage_str DIntent = ''intent''"
| "direct_stage_str DEmitting = ''emitting''"
| "direct_stage_str DResolved = ''resolved''"

text \<open>
  The record with all its members; the three that are checked are kept beside them. A stage that is no
  string passes the check when \<open>String(stage)\<close> does, and then equals none of the names.
\<close>

record direct_record =
  dr_action :: direct_action
  dr_stage :: "direct_stage option"
  dr_instanceId :: string
  dr_members :: fields

datatype direct_outcome =
    DirectDone "string option"
  | DirectPending "string option"
  | DirectBlocked string "jsnum message"

definition exit_code :: "direct_outcome \<Rightarrow> nat" where
  "exit_code r = (case r of DirectDone _ \<Rightarrow> 0 | _ \<Rightarrow> 1)"

definition direct_operation :: "direct_action \<Rightarrow> permit_operation" where
  "direct_operation act = (if act = StopAction then OpStop else OpDelete)"

section \<open>The file\<close>

definition parse_direct_action :: "run_context \<Rightarrow> jsval \<Rightarrow> jsnum exn + direct_record option" where
  "parse_direct_action ctx v =
     rbind (journal_fields v) (\<lambda>kvs.
     rbind (check (version_and_identity ctx kvs) (plain_error [Lit ''direct action identity does not match''])) (\<lambda>_.
     let bad = plain_error [Lit ''direct action state is invalid''] in
     rbind (require (Option.bind (as_str (get_prop kvs ''action'')) (of_str direct_action_str [StopAction, CleanupAction])) bad) (\<lambda>act.
     let stage_of = of_str direct_stage_str [DIntent, DEmitting, DResolved] in
     rbind (check (stage_of (js_string (get_prop kvs ''stage'')) \<noteq> None) bad) (\<lambda>_.
     if nonempty_str (get_prop kvs ''instanceId'')
     then Inr (Some \<lparr>dr_action = act, dr_stage = Option.bind (as_str (get_prop kvs ''stage'')) stage_of,
            dr_instanceId = str_of (get_prop kvs ''instanceId''), dr_members = kvs\<rparr>)
     else if get_prop kvs ''stage'' = JStr ''resolved'' \<and> get_prop kvs ''providerState'' = JStr ''absent'' then Inr None
     else Inl (plain_error [Lit ''direct action instance identity is invalid''])))))"

definition read_direct_action :: "run_context \<Rightarrow> direct_record option service" where
  "read_direct_action ctx =
     run_bind (host_read DirectActionFile) (\<lambda>f.
     case f of None \<Rightarrow> run_return (Inr None) | Some v \<Rightarrow> run_return (parse_direct_action ctx v))"

text \<open>\<open>{ ...record, key: value, ... }\<close>\<close>

definition spread :: "fields \<Rightarrow> fields \<Rightarrow> fields" where
  "spread kvs extra = foldl (\<lambda>m (k, v). map_set k v m) kvs extra"

definition direct_fields :: "direct_action \<Rightarrow> direct_stage \<Rightarrow> jsnum \<Rightarrow> fields" where
  "direct_fields act st now =
     [(''action'', JStr (direct_action_str act)), (''stage'', JStr (direct_stage_str st)), (''observedAtMs'', json_num now)]"

definition operation_member :: "string option \<Rightarrow> fields" where
  "operation_member x = (case x of None \<Rightarrow> [] | Some s \<Rightarrow> [(''operationId'', JStr s)])"

definition provider_state_member :: "string \<Rightarrow> fields" where
  "provider_state_member s = [(''providerState'', JStr s)]"

text \<open>A record is written with the time of writing.\<close>

definition write_direct ::
  "run_context \<Rightarrow> host_world \<Rightarrow> direct_action \<Rightarrow> direct_stage \<Rightarrow> string option \<Rightarrow> fields \<Rightarrow> unit service" where
  "write_direct ctx w act st ident extra =
     run_bind (service_now w) (\<lambda>now.
     write_file w DirectActionFile (file_json ctx (direct_fields act st now
       @ (case ident of None \<Rightarrow> [] | Some s \<Rightarrow> [(''instanceId'', JStr s)]) @ extra)))"

definition rewrite_direct :: "host_world \<Rightarrow> fields \<Rightarrow> (jsnum \<Rightarrow> fields) \<Rightarrow> fields service" where
  "rewrite_direct w kvs extra =
     run_bind (service_now w) (\<lambda>now.
     let kvs = spread kvs (extra now) in
     run_bind (write_file w DirectActionFile (JObj kvs)) (\<lambda>_. run_return (Inr kvs)))"

section \<open>The emission\<close>

definition emit_controller_stop :: "run_context \<Rightarrow> host_world \<Rightarrow> string \<Rightarrow> string \<Rightarrow> string option service" where
  "emit_controller_stop ctx w ident name =
     run_bind (mutate_instance w (stop_command (show_num w) (rc_nebius ctx) ident) name) (\<lambda>oper.
     run_bind prior_state (\<lambda>s.
     run_bind (case s of
         None \<Rightarrow> run_return (Inr ())
       | Some s \<Rightarrow>
           if jstate (lifecycle s) \<in> set GUEST_UP_STATES
           then write_file w ControllerFile (json_of_state (s\<lparr>lifecycle := (lifecycle s)\<lparr>jstate := LStopping\<rparr>\<rparr>))
           else run_return (Inr ())) (\<lambda>_.
     run_return (Inr oper))))"

definition emit_delete :: "run_context \<Rightarrow> host_world \<Rightarrow> string \<Rightarrow> string \<Rightarrow> string option service" where
  "emit_delete ctx w ident name = mutate_instance w (delete_command (show_num w) (rc_nebius ctx) ident) name"

text \<open>
  \<open>waitForTerminalProvider\<close>: the loop looks at the clock after every listing and nothing but the clock
  ends it.
\<close>

definition terminal_of :: "direct_action \<Rightarrow> nebius_instance option \<Rightarrow> string option" where
  "terminal_of act found =
     (if act = CleanupAction \<and> found = None then Some ''absent''
      else if act = StopAction \<and> (case found of None \<Rightarrow> False | Some i \<Rightarrow> ni_state i = VStopped) then Some ''stopped''
      else None)"

definition state_or_absent :: "nebius_instance option \<Rightarrow> string" where
  "state_or_absent found = (case found of None \<Rightarrow> ''absent'' | Some i \<Rightarrow> vm_status_str (ni_state i))"

partial_function (option) wait_loop ::
  "run_context \<Rightarrow> host_world \<Rightarrow> direct_action \<Rightarrow> string \<Rightarrow> jsnum \<Rightarrow> host \<Rightarrow> (host \<times> (jsnum exn + bool \<times> string)) option" where
  "wait_loop ctx w act ident deadline h =
     (case list_instances ctx w h of
        None \<Rightarrow> None
      | Some (h, Inl e) \<Rightarrow> Some (h, Inl e)
      | Some (h, Inr instances) \<Rightarrow>
          let current = find (\<lambda>i. ni_id i = ident) instances in
          (case terminal_of act current of
             Some s \<Rightarrow> Some (h, Inr (True, s))
           | None \<Rightarrow>
               if rc_environment ctx ''CIRUJANO_RUNNER_ONCE'' = Some ''1'' then Some (h, Inr (False, state_or_absent current))
               else let now = wclock (hw_github w) (gc_reads (h_github h));
                        h = h\<lparr>h_github := snd (tick_clock (hw_github w) (h_github h))\<rparr> in
                    if now < deadline then wait_loop ctx w act ident deadline h
                    else Some (h, Inr (False, ''timeout''))))"

definition wait_for_terminal_provider ::
  "run_context \<Rightarrow> host_world \<Rightarrow> direct_action \<Rightarrow> string \<Rightarrow> (bool \<times> string) service" where
  "wait_for_terminal_provider ctx w act ident =
     run_bind (service_now w) (\<lambda>now. wait_loop ctx w act ident (now + bootTimeoutMs (timing (rc_config ctx))))"

definition drain_guest :: "run_context \<Rightarrow> host_world \<Rightarrow> controller_state option \<Rightarrow> nebius_instance \<Rightarrow> unit service" where
  "drain_guest ctx w s i =
     run_bind (run_guest ctx w i ''/opt/cirujano/drain'' (lines_of [show_num w (current_generation s)]) []) (\<lambda>_. run_return (Inr ()))"

section \<open>Taking up an emission\<close>

text \<open>The operations that could be the recorded emission; only unfinished ones can still move the VM.\<close>

definition related_operations :: "nebius_operation list \<Rightarrow> string option \<Rightarrow> string \<Rightarrow> nebius_operation list" where
  "related_operations listed oper ident =
     (case oper of
        None \<Rightarrow> filter (\<lambda>x. no_resourceId x = Some ident) listed
      | Some s \<Rightarrow> filter (\<lambda>x. no_id x = s \<and> (no_resourceId x = None \<or> no_resourceId x = Some ident)) listed)"

definition unfinished :: "nebius_operation \<Rightarrow> bool" where
  "unfinished x \<longleftrightarrow> no_state x = PPending \<or> no_state x = PRunning"

definition unfinished_names :: "nebius_operation list \<Rightarrow> string" where
  "unfinished_names xs = join_with '','' (map (\<lambda>x. no_id x @ '':'' @ operation_state_str (no_state x)) xs)"

definition idle_readback :: "lifecycle_input \<Rightarrow> bool" where
  "idle_readback inp \<longleftrightarrow>
     prov_complete (provider inp) \<and> queue_complete (queue inp) \<and> ownedBusy (queue inp) = Some False
     \<and> workerActive (guest inp) \<noteq> Some True \<and> guestStatus (guest inp) \<noteq> GBusy"

definition drained_readback :: "lifecycle_input \<Rightarrow> bool" where
  "drained_readback inp \<longleftrightarrow>
     queue_complete (queue inp) \<and> ownedBusy (queue inp) = Some False \<and> guest_complete (guest inp)
     \<and> guestStatus (guest inp) = GDrained \<and> admissionEnabled (guest inp) = Some False \<and> workerActive (guest inp) = Some False"

text \<open>The text of a message; \<open>iso_text\<close> is \<open>toISOString\<close>.\<close>

definition message_text :: "(jsnum \<Rightarrow> string) \<Rightarrow> host_world \<Rightarrow> jsnum message \<Rightarrow> string" where
  "message_text iso_text w m =
     concat (map (\<lambda>x. case x of Lit s \<Rightarrow> s | Num n \<Rightarrow> show_num w n | IsoTime n \<Rightarrow> iso_text n) m)"

definition block_recovery ::
  "(jsnum \<Rightarrow> string) \<Rightarrow> host_world \<Rightarrow> fields \<Rightarrow> jsnum message \<Rightarrow> string \<Rightarrow> direct_outcome service" where
  "block_recovery iso_text w kvs reason prov_state =
     run_bind (rewrite_direct w kvs (\<lambda>now. [(''stage'', JStr ''emitting''), (''observedAtMs'', json_num now),
       (''providerState'', JStr prov_state), (''blockedReason'', JStr (message_text iso_text w reason))])) (\<lambda>_.
     run_return (Inr (DirectBlocked prov_state reason)))"

text \<open>What the checks before a retry come to: nothing is left to do, a refusal, or the retry of the state shown.\<close>

datatype recovery = Recovered string | Blocking "jsnum message" string | Retry string

definition blocking :: "string \<Rightarrow> nebius_instance \<Rightarrow> recovery service" where
  "blocking m i = run_return (Inr (Blocking [Lit m] (vm_status_str (ni_state i))))"

text \<open>The runner is gone: one listing may remove it, a second one must not find it.\<close>

definition recover_registration ::
  "run_context \<Rightarrow> host_world \<Rightarrow> controller_state option \<Rightarrow> nebius_instance \<Rightarrow> recovery service" where
  "recover_registration ctx w s i =
     (let st = vm_status_str (ni_state i); refuse = (\<lambda>m. run_return (Inr (Blocking m st))) in
      run_bind (read_runners ctx w) (\<lambda>runners.
      if \<not> col_complete runners then refuse (reason_or runners ''GitHub runner recovery readback is incomplete'')
      else
      let own = owned_runner ctx w s (col_items runners) in
      if (case ro_runner own of None \<Rightarrow> False | Some r \<Rightarrow> runner_busy r)
      then refuse [Lit ''owned runner is busy during recovery'']
      else if ro_ownership own \<noteq> OOwned \<and> ro_ownership own \<noteq> OAbsent
      then refuse [Lit (''runner ownership is '' @ ownership_status_str (ro_ownership own) @ '' during recovery'')]
      else
      run_bind (if ro_ownership own = OOwned
                then on_github (remove_owned_runner (hw_github w) (rc_owner ctx) (rc_repository ctx) own)
                else run_return (Inr ())) (\<lambda>_.
      run_bind (read_runners ctx w) (\<lambda>remaining.
      if \<not> col_complete remaining
      then refuse (reason_or remaining ''final GitHub runner recovery readback is incomplete'')
      else
      let final = ro_ownership (owned_runner ctx w s (col_items remaining)) in
      if final \<noteq> OAbsent
      then refuse [Lit (''owned runner remains '' @ ownership_status_str final @ '' before provider recovery'')]
      else run_return (Inr (Retry st))))))"

definition recover_idle ::
  "run_context \<Rightarrow> host_world \<Rightarrow> direct_action \<Rightarrow> nebius_instance \<Rightarrow> recovery service" where
  "recover_idle ctx w act i =
     run_bind (observe_host ctx w) (\<lambda>(seen, _).
     if \<not> idle_readback seen
     then blocking ''recovery retry requires complete idle provider, queue, runner and guest readbacks'' i
     else
     run_bind prior_state (\<lambda>s.
     if act = StopAction \<and> ni_state i = VRunning
     then run_bind (drain_guest ctx w s i) (\<lambda>_.
          run_bind (observe_host ctx w) (\<lambda>(verified, _).
          if \<not> drained_readback verified
          then blocking ''guest and assignment readbacks did not prove drained idle recovery'' i
          else recover_registration ctx w s i))
     else recover_registration ctx w s i))"

definition recover_checks :: "run_context \<Rightarrow> host_world \<Rightarrow> direct_action \<Rightarrow> direct_record \<Rightarrow> recovery service" where
  "recover_checks ctx w act prior =
     run_bind (list_instances ctx w) (\<lambda>instances.
     run_bind (run_return (exact_owned_instance instances (expected_resource_of ctx))) (\<lambda>found.
     let terminal = (if act = CleanupAction then found = None
           else (case found of None \<Rightarrow> True | Some i \<Rightarrow> ni_state i = VStopped)) in
     if terminal
     then run_bind (rewrite_direct w (dr_members prior) (\<lambda>now. [(''stage'', JStr ''resolved''), (''observedAtMs'', json_num now),
            (''providerState'', JStr (state_or_absent found))])) (\<lambda>_.
          run_return (Inr (Recovered (state_or_absent found))))
     else case found of
       None \<Rightarrow> run_return (Inr (Blocking [Lit ''exact owned instance readback is inconclusive''] ''unknown''))
     | Some i \<Rightarrow>
         run_bind (list_operations ctx w) (\<lambda>listed.
         let oper = as_str (get_prop (dr_members prior) ''operationId'');
             related = related_operations listed oper (dr_instanceId prior);
             running = filter unfinished related
         in
         if running \<noteq> []
         then blocking (''provider operation '' @ unfinished_names running
                @ '' is still pending and has not produced terminal resource state'') i
         else if ni_state i = VStopping
         then blocking ''provider is still stopping the instance; retry after it reaches a terminal state'' i
         else if oper \<noteq> None \<and> related = []
         then blocking (''journaled provider operation '' @ the oper @ '' is absent from the complete operation snapshot'') i
         else if get_prop (dr_members prior) ''recoveryRetryEmitted'' = JBool True
         then blocking ''recovery retry was already emitted and cannot be repeated'' i
         else recover_idle ctx w act i)))"

definition recover_retry ::
  "run_context \<Rightarrow> host_world \<Rightarrow> direct_action \<Rightarrow> string \<Rightarrow> fields \<Rightarrow> recovery service" where
  "recover_retry ctx w act ident retrying =
     run_bind (write_file w DirectActionFile (JObj retrying)) (\<lambda>_.
     run_bind (if act = StopAction then emit_controller_stop ctx w ident ''Nebius recovery stop''
               else emit_delete ctx w ident ''Nebius recovery delete'') (\<lambda>oper.
     run_bind (rewrite_direct w retrying (\<lambda>now. (''observedAtMs'', json_num now) # operation_member oper)) (\<lambda>_.
     run_bind (wait_for_terminal_provider ctx w act ident) (\<lambda>(complete, st).
     if \<not> complete then run_return (Inr (Blocking [Lit ''recovery retry did not reach terminal provider state''] st))
     else
     run_bind (rewrite_direct w retrying (\<lambda>now. operation_member oper @ [(''stage'', JStr ''resolved''),
       (''observedAtMs'', json_num now), (''providerState'', JStr st)])) (\<lambda>_.
     run_return (Inr (Recovered st)))))))"

text \<open>Whatever is thrown is a block as well, of the record as it then was.\<close>

definition finish_recovery ::
  "(jsnum \<Rightarrow> string) \<Rightarrow> host_world \<Rightarrow> fields \<Rightarrow> jsnum exn + recovery \<Rightarrow> (string \<Rightarrow> direct_outcome service) \<Rightarrow> direct_outcome service" where
  "finish_recovery iso_text w kvs r retry =
     (case r of
        Inl e \<Rightarrow> block_recovery iso_text w kvs (error_message e) ''unknown''
      | Inr (Recovered st) \<Rightarrow> run_return (Inr (DirectDone (Some st)))
      | Inr (Blocking m st) \<Rightarrow> block_recovery iso_text w kvs m st
      | Inr (Retry st) \<Rightarrow> retry st)"

definition recover_direct_emission ::
  "(jsnum \<Rightarrow> string) \<Rightarrow> run_context \<Rightarrow> host_world \<Rightarrow> direct_action \<Rightarrow> direct_record \<Rightarrow> direct_outcome service" where
  "recover_direct_emission iso_text ctx w act prior =
     run_bind (run_try (recover_checks ctx w act prior)) (\<lambda>r.
     finish_recovery iso_text w (dr_members prior) r (\<lambda>st.
       run_bind (service_now w) (\<lambda>now.
       let retrying = spread (dr_members prior) [(''stage'', JStr ''emitting''), (''observedAtMs'', json_num now),
             (''providerState'', JStr st), (''recoveryRetryEmitted'', JBool True)] in
       run_bind (run_try (recover_retry ctx w act (dr_instanceId prior) retrying)) (\<lambda>r.
       finish_recovery iso_text w retrying r (\<lambda>_. service_fail [])))))"

section \<open>The command\<close>

definition direct_preflight ::
  "run_context \<Rightarrow> host_world \<Rightarrow> (nebius_instance option \<times> runner_ownership) service" where
  "direct_preflight ctx w =
     run_bind (observe_host ctx w) (\<lambda>(seen, _).
     if \<not> prov_complete (provider seen) \<or> \<not> queue_complete (queue seen) \<or> ownedBusy (queue seen) = None
     then service_fail [Lit ''direct action requires complete provider and queue observations'']
     else if ownedBusy (queue seen) = Some True \<or> workerActive (guest seen) = Some True \<or> guestStatus (guest seen) = GBusy
     then service_fail [Lit ''owned job is active; direct action cannot interrupt work'']
     else
     run_bind (list_instances ctx w) (\<lambda>instances.
     run_bind (run_return (exact_owned_instance instances (expected_resource_of ctx))) (\<lambda>found.
     run_bind (read_runners ctx w) (\<lambda>runners.
     if \<not> col_complete runners then service_fail (reason_or runners ''GitHub runner observation is incomplete'')
     else
     run_bind prior_state (\<lambda>s.
     let own = owned_runner ctx w s (col_items runners) in
     if (case ro_runner own of None \<Rightarrow> False | Some r \<Rightarrow> runner_busy r)
     then service_fail [Lit ''owned runner is busy; drain cannot interrupt active work'']
     else run_return (Inr (found, own)))))))"

definition release_runner :: "run_context \<Rightarrow> host_world \<Rightarrow> runner_ownership \<Rightarrow> unit service" where
  "release_runner ctx w own =
     (if ro_ownership own = OOwned
      then on_github (remove_owned_runner (hw_github w) (rc_owner ctx) (rc_repository ctx) own)
      else if ro_ownership own \<noteq> OAbsent
      then service_fail [Lit (''runner ownership is '' @ ownership_status_str (ro_ownership own))]
      else run_return (Inr ()))"

definition emit_decision ::
  "run_context \<Rightarrow> host_world \<Rightarrow> mutation_decision \<Rightarrow> string option service" where
  "emit_decision ctx w d =
     (case d of
        DoStop ident \<Rightarrow> emit_controller_stop ctx w ident ''Nebius stop''
      | DoDelete ident \<Rightarrow> emit_delete ctx w ident ''Nebius delete''
      | _ \<Rightarrow> run_return (Inr None))"

text \<open>The emission, between the records that it is intended, under way, and over.\<close>

definition emit_direct ::
  "run_context \<Rightarrow> host_world \<Rightarrow> direct_action \<Rightarrow> nebius_instance \<Rightarrow> runner_ownership \<Rightarrow> mutation_decision
   \<Rightarrow> direct_outcome service" where
  "emit_direct ctx w act i own d =
     run_bind (write_direct ctx w act DIntent (Some (ni_id i)) []) (\<lambda>_.
     run_bind (write_direct ctx w act DEmitting (Some (ni_id i)) []) (\<lambda>_.
     run_bind (if act = StopAction \<and> ni_state i = VRunning
               then run_bind prior_state (\<lambda>s. drain_guest ctx w s i) else run_return (Inr ())) (\<lambda>_.
     run_bind (release_runner ctx w own) (\<lambda>_.
     run_bind (emit_decision ctx w d) (\<lambda>oper.
     run_bind (write_direct ctx w act DEmitting (Some (ni_id i)) (operation_member oper)) (\<lambda>_.
     run_bind (wait_for_terminal_provider ctx w act (ni_id i)) (\<lambda>(complete, st).
     run_bind (write_direct ctx w act (if complete then DResolved else DEmitting) (Some (ni_id i))
       (provider_state_member st @ operation_member oper)) (\<lambda>_.
     run_return (Inr (if complete then DirectDone (Some st) else DirectPending (Some st)))))))))))"

definition fresh_direct :: "run_context \<Rightarrow> host_world \<Rightarrow> direct_action \<Rightarrow> direct_outcome service" where
  "fresh_direct ctx w act =
     run_bind (direct_preflight ctx w) (\<lambda>(found, own).
     case found of
       None \<Rightarrow>
         run_bind (write_direct ctx w act DResolved None (provider_state_member ''absent'')) (\<lambda>_.
         run_return (Inr (DirectDone None)))
     | Some i \<Rightarrow>
         let d = (if act = StopAction then decide_stop (Some i) (expected_resource_of ctx)
                  else decide_delete (Some i) (expected_resource_of ctx)) in
         (case d of
            MutationBlock m \<Rightarrow> service_fail m
          | Wait \<Rightarrow> run_return (Inr (DirectPending None))
          | _ \<Rightarrow> emit_direct ctx w act i own d))"

text \<open>A resolved record answers only while the provider still agrees with it.\<close>

definition still_resolved ::
  "run_context \<Rightarrow> host_world \<Rightarrow> direct_action \<Rightarrow> direct_record \<Rightarrow> string option service" where
  "still_resolved ctx w act prior =
     run_bind (list_instances ctx w) (\<lambda>instances.
     run_bind (run_return (exact_owned_instance instances (expected_resource_of ctx))) (\<lambda>found.
     run_return (Inr (case found of
       None \<Rightarrow> Some ''absent''
     | Some i \<Rightarrow> if act = StopAction \<and> ni_id i = dr_instanceId prior \<and> ni_state i = VStopped
                 then Some (vm_status_str (ni_state i)) else None))))"

definition permitted_direct :: "run_context \<Rightarrow> host_world \<Rightarrow> direct_action \<Rightarrow> direct_outcome service" where
  "permitted_direct ctx w act = run_bind (require_permit ctx w (direct_operation act)) (\<lambda>_. fresh_direct ctx w act)"

text \<open>What follows from the record that was found.\<close>

definition direct_from ::
  "(jsnum \<Rightarrow> string) \<Rightarrow> run_context \<Rightarrow> host_world \<Rightarrow> direct_action \<Rightarrow> direct_record option \<Rightarrow> direct_outcome service" where
  "direct_from iso_text ctx w act prior =
     (case prior of
        None \<Rightarrow> permitted_direct ctx w act
      | Some p \<Rightarrow>
          if dr_action p \<noteq> act then permitted_direct ctx w act
          else case dr_stage p of
            None \<Rightarrow> permitted_direct ctx w act
          | Some DResolved \<Rightarrow>
              run_bind (require_recovery_permit ctx w (direct_operation act)) (\<lambda>_.
              run_bind (still_resolved ctx w act p) (\<lambda>st.
              case st of Some s \<Rightarrow> run_return (Inr (DirectDone (Some s))) | None \<Rightarrow> permitted_direct ctx w act))
          | Some DEmitting \<Rightarrow>
              run_bind (require_recovery_permit ctx w (direct_operation act)) (\<lambda>_.
              recover_direct_emission iso_text ctx w act p)
          | Some DIntent \<Rightarrow>
              run_bind (require_recovery_permit ctx w (direct_operation act)) (\<lambda>_. fresh_direct ctx w act))"

definition mutate_owned ::
  "(jsnum \<Rightarrow> string) \<Rightarrow> run_context \<Rightarrow> host_world \<Rightarrow> direct_action \<Rightarrow> direct_outcome service" where
  "mutate_owned iso_text ctx w act = run_bind (read_direct_action ctx) (direct_from iso_text ctx w act)"

end
