(* ===== verification/Nebius_Properties.thy ===== *)
theory Nebius_Properties
  imports Service Config_Properties
begin

text \<open>
  What the provider's adapter promises of the controller's own VM: the one it asks for is the one it
  recognises, and the two tests of ownership in the code agree up to the name of the disk.
\<close>

section \<open>The two tests of ownership\<close>

lemma same_labels_iff:
  assumes "distinct (map fst ls)" "distinct (map fst es)"
  shows "same_string_map ls es \<longleftrightarrow> list_all (\<lambda>(k, v). map_of ls k = Some v) es \<and> length ls = length es"
proof -
  have sub: "list_all (\<lambda>(k, v). map_of b k = Some v) a \<longleftrightarrow> set a \<subseteq> set b" if "distinct (map fst b)" for a b :: labels
    using that by (auto simp: list_all_iff)
  have "set ls \<subseteq> set es \<longleftrightarrow> set es \<subseteq> set ls" if "length ls = length es"
  proof -
    have "card (set ls) = card (set es)"
      using that assms distinct_card by (metis distinct_map)
    then show ?thesis by (metis List.finite_set card_subset_eq)
  qed
  then show ?thesis unfolding same_string_map_def sub [OF assms(1)] sub [OF assms(2)] by auto
qed

lemma expected_labels_distinct [simp]: "distinct (map fst (ex_labels (expected_resource_of ctx)))"
  by (simp add: expected_resource_of_def CONTROLLER_LABEL_def CONFIG_LABEL_def)

lemma tests_agree:
  assumes "distinct (map fst (ni_labels i))"
  shows "mismatch_reason i (expected_resource_of ctx) = None \<longleftrightarrow>
    instance_matches i (expected_resource_of ctx)
    \<and> diskName i = own_resourcePrefix (config_ownership (rc_config ctx)) @ ''-boot''"
proof -
  let ?e = "expected_resource_of ctx"
  have "ex_instanceId ?e = None" "boot_name (ex_name ?e) = own_resourcePrefix (config_ownership (rc_config ctx)) @ ''-boot''"
    by (simp_all add: expected_resource_of_def boot_name_def suffix_def)
  then show ?thesis
    using same_labels_iff [OF assms expected_labels_distinct [of ctx]]
    by (auto simp: mismatch_reason_def instance_matches_def Let_def)
qed

text \<open>
  The two ownership tests of the code, the one an observation uses and the one before a stop or a delete,
  agree on every instance with distinct label keys except for the name of the boot disk, which only the
  second one looks at.
\<close>

theorem ownership_tests_agree:
  assumes "distinct (map fst (ni_labels i))"
  shows "mismatch_reason i (expected_resource_of ctx) = None \<longleftrightarrow>
    instance_matches i (expected_resource_of ctx)
    \<and> diskName i = own_resourcePrefix (config_ownership (rc_config ctx)) @ ''-boot''"
  using tests_agree [OF assms] .

section \<open>The VM that was asked for\<close>

text \<open>The resource a request creates, as a listing shows it with the identifier and status the provider gives.\<close>

definition listed_as :: "jsval \<Rightarrow> string \<Rightarrow> fields \<Rightarrow> jsval" where
  "listed_as request ident status =
     (case request of
        JObj kvs \<Rightarrow> JObj
          [(''metadata'', case get_prop kvs ''metadata'' of JObj m \<Rightarrow> JObj ((''id'', JStr ident) # m) | v \<Rightarrow> v),
           (''spec'', get_prop kvs ''spec''), (''status'', JObj status)]
      | v \<Rightarrow> v)"

lemma capitals: "list_all (\<lambda>c. to_upper c = c) ''FAILNETWORK_SSD''"
  by code_simp

lemma disk_code [simp]: "disk_type_code ''network-ssd'' = ''NETWORK_SSD''"
  by code_simp

lemma neb_string_ok [simp]: "s \<noteq> [] \<Longrightarrow> neb_string (JStr s) loc = Inr s"
  by (simp add: neb_string_def)

lemma neb_object_ok [simp]: "neb_object (JObj kvs) loc = Inr kvs"
  by (simp add: neb_object_def)

lemma neb_array_ok [simp]: "neb_array (JArr xs) loc = Inr xs" "optional_array JUndef loc = Inr []"
  by (simp_all add: neb_array_def optional_array_def)

lemma not_blank_nonempty: "\<not> is_blank s \<Longrightarrow> s \<noteq> []"
  by auto

text \<open>The instance that is read back.\<close>

definition created_instance :: "run_context \<Rightarrow> string \<Rightarrow> nebius_instance" where
  "created_instance ctx ident =
     (let n = nebius (rc_config ctx); prefix = own_resourcePrefix (config_ownership (rc_config ctx)) in
      \<lparr>ni_id = ident, ni_parentId = nebius_projectId n, ni_name = prefix @ ''-vm'',
       ni_labels = ex_labels (expected_resource_of ctx), providerState = IStopped, ni_state = VStopped, ni_stopped = True,
       recoveryPolicy = ''FAIL'', ni_platform = ''cpu-d3'', ni_preset = ''4vcpu-16gb'', ni_subnetId = subnetId n,
       diskName = prefix @ ''-boot'', ni_diskType = ''NETWORK_SSD'', ni_diskSizeGiB = Fin 80, ni_imageId = imageId n,
       privateIp = None, publicIp = None, diskIds = []\<rparr>)"

lemma created_instance_read:
  assumes "nebius_ok (nebius (rc_config ctx))" "\<not> is_blank (configHash (rc_identity ctx))" "ident \<noteq> []"
  shows "\<exists>request. render_create_request (rc_config ctx) (configHash (rc_identity ctx)) user_data = Inr request
    \<and> parse_instance number_of (listed_as request ident [(''state'', JStr ''STOPPED'')]) loc
      = Inr (created_instance ctx ident)"
proof -
  have "nebius_projectId (nebius (rc_config ctx)) \<noteq> []" "subnetId (nebius (rc_config ctx)) \<noteq> []"
      "imageId (nebius (rc_config ctx)) \<noteq> []"
    using assms(1) by (auto simp: nebius_ok_def)
  moreover have "enum_at instance_state_str INSTANCE_STATES (JStr ''STOPPED'') l = Inr IStopped" for l
    by (simp add: enum_at_def INSTANCE_STATES_def of_str_def)
  ultimately show ?thesis
    using assms(2,3) capitals
    by (simp add: render_create_request_def ownership_labels_def listed_as_def parse_instance_def Let_def json_labels_def
        string_map_at_def protobuf_boolean_def neb_boolean_def finite_number_at_def address_at_def created_instance_def
        expected_resource_of_def CONTROLLER_LABEL_def CONFIG_LABEL_def)
qed

text \<open>
  The VM the controller asks for is the VM it recognises: for an accepted configuration the create request
  renders, and the resource it describes, listed stopped under any identifier, is parsed back, is exactly the owned
  instance, is observed as owned and stopped, is adopted by a lost create, needs no stop and may be
  deleted.
\<close>

theorem created_instance_adopted:
  assumes "config_ok (rc_config ctx)" "\<not> is_blank (configHash (rc_identity ctx))" "ident \<noteq> []"
  shows "\<exists>request i. render_create_request (rc_config ctx) (configHash (rc_identity ctx)) user_data = Inr request
    \<and> parse_instance number_of (listed_as request ident [(''state'', JStr ''STOPPED'')]) loc = Inr i
    \<and> instance_matches i (expected_resource_of ctx)
    \<and> exact_owned_instance [i] (expected_resource_of ctx) = Inr (Some i)
    \<and> provider_of_listing [i] (expected_resource_of ctx)
        = \<lparr>prov_complete = True, vmStatus = VStopped, ownership = OOwned, ownedMatches = Fin 1,
           outstandingOperation = None, network = None\<rparr>
    \<and> reconcile_create timed_out [i] None (expected_resource_of ctx) = Adopt ident
    \<and> decide_stop (Some i) (expected_resource_of ctx) = Done
    \<and> decide_delete (Some i) (expected_resource_of ctx) = DoDelete ident"
proof -
  let ?i = "created_instance ctx ident" and ?e = "expected_resource_of ctx"
  have ok: "nebius_ok (nebius (rc_config ctx))" using assms(1) by (simp add: config_ok_def)
  have matches: "instance_matches ?i ?e"
    using ok by (simp add: instance_matches_def created_instance_def Let_def expected_resource_of_def nebius_ok_def
        CONTROLLER_LABEL_def CONFIG_LABEL_def)
  have "distinct (map fst (ni_labels ?i))" by (simp add: created_instance_def Let_def)
  moreover have "diskName ?i = own_resourcePrefix (config_ownership (rc_config ctx)) @ ''-boot''"
    by (simp add: created_instance_def Let_def)
  ultimately have "mismatch_reason ?i ?e = None" using tests_agree matches by blast
  moreover have "related_to_expected ?i ?e"
    by (simp add: related_to_expected_def created_instance_def Let_def expected_resource_of_def)
  moreover have "ni_id ?i = ident" "ni_state ?i = VStopped" "ni_stopped ?i" "providerState ?i = IStopped" "publicIp ?i = None"
    by (simp_all add: created_instance_def Let_def)
  moreover obtain request where
    "render_create_request (rc_config ctx) (configHash (rc_identity ctx)) user_data = Inr request"
    "parse_instance number_of (listed_as request ident [(''state'', JStr ''STOPPED'')]) loc = Inr ?i"
    using created_instance_read [OF ok assms(2,3)] by blast
  ultimately show ?thesis
    by (intro exI [of _ request] exI [of _ ?i])
      (simp add: exact_owned_instance_def provider_of_listing_def reconcile_create_def decide_stop_def
        decide_delete_def Let_def matches)
qed

section \<open>Witnesses\<close>

definition sample_context :: run_context where
  "sample_context =
     \<lparr>rc_config = pilot_config, rc_permit = None,
      rc_identity = \<lparr>configHash = ''hash'', candidateDigest = ''digest'', repositoryId = Fin 42, projectId = ''project-1'',
        controllerId = ''controller-1'', resourcePrefix = ''cirujano''\<rparr>,
      rc_nebius = \<lparr>binaryPath = ''/bin/nebius'', cli_profile = ''default'', cli_projectId = ''project-1'',
        readTimeoutMs = Fin 30000, mutationTimeoutMs = Fin 60000\<rparr>,
      rc_owner = ''acme'', rc_repository = ''widgets'', rc_stateDirectory = ''/state'', rc_environment = (\<lambda>_. None)\<rparr>"

theorem created_instance_adopted_witness:
  "\<exists>request i. render_create_request (rc_config sample_context) (configHash (rc_identity sample_context)) [] = Inr request
    \<and> parse_instance (\<lambda>_. NaN) (listed_as request ''vm-1'' [(''state'', JStr ''STOPPED'')]) [] = Inr i
    \<and> decide_delete (Some i) (expected_resource_of sample_context) = DoDelete ''vm-1''"
proof -
  have "config_ok (rc_config sample_context)" "\<not> is_blank (configHash (rc_identity sample_context))"
    by (simp_all add: sample_context_def pilot_config_ok is_space_def)
  then show ?thesis
    using created_instance_adopted [of sample_context "''vm-1''" "[]" "\<lambda>_. NaN" "[]" True] by blast
qed

theorem ownership_tests_agree_witness:
  "mismatch_reason (created_instance sample_context ''vm-1'') (expected_resource_of sample_context) = None"
proof -
  have "distinct (map fst (ni_labels (created_instance sample_context ''vm-1'')))"
    by (simp add: created_instance_def Let_def)
  then show ?thesis
    by (subst ownership_tests_agree)
      (simp_all add: instance_matches_def created_instance_def Let_def expected_resource_of_def sample_context_def
        pilot_config_def CONTROLLER_LABEL_def CONFIG_LABEL_def)
qed

end
