(* ===== verification/Effects_Properties.thy ===== *)
theory Effects_Properties
  imports Effects Release_Properties
begin

text \<open>
  What the service of the runner promises: which commands of the provider and of the guest each of its
  operations can run, that every operation returns, and what an effect must have found before it touches
  the provider.
\<close>

section \<open>What an operation may do\<close>

definition host_ok :: "host \<Rightarrow> bool" where
  "host_ok h \<longleftrightarrow> cache_ok (h_github h)"

definition new_host :: host where
  "new_host = \<lparr>h_github = new_client, h_commands = [], h_guest = [], h_failures = [], h_files = (\<lambda>_. None), h_writes = 0\<rparr>"

definition call_helper :: "guest_call \<Rightarrow> string" where
  "call_helper c = last (si_args (call_invocation c))"

text \<open>
  A property of the state that reading GitHub keeps, and so do the commands, the helpers and the files an
  operation is allowed: then every operation made of them keeps it, and returns.
\<close>

locale service_contract =
  fixes w :: host_world and methods :: "http_method set" and commands :: "nebius_command set"
    and helpers :: "string set" and files :: "host_file set" and good :: "host \<Rightarrow> bool"
  assumes github_good: "adapter_contract (hw_github w) methods (\<lambda>c. good (h\<lparr>h_github := c\<rparr>))"
    and command_good: "good h \<Longrightarrow> cmd \<in> commands \<Longrightarrow> good (h\<lparr>h_commands := h_commands h @ [cmd]\<rparr>)"
    and helper_good: "good h \<Longrightarrow> call_helper call \<in> helpers \<Longrightarrow> good (h\<lparr>h_guest := h_guest h @ [call]\<rparr>)"
    and failure_good: "good h \<Longrightarrow> good (h\<lparr>h_failures := fs\<rparr>)"
    and write_good: "good h \<Longrightarrow> f \<in> files \<Longrightarrow>
      good (h\<lparr>h_writes := n\<rparr>) \<and> good (h\<lparr>h_writes := n, h_files := (h_files h)(f := v)\<rparr>)"
begin

lemma keeps_fail: "keeps good (service_fail m)"
  by (simp add: service_fail_def keeps_return)

lemma keeps_on_github: "(\<And>h. keeps (\<lambda>c. good (h\<lparr>h_github := c\<rparr>)) m) \<Longrightarrow> keeps good (on_github m)"
proof (unfold keeps_def, intro allI impI)
  fix h assume m: "\<And>h. \<forall>c. good (h\<lparr>h_github := c\<rparr>) \<longrightarrow> (\<exists>c' r. m c = Some (c', r) \<and> good (h\<lparr>h_github := c'\<rparr>))"
    and "good h"
  then have "good (h\<lparr>h_github := h_github h\<rparr>)" by simp
  then obtain c' r where "m (h_github h) = Some (c', r)" "good (h\<lparr>h_github := c'\<rparr>)" using m by blast
  then show "\<exists>h' r. on_github m h = Some (h', r) \<and> good h'" by (simp add: on_github_def)
qed

lemma keeps_now: "keeps good (service_now w)"
proof (unfold keeps_def, intro allI impI)
  fix h assume "good h"
  then have "good (h\<lparr>h_github := h_github h\<rparr>)" by simp
  then have "good (h\<lparr>h_github := snd (tick_clock (hw_github w) (h_github h))\<rparr>)"
    by (rule adapter_contract.clock_good [OF github_good])
  then show "\<exists>h' r. service_now w h = Some (h', r) \<and> good h'"
    by (simp add: service_now_def case_prod_beta)
qed

lemma keeps_call: "(\<And>cmd. c = Inr cmd \<Longrightarrow> cmd \<in> commands) \<Longrightarrow> keeps good (call_nebius w c)"
  by (cases c) (auto simp: call_nebius_def keeps_def run_bind_def run_return_def run_command_def command_good)

lemma keeps_write: "f \<in> files \<Longrightarrow> keeps good (write_file w f v)"
  by (auto simp: keeps_def write_file_def Let_def write_good split: fault.split)

lemma keeps_read: "keeps good (host_read f)"
  by (simp add: keeps_def host_read_def)

lemmas keeps_steps = keeps_return keeps_fail keeps_bind keeps_if keeps_try keeps_now keeps_call keeps_read

lemma keeps_option: "keeps good n \<Longrightarrow> (\<And>x. keeps good (f x)) \<Longrightarrow> keeps good (case v of None \<Rightarrow> n | Some x \<Rightarrow> f x)"
  by (cases v) auto

lemma keeps_sum: "(\<And>x. keeps good (f x)) \<Longrightarrow> (\<And>x. keeps good (g x)) \<Longrightarrow> keeps good (case v of Inl x \<Rightarrow> f x | Inr x \<Rightarrow> g x)"
  by (cases v) auto

lemma keeps_permit: "keeps good (require_permit ctx w oper)" "keeps good (require_recovery_permit ctx w oper)"
  unfolding require_permit_def require_recovery_permit_def
  by (intro keeps_steps | simp split: permit_validation.split option.split add: keeps_steps)+

lemma keeps_list_pages:
  "(\<And>token cmd. command token = Inr cmd \<Longrightarrow> cmd \<in> commands) \<Longrightarrow>
   keeps good (list_pages w command what parse left token items)"
proof (induction left arbitrary: token items)
  case (Suc left)
  show ?case using Suc.prems
    by (auto intro!: keeps_steps keeps_option Suc.IH)
qed (simp add: keeps_fail)

lemma keeps_read_runners: "keeps good (read_runners ctx w)"
  unfolding read_runners_def by (rule keeps_on_github) (rule adapter_contract.keeps_reads [OF github_good])

lemma keeps_read_repository: "keeps good (read_repository ctx w)"
  unfolding read_repository_def
  by (intro keeps_steps keeps_on_github) (rule adapter_contract.keeps_reads [OF github_good])

lemma keeps_prior_state: "keeps good prior_state"
  unfolding prior_state_def by (intro keeps_steps keeps_option)

lemma keeps_remove_registration:
  assumes "DELETE \<in> methods"
  shows "keeps good (remove_owned_registration ctx w s phase busy)"
  unfolding remove_owned_registration_def Let_def
  by (intro keeps_steps keeps_read_runners keeps_on_github adapter_contract.keeps_writes [OF github_good] assms)

lemma keeps_try_guest:
  assumes "helper \<in> helpers"
  shows "keeps good (try_guest ctx w ident ip helper stdin secrets persist)"
proof -
  have ssh: "keeps good (run_ssh w call)" if "call_helper call \<in> helpers" for call
    using that by (simp add: keeps_def run_ssh_def helper_good)
  have persist: "keeps good (persist_helper_failure w f)" for f
    unfolding persist_helper_failure_def
    by (intro keeps_bind keeps_now) (simp add: keeps_def failure_good)
  have known: "keeps good (prepare_known_hosts w ip)" for ip
    by (simp add: keeps_def prepare_known_hosts_def)
  have built: "last (si_args inv) = sr_helper r" if "build_ssh_invocation sn r = Inr inv" for sn r inv
    using that by (auto simp: build_ssh_invocation_def Let_def result_simps)
  have bind_built: "keeps good (run_bind (run_return (build_ssh_invocation sn r)) f)"
    if "\<And>inv. build_ssh_invocation sn r = Inr inv \<Longrightarrow> keeps good (f inv)" for sn r and f :: "_ \<Rightarrow> (guest_failure + string) service"
    using that by (cases "build_ssh_invocation sn r") (auto simp: keeps_def run_bind_def run_return_def)
  show ?thesis
    unfolding try_guest_def
    by (auto intro!: keeps_steps keeps_option known bind_built ssh persist
      simp: Let_def call_helper_def assms dest!: built split: prod.split)
qed

end

section \<open>What reconciling may do\<close>

text \<open>The commands that list instances or operations; they change nothing at the provider.\<close>

definition listing_command :: "run_context \<Rightarrow> host_world \<Rightarrow> nebius_command \<Rightarrow> bool" where
  "listing_command ctx w cmd \<longleftrightarrow>
     (\<exists>token. list_instances_command (show_num w) (rc_nebius ctx) token = Inr cmd
        \<or> list_operations_command (show_num w) (rc_nebius ctx) token = Inr cmd)"

definition STATUS_HELPER :: string where "STATUS_HELPER = ''/opt/cirujano/status''"
definition ARM_HELPER :: string where "ARM_HELPER = ''/opt/cirujano/arm-grant''"

locale reading_service = service_contract +
  fixes ctx :: run_context
  assumes listings: "listing_command ctx w cmd \<Longrightarrow> cmd \<in> commands"
begin

lemma keeps_listings: "keeps good (list_instances ctx w)" "keeps good (list_operations ctx w)"
  unfolding list_instances_def list_operations_def
  by (rule keeps_list_pages, rule listings, auto simp: listing_command_def)+

lemma keeps_observe_provider: "keeps good (observe_provider ctx w)"
  unfolding observe_provider_def by (intro keeps_steps keeps_listings)

lemma keeps_observe_guest:
  assumes "STATUS_HELPER \<in> helpers"
  shows "keeps good (observe_guest ctx w prov)"
  unfolding observe_guest_def status_probe_def
  by (intro keeps_steps keeps_option keeps_sum keeps_try_guest) (use assms in \<open>simp add: STATUS_HELPER_def\<close>)

lemma keeps_arming_failed: "keeps good (arming_failed w prov d f)"
  unfolding arming_failed_def Let_def by (intro keeps_steps)

lemma keeps_reconcile:
  assumes "STATUS_HELPER \<in> helpers" "is_start_vm (pe_effect p) \<Longrightarrow> ARM_HELPER \<in> helpers"
  shows "keeps good (reconcile_effect ctx w p)"
proof -
  have reads: "keeps good (list_instances ctx w)" "keeps good (list_operations ctx w)"
      "keeps good (observe_guest ctx w prov)" "keeps good (read_runners ctx w)" "keeps good prior_state" for prov
    by (simp_all add: keeps_listings keeps_observe_guest assms keeps_read_runners keeps_prior_state)
  have running: "keeps good (reconcile_running_start ctx w p g d prov)" if "ARM_HELPER \<in> helpers" for g d prov
    unfolding reconcile_running_start_def arm_grant_def Let_def
    by (intro keeps_steps keeps_option keeps_sum reads keeps_arming_failed keeps_try_guest)
      (use that in \<open>simp add: ARM_HELPER_def\<close>)
  have others: "keeps good (reconcile_stopped_start ctx w x prov)" "keeps good (reconcile_absent_create ctx w x prov)"
      "keeps good (reconcile_lost_registration ctx w prov)" "keeps good (reconcile_registration ctx w prov)" for x prov
    unfolding reconcile_stopped_start_def reconcile_absent_create_def reconcile_lost_registration_def
      reconcile_registration_def Let_def
    by (intro keeps_steps keeps_option reads)+
  show ?thesis
    unfolding reconcile_effect_def Let_def
    by (rule keeps_bind [OF keeps_observe_provider])
      (use assms in \<open>auto intro!: keeps_steps keeps_option reads running others split: lifecycle_effect.split\<close>)
qed

end

text \<open>
  What happened since \<open>h0\<close>: requests of the methods \<open>ms\<close>, commands of the set \<open>cmds\<close>, helpers of the
  set \<open>hs\<close>, no write of a file.
\<close>

definition did :: "http_method set \<Rightarrow> nebius_command set \<Rightarrow> string set \<Rightarrow> host \<Rightarrow> host \<Rightarrow> bool" where
  "did ms cmds hs h0 h \<longleftrightarrow>
     sent_only (gc_log (h_github h0)) ms (h_github h) \<and> h_files h = h_files h0
     \<and> (\<exists>l. h_commands h = h_commands h0 @ l \<and> set l \<subseteq> cmds)
     \<and> (\<exists>l. h_guest h = h_guest h0 @ l \<and> call_helper ` set l \<subseteq> hs)"

lemma did_start: "host_ok h \<Longrightarrow> did ms cmds hs h h"
  by (simp add: did_def host_ok_def sent_only_start)

lemma did_host_ok: "did ms cmds hs h0 h \<Longrightarrow> host_ok h"
  by (simp add: did_def host_ok_def sent_only_def)

interpretation did: service_contract w "insert GET ms" cmds hs "{}" "did (insert GET ms) cmds hs h0" for w ms cmds hs h0
proof (rule service_contract.intro)
  show "adapter_contract (hw_github w) (insert GET ms) (\<lambda>c. did (insert GET ms) cmds hs h0 (h\<lparr>h_github := c\<rparr>))" for h
  proof
    fix c
    show "did (insert GET ms) cmds hs h0 (h\<lparr>h_github := snd (tick_clock (hw_github w) c)\<rparr>)"
      if "did (insert GET ms) cmds hs h0 (h\<lparr>h_github := c\<rparr>)"
      using that sends.clock_good by (auto simp: did_def)
    show "did (insert GET ms) cmds hs h0 (h\<lparr>h_github := snd (read_hold (hw_github w) c)\<rparr>)"
      if "did (insert GET ms) cmds hs h0 (h\<lparr>h_github := c\<rparr>)"
      using that sends.hold_good by (auto simp: did_def)
    show "keeps (\<lambda>c. did (insert GET ms) cmds hs h0 (h\<lparr>h_github := c\<rparr>)) (gh_call (hw_github w) meth endpoint params acc)"
      if "meth \<in> insert GET ms" for meth endpoint params acc
      using sends.call_good [OF that] unfolding keeps_def did_def by simp
  qed simp
next
  fix h cmd
  assume "did (insert GET ms) cmds hs h0 h" "cmd \<in> cmds"
  then show "did (insert GET ms) cmds hs h0 (h\<lparr>h_commands := h_commands h @ [cmd]\<rparr>)"
    by (force simp: did_def)
next
  fix h call
  assume "did (insert GET ms) cmds hs h0 h" "call_helper call \<in> hs"
  then show "did (insert GET ms) cmds hs h0 (h\<lparr>h_guest := h_guest h @ [call]\<rparr>)"
    by (force simp: did_def)
qed (simp_all add: did_def)

interpretation reading: reading_service w "insert GET ms" "{cmd. listing_command ctx w cmd}" hs "{}"
  "did (insert GET ms) {cmd. listing_command ctx w cmd} hs h0" ctx for w ms hs h0 ctx
  by unfold_locales simp

lemma keeps_ensures_from: "keeps good m \<Longrightarrow> good h0 \<Longrightarrow>
   ensures (\<lambda>h. h = h0) m (\<lambda>h r. good h \<and> m h0 = Some (h, r))"
  unfolding ensures_def using keepsD by fastforce

definition reconcile_helpers :: "lifecycle_effect \<Rightarrow> string set" where
  "reconcile_helpers eff = (if is_start_vm eff then {STATUS_HELPER, ARM_HELPER} else {STATUS_HELPER})"

text \<open>
  Reconciling a pending effect returns whatever the provider, GitHub, the guest and the clock answer, and
  changes nothing but the grant of a start: GitHub gets only GET requests, the provider only the commands
  that list instances and operations, no file is written, and the one helper besides the status probe is
  the one that arms the grant, for a start. The initial host satisfies the precondition.
\<close>

theorem reconcile_only_reads:
  "host_ok new_host
   \<and> ensures (\<lambda>h. h = h0 \<and> host_ok h) (reconcile_effect ctx w p)
       (\<lambda>h r. did {GET} {cmd. listing_command ctx w cmd} (reconcile_helpers (pe_effect p)) h0 h)"
proof (intro conjI)
  show "host_ok new_host"
    by (simp add: host_ok_def new_host_def cache_ok_def new_client_def CACHE_BYTE_LIMIT_def)
  have "keeps (did {GET} {cmd. listing_command ctx w cmd} (reconcile_helpers (pe_effect p)) h0) (reconcile_effect ctx w p)"
    using reading.keeps_reconcile [where ms = "{}", of "reconcile_helpers (pe_effect p)" p ctx w h0]
    by (simp add: reconcile_helpers_def)
  then show "ensures (\<lambda>h. h = h0 \<and> host_ok h) (reconcile_effect ctx w p)
      (\<lambda>h r. did {GET} {cmd. listing_command ctx w cmd} (reconcile_helpers (pe_effect p)) h0 h)"
    unfolding keeps_ensures by (rule ensures_conseq) (auto intro: did_start)
qed

section \<open>What an effect must have found\<close>

lemma ensures_pure: "(A \<Longrightarrow> ensures P m Q) \<Longrightarrow> ensures (\<lambda>h. P h \<and> A) m Q"
  by (simp add: ensures_def)

lemma exact_owned_iff:
  "exact_owned_instance instances e = Inr (Some i) \<longleftrightarrow> filter (\<lambda>i. instance_matches i e) instances = [i]"
  by (cases "filter (\<lambda>i. instance_matches i e) instances")
    (auto simp: exact_owned_instance_def Let_def result_simps)

text \<open>
  The one command an effect may send, given the listing of the instances: the create when the permit
  allows it, and start, stop and delete on the one instance that is exactly the expected one.
\<close>

definition effect_command ::
  "run_context \<Rightarrow> host_world \<Rightarrow> lifecycle_effect \<Rightarrow> nebius_instance list \<Rightarrow> nebius_command \<Rightarrow> bool" where
  "effect_command ctx w eff instances cmd \<longleftrightarrow>
     (let sn = show_num w; cli = rc_nebius ctx; sole = filter (\<lambda>i. instance_matches i (expected_resource_of ctx)) instances in
      case eff of
        ECreateVm _ _ _ \<Rightarrow>
          (\<exists>user_data request k. hw_cloudInit w = Inr user_data
             \<and> render_create_request (rc_config ctx) (configHash (rc_identity ctx)) user_data = Inr request
             \<and> create_command sn cli request = Inr cmd
             \<and> validate_permit (rc_permit ctx) (rc_identity ctx) (wclock (hw_github w) k) = Valid
             \<and> permits (rc_permit ctx) OpCreate)
      | EStartVm _ _ \<Rightarrow> (\<exists>i. sole = [i] \<and> start_command sn cli (ni_id i) = Inr cmd)
      | EStopVm _ \<Rightarrow> (\<exists>i. sole = [i] \<and> stop_command sn cli (ni_id i) = Inr cmd)
      | EDeleteVm _ \<Rightarrow>
          (\<exists>i k. sole = [i] \<and> ni_state i = VStopped \<and> delete_command sn cli (ni_id i) = Inr cmd
             \<and> validate_cleanup_permit (rc_permit ctx) (rc_identity ctx) (wclock (hw_github w) k) = Valid)
      | _ \<Rightarrow> False)"

fun effect_helpers :: "lifecycle_effect \<Rightarrow> string set" where
  "effect_helpers (ERegisterRunner _) = {''/opt/cirujano/register-runner''}"
| "effect_helpers (EBeginDrain _) = {''/opt/cirujano/drain''}"
| "effect_helpers EResumeAdmission = {''/opt/cirujano/resume-admission''}"
| "effect_helpers _ = {}"

declare effect_helpers.simps [simp del]

text \<open>Listings, then at most the one command of the effect.\<close>

definition owned_step :: "run_context \<Rightarrow> host_world \<Rightarrow> lifecycle_effect \<Rightarrow> host \<Rightarrow> host \<Rightarrow> bool" where
  "owned_step ctx w eff h0 h \<longleftrightarrow>
     did UNIV UNIV (effect_helpers eff) h0 h
     \<and> (\<exists>reads mut. h_commands h = h_commands h0 @ reads @ mut \<and> list_all (listing_command ctx w) reads
          \<and> (mut = [] \<or> (\<exists>cmd h1 instances. mut = [cmd] \<and> list_instances ctx w h0 = Some (h1, Inr instances)
               \<and> effect_command ctx w eff instances cmd)))"

abbreviation listed_only :: "run_context \<Rightarrow> host_world \<Rightarrow> lifecycle_effect \<Rightarrow> host \<Rightarrow> host \<Rightarrow> bool" where
  "listed_only ctx w eff h0 \<equiv> did UNIV {cmd. listing_command ctx w cmd} (effect_helpers eff) h0"

lemma did_mono: "did ms cmds hs h0 h \<Longrightarrow> cmds \<subseteq> cmds' \<Longrightarrow> did ms cmds' hs h0 h"
  unfolding did_def by blast

lemma listed_only_step: "listed_only ctx w eff h0 h \<Longrightarrow> owned_step ctx w eff h0 h"
proof -
  assume h: "listed_only ctx w eff h0 h"
  then obtain l where l: "h_commands h = h_commands h0 @ l" "set l \<subseteq> {cmd. listing_command ctx w cmd}"
    by (auto simp: did_def)
  then show ?thesis unfolding owned_step_def
    by (intro conjI exI [of _ l] exI [of _ "[]"] did_mono [OF h]) (auto simp: list_all_iff)
qed

lemma ensures_read: "keeps (listed_only ctx w eff h0) m \<Longrightarrow>
   ensures (listed_only ctx w eff h0) m (\<lambda>h r. owned_step ctx w eff h0 h)"
  unfolding keeps_ensures by (erule ensures_conseq) (auto intro: listed_only_step)

lemma ensures_mutation:
  assumes listed: "list_instances ctx w h0 = Some (h1, Inr instances)"
    and cmd: "\<And>cmd. c = Inr cmd \<Longrightarrow> effect_command ctx w eff instances cmd"
  shows "ensures (listed_only ctx w eff h0) (call_nebius w c) (\<lambda>h r. owned_step ctx w eff h0 h)"
proof (cases c)
  case (Inl e)
  then show ?thesis by (simp add: ensures_def call_nebius_def run_bind_def run_return_def listed_only_step)
next
  case (Inr x)
  have "owned_step ctx w eff h0 (h\<lparr>h_commands := h_commands h @ [x]\<rparr>)" if h: "listed_only ctx w eff h0 h" for h
  proof -
    obtain l where l: "h_commands h = h_commands h0 @ l" "set l \<subseteq> {cmd. listing_command ctx w cmd}"
      using h by (auto simp: did_def)
    have "list_all (listing_command ctx w) l" using l(2) by (auto simp: list_all_iff)
    moreover have "did UNIV UNIV (effect_helpers eff) h0 (h\<lparr>h_commands := h_commands h @ [x]\<rparr>)"
      using did.command_good [where ms = UNIV and cmds = UNIV, simplified, of "effect_helpers eff" h0 h x] did_mono [OF h, of UNIV]
      by simp
    ultimately show ?thesis unfolding owned_step_def using l(1) cmd [OF Inr] listed
      by (intro conjI exI [of _ l] exI [of _ "[x]"]) auto
  qed
  then show ?thesis by (simp add: Inr ensures_def call_nebius_def run_bind_def run_return_def run_command_def)
qed

lemma listed_reads:
  "keeps (listed_only ctx w eff h0) (list_instances ctx w)" "keeps (listed_only ctx w eff h0) (service_now w)"
  "keeps (listed_only ctx w eff h0) prior_state" "keeps (listed_only ctx w eff h0) (service_fail m)"
  "keeps (listed_only ctx w eff h0) (require_permit ctx w oper)"
  "keeps (listed_only ctx w eff h0) (remove_owned_registration ctx w s phase busy)"
  "keeps (listed_only ctx w eff h0) (on_github (create_registration_token (hw_github w) owner repo))"
  "helper \<in> effect_helpers eff \<Longrightarrow> keeps (listed_only ctx w eff h0) (run_guest ctx w i helper stdin secrets)"
  subgoal using reading.keeps_listings(1) [where ms = UNIV, simplified] by blast
  subgoal using did.keeps_now [where ms = UNIV, simplified] by blast
  subgoal using did.keeps_prior_state [where ms = UNIV, simplified] by blast
  subgoal by (simp add: service_fail_def keeps_return)
  subgoal using did.keeps_permit(1) [where ms = UNIV, simplified] by blast
  subgoal using did.keeps_remove_registration [where ms = UNIV, simplified] by blast
  subgoal
    using did.keeps_on_github [where ms = UNIV, simplified]
      adapter_contract.keeps_writes(5) [OF did.github_good [where ms = UNIV, simplified]] by blast
  subgoal unfolding run_guest_def
    using did.keeps_try_guest [where ms = UNIV, simplified]
    by (intro keeps_bind) (auto intro: keeps_return split: sum.split)
  done

lemma ensures_permit:
  "ensures (listed_only ctx w eff h0) (require_permit ctx w oper)
     (\<lambda>h r. listed_only ctx w eff h0 h
        \<and> (ok r \<longrightarrow> permits (rc_permit ctx) oper
             \<and> (\<exists>k. validate_permit (rc_permit ctx) (rc_identity ctx) (wclock (hw_github w) k) = Valid)))"
proof (unfold ensures_def, intro allI impI)
  fix h assume h: "listed_only ctx w eff h0 h"
  obtain h' r where r: "require_permit ctx w oper h = Some (h', r)" "listed_only ctx w eff h0 h'"
    using keepsD [OF listed_reads(5) h] by blast
  moreover have "ok r \<longrightarrow> permits (rc_permit ctx) oper
      \<and> (\<exists>k. validate_permit (rc_permit ctx) (rc_identity ctx) (wclock (hw_github w) k) = Valid)"
    using r(1) by (auto simp: require_permit_def run_bind_Some service_now_def tick_clock_def service_fail_def
      split: permit_validation.splits if_splits)
  ultimately show "\<exists>c' r. require_permit ctx w oper h = Some (c', r) \<and> listed_only ctx w eff h0 c' \<and>
      (ok r \<longrightarrow> permits (rc_permit ctx) oper
        \<and> (\<exists>k. validate_permit (rc_permit ctx) (rc_identity ctx) (wclock (hw_github w) k) = Valid))"
    by blast
qed

lemma ensures_then:
  assumes "ensures P m (\<lambda>h r. Q h)" "\<And>x. keeps Q (f x)"
  shows "ensures P (run_bind m f) (\<lambda>h r. Q h)"
  by (rule ensures_bind [OF assms(1)]) (use assms(2) in \<open>auto simp: keeps_ensures\<close>)

lemma ensures_mutate:
  assumes "\<And>x. ensures P (call_nebius w c) (\<lambda>h r. Q h)"
  shows "ensures P (mutate_instance w c name) (\<lambda>h r. Q h)" "ensures P (mutate_or_refuse w c name) (\<lambda>h r. Q h)"
  unfolding mutate_instance_def mutate_or_refuse_def
  by (rule ensures_then [OF assms]; auto intro!: keeps_return keeps_bind split: sum.split)+

lemma create_step:
  assumes "list_instances ctx w h0 = Some (h1, Inr instances)" "is_create_vm eff"
  shows "ensures (listed_only ctx w eff h0) (create_vm ctx w) (\<lambda>h r. owned_step ctx w eff h0 h)"
  unfolding create_vm_def
proof (rule ensures_bind [OF ensures_permit], goal_cases)
  case (1 u)
  have "ensures (listed_only ctx w eff h0)
      (mutate_or_refuse w (create_command (show_num w) (rc_nebius ctx) request) ''Nebius create'')
      (\<lambda>h r. owned_step ctx w eff h0 h)"
    if "hw_cloudInit w = Inr ud" "render_create_request (rc_config ctx) (configHash (rc_identity ctx)) ud = Inr request"
      "permits (rc_permit ctx) OpCreate" "validate_permit (rc_permit ctx) (rc_identity ctx) (wclock (hw_github w) k) = Valid"
    for ud request k
    by (intro ensures_mutate ensures_mutation [OF assms(1)])
      (use that assms(2) in \<open>cases eff; auto simp: effect_command_def Let_def\<close>)
  then show ?case
    by (cases "hw_cloudInit w"; cases "render_create_request (rc_config ctx) (configHash (rc_identity ctx)) (projr (hw_cloudInit w))")
      (auto simp: run_bind_def run_return_def ensures_def listed_only_step)
qed (auto intro: listed_only_step)

lemma step_returns: "keeps (owned_step ctx w eff h0) (run_return r)" "keeps (listed_only ctx w eff h0) (run_return r)"
  by (rule keeps_return)+

lemma delete_step:
  assumes "list_instances ctx w h0 = Some (h1, Inr instances)"
    and "exact_owned_instance instances (expected_resource_of ctx) = Inr (Some i)"
  shows "ensures (listed_only ctx w (EDeleteVm g) h0) (delete_vm ctx w s i) (\<lambda>h r. owned_step ctx w (EDeleteVm g) h0 h)"
proof -
  let ?P = "listed_only ctx w (EDeleteVm g) h0" and ?Q = "\<lambda>h (r :: jsnum exn + exec_outcome). owned_step ctx w (EDeleteVm g) h0 h"
  have now: "ensures ?P (service_now w) (\<lambda>h r. ?P h \<and> (\<exists>k. r = Inr (wclock (hw_github w) k)))"
    unfolding ensures_def
  proof (intro allI impI)
    fix h assume "?P h"
    then obtain h' r where "service_now w h = Some (h', r)" "?P h'" using keepsD [OF listed_reads(2)] by blast
    then show "\<exists>c' r. service_now w h = Some (c', r) \<and> ?P c' \<and> (\<exists>k. r = Inr (wclock (hw_github w) k))"
      by (auto simp: service_now_def tick_clock_def)
  qed
  have go: "ensures ?P (run_bind (remove_owned_registration ctx w s ''before delete'' True) (\<lambda>_.
        run_bind (mutate_instance w (delete_command (show_num w) (rc_nebius ctx) (ni_id i)) ''Nebius delete'') (\<lambda>oper.
        run_return (Inr (executed oper False))))) ?Q"
    if "validate_cleanup_permit (rc_permit ctx) (rc_identity ctx) (wclock (hw_github w) k) = Valid" "ni_state i = VStopped" for k
  proof (rule ensures_bind [where R = "\<lambda>h _. ?P h"])
    show "ensures ?P (remove_owned_registration ctx w s ''before delete'' True) (\<lambda>h _. ?P h)"
      unfolding keeps_ensures [symmetric] by (rule listed_reads(6))
    show "ensures (\<lambda>h. ?P h) (run_bind (mutate_instance w (delete_command (show_num w) (rc_nebius ctx) (ni_id i)) ''Nebius delete'')
        (\<lambda>oper. run_return (Inr (executed oper False)))) ?Q" for x
      by (intro ensures_then [OF ensures_mutate(1) [OF ensures_mutation [OF assms(1)]]] step_returns)
        (use that assms(2) in \<open>auto simp: effect_command_def exact_owned_iff Let_def\<close>)
  qed (rule listed_only_step)
  have "ensures (\<lambda>h. ?P h \<and> (\<exists>k. now = wclock (hw_github w) k))
      (case validate_cleanup_permit (rc_permit ctx) (rc_identity ctx) now of Invalid m \<Rightarrow> service_fail m
       | Valid \<Rightarrow> if ni_state i \<noteq> VStopped
           then service_fail [Lit ''delete-vm requires a stopped VM, found '', Lit (vm_status_str (ni_state i))]
           else run_bind (remove_owned_registration ctx w s ''before delete'' True) (\<lambda>_.
             run_bind (mutate_instance w (delete_command (show_num w) (rc_nebius ctx) (ni_id i)) ''Nebius delete'') (\<lambda>oper.
             run_return (Inr (executed oper False))))) ?Q" for now
    by (rule ensures_pure)
      (auto intro!: go ensures_read [OF listed_reads(4)] split: permit_validation.split)
  then show ?thesis unfolding delete_vm_def
    by (intro ensures_bind [OF now]) (auto intro: listed_only_step)
qed

lemma guest_step:
  "keeps (listed_only ctx w (ERegisterRunner x) h0) (register_runner ctx w s i)"
  "keeps (listed_only ctx w (EBeginDrain x) h0) (begin_drain ctx w s i)"
  "keeps (listed_only ctx w EResumeAdmission h0) (resume_admission ctx w i)"
  unfolding register_runner_def begin_drain_def resume_admission_def Let_def
  by (intro keeps_bind keeps_if keeps_return listed_reads; simp add: effect_helpers.simps)+

lemma instance_step:
  assumes listed: "list_instances ctx w h0 = Some (h1, Inr instances)"
    and sole: "exact_owned_instance instances (expected_resource_of ctx) = Inr (Some i)"
    and eff: "\<not> is_create_vm eff"
  shows "ensures (listed_only ctx w eff h0) (effect_on_instance ctx w eff i) (\<lambda>h r. owned_step ctx w eff h0 h)"
proof -
  have after: "ensures (listed_only ctx w eff h0) (run_bind prior_state f) (\<lambda>h r. owned_step ctx w eff h0 h)"
    if "\<And>s. ensures (listed_only ctx w eff h0) (f s) (\<lambda>h r. owned_step ctx w eff h0 h)" for f :: "_ \<Rightarrow> exec_outcome service"
    by (rule ensures_bind [where R = "\<lambda>h _. listed_only ctx w eff h0 h"])
      (use that listed_reads(3) in \<open>auto simp: keeps_ensures intro: listed_only_step\<close>)
  show ?thesis
  proof (cases eff)
    case (EStartVm g d)
    have "ensures (listed_only ctx w eff h0) (mutate_or_refuse w (start_command (show_num w) (rc_nebius ctx) (ni_id i)) ''Nebius start'')
        (\<lambda>h r. owned_step ctx w eff h0 h)"
      by (intro ensures_mutate ensures_mutation [OF listed])
        (use sole EStartVm in \<open>auto simp: effect_command_def exact_owned_iff Let_def\<close>)
    then show ?thesis using EStartVm by (simp add: effect_on_instance_def)
  next
    case (EStopVm b)
    have "ensures (listed_only ctx w eff h0) (mutate_instance w (stop_command (show_num w) (rc_nebius ctx) (ni_id i)) ''Nebius stop'')
        (\<lambda>h r. owned_step ctx w eff h0 h)"
      by (intro ensures_mutate ensures_mutation [OF listed])
        (use sole EStopVm in \<open>auto simp: effect_command_def exact_owned_iff Let_def\<close>)
    then show ?thesis using EStopVm by (auto simp: effect_on_instance_def intro!: ensures_then step_returns)
  next
    case (EDeleteVm g)
    then show ?thesis using delete_step [OF listed sole] after by (simp add: effect_on_instance_def)
  qed (use eff in \<open>auto simp: effect_on_instance_def
      intro!: ensures_read keeps_bind listed_reads(3) guest_step step_returns(2)\<close>)
qed


section \<open>When a pending effect is resolved\<close>

text \<open>The listing of the provider has exactly one VM that is the expected one; it has none, nor a related one.\<close>

definition sole_owned :: "run_context \<Rightarrow> host_world \<Rightarrow> host \<Rightarrow> nebius_instance \<Rightarrow> bool" where
  "sole_owned ctx w h i \<longleftrightarrow>
     (\<exists>h1 instances. list_instances ctx w h = Some (h1, Inr instances)
        \<and> filter (\<lambda>i. instance_matches i (expected_resource_of ctx)) instances = [i])"

definition none_owned :: "run_context \<Rightarrow> host_world \<Rightarrow> host \<Rightarrow> bool" where
  "none_owned ctx w h \<longleftrightarrow>
     (\<exists>h1 instances. list_instances ctx w h = Some (h1, Inr instances)
        \<and> list_all (\<lambda>i. \<not> instance_matches i (expected_resource_of ctx) \<and> \<not> related_to_expected i (expected_resource_of ctx)) instances)"

text \<open>The status the guest itself reported, and a complete listing of the runners.\<close>

definition guest_said :: "run_context \<Rightarrow> host_world \<Rightarrow> (guest_report \<Rightarrow> bool) \<Rightarrow> bool" where
  "guest_said ctx w P \<longleftrightarrow> (\<exists>net h1 h2 g. status_probe ctx w net h1 = Some (h2, Inr g) \<and> P g)"

definition runners_said :: "run_context \<Rightarrow> host_world \<Rightarrow> (ownership_status \<Rightarrow> bool) \<Rightarrow> bool" where
  "runners_said ctx w P \<longleftrightarrow>
     (\<exists>h1 h2 runners s. read_runners ctx w h1 = Some (h2, Inr runners) \<and> col_complete runners
        \<and> P (ro_ownership (owned_runner ctx w s (col_items runners))))"

definition resolution :: "run_context \<Rightarrow> host_world \<Rightarrow> lifecycle_effect \<Rightarrow> host \<Rightarrow> bool \<Rightarrow> bool" where
  "resolution ctx w eff h resolved \<longleftrightarrow>
     (case eff of
        ECreateVm _ _ _ \<Rightarrow> resolved = (\<exists>i. sole_owned ctx w h i)
      | EStopVm _ \<Rightarrow> resolved = (\<exists>i. sole_owned ctx w h i \<and> ni_state i = VStopped)
      | EDeleteVm _ \<Rightarrow> resolved = none_owned ctx w h
      | EStartVm g _ \<Rightarrow> resolved \<longrightarrow> (\<exists>i. sole_owned ctx w h i \<and> ni_state i = VRunning) \<and> guest_said ctx w (\<lambda>x. armed x g)
      | ERegisterRunner _ \<Rightarrow> resolved \<longrightarrow>
          (if none_owned ctx w h then runners_said ctx w (\<lambda>x. x = OAbsent)
           else runners_said ctx w (\<lambda>x. x = OOwned) \<and> guest_said ctx w (\<lambda>x. runnerActive x = Some True))
      | EBeginDrain _ \<Rightarrow> resolved \<longrightarrow> guest_said ctx w drained
      | EResumeAdmission \<Rightarrow> resolved \<longrightarrow> guest_said ctx w (\<lambda>x. admissionEnabled x = Some True)
      | _ \<Rightarrow> resolved)"

lemma observe_provider_Some:
  "observe_provider ctx w h = Some (h1, Inr prov) \<longleftrightarrow>
     (\<exists>r. list_instances ctx w h = Some (h1, r)
        \<and> prov = (case r of Inl _ \<Rightarrow> unknown_provider | Inr instances \<Rightarrow> provider_of_listing instances (expected_resource_of ctx)))"
  by (auto simp: observe_provider_def run_bind_Some run_try_Some)

lemma listing_cases:
  fixes instances :: "nebius_instance list" and e :: expected_resource
  obtains (none) "filter (\<lambda>i. instance_matches i e) instances = []" "filter (\<lambda>i. related_to_expected i e) instances = []"
    | (related) "filter (\<lambda>i. instance_matches i e) instances = []" "filter (\<lambda>i. related_to_expected i e) instances \<noteq> []"
    | (sole) i where "filter (\<lambda>i. instance_matches i e) instances = [i]"
    | (more) i j l where "filter (\<lambda>i. instance_matches i e) instances = i # j # l"
  by (cases "filter (\<lambda>i. instance_matches i e) instances"; cases "tl (filter (\<lambda>i. instance_matches i e) instances)") auto

lemma related_if_matches: "instance_matches i e \<Longrightarrow> related_to_expected i e"
  by (simp add: instance_matches_def related_to_expected_def)

lemma provider_says:
  assumes "observe_provider ctx w h = Some (h1, Inr prov)"
  shows "ownership prov = OOwned \<longleftrightarrow> (\<exists>i. sole_owned ctx w h i)"
    and "absent_provider prov \<longleftrightarrow> none_owned ctx w h"
    and "prov_complete prov \<and> vmStatus prov = VAbsent \<and> ownership prov = OAbsent \<longleftrightarrow> none_owned ctx w h"
    and "v \<noteq> VUnknown \<Longrightarrow> v \<noteq> VAbsent \<Longrightarrow> vmStatus prov = v \<longleftrightarrow> (\<exists>i. sole_owned ctx w h i \<and> ni_state i = v)"
proof -
  obtain r where r: "list_instances ctx w h = Some (h1, r)"
    "prov = (case r of Inl _ \<Rightarrow> unknown_provider | Inr instances \<Rightarrow> provider_of_listing instances (expected_resource_of ctx))"
    using assms by (auto simp: observe_provider_Some)
  note defs = sole_owned_def none_owned_def absent_provider_def unknown_provider_def provider_of_listing_def Let_def
  have empty: "list_all (\<lambda>i. \<not> instance_matches i e \<and> \<not> related_to_expected i e) l \<longleftrightarrow>
      filter (\<lambda>i. instance_matches i e) l = [] \<and> filter (\<lambda>i. related_to_expected i e) l = []" for e l
    by (auto simp: list_all_iff filter_empty_conv)
  show "ownership prov = OOwned \<longleftrightarrow> (\<exists>i. sole_owned ctx w h i)"
    using r by (cases r) (simp_all add: defs, rule listing_cases, auto)
  show "absent_provider prov \<longleftrightarrow> none_owned ctx w h"
    using r by (cases r) (simp_all add: defs empty, rule listing_cases, auto)
  show "prov_complete prov \<and> vmStatus prov = VAbsent \<and> ownership prov = OAbsent \<longleftrightarrow> none_owned ctx w h"
    using r by (cases r) (simp_all add: defs empty, rule listing_cases, auto)
  show "vmStatus prov = v \<longleftrightarrow> (\<exists>i. sole_owned ctx w h i \<and> ni_state i = v)" if "v \<noteq> VUnknown" "v \<noteq> VAbsent"
    using r that by (cases r) (simp_all add: defs, rule listing_cases, auto)
qed

lemma guest_said_if:
  assumes g: "observe_guest ctx w prov h1 = Some (h2, Inr g)" "P g" and no: "\<not> P absent_guest" "\<And>v. \<not> P (unobserved_guest v)"
  shows "guest_said ctx w P"
proof -
  obtain net where net: "network prov = Some net" "vmStatus prov \<noteq> VAbsent" "vmStatus prov \<noteq> VStopped" "ownership prov = OOwned"
    using assms by (cases "network prov") (auto simp: observe_guest_def split: if_splits)
  then obtain r where "status_probe ctx w net h1 = Some (h2, r)"
      "g = (case r of Inl _ \<Rightarrow> unobserved_guest (vmStatus prov) | Inr g \<Rightarrow> g)"
    using g(1) by (auto simp: observe_guest_def run_bind_Some run_try_Some)
  then show ?thesis using g(2) no unfolding guest_said_def by (cases r) auto
qed

lemma said_simps:
  "\<not> armed absent_guest g" "\<not> armed (unobserved_guest v) g" "\<not> drained absent_guest" "\<not> drained (unobserved_guest v)"
  "runnerActive absent_guest \<noteq> Some True" "runnerActive (unobserved_guest v) \<noteq> Some True"
  "admissionEnabled absent_guest \<noteq> Some True" "admissionEnabled (unobserved_guest v) \<noteq> Some True"
  by (simp_all add: armed_def drained_def absent_guest_def unobserved_guest_def)

lemma reconciled_simps [simp]:
  "rr_resolved (reconciled b v) = b" "reconciled b v = reconciled b' v' \<longleftrightarrow> b = b' \<and> v = v'"
  by (auto simp: reconciled_def)

lemma running_start_resolved:
  assumes "reconcile_running_start ctx w p g d prov h = Some (h', Inr res)" "rr_resolved res"
  shows "guest_said ctx w (\<lambda>x. armed x g)"
proof -
  have failed: "rr_resolved r = False" if "arming_failed w prov b f h1 = Some (h2, Inr r)" for b f h1 h2 r
    using that by (auto simp: arming_failed_def Let_def run_bind_Some service_fail_def split: if_splits)
  have armed: "\<exists>h1 h2 x. observe_guest ctx w prov h1 = Some (h2, Inr x) \<and> armed x g"
    if "arm_grant ctx w p g d prov i h1 = Some (h2, Inr res)" for i h1 h2
    using that unfolding arm_grant_def Let_def
    apply (elim run_bindE)
    subgoal for c1 now c2 r using assms(2) failed by (cases r) (auto elim!: run_bindE, blast)
    done
  have "\<exists>h1 h2 x. observe_guest ctx w prov h1 = Some (h2, Inr x) \<and> armed x g"
    using assms armed
    by (auto simp: reconcile_running_start_def run_bind_Some split: option.splits if_splits) blast+
  then show ?thesis using guest_said_if [where P = "\<lambda>x. armed x g"] said_simps by blast
qed

lemma registration_resolved:
  assumes "reconcile_registration ctx w prov h = Some (h', Inr res)" "rr_resolved res"
  shows "runners_said ctx w (\<lambda>x. x = OOwned)" "guest_said ctx w (\<lambda>x. runnerActive x = Some True)"
proof -
  obtain h1 h2 x h3 h4 runners s where *: "observe_guest ctx w prov h1 = Some (h2, Inr x)" "runnerActive x = Some True"
      "read_runners ctx w h3 = Some (h4, Inr runners)" "col_complete runners"
      "ro_ownership (owned_runner ctx w s (col_items runners)) = OOwned"
    using assms by (auto simp: reconcile_registration_def Let_def run_bind_Some split: if_splits)
  show "runners_said ctx w (\<lambda>x. x = OOwned)" using *(3-5) unfolding runners_said_def by blast
  show "guest_said ctx w (\<lambda>x. runnerActive x = Some True)"
    using guest_said_if [where P = "\<lambda>x. runnerActive x = Some True"] *(1,2) said_simps by blast
qed

lemma lost_registration_resolved:
  assumes "reconcile_lost_registration ctx w prov h = Some (h', Inr res)" "rr_resolved res"
  shows "runners_said ctx w (\<lambda>x. x = OAbsent)"
  using assms unfolding runners_said_def
  by (auto simp: reconcile_lost_registration_def Let_def run_bind_Some split: if_splits) blast

lemma pending_reads_unresolved:
  "reconcile_stopped_start ctx w x prov h = Some (h', Inr res) \<Longrightarrow> \<not> rr_resolved res"
  "reconcile_absent_create ctx w x prov h = Some (h', Inr res) \<Longrightarrow> \<not> rr_resolved res"
  subgoal
    unfolding reconcile_stopped_start_def Let_def
    by (elim run_bindE) (auto simp: run_bind_Some split: option.split_asm if_split_asm simp del: option.case)
  subgoal by (auto simp: reconcile_absent_create_def Let_def run_bind_Some)
  done

lemma guest_effect_resolved:
  assumes "run_bind (observe_guest ctx w prov) (\<lambda>g. run_return (Inr (reconciled (P g) (f g)))) h = Some (h', Inr res)"
    "rr_resolved res" "\<not> P absent_guest" "\<And>v. \<not> P (unobserved_guest v)"
  shows "guest_said ctx w P"
proof -
  obtain h2 g where "observe_guest ctx w prov h = Some (h2, Inr g)" "P g"
    using assms(1,2) by (auto simp: run_bind_Some)
  then show ?thesis using guest_said_if [OF _ _ assms(3,4)] by blast
qed

lemma reconcile_resolution:
  assumes "reconcile_effect ctx w p h = Some (h', Inr res)"
  shows "resolution ctx w (pe_effect p) h (rr_resolved res)"
proof -
  obtain h1 prov where prov: "observe_provider ctx w h = Some (h1, Inr prov)"
    using assms by (auto simp: reconcile_effect_def run_bind_Some)
  note says = provider_says [OF prov]
  note step = assms [unfolded reconcile_effect_def, unfolded run_bind_Some]
  show ?thesis
  proof (cases "pe_effect p")
    case (ECreateVm g n d)
    have "\<not> (\<exists>i. sole_owned ctx w h i)" if "absent_provider prov"
      using that says(1) by (auto simp: absent_provider_def)
    then show ?thesis using step prov ECreateVm says(1) pending_reads_unresolved(2)
      by (auto simp: resolution_def Let_def split: if_splits option.splits)
  next
    case (EStartVm g d)
    show ?thesis using step prov EStartVm says(4) [of VRunning] running_start_resolved pending_reads_unresolved(1)
      by (auto simp: resolution_def Let_def split: if_splits option.splits)
  next
    case (ERegisterRunner c)
    show ?thesis using step prov ERegisterRunner says(2) registration_resolved lost_registration_resolved
      by (auto simp: resolution_def Let_def split: if_splits)
  next
    case (EBeginDrain d)
    show ?thesis using step prov EBeginDrain guest_effect_resolved [where P = drained] said_simps
      by (auto simp: resolution_def Let_def)
  next
    case EResumeAdmission
    show ?thesis using step prov EResumeAdmission guest_effect_resolved [where P = "\<lambda>g. admissionEnabled g = Some True"] said_simps
      by (auto simp: resolution_def Let_def)
  next
    case (EStopVm b)
    then show ?thesis using step prov says(4) [of VStopped] by (auto simp: resolution_def Let_def)
  next
    case (EDeleteVm g)
    then show ?thesis using step prov says(3) by (auto simp: resolution_def Let_def)
  qed (use step prov in \<open>auto simp: resolution_def Let_def\<close>)
qed


end
