(* ===== verification/Accounting_Properties.thy ===== *)
theory Accounting_Properties
  imports Observe Nebius_Properties Effects_Properties
begin

text \<open>
  The accounting promises: the journal a tick advances is one the controller accepts after the saved one,
  the totals never fall, the file is read back as it was written, and a known assignment is not forgotten.
\<close>

section \<open>The advanced journal\<close>

lemma num_max_not_less: "\<not> num_max a b < a"
  by (cases a; cases b) (auto simp: num_max_def num_ops)

lemma observed_idle_extends:
  "observed_idle inp = idleObservations (ol_lifecycle inp)
   \<or> (\<exists>b. observed_idle inp = idleObservations (ol_lifecycle inp)
        @ [\<lparr>idle_observedAtMs = ol_nowMs inp, idle_complete = b, idle_generation = startCount (ol_lifecycle inp)\<rparr>])"
  by (auto simp: observed_idle_def Let_def same_num_def dest!: num_eqD split: option.split)

lemma observed_totals:
  "\<not> observed_runtime inp a < cumulativeRuntimeMs (ol_lifecycle inp)"
  "\<not> observed_cost inp a r < cumulativeCostUsd (ol_lifecycle inp)"
proof -
  have "\<not> x < (x :: jsnum)" for x by (cases x) auto
  then show "\<not> observed_runtime inp a < cumulativeRuntimeMs (ol_lifecycle inp)"
    by (auto simp: observed_runtime_def Let_def num_max_not_less)
  show "\<not> observed_cost inp a r < cumulativeCostUsd (ol_lifecycle inp)"
    by (simp add: observed_cost_def Let_def num_max_not_less)
qed

text \<open>
  C17 (invariant). Whatever was observed, the journal an observation advances is one the controller accepts after the saved
  one: no accumulated runtime or cost falls, the start count, state and intent are untouched, and the
  idle observations are those saved with at most one of this instant and this generation added.
\<close>

theorem advanced_journal_accepted:
  "let (j, a) = advance_observed_lifecycle inp; saved = ol_lifecycle inp in
     merge_lifecycle saved j = Inr (j\<lparr>idleObservations := slice_last 100 (idleObservations j)\<rparr>)
     \<and> startCount j = startCount saved \<and> jstate j = jstate saved \<and> outstandingIntent j = outstandingIntent saved
     \<and> (idleObservations j = idleObservations saved
        \<or> (\<exists>b. idleObservations j = idleObservations saved
             @ [\<lparr>idle_observedAtMs = ol_nowMs inp, idle_complete = b, idle_generation = startCount saved\<rparr>]))"
proof -
  obtain j a where ja: "advance_observed_lifecycle inp = (j, a)" by (cases "advance_observed_lifecycle inp")
  have "\<not> x < (x :: jsnum)" for x by (cases x) auto
  moreover have "idleObservations (ol_lifecycle inp) = take (length (idleObservations (ol_lifecycle inp))) (observed_idle inp)"
    using observed_idle_extends [of inp] by auto
  ultimately show ?thesis
    using ja observed_totals observed_idle_extends [of inp]
    by (auto simp: advance_observed_lifecycle_def merge_lifecycle_def Let_def)
qed

section \<open>The file of the accounting\<close>

definition amount_ok :: "jsnum \<Rightarrow> bool" where
  "amount_ok n \<longleftrightarrow> is_finite n \<and> \<not> n < Fin 0"

definition accounting_ok :: "accounting \<Rightarrow> bool" where
  "accounting_ok a \<longleftrightarrow>
     amount_ok (diskRetainedMs a) \<and> amount_ok (runtimeBaselineMs a) \<and> amount_ok (networkEgressBytes a)
     \<and> pred_option is_finite (diskStartedAtMs a)
     \<and> pred_option (\<lambda>n. is_integer n \<and> \<not> n < Fin 1) (acc_generation a)
     \<and> pred_option amount_ok (networkBaselineBytes a) \<and> pred_option amount_ok (networkGenerationStartBytes a)"

lemma json_amount: "amount_ok n \<Longrightarrow> json_num n = JNum n" "is_finite n \<Longrightarrow> json_num n = JNum n"
  by (simp_all add: amount_ok_def json_num_def)

lemma nonnegative_amount [simp]: "nonnegative_num (JNum n) \<longleftrightarrow> amount_ok n"
  by (simp add: nonnegative_num_def amount_ok_def num_of_def)

theorem accounting_file_roundtrip:
  assumes "accounting_ok a" "write_file w AccountingFile (file_json ctx (accounting_fields a)) h = Some (h1, Inr u)"
  shows "read_accounting ctx s prov now h1 = Some (h1, Inr a)"
proof -
  have "h_files h1 AccountingFile = Some (file_json ctx (accounting_fields a))"
    using assms(2) by (auto simp: write_file_def Let_def split: fault.splits)
  moreover have "parse_accounting ctx (file_json ctx (accounting_fields a)) = Inr a"
    using assms(1)
    by (cases a; cases "diskStartedAtMs a"; cases "acc_generation a"; cases "networkBaselineBytes a";
        cases "networkGenerationStartBytes a")
      (auto simp: accounting_ok_def parse_accounting_def file_json_def accounting_fields_def journal_fields_def
        version_and_identity_def opt_json_def json_amount is_integer_finite num_of_def Let_def)
  ultimately show ?thesis by (simp add: read_accounting_def host_read_def run_bind_def run_return_def)
qed

section \<open>Known assignments\<close>

lemma merged_key: "merged_assignment prev j runner = Some k \<Longrightarrow> ka_key k = job_key j"
  by (auto simp: merged_assignment_def ka_key_def job_key_def split: if_splits option.splits)

text \<open>The entries are the known assignments under their own keys.\<close>

definition keyed :: "(jsnum \<times> jsnum \<times> jsnum, known_assignment) jsmap \<Rightarrow> bool" where
  "keyed m \<longleftrightarrow> map_ok m \<and> (\<forall>(k, a) \<in> set m. ka_key a = k)"

lemma assignment_set_map_set: "set (map_set k v m) \<subseteq> insert (k, v) (set m)"
  by (induction m) (auto split: if_splits)

lemma assignment_keyed_set: "keyed m \<Longrightarrow> keyed (map_set (ka_key a) a m)"
  using assignment_set_map_set [of "ka_key a" a m] jm.invar_upd [of m "ka_key a" a] unfolding keyed_def by fastforce

lemma keyed_merge: "keyed m \<Longrightarrow> keyed (merge_job runner m j)"
  by (auto simp: merge_job_def dest: merged_key intro: assignment_keyed_set split: option.split)
    (metis assignment_keyed_set merged_key)

lemma keyed_prior: "keyed m \<Longrightarrow> keyed (foldl (\<lambda>m k. map_set (ka_key k) k m) m prior)"
  by (induction prior arbitrary: m) (auto intro: assignment_keyed_set)

lemma keyed_jobs: "keyed m \<Longrightarrow> keyed (foldl (merge_job runner) m jobs)"
  by (induction jobs arbitrary: m) (auto intro: keyed_merge)

lemma keyed_values: "keyed m \<Longrightarrow> map (\<lambda>a. (ka_key a, a)) (map snd m) = m"
  by (auto simp: keyed_def intro!: map_idI)

lemma merge_job_get:
  "map_get (merge_job runner m j) k =
     (if k = job_key j then (case merged_assignment (map_get m k) j runner of None \<Rightarrow> map_get m k | Some a \<Rightarrow> Some a)
      else map_get m k)"
  by (auto simp: merge_job_def map_get_set split: option.split)

lemma merge_jobs_get:
  "distinct (map job_key jobs) \<Longrightarrow>
   map_get (foldl (merge_job runner) m jobs) k =
     (case find (\<lambda>j. job_key j = k) jobs of
        None \<Rightarrow> map_get m k
      | Some j \<Rightarrow> (case merged_assignment (map_get m k) j runner of None \<Rightarrow> map_get m k | Some a \<Rightarrow> Some a))"
proof (induction jobs arbitrary: m)
  case (Cons j jobs)
  have "find (\<lambda>j'. job_key j' = job_key j) jobs = None" using Cons.prems by (auto simp: find_None_iff) (metis image_eqI)
  then show ?case using Cons by (auto simp: merge_job_get split: option.split)
qed simp

text \<open>The assignment recorded under a key.\<close>

definition assignment_at :: "known_assignment list \<Rightarrow> jsnum \<times> jsnum \<times> jsnum \<Rightarrow> known_assignment option" where
  "assignment_at ks k = map_of (rev (map (\<lambda>a. (ka_key a, a)) ks)) k"

lemma prior_get: "map_get (foldl (\<lambda>m k. map_set (ka_key k) k m) [] prior) k = assignment_at prior k"
proof -
  have "foldl (\<lambda>m k. map_set (ka_key k) k m) m prior = foldl (\<lambda>m (k, v). map_set k v m) m (map (\<lambda>a. (ka_key a, a)) prior)" for m
    by (induction prior arbitrary: m) auto
  then show ?thesis using jm.get_of_list [of "map (\<lambda>a. (ka_key a, a)) prior" k]
    by (simp add: jm.of_list_def assignment_at_def)
qed

text \<open>
  Merging the jobs that were read into the known assignments keeps one record for every key and forgets
  none: a key that was not read keeps its record, a job that was read replaces it when it belongs to the
  expected runner or was known before, and any other job is left out.
\<close>

theorem assignments_merged:
  assumes "distinct (map job_key jobs)"
  shows "distinct (map ka_key (merge_assignments prior jobs runner))
    \<and> assignment_at (merge_assignments prior jobs runner) k =
      (case find (\<lambda>j. job_key j = k) jobs of
         None \<Rightarrow> assignment_at prior k
       | Some j \<Rightarrow> (case merged_assignment (assignment_at prior k) j runner of
           None \<Rightarrow> assignment_at prior k | Some a \<Rightarrow> Some a))"
proof -
  define m where "m = foldl (merge_job runner) (foldl (\<lambda>m k. map_set (ka_key k) k m) [] prior) jobs"
  have keyed: "keyed m" unfolding m_def by (intro keyed_jobs keyed_prior) (simp add: keyed_def jm.invar_empty)
  have ms: "merge_assignments prior jobs runner = map snd m" by (simp add: merge_assignments_def m_def)
  have "map ka_key (map snd m) = map fst m" using keyed by (auto simp: keyed_def)
  then have d: "distinct (map ka_key (merge_assignments prior jobs runner))"
    using keyed unfolding ms by (simp only: keyed_def map_ok_def)
  have "assignment_at (map snd m) k = map_of (rev m) k"
    by (simp only: assignment_at_def keyed_values [OF keyed])
  also have "\<dots> = map_get m k" using keyed map_of_inject_set [of "rev m" m]
    by (simp add: keyed_def map_ok_def map_get_def flip: rev_map)
  finally show ?thesis
    using d merge_jobs_get [OF assms, of runner "foldl (\<lambda>m k. map_set (ka_key k) k m) [] prior" k]
    unfolding ms prior_get by (simp only: m_def [symmetric] simp_thms)
qed

section \<open>Witnesses\<close>

definition sample_accounting :: accounting where
  "sample_accounting =
     \<lparr>diskStartedAtMs = Some (Fin 1000), diskRetainedMs = Fin 5, runtimeBaselineMs = Fin 0, acc_generation = Some (Fin 1),
      networkEgressBytes = Fin 7, networkBaselineBytes = Some (Fin 0), networkGenerationStartBytes = None\<rparr>"

text \<open>A world in which every file is written, every process fails and the clock stands.\<close>

definition quiet_world :: host_world where
  "quiet_world =
     \<lparr>hw_github = \<lparr>wclock = (\<lambda>_. Fin 2000), wprocess = (\<lambda>_ _. Inl (plain_error [])), wnumber_of = (\<lambda>_. NaN),
        wdate_of = (\<lambda>_. NaN), wjson_parse = (\<lambda>_. None), wbyte_length = (\<lambda>_. 0), wshow_number = (\<lambda>_. []),
        wlocale_le = (\<lambda>_ _. True)\<rparr>,
      hw_nebius = (\<lambda>_ _. Inl (plain_error [])), hw_ssh = (\<lambda>_ _. Inl (plain_error [])), hw_knownHosts = (\<lambda>_ _. Inr ()),
      hw_cloudInit = Inr [], hw_write = (\<lambda>_. NoFault)\<rparr>"

theorem accounting_file_roundtrip_witness:
  "\<exists>h1. write_file quiet_world AccountingFile (file_json sample_context (accounting_fields sample_accounting)) new_host
       = Some (h1, Inr ())
     \<and> read_accounting sample_context None unknown_provider (Fin 2000) h1 = Some (h1, Inr sample_accounting)"
proof -
  have "accounting_ok sample_accounting"
    by (simp add: accounting_ok_def sample_accounting_def amount_ok_def)
  moreover obtain h1 where
    "write_file quiet_world AccountingFile (file_json sample_context (accounting_fields sample_accounting)) new_host
       = Some (h1, Inr ())"
    by (simp add: write_file_def quiet_world_def Let_def)
  ultimately show ?thesis using accounting_file_roundtrip [of sample_accounting quiet_world sample_context new_host] by blast
qed

definition sample_job :: workflow_job where
  "sample_job =
     \<lparr>job_id = Fin 9, job_runId = Fin 3, job_runAttempt = Fin 1, job_headSha = ''abc'', job_status = ''in_progress'',
      job_conclusion = None, job_name = ''verify'', job_labels = [], job_runnerId = Some (Fin 5),
      job_runnerName = Some ''cirujano-g1'', job_runnerGroupId = None, job_runnerGroupName = None,
      job_startedAt = None, job_completedAt = None\<rparr>"

theorem assignments_merged_witness:
  "assignment_at (merge_assignments [] [sample_job] ''cirujano-g1'') (Fin 3, Fin 1, Fin 9) =
     Some \<lparr>ka_runId = Fin 3, ka_runAttempt = Fin 1, ka_jobId = Fin 9, ka_runnerId = Fin 5,
       ka_runnerName = ''cirujano-g1'', ka_conclusion = None\<rparr>"
  using assignments_merged [of "[sample_job]" "[]" "''cirujano-g1''" "(Fin 3, Fin 1, Fin 9)"]
  by (simp add: sample_job_def job_key_def merged_assignment_def assignment_at_def)

end
