(* ===== verification/Direct_Properties.thy ===== *)
theory Direct_Properties
  imports Direct Accounting_Properties
begin

text \<open>
  The direct commands promise: an observation only reads, a command sends at most one mutation, and only
  while the file of the direct action already says that this emission is under way.
\<close>

section \<open>Observing\<close>

context reading_service
begin

lemma keeps_read_jobs: "keeps good (read_jobs ctx w a b)"
  unfolding read_jobs_def by (intro keeps_on_github adapter_contract.keeps_reads(3) [OF github_good])

lemma keeps_active_jobs: "keeps good (jobs_of_active_runs ctx w xs r)"
  by (induction xs arbitrary: r) (auto intro!: keeps_steps keeps_read_jobs)

lemma keeps_known_jobs: "keeps good (jobs_of_known ctx w ks r)"
  by (induction ks arbitrary: r) (auto intro!: keeps_steps keeps_read_jobs keeps_option)

lemma keeps_held_queue: "keeps good (held_queue w q)"
proof (unfold keeps_def, intro allI impI)
  fix h assume "good h"
  then have "good (h\<lparr>h_github := h_github h\<rparr>)" by simp
  then have "good (h\<lparr>h_github := snd (read_hold (hw_github w) (h_github h))\<rparr>)"
    by (rule adapter_contract.hold_good [OF github_good])
  then show "\<exists>h' r. held_queue w q h = Some (h', r) \<and> good h'"
    by (simp add: held_queue_def case_prod_beta)
qed

lemma keeps_observe_first: "keeps good (observe_first ctx w)"
proof -
  have "keeps good (observe_repository ctx w)"
    unfolding observe_repository_def by (intro keeps_steps keeps_sum keeps_read_repository)
  moreover have "keeps good (on_github (list_active_runs (hw_github w) (rc_owner ctx) (rc_repository ctx)))"
    by (intro keeps_on_github adapter_contract.keeps_reads(1) [OF github_good])
  ultimately show ?thesis
    unfolding observe_first_def
    by (intro keeps_steps keeps_observe_provider keeps_read_runners keeps_prior_state)
qed

lemma keeps_observe_host:
  assumes "STATUS_HELPER \<in> helpers" "{AssignmentFile, ActiveJobFile, AccountingFile} \<subseteq> files"
  shows "keeps good (observe_host ctx w)"
proof -
  have writes: "keeps good (write_file w f v)" if "f \<in> {AssignmentFile, ActiveJobFile, AccountingFile}" for f v
    using that assms(2) by (intro keeps_write) auto
  have jobs: "keeps good (observe_jobs ctx w fr known)" for fr known
    unfolding observe_jobs_def Let_def by (intro keeps_steps keeps_active_jobs keeps_known_jobs)
  have "keeps good (observe_assignments ctx w fr)" for fr
    unfolding observe_assignments_def read_assignments_def Let_def
    by (intro keeps_steps keeps_option jobs writes) simp
  moreover have "keeps good (observe_activity ctx w now fr a q g)" for now fr a q g
    unfolding observe_activity_def read_active_job_marker_def Let_def
    by (intro keeps_steps keeps_option writes) simp
  moreover have "keeps good (read_accounting ctx s prov now)" for s prov now
    unfolding read_accounting_def Let_def by (intro keeps_steps keeps_option)
  ultimately show ?thesis
    unfolding observe_host_def Let_def case_prod_beta
    by (intro keeps_steps keeps_observe_first keeps_held_queue keeps_observe_guest assms writes) simp_all
qed

end

section \<open>Only listings\<close>

text \<open>Since \<open>h0\<close> the provider was only asked for listings; files, guest and GitHub may have changed.\<close>

definition only_listed :: "run_context \<Rightarrow> host_world \<Rightarrow> host \<Rightarrow> host \<Rightarrow> bool" where
  "only_listed ctx w h0 h \<longleftrightarrow>
     host_ok h \<and> (\<exists>l. h_commands h = h_commands h0 @ l \<and> list_all (listing_command ctx w) l)"

lemma only_listed_refl: "host_ok h \<Longrightarrow> only_listed ctx w h h"
  by (simp add: only_listed_def)

lemma only_listed_trans: "only_listed ctx w h0 h1 \<Longrightarrow> only_listed ctx w h1 h2 \<Longrightarrow> only_listed ctx w h0 h2"
  by (auto simp: only_listed_def)

interpretation free: reading_service w UNIV "{cmd. listing_command ctx w cmd}" UNIV UNIV "only_listed ctx w h0" ctx for w ctx h0
proof (rule reading_service.intro, rule service_contract.intro)
  show "adapter_contract (hw_github w) UNIV (\<lambda>c. only_listed ctx w h0 (h\<lparr>h_github := c\<rparr>))" for h
  proof
    fix c
    show "only_listed ctx w h0 (h\<lparr>h_github := snd (tick_clock (hw_github w) c)\<rparr>)" if "only_listed ctx w h0 (h\<lparr>h_github := c\<rparr>)"
      using that bounded.clock_good by (auto simp: only_listed_def host_ok_def)
    show "only_listed ctx w h0 (h\<lparr>h_github := snd (read_hold (hw_github w) c)\<rparr>)" if "only_listed ctx w h0 (h\<lparr>h_github := c\<rparr>)"
      using that bounded.hold_good by (auto simp: only_listed_def host_ok_def)
    show "keeps (\<lambda>c. only_listed ctx w h0 (h\<lparr>h_github := c\<rparr>)) (gh_call (hw_github w) meth endpoint params acc)"
      for meth endpoint params acc
      using gh_call_ok unfolding keeps_def only_listed_def host_ok_def by simp
  qed simp
next
  fix h cmd assume "only_listed ctx w h0 h" "cmd \<in> {cmd. listing_command ctx w cmd}"
  then show "only_listed ctx w h0 (h\<lparr>h_commands := h_commands h @ [cmd]\<rparr>)"
    by (force simp: only_listed_def host_ok_def)
next
  show "reading_service_axioms w {cmd. listing_command ctx w cmd} ctx" by unfold_locales simp
qed (simp_all add: only_listed_def host_ok_def)

lemma keeps_Some: "keeps good m \<Longrightarrow> good h \<Longrightarrow> m h = Some (h', r) \<Longrightarrow> good h'"
  unfolding keeps_def by fastforce

text \<open>The wait ends or does not; either way it only lists.\<close>

lemma wait_loop_listed:
  assumes "wait_loop ctx w act ident deadline h = Some (h', r)" "only_listed ctx w h0 h"
  shows "only_listed ctx w h0 h'"
proof -
  have "only_listed ctx w h0 h \<longrightarrow> only_listed ctx w h0 (fst (h', r))"
  proof (rule wait_loop.raw_induct [where P = "\<lambda>ctx w act ident deadline h res. only_listed ctx w h0 h \<longrightarrow> only_listed ctx w h0 (fst res)", OF _ assms(1)])
    fix loop ctx w act ident deadline h res
    assume IH: "\<And>ctx w act ident deadline h res. loop ctx w act ident deadline h = Some res \<Longrightarrow>
        only_listed ctx w h0 h \<longrightarrow> only_listed ctx w h0 (fst res)"
      and body: "(case list_instances ctx w h of
        None \<Rightarrow> None
      | Some (h, Inl e) \<Rightarrow> Some (h, Inl e)
      | Some (h, Inr instances) \<Rightarrow>
          let current = find (\<lambda>i. ni_id i = ident) instances in
          (case terminal_of act current of
             Some s \<Rightarrow> Some (h, Inr (True, s))
           | None \<Rightarrow>
               if rc_environment ctx ''CIRUJANO_RUNNER_ONCE'' = Some ''1'' then Some (h, Inr (False, state_or_absent current))
               else let now = wclock (hw_github w) (gc_reads (h_github h));
                        h = h\<lparr>h_github := snd (tick_clock (hw_github w) (h_github h))\<rparr> in
                    if now < deadline then loop ctx w act ident deadline h
                    else Some (h, Inr (False, ''timeout'')))) = Some res"
    show "only_listed ctx w h0 h \<longrightarrow> only_listed ctx w h0 (fst res)"
    proof
      assume h: "only_listed ctx w h0 h"
      obtain h1 r1 where h1: "list_instances ctx w h = Some (h1, r1)" "only_listed ctx w h0 h1"
        using keepsD [OF free.keeps_listings(1) h] by blast
      have "only_listed ctx w h0 (h1\<lparr>h_github := h_github h1\<rparr>)" using h1(2) by simp
      then have "only_listed ctx w h0 (h1\<lparr>h_github := snd (tick_clock (hw_github w) (h_github h1))\<rparr>)"
        by (rule adapter_contract.clock_good [OF free.github_good])
      then show "only_listed ctx w h0 (fst res)"
        using body IH h1 by (auto simp: Let_def split: sum.splits option.splits if_splits)
    qed
  qed
  then show ?thesis using assms(2) by simp
qed

section \<open>One emission, recorded before it is made\<close>

definition direct_command :: "run_context \<Rightarrow> host_world \<Rightarrow> direct_action \<Rightarrow> string \<Rightarrow> jsnum exn + nebius_command" where
  "direct_command ctx w act ident =
     (if act = StopAction then stop_command (show_num w) (rc_nebius ctx) ident
      else delete_command (show_num w) (rc_nebius ctx) ident)"

text \<open>The record says which VM is being acted on; \<open>marks\<close> is what else it has to say.\<close>

definition emission_recorded :: "direct_action \<Rightarrow> string \<Rightarrow> fields \<Rightarrow> host \<Rightarrow> bool" where
  "emission_recorded act ident marks h \<longleftrightarrow>
     (\<exists>kvs. h_files h DirectActionFile = Some (JObj kvs)
        \<and> list_all (\<lambda>(k, v). get_prop kvs k = v)
            ([(''action'', JStr (direct_action_str act)), (''stage'', JStr ''emitting''), (''instanceId'', JStr ident)] @ marks))"

text \<open>Listings, the command with its record in place, listings.\<close>

definition emitted_once :: "run_context \<Rightarrow> host_world \<Rightarrow> direct_action \<Rightarrow> fields \<Rightarrow> host \<Rightarrow> host \<Rightarrow> bool" where
  "emitted_once ctx w act marks h0 h \<longleftrightarrow>
     (\<exists>h1 h2 ident cmd. only_listed ctx w h0 h1 \<and> emission_recorded act ident marks h1
        \<and> direct_command ctx w act ident = Inr cmd
        \<and> h_commands h2 = h_commands h1 @ [cmd] \<and> only_listed ctx w h2 h)"

abbreviation listed_or_emitted :: "run_context \<Rightarrow> host_world \<Rightarrow> direct_action \<Rightarrow> fields \<Rightarrow> host \<Rightarrow> host \<Rightarrow> bool" where
  "listed_or_emitted ctx w act marks h0 h \<equiv> only_listed ctx w h0 h \<or> emitted_once ctx w act marks h0 h"

text \<open>Computations that only list, when they return.\<close>

definition calm :: "run_context \<Rightarrow> host_world \<Rightarrow> 'a service \<Rightarrow> bool" where
  "calm ctx w m \<longleftrightarrow> (\<forall>h0 h h' r. only_listed ctx w h0 h \<longrightarrow> m h = Some (h', r) \<longrightarrow> only_listed ctx w h0 h')"

named_theorems calm_intros

lemma calmI: "(\<And>h0 h h' r. only_listed ctx w h0 h \<Longrightarrow> m h = Some (h', r) \<Longrightarrow> only_listed ctx w h0 h') \<Longrightarrow> calm ctx w m"
  by (simp add: calm_def)

lemma calmD: "calm ctx w m \<Longrightarrow> only_listed ctx w h0 h \<Longrightarrow> m h = Some (h', r) \<Longrightarrow> only_listed ctx w h0 h'"
  by (simp add: calm_def)

lemma calm_keeps: "(\<And>h0. keeps (only_listed ctx w h0) m) \<Longrightarrow> calm ctx w m"
  by (rule calmI) (rule keeps_Some)

lemma calm_bind [calm_intros]: "calm ctx w m \<Longrightarrow> (\<And>x. calm ctx w (f x)) \<Longrightarrow> calm ctx w (run_bind m f)"
proof (rule calmI)
  fix h0 h h' r
  assume "calm ctx w m" "\<And>x. calm ctx w (f x)" "only_listed ctx w h0 h" "run_bind m f h = Some (h', r)"
  then show "only_listed ctx w h0 h'" unfolding run_bind_Some by (elim disjE exE conjE) (erule (2) calmD, metis calmD)
qed

lemma calm_basics [calm_intros]:
  "calm ctx w (run_return r)" "calm ctx w (service_fail m)" "calm ctx w (service_now w)" "calm ctx w prior_state"
  "calm ctx w (write_file w f v)" "calm ctx w (list_instances ctx w)" "calm ctx w (list_operations ctx w)"
  "calm ctx w (read_runners ctx w)" "calm ctx w (observe_host ctx w)" "calm ctx w (host_read f)"
  "calm ctx w (require_permit ctx w oper)" "calm ctx w (require_recovery_permit ctx w oper)"
  "calm ctx w (on_github (remove_owned_runner (hw_github w) owner repo own))"
  "calm ctx w (drain_guest ctx w s i)"
proof -
  show "calm ctx w (drain_guest ctx w s i)"
    unfolding drain_guest_def run_guest_def
    by (rule calm_keeps) (intro free.keeps_steps free.keeps_sum free.keeps_try_guest UNIV_I)
  show "calm ctx w (on_github (remove_owned_runner (hw_github w) owner repo own))"
    by (rule calm_keeps) (intro free.keeps_on_github adapter_contract.keeps_writes(4) [OF free.github_good] UNIV_I)
qed (rule calm_keeps, rule keeps_return free.keeps_fail free.keeps_now free.keeps_prior_state free.keeps_write
      free.keeps_listings free.keeps_read_runners free.keeps_observe_host free.keeps_read free.keeps_permit; simp)+

lemma calm_wait [calm_intros]: "calm ctx w (wait_for_terminal_provider ctx w act ident)"
  unfolding wait_for_terminal_provider_def
  by (intro calm_intros) (simp add: calm_def wait_loop_listed)

lemma calm_if [calm_intros]: "calm ctx w m \<Longrightarrow> calm ctx w n \<Longrightarrow> calm ctx w (if b then m else n)"
  by simp

lemma calm_option [calm_intros]: "calm ctx w m \<Longrightarrow> (\<And>x. calm ctx w (f x)) \<Longrightarrow> calm ctx w (case v of None \<Rightarrow> m | Some x \<Rightarrow> f x)"
  by (cases v) auto

lemma calm_records [calm_intros]:
  "calm ctx w (write_direct ctx w act st ident extra)" "calm ctx w (rewrite_direct w kvs f)"
  unfolding write_direct_def rewrite_direct_def Let_def by (intro calm_intros)+

lemma calm_run:
  assumes "calm ctx w m" "m h = Some (h', r)"
  shows "only_listed ctx w h0 h \<Longrightarrow> only_listed ctx w h0 h'"
    and "listed_or_emitted ctx w act marks h0 h \<Longrightarrow> listed_or_emitted ctx w act marks h0 h'"
proof -
  show listed: "only_listed ctx w h0 h \<Longrightarrow> only_listed ctx w h0 h'" for h0
    by (rule calmD [OF assms(1) _ assms(2)])
  show "listed_or_emitted ctx w act marks h0 h'" if "listed_or_emitted ctx w act marks h0 h"
    using that listed unfolding emitted_once_def by blast
qed

text \<open>A calm prefix, and a calm suffix.\<close>

lemma after_calm:
  assumes "run_bind m f h = Some (h', r)" "calm ctx w m" "only_listed ctx w h0 h"
    and "\<And>x h1 r. only_listed ctx w h0 h1 \<Longrightarrow> f x h1 = Some (h', r) \<Longrightarrow> listed_or_emitted ctx w act marks h0 h'"
  shows "listed_or_emitted ctx w act marks h0 h'"
  using assms calm_run(1) [OF assms(2)] unfolding run_bind_Some by blast

lemma before_calm:
  assumes "run_bind m f h = Some (h', r)" "\<And>x. calm ctx w (f x)"
    and "\<And>h1 r. m h = Some (h1, r) \<Longrightarrow> listed_or_emitted ctx w act marks h0 h1"
  shows "listed_or_emitted ctx w act marks h0 h'"
  using assms calm_run(2) [OF assms(2)] unfolding run_bind_Some by blast

lemma mutate_emits:
  assumes "mutate_instance w c name h = Some (h', r)" "c = direct_command ctx w act ident"
    and "only_listed ctx w h0 h" "emission_recorded act ident marks h"
  shows "listed_or_emitted ctx w act marks h0 h'"
proof (cases c)
  case (Inl e)
  then have "h' = h" using assms(1) by (auto simp: mutate_instance_def call_nebius_def run_bind_Some)
  then show ?thesis using assms(3) by simp
next
  case (Inr cmd)
  then have "h' = h\<lparr>h_commands := h_commands h @ [cmd]\<rparr>"
    using assms(1) by (auto simp: mutate_instance_def call_nebius_def run_bind_Some run_command_def)
  moreover have "only_listed ctx w h' h'" using assms(3) calculation by (simp add: only_listed_def host_ok_def)
  ultimately show ?thesis using assms Inr unfolding emitted_once_def by fastforce
qed

lemma emission_emits:
  assumes "only_listed ctx w h0 h" "emission_recorded act ident marks h"
    and "(if act = StopAction then emit_controller_stop ctx w ident name else emit_delete ctx w ident name') h = Some (h', r)"
  shows "listed_or_emitted ctx w act marks h0 h'"
proof (cases act)
  case StopAction
  then have "emit_controller_stop ctx w ident name h = Some (h', r)" using assms(3) by simp
  then show ?thesis unfolding emit_controller_stop_def
  proof (rule before_calm)
    fix h1 r assume "mutate_instance w (stop_command (show_num w) (rc_nebius ctx) ident) name h = Some (h1, r)"
    then show "listed_or_emitted ctx w act marks h0 h1"
      by (rule mutate_emits [OF _ _ assms(1,2)]) (simp add: direct_command_def StopAction)
  qed (intro calm_intros)
next
  case CleanupAction
  then show ?thesis using assms(3)
    by (intro mutate_emits [OF _ _ assms(1,2)]) (auto simp: emit_delete_def direct_command_def)
qed

text \<open>Computations that write no file.\<close>

definition files_kept :: "'a service \<Rightarrow> bool" where
  "files_kept m \<longleftrightarrow> (\<forall>h h' r. host_ok h \<longrightarrow> m h = Some (h', r) \<longrightarrow> h_files h' = h_files h)"

lemma files_kept_did:
  assumes "\<And>h. keeps (did UNIV UNIV UNIV h) m"
  shows "files_kept m"
  unfolding files_kept_def
proof (intro allI impI)
  fix h h' r assume "host_ok h" "m h = Some (h', r)"
  then have "did UNIV UNIV UNIV h h'" using keeps_Some [OF assms did_start] by blast
  then show "h_files h' = h_files h" by (simp add: did_def)
qed

lemma files_kept_steps:
  "files_kept (if b then run_bind prior_state (\<lambda>s. drain_guest ctx w s i) else run_return (Inr ()))"
  "files_kept (release_runner ctx w own)"
proof -
  have "keeps (did UNIV UNIV UNIV h) (drain_guest ctx w s i)" for h s
    unfolding drain_guest_def run_guest_def
    by (intro keeps_bind keeps_return did.keeps_sum [where ms = UNIV, simplified]
        did.keeps_try_guest [where ms = UNIV, simplified] UNIV_I)
  then show "files_kept (if b then run_bind prior_state (\<lambda>s. drain_guest ctx w s i) else run_return (Inr ()))"
    by (intro files_kept_did keeps_if keeps_bind keeps_return did.keeps_prior_state [where ms = UNIV, simplified])
  show "files_kept (release_runner ctx w own)"
    unfolding release_runner_def
    by (intro files_kept_did keeps_if keeps_return did.keeps_fail [where ms = UNIV, simplified]
        did.keeps_on_github [where ms = UNIV, simplified]
        adapter_contract.keeps_writes(4) [OF did.github_good [where ms = UNIV, simplified]] UNIV_I)
qed

lemma after_kept:
  assumes "run_bind m f h = Some (h', r)" "calm ctx w m" "files_kept m" "only_listed ctx w h0 h" "emission_recorded act ident marks h"
    and next_step: "\<And>x h1 r. only_listed ctx w h0 h1 \<Longrightarrow> emission_recorded act ident marks h1 \<Longrightarrow> f x h1 = Some (h', r) \<Longrightarrow>
      listed_or_emitted ctx w act marks h0 h'"
  shows "listed_or_emitted ctx w act marks h0 h'"
proof -
  have kept: "only_listed ctx w h0 h1 \<and> emission_recorded act ident marks h1" if "m h = Some (h1, x)" for h1 x
  proof -
    have "host_ok h" using assms(4) by (simp add: only_listed_def)
    then have "h_files h1 = h_files h" using that assms(3) unfolding files_kept_def by blast
    then show ?thesis using calm_run(1) [OF assms(2) that assms(4)] assms(5) by (simp add: emission_recorded_def)
  qed
  then show ?thesis using assms(1) next_step unfolding run_bind_Some by blast
qed

lemma write_file_Inr: "write_file w f v h = Some (h', Inr u) \<Longrightarrow> h_files h' f = Some v"
  by (cases "hw_write w (h_writes h)") (auto simp: write_file_def Let_def)

lemma write_direct_records:
  assumes "write_direct ctx w act DEmitting (Some ident) extra h = Some (h', Inr u)"
  shows "emission_recorded act ident [] h'"
  using assms
  by (auto simp: write_direct_def run_bind_Some emission_recorded_def file_json_def direct_fields_def dest!: write_file_Inr)

lemma calm_release [calm_intros]: "calm ctx w (release_runner ctx w own)"
  unfolding release_runner_def by (intro calm_intros)

definition decision_fits :: "direct_action \<Rightarrow> nebius_instance \<Rightarrow> mutation_decision \<Rightarrow> bool" where
  "decision_fits act i d \<longleftrightarrow>
     (case d of DoStop x \<Rightarrow> act = StopAction \<and> x = ni_id i | DoDelete x \<Rightarrow> act = CleanupAction \<and> x = ni_id i | _ \<Rightarrow> True)"

lemma emit_direct_emits:
  assumes "emit_direct ctx w act i own d h = Some (h', r)" "only_listed ctx w h0 h" "decision_fits act i d"
  shows "listed_or_emitted ctx w act [] h0 h'"
  using assms(1) unfolding emit_direct_def
proof (rule after_calm [OF _ calm_records(1) assms(2)])
  fix x h1 r
  let ?drain = "if act = StopAction \<and> ni_state i = VRunning then run_bind prior_state (\<lambda>s. drain_guest ctx w s i) else run_return (Inr ())"
  let ?finish = "\<lambda>oper. run_bind (write_direct ctx w act DEmitting (Some (ni_id i)) (operation_member oper)) (\<lambda>_.
     run_bind (wait_for_terminal_provider ctx w act (ni_id i)) (\<lambda>(complete, st).
     run_bind (write_direct ctx w act (if complete then DResolved else DEmitting) (Some (ni_id i))
       (provider_state_member st @ operation_member oper)) (\<lambda>_.
     run_return (Inr (if complete then DirectDone (Some st) else DirectPending (Some st))))))"
  assume h1: "only_listed ctx w h0 h1"
    and run: "run_bind (write_direct ctx w act DEmitting (Some (ni_id i)) []) (\<lambda>_. run_bind ?drain (\<lambda>_.
      run_bind (release_runner ctx w own) (\<lambda>_. run_bind (emit_decision ctx w d) ?finish))) h1 = Some (h', r)"
  have calm_end: "calm ctx w (?finish oper)" for oper
    by (auto intro!: calm_intros split: prod.split)
  have rest: "listed_or_emitted ctx w act [] h0 h'"
    if h2: "only_listed ctx w h0 h2" "emission_recorded act (ni_id i) [] h2"
      and run: "run_bind ?drain (\<lambda>_. run_bind (release_runner ctx w own) (\<lambda>_. run_bind (emit_decision ctx w d) ?finish)) h2 = Some (h', r)"
    for h2 r
    using run
  proof (rule after_kept [OF _ _ files_kept_steps(1) h2])
    fix x h3 r assume h3: "only_listed ctx w h0 h3" "emission_recorded act (ni_id i) [] h3"
      and run3: "run_bind (release_runner ctx w own) (\<lambda>_. run_bind (emit_decision ctx w d) ?finish) h3 = Some (h', r)"
    show "listed_or_emitted ctx w act [] h0 h'"
      using run3
    proof (rule after_kept [OF _ calm_release files_kept_steps(2) h3])
      fix x h4 r assume h4: "only_listed ctx w h0 h4" "emission_recorded act (ni_id i) [] h4"
        and run4: "run_bind (emit_decision ctx w d) ?finish h4 = Some (h', r)"
      show "listed_or_emitted ctx w act [] h0 h'"
        using run4
      proof (rule before_calm [OF _ calm_end])
        fix h5 r assume "emit_decision ctx w d h4 = Some (h5, r)"
        then show "listed_or_emitted ctx w act [] h0 h5"
          using assms(3) emission_emits [OF h4] h4(1)
          by (cases d) (auto simp: emit_decision_def decision_fits_def)
      qed
    qed
  qed (intro calm_intros)
  show "listed_or_emitted ctx w act [] h0 h'"
    using run rest calm_run(1) [OF calm_records(1) _ h1] write_direct_records
    unfolding run_bind_Some [of "write_direct ctx w act DEmitting (Some (ni_id i)) []"] by blast
qed

section \<open>The commands\<close>

lemma fresh_emits:
  assumes "fresh_direct ctx w act h = Some (h', r)" "only_listed ctx w h0 h"
  shows "listed_or_emitted ctx w act [] h0 h'"
proof -
  have preflight: "calm ctx w (direct_preflight ctx w)"
    unfolding direct_preflight_def Let_def case_prod_beta by (intro calm_intros)
  let ?d = "\<lambda>i. if act = StopAction then decide_stop (Some i) (expected_resource_of ctx)
      else decide_delete (Some i) (expected_resource_of ctx)"
  have fits: "decision_fits act i (?d i)" for i
    by (cases act) (auto simp: decision_fits_def decide_stop_def decide_delete_def split: option.splits if_splits)
  have "listed_or_emitted ctx w act [] h0 h'"
    if h1: "only_listed ctx w h0 h1" and run: "(case ?d i of MutationBlock m \<Rightarrow> service_fail m
        | Wait \<Rightarrow> run_return (Inr (DirectPending None)) | _ \<Rightarrow> emit_direct ctx w act i own (?d i)) h1 = Some (h', r)" for i own h1 r
    using run emit_direct_emits [OF _ h1 fits [of i]] h1 calm_run(1) [OF calm_basics(2) _ h1] calm_run(1) [OF calm_basics(1) _ h1]
    by (cases "?d i") (auto simp del: run_return_Some)
  note go = this
  have gone: "calm ctx w (run_bind (write_direct ctx w act DResolved None (provider_state_member ''absent''))
      (\<lambda>_. run_return (Inr (DirectDone None))))"
    by (intro calm_intros)
  show ?thesis using assms(1) unfolding fresh_direct_def
  proof (rule after_calm [OF _ preflight assms(2)], goal_cases)
    case (1 x h1 r)
    then show ?case using go [OF 1(1)] calm_run(1) [OF gone _ 1(1)]
      by (cases x; cases "fst x") (auto simp: Let_def simp del: run_return_Some)
  qed
qed

lemma calm_try [calm_intros]: "calm ctx w m \<Longrightarrow> calm ctx w (run_try m)"
  by (rule calmI) (auto simp: run_try_Some dest: calmD)

lemma calm_recovery [calm_intros]:
  "calm ctx w (recover_checks ctx w act p)" "calm ctx w (block_recovery iso_text w kvs m st)"
proof -
  have registration: "calm ctx w (recover_registration ctx w s i)" for s i
    unfolding recover_registration_def Let_def by (intro calm_intros)
  have idle: "calm ctx w (recover_idle ctx w act i)" for i
    unfolding recover_idle_def blocking_def case_prod_beta by (intro calm_intros registration)
  show "calm ctx w (recover_checks ctx w act p)"
    unfolding recover_checks_def blocking_def Let_def by (intro calm_intros idle)
  show "calm ctx w (block_recovery iso_text w kvs m st)"
    unfolding block_recovery_def by (intro calm_intros)
qed

lemma get_spread: "get_prop (spread kvs extra) k = (case map_of (rev extra) k of None \<Rightarrow> get_prop kvs k | Some v \<Rightarrow> v)"
proof (induction extra arbitrary: kvs)
  case (Cons x extra)
  obtain k' v where x: "x = (k', v)" by (cases x)
  have "get_prop (map_set k' v kvs) k = (if k = k' then v else get_prop kvs k)"
    using map_get_set [of k' v kvs k] by (simp add: get_prop_def map_get_def)
  moreover have "spread kvs (x # extra) = spread (map_set k' v kvs) extra" by (simp add: spread_def x)
  ultimately show ?case using Cons.IH [of "map_set k' v kvs"]
    by (auto simp: x map_add_def split: option.split)
qed (simp add: spread_def)

definition well_recorded :: "direct_record \<Rightarrow> bool" where
  "well_recorded p \<longleftrightarrow>
     get_prop (dr_members p) ''action'' = JStr (direct_action_str (dr_action p))
     \<and> get_prop (dr_members p) ''instanceId'' = JStr (dr_instanceId p)"

lemma parsed_well_recorded:
  assumes "parse_direct_action ctx v = Inr (Some p)"
  shows "well_recorded p"
  using assms
  by (auto simp: parse_direct_action_def well_recorded_def result_simps Let_def str_of_def
      dest!: of_str_SomeD split: if_splits jsval.splits option.splits bind_splits)

definition RETRY_MARK :: fields where
  "RETRY_MARK = [(''recoveryRetryEmitted'', JBool True)]"

definition retry_emitted :: "direct_record \<Rightarrow> bool" where
  "retry_emitted p \<longleftrightarrow> get_prop (dr_members p) ''recoveryRetryEmitted'' = JBool True"

lemma emitted_weaken: "emitted_once ctx w act marks h0 h \<Longrightarrow> emitted_once ctx w act [] h0 h"
  unfolding emitted_once_def emission_recorded_def by (simp add: list_all_iff) blast

lemma checks_before_retry:
  assumes "recover_checks ctx w act p h = Some (h', Inr (Retry st))"
  shows "\<not> retry_emitted p"
  using assms unfolding retry_emitted_def recover_checks_def Let_def blocking_def
  by (auto simp: run_bind_Some split: if_splits option.splits)

lemma retry_emits:
  assumes "recover_retry ctx w act (dr_instanceId p) (spread (dr_members p) ([(''stage'', JStr ''emitting''),
        (''observedAtMs'', t), (''providerState'', st)] @ RETRY_MARK)) h = Some (h', r)"
    and "well_recorded p" "dr_action p = act" "only_listed ctx w h0 h"
  shows "listed_or_emitted ctx w act RETRY_MARK h0 h'"
proof -
  let ?kvs = "spread (dr_members p) ([(''stage'', JStr ''emitting''), (''observedAtMs'', t), (''providerState'', st)] @ RETRY_MARK)"
  let ?emit = "if act = StopAction then emit_controller_stop ctx w (dr_instanceId p) ''Nebius recovery stop''
      else emit_delete ctx w (dr_instanceId p) ''Nebius recovery delete''"
  have recorded: "emission_recorded act (dr_instanceId p) RETRY_MARK h1"
    if "write_file w DirectActionFile (JObj ?kvs) h = Some (h1, Inr u)" for h1 u
    using write_file_Inr [OF that] assms(2,3)
    by (simp add: emission_recorded_def get_spread RETRY_MARK_def well_recorded_def)
  have emit: "listed_or_emitted ctx w act RETRY_MARK h0 h'"
    if "only_listed ctx w h0 h1" "emission_recorded act (dr_instanceId p) RETRY_MARK h1"
      and run: "run_bind ?emit f h1 = Some (h', r)" and f: "\<And>x. calm ctx w (f x)"
    for h1 r and f :: "string option \<Rightarrow> recovery service"
    using run f by (rule before_calm) (rule emission_emits [OF that(1,2)])
  show ?thesis
    using assms(1) unfolding recover_retry_def
    using calm_run(1) [OF calm_basics(5) _ assms(4)] recorded
    unfolding run_bind_Some [of "write_file w DirectActionFile v" for v]
    by (elim disjE exE conjE) (blast, rule emit, blast, blast, assumption,
      auto intro!: calm_intros split: prod.split)
qed

lemma finish_calm:
  assumes "finish_recovery iso_text w kvs r retry h = Some (h', x)" "only_listed ctx w h0 h" "\<And>st. r \<noteq> Inr (Retry st)"
  shows "only_listed ctx w h0 h'"
  using assms(1,3) calm_run(1) [OF calm_recovery(2) _ assms(2)] assms(2)
  by (cases r) (auto simp: finish_recovery_def split: recovery.splits)

lemma recovery_emits:
  assumes run: "recover_direct_emission iso_text ctx w act p h = Some (h', r)"
    and p: "well_recorded p" "dr_action p = act" and h: "only_listed ctx w h0 h"
  shows "if retry_emitted p then only_listed ctx w h0 h' else listed_or_emitted ctx w act RETRY_MARK h0 h'"
proof -
  let ?retrying = "\<lambda>now st. spread (dr_members p) ([(''stage'', JStr ''emitting''), (''observedAtMs'', json_num now),
      (''providerState'', JStr st)] @ RETRY_MARK)"
  obtain h1 res where res: "recover_checks ctx w act p h = Some (h1, res)"
    and run1: "finish_recovery iso_text w (dr_members p) res (\<lambda>st.
       run_bind (service_now w) (\<lambda>now.
       run_bind (run_try (recover_retry ctx w act (dr_instanceId p) (?retrying now st))) (\<lambda>r.
       finish_recovery iso_text w (?retrying now st) r (\<lambda>_. service_fail [])))) h1 = Some (h', r)"
    using run by (auto simp: recover_direct_emission_def run_bind_Some run_try_Some Let_def RETRY_MARK_def)
  have h1: "only_listed ctx w h0 h1" by (rule calm_run(1) [OF calm_recovery(1) res h])
  show ?thesis
  proof (cases "\<exists>st. res = Inr (Retry st)")
    case False
    then show ?thesis using finish_calm [OF run1 h1] by auto
  next
    case True
    then obtain st where st: "res = Inr (Retry st)" by blast
    have flag: "\<not> retry_emitted p" using checks_before_retry res st by blast
    obtain h2 now h3 r3 where h2: "service_now w h1 = Some (h2, Inr now)"
      and h3: "recover_retry ctx w act (dr_instanceId p) (?retrying now st) h2 = Some (h3, r3)"
      and run3: "finish_recovery iso_text w (?retrying now st) r3 (\<lambda>_. service_fail []) h3 = Some (h', r)"
      using run1 by (auto simp: st finish_recovery_def run_bind_Some run_try_Some service_now_def tick_clock_def)
    have "only_listed ctx w h0 h2" by (rule calm_run(1) [OF calm_basics(3) h2 h1])
    then have emitted: "listed_or_emitted ctx w act RETRY_MARK h0 h3" by (rule retry_emits [OF h3 p])
    have "calm ctx w (finish_recovery iso_text w (?retrying now st) r3 (\<lambda>_. service_fail []))"
      unfolding finish_recovery_def by (auto intro!: calm_intros split: sum.split recovery.split)
    then have "listed_or_emitted ctx w act RETRY_MARK h0 h'" by (rule calm_run(2)) (fact run3 emitted)+
    then show ?thesis using flag by simp
  qed
qed

text \<open>
  Taking up an interrupted direct action sends the provider nothing but listings once the record says that
  the retry was emitted; before that, at most one stop or delete, and only after the record with that mark
  was written.
\<close>

theorem recovery_retries_once:
  assumes "recover_direct_emission iso_text ctx w act p h = Some (h', r)" "host_ok h"
    and "parse_direct_action ctx v = Inr (Some p)" "dr_action p = act"
  shows "if retry_emitted p then only_listed ctx w h h'
    else only_listed ctx w h h' \<or> emitted_once ctx w act RETRY_MARK h h'"
  using recovery_emits [OF assms(1) parsed_well_recorded [OF assms(3)] assms(4) only_listed_refl [OF assms(2)]] .

lemma permitted_emits:
  assumes "permitted_direct ctx w act h = Some (h', r)" "only_listed ctx w h0 h"
  shows "listed_or_emitted ctx w act [] h0 h'"
  using assms(1) unfolding permitted_direct_def
  by (rule after_calm [OF _ calm_basics(11) assms(2)]) (rule fresh_emits)

lemma answered_emits:
  assumes "run_bind (still_resolved ctx w act p) (\<lambda>st.
      case st of Some s \<Rightarrow> run_return (Inr (DirectDone (Some s))) | None \<Rightarrow> permitted_direct ctx w act) h = Some (h', r)"
    and h: "only_listed ctx w h0 h"
  shows "listed_or_emitted ctx w act [] h0 h'"
proof -
  have "calm ctx w (still_resolved ctx w act p)"
    unfolding still_resolved_def by (intro calm_intros)
  from assms(1) this h show ?thesis
    by (rule after_calm) (auto dest: permitted_emits split: option.splits)
qed

lemma direct_from_emits:
  assumes run: "direct_from iso_text ctx w act prior h = Some (h', r)" and h: "only_listed ctx w h0 h"
    and prior: "pred_option well_recorded prior"
  shows "listed_or_emitted ctx w act [] h0 h'"
proof -
  have again: "listed_or_emitted ctx w act [] h0 h'"
    if "run_bind (require_recovery_permit ctx w (direct_operation act)) f h = Some (h', r)"
      and "\<And>x h1 r. only_listed ctx w h0 h1 \<Longrightarrow> f x h1 = Some (h', r) \<Longrightarrow> listed_or_emitted ctx w act [] h0 h'" for f r
    using that(1) by (rule after_calm [OF _ calm_basics(12) h]) (rule that(2))
  have recovered: "listed_or_emitted ctx w act [] h0 h'"
    if "only_listed ctx w h0 h1" "recover_direct_emission iso_text ctx w act p h1 = Some (h', r)"
      "well_recorded p" "dr_action p = act" for p h1 r
    using recovery_emits [OF that(2,3,4,1)] emitted_weaken by (auto split: if_splits)
  have act: "\<exists>p s. prior = Some p \<and> dr_action p = act \<and> dr_stage p = Some s \<and> well_recorded p
      \<or> permitted_direct ctx w act h = Some (h', r)"
    using run prior by (auto simp: direct_from_def split: option.splits if_splits)
  show ?thesis
  proof (cases "permitted_direct ctx w act h = Some (h', r)")
    case True
    then show ?thesis by (rule permitted_emits) (rule h)
  next
    case False
    then obtain p s where p: "prior = Some p" "dr_action p = act" "dr_stage p = Some s" "well_recorded p"
      using act by blast
    show ?thesis
    proof (cases s)
      case DIntent
      with run p have "run_bind (require_recovery_permit ctx w (direct_operation act)) (\<lambda>_. fresh_direct ctx w act) h = Some (h', r)"
        by (simp add: direct_from_def)
      then show ?thesis by (rule again) (rule fresh_emits)
    next
      case DEmitting
      with run p have "run_bind (require_recovery_permit ctx w (direct_operation act))
          (\<lambda>_. recover_direct_emission iso_text ctx w act p) h = Some (h', r)"
        by (simp add: direct_from_def)
      then show ?thesis by (rule again) (rule recovered [OF _ _ p(4,2)])
    next
      case DResolved
      show ?thesis
        by (rule again, rule run [unfolded p(1) direct_from_def option.case if_not_P [OF p(2) [THEN not_not [THEN iffD2]]]
              p(3) DResolved direct_stage.case], rule answered_emits)
    qed
  qed
qed

text \<open>
  C15 (safety). A direct stop or cleanup, begun or taken up in any recorded stage and under any faults, sends the
  provider listings and at most one command that changes anything: the stop or delete of one instance,
  when the action file already says that this action on this instance is being emitted.
\<close>

theorem mutate_owned_emits_once:
  assumes "mutate_owned iso_text ctx w act h = Some (h', r)" "host_ok h"
  shows "only_listed ctx w h h' \<or> emitted_once ctx w act [] h h'"
proof -
  have read: "calm ctx w (read_direct_action ctx)"
    unfolding read_direct_action_def by (intro calm_intros)
  have parsed: "pred_option well_recorded prior" if "read_direct_action ctx h = Some (h1, Inr prior)" for h1 prior
    using that by (cases prior)
      (auto simp: read_direct_action_def run_bind_Some host_read_def intro: parsed_well_recorded [OF sym] split: option.splits)
  show ?thesis
    using assms(1) calm_run(1) [OF read _ only_listed_refl [OF assms(2)]] direct_from_emits parsed
    unfolding mutate_owned_def run_bind_Some [of "read_direct_action ctx"] by blast
qed

section \<open>Examples\<close>

text \<open>A stop that was cut off after its one recovery retry: the provider does not answer, and nothing is sent.\<close>

definition retried_members :: fields where
  "retried_members =
     direct_fields StopAction DEmitting (Fin 1000) @ [(''instanceId'', JStr ''vm-1''), (''recoveryRetryEmitted'', JBool True)]"

lemma new_host_ok: "host_ok new_host"
  by (simp add: host_ok_def new_host_def cache_ok_def new_client_def CACHE_BYTE_LIMIT_def)

lemma quiet_listing:
  "\<exists>h1 e. list_instances sample_context quiet_world h = Some (h1, Inl e)"
proof -
  have first: "list_pages w cmd x parse 10000 t items =
      run_bind (call_nebius w (cmd t)) (\<lambda>res. run_bind (run_return (require_successful res (''Nebius '' @ x @ '' list''))) (\<lambda>res.
      run_bind (run_return (parse (nr_stdout res))) (\<lambda>pg. case snd pg of None \<Rightarrow> run_return (Inr (items @ fst pg))
        | Some t \<Rightarrow> list_pages w cmd x parse 9999 (Some t) (items @ fst pg))))" for w cmd x parse t items
    using list_pages.simps(2) [of w cmd x parse 9999 t items] by simp
  show ?thesis
    unfolding list_instances_def first
    by (cases "list_instances_command (show_num quiet_world) (rc_nebius sample_context) None")
      (simp_all add: call_nebius_def run_command_def quiet_world_def run_bind_def run_return_def)
qed

theorem recovery_retries_once_witness:
  "\<exists>p h'. parse_direct_action sample_context (file_json sample_context retried_members) = Inr (Some p) \<and> retry_emitted p
     \<and> (\<exists>r. recover_direct_emission (\<lambda>_. []) sample_context quiet_world StopAction p new_host = Some (h', r))
     \<and> only_listed sample_context quiet_world new_host h'"
proof -
  obtain p where p: "parse_direct_action sample_context (file_json sample_context retried_members) = Inr (Some p)"
      "dr_action p = StopAction" "retry_emitted p"
    by (simp add: parse_direct_action_def file_json_def retried_members_def direct_fields_def journal_fields_def
        version_and_identity_def retry_emitted_def str_of_def of_str_def result_simps Let_def)
  obtain h1 e where "list_instances sample_context quiet_world new_host = Some (h1, Inl e)"
    using quiet_listing by blast
  then have "\<exists>h' r. recover_direct_emission (\<lambda>_. []) sample_context quiet_world StopAction p new_host = Some (h', r)"
    by (simp add: recover_direct_emission_def recover_checks_def finish_recovery_def block_recovery_def rewrite_direct_def
        service_now_def tick_clock_def write_file_def quiet_world_def run_bind_def run_try_def run_return_def Let_def)
  then show ?thesis
    using p recovery_retries_once [of "\<lambda>_. []" sample_context quiet_world StopAction p new_host, OF _ _ p(1,2)] new_host_ok by auto
qed

theorem mutate_owned_emits_once_witness:
  "\<exists>h' r. mutate_owned (\<lambda>_. []) sample_context quiet_world CleanupAction new_host = Some (h', r)
     \<and> (only_listed sample_context quiet_world new_host h'
        \<or> emitted_once sample_context quiet_world CleanupAction [] new_host h')"
proof -
  have "\<exists>h' r. mutate_owned (\<lambda>_. []) sample_context quiet_world CleanupAction new_host = Some (h', r)"
    by (simp add: mutate_owned_def read_direct_action_def host_read_def new_host_def direct_from_def permitted_direct_def
        require_permit_def sample_context_def validate_permit_def invalid_def service_now_def tick_clock_def service_fail_def run_bind_def
        run_return_def)
  then show ?thesis
    using mutate_owned_emits_once [of "\<lambda>_. []" sample_context quiet_world CleanupAction new_host] new_host_ok by blast
qed

end
