(* ===== verification/Direct_Returns.thy ===== *)
theory Direct_Returns
  imports Direct_Properties
begin

text \<open>
  The direct commands return: everything they read or send answers, and their one loop, the wait for the
  provider, ends once the clock has passed its deadline.
\<close>

section \<open>The wait\<close>

text \<open>A clock that is \<open>duration\<close> past every one of its readings at some time, and stays so.\<close>

definition clock_passes :: "gh_world \<Rightarrow> jsnum \<Rightarrow> bool" where
  "clock_passes w duration \<longleftrightarrow> (\<forall>n. \<exists>N. \<forall>m \<ge> N. \<not> wclock w m < wclock w n + duration)"

lemma list_pages_github: "keeps (\<lambda>h. h_github h = c) (list_pages w command what parse left token items)"
proof (induction left arbitrary: token items)
  case (Suc left)
  have "keeps (\<lambda>h. h_github h = c) (call_nebius w cmd)" for cmd
    unfolding call_nebius_def by (intro keeps_bind keeps_return) (simp add: keeps_def run_command_def)
  then show ?case
    by (auto intro!: keeps_bind keeps_return Suc.IH split: option.split)
qed (simp add: service_fail_def keeps_return)

lemma list_instances_github: "keeps (\<lambda>h. h_github h = c) (list_instances ctx w)"
  by (simp add: list_instances_def list_pages_github)

lemma wait_loop_returns:
  assumes "\<And>n. N \<le> n \<Longrightarrow> \<not> wclock (hw_github w) n < deadline" "cache_ok (h_github h)"
  shows "\<exists>h' r. wait_loop ctx w act ident deadline h = Some (h', r) \<and> cache_ok (h_github h')"
  using assms(2)
proof (induction "N - gc_reads (h_github h)" arbitrary: h rule: less_induct)
  case less
  obtain h1 r1 where listed: "list_instances ctx w h = Some (h1, r1)" and same: "h_github h1 = h_github h"
    using keepsD [OF list_instances_github refl] by blast
  let ?h = "h1\<lparr>h_github := snd (tick_clock (hw_github w) (h_github h1))\<rparr>"
  have reads: "gc_reads (h_github ?h) = Suc (gc_reads (h_github h))"
    by (simp add: tick_clock_def same)
  have ok: "cache_ok (h_github ?h)"
    using less.prems bounded.clock_good same by simp
  have next_round: "\<exists>h' r. wait_loop ctx w act ident deadline ?h = Some (h', r) \<and> cache_ok (h_github h')"
    if "wclock (hw_github w) (gc_reads (h_github h)) < deadline"
  proof (rule less.hyps)
    have "gc_reads (h_github h) < N" using assms(1) that not_le by blast
    then show "N - gc_reads (h_github ?h) < N - gc_reads (h_github h)" unfolding reads by simp
  qed (fact ok)
  show ?case
    using less.prems same ok next_round
    by (subst wait_loop.simps) (auto simp: listed Let_def split: sum.split option.split)
qed

lemma keeps_wait:
  assumes "clock_passes (hw_github w) (bootTimeoutMs (timing (rc_config ctx)))"
  shows "keeps host_ok (wait_for_terminal_provider ctx w act ident)"
proof (unfold keeps_def, intro allI impI)
  fix h assume h: "host_ok h"
  let ?now = "wclock (hw_github w) (gc_reads (h_github h))"
  let ?h = "h\<lparr>h_github := snd (tick_clock (hw_github w) (h_github h))\<rparr>"
  obtain N where "\<forall>n \<ge> N. \<not> wclock (hw_github w) n < ?now + bootTimeoutMs (timing (rc_config ctx))"
    using assms unfolding clock_passes_def by blast
  moreover have "cache_ok (h_github ?h)"
    using h bounded.clock_good by (simp add: host_ok_def)
  ultimately obtain h' r where
    "wait_loop ctx w act ident (?now + bootTimeoutMs (timing (rc_config ctx))) ?h = Some (h', r)" "cache_ok (h_github h')"
    using wait_loop_returns [of N w _ ?h] by blast
  then show "\<exists>h' r. wait_for_terminal_provider ctx w act ident h = Some (h', r) \<and> host_ok h'"
    by (auto simp: wait_for_terminal_provider_def run_bind_def service_now_def tick_clock_def host_ok_def)
qed

section \<open>The commands\<close>

context reading_service
begin

lemma keeps_direct_steps:
  assumes "methods = UNIV" "helpers = UNIV" "files = UNIV" "commands = UNIV"
  shows "keeps good (direct_preflight ctx w)" "keeps good (drain_guest ctx w s i)"
    "keeps good (emit_controller_stop ctx w ident name)" "keeps good (emit_delete ctx w ident name)"
    "keeps good (on_github (remove_owned_runner (hw_github w) owner repo own))"
    "keeps good (write_file w f v)" "keeps good (observe_host ctx w)"
proof -
  have mutate: "keeps good (mutate_instance w cmd name)" for cmd
    unfolding mutate_instance_def by (intro keeps_steps) (simp add: assms)
  have saved: "keeps good (write_file w f v)" for f v by (simp add: keeps_write assms)
  have observe: "keeps good (observe_host ctx w)" by (rule keeps_observe_host) (simp_all add: assms)
  show "keeps good (drain_guest ctx w s i)"
    unfolding drain_guest_def run_guest_def by (intro keeps_steps keeps_sum keeps_try_guest) (simp add: assms)
  show "keeps good (emit_controller_stop ctx w ident name)"
    unfolding emit_controller_stop_def by (intro keeps_steps keeps_option mutate saved keeps_prior_state)
  show "keeps good (emit_delete ctx w ident name)"
    unfolding emit_delete_def by (rule mutate)
  show "keeps good (on_github (remove_owned_runner (hw_github w) owner repo own))"
    by (intro keeps_on_github adapter_contract.keeps_writes(4) [OF github_good]) (simp add: assms)
  show "keeps good (direct_preflight ctx w)"
    unfolding direct_preflight_def Let_def case_prod_beta
    by (intro keeps_steps observe keeps_listings keeps_read_runners keeps_prior_state)
  show "keeps good (write_file w f v)" "keeps good (observe_host ctx w)" by (fact saved observe)+
qed

lemma keeps_recovery:
  assumes "methods = UNIV" "helpers = UNIV" "files = UNIV" "commands = UNIV"
    and wait: "\<And>act ident. keeps good (wait_for_terminal_provider ctx w act ident)"
  shows "keeps good (recover_direct_emission iso_text ctx w act p)"
proof -
  note steps = keeps_steps keeps_option keeps_direct_steps [OF assms(1-4)] keeps_listings keeps_read_runners
    keeps_prior_state wait
  have rewrite: "keeps good (rewrite_direct w kvs extra)" for kvs extra
    unfolding rewrite_direct_def Let_def by (intro steps)
  have blocked: "keeps good (blocking m i)" for m i
    unfolding blocking_def by (intro steps)
  have registration: "keeps good (recover_registration ctx w s i)" for s i
    unfolding recover_registration_def Let_def by (intro steps)
  have idle: "keeps good (recover_idle ctx w act i)" for i
    unfolding recover_idle_def case_prod_beta by (intro steps registration blocked)
  have checks: "keeps good (recover_checks ctx w act p)"
    unfolding recover_checks_def Let_def by (intro steps rewrite idle blocked)
  have retry: "keeps good (recover_retry ctx w act ident kvs)" for ident kvs
    unfolding recover_retry_def case_prod_beta by (intro steps rewrite)
  have finish: "keeps good (finish_recovery iso_text w kvs r f)" if "\<And>st. keeps good (f st)" for kvs r f
    unfolding finish_recovery_def block_recovery_def
    by (auto intro!: steps rewrite that split: sum.split recovery.split)
  show ?thesis
    unfolding recover_direct_emission_def Let_def by (intro steps checks finish retry)
qed

lemma keeps_mutate_owned:
  assumes "methods = UNIV" "helpers = UNIV" "files = UNIV" "commands = UNIV"
    and wait: "\<And>act ident. keeps good (wait_for_terminal_provider ctx w act ident)"
  shows "keeps good (mutate_owned iso_text ctx w act)"
proof -
  note steps = keeps_steps keeps_option keeps_direct_steps [OF assms(1-4)] keeps_listings keeps_read_runners
    keeps_prior_state keeps_permit wait keeps_recovery [OF assms]
  have saved: "keeps good (write_direct ctx w act st ident extra)" for act st ident extra
    unfolding write_direct_def by (intro steps)
  have release: "keeps good (release_runner ctx w own)" for own
    unfolding release_runner_def by (intro steps)
  have decision: "keeps good (emit_decision ctx w d)" for d
    unfolding emit_decision_def by (auto intro!: steps split: mutation_decision.split)
  have emit: "keeps good (emit_direct ctx w act i own d)" for act i own d
    unfolding emit_direct_def case_prod_beta by (intro steps saved release decision)
  have fresh: "keeps good (fresh_direct ctx w act)" for act
    unfolding fresh_direct_def Let_def case_prod_beta
    by (auto intro!: steps saved emit split: option.split mutation_decision.split)
  have read: "keeps good (read_direct_action ctx)"
    unfolding read_direct_action_def by (intro steps)
  have still: "keeps good (still_resolved ctx w act p)" for act p
    unfolding still_resolved_def by (intro steps)
  have "keeps good (direct_from iso_text ctx w act prior)" for prior
    unfolding direct_from_def permitted_direct_def
    by (auto intro!: steps fresh still split: option.split direct_stage.split)
  then show ?thesis unfolding mutate_owned_def by (intro keeps_bind read)
qed

end

interpretation whole: reading_service w UNIV UNIV UNIV UNIV host_ok ctx for w ctx
proof (rule reading_service.intro, rule service_contract.intro)
  show "adapter_contract (hw_github w) UNIV (\<lambda>c. host_ok (h\<lparr>h_github := c\<rparr>))" for h
    using bounded.adapter_contract_axioms by (simp add: host_ok_def)
  show "reading_service_axioms w UNIV ctx" by unfold_locales simp
qed (simp_all add: host_ok_def)

text \<open>
  C16 (termination). A direct stop or cleanup returns whatever it finds recorded and whatever answers or fails, when the clock
  passes the boot timeout after any of its readings; only the wait for the provider needs that.
\<close>

theorem direct_commands_return:
  assumes "clock_passes (hw_github w) (bootTimeoutMs (timing (rc_config ctx)))" "host_ok h"
  shows "\<exists>h' r. mutate_owned iso_text ctx w act h = Some (h', r) \<and> host_ok h'"
  using keepsD [OF whole.keeps_mutate_owned [OF refl refl refl refl keeps_wait [OF assms(1)]] assms(2)] .

text \<open>A reading every second, up to the last date of the platform.\<close>

definition ticking_world :: host_world where
  "ticking_world = quiet_world\<lparr>hw_github := (hw_github quiet_world)\<lparr>wclock :=
     (\<lambda>n. if n \<le> 8640000000000 then Fin (1000 * of_nat n) else NaN)\<rparr>\<rparr>"

theorem direct_commands_return_witness:
  "\<exists>h' r. mutate_owned (\<lambda>_. []) sample_context ticking_world StopAction new_host = Some (h', r) \<and> host_ok h'"
proof (rule direct_commands_return)
  have late: "wclock (hw_github ticking_world) m = NaN" if "8640000000001 \<le> m" for m
    using that by (simp add: ticking_world_def)
  show "clock_passes (hw_github ticking_world) (bootTimeoutMs (timing (rc_config sample_context)))"
    unfolding clock_passes_def by (intro allI exI [of _ 8640000000001] impI) (simp add: late less_jsnum_def)
qed (rule new_host_ok)

end
