(* ===== verification/Gate.thy ===== *)
theory Gate
  imports Registry Lifecycle
begin

text \<open>
  The gated runner selection of an enrolled job (\<open>cli/fleet-routing.ts\<close>): the one-line expression that
  sends the job to its runner only while the routing switch is on, how it is rendered, the strict parser
  that accepts nothing but that shape, and the YAML scalar it is read from.
\<close>

section \<open>The gate\<close>

record routing_gate =
  gate_enrollmentId :: string
  gate_repository :: string
  gate_workflowPath :: string
  gate_runnerLabel :: string
  gate_ownerUserId :: jsnum

definition gate_error :: "string \<Rightarrow> jsnum exn" where
  "gate_error rule = Exn FleetRoutingError [Lit rule]"

definition HOSTED_FALLBACK :: string where
  "HOSTED_FALLBACK = [CHR 0x27] @ ''ubuntu-latest'' @ [CHR 0x27]"

definition needs_escaping :: "string \<Rightarrow> bool" where
  "needs_escaping s \<longleftrightarrow> list_ex (\<lambda>c. c = CHR 0x27 \<or> c = CHR ''{'' \<or> c = CHR ''}'') s"

definition validate_gate :: "routing_gate \<Rightarrow> jsnum exn + unit" where
  "validate_gate g =
     rbind (check (is_safe_integer (gate_ownerUserId g) \<and> Fin 0 < gate_ownerUserId g)
       (gate_error ''owner user id must be a positive integer'')) (\<lambda>_.
     check (\<not> list_ex needs_escaping [gate_repository g, gate_workflowPath g]) (gate_error ''unsafe workflow path''))"

text \<open>A positive safe integer as a template literal writes it: its decimal numeral.\<close>

fun decimal :: "nat \<Rightarrow> string" where
  "decimal n = (if n < 10 then [] else decimal (n div 10)) @ [char_of (48 + n mod 10 :: nat)]"

declare decimal.simps [simp del]

definition owner_text :: "routing_gate \<Rightarrow> string" where
  "owner_text g = (case gate_ownerUserId g of Fin q \<Rightarrow> decimal (nat \<lfloor>q\<rfloor>) | _ \<Rightarrow> [])"

definition quoted :: "string \<Rightarrow> string" where
  "quoted s = [CHR 0x27] @ s @ [CHR 0x27]"

definition owner_clause :: "routing_gate \<Rightarrow> string" where
  "owner_clause g = ''github.actor_id == '' @ quoted (owner_text g)"

definition workflow_ref_clause :: "routing_gate \<Rightarrow> string" where
  "workflow_ref_clause g =
     ''github.workflow_ref == format('' @ quoted (gate_repository g @ ''/'' @ gate_workflowPath g @ CHR ''@'' # ''{0}'')
       @ '', github.ref)''"

section \<open>Rendering\<close>

text \<open>\<open>JSON.stringify\<close> of a list of strings.\<close>

definition json_escape :: "char \<Rightarrow> string" where
  "json_escape c =
     (let hex = (\<lambda>n :: nat. if n < 10 then char_of (48 + n) else char_of (87 + n)) in
      if c = CHR 0x22 then [CHR 0x5C, CHR 0x22]
      else if c = CHR 0x5C then [CHR 0x5C, CHR 0x5C]
      else if c = CHR 0x08 then [CHR 0x5C, CHR ''b'']
      else if c = CHR 0x0C then [CHR 0x5C, CHR ''f'']
      else if c = CHR 0x0A then [CHR 0x5C, CHR ''n'']
      else if c = CHR 0x0D then [CHR 0x5C, CHR ''r'']
      else if c = CHR 0x09 then [CHR 0x5C, CHR ''t'']
      else if code_in c 0 31 then [CHR 0x5C] @ ''u00'' @ [hex (of_char c div 16), hex (of_char c mod 16)]
      else [c])"

definition json_quoted :: "string \<Rightarrow> string" where
  "json_quoted s = [CHR 0x22] @ concat (map json_escape s) @ [CHR 0x22]"

definition json_strings :: "string list \<Rightarrow> string" where
  "json_strings xs = ''['' @ join_with '','' (map json_quoted xs) @ '']''"

definition guard_text :: "routing_gate \<Rightarrow> string" where
  "guard_text g =
     owner_clause g @ '' && (github.event_name != '' @ quoted ''pull_request''
       @ '' || (github.event.pull_request.user.id == '' @ owner_text g
       @ '' && github.event.pull_request.head.repo.id == github.event.repository.id)) && ''
       @ workflow_ref_clause g"

definition gate_prefix :: "string \<Rightarrow> string" where
  "gate_prefix switch = ''vars.'' @ switch @ '' == '' @ quoted ''on'' @ '' && (''"

definition TAIL_START :: string where
  "TAIL_START = '') && fromJSON('' @ [CHR 0x27]"

definition TAIL_MIDDLE :: string where
  "TAIL_MIDDLE = [CHR 0x27] @ '') || ''"

definition render_gated_runs_on :: "routing_gate \<Rightarrow> jsnum exn + string" where
  "render_gated_runs_on g =
     rbind (validate_gate g) (\<lambda>_.
     rbind (switch_variable_for (gate_enrollmentId g)) (\<lambda>switch.
     Inr (''${{ '' @ gate_prefix switch @ guard_text g
       @ TAIL_START @ json_strings (required_self_hosted_labels (gate_runnerLabel g)) @ TAIL_MIDDLE
       @ HOSTED_FALLBACK @ '' }}'')))"

section \<open>The guard\<close>

text \<open>
  The guard with every single-quoted literal replaced by underscores of its length. A doubled quote inside
  a literal masks like the end of one literal and the start of the next. \<open>None\<close> when the last literal does
  not end: then the pattern of the source leaves a quote behind, and the source refuses.
\<close>

fun mask_literals :: "bool \<Rightarrow> string \<Rightarrow> string option" where
  "mask_literals inside [] = (if inside then None else Some [])"
| "mask_literals inside (c # s) =
     (if c = CHR 0x27 then map_option ((#) CHR ''_'') (mask_literals (\<not> inside) s)
      else map_option ((#) (if inside then CHR ''_'' else c)) (mask_literals inside s))"

text \<open>
  The scan over the guard and its mask: \<open>depth\<close> counts open parentheses, \<open>cur\<close> is the conjunct being
  read.
\<close>

fun next_is :: "char \<Rightarrow> (char \<times> char) list \<Rightarrow> bool" where
  "next_is c ((_, m) # _) = (m = c)"
| "next_is c [] = False"

fun scan_guard :: "nat \<Rightarrow> string \<Rightarrow> (char \<times> char) list \<Rightarrow> jsnum exn + string list" where
  "scan_guard depth cur [] = (if depth \<noteq> 0 then Inl (gate_error ''balanced guard'') else Inr [trim cur])"
| "scan_guard depth cur ((g, m) # r) =
     (if m = CHR ''('' then scan_guard (Suc depth) (cur @ [g]) r
      else if m = CHR '')'' then
        (if depth = 0 then Inl (gate_error ''balanced guard'') else scan_guard (depth - 1) (cur @ [g]) r)
      else if depth = 0 \<and> m = CHR ''|'' \<and> next_is CHR ''|'' r
        then Inl (gate_error ''guard must not contain a top-level ||'')
      else if depth = 0 \<and> m = CHR ''&'' \<and> next_is CHR ''&'' r
        then rbind (scan_guard 0 [] (tl r)) (\<lambda>cs. Inr (trim cur # cs))
      else scan_guard depth (cur @ [g]) r)"

definition top_level_conjuncts :: "string \<Rightarrow> jsnum exn + string list" where
  "top_level_conjuncts guard =
     (case mask_literals False guard of
        None \<Rightarrow> Inl (gate_error ''balanced guard'')
      | Some masked \<Rightarrow> scan_guard 0 [] (zip guard masked))"

section \<open>Parsing\<close>

definition line_end :: "char \<Rightarrow> bool" where
  "line_end c \<longleftrightarrow> c = CHR 0x0A \<or> c = CHR 0x0D"

text \<open>\<open>/\) && fromJSON\('([^']*)'\) \|\| (.+)$/u\<close> at the start of the string, then at its first match.\<close>

definition match_tail :: "string \<Rightarrow> (string \<times> string) option" where
  "match_tail s =
     (if \<not> prefix TAIL_START s then None
      else let r = drop (length TAIL_START) s; labels = takeWhile (\<lambda>c. c \<noteq> CHR 0x27) r; t = drop (length labels) r in
           if \<not> prefix TAIL_MIDDLE t then None
           else let rest = drop (length TAIL_MIDDLE) t in
                if rest = [] \<or> list_ex line_end rest then None else Some (labels, rest))"

fun find_tail :: "string \<Rightarrow> (nat \<times> string \<times> string) option" where
  "find_tail [] = None"
| "find_tail (c # s) =
     (case match_tail (c # s) of
        Some m \<Rightarrow> Some (0, m)
      | None \<Rightarrow> map_option (\<lambda>(n, m). (Suc n, m)) (find_tail s))"

text \<open>\<open>/^vars\.([A-Za-z_][A-Za-z0-9_]*) == 'on' && \(/u\<close>: another switch stands in the place of the expected one.\<close>

definition names_a_switch :: "string \<Rightarrow> bool" where
  "names_a_switch inner \<longleftrightarrow>
     prefix ''vars.'' inner
     \<and> (let r = drop 5 inner; v = takeWhile is_word r in
        v \<noteq> [] \<and> \<not> is_digit (hd v) \<and> prefix ('' == '' @ quoted ''on'' @ '' && ('') (drop (length v) r))"

definition parse_gated_runs_on :: "string \<Rightarrow> routing_gate \<Rightarrow> jsnum exn + (string list \<times> string)" where
  "parse_gated_runs_on expression g =
     rbind (validate_gate g) (\<lambda>_.
     rbind (switch_variable_for (gate_enrollmentId g)) (\<lambda>switch.
     rbind (check (prefix ''${{ '' expression \<and> suffix '' }}'' expression) (gate_error ''expression delimiters'')) (\<lambda>_.
     let inner = take (length expression - 7) (drop 4 expression); pre = gate_prefix switch in
     rbind (check (\<not> str_includes inner ''${{'' \<and> \<not> str_includes inner ''}}'') (gate_error ''nested expression'')) (\<lambda>_.
     rbind (check (prefix pre inner)
       (gate_error (if names_a_switch inner then ''switch variable must be '' @ switch else ''switch gate''))) (\<lambda>_.
     let required = required_self_hosted_labels (gate_runnerLabel g) in
     (case find_tail inner of
        None \<Rightarrow> Inl (gate_error ''hosted fallback'')
      | Some (index, labels, fallback) \<Rightarrow>
          rbind (check (fallback = HOSTED_FALLBACK) (gate_error ''hosted fallback'')) (\<lambda>_.
          rbind (check (labels = json_strings required)
            (gate_error (''runner labels must be '' @ json_strings required))) (\<lambda>_.
          rbind (top_level_conjuncts (take (index - length pre) (drop (length pre) inner))) (\<lambda>conjuncts.
          rbind (check (owner_clause g \<in> set conjuncts) (gate_error (''owner clause '' @ owner_clause g))) (\<lambda>_.
          rbind (check (workflow_ref_clause g \<in> set conjuncts) (gate_error ''workflow_ref clause'')) (\<lambda>_.
          Inr (required, switch))))))))))))"

section \<open>YAML scalars\<close>

text \<open>\<open>body.replaceAll("''", t)\<close>\<close>

fun replace_doubled :: "string \<Rightarrow> string \<Rightarrow> string" where
  "replace_doubled t (c # d # s) =
     (if c = CHR 0x27 \<and> d = CHR 0x27 then t @ replace_doubled t s else c # replace_doubled t (d # s))"
| "replace_doubled t s = s"

text \<open>\<open>/^(?:[^"\\]|\\["\\])*$/u\<close>, and the escapes removed.\<close>

fun escapes_ok :: "string \<Rightarrow> bool" where
  "escapes_ok [] = True"
| "escapes_ok (c # s) =
     (if c = CHR 0x22 then False
      else if c = CHR 0x5C then (case s of [] \<Rightarrow> False | d # r \<Rightarrow> (d = CHR 0x22 \<or> d = CHR 0x5C) \<and> escapes_ok r)
      else escapes_ok s)"

fun unescape :: "string \<Rightarrow> string" where
  "unescape (c # d # s) =
     (if c = CHR 0x5C \<and> (d = CHR 0x22 \<or> d = CHR 0x5C) then d # unescape s else c # unescape (d # s))"
| "unescape s = s"

definition enclosed :: "char \<Rightarrow> string \<Rightarrow> bool" where
  "enclosed q s \<longleftrightarrow> 2 \<le> length s \<and> hd s = q \<and> last s = q"

definition yaml_scalar :: "string \<Rightarrow> jsnum exn + string" where
  "yaml_scalar v =
     (let t = trim v; body = take (length t - 2) (tl t) in
      if enclosed CHR 0x27 t then
        rbind (check (CHR 0x27 \<notin> set (replace_doubled [] body))
          (gate_error ''YAML scalar has an unescaped single quote'')) (\<lambda>_.
        Inr (replace_doubled [CHR 0x27] body))
      else if enclosed CHR 0x22 t then
        rbind (check (escapes_ok body) (gate_error ''YAML scalar has an unsupported double-quoted escape'')) (\<lambda>_.
        Inr (unescape body))
      else rbind (check (\<not> str_includes t '' #'') (gate_error ''YAML scalar would end at a comment'')) (\<lambda>_. Inr t))"

end
