(* ===== verification/Workflow.thy ===== *)
theory Workflow
  imports Gate
begin

text \<open>
  Reading the runner selection of one job out of a workflow file without a YAML parser
  (\<open>cli/fleet-service.ts\<close>: \<open>extractJobRunsOn\<close> and the helpers below it): a scalar, a flow list, a block list,
  or the gated selection of the enrollment.
\<close>

section \<open>Lines\<close>

text \<open>\<open>workflow.split(/\r?\n/u)\<close>\<close>

definition drop_return :: "string \<Rightarrow> string" where
  "drop_return s = (if s \<noteq> [] \<and> last s = CHR 0x0D then butlast s else s)"

fun split_workflow :: "string \<Rightarrow> string \<Rightarrow> string list" where
  "split_workflow cur [] = [cur]"
| "split_workflow cur (c # s) =
     (if c = CHR 0x0A then drop_return cur # split_workflow [] s else split_workflow (cur @ [c]) s)"

definition indentation :: "string \<Rightarrow> nat" where
  "indentation line = length line - length (trim_start line)"

text \<open>The scan of \<open>stripComment\<close>: the quote it is inside of, and the character before.\<close>

fun strip_from :: "char option \<Rightarrow> char option \<Rightarrow> string \<Rightarrow> string" where
  "strip_from quote prev [] = []"
| "strip_from quote prev (c # s) =
     (case quote of
        Some k \<Rightarrow> c # strip_from (if c = k then None else quote) (Some c) s
      | None \<Rightarrow>
          if c = CHR 0x22 \<or> c = CHR 0x27 then c # strip_from (Some c) (Some c) s
          else if c = CHR ''#'' \<and> (case prev of None \<Rightarrow> False | Some d \<Rightarrow> is_space d) then []
          else c # strip_from None (Some c) s)"

definition strip_comment :: "string \<Rightarrow> string" where
  "strip_comment line = (if prefix ''#'' (trim_start line) then [] else strip_from None None line)"

definition bare :: "string \<Rightarrow> string" where
  "bare line = trim (strip_comment line)"

definition unquote :: "string \<Rightarrow> string" where
  "unquote v =
     (let t = trim v; both = (\<lambda>q. t \<noteq> [] \<and> hd t = q \<and> last t = q) in
      if both CHR 0x22 \<or> both CHR 0x27 then take (length t - 2) (tl t) else t)"

text \<open>\<open>/^jobs:\s*(?:#.*)?$/u\<close>\<close>

definition jobs_line :: "string \<Rightarrow> bool" where
  "jobs_line line \<longleftrightarrow>
     prefix ''jobs:'' line
     \<and> (case trim_start (drop 5 line) of [] \<Rightarrow> True | c # r \<Rightarrow> c = CHR ''#'' \<and> \<not> list_ex line_end r)"

text \<open>\<open>indentOf\<close> over the lines from the given one.\<close>

fun indent_of :: "string list \<Rightarrow> nat \<Rightarrow> nat option" where
  "indent_of [] parent = None"
| "indent_of (line # ls) parent =
     (if bare line = [] then indent_of ls parent
      else if parent < indentation line then Some (indentation line) else None)"

definition yaml_key :: "string \<Rightarrow> string" where
  "yaml_key key =
     (if key \<noteq> [] \<and> is_word (hd key) \<and> \<not> is_digit (hd key) \<and> list_all (\<lambda>c. is_word c \<or> c = CHR ''-'') key
      then key else json_quoted key)"

fun index_of :: "(string \<Rightarrow> bool) \<Rightarrow> string list \<Rightarrow> nat option" where
  "index_of P [] = None"
| "index_of P (x # xs) = (if P x then Some 0 else map_option Suc (index_of P xs))"

section \<open>Values\<close>

text \<open>\<open>/^key:\s*(.*)$/u\<close> on the content of a line.\<close>

definition value_of_key :: "string \<Rightarrow> string \<Rightarrow> string option" where
  "value_of_key key content =
     (if \<not> prefix (key @ '':'') content then None
      else let v = trim_start (drop (length key + 1) content) in if list_ex line_end v then None else Some v)"

text \<open>\<open>/^\s*-\s*(.+)$/u\<close>, its group trimmed: white space alone after the dash is still an entry.\<close>

definition block_entry :: "string \<Rightarrow> string option" where
  "block_entry item =
     (case trim_start item of
        [] \<Rightarrow> None
      | c # r \<Rightarrow>
          if c \<noteq> CHR ''-'' then None
          else let v = trim_start r in
               if v \<noteq> [] then (if list_ex line_end v then None else Some (trim v))
               else if r \<noteq> [] \<and> \<not> line_end (last r) then Some [] else None)"

definition selection_error :: "string \<Rightarrow> string \<Rightarrow> jsnum exn" where
  "selection_error key s = plain_error [Lit ''job '', Lit key, Lit s]"

text \<open>The items of a block sequence, which may sit at the indentation of the key.\<close>

fun block_items :: "string \<Rightarrow> nat \<Rightarrow> string list \<Rightarrow> string list \<Rightarrow> jsnum exn + string list" where
  "block_items key indent items [] = Inr items"
| "block_items key indent items (line # ls) =
     (let item = strip_comment line in
      if trim item = [] then block_items key indent items ls
      else if indentation item < indent \<or> (indentation item = indent \<and> block_entry item = None) then Inr items
      else case block_entry item of
        None \<Rightarrow> Inl (selection_error key '' runs-on block has an unsupported entry'')
      | Some e \<Rightarrow> block_items key indent (items @ [unquote e]) ls)"

fun split_commas :: "string \<Rightarrow> string \<Rightarrow> string list" where
  "split_commas cur [] = [cur]"
| "split_commas cur (c # s) = (if c = CHR '','' then cur # split_commas [] s else split_commas (cur @ [c]) s)"

definition flow_items :: "string \<Rightarrow> string list" where
  "flow_items v =
     filter (\<lambda>x. x \<noteq> []) (map (\<lambda>x. unquote (trim x)) (split_commas [] (take (length v - 2) (tl v))))"

text \<open>The gated selection; a refusal of the gate becomes an error of the job.\<close>

definition gated_selection :: "string \<Rightarrow> routing_gate \<Rightarrow> string \<Rightarrow> jsnum exn + (string list \<times> string)" where
  "gated_selection key g v =
     (case rbind (yaml_scalar v) (\<lambda>e. parse_gated_runs_on e g) of
        Inr r \<Rightarrow> Inr r
      | Inl (Exn cls m) \<Rightarrow>
          if cls \<noteq> FleetRoutingError then Inl (Exn cls m)
          else Inl (plain_error ([Lit ''job '', Lit key, Lit '' runs-on is not the Cirujano gated selection (''] @ m
                 @ [Lit ''); generate it with cirujano fleet runs-on --id '', Lit (gate_enrollmentId g)])))"

section \<open>The job\<close>

record job_selection =
  sel_runsOn :: "string list option"
  sel_switch :: "string option"
  sel_name :: "string option"
  sel_matrix :: bool

text \<open>The selection a \<open>runs-on\<close> value and the lines after it give.\<close>

definition read_selection ::
  "string \<Rightarrow> routing_gate option \<Rightarrow> nat \<Rightarrow> string \<Rightarrow> string list \<Rightarrow> job_selection \<Rightarrow> jsnum exn + job_selection" where
  "read_selection key gate body_indent v ls sel =
     (let runs_on = (\<lambda>xs. sel\<lparr>sel_runsOn := Some xs\<rparr>) in
      if prefix ''|'' v \<or> prefix ''>'' v
      then Inl (selection_error key '' runs-on uses a block scalar; enroll a job with a literal runner selection'')
      else if v = [] then rbind (block_items key body_indent [] ls) (\<lambda>xs. Inr (runs_on xs))
      else if prefix ''['' v then
        rbind (check (suffix '']'' v) (selection_error key '' runs-on flow list is not closed on one line'')) (\<lambda>_.
        Inr (runs_on (flow_items v)))
      else if gate \<noteq> None \<and> str_includes v ''${{'' then
        rbind (gated_selection key (the gate) v) (\<lambda>(xs, switch). Inr ((runs_on xs)\<lparr>sel_switch := Some switch\<rparr>))
      else Inr (runs_on [unquote v]))"

fun read_body ::
  "string \<Rightarrow> routing_gate option \<Rightarrow> nat \<Rightarrow> nat \<Rightarrow> string list \<Rightarrow> job_selection \<Rightarrow> jsnum exn + job_selection" where
  "read_body key gate job_indent body_indent [] sel = Inr sel"
| "read_body key gate job_indent body_indent (line # ls) sel =
     (let content = bare line;
          sel1 = (if prefix ''strategy:'' content then sel\<lparr>sel_matrix := True\<rparr> else sel);
          sel2 = (case value_of_key ''name'' content of None \<Rightarrow> sel1 | Some v \<Rightarrow> sel1\<lparr>sel_name := Some (unquote v)\<rparr>)
      in
      if content = [] then read_body key gate job_indent body_indent ls sel
      else if indentation line \<le> job_indent then Inr sel
      else if indentation line \<noteq> body_indent then read_body key gate job_indent body_indent ls sel
      else case value_of_key ''runs-on'' content of
        None \<Rightarrow> read_body key gate job_indent body_indent ls sel2
      | Some v \<Rightarrow>
          rbind (read_selection key gate body_indent v ls sel2) (\<lambda>sel.
          read_body key gate job_indent body_indent ls sel))"

definition extract_job_runs_on ::
  "string \<Rightarrow> string \<Rightarrow> routing_gate option \<Rightarrow> jsnum exn + job_selection" where
  "extract_job_runs_on workflow key gate =
     (let ls = split_workflow [] workflow in
      rbind (require (index_of jobs_line ls) (plain_error [Lit ''workflow has no jobs block''])) (\<lambda>jobs.
      let under = drop (Suc jobs) ls in
      rbind (require (indent_of under 0) (plain_error [Lit ''workflow jobs block is empty''])) (\<lambda>job_indent.
      rbind (require (index_of (\<lambda>line. indentation line = job_indent \<and> bare line = yaml_key key @ '':'') under)
        (selection_error key '' is not defined in the workflow'')) (\<lambda>start.
      let body = drop (Suc start) under in
      rbind (require (indent_of body job_indent) (selection_error key '' has no body'')) (\<lambda>body_indent.
      rbind (read_body key gate job_indent body_indent body
        \<lparr>sel_runsOn = None, sel_switch = None, sel_name = None, sel_matrix = False\<rparr>) (\<lambda>sel.
      rbind (require (sel_runsOn sel) (selection_error key '' has no runs-on'')) (\<lambda>xs.
      rbind (check (xs \<noteq> []) (selection_error key '' runs-on is empty'')) (\<lambda>_.
      rbind (check (\<not> list_ex (\<lambda>x. str_includes x ''${{'' \<or> prefix ''{'' x) xs)
        (selection_error key '' runs-on uses an expression or matrix; enroll a job with a literal runner selection'')) (\<lambda>_.
      Inr (sel\<lparr>sel_name := (case sel_name sel of None \<Rightarrow> None
                 | Some s \<Rightarrow> if str_includes s ''${{'' then None else Some s)\<rparr>))))))))))"

text \<open>The price list's SKU of a hosted selection (\<open>cli/telemetry.ts\<close>: \<open>hostedSkuForLabels\<close>).\<close>

definition hosted_sku_for_labels :: "string list \<Rightarrow> hosted_sku option" where
  "hosted_sku_for_labels labels =
     (let values = map (map to_lower) labels; any = list_ex (\<lambda>l. l \<in> set values) in
      if any [''ubuntu-latest'', ''ubuntu-24.04'', ''ubuntu-22.04'', ''ubuntu-20.04''] then Some ActionsLinux
      else if any [''ubuntu-24.04-arm'', ''ubuntu-22.04-arm''] then Some ActionsLinuxArm
      else if any [''windows-latest'', ''windows-2025'', ''windows-2022'', ''windows-2019'', ''windows-11-arm'']
      then Some ActionsWindows
      else if any [''macos-latest'', ''macos-15'', ''macos-14'', ''macos-13'', ''macos-15-intel''] then Some ActionsMacos
      else None)"

end
