(* ===== verification/FleetSource.thy ===== *)
theory FleetSource
  imports Workflow Service
begin

text \<open>
  The read-only GitHub source of the fleet commands: the paginated read through the command line client
  with its retries (\<open>cli/github-api.ts\<close>), the six readings made of it (\<open>cli/fleet-service.ts\<close>:
  \<open>githubFleetSource\<close>), and the state the commands work on: the remote side, the registry file, and what was
  printed.
\<close>

section \<open>State and world\<close>

text \<open>
  A file holds the JSON value it is read as; \<open>None\<close> when there is no such file. The registry file is kept
  apart from the files of the state directories, which are named by their paths and may fail to be read
  or parsed.
\<close>

record 'g fleet_state =
  fleet_remote :: 'g
  fleet_file :: "jsval option"
  fleet_files :: "string \<Rightarrow> (jsnum exn + jsval) option"
  fleet_out :: "jsval list"
  fleet_err :: "jsnum message list"

text \<open>What a run of the client fails with: the members of the error that \<open>isTransient\<close> reads.\<close>

record page_failure =
  pf_message :: string
  pf_stderr :: string
  pf_killed :: bool
  pf_signal :: "string option"

text \<open>
  \<open>fw_pages\<close> runs the client for an endpoint, with the timeout of the attempt; \<open>fw_json\<close> is \<open>JSON.parse\<close>, whose
  failure is the message of its \<open>SyntaxError\<close>; \<open>fw_base64\<close> decodes base64 to UTF-8 text; \<open>fw_clock\<close> is
  \<open>Date.now()\<close> and \<open>fw_iso\<close> the ISO string of a time; \<open>fw_date\<close> is \<open>Date.parse\<close>; \<open>fw_write\<close> is the write of a
  file, which may fail before or after it took effect.
\<close>

record 'g fleet_world =
  fw_pages :: "jsnum \<Rightarrow> string \<Rightarrow> 'g \<Rightarrow> 'g \<times> (page_failure + string)"
  fw_json :: "string \<Rightarrow> string + jsval"
  fw_base64 :: "string \<Rightarrow> string"
  fw_clock :: "'g \<Rightarrow> 'g \<times> jsnum"
  fw_iso :: "jsnum \<Rightarrow> string"
  fw_date :: "string \<Rightarrow> jsnum"
  fw_write :: "string \<Rightarrow> jsval \<Rightarrow> 'g \<Rightarrow> 'g \<times> fault"
  fw_registryPath :: string

type_synonym ('g, 'a) fleet_run = "('g fleet_state, 'a) run"

definition on_remote :: "('g \<Rightarrow> 'g \<times> 'a) \<Rightarrow> ('g, 'a) fleet_run" where
  "on_remote f s = (let (g, x) = f (fleet_remote s) in Some (s\<lparr>fleet_remote := g\<rparr>, Inr x))"

definition fleet_fail :: "jsnum message \<Rightarrow> ('g, 'a) fleet_run" where
  "fleet_fail m = run_return (Inl (plain_error m))"

definition fleet_check :: "bool \<Rightarrow> jsnum message \<Rightarrow> ('g, unit) fleet_run" where
  "fleet_check b m = run_return (check b (plain_error m))"

section \<open>Readers of JSON members\<close>

definition api_record :: "jsval \<Rightarrow> string \<Rightarrow> jsnum exn + fields" where
  "api_record v name = require (as_obj v) (plain_error [Lit (name @ '' must be an object'')])"

definition api_array :: "jsval \<Rightarrow> string \<Rightarrow> jsnum exn + jsval list" where
  "api_array v name = require (as_arr v) (plain_error [Lit (name @ '' must be an array'')])"

definition api_text :: "jsval \<Rightarrow> string \<Rightarrow> jsnum exn + string" where
  "api_text v name =
     (case v of JStr s \<Rightarrow> if s = [] then Inl (plain_error [Lit (name @ '' must be a nonempty string'')]) else Inr s
      | _ \<Rightarrow> Inl (plain_error [Lit (name @ '' must be a nonempty string'')]))"

definition api_positive_integer :: "jsval \<Rightarrow> string \<Rightarrow> jsnum exn + jsnum" where
  "api_positive_integer v name =
     (case v of
        JNum n \<Rightarrow> if is_integer n \<and> Fin 0 < n then Inr n
                  else Inl (plain_error [Lit (name @ '' must be a positive integer'')])
      | _ \<Rightarrow> Inl (plain_error [Lit (name @ '' must be a positive integer'')]))"

definition api_nonnegative :: "jsval \<Rightarrow> string \<Rightarrow> jsnum exn + jsnum" where
  "api_nonnegative v name =
     (case v of
        JNum n \<Rightarrow> if is_finite n \<and> \<not> n < Fin 0 then Inr n
                  else Inl (plain_error [Lit (name @ '' must be a non-negative finite number'')])
      | _ \<Rightarrow> Inl (plain_error [Lit (name @ '' must be a non-negative finite number'')]))"

definition api_sha :: "jsval \<Rightarrow> string \<Rightarrow> jsnum exn + string" where
  "api_sha v name =
     rbind (api_text v name) (\<lambda>s.
     rbind (check (is_sha s) (plain_error [Lit (name @ '' must be a 40-character SHA'')])) (\<lambda>_. Inr s))"

section \<open>Paginated reads\<close>

text \<open>\<open>HTTP 5\d\d\<close>, without regard to case.\<close>

fun http_5xx :: "string \<Rightarrow> bool" where
  "http_5xx [] = False"
| "http_5xx (c # s) =
     ((prefix ''http 5'' (c # s)
       \<and> (case drop 5 s of d # e # _ \<Rightarrow> is_digit d \<and> is_digit e | _ \<Rightarrow> False)) \<or> http_5xx s)"

definition transient_text :: "string \<Rightarrow> bool" where
  "transient_text t =
     (let s = map to_lower t in
      list_ex (str_includes s) [''tls handshake timeout'', ''unexpected eof'', ''end of json input'', ''connection reset'',
        ''connection refused'', ''i/o timeout'', ''client.timeout'', ''stream error'', ''server error'']
      \<or> http_5xx s)"

definition is_transient :: "page_failure \<Rightarrow> bool" where
  "is_transient f \<longleftrightarrow>
     pf_killed f \<or> pf_signal f = Some ''SIGTERM'' \<or> transient_text (pf_message f) \<or> transient_text (pf_stderr f)"

text \<open>One attempt: the pages, or an error with whether it is transient and the details of a failed process.\<close>

record page_problem =
  pp_transient :: bool
  pp_message :: string
  pp_details :: "string list"

definition failure_problem :: "page_failure \<Rightarrow> page_problem" where
  "failure_problem f = \<lparr>pp_transient = is_transient f, pp_message = pf_message f,
     pp_details = (if pf_killed f then [''killed''] else [])
       @ (case pf_signal f of None \<Rightarrow> [] | Some s \<Rightarrow> [''signal '' @ s])\<rparr>"

definition page_attempt :: "'g fleet_world \<Rightarrow> nat \<Rightarrow> string \<Rightarrow> 'g \<Rightarrow> 'g \<times> (page_problem + jsval list)" where
  "page_attempt w attempt endpoint g =
     (let (g, r) = fw_pages w (if attempt = 0 then Fin 120000 else Fin 240000) endpoint g in
      (g, case r of
            Inl f \<Rightarrow> Inl (failure_problem f)
          | Inr stdout \<Rightarrow>
              (case fw_json w stdout of
                 Inl m \<Rightarrow> Inl \<lparr>pp_transient = True, pp_message = m, pp_details = []\<rparr>
               | Inr v \<Rightarrow>
                   (case as_arr v of
                      Some xs \<Rightarrow> Inr xs
                    | None \<Rightarrow> Inl \<lparr>pp_transient = False, pp_message = ''GitHub paginated response must be an array'',
                        pp_details = []\<rparr>))))"

definition RETRY_DELAYS :: "jsnum list" where "RETRY_DELAYS = [Fin 2000, Fin 8000]"

definition final_error :: "string \<Rightarrow> page_problem \<Rightarrow> nat \<Rightarrow> jsnum exn" where
  "final_error endpoint p attempts =
     plain_error [Lit endpoint, Lit '': '', Lit (trim (pp_message p)), Lit '' ('',
       Lit (join_with '', '' ((decimal attempts @ '' attempts'') # pp_details p)), Lit '')'']"

text \<open>The loop over the attempts; the delays left say how many may follow. Waiting changes nothing.\<close>

fun page_loop :: "'g fleet_world \<Rightarrow> string \<Rightarrow> nat \<Rightarrow> jsnum list \<Rightarrow> 'g \<Rightarrow> 'g \<times> (jsnum exn + jsval list)" where
  "page_loop w endpoint attempt delays g =
     (case page_attempt w attempt endpoint g of
        (g, Inr xs) \<Rightarrow> (g, Inr xs)
      | (g, Inl p) \<Rightarrow>
          if \<not> pp_transient p then (g, Inl (plain_error [Lit (pp_message p)]))
          else (case delays of
                  [] \<Rightarrow> (g, Inl (final_error endpoint p (Suc attempt)))
                | _ # ds \<Rightarrow> page_loop w endpoint (Suc attempt) ds g))"

declare page_loop.simps [simp del]

definition github_pages :: "'g fleet_world \<Rightarrow> string \<Rightarrow> ('g, jsval list) fleet_run" where
  "github_pages w endpoint = run_bind (on_remote (page_loop w endpoint 0 RETRY_DELAYS)) run_return"

section \<open>The six readings\<close>

text \<open>\<open>encodeURIComponent\<close>\<close>

definition percent_byte :: "nat \<Rightarrow> string" where
  "percent_byte n =
     (let hex = (\<lambda>d :: nat. if d < 10 then char_of (48 + d) else char_of (55 + d)) in
      [CHR ''%'', hex (n div 16), hex (n mod 16)])"

definition encode_char :: "char \<Rightarrow> string" where
  "encode_char c =
     (let n = of_char c :: nat in
      if is_alnum c \<or> c \<in> set ''-_.!~*()'' \<or> c = CHR 0x27 then [c]
      else if n < 128 then percent_byte n
      else percent_byte (192 + n div 64) @ percent_byte (128 + n mod 64))"

definition encode_uri_component :: "string \<Rightarrow> string" where
  "encode_uri_component s = concat (map encode_char s)"

text \<open>An endpoint that answers with one page, which is an object.\<close>

definition single_page :: "'g fleet_world \<Rightarrow> string \<Rightarrow> string \<Rightarrow> ('g, fields) fleet_run" where
  "single_page w endpoint name =
     run_bind (github_pages w endpoint) (\<lambda>pages.
     case pages of
       [p] \<Rightarrow> run_return (api_record p name)
     | _ \<Rightarrow> fleet_fail [Lit name, Lit '' returned '', Num (Fin (of_nat (length pages))), Lit '' pages''])"

record source_repository =
  sr_id :: jsnum
  sr_defaultBranch :: string
  sr_visibility :: string

record source_workflow =
  sw_id :: jsnum
  sw_name :: string
  sw_path :: string

record source_file =
  sf_sha :: string
  sf_content :: string

definition repository_of_json :: "string \<Rightarrow> fields \<Rightarrow> jsnum exn + source_repository" where
  "repository_of_json repo v =
     rbind (api_text (get_prop v ''full_name'') ''repository.full_name'') (\<lambda>full.
     rbind (check (full = repo) (plain_error [Lit ''repository '', Lit repo, Lit '' resolved to '', Lit full])) (\<lambda>_.
     rbind (api_positive_integer (get_prop v ''id'') ''repository.id'') (\<lambda>ident.
     rbind (api_text (get_prop v ''default_branch'') ''repository.default_branch'') (\<lambda>branch.
     rbind (api_text (get_prop v ''visibility'') ''repository.visibility'') (\<lambda>vis.
     Inr \<lparr>sr_id = ident, sr_defaultBranch = branch, sr_visibility = vis\<rparr>)))))"

definition fetch_repository :: "'g fleet_world \<Rightarrow> string \<Rightarrow> ('g, source_repository) fleet_run" where
  "fetch_repository w repo =
     run_bind (single_page w (''/repos/'' @ repo) ''repository'') (\<lambda>v. run_return (repository_of_json repo v))"

definition fetch_branch_head :: "'g fleet_world \<Rightarrow> string \<Rightarrow> string \<Rightarrow> ('g, string) fleet_run" where
  "fetch_branch_head w repo branch =
     run_bind (single_page w (''/repos/'' @ repo @ ''/branches/'' @ encode_uri_component branch) ''branch'') (\<lambda>v.
     run_return (rbind (api_record (get_prop v ''commit'') ''branch.commit'') (\<lambda>c.
       api_sha (get_prop c ''sha'') ''branch.commit.sha'')))"

definition workflow_of_json :: "jsval \<Rightarrow> jsnum exn + source_workflow" where
  "workflow_of_json entry =
     rbind (api_record entry ''workflow'') (\<lambda>v.
     rbind (api_positive_integer (get_prop v ''id'') ''workflow.id'') (\<lambda>ident.
     rbind (api_text (get_prop v ''name'') ''workflow.name'') (\<lambda>name.
     rbind (api_text (get_prop v ''path'') ''workflow.path'') (\<lambda>path.
     Inr \<lparr>sw_id = ident, sw_name = name, sw_path = path\<rparr>))))"

definition workflows_page :: "jsval \<Rightarrow> jsnum exn + source_workflow list" where
  "workflows_page page =
     rbind (api_record page ''workflows page'') (\<lambda>v.
     rbind (api_array (get_prop v ''workflows'') ''workflows'') (\<lambda>xs. rmap workflow_of_json xs))"

definition fetch_workflows :: "'g fleet_world \<Rightarrow> string \<Rightarrow> ('g, source_workflow list) fleet_run" where
  "fetch_workflows w repo =
     run_bind (github_pages w (''/repos/'' @ repo @ ''/actions/workflows?per_page=100'')) (\<lambda>pages.
     run_return (rbind (rmap workflows_page pages) (\<lambda>xss. Inr (concat xss))))"

definition fetch_workflow_file ::
  "'g fleet_world \<Rightarrow> string \<Rightarrow> string \<Rightarrow> string \<Rightarrow> ('g, source_file) fleet_run" where
  "fetch_workflow_file w repo path ref =
     run_bind (single_page w (''/repos/'' @ repo @ ''/contents/'' @ path @ ''?ref='' @ ref) ''workflow file'') (\<lambda>v.
     run_return (
       rbind (check (get_prop v ''encoding'' = JStr ''base64'') (plain_error [Lit ''workflow file encoding is not base64''])) (\<lambda>_.
       rbind (api_sha (get_prop v ''sha'') ''workflow file sha'') (\<lambda>sha.
       rbind (api_text (get_prop v ''content'') ''workflow file content'') (\<lambda>content.
       Inr \<lparr>sf_sha = sha, sf_content = fw_base64 w content\<rparr>)))))"

definition fetch_is_on_branch :: "'g fleet_world \<Rightarrow> string \<Rightarrow> string \<Rightarrow> string \<Rightarrow> ('g, bool) fleet_run" where
  "fetch_is_on_branch w repo commit branch =
     run_bind (single_page w
       (''/repos/'' @ repo @ ''/compare/'' @ commit @ ''...'' @ encode_uri_component branch @ ''?per_page=1'') ''compare'') (\<lambda>v.
     run_return (rbind (api_text (get_prop v ''status'') ''compare.status'') (\<lambda>status.
       Inr (status = ''ahead'' \<or> status = ''identical''))))"

definition fetch_user_id :: "'g fleet_world \<Rightarrow> string \<Rightarrow> ('g, jsnum) fleet_run" where
  "fetch_user_id w login =
     run_bind (single_page w (''/users/'' @ encode_uri_component login) ''user'') (\<lambda>v.
     run_return (api_positive_integer (get_prop v ''id'') ''user.id''))"

end
