(* ===== verification/Fleet.thy ===== *)
theory Fleet
  imports FleetSource
begin

text \<open>
  The enrollment commands of the fleet (\<open>cli/fleet-service.ts\<close>): a registry is initialised, a workflow job is
  enrolled, cut over to its runner, verified against the live workflow, and given its runner selection.
  Every command reads the registry through the parser and writes it back through
  \<open>writeFleetRegistry\<close>.
\<close>

section \<open>The registry file\<close>

definition read_registry :: "'g fleet_world \<Rightarrow> ('g, fleet_registry) fleet_run" where
  "read_registry w s =
     Some (s, case fleet_file s of
                None \<Rightarrow> Inl (plain_error [Lit ''ENOENT: no such file or directory''])
              | Some v \<Rightarrow> parse_fleet_registry (fw_date w) v)"

definition store_registry :: "'g fleet_world \<Rightarrow> jsval \<Rightarrow> ('g, unit) fleet_run" where
  "store_registry w v s =
     (let (g, f) = fw_write w (fw_registryPath w) v (fleet_remote s); s0 = s\<lparr>fleet_remote := g\<rparr>; s1 = s0\<lparr>fleet_file := Some v\<rparr> in
      case f of
        NoFault \<Rightarrow> Some (s1, Inr ())
      | FaultBefore e \<Rightarrow> Some (s0, Inl e)
      | FaultAfter e \<Rightarrow> Some (s1, Inl e))"

definition save_registry :: "'g fleet_world \<Rightarrow> fleet_registry \<Rightarrow> ('g, unit) fleet_run" where
  "save_registry w r =
     run_bind (run_return (parse_fleet_registry (fw_date w) (json_registry r))) (\<lambda>_.
     store_registry w (json_registry r))"

definition print_json :: "fields \<Rightarrow> ('g, unit) fleet_run" where
  "print_json kvs s = Some (s\<lparr>fleet_out := fleet_out s @ [JObj kvs]\<rparr>, Inr ())"

definition print_problems :: "jsnum message list \<Rightarrow> ('g, unit) fleet_run" where
  "print_problems ms s = Some (s\<lparr>fleet_err := fleet_err s @ ms\<rparr>, Inr ())"

section \<open>Shared steps\<close>

definition require_enrollment :: "fleet_registry \<Rightarrow> string \<Rightarrow> jsnum exn + fleet_enrollment" where
  "require_enrollment r ident =
     require (find (\<lambda>e. fe_id e = ident) (enrollments r))
       (plain_error [Lit ''enrollment '', Lit ident, Lit '' does not exist''])"

definition replace_enrollment :: "fleet_registry \<Rightarrow> fleet_enrollment \<Rightarrow> fleet_registry" where
  "replace_enrollment r e =
     r\<lparr>enrollments := map (\<lambda>x. if fe_id x = fe_id e then e else x) (enrollments r)\<rparr>"

text \<open>The digits after the letter of a handle are at most four, so their number is exact.\<close>

definition next_enrollment_id :: "fleet_registry \<Rightarrow> string" where
  "next_enrollment_id r =
     ''P'' @ decimal (Suc (foldl (\<lambda>m e. max m (digits_nat (drop 1 (fe_id e)))) 0 (enrollments r)))"

definition routing_gate_of :: "fleet_enrollment \<Rightarrow> jsnum \<Rightarrow> routing_gate" where
  "routing_gate_of e owner =
     \<lparr>gate_enrollmentId = fe_id e, gate_repository = fe_repository e, gate_workflowPath = workflowPath e,
      gate_runnerLabel = fe_runnerLabel e, gate_ownerUserId = owner\<rparr>"

definition fleet_now :: "'g fleet_world \<Rightarrow> ('g, string) fleet_run" where
  "fleet_now w = run_bind (on_remote (fw_clock w)) (\<lambda>ms. run_return (Inr (fw_iso w ms)))"

text \<open>The identity of the live workflow at a commit, and the routing switch its selection is gated by.\<close>

definition read_live_identity ::
  "'g fleet_world \<Rightarrow> fleet_enrollment \<Rightarrow> string \<Rightarrow> jsnum \<Rightarrow> ('g, workflow_identity \<times> string option) fleet_run" where
  "read_live_identity w e commit owner =
     run_bind (fetch_workflow_file w (fe_repository e) (workflowPath e) commit) (\<lambda>file.
     run_bind (run_return (extract_job_runs_on (sf_content file) (jobKey e) (Some (routing_gate_of e owner)))) (\<lambda>job.
     run_bind (fleet_now w) (\<lambda>now.
     run_return (Inr (\<lparr>wi_commit = commit, workflowBlobSha = sf_sha file, wi_runsOn = the (sel_runsOn job),
       recordedAt = now\<rparr>, sel_switch job)))))"

definition labelled :: "fleet_enrollment \<Rightarrow> string list \<Rightarrow> bool" where
  "labelled e labels \<longleftrightarrow> set (required_self_hosted_labels (fe_runnerLabel e)) \<subseteq> set labels"

section \<open>Init and show\<close>

definition initial_registry :: "string \<Rightarrow> string \<Rightarrow> string \<Rightarrow> fleet_registry" where
  "initial_registry owner since through =
     \<lparr>fr_owner = owner, window_since = since, window_through = through,
      exclusions = map (\<lambda>repo. \<lparr>ex_repository = repo, ex_reason = ''named exclusion'',
        ex_lockedBy = ''fleet-telemetry plan 2026-09-13''\<rparr>) LOCKED_EXCLUSIONS,
      enrollments = []\<rparr>"

definition fleet_init :: "'g fleet_world \<Rightarrow> string \<Rightarrow> string \<Rightarrow> string \<Rightarrow> ('g, nat) fleet_run" where
  "fleet_init w owner since through s =
     (let r = initial_registry owner since through in
      run_bind (fleet_check (fleet_file s = None)
        [Lit ''registry '', Lit (fw_registryPath w), Lit '' already exists; edit it or choose another path'']) (\<lambda>_.
      run_bind (save_registry w r) (\<lambda>_.
      run_bind (print_json [(''status'', JStr ''initialised''), (''path'', JStr (fw_registryPath w)),
        (''exclusions'', JNum (Fin (of_nat (length (exclusions r)))))]) (\<lambda>_.
      run_return (Inr 0)))) s)"

definition fleet_show :: "fleet_registry \<Rightarrow> ('g, nat) fleet_run" where
  "fleet_show r =
     run_bind (print_json (case json_registry r of JObj kvs \<Rightarrow> kvs | _ \<Rightarrow> [])) (\<lambda>_. run_return (Inr 0))"

section \<open>Enroll\<close>

record enroll_args =
  ea_repository :: string
  ea_workflowPath :: string
  ea_jobKey :: string
  ea_jobNames :: "string list"
  ea_sku :: hosted_sku
  ea_targetBranch :: "string option"

text \<open>The checks on the registry alone, with the handle and the runner label the enrollment will have.\<close>

definition enroll_names :: "fleet_registry \<Rightarrow> enroll_args \<Rightarrow> jsnum exn + string \<times> string" where
  "enroll_names r a =
     (let repo = ea_repository a; ident = next_enrollment_id r in
      rbind (check (prefix (fr_owner r @ ''/'') repo)
        (plain_error [Lit ''repository '', Lit repo, Lit '' must belong to '', Lit (fr_owner r)])) (\<lambda>_.
      rbind (check (\<not> is_excluded_repository (exclusions r) repo)
        (plain_error [Lit ''repository '', Lit repo, Lit '' is excluded from migration''])) (\<lambda>_.
      rbind (reject (find_active_enrollment (enrollments r) repo (ea_workflowPath a) (ea_jobKey a))
        (\<lambda>x. plain_error [Lit repo, Lit '' '', Lit (ea_workflowPath a), Lit '' job '', Lit (ea_jobKey a),
           Lit '' is already enrolled as '', Lit (fe_id x)])) (\<lambda>_.
      rbind (enrollment_label_for (ea_sku a)) (\<lambda>base.
      Inr (ident,
        if list_ex (\<lambda>e. fe_repository e = repo \<and> fe_status e \<noteq> Reverted) (enrollments r)
        then ''cirujano-'' @ map to_lower ident @ ''-'' @ hosted_sku_str (ea_sku a) else base))))))"

definition show_sku :: "hosted_sku option \<Rightarrow> string" where
  "show_sku sku = (case sku of None \<Rightarrow> ''an unknown SKU'' | Some k \<Rightarrow> hosted_sku_str k)"

text \<open>The checks on the job's present selection, with the names its runs will show.\<close>

definition enroll_job :: "enroll_args \<Rightarrow> job_selection \<Rightarrow> jsnum exn + string list \<times> string list" where
  "enroll_job a job =
     (let labels = the (sel_runsOn job); err = (\<lambda>s. plain_error ([Lit ''job '', Lit (ea_jobKey a)] @ s)) in
      rbind (check (hosted_selection labels)
        (err [Lit '' already runs on self-hosted labels '', Lit (json_strings labels)])) (\<lambda>_.
      rbind (check (hosted_sku_for_labels labels = Some (ea_sku a))
        (err [Lit '' runs-on '', Lit (json_strings labels), Lit '' is priced as '',
           Lit (show_sku (hosted_sku_for_labels labels)), Lit '', not '', Lit (hosted_sku_str (ea_sku a))])) (\<lambda>_.
      rbind (check (\<not> (sel_matrix job \<and> ea_jobNames a = []))
        (err [Lit '' uses a strategy matrix; pass --job-name once per display name GitHub reports for it''])) (\<lambda>_.
      Inr (labels,
        if ea_jobNames a \<noteq> [] then ea_jobNames a
        else [case sel_name job of Some n \<Rightarrow> n | None \<Rightarrow> ea_jobKey a])))))"

definition new_enrollment ::
  "enroll_args \<Rightarrow> string \<Rightarrow> string \<Rightarrow> source_repository \<Rightarrow> source_workflow \<Rightarrow> string list \<Rightarrow> workflow_identity
     \<Rightarrow> fleet_enrollment" where
  "new_enrollment a ident label repo workflow names wid =
     \<lparr>fe_id = ident, fe_repository = ea_repository a, fe_repositoryId = sr_id repo, targetBranch = ea_targetBranch a,
      workflowPath = ea_workflowPath a, fe_workflowId = sw_id workflow, workflowName = sw_name workflow,
      jobKey = ea_jobKey a, jobNames = names, fe_sku = ea_sku a, fe_runnerLabel = label, fe_status = Proposed,
      routingSwitch = None, before = wid, after = None, controller = None, fe_notes = []\<rparr>"

definition fleet_enroll :: "'g fleet_world \<Rightarrow> enroll_args \<Rightarrow> fleet_registry \<Rightarrow> ('g, nat) fleet_run" where
  "fleet_enroll w a r =
     run_bind (run_return (enroll_names r a)) (\<lambda>(ident, label).
     run_bind (fetch_repository w (ea_repository a)) (\<lambda>repo.
     run_bind (fleet_check (sr_visibility repo = ''private'')
       [Lit ''repository '', Lit (ea_repository a), Lit '' is '', Lit (sr_visibility repo),
        Lit ''; hosted minutes are free there, so migration only adds provider cost'']) (\<lambda>_.
     run_bind (fetch_workflows w (ea_repository a)) (\<lambda>ws.
     run_bind (run_return (require (find (\<lambda>x. sw_path x = ea_workflowPath a) ws)
       (plain_error [Lit ''workflow '', Lit (ea_workflowPath a), Lit '' is not registered in '', Lit (ea_repository a)]))) (\<lambda>workflow.
     run_bind (fetch_branch_head w (ea_repository a)
       (case ea_targetBranch a of Some b \<Rightarrow> b | None \<Rightarrow> sr_defaultBranch repo)) (\<lambda>commit.
     run_bind (fetch_workflow_file w (ea_repository a) (ea_workflowPath a) commit) (\<lambda>file.
     run_bind (run_return (extract_job_runs_on (sf_content file) (ea_jobKey a) None)) (\<lambda>job.
     run_bind (run_return (enroll_job a job)) (\<lambda>(labels, names).
     run_bind (fleet_now w) (\<lambda>now.
     let wid = \<lparr>wi_commit = commit, workflowBlobSha = sf_sha file, wi_runsOn = labels, recordedAt = now\<rparr>;
         e = new_enrollment a ident label repo workflow names wid in
     run_bind (save_registry w (r\<lparr>enrollments := enrollments r @ [e]\<rparr>)) (\<lambda>_.
     run_bind (print_json [(''status'', JStr ''enrolled''), (''id'', JStr (fe_id e)), (''repository'', JStr (fe_repository e)),
       (''workflowId'', JNum (fe_workflowId e)), (''jobNames'', JArr (map JStr names)), (''before'', json_identity wid)]) (\<lambda>_.
     run_return (Inr 0)))))))))))))"

section \<open>Cut over\<close>

definition branch_of :: "fleet_enrollment \<Rightarrow> source_repository \<Rightarrow> string" where
  "branch_of e repo = (case targetBranch e of Some b \<Rightarrow> b | None \<Rightarrow> sr_defaultBranch repo)"

definition refresh_note :: "workflow_identity \<Rightarrow> workflow_identity \<Rightarrow> string" where
  "refresh_note cur prev =
     concat [''after refreshed at '', recordedAt cur, '': commit '', wi_commit cur, '' blob '', workflowBlobSha cur,
       '' runs-on '', json_strings (wi_runsOn cur), '' (previous commit '', wi_commit prev, '' blob '',
       workflowBlobSha prev, '' runs-on '', json_strings (wi_runsOn prev), ''; cutover at '', recordedAt prev, '')'']"

text \<open>The updated enrollment, once the live identity was read.\<close>

definition cut_over ::
  "fleet_enrollment \<Rightarrow> workflow_identity \<Rightarrow> string option \<Rightarrow> jsnum exn + fleet_enrollment" where
  "cut_over e cur switch =
     (let missing = filter (\<lambda>l. l \<notin> set (wi_runsOn cur)) (required_self_hosted_labels (fe_runnerLabel e));
          err = (\<lambda>s. plain_error ([Lit ''job '', Lit (jobKey e), Lit '' at '', Lit (wi_commit cur)] @ s)) in
      rbind (check (missing = [])
        (err [Lit '' runs-on lacks '', Lit (join_with '', '' missing), Lit '': '', Lit (json_strings (wi_runsOn cur)),
           Lit ''; cutover not recorded''])) (\<lambda>_.
      rbind (require switch
        (err [Lit '' has an ungated self-hosted selection; generate it with cirujano fleet runs-on --id '', Lit (fe_id e)])) (\<lambda>sw.
      rbind (reject (case after e of None \<Rightarrow> None
                     | Some p \<Rightarrow> if workflowBlobSha p = workflowBlobSha cur then Some p else None)
        (\<lambda>_. plain_error [Lit ''enrollment '', Lit (fe_id e), Lit '' is already cut-over at workflow blob '',
           Lit (workflowBlobSha cur)])) (\<lambda>_.
      Inr (e\<lparr>fe_status := CutOver, routingSwitch := Some sw,
             after := Some (case after e of None \<Rightarrow> cur | Some p \<Rightarrow> cur\<lparr>recordedAt := recordedAt p\<rparr>),
             fe_notes := (case after e of None \<Rightarrow> fe_notes e | Some p \<Rightarrow> fe_notes e @ [refresh_note cur p])\<rparr>)))))"

definition fleet_cutover :: "'g fleet_world \<Rightarrow> string \<Rightarrow> string \<Rightarrow> fleet_registry \<Rightarrow> ('g, nat) fleet_run" where
  "fleet_cutover w ident commit r =
     run_bind (run_return (require_enrollment r ident)) (\<lambda>e.
     run_bind (fleet_check (fe_status e \<noteq> Reverted)
       [Lit ''enrollment '', Lit ident, Lit '' is reverted, not proposed or cut-over'']) (\<lambda>_.
     run_bind (fetch_repository w (fe_repository e)) (\<lambda>repo.
     let branch = branch_of e repo in
     run_bind (fetch_is_on_branch w (fe_repository e) commit branch) (\<lambda>on_branch.
     run_bind (fleet_check on_branch
       [Lit ''commit '', Lit commit, Lit '' is not on the '', Lit (if targetBranch e = None then ''default'' else ''target''),
        Lit '' branch '', Lit branch, Lit '' of '', Lit (fe_repository e)]) (\<lambda>_.
     run_bind (if fe_status e = CutOver
               then run_bind (fetch_branch_head w (fe_repository e) branch) (\<lambda>head.
                    fleet_check (commit = head)
                      [Lit ''refresh commit '', Lit commit, Lit '' is not the current '', Lit branch, Lit '' head '', Lit head])
               else run_return (Inr ())) (\<lambda>_.
     run_bind (fetch_user_id w (fr_owner r)) (\<lambda>owner.
     run_bind (read_live_identity w e commit owner) (\<lambda>(cur, switch).
     run_bind (run_return (cut_over e cur switch)) (\<lambda>updated.
     run_bind (save_registry w (replace_enrollment r updated)) (\<lambda>_.
     run_bind (print_json [(''status'', JStr ''cut-over''), (''id'', JStr (fe_id updated)),
       (''repository'', JStr (fe_repository updated)),
       (''after'', case after updated of None \<Rightarrow> JNull | Some a \<Rightarrow> json_identity a)]) (\<lambda>_.
     run_return (Inr 0))))))))))))"

section \<open>Verify\<close>

record verification =
  vf_problems :: "jsnum message list"
  vf_next :: fleet_registry
  vf_changed :: bool
  vf_owner :: "jsnum option"

definition add_problem :: "jsnum message \<Rightarrow> verification \<Rightarrow> verification" where
  "add_problem m v = v\<lparr>vf_problems := vf_problems v @ [m]\<rparr>"

definition put_enrollment :: "fleet_enrollment \<Rightarrow> verification \<Rightarrow> verification" where
  "put_enrollment e v = v\<lparr>vf_next := replace_enrollment (vf_next v) e, vf_changed := True\<rparr>"

definition problem_of :: "fleet_enrollment \<Rightarrow> jsnum message \<Rightarrow> jsnum message" where
  "problem_of e m = [Lit (fe_id e), Lit '': ''] @ m"

definition verify_proposed ::
  "fleet_enrollment \<Rightarrow> string \<Rightarrow> workflow_identity \<Rightarrow> string option \<Rightarrow> verification \<Rightarrow> verification" where
  "verify_proposed e head cur switch v =
     (if workflowBlobSha cur = workflowBlobSha (before e) then v
      else if labelled e (wi_runsOn cur) then
        add_problem (problem_of e
          (if switch = None
           then [Lit ''live workflow carries '', Lit (fe_runnerLabel e), Lit '' at '', Lit head,
                 Lit '' without the routing switch; generate it with cirujano fleet runs-on --id '', Lit (fe_id e)]
           else [Lit ''live workflow already carries '', Lit (fe_runnerLabel e), Lit '' at '', Lit head,
                 Lit ''; record it with fleet cutover''])) v
      else put_enrollment (e\<lparr>before := cur,
        fe_notes := fe_notes e @ [concat [''before refreshed at '', recordedAt cur, '': commit '', head, '' blob '',
          workflowBlobSha cur, '' (was '', workflowBlobSha (before e), '')'']]\<rparr>) v)"

definition verify_cut_over ::
  "fleet_enrollment \<Rightarrow> string \<Rightarrow> workflow_identity \<Rightarrow> string option \<Rightarrow> verification \<Rightarrow> jsnum exn + verification" where
  "verify_cut_over e head cur switch v0 =
     (let v = (if routingSwitch e = None
               then add_problem (problem_of e
                 [Lit ''ungated enrollment; the runner cannot be released without a workflow push'']) v0 else v0) in
      rbind (require (after e) (Exn TypeError [Lit ''Cannot read properties of null (reading workflowBlobSha)''])) (\<lambda>a.
      if workflowBlobSha cur = workflowBlobSha a then Inr v
      else if labelled e (wi_runsOn cur) then
        Inr (add_problem (problem_of e
          (if switch = None
           then [Lit ''live runner selection at '', Lit head,
                 Lit '' is ungated; generate it with cirujano fleet runs-on --id '', Lit (fe_id e)]
           else [Lit ''live workflow blob '', Lit (workflowBlobSha cur), Lit '' differs from the recorded after blob '',
                 Lit (workflowBlobSha a), Lit '' at '', Lit head, Lit ''; review the edit and re-run fleet cutover --commit '',
                 Lit head, Lit '' if it is intended''])) v)
      else
        Inr (put_enrollment (e\<lparr>fe_status := Reverted,
          fe_notes := fe_notes e @ [concat [''reverted at '', recordedAt cur, '': commit '', head, '' blob '',
            workflowBlobSha cur, '' runs-on '', json_strings (wi_runsOn cur)]]\<rparr>)
          (add_problem (problem_of e [Lit ''enrolled label '', Lit (fe_runnerLabel e),
            Lit '' is gone from the live workflow at '', Lit head, Lit ''; recorded as reverted'']) v))))"

definition verify_live ::
  "fleet_enrollment \<Rightarrow> string \<Rightarrow> workflow_identity \<Rightarrow> string option \<Rightarrow> verification \<Rightarrow> jsnum exn + verification" where
  "verify_live e head cur switch v =
     (case fe_status e of
        Proposed \<Rightarrow> Inr (verify_proposed e head cur switch v)
      | Reverted \<Rightarrow>
          Inr (if labelled e (wi_runsOn cur)
               then add_problem (problem_of e [Lit ''reverted enrollment carries '', Lit (fe_runnerLabel e), Lit '' again at '',
                 Lit head, Lit ''; enroll it afresh'']) v
               else v)
      | CutOver \<Rightarrow> verify_cut_over e head cur switch v)"

text \<open>A later enrollment of the job owns the current workflow.\<close>

definition succeeded :: "fleet_registry \<Rightarrow> fleet_enrollment \<Rightarrow> bool" where
  "succeeded r e \<longleftrightarrow>
     fe_status e = Reverted
     \<and> find_active_enrollment (enrollments r) (fe_repository e) (workflowPath e) (jobKey e) \<noteq> None"

definition verify_owner :: "'g fleet_world \<Rightarrow> fleet_registry \<Rightarrow> verification \<Rightarrow> ('g, jsnum) fleet_run" where
  "verify_owner w r v =
     (case vf_owner v of Some n \<Rightarrow> run_return (Inr n) | None \<Rightarrow> fetch_user_id w (fr_owner r))"

definition verify_head :: "'g fleet_world \<Rightarrow> fleet_enrollment \<Rightarrow> ('g, string) fleet_run" where
  "verify_head w e =
     run_bind (fetch_repository w (fe_repository e)) (\<lambda>repo. fetch_branch_head w (fe_repository e) (branch_of e repo))"

definition unreadable :: "fleet_enrollment \<Rightarrow> jsnum message \<Rightarrow> jsnum exn \<Rightarrow> verification \<Rightarrow> verification" where
  "unreadable e where_at err =
     add_problem (problem_of e ([Lit ''cannot read the runner selection''] @ where_at @ [Lit '': ''] @ error_message err))"

definition verify_one ::
  "'g fleet_world \<Rightarrow> fleet_registry \<Rightarrow> fleet_enrollment \<Rightarrow> verification \<Rightarrow> ('g, verification) fleet_run" where
  "verify_one w r e v =
     (if succeeded r e then run_return (Inr v)
      else
        run_bind (verify_owner w r v) (\<lambda>owner.
        let v = v\<lparr>vf_owner := Some owner\<rparr> in
        run_bind (run_try (verify_head w e)) (\<lambda>head.
        case head of
          Inl err \<Rightarrow> run_return (Inr (unreadable e [] err v))
        | Inr head \<Rightarrow>
            run_bind (run_try (read_live_identity w e head owner)) (\<lambda>read.
            case read of
              Inl err \<Rightarrow> run_return (Inr (unreadable e [Lit '' at '', Lit head] err v))
            | Inr (cur, switch) \<Rightarrow> run_return (verify_live e head cur switch v)))))"

fun verify_all ::
  "'g fleet_world \<Rightarrow> fleet_registry \<Rightarrow> fleet_enrollment list \<Rightarrow> verification \<Rightarrow> ('g, verification) fleet_run" where
  "verify_all w r [] v = run_return (Inr v)"
| "verify_all w r (e # es) v = run_bind (verify_one w r e v) (verify_all w r es)"

definition verify_summary :: "fleet_enrollment \<Rightarrow> jsval" where
  "verify_summary e = JObj [(''id'', JStr (fe_id e)), (''status'', JStr (enrollment_status_str (fe_status e))),
     (''beforeBlob'', JStr (workflowBlobSha (before e))),
     (''afterBlob'', case after e of None \<Rightarrow> JNull | Some a \<Rightarrow> JStr (workflowBlobSha a))]"

definition fleet_verify :: "'g fleet_world \<Rightarrow> fleet_registry \<Rightarrow> ('g, nat) fleet_run" where
  "fleet_verify w r =
     run_bind (verify_all w r (enrollments r)
       \<lparr>vf_problems = [], vf_next = r, vf_changed = False, vf_owner = None\<rparr>) (\<lambda>v.
     run_bind (if vf_changed v then save_registry w (vf_next v) else run_return (Inr ())) (\<lambda>_.
     run_bind (print_json [(''status'', JStr (if vf_problems v = [] then ''verified'' else ''mismatch'')),
       (''enrollments'', JArr (map verify_summary (enrollments (vf_next v))))]) (\<lambda>_.
     run_bind (print_problems (vf_problems v)) (\<lambda>_.
     run_return (Inr (if vf_problems v = [] then 0 else 1))))))"

section \<open>The generated selection\<close>

definition fleet_runs_on :: "'g fleet_world \<Rightarrow> string \<Rightarrow> fleet_registry \<Rightarrow> ('g, nat) fleet_run" where
  "fleet_runs_on w ident r =
     run_bind (run_return (require_enrollment r ident)) (\<lambda>e.
     run_bind (fleet_check (fe_status e \<noteq> Reverted)
       [Lit ''enrollment '', Lit ident, Lit '' is reverted; enroll it afresh before generating its runner selection'']) (\<lambda>_.
     run_bind (fetch_user_id w (fr_owner r)) (\<lambda>owner.
     run_bind (run_return (render_gated_runs_on (routing_gate_of e owner))) (\<lambda>selection.
     run_bind (run_return (switch_variable_for (fe_id e))) (\<lambda>variable.
     run_bind (print_json [(''status'', JStr ''generated''), (''id'', JStr (fe_id e)), (''repository'', JStr (fe_repository e)),
       (''workflowPath'', JStr (workflowPath e)), (''job'', JStr (jobKey e)), (''switchVariable'', JStr variable),
       (''yaml'', JStr (''runs-on: '' @ selection)),
       (''enableCommand'', JStr (concat [''gh variable set '', variable, '' --body on --repo '', fe_repository e])),
       (''note'', JStr ''owner action: replace the job runs-on line, merge it, record it with fleet cutover, and run enableCommand only when an operating controller and permit are in place'')]) (\<lambda>_.
     run_return (Inr 0)))))))"

end
