(* ===== verification/FleetController.thy ===== *)
theory FleetController
  imports Fleet Operating
begin

text \<open>
  The fleet commands that prepare a controller (\<open>cli/fleet-service.ts\<close>): the configuration of an enrollment's
  controller, the proposal of its operating permit under the fleet ceiling, and the dispatch of the
  commands.
\<close>

section \<open>Files\<close>

text \<open>
  What these commands ask of the host besides files: \<open>fc_directory\<close> makes the state directory private,
  \<open>fc_hostKey\<close> generates or reads the host key (its path, public key and fingerprint), \<open>fc_join\<close> is
  \<open>path.join\<close>, \<open>fc_hash\<close> is \<open>runnerConfigHash\<close> and \<open>fc_number\<close> the conversion of a value to a number.
\<close>

record 'g fleet_host =
  fc_directory :: "string \<Rightarrow> 'g \<Rightarrow> 'g \<times> (jsnum exn + unit)"
  fc_hostKey :: "string \<Rightarrow> string \<Rightarrow> 'g \<Rightarrow> 'g \<times> (jsnum exn + (string \<times> string \<times> string))"
  fc_join :: "string \<Rightarrow> string \<Rightarrow> string"
  fc_home :: string
  fc_hash :: "runner_config \<Rightarrow> string"
  fc_number :: "jsval \<Rightarrow> jsnum"

definition expand_home :: "'g fleet_host \<Rightarrow> string \<Rightarrow> string" where
  "expand_home h v = (if prefix ''~/'' v then fc_join h (fc_home h) (drop 2 v) else v)"

definition fleet_path :: "'g fleet_host \<Rightarrow> string \<Rightarrow> string \<Rightarrow> jsnum exn + string" where
  "fleet_path h v name =
     (let p = expand_home h v in
      if prefix ''/'' p then Inr p else Inl (plain_error [Lit (name @ '' must be an absolute path'')]))"

definition read_json :: "string \<Rightarrow> ('g, jsval) fleet_run" where
  "read_json path s =
     Some (s, case fleet_files s path of
                None \<Rightarrow> Inl (plain_error [Lit ''ENOENT: no such file or directory''])
              | Some r \<Rightarrow> r)"

definition read_optional_json :: "string \<Rightarrow> ('g, jsval) fleet_run" where
  "read_optional_json path s =
     Some (s, case fleet_files s path of None \<Rightarrow> Inr JNull | Some r \<Rightarrow> r)"

definition write_json :: "'g fleet_world \<Rightarrow> string \<Rightarrow> jsval \<Rightarrow> ('g, unit) fleet_run" where
  "write_json w path v s =
     (let (g, f) = fw_write w path v (fleet_remote s); s0 = s\<lparr>fleet_remote := g\<rparr>;
          s1 = s0\<lparr>fleet_files := (fleet_files s)(path := Some (Inr v))\<rparr> in
      case f of
        NoFault \<Rightarrow> Some (s1, Inr ())
      | FaultBefore e \<Rightarrow> Some (s0, Inl e)
      | FaultAfter e \<Rightarrow> Some (s1, Inl e))"

definition ask_host :: "('g \<Rightarrow> 'g \<times> (jsnum exn + 'a)) \<Rightarrow> ('g, 'a) fleet_run" where
  "ask_host f = run_bind (on_remote f) run_return"

text \<open>\<open>new Date(ms).toISOString().slice(0, 10).replaceAll('-', '')\<close>\<close>

definition compact_date :: "'g fleet_world \<Rightarrow> jsnum \<Rightarrow> string" where
  "compact_date w ms = filter (\<lambda>c. c \<noteq> CHR ''-'') (take 10 (fw_iso w ms))"

section \<open>The controller's configuration\<close>

definition SKU_RATES :: "hosted_sku \<Rightarrow> jsnum" where
  "SKU_RATES sku =
     (case sku of ActionsLinux \<Rightarrow> fl (6 / 1000) | ActionsLinuxArm \<Rightarrow> fl (5 / 1000)
      | ActionsWindows \<Rightarrow> fl (1 / 100) | ActionsMacos \<Rightarrow> fl (62 / 1000))"

definition OPERATING_TIMING :: "(string \<times> jsval) list" where
  "OPERATING_TIMING =
     [(''pollIntervalMs'', JNum (Fin 30000)), (''idleGraceMs'', JNum (Fin 300000)), (''bootTimeoutMs'', JNum (Fin 600000)),
      (''maxJobMs'', JNum (Fin 3600000)), (''lifetimeMs'', JNum (Fin 14400000)), (''shutdownMarginMs'', JNum (Fin 300000))]"

record config_args =
  ca_id :: string
  ca_templatePath :: string
  ca_stateRoot :: string
  ca_allowedBranch :: "string option"

text \<open>\<open>{ ...template.rates, hostedUsdPerMinute }\<close>\<close>

definition template_rates :: "runner_config \<Rightarrow> jsnum \<Rightarrow> jsval" where
  "template_rates t hosted =
     (case get_prop (config_fields t) ''rates'' of
        JObj kvs \<Rightarrow> JObj (map_set ''hostedUsdPerMinute'' (JNum hosted) kvs)
      | v \<Rightarrow> v)"

definition controller_config_value ::
  "fleet_enrollment \<Rightarrow> runner_config \<Rightarrow> string \<Rightarrow> string \<Rightarrow> string \<Rightarrow> string \<Rightarrow> string \<Rightarrow> jsval" where
  "controller_config_value e t key print branch ctl pre =
     JObj ([(''schemaVersion'', JNum (Fin 1)),
        (''repository'', JObj [(''id'', JNum (fe_repositoryId e)), (''nameWithOwner'', JStr (fe_repository e)),
           (''visibility'', JStr ''private'')]),
        (''workflowIds'', JArr [JNum (fe_workflowId e)]), (''allowedBranch'', JStr branch),
        (''eligibleJobNames'', JArr (map JStr (jobNames e))), (''runnerLabel'', JStr (fe_runnerLabel e)),
        (''slots'', JNum (Fin 1)), (''admission'', JStr ''same-repository''),
        (''idleResourcePolicy'', JStr ''delete-after-stop''), (''nebius'', get_prop (config_fields t) ''nebius''),
        (''ssh'', JObj [(''publicKey'', JStr key), (''fingerprint'', JStr print)]),
        (''ownership'', JObj [(''controllerId'', JStr ctl), (''resourcePrefix'', JStr pre)]),
        (''timing'', JObj OPERATING_TIMING), (''rates'', template_rates t (SKU_RATES (fe_sku e)))]
      @ (case routingSwitch e of None \<Rightarrow> [] | Some s \<Rightarrow> [(''routingSwitch'', JObj [(''variable'', JStr s)])]))"

text \<open>A journal that exists binds its controller to the configuration it was started with.\<close>

definition check_bound ::
  "'g fleet_host \<Rightarrow> string \<Rightarrow> runner_config \<Rightarrow> jsval \<Rightarrow> ('g, unit) fleet_run" where
  "check_bound h path cfg bound =
     (if bound = JNull then run_return (Inr ())
      else
        run_bind (run_return (rbind (api_record bound ''controller-state.json'') (\<lambda>st.
          api_record (get_prop st ''identity'') ''controller-state.json identity''))) (\<lambda>ident.
        run_bind (read_json path) (\<lambda>raw.
        run_bind (run_return (parse_runner_config raw)) (\<lambda>existing.
        run_bind (fleet_check (get_prop ident ''configHash'' = JStr (fc_hash h existing))
          [Lit ''controller-state.json is not bound to the existing config.json'']) (\<lambda>_.
        fleet_check (fc_hash h cfg = fc_hash h existing)
          [Lit ''archive the bound journals before changing the controller config''])))))"

definition fleet_controller_config ::
  "'g fleet_world \<Rightarrow> 'g fleet_host \<Rightarrow> config_args \<Rightarrow> fleet_registry \<Rightarrow> ('g, nat) fleet_run" where
  "fleet_controller_config w h a r =
     run_bind (run_return (require_enrollment r (ca_id a))) (\<lambda>e.
     run_bind (fleet_check (fe_status e \<noteq> Reverted)
       [Lit ''enrollment '', Lit (ca_id a), Lit '' is reverted; enroll it afresh before configuring a controller'']) (\<lambda>_.
     run_bind (run_return (reject (case (targetBranch e, ca_allowedBranch a) of
         (Some t, Some b) \<Rightarrow> if b \<noteq> t then Some (t, b) else None | _ \<Rightarrow> None)
       (\<lambda>(t, b). plain_error [Lit ''controller allowed branch '', Lit b, Lit '' differs from enrollment target branch '', Lit t]))) (\<lambda>_.
     run_bind (run_return (fleet_path h (ca_templatePath a) ''config template'')) (\<lambda>template_path.
     run_bind (read_json template_path) (\<lambda>raw.
     run_bind (run_return (parse_runner_config raw)) (\<lambda>template.
     run_bind (run_return (fleet_path h (ca_stateRoot a) ''state root'')) (\<lambda>root.
     let dir = fc_join h root (fe_id e); path = fc_join h dir ''config.json'' in
     run_bind (ask_host (fc_directory h dir)) (\<lambda>_.
     run_bind (ask_host (fc_hostKey h dir (fe_id e))) (\<lambda>(key_path, key, print).
     run_bind (case ca_allowedBranch a of Some b \<Rightarrow> run_return (Inr b)
               | None \<Rightarrow> (case targetBranch e of Some b \<Rightarrow> run_return (Inr b)
                   | None \<Rightarrow> run_bind (fetch_repository w (fe_repository e)) (\<lambda>repo. run_return (Inr (sr_defaultBranch repo))))) (\<lambda>branch.
     run_bind (case controller e of Some c \<Rightarrow> run_return (Inr (ec_controllerId c))
               | None \<Rightarrow> run_bind (on_remote (fw_clock w)) (\<lambda>now. run_return (Inr
                   (concat [''cirujano-'', map to_lower (fe_id e), ''-'', compact_date w now])))) (\<lambda>ctl.
     let pre = (case controller e of Some c \<Rightarrow> ec_resourcePrefix c | None \<Rightarrow> ''cirujano-'' @ map to_lower (fe_id e)) in
     run_bind (run_return (parse_runner_config (controller_config_value e template key print branch ctl pre))) (\<lambda>config.
     run_bind (read_optional_json (fc_join h dir ''controller-state.json'')) (\<lambda>bound.
     run_bind (check_bound h path config bound) (\<lambda>_.
     run_bind (write_json w path (config_value config)) (\<lambda>_.
     let ec = \<lparr>stateDirectory = dir, ec_controllerId = ctl, ec_resourcePrefix = pre,
               ec_permitId = (case controller e of None \<Rightarrow> None | Some c \<Rightarrow> ec_permitId c)\<rparr> in
     run_bind (save_registry w (replace_enrollment r (e\<lparr>controller := Some ec\<rparr>))) (\<lambda>_.
     run_bind (print_json [(''status'', JStr ''configured''), (''id'', JStr (fe_id e)), (''configPath'', JStr path),
       (''hostKeyPath'', JStr key_path),
       (''identity'', JObj [(''configHash'', JStr (fc_hash h config)), (''repositoryId'', JNum (repo_id (repository config))),
          (''projectId'', JStr (nebius_projectId (nebius config))), (''controllerId'', JStr ctl), (''resourcePrefix'', JStr pre)]),
       (''note'', JStr ''candidateDigest is the SHA-256 of the installed CLI bundle; runner inspect prints the full permit identity'')]) (\<lambda>_.
     run_return (Inr 0))))))))))))))))))"

section \<open>The permit proposal\<close>

record proposal_args =
  pa_id :: string
  pa_quotePath :: string
  pa_candidateDigest :: string
  pa_expires :: "string option"

definition str_member :: "jsval \<Rightarrow> string" where
  "str_member v = (case v of JStr s \<Rightarrow> s | _ \<Rightarrow> [])"

definition num_member :: "jsval \<Rightarrow> jsnum" where
  "num_member v = (case v of JNum n \<Rightarrow> n | _ \<Rightarrow> NaN)"

fun truthy :: "jsval \<Rightarrow> bool" where
  "truthy JUndef = False"
| "truthy JNull = False"
| "truthy (JBool b) = b"
| "truthy (JNum n) = (n \<noteq> NaN \<and> n \<noteq> Fin 0)"
| "truthy (JStr s) = (s \<noteq> [])"
| "truthy (JArr _) = True"
| "truthy (JObj _) = True"

text \<open>
  \<open>completeQuote\<close>. The file's members are taken at their declared types without a check; a text or a rate
  of another type reads here as one that the checks of the proposal refuse as they refuse the original,
  and a supplied total enters them as the number it converts to. The raw members go with the quote, since
  they are what the proposal file shows.
\<close>

definition complete_quote_of ::
  "'g fleet_host \<Rightarrow> jsval \<Rightarrow> jsnum \<Rightarrow> jsnum \<Rightarrow> jsnum exn + pilot_quote \<times> fields" where
  "complete_quote_of h raw runtime permit_lifetime =
     (let bad = (QuoteIncomplete ''quote file must declare complete: true'', []) in
      case raw of
        JNull \<Rightarrow> Inl (Exn TypeError [Lit ''Cannot read properties of null (reading complete)''])
      | JObj kvs \<Rightarrow>
          let num = (\<lambda>k. num_member (get_prop kvs k)); str = (\<lambda>k. str_member (get_prop kvs k));
              q = \<lparr>q_currency = str ''currency'', q_quotedAt = str ''quotedAt'', q_source = str ''source'',
                   q_computeUsdPerHour = num ''computeUsdPerHour'', q_diskUsdPerGibMonth = num ''diskUsdPerGibMonth'',
                   publicIpUsdPerHour = num ''publicIpUsdPerHour'', networkUsdPerGib = num ''networkUsdPerGib'',
                   maxRetainedDiskHours = num ''maxRetainedDiskHours'', maxPublicIpHours = num ''maxPublicIpHours'',
                   maxNetworkEgressGiB = num ''maxNetworkEgressGiB'',
                   estimatedMaximumUsd = fc_number h (get_prop kvs ''estimatedMaximumUsd''),
                   includesRetainedDiskAndIp = truthy (get_prop kvs ''includesRetainedDiskAndIp'')\<rparr> in
          if get_prop kvs ''complete'' \<noteq> JBool True then Inr bad
          else if get_prop kvs ''estimatedMaximumUsd'' = JUndef then
            let m = calculate_operating_quote_maximum q runtime permit_lifetime in
            Inr (QuoteComplete (q\<lparr>estimatedMaximumUsd := m\<rparr>), map_set ''estimatedMaximumUsd'' (JNum m) kvs)
          else Inr (QuoteComplete q, kvs)
      | _ \<Rightarrow> Inr bad)"

text \<open>What one other enrollment already commits: its permit, or else its proposal.\<close>

definition read_committed_ceiling :: "'g fleet_host \<Rightarrow> string \<Rightarrow> string \<Rightarrow> ('g, (string \<times> jsnum) option) fleet_run" where
  "read_committed_ceiling h dir ident =
     run_bind (read_optional_json (fc_join h dir ''permit.json'')) (\<lambda>raw.
     if raw \<noteq> JNull then
       run_return (rbind (parse_permit raw) (\<lambda>p. Inr (Some (permitId p, maxTotalCostUsd p))))
     else
       run_bind (read_optional_json (fc_join h dir ''permit-proposal.json'')) (\<lambda>raw.
       if raw = JNull then run_return (Inr None)
       else run_return (
         rbind (api_record raw ''permit-proposal.json'') (\<lambda>p.
         rbind (api_nonnegative (get_prop p ''maxTotalCostUsd'') (ident @ '' permit-proposal.json maxTotalCostUsd'')) (\<lambda>n.
         Inr (Some (ident @ ''-permit-proposal'', n)))))))"

fun other_ceilings ::
  "'g fleet_host \<Rightarrow> string \<Rightarrow> fleet_enrollment list \<Rightarrow> ('g, (string \<times> jsnum) list) fleet_run" where
  "other_ceilings h ident [] = run_return (Inr [])"
| "other_ceilings h ident (e # es) =
     (case controller e of
        None \<Rightarrow> other_ceilings h ident es
      | Some c \<Rightarrow>
          if fe_id e = ident then other_ceilings h ident es
          else run_bind (read_committed_ceiling h (stateDirectory c) (fe_id e)) (\<lambda>x.
               run_bind (other_ceilings h ident es) (\<lambda>xs.
               run_return (Inr ((case x of None \<Rightarrow> [] | Some y \<Rightarrow> [y]) @ xs)))))"

definition json_operating_proposal :: "operating_proposal \<Rightarrow> fields \<Rightarrow> jsval" where
  "json_operating_proposal p quote = JObj
     [(''schemaVersion'', JNum (Fin 1)), (''kind'', JStr ''operating''), (''enrollmentId'', JStr (oq_enrollmentId p)),
      (''approved'', JBool False), (''candidateDigest'', JStr (candidateDigest p)), (''configHash'', JStr (configHash p)),
      (''repositoryId'', JNum (repositoryId p)), (''projectId'', JStr (projectId p)),
      (''controllerId'', JStr (controllerId p)), (''resourcePrefix'', JStr (resourcePrefix p)),
      (''issuedAtMs'', JNum (oq_issuedAtMs p)), (''expiresAtMs'', JNum (oq_expiresAtMs p)),
      (''maxConcurrentVms'', JNum (Fin 1)), (''maxStarts'', JNum (oq_maxStarts p)),
      (''maxRuntimeMs'', JNum (oq_maxRuntimeMs p)), (''maxTotalCostUsd'', JNum (oq_maxTotalCostUsd p)),
      (''fleetCeilingUsd'', JNum (fleetCeilingUsd p)), (''fleetCommittedUsd'', JNum (fleetCommittedUsd p)),
      (''operations'', JArr (map (\<lambda>x. JStr (permit_operation_str x)) (oq_operations p))),
      (''recoveryAllowed'', JBool True),
      (''resources'', JObj [(''platform'', JStr ''cpu-d3''), (''preset'', JStr ''4vcpu-16gb''), (''vmCount'', JNum (Fin 1)),
         (''diskCount'', JNum (Fin 1)), (''diskType'', JStr ''network_ssd''), (''diskSizeGiB'', JNum (Fin 80))]),
      (''quote'', JObj quote)]"

definition operating_input_of ::
  "'g fleet_host \<Rightarrow> fleet_enrollment \<Rightarrow> runner_config \<Rightarrow> string \<Rightarrow> jsnum \<Rightarrow> jsnum \<Rightarrow> jsnum \<Rightarrow> (string \<times> jsnum) list
     \<Rightarrow> pilot_quote \<Rightarrow> operating_input" where
  "operating_input_of h e c digest now ex window others q =
     \<lparr>op_enrollmentId = fe_id e, op_nowMs = now, op_expiresAtMs = ex, op_windowEndMs = window, op_candidateDigest = digest,
      op_configHash = fc_hash h c, op_repositoryId = repo_id (repository c), op_projectId = nebius_projectId (nebius c),
      op_controllerId = own_controllerId (config_ownership c), op_resourcePrefix = own_resourcePrefix (config_ownership c),
      op_maxStarts = BOUND_MAX_STARTS, op_maxRuntimeMs = BOUND_MAX_RUNTIME_MS, op_maxTotalCostUsd = BOUND_MAX_TOTAL_COST_USD,
      otherPermits = others, op_quote = q\<rparr>"

text \<open>The end of a day: \<open>Date.parse\<close> of the date at its last second.\<close>

definition end_of_day :: "'g fleet_world \<Rightarrow> string \<Rightarrow> jsnum" where
  "end_of_day w d = fw_date w (d @ ''T23:59:59Z'')"

text \<open>The files of an accepted proposal: the proposal itself, then the draft of its permit.\<close>

definition write_proposal ::
  "'g fleet_world \<Rightarrow> 'g fleet_host \<Rightarrow> fleet_enrollment \<Rightarrow> string \<Rightarrow> jsnum \<Rightarrow> fields \<Rightarrow> operating_proposal
     \<Rightarrow> ('g, nat) fleet_run" where
  "write_proposal w h e dir now members p =
     (let proposal_path = fc_join h dir ''permit-proposal.json''; draft_path = fc_join h dir ''permit.draft.json'';
          ident = concat [fe_id e, ''-operating-'', compact_date w now] in
      run_bind (write_json w proposal_path (json_operating_proposal p members)) (\<lambda>_.
      run_bind (run_return (render_operating_permit p ident)) (\<lambda>draft.
      run_bind (write_json w draft_path (json_of_permit draft)) (\<lambda>_.
      run_bind (print_json [(''status'', JStr ''proposed''), (''id'', JStr (fe_id e)), (''proposalPath'', JStr proposal_path),
        (''draftPath'', JStr draft_path), (''permitId'', JStr ident),
        (''estimatedMaximumUsd'', JNum (estimatedMaximumUsd (oq_quote p))), (''fleetCommittedUsd'', JNum (fleetCommittedUsd p)),
        (''note'', JStr ''unapproved; the owner confirms the proposal and copies permit.draft.json to permit.json (mode 0600)'')]) (\<lambda>_.
      run_return (Inr 0))))))"

definition fleet_permit_proposal ::
  "'g fleet_world \<Rightarrow> 'g fleet_host \<Rightarrow> proposal_args \<Rightarrow> fleet_registry \<Rightarrow> ('g, nat) fleet_run" where
  "fleet_permit_proposal w h a r =
     run_bind (run_return (require_enrollment r (pa_id a))) (\<lambda>e.
     run_bind (run_return (require (controller e)
       (plain_error [Lit ''enrollment '', Lit (pa_id a), Lit '' has no controller; run fleet controller-config first'']))) (\<lambda>ctl.
     let dir = stateDirectory ctl in
     run_bind (read_json (fc_join h dir ''config.json'')) (\<lambda>raw.
     run_bind (run_return (parse_runner_config raw)) (\<lambda>config.
     run_bind (run_return (fleet_path h (pa_quotePath a) ''quote file'')) (\<lambda>quote_path.
     run_bind (read_json quote_path) (\<lambda>raw_quote.
     run_bind (on_remote (fw_clock w)) (\<lambda>now.
     let window = end_of_day w (window_through r) in
     if window \<le> now then
       run_bind (print_problems [[Lit ''the measurement window ended '', Lit (window_through r),
         Lit ''; extend measurementWindow.through in the registry before proposing a permit'']]) (\<lambda>_. run_return (Inr 1))
     else
     let ex = (case pa_expires a of None \<Rightarrow> window | Some d \<Rightarrow> if date_shape d then end_of_day w d else fw_date w d) in
     run_bind (run_return (complete_quote_of h raw_quote BOUND_MAX_RUNTIME_MS (ex - now))) (\<lambda>(q, members).
     run_bind (other_ceilings h (fe_id e) (enrollments r)) (\<lambda>others.
     run_bind (run_return (build_operating_permit_proposal
       (operating_input_of h e config (pa_candidateDigest a) now ex window others q))) (\<lambda>result.
     case result of
       Inl reasons \<Rightarrow> run_bind (print_problems reasons) (\<lambda>_. run_return (Inr 1))
     | Inr p \<Rightarrow> write_proposal w h e dir now members p))))))))))"

section \<open>Dispatch\<close>

datatype fleet_args =
    FleetInit string string string
  | FleetShow
  | FleetEnroll enroll_args
  | FleetCutover string string
  | FleetVerify
  | FleetRunsOn string
  | FleetControllerConfig config_args
  | FleetPermitProposal proposal_args

fun fleet_action :: "'g fleet_world \<Rightarrow> 'g fleet_host \<Rightarrow> fleet_args \<Rightarrow> fleet_registry \<Rightarrow> ('g, nat) fleet_run" where
  "fleet_action w h (FleetInit owner since through) r = fleet_init w owner since through"
| "fleet_action w h FleetShow r = fleet_show r"
| "fleet_action w h (FleetEnroll a) r = fleet_enroll w a r"
| "fleet_action w h (FleetCutover ident commit) r = fleet_cutover w ident commit r"
| "fleet_action w h FleetVerify r = fleet_verify w r"
| "fleet_action w h (FleetRunsOn ident) r = fleet_runs_on w ident r"
| "fleet_action w h (FleetControllerConfig a) r = fleet_controller_config w h a r"
| "fleet_action w h (FleetPermitProposal a) r = fleet_permit_proposal w h a r"

text \<open>\<open>createFleetCommandService\<close>: every command but \<open>init\<close> works on the registry it read.\<close>

definition fleet_command :: "'g fleet_world \<Rightarrow> 'g fleet_host \<Rightarrow> fleet_args \<Rightarrow> ('g, nat) fleet_run" where
  "fleet_command w h a =
     (case a of
        FleetInit owner since through \<Rightarrow> fleet_init w owner since through
      | _ \<Rightarrow> run_bind (read_registry w) (fleet_action w h a))"

end
