(* ===== verification/Registry_Writing.thy ===== *)
theory Registry_Writing
  imports Registry_Properties
begin

text \<open>
  Reading back what was written, without knowing that it is sound: whatever the parser accepts of the
  JSON of a registry is that registry.
\<close>

lemma registry_objectD: "registry_object v allowed name optional = Inr kvs \<Longrightarrow> v = JObj kvs"
  unfolding registry_object_def rbind_eq_Inr step_eq_Inr by auto

lemma map_JStr_eq [simp]: "map JStr xs = map JStr ys \<longleftrightarrow> xs = ys"
  by (simp add: inj_map_eq_map inj_def)

lemma identity_readback: "parse_workflow_identity date_of (json_identity i) name = Inr j \<Longrightarrow> j = i"
  unfolding parse_workflow_identity_def Let_def
  by (auto simp: rbind_eq_Inr step_eq_Inr field_iffs registry_timestamp_def json_identity_def dest!: registry_objectD
      intro: workflow_identity.equality)

lemma optional_readback:
  "optional_text kvs k name = Inr x \<Longrightarrow> get_prop kvs k = (case y of None \<Rightarrow> JUndef | Some s \<Rightarrow> JStr s) \<Longrightarrow> x = y"
  by (cases y) (auto simp: optional_text_def rbind_eq_Inr field_iffs split: if_split_asm)

lemma controller_readback:
  "parse_enrollment_controller
     (case x of None \<Rightarrow> JNull
      | Some c \<Rightarrow> JObj [(''stateDirectory'', JStr (stateDirectory c)), (''controllerId'', JStr (ec_controllerId c)),
          (''resourcePrefix'', JStr (ec_resourcePrefix c)),
          (''permitId'', case ec_permitId c of None \<Rightarrow> JNull | Some s \<Rightarrow> JStr s)]) name = Inr y \<Longrightarrow> y = x"
  by (cases x) (auto simp: parse_enrollment_controller_def rbind_eq_Inr step_eq_Inr field_iffs dest!: registry_objectD
      split: option.splits if_split_asm)

lemma texts_readback:
  "registry_texts (JArr (map JStr xs)) name = Inr ys \<Longrightarrow> ys = xs"
  "registry_strings (JArr (map JStr xs)) name = Inr ys \<Longrightarrow> ys = xs"
  by (auto simp: field_iffs)

lemma enrollment_readback:
  assumes "parse_enrollment date_of (json_enrollment e) name owner excluded = Inr e'"
  shows "e' = e"
proof -
  obtain kvs where kvs: "json_enrollment e = JObj kvs"
    and p: "get_prop kvs ''id'' = JStr (fe_id e)" "get_prop kvs ''repository'' = JStr (fe_repository e)"
    "get_prop kvs ''repositoryId'' = JNum (fe_repositoryId e)"
    "get_prop kvs ''workflowPath'' = JStr (workflowPath e)" "get_prop kvs ''workflowId'' = JNum (fe_workflowId e)"
    "get_prop kvs ''workflowName'' = JStr (workflowName e)" "get_prop kvs ''jobKey'' = JStr (jobKey e)"
    "get_prop kvs ''jobNames'' = JArr (map JStr (jobNames e))" "get_prop kvs ''sku'' = JStr (hosted_sku_str (fe_sku e))"
    "get_prop kvs ''runnerLabel'' = JStr (fe_runnerLabel e)"
    "get_prop kvs ''status'' = JStr (enrollment_status_str (fe_status e))"
    "get_prop kvs ''before'' = json_identity (before e)"
    "get_prop kvs ''notes'' = JArr (map JStr (fe_notes e))"
    and o: "get_prop kvs ''targetBranch'' = (case targetBranch e of None \<Rightarrow> JUndef | Some s \<Rightarrow> JStr s)"
    "get_prop kvs ''routingSwitch'' = (case routingSwitch e of None \<Rightarrow> JUndef | Some s \<Rightarrow> JStr s)"
    and aft: "get_prop kvs ''after'' = (case after e of None \<Rightarrow> JNull | Some a \<Rightarrow> json_identity a)"
    and ctl: "get_prop kvs ''controller'' = (case controller e of None \<Rightarrow> JNull
       | Some c \<Rightarrow> JObj [(''stateDirectory'', JStr (stateDirectory c)), (''controllerId'', JStr (ec_controllerId c)),
           (''resourcePrefix'', JStr (ec_resourcePrefix c)),
           (''permitId'', case ec_permitId c of None \<Rightarrow> JNull | Some s \<Rightarrow> JStr s)])"
    by (rule json_enrollment_fields)
  obtain kvs2 ident repo branch sku label status bef aft2 switch expected ctl2 repoId path wfId wfName key names noted where
    obj: "registry_object (json_enrollment e) (ENROLLMENT_KEYS @ [''targetBranch'', ''routingSwitch'']) name
      [''targetBranch'', ''routingSwitch''] = Inr kvs2"
    and e: "\<lparr>fe_id = ident, fe_repository = repo, fe_repositoryId = repoId, targetBranch = branch, workflowPath = path,
           fe_workflowId = wfId, workflowName = wfName, jobKey = key, jobNames = names, fe_sku = sku,
           fe_runnerLabel = label, fe_status = status, routingSwitch = switch, before = bef, after = aft2,
           controller = ctl2, fe_notes = noted\<rparr> = e'"
    and a: "registry_text (get_prop kvs2 ''id'') (name @ [Lit (''.'' @ ''id'')]) = Inr ident"
      "registry_text (get_prop kvs2 ''repository'') (name @ [Lit (''.'' @ ''repository'')]) = Inr repo"
      "registry_text (get_prop kvs2 ''runnerLabel'') (name @ [Lit (''.'' @ ''runnerLabel'')]) = Inr label"
      "registry_positive (get_prop kvs2 ''repositoryId'') (name @ [Lit (''.'' @ ''repositoryId'')]) = Inr repoId"
      "registry_positive (get_prop kvs2 ''workflowId'') (name @ [Lit (''.'' @ ''workflowId'')]) = Inr wfId"
      "registry_text (get_prop kvs2 ''workflowPath'') (name @ [Lit (''.'' @ ''workflowPath'')]) = Inr path"
      "registry_text (get_prop kvs2 ''workflowName'') (name @ [Lit (''.'' @ ''workflowName'')]) = Inr wfName"
      "registry_text (get_prop kvs2 ''jobKey'') (name @ [Lit (''.'' @ ''jobKey'')]) = Inr key"
    and names: "registry_strings (get_prop kvs2 ''jobNames'') (name @ [Lit (''.'' @ ''jobNames'')]) = Inr names"
      "registry_texts (get_prop kvs2 ''notes'') (name @ [Lit (''.'' @ ''notes'')]) = Inr noted"
    and b: "optional_text kvs2 ''targetBranch'' (name @ [Lit (''.'' @ ''targetBranch'')]) = Inr branch"
      "optional_text kvs2 ''routingSwitch'' (name @ [Lit (''.'' @ ''routingSwitch'')]) = Inr switch"
    and c: "(case get_prop kvs2 ''sku'' of JStr s \<Rightarrow> of_str hosted_sku_str HOSTED_SKUS s | _ \<Rightarrow> None) = Some sku"
      "(case get_prop kvs2 ''status'' of JStr s \<Rightarrow> of_str enrollment_status_str STATUSES s | _ \<Rightarrow> None) = Some status"
    and bef: "parse_workflow_identity date_of (get_prop kvs2 ''before'') (name @ [Lit (''.'' @ ''before'')]) = Inr bef"
    and aft2: "(if get_prop kvs2 ''after'' = JNull then Inr None
        else rbind (parse_workflow_identity date_of (get_prop kvs2 ''after'') (name @ [Lit (''.'' @ ''after'')]))
               (\<lambda>a. Inr (Some a))) = Inr aft2"
    and ctl2: "parse_enrollment_controller (get_prop kvs2 ''controller'') name = Inr ctl2"
    using assms unfolding parse_enrollment_def Let_def rbind_eq_Inr [of "registry_object _ _ name _"]
    unfolding rbind_eq_Inr [where ?'b = fleet_enrollment] step_eq_Inr sum.inject
    by (elim exE conjE) (rule that; assumption)
  have [simp]: "kvs2 = kvs" using registry_objectD [OF obj] kvs by simp
  have "ident = fe_id e" "repo = fe_repository e" "label = fe_runnerLabel e" "repoId = fe_repositoryId e"
    "wfId = fe_workflowId e" "path = workflowPath e" "wfName = workflowName e" "key = jobKey e"
    using a by (auto simp: p field_iffs)
  moreover have "names = jobNames e" "noted = fe_notes e" using names texts_readback by (auto simp: p)
  moreover have "branch = targetBranch e" "switch = routingSwitch e" using b o optional_readback by auto
  moreover have "sku = fe_sku e" "status = fe_status e" using c by (simp_all add: p)
  moreover have "bef = before e" using bef identity_readback by (auto simp: p)
  moreover have "aft2 = after e"
    using aft2 by (cases "after e") (auto simp: aft json_identity_not_null rbind_eq_Inr dest: identity_readback)
  moreover have "ctl2 = controller e" using ctl2 controller_readback by (auto simp: ctl)
  ultimately show ?thesis using e by (auto intro: fleet_enrollment.equality)
qed

lemma enrollments_readback:
  "parse_enrollments date_of owner excluded i (map json_enrollment es) done = Inr es' \<Longrightarrow> es' = done @ es"
proof (induction es arbitrary: i "done")
  case (Cons e es)
  then obtain x fs where x: "parse_enrollment date_of (json_enrollment e) (at_index ''enrollments'' i []) owner excluded = Inr x"
    "add_enrollment done x = Inr fs" "parse_enrollments date_of owner excluded (Suc i) (map json_enrollment es) fs = Inr es'"
    by (auto simp: rbind_eq_Inr)
  moreover have "fs = done @ [x]" using x(2) by (auto simp: add_enrollment_def rbind_eq_Inr)
  ultimately show ?case using Cons.IH [OF x(3)] enrollment_readback [OF x(1)] by simp
qed simp

lemma exclusions_readback:
  "rmapi parse_exclusion i (map (\<lambda>x. JObj [(''repository'', JStr (ex_repository x)), (''reason'', JStr (ex_reason x)),
     (''lockedBy'', JStr (ex_lockedBy x))]) xs) = Inr ys \<Longrightarrow> ys = xs"
proof (induction xs arbitrary: i ys)
  case (Cons x xs)
  then show ?case
    by (auto simp: rbind_eq_Inr parse_exclusion_def step_eq_Inr field_iffs dest!: registry_objectD)
qed simp

lemma registry_readback:
  assumes "parse_fleet_registry date_of (json_registry r) = Inr r'"
  shows "r' = r"
proof -
  obtain kvs win owner since through raw excluded vs es where
    obj: "registry_object (json_registry r) [''schemaVersion'', ''owner'', ''measurementWindow'', ''exclusions'', ''enrollments'']
       [Lit ''registry''] [] = Inr kvs"
    and r: "\<lparr>fr_owner = owner, window_since = since, window_through = through, exclusions = excluded, enrollments = es\<rparr> = r'"
    and owner: "registry_text (get_prop kvs ''owner'') [Lit ''owner''] = Inr owner"
    and win: "registry_object (get_prop kvs ''measurementWindow'') [''since'', ''through''] [Lit ''measurementWindow''] [] = Inr win"
      "registry_date (get_prop win ''since'') [Lit ''measurementWindow.since''] = Inr since"
      "registry_date (get_prop win ''through'') [Lit ''measurementWindow.through''] = Inr through"
    and excluded: "registry_array (get_prop kvs ''exclusions'') [Lit ''exclusions''] = Inr raw"
      "rmapi parse_exclusion 0 raw = Inr excluded"
    and es: "registry_array (get_prop kvs ''enrollments'') [Lit ''enrollments''] = Inr vs"
      "parse_enrollments date_of owner excluded 0 vs [] = Inr es"
    using assms unfolding parse_fleet_registry_def rbind_eq_Inr step_eq_Inr sum.inject
    by (elim exE conjE) (rule that; assumption)
  have kvs: "JObj kvs = json_registry r" using registry_objectD [OF obj] by simp
  note kvs = kvs [unfolded json_registry_def jsval.inject]
  have win: "since = window_since r" "through = window_through r"
    using win registry_objectD [OF win(1)] by (auto simp: kvs registry_date_iff)
  moreover have "owner = fr_owner r" using owner by (simp add: kvs field_iffs)
  moreover have "excluded = exclusions r" using excluded exclusions_readback by (auto simp: kvs registry_array_iff)
  moreover have "es = enrollments r" using es enrollments_readback by (fastforce simp: kvs registry_array_iff)
  ultimately show ?thesis using r by (auto intro: fleet_registry.equality)
qed

lemma written_registry_ok:
  "parse_fleet_registry date_of (json_registry r) = Inr r' \<Longrightarrow> registry_ok date_of r"
  using parse_fleet_registryD registry_readback by blast

end
