(* ===== verification/Gate_Properties.thy ===== *)
theory Gate_Properties
  imports Gate
begin

text \<open>
  The gate promises: what is rendered is accepted, what is accepted has the canonical shape with nothing
  but further conjuncts in its guard, and a YAML scalar is read back from either way of quoting it.
\<close>

section \<open>Strings\<close>

lemma trim_id: "s \<noteq> [] \<Longrightarrow> \<not> is_space (hd s) \<Longrightarrow> \<not> is_space (last s) \<Longrightarrow> trim s = s"
proof -
  assume s: "s \<noteq> []" "\<not> is_space (hd s)" "\<not> is_space (last s)"
  then have "dropWhile is_space s = s" by (cases s) auto
  moreover have "dropWhile is_space (rev s) = rev s" using s by (cases s rule: rev_cases) auto
  ultimately show ?thesis by (simp add: trim_def)
qed

lemma trim_space: "trim (CHR '' '' # s) = trim s" "trim (s @ '' '') = trim s"
proof -
  have sp: "is_space CHR '' ''" by (simp add: is_space_def)
  show "trim (CHR '' '' # s) = trim s" by (simp add: trim_def sp)
  show "trim (s @ '' '') = trim s"
    by (cases "dropWhile is_space s = []") (auto simp: trim_def sp dropWhile_append dropWhile_eq_Nil_conv dest: set_dropWhileD)
qed

lemma prefix_quote: "q \<notin> set m \<Longrightarrow> q \<notin> set s \<Longrightarrow> prefix (m @ [q]) (s @ q # t) \<longleftrightarrow> m = s"
proof (induction m arbitrary: s)
  case Nil
  then show ?case by (cases s) auto
next
  case (Cons c m)
  then show ?case by (cases s) auto
qed

lemma sublist_quote:
  "q \<notin> set m \<Longrightarrow> q \<notin> set s \<Longrightarrow> sublist (m @ [q]) (s @ q # t) \<longleftrightarrow> suffix m s \<or> sublist (m @ [q]) t"
proof (induction s)
  case Nil
  then show ?case by (cases m) (auto simp: sublist_Cons_right)
next
  case (Cons c s)
  have "prefix (m @ [q]) (c # s @ q # t) \<longleftrightarrow> m = c # s"
    using prefix_quote [of q m "c # s" t] Cons.prems by simp
  then show ?case using Cons by (auto simp: sublist_Cons_right suffix_Cons)
qed

lemma no_sublist_quote: "q \<notin> set s \<Longrightarrow> \<not> sublist (m @ [q]) s"
  by (auto simp: sublist_def)

text \<open>A match that begins before the end of \<open>x\<close> lies in \<open>x\<close>.\<close>

lemma early_match:
  assumes "prefix (m @ [q]) (drop n (x @ m @ q # r))" "n < length x" "q \<notin> set m"
  shows "sublist (m @ [q]) x"
proof -
  let ?s = "x @ m @ q # r"
  obtain y where y: "drop n ?s = (m @ [q]) @ y" using assms(1) by (auto simp: prefix_def)
  then have "drop n ?s ! length m = q" by (simp only: nth_append) simp
  moreover have "drop n ?s ! length m = ?s ! (n + length m)" using assms(2) by (intro nth_drop) simp
  ultimately have at: "?s ! (n + length m) = q" by simp
  have short: "n + length m < length x"
  proof (rule ccontr)
    assume "\<not> n + length m < length x"
    moreover from this have "n + length m - length x < length m" using assms(2) by linarith
    ultimately have "m ! (n + length m - length x) = q" "n + length m - length x < length m"
      using at by (auto simp: nth_append)
    then show False using assms(3) nth_mem by blast
  qed
  have "m @ [q] = take (Suc (length m)) (drop n ?s)" using y by simp
  also have "\<dots> = take (Suc (length m)) (drop n x)" using short by simp
  finally show ?thesis by (metis sublist_drop sublist_take sublist_order.order_trans)
qed

section \<open>The guard\<close>

lemma mask_plain: "CHR 0x27 \<notin> set s \<Longrightarrow>
    mask_literals b (s @ r) = map_option ((@) (if b then replicate (length s) CHR ''_'' else s)) (mask_literals b r)"
  by (induction s) (auto simp: map_option_case split: option.split)

lemma scan_plain: "length gs = length ms \<Longrightarrow> CHR ''('' \<notin> set ms \<Longrightarrow> CHR '')'' \<notin> set ms \<Longrightarrow>
    CHR ''|'' \<notin> set ms \<Longrightarrow> CHR ''&'' \<notin> set ms \<Longrightarrow>
    scan_guard d cur (zip gs ms @ r) = scan_guard d (cur @ gs) r"
  by (induction gs ms arbitrary: cur rule: list_induct2) auto

lemma scan_inner: "length gs = length ms \<Longrightarrow> CHR ''('' \<notin> set ms \<Longrightarrow> CHR '')'' \<notin> set ms \<Longrightarrow>
    scan_guard (Suc d) cur (zip gs ms @ r) = scan_guard (Suc d) (cur @ gs) r"
  by (induction gs ms arbitrary: cur rule: list_induct2) auto

section \<open>The tail\<close>

lemma tail_start: "TAIL_START = '') && fromJSON('' @ [CHR 0x27]"
  by (simp add: TAIL_START_def)

lemma find_tail_at:
  assumes "match_tail (TAIL_START @ r) = Some k" "\<not> sublist TAIL_START x"
  shows "find_tail (x @ TAIL_START @ r) = Some (length x, k)"
proof -
  have "\<not> prefix TAIL_START (drop n (x @ TAIL_START @ r))" if "n < length x" for n
    using early_match [of "'') && fromJSON(''" "CHR 0x27" n x r] assms(2) that by (auto simp: tail_start)
  then show ?thesis
  proof (induction x)
    case Nil
    then show ?case using assms(1) by (simp add: TAIL_START_def)
  next
    case (Cons c x)
    have "\<not> prefix TAIL_START (drop n (x @ TAIL_START @ r))" if "n < length x" for n
      using Cons.prems [of "Suc n"] that by simp
    then show ?case using Cons.IH Cons.prems [of 0] by (simp add: match_tail_def)
  qed
qed

lemma match_tail_canonical:
  "CHR 0x27 \<notin> set labels \<Longrightarrow> match_tail (TAIL_START @ labels @ TAIL_MIDDLE @ HOSTED_FALLBACK) = Some (labels, HOSTED_FALLBACK)"
proof -
  assume q: "CHR 0x27 \<notin> set labels"
  have "takeWhile (\<lambda>c. c \<noteq> CHR 0x27) (labels @ CHR 0x27 # y) = labels" for y
    using q by (auto simp: takeWhile_tail)
  then show ?thesis
    by (simp add: match_tail_def TAIL_START_def TAIL_MIDDLE_def HOSTED_FALLBACK_def line_end_def Let_def)
qed

section \<open>What is rendered\<close>

lemma decimal_digits: "list_all is_digit (decimal n)"
proof (induction n rule: decimal.induct)
  case (1 n)
  have "is_digit (char_of (48 + n mod 10 :: nat))" by (simp add: is_digit_def code_in_def)
  then show ?case using 1 by (subst decimal.simps) auto
qed

lemma owner_digits: "list_all is_digit (owner_text g)"
  by (simp add: owner_text_def decimal_digits split: jsnum.split)

lemma digit_plain: "list_all is_digit s \<Longrightarrow> c \<in> set s \<Longrightarrow> is_digit c"
  by (simp add: list_all_iff)

definition guard_mask :: "routing_gate \<Rightarrow> string" where
  "guard_mask g =
     ''github.actor_id == _'' @ replicate (length (owner_text g)) CHR ''_''
     @ ''_ && (github.event_name != ______________ || (github.event.pull_request.user.id == '' @ owner_text g
     @ '' && github.event.pull_request.head.repo.id == github.event.repository.id)) && github.workflow_ref == format(_''
     @ replicate (length (gate_repository g)) CHR ''_'' @ ''_'' @ replicate (length (gate_workflowPath g)) CHR ''_''
     @ ''_____, github.ref)''"

lemma quote_free:
  "CHR 0x27 \<notin> set (owner_text g)"
  "\<not> needs_escaping s \<Longrightarrow> CHR 0x27 \<notin> set s \<and> CHR ''{'' \<notin> set s \<and> CHR ''}'' \<notin> set s"
  using digit_plain [OF owner_digits, of "CHR 0x27" g]
  by (auto simp: needs_escaping_def list_ex_iff is_digit_def code_in_def)

lemma mask_guard:
  assumes "\<not> needs_escaping (gate_repository g)" "\<not> needs_escaping (gate_workflowPath g)"
  shows "mask_literals False (guard_text g) = Some (guard_mask g)"
  using quote_free(2) [OF assms(1)] quote_free(2) [OF assms(2)] quote_free(1) [of g]
  by (simp add: guard_text_def guard_mask_def owner_clause_def workflow_ref_clause_def quoted_def mask_plain)

lemma guard_conjuncts:
  assumes "\<not> needs_escaping (gate_repository g)" "\<not> needs_escaping (gate_workflowPath g)"
  shows "\<exists>mid. top_level_conjuncts (guard_text g) = Inr [owner_clause g, mid, workflow_ref_clause g]"
proof -
  have digits: "CHR ''('' \<notin> set (owner_text g)" "CHR '')'' \<notin> set (owner_text g)"
    using digit_plain [OF owner_digits, of _ g] by (force simp: is_digit_def code_in_def)+
  have "\<exists>mid. scan_guard 0 [] (zip (guard_text g) (guard_mask g))
      = Inr [trim (owner_clause g @ '' ''), mid, trim (CHR '' '' # workflow_ref_clause g)]"
    by (simp add: guard_text_def guard_mask_def owner_clause_def workflow_ref_clause_def quoted_def scan_plain scan_inner
        digits)
  moreover have "trim (owner_clause g) = owner_clause g" "trim (workflow_ref_clause g) = workflow_ref_clause g"
    by (rule trim_id; simp add: owner_clause_def workflow_ref_clause_def quoted_def is_space_def)+
  ultimately show ?thesis using mask_guard [OF assms] by (simp add: top_level_conjuncts_def trim_space)
qed

lemma no_start_segments:
  assumes "q \<notin> set m" "q \<notin> set t" "list_all (\<lambda>s. q \<notin> set s \<and> \<not> suffix m s) ss"
  shows "\<not> sublist (m @ [q]) (concat (map (\<lambda>s. s @ [q]) ss) @ t)"
  using assms(3)
proof (induction ss)
  case Nil
  then show ?case using no_sublist_quote [OF assms(2)] by simp
next
  case (Cons s ss)
  then show ?case using sublist_quote [OF assms(1), of s] by auto
qed

definition plain_label :: "char \<Rightarrow> bool" where
  "plain_label c \<longleftrightarrow> is_word c \<or> c = CHR ''-''"

lemma length_prefix_p: "length ''cirujano-p'' = 10"
  by simp

lemma sku_label_plain: "cirujano_sku_for_label l \<noteq> None \<Longrightarrow> list_all plain_label l"
proof -
  assume "cirujano_sku_for_label l \<noteq> None"
  then consider "l \<in> {''cirujano-pilot-fixture'', ''cirujano-baseline-actions_linux''}"
    | "prefix ''cirujano-p'' l" "suffix ''-actions_linux'' l" "handle_digits (take (length l - 24) (drop 10 l))"
    by (auto simp: cirujano_sku_for_label_def split: if_splits)
  then show ?thesis
  proof cases
    case 1
    then show ?thesis by (auto simp: plain_label_def is_word_def code_in_def)
  next
    case 2
    obtain a where a: "l = ''cirujano-p'' @ a" using 2(1) by (rule prefixE)
    obtain b where b: "l = b @ ''-actions_linux''" using 2(2) by (rule suffixE)
    have digits: "list_all is_digit (take (length l - 24) (drop 10 l))" "24 < length l"
      using 2(3) by (auto simp: handle_digits_def)
    then have "l = ''cirujano-p'' @ take (length l - 24) a @ drop (length l - 24) a" using a by simp
    moreover have "drop (length l - 24) a = ''-actions_linux''"
    proof -
      have "drop (length l - 14) l = ''-actions_linux''" using b by simp
      moreover have "drop n (''cirujano-p'' @ a) = drop (n - 10) a" if "10 \<le> n" for n
        using that length_prefix_p by (simp only: drop_append) simp
      moreover have "10 \<le> length l - 14" "length l - 14 - 10 = length l - 24" using digits(2) by simp_all
      ultimately show ?thesis by (metis a)
    qed
    ultimately show ?thesis using digits(1) a
      by (subst \<open>l = _ @ _ @ _\<close>) (auto simp: plain_label_def is_word_def code_in_def list_all_iff)
  qed
qed

lemma plain_escape: "list_all plain_label s \<Longrightarrow> concat (map json_escape s) = s"
proof (induction s)
  case (Cons c s)
  then have "of_char c \<noteq> (34 :: nat)" "of_char c \<noteq> (92 :: nat)" "\<not> of_char c \<le> (31 :: nat)"
    by (auto simp: plain_label_def is_word_def is_digit_def code_in_def)
  then have "c \<noteq> CHR 0x22" "c \<noteq> CHR 0x5C" "\<not> code_in c 0 31" by (auto simp: code_in_def)
  moreover from this have "c \<noteq> CHR 0x08" "c \<noteq> CHR 0x0C" "c \<noteq> CHR 0x0A" "c \<noteq> CHR 0x0D" "c \<noteq> CHR 0x09"
    by (auto simp: code_in_def)
  ultimately show ?case using Cons by (simp add: json_escape_def Let_def)
qed simp

lemma label_free:
  assumes "list_all plain_label s" "c \<in> set [CHR 0x27, CHR ''{'', CHR ''}'']"
  shows "c \<notin> set s"
  using assms by (auto simp: list_all_iff plain_label_def is_word_def is_digit_def code_in_def)

lemma handle_free:
  assumes "switch_variable_for ident = Inr switch" "c \<in> set [CHR 0x27, CHR ''{'', CHR ''}'']"
  shows "c \<notin> set switch"
proof -
  have ident: "prefix ''P'' ident" "list_all is_digit (drop 1 ident)" "switch = ''CIRUJANO_RUNNER_'' @ ident"
    using assms(1) by (auto simp: switch_variable_for_def enrollment_handle_def handle_digits_def split: if_splits)
  from ident(1) obtain ds where "ident = ''P'' @ ds" by (rule prefixE)
  then have "switch = ''CIRUJANO_RUNNER_P'' @ ds" "list_all is_digit ds" using ident by simp_all
  then show ?thesis using assms(2) by (auto simp: list_all_iff is_digit_def code_in_def)
qed

lemma sublist_twice: "sublist [c, c] s \<Longrightarrow> 2 \<le> length (filter ((=) c) s)"
  by (auto simp: sublist_def)

lemma filter_absent: "c \<notin> set s \<Longrightarrow> filter ((=) c) s = []"
  by (auto simp: filter_empty_conv)

lemma rendered_parts:
  assumes "validate_gate g = Inr ()" "switch_variable_for (gate_enrollmentId g) = Inr switch"
    and "list_all plain_label (gate_runnerLabel g)"
  defines "labels \<equiv> json_strings (required_self_hosted_labels (gate_runnerLabel g))"
  defines "inner \<equiv> gate_prefix switch @ guard_text g @ TAIL_START @ labels @ TAIL_MIDDLE @ HOSTED_FALLBACK"
  shows "find_tail inner = Some (length (gate_prefix switch @ guard_text g), labels, HOSTED_FALLBACK)"
    and "\<not> str_includes inner ''${{''" "\<not> str_includes inner ''}}''"
proof -
  have parts: "\<not> needs_escaping (gate_repository g)" "\<not> needs_escaping (gate_workflowPath g)"
    using assms(1) by (auto simp: validate_gate_def result_simps)
  note free = quote_free(2) [OF parts(1)] quote_free(2) [OF parts(2)] quote_free(1) [of g] handle_free [OF assms(2)]
  have labels_eq: "labels = ''[\"self-hosted\",\"linux\",\"x64\",'' @ [CHR 0x22] @ gate_runnerLabel g @ [CHR 0x22] @ '']''"
    by (simp add: labels_def json_strings_def json_quoted_def required_self_hosted_labels_def plain_escape [OF assms(3)]
        json_escape_def code_in_def)
  have digits: "c \<notin> set (owner_text g)" if "c \<in> set [CHR ''('', CHR ''{'', CHR ''}'']" for c
    using digit_plain [OF owner_digits, of c g] that by (auto simp: is_digit_def code_in_def)
  have absent: "filter ((=) c) switch = []" "filter ((=) c) (owner_text g) = []" "filter ((=) c) (gate_repository g) = []"
      "filter ((=) c) (gate_workflowPath g) = []" "filter ((=) c) (gate_runnerLabel g) = []"
    if "c = CHR ''{'' \<or> c = CHR ''}''" for c
    using that free digits [of c] label_free [OF assms(3), of c] by (auto intro!: filter_absent)
  have braces: "length (filter ((=) c) inner) \<le> 1" if "c = CHR ''{'' \<or> c = CHR ''}''" for c
    using that absent [OF that]
    by (elim disjE) (simp_all add: inner_def labels_eq gate_prefix_def guard_text_def owner_clause_def workflow_ref_clause_def
        quoted_def TAIL_START_def TAIL_MIDDLE_def HOSTED_FALLBACK_def)
  have "\<not> sublist [c, c] inner" if "c = CHR ''{'' \<or> c = CHR ''}''" for c
    using sublist_twice [of c inner] braces [OF that] by linarith
  moreover have "sublist ''{{'' ''${{''" by (simp add: sublist_Cons_right)
  ultimately show "\<not> str_includes inner ''${{''" "\<not> str_includes inner ''}}''"
    unfolding str_includes_iff_sublist by (blast intro: sublist_order.order_trans)+
  let ?segments = "[''vars.'' @ switch @ '' == '', ''on'', '' && (github.actor_id == '', owner_text g,
      '' && (github.event_name != '', ''pull_request'',
      '' || (github.event.pull_request.user.id == '' @ owner_text g
        @ '' && github.event.pull_request.head.repo.id == github.event.repository.id)) && github.workflow_ref == format('',
      gate_repository g @ ''/'' @ gate_workflowPath g @ CHR ''@'' # ''{0}'']"
  have segments: "gate_prefix switch @ guard_text g = concat (map (\<lambda>s. s @ [CHR 0x27]) ?segments) @ '', github.ref)''"
    by (simp add: gate_prefix_def guard_text_def owner_clause_def workflow_ref_clause_def quoted_def)
  have "\<not> suffix '') && fromJSON('' (owner_text g)"
    using digits [of "CHR ''(''"] set_mono_suffix [of "'') && fromJSON(''" "owner_text g"] by auto
  then have "\<not> sublist ('') && fromJSON('' @ [CHR 0x27]) (concat (map (\<lambda>s. s @ [CHR 0x27]) ?segments) @ '', github.ref)'')"
    using free by (intro no_start_segments) (auto simp: suffix_to_prefix)
  then have "\<not> sublist TAIL_START (gate_prefix switch @ guard_text g)" unfolding segments tail_start .
  moreover have "match_tail (TAIL_START @ labels @ TAIL_MIDDLE @ HOSTED_FALLBACK) = Some (labels, HOSTED_FALLBACK)"
    by (rule match_tail_canonical) (use label_free [OF assms(3), of "CHR 0x27"] in \<open>simp add: labels_eq\<close>)
  ultimately show "find_tail inner = Some (length (gate_prefix switch @ guard_text g), labels, HOSTED_FALLBACK)"
    using find_tail_at unfolding inner_def by (metis append.assoc)
qed

lemma rendered_parses:
  assumes "render_gated_runs_on g = Inr expression" "cirujano_sku_for_label (gate_runnerLabel g) \<noteq> None"
  shows "parse_gated_runs_on expression g
    = Inr (required_self_hosted_labels (gate_runnerLabel g), ''CIRUJANO_RUNNER_'' @ gate_enrollmentId g)"
proof -
  define switch where "switch = ''CIRUJANO_RUNNER_'' @ gate_enrollmentId g"
  define labels where "labels = json_strings (required_self_hosted_labels (gate_runnerLabel g))"
  define inner where "inner = gate_prefix switch @ guard_text g @ TAIL_START @ labels @ TAIL_MIDDLE @ HOSTED_FALLBACK"
  have valid: "validate_gate g = Inr ()" and switch: "switch_variable_for (gate_enrollmentId g) = Inr switch"
    and expression: "expression = ''${{ '' @ inner @ '' }}''"
    using assms(1) by (auto simp: render_gated_runs_on_def result_simps switch_variable_for_def inner_def labels_def switch_def
        split: if_splits)
  note parts = rendered_parts [OF valid switch sku_label_plain [OF assms(2)], folded labels_def, folded inner_def]
  have "prefix ''${{ '' expression" "suffix '' }}'' expression" "take (length expression - 7) (drop 4 expression) = inner"
    by (simp_all add: expression suffix_def)
  moreover have "prefix (gate_prefix switch) inner" by (simp add: inner_def)
  moreover have "take (length (gate_prefix switch @ guard_text g) - length (gate_prefix switch))
      (drop (length (gate_prefix switch)) inner) = guard_text g" by (simp add: inner_def)
  moreover obtain mid where "top_level_conjuncts (guard_text g) = Inr [owner_clause g, mid, workflow_ref_clause g]"
    using guard_conjuncts valid by (auto simp: validate_gate_def result_simps)
  ultimately show ?thesis
    using valid switch parts by (simp add: parse_gated_runs_on_def Let_def labels_def switch_def)
qed

section \<open>What is accepted\<close>

abbreviation AND :: "(char \<times> char) list" where
  "AND \<equiv> [(CHR ''&'', CHR ''&''), (CHR ''&'', CHR ''&'')]"

definition masked :: "(char \<times> char) list \<Rightarrow> bool" where
  "masked p \<longleftrightarrow> mask_literals False (map fst p) = Some (map snd p)"

lemma mask_zip: "mask_literals b s = Some m \<Longrightarrow>
    length m = length s \<and> list_all (\<lambda>(g, c). c = g \<or> c = CHR ''_'') (zip s m)"
  by (induction s arbitrary: b m) (auto split: if_splits)

lemma mask_split:
  assumes "mask_literals b (a @ c # s) = Some m" "m ! length a \<noteq> CHR ''_''"
  shows "mask_literals b a = Some (take (length a) m) \<and> mask_literals False s = Some (drop (Suc (length a)) m)"
  using assms
proof (induction a arbitrary: b m)
  case Nil
  then show ?case by (auto split: if_splits)
next
  case (Cons d a)
  then show ?case by (auto split: if_splits)
qed

lemma masked_split:
  assumes "masked (p @ (g, CHR ''&'') # r)"
  shows "masked p" "masked r"
proof -
  have "map snd (p @ (g, CHR ''&'') # r) ! length (map fst p) \<noteq> CHR ''_''" by (simp add: nth_append)
  then show "masked p" "masked r"
    using assms mask_split [of False "map fst p" g "map fst r" "map snd (p @ (g, CHR ''&'') # r)"]
    by (simp_all add: masked_def)
qed

lemma masked_pieces: "masked (p @ concat (map ((@) AND) ps)) \<Longrightarrow> list_all masked (p # ps)"
proof (induction ps arbitrary: p)
  case (Cons q ps)
  let ?r = "q @ concat (map ((@) AND) ps)"
  have "p @ concat (map ((@) AND) (q # ps)) = p @ (CHR ''&'', CHR ''&'') # (CHR ''&'', CHR ''&'') # ?r" by simp
  then have m: "masked (p @ (CHR ''&'', CHR ''&'') # (CHR ''&'', CHR ''&'') # ?r)" using Cons.prems by (simp only:)
  have "masked ([] @ (CHR ''&'', CHR ''&'') # ?r)" using masked_split(2) [OF m] by (simp only: append_Nil)
  then have "masked ?r" by (rule masked_split(2))
  then have "list_all masked (q # ps)" by (rule Cons.IH)
  then show ?case using masked_split(1) [OF m] by simp
qed simp

definition splits_into :: "nat \<Rightarrow> string \<Rightarrow> (char \<times> char) list \<Rightarrow> string list
    \<Rightarrow> (char \<times> char) list \<Rightarrow> (char \<times> char) list list \<Rightarrow> bool" where
  "splits_into d cur r cs p ps \<longleftrightarrow>
     r = p @ concat (map ((@) AND) ps) \<and> scan_guard d cur p = Inr [trim (cur @ map fst p)]
     \<and> list_all (\<lambda>q. scan_guard 0 [] q = Inr [trim (map fst q)]) ps
     \<and> cs = trim (cur @ map fst p) # map (\<lambda>q. trim (map fst q)) ps"

lemma splits_and:
  assumes "splits_into 0 [] r cs p ps"
  shows "splits_into 0 cur (AND @ r) (trim cur # cs) [] (p # ps)"
  using assms by (simp add: splits_into_def)

lemma splits_step:
  assumes "splits_into d' (cur @ [g]) r cs p ps" "scan_guard d cur ((g, m) # r) = Inr cs"
    and "\<not> (d = 0 \<and> m = CHR ''&'' \<and> next_is CHR ''&'' r)"
    and "d' = (if m = CHR ''('' then Suc d else if m = CHR '')'' then d - 1 else d)"
  shows "splits_into d cur ((g, m) # r) cs ((g, m) # p) ps"
proof -
  have r: "r = p @ concat (map ((@) AND) ps)" and p: "scan_guard d' (cur @ [g]) p = Inr [trim (cur @ [g] @ map fst p)]"
    using assms(1) by (simp_all add: splits_into_def)
  have next_r: "next_is c p \<Longrightarrow> next_is c r" for c using r by (cases p) auto
  have "\<not> (m = CHR '')'' \<and> d = 0)" "\<not> (d = 0 \<and> m = CHR ''|'' \<and> next_is CHR ''|'' p)"
      "\<not> (d = 0 \<and> m = CHR ''&'' \<and> next_is CHR ''&'' p)"
    using assms(2,3) next_r by (auto split: if_splits)
  then have "scan_guard d cur ((g, m) # p) = scan_guard d' (cur @ [g]) p"
    using assms(4) by auto
  then show ?thesis using assms(1) p by (simp add: splits_into_def)
qed

lemma scan_split:
  "scan_guard d cur r = Inr cs \<Longrightarrow> list_all (\<lambda>(g, c). c = g \<or> c = CHR ''_'') r \<Longrightarrow> \<exists>p ps. splits_into d cur r cs p ps"
proof (induction "length r" arbitrary: d cur r cs rule: less_induct)
  case less
  show ?case
  proof (cases r)
    case Nil
    then have "splits_into d cur r cs [] []" using less.prems(1) by (auto simp: splits_into_def split: if_splits)
    then show ?thesis by blast
  next
    case (Cons x r1)
    obtain g m where x: "x = (g, m)" by (cases x)
    show ?thesis
    proof (cases "d = 0 \<and> m = CHR ''&'' \<and> next_is CHR ''&'' r1")
      case True
      then obtain r2 where r: "r = AND @ r2" using less.prems(2) Cons x by (cases r1) auto
      then obtain cs2 where cs2: "scan_guard 0 [] r2 = Inr cs2" "cs = trim cur # cs2"
        using less.prems(1) True by (auto simp: result_simps)
      moreover have "list_all (\<lambda>(g, c). c = g \<or> c = CHR ''_'') r2" "length r2 < length r" using less.prems(2) r by simp_all
      ultimately obtain p ps where "splits_into 0 [] r2 cs2 p ps" using less.hyps by blast
      then show ?thesis using splits_and r cs2(2) True by blast
    next
      case False
      define d' where "d' = (if m = CHR ''('' then Suc d else if m = CHR '')'' then d - 1 else d)"
      have "scan_guard d' (cur @ [g]) r1 = Inr cs"
        using less.prems(1) False Cons x by (auto simp: d'_def split: if_splits)
      moreover have "list_all (\<lambda>(g, c). c = g \<or> c = CHR ''_'') r1" "length r1 < length r" using less.prems(2) Cons by simp_all
      ultimately obtain p ps where "splits_into d' (cur @ [g]) r1 cs p ps" using less.hyps by blast
      then show ?thesis using splits_step [OF _ _ False d'_def] less.prems(1) Cons x by blast
    qed
  qed
qed

lemma join_pieces: "map fst (p @ concat (map ((@) AND) ps)) = join_with ''&&'' (map (map fst) (p # ps))"
proof (induction ps arbitrary: p)
  case (Cons q ps)
  then show ?case using Cons.IH [of q] by simp
qed simp

text \<open>A guard is its conjuncts with \<open>&&\<close> between them, and each of them is a guard of one conjunct.\<close>

lemma guard_pieces:
  assumes "top_level_conjuncts guard = Inr cs"
  shows "\<exists>ps. guard = join_with ''&&'' ps \<and> cs = map trim ps \<and> list_all (\<lambda>p. top_level_conjuncts p = Inr [trim p]) ps"
proof -
  obtain m where m: "mask_literals False guard = Some m" "scan_guard 0 [] (zip guard m) = Inr cs"
    using assms by (auto simp: top_level_conjuncts_def split: option.splits)
  then obtain p ps where split: "splits_into 0 [] (zip guard m) cs p ps"
    using scan_split mask_zip by blast
  have zip: "zip guard m = p @ concat (map ((@) AND) ps)" using split by (simp add: splits_into_def)
  have fst: "map fst (zip guard m) = guard" "map snd (zip guard m) = m" using mask_zip [OF m(1)] by simp_all
  then have "masked (zip guard m)" using m(1) by (simp add: masked_def)
  then have "list_all masked (p # ps)" using masked_pieces zip by simp
  then have "list_all (\<lambda>q. top_level_conjuncts (map fst q) = Inr [trim (map fst q)]) (p # ps)"
    using split by (auto simp: top_level_conjuncts_def masked_def splits_into_def list_all_iff zip_map_fst_snd)
  moreover have "guard = join_with ''&&'' (map (map fst) (p # ps))"
    using join_pieces [of p ps] zip fst(1) by simp
  moreover have "cs = map trim (map (map fst) (p # ps))" using split by (simp add: splits_into_def comp_def)
  ultimately show ?thesis by (intro exI [of _ "map (map fst) (p # ps)"]) (simp add: list_all_iff)
qed

lemma find_tailD:
  "find_tail s = Some (n, labels, rest) \<Longrightarrow>
     n \<le> length s \<and> s = take n s @ TAIL_START @ labels @ TAIL_MIDDLE @ rest \<and> CHR 0x27 \<notin> set labels"
proof (induction s arbitrary: n)
  case (Cons c s)
  show ?case
  proof (cases "match_tail (c # s)")
    case None
    then show ?thesis using Cons by auto
  next
    case (Some k)
    let ?r = "drop (length TAIL_START) (c # s)"
    have k: "n = 0" "k = (labels, rest)" using Cons.prems Some by simp_all
    then have "prefix TAIL_START (c # s)" "prefix TAIL_MIDDLE (drop (length labels) ?r)"
        "labels = takeWhile (\<lambda>c. c \<noteq> CHR 0x27) ?r" "rest = drop (length TAIL_MIDDLE) (drop (length labels) ?r)"
      using Some by (auto simp: match_tail_def Let_def split: if_splits)
    moreover have "?r = takeWhile (\<lambda>c. c \<noteq> CHR 0x27) ?r @ drop (length (takeWhile (\<lambda>c. c \<noteq> CHR 0x27) ?r)) ?r"
      by (metis append_take_drop_id takeWhile_eq_take)
    ultimately have "c # s = TAIL_START @ labels @ TAIL_MIDDLE @ rest"
      by (metis append_eq_conv_conj prefixE)
    then show ?thesis using k(1) \<open>labels = _\<close> by (auto dest: set_takeWhileD)
  qed
qed simp

lemma accepted_shape:
  assumes "parse_gated_runs_on expression g = Inr (labels, switch)"
  shows "switch = ''CIRUJANO_RUNNER_'' @ gate_enrollmentId g \<and> labels = required_self_hosted_labels (gate_runnerLabel g)
    \<and> (\<exists>ps. expression = ''${{ '' @ gate_prefix switch @ join_with ''&&'' ps @ TAIL_START @ json_strings labels
            @ TAIL_MIDDLE @ HOSTED_FALLBACK @ '' }}''
          \<and> list_all (\<lambda>p. top_level_conjuncts p = Inr [trim p]) ps
          \<and> {owner_clause g, workflow_ref_clause g} \<subseteq> trim ` set ps)"
proof -
  define inner where "inner = take (length expression - 7) (drop 4 expression)"
  obtain n conjuncts where result: "switch = ''CIRUJANO_RUNNER_'' @ gate_enrollmentId g"
      "labels = required_self_hosted_labels (gate_runnerLabel g)"
    and ends: "prefix ''${{ '' expression" "suffix '' }}'' expression"
    and pre: "prefix (gate_prefix switch) inner"
    and tail: "find_tail inner = Some (n, json_strings labels, HOSTED_FALLBACK)"
    and conj: "top_level_conjuncts (take (n - length (gate_prefix switch)) (drop (length (gate_prefix switch)) inner)) = Inr conjuncts"
    and clauses: "{owner_clause g, workflow_ref_clause g} \<subseteq> set conjuncts"
    using assms unfolding parse_gated_runs_on_def inner_def [symmetric]
    by (auto simp: Let_def result_simps switch_variable_for_def split: if_splits option.splits)
  obtain guard where guard: "inner = gate_prefix switch @ guard" using pre by (rule prefixE)
  have shape: "n \<le> length inner" "inner = take n inner @ TAIL_START @ json_strings labels @ TAIL_MIDDLE @ HOSTED_FALLBACK"
    using find_tailD [OF tail] by simp_all
  have "length (gate_prefix switch) \<le> n"
  proof (rule ccontr)
    assume "\<not> length (gate_prefix switch) \<le> n"
    then have "conjuncts = [[]]" using conj by (simp add: top_level_conjuncts_def trim_def)
    then show False using clauses by (simp add: owner_clause_def)
  qed
  then have "take n inner = gate_prefix switch @ take (n - length (gate_prefix switch)) (drop (length (gate_prefix switch)) inner)"
    using guard by simp
  moreover obtain ps where ps: "take (n - length (gate_prefix switch)) (drop (length (gate_prefix switch)) inner) = join_with ''&&'' ps"
      "conjuncts = map trim ps" "list_all (\<lambda>p. top_level_conjuncts p = Inr [trim p]) ps"
    using guard_pieces [OF conj] by blast
  ultimately have inner: "inner = gate_prefix switch @ join_with ''&&'' ps @ TAIL_START @ json_strings labels @ TAIL_MIDDLE @ HOSTED_FALLBACK"
    using shape(2) by simp
  obtain x where x: "expression = ''${{ '' @ x" using ends(1) by (rule prefixE)
  have "inner \<noteq> []" using inner by (simp add: gate_prefix_def)
  then have "3 < length x" using x by (auto simp: inner_def)
  moreover have "suffix '' }}'' x \<or> (\<exists>z. '' }}'' = z @ x)" using ends(2) unfolding x suffix_append by blast
  ultimately have "suffix '' }}'' x" by (auto dest: arg_cong [where f = length])
  then obtain y where "x = y @ '' }}''" by (rule suffixE)
  then have "expression = ''${{ '' @ inner @ '' }}''" using x by (simp add: inner_def)
  then show ?thesis using result ps(2,3) clauses inner by auto
qed

section \<open>YAML scalars\<close>

text \<open>The two ways of quoting a scalar.\<close>

definition single_quoted :: "string \<Rightarrow> string" where
  "single_quoted s = quoted (concat (map (\<lambda>c. if c = CHR 0x27 then [c, c] else [c]) s))"

definition double_quoted :: "string \<Rightarrow> string" where
  "double_quoted s = [CHR 0x22] @ concat (map (\<lambda>c. if c = CHR 0x22 \<or> c = CHR 0x5C then [CHR 0x5C, c] else [c]) s) @ [CHR 0x22]"

abbreviation double_quotes :: "string \<Rightarrow> string" where
  "double_quotes s \<equiv> concat (map (\<lambda>c. if c = CHR 0x27 then [c, c] else [c]) s)"

lemma replace_doubled_keep: "c \<noteq> CHR 0x27 \<Longrightarrow> replace_doubled t (c # r) = c # replace_doubled t r"
  by (cases r) auto

lemma replace_doubled_quotes: "replace_doubled t (double_quotes s) = concat (map (\<lambda>c. if c = CHR 0x27 then t else [c]) s)"
proof (induction s)
  case (Cons c s)
  then show ?case by (cases "c = CHR 0x27") (simp_all add: replace_doubled_keep)
qed simp

abbreviation escape_quotes :: "string \<Rightarrow> string" where
  "escape_quotes s \<equiv> concat (map (\<lambda>c. if c = CHR 0x22 \<or> c = CHR 0x5C then [CHR 0x5C, c] else [c]) s)"

lemma unescape_keep: "c \<noteq> CHR 0x5C \<Longrightarrow> unescape (c # r) = c # unescape r"
  by (cases r) auto

lemma escapes_removed: "escapes_ok (escape_quotes s)" "unescape (escape_quotes s) = s"
proof (induction s)
  case (Cons c s)
  show "escapes_ok (escape_quotes (c # s))"
    using Cons(1) by (cases "c = CHR 0x22 \<or> c = CHR 0x5C") auto
  show "unescape (escape_quotes (c # s)) = c # s"
    using Cons(2) by (cases "c = CHR 0x22 \<or> c = CHR 0x5C") (simp_all add: unescape_keep del: unescape.simps(1), auto)
qed simp_all

theorem yaml_scalar_roundtrip:
  "yaml_scalar (single_quoted s) = Inr s \<and> yaml_scalar (double_quoted s) = Inr s"
proof
  have trims: "trim (q # b @ [q]) = q # b @ [q]" if "\<not> is_space q" for q b
    using that by (intro trim_id) auto
  have "concat (map (\<lambda>c. if c = CHR 0x27 then [CHR 0x27] else [c]) s) = s"
       "CHR 0x27 \<notin> set (concat (map (\<lambda>c. if c = CHR 0x27 then [] else [c]) s))"
    by (induction s) auto
  then show "yaml_scalar (single_quoted s) = Inr s"
    by (simp add: yaml_scalar_def single_quoted_def quoted_def trims is_space_def enclosed_def Let_def
        replace_doubled_quotes butlast_conv_take [symmetric])
  show "yaml_scalar (double_quoted s) = Inr s"
    by (simp add: yaml_scalar_def double_quoted_def trims is_space_def enclosed_def Let_def escapes_removed)
qed

section \<open>The gate of an enrollment\<close>

text \<open>
  C32 (roundtrip). The runner selection the fleet commands generate for an enrollment is one they accept
  again: for every label of the registry, parsing the rendered expression gives the labels of the runner
  and the switch of the enrollment, whatever its repository and workflow path are called.
\<close>

theorem gate_roundtrip:
  assumes "render_gated_runs_on g = Inr expression" "cirujano_sku_for_label (gate_runnerLabel g) \<noteq> None"
  shows "parse_gated_runs_on expression g
    = Inr (required_self_hosted_labels (gate_runnerLabel g), ''CIRUJANO_RUNNER_'' @ gate_enrollmentId g)"
  using rendered_parses [OF assms] .


definition sample_gate :: routing_gate where
  "sample_gate = \<lparr>gate_enrollmentId = ''P1'', gate_repository = ''acme/widgets'',
     gate_workflowPath = ''.github/workflows/ci.yml'', gate_runnerLabel = ''cirujano-baseline-actions_linux'',
     gate_ownerUserId = Fin 7\<rparr>"

lemma sample_gate_rendered: "\<exists>e. render_gated_runs_on sample_gate = Inr e"
  by (simp add: render_gated_runs_on_def validate_gate_def sample_gate_def needs_escaping_def switch_variable_for_def
      enrollment_handle_def handle_digits_def is_digit_def code_in_def is_safe_integer_iff)

lemma sample_gate_label: "cirujano_sku_for_label (gate_runnerLabel sample_gate) \<noteq> None"
  by (simp add: sample_gate_def cirujano_sku_for_label_def)

theorem gate_roundtrip_witness:
  "\<exists>e. render_gated_runs_on sample_gate = Inr e
     \<and> parse_gated_runs_on e sample_gate
       = Inr ([''self-hosted'', ''linux'', ''x64'', ''cirujano-baseline-actions_linux''], ''CIRUJANO_RUNNER_P1'')"
proof -
  obtain e where e: "render_gated_runs_on sample_gate = Inr e" using sample_gate_rendered by blast
  then show ?thesis using gate_roundtrip [OF e sample_gate_label]
    by (simp add: sample_gate_def required_self_hosted_labels_def)
qed


end
