(* ===== verification/Fleet_Samples.thy ===== *)
theory Fleet_Samples
  imports FleetController Registry_Writing Gate_Properties Operating_Properties Config_Properties
begin

text \<open>
  Concrete runs of the fleet commands for the witnesses: a workflow with the selection the commands
  generate, a GitHub that answers every reading of one private repository, a registry with a proposal
  and the same one cut over, and the files of two controllers. They model no code.
\<close>

section \<open>A gated workflow\<close>

definition sample_expression :: string where
  "sample_expression = (case render_gated_runs_on sample_gate of Inr x \<Rightarrow> x | Inl _ \<Rightarrow> [])"

definition sample_workflow :: string where
  "sample_workflow = concat (map (\<lambda>l. l @ [CHR 0x0A]) [''jobs:'', ''  verify:'', ''    runs-on: '' @ sample_expression])"

lemma sample_expression_rendered: "render_gated_runs_on sample_gate = Inr sample_expression"
  using sample_gate_rendered by (auto simp: sample_expression_def)

lemma sample_lines:
  "split_workflow [] sample_workflow = [''jobs:'', ''  verify:'', ''    runs-on: '' @ sample_expression, []]"
  by code_simp

lemma sample_value:
  "value_of_key ''runs-on'' (bare (''    runs-on: '' @ sample_expression)) = Some sample_expression"
  by code_simp

lemma sample_scalar: "yaml_scalar sample_expression = Inr sample_expression"
  by code_simp

lemma sample_line:
  "bare (''    runs-on: '' @ sample_expression) = ''runs-on: '' @ sample_expression"
  "indentation (''    runs-on: '' @ sample_expression) = 4"
  "trim_start sample_expression = sample_expression" "\<not> list_ex line_end sample_expression" 
  "str_includes sample_expression ''${{''" "hd sample_expression = CHR ''$''" "sample_expression \<noteq> []"
  by code_simp+

lemma sample_gated:
  "gated_selection ''verify'' sample_gate sample_expression
   = Inr (required_self_hosted_labels ''cirujano-baseline-actions_linux'', ''CIRUJANO_RUNNER_P1'')"
  using rendered_parses [OF sample_expression_rendered sample_gate_label]
  by (simp add: gated_selection_def sample_scalar) (simp add: sample_gate_def)

lemma prefix_head: "prefix (c # s) t \<Longrightarrow> hd t = c"
  by (auto simp: prefix_def)

lemma sample_head:
  "\<not> prefix ''|'' sample_expression" "\<not> prefix ''>'' sample_expression" "\<not> prefix ''['' sample_expression"
  using prefix_head [of _ _ sample_expression] sample_line(6) by fastforce+

lemma sample_body:
  fixes l defines "l \<equiv> ''    runs-on: '' @ sample_expression"
  shows "read_body ''verify'' (Some sample_gate) 2 4 [l, []] \<lparr>sel_runsOn = None, sel_switch = None, sel_name = None, sel_matrix = False\<rparr>
    = Inr \<lparr>sel_runsOn = Some (required_self_hosted_labels ''cirujano-baseline-actions_linux''),
       sel_switch = Some ''CIRUJANO_RUNNER_P1'', sel_name = None, sel_matrix = False\<rparr>"
    "indent_of [''  verify:'', l, []] 0 = Some 2" "indent_of [l, []] 2 = Some 4"
    "index_of (\<lambda>line. indentation line = 2 \<and> bare line = yaml_key ''verify'' @ '':'') [''  verify:'', l, []] = Some 0"
proof -
  have b: "bare l = ''runs-on: '' @ sample_expression" "indentation l = 4"
    "value_of_key ''runs-on'' (bare l) = Some sample_expression"
    unfolding l_def by (fact sample_line sample_value)+
  have k: "value_of_key ''name'' (bare l) = None" "\<not> prefix ''strategy:'' (bare l)" "bare l \<noteq> []"
    unfolding b(1) value_of_key_def using prefix_head by fastforce+
  have e: "bare [] = []" "bare ''  verify:'' = ''verify:''" "indentation ''  verify:'' = 2" "yaml_key ''verify'' = ''verify''"
    by code_simp+
  have sel: "read_selection ''verify'' (Some sample_gate) 4 sample_expression ls
      \<lparr>sel_runsOn = None, sel_switch = None, sel_name = None, sel_matrix = False\<rparr>
    = Inr \<lparr>sel_runsOn = Some (required_self_hosted_labels ''cirujano-baseline-actions_linux''),
       sel_switch = Some ''CIRUJANO_RUNNER_P1'', sel_name = None, sel_matrix = False\<rparr>" for ls
    unfolding read_selection_def Let_def using sample_head sample_line(5,7) sample_gated by simp
  show "read_body ''verify'' (Some sample_gate) 2 4 [l, []] \<lparr>sel_runsOn = None, sel_switch = None, sel_name = None, sel_matrix = False\<rparr>
    = Inr \<lparr>sel_runsOn = Some (required_self_hosted_labels ''cirujano-baseline-actions_linux''),
       sel_switch = Some ''CIRUJANO_RUNNER_P1'', sel_name = None, sel_matrix = False\<rparr>"
    using k b(2,3) e(1) sel by (simp add: Let_def)
  show "indent_of [''  verify:'', l, []] 0 = Some 2" "indent_of [l, []] 2 = Some 4"
    "index_of (\<lambda>line. indentation line = 2 \<and> bare line = yaml_key ''verify'' @ '':'') [''  verify:'', l, []] = Some 0"
    using k(3) b(2) e by simp_all
qed

lemma sample_workflow_read:
  "extract_job_runs_on sample_workflow ''verify'' (Some sample_gate) =
     Inr \<lparr>sel_runsOn = Some (required_self_hosted_labels ''cirujano-baseline-actions_linux''),
       sel_switch = Some ''CIRUJANO_RUNNER_P1'', sel_name = None, sel_matrix = False\<rparr>"
proof -
  have jobs: "index_of jobs_line [''jobs:'', a, b, c] = Some 0" for a b c by (simp add: jobs_line_def trim_start_def)
  show ?thesis
    unfolding extract_job_runs_on_def sample_lines Let_def jobs
    using sample_body by (simp add: required_self_hosted_labels_def require_def check_def del: append.simps read_body.simps)
qed

section \<open>GitHub and a registry\<close>

definition sample_answer :: fields where
  "sample_answer = [(''full_name'', JStr ''acme/widgets''), (''id'', JNum (Fin 7)), (''default_branch'', JStr ''main''),
     (''visibility'', JStr ''private''), (''commit'', JObj [(''sha'', JStr sample_sha)]), (''status'', JStr ''identical''),
     (''encoding'', JStr ''base64''), (''sha'', JStr sample_sha), (''content'', JStr ''x'')]"

definition sample_fleet_world :: "string \<Rightarrow> unit fleet_world" where
  "sample_fleet_world file = \<lparr>fw_pages = (\<lambda>_ ep g. (g, Inr ep)), fw_json = (\<lambda>ep. Inr (JArr [JObj sample_answer])),
     fw_base64 = (\<lambda>_. file), fw_clock = (\<lambda>g. (g, Fin 1767225600000)), fw_iso = (\<lambda>_. ''t''), fw_date = (\<lambda>_. Fin 0),
     fw_write = (\<lambda>_ _ g. (g, NoFault)), fw_registryPath = ''/registry.json''\<rparr>"

text \<open>The enrollment as it was proposed.\<close>

definition sample_proposal :: fleet_enrollment where
  "sample_proposal = sample_enrollment\<lparr>workflowPath := ''.github/workflows/ci.yml'', fe_status := Proposed,
     routingSwitch := None, after := None\<rparr>"

definition sample_proposals :: fleet_registry where
  "sample_proposals = sample_registry\<lparr>enrollments := [sample_proposal]\<rparr>"

definition sample_fleet_state :: "fleet_registry \<Rightarrow> unit fleet_state" where
  "sample_fleet_state r = \<lparr>fleet_remote = (), fleet_file = Some (json_registry r), fleet_files = (\<lambda>_. None),
     fleet_out = [], fleet_err = []\<rparr>"

lemma sample_single [simp]: "single_page (sample_fleet_world file) ep name s = Some (s, Inr sample_answer)"
  by (simp add: single_page_def github_pages_def page_loop.simps page_attempt_def RETRY_DELAYS_def sample_fleet_world_def
      run_bind_def run_return_def on_remote_def api_record_def require_def)

lemma sample_reads [simp]:
  "fetch_repository (sample_fleet_world file) ''acme/widgets'' s
    = Some (s, Inr \<lparr>sr_id = Fin 7, sr_defaultBranch = ''main'', sr_visibility = ''private''\<rparr>)"
  "fetch_branch_head (sample_fleet_world file) repo branch s = Some (s, Inr sample_sha)"
  "fetch_is_on_branch (sample_fleet_world file) repo commit branch s = Some (s, Inr True)"
  "fetch_user_id (sample_fleet_world file) login s = Some (s, Inr (Fin 7))"
  "fetch_workflow_file (sample_fleet_world file) repo path ref s = Some (s, Inr \<lparr>sf_sha = sample_sha, sf_content = file\<rparr>)"
  "fleet_now (sample_fleet_world file) s = Some (s, Inr ''t'')"
proof -
  note defs = run_bind_def run_return_def sample_answer_def api_record_def api_text_def api_positive_integer_def api_sha_def
    require_def check_def is_integer_def sample_sha_ok repository_of_json_def
  have sha: "sample_sha \<noteq> []" by (simp add: sample_sha_def)
  show "fetch_repository (sample_fleet_world file) ''acme/widgets'' s
    = Some (s, Inr \<lparr>sr_id = Fin 7, sr_defaultBranch = ''main'', sr_visibility = ''private''\<rparr>)"
    by (simp add: fetch_repository_def defs)
  show "fetch_branch_head (sample_fleet_world file) repo branch s = Some (s, Inr sample_sha)"
    by (simp add: fetch_branch_head_def defs sha)
  show "fetch_is_on_branch (sample_fleet_world file) repo commit branch s = Some (s, Inr True)"
    by (simp add: fetch_is_on_branch_def defs)
  show "fetch_user_id (sample_fleet_world file) login s = Some (s, Inr (Fin 7))"
    by (simp add: fetch_user_id_def defs)
  show "fetch_workflow_file (sample_fleet_world file) repo path ref s = Some (s, Inr \<lparr>sf_sha = sample_sha, sf_content = file\<rparr>)"
    by (simp add: fetch_workflow_file_def defs sha) (simp add: sample_fleet_world_def)
  show "fleet_now (sample_fleet_world file) s = Some (s, Inr ''t'')"
    by (simp add: fleet_now_def on_remote_def defs) (simp add: sample_fleet_world_def)
qed

lemma sample_gate_of: "routing_gate_of sample_proposal (Fin 7) = sample_gate"
  by (simp add: routing_gate_of_def sample_proposal_def sample_enrollment_def sample_gate_def)

lemma sample_live:
  "read_live_identity (sample_fleet_world sample_workflow) sample_proposal commit (Fin 7) s
    = Some (s, Inr (\<lparr>wi_commit = commit, workflowBlobSha = sample_sha,
        wi_runsOn = required_self_hosted_labels ''cirujano-baseline-actions_linux'', recordedAt = ''t''\<rparr>, Some ''CIRUJANO_RUNNER_P1''))"
proof -
  have "jobKey sample_proposal = ''verify''" by (simp add: sample_proposal_def sample_enrollment_def)
  then show ?thesis
    by (simp add: read_live_identity_def run_bind_def run_return_def sample_gate_of sample_workflow_read)
qed

text \<open>The registry with the proposal cut over to its runner.\<close>

definition sample_cut :: fleet_enrollment where
  "sample_cut = sample_proposal\<lparr>fe_status := CutOver, routingSwitch := Some ''CIRUJANO_RUNNER_P1'',
     after := Some \<lparr>wi_commit = sample_sha, workflowBlobSha = sample_sha,
       wi_runsOn = required_self_hosted_labels ''cirujano-baseline-actions_linux'', recordedAt = ''t''\<rparr>\<rparr>"

lemma sample_cut_over:
  "cut_over sample_proposal \<lparr>wi_commit = sample_sha, workflowBlobSha = sample_sha,
       wi_runsOn = required_self_hosted_labels ''cirujano-baseline-actions_linux'', recordedAt = ''t''\<rparr> (Some ''CIRUJANO_RUNNER_P1'')
   = Inr sample_cut"
  by (simp add: cut_over_def sample_cut_def sample_proposal_def sample_enrollment_def check_def require_def reject_def)

lemma sample_registry_with:
  assumes "enrollment_ok ''acme'' (exclusions sample_registry) e" "enrollment_fields (\<lambda>_. Fin 0) e"
  shows "registry_ok (\<lambda>_. Fin 0) (sample_registry\<lparr>enrollments := [e]\<rparr>)"
proof -
  have "fr_owner sample_registry = ''acme''" by (simp add: sample_registry_def)
  then show ?thesis using sample_registry_ok assms by (simp add: registry_ok_def enrolled_once_def)
qed

lemma sample_proposals_ok: "registry_ok (\<lambda>_. Fin 0) sample_proposals" "registry_ok (\<lambda>_. Fin 0) (replace_enrollment sample_proposals sample_cut)"
proof -
  note defs = enrollment_ok_def enrollment_fields_def sample_cut_def sample_proposal_def sample_enrollment_def identity_ok_def shape_defs
      enrollment_handle_def handle_digits_def label_fits_def cirujano_sku_for_label_def hosted_selection_def
      required_self_hosted_labels_def is_excluded_repository_def sample_registry_def LOCKED_EXCLUSIONS_def
  have "enrollment_ok ''acme'' (exclusions sample_registry) sample_proposal" "enrollment_fields (\<lambda>_. Fin 0) sample_proposal"
    "enrollment_ok ''acme'' (exclusions sample_registry) sample_cut" "enrollment_fields (\<lambda>_. Fin 0) sample_cut"
    using sample_sha_ok by (simp_all add: defs)
  then show "registry_ok (\<lambda>_. Fin 0) sample_proposals" "registry_ok (\<lambda>_. Fin 0) (replace_enrollment sample_proposals sample_cut)"
    using sample_registry_with
    by (simp_all add: sample_proposals_def replace_enrollment_def sample_cut_def)
qed

lemma sample_cutover:
  "\<exists>s'. fleet_cutover (sample_fleet_world sample_workflow) ''P1'' sample_sha sample_proposals (sample_fleet_state sample_proposals)
     = Some (s', Inr 0)"
proof -
  have e: "require_enrollment sample_proposals ''P1'' = Inr sample_proposal" "fe_status sample_proposal = Proposed"
    "fe_repository sample_proposal = ''acme/widgets''" "targetBranch sample_proposal = None"
    by (simp_all add: require_enrollment_def sample_proposals_def sample_proposal_def sample_enrollment_def require_def)
  have save: "\<exists>s'. save_registry (sample_fleet_world sample_workflow) (replace_enrollment sample_proposals sample_cut) s = Some (s', Inr ())" for s
    using registry_value [OF sample_proposals_ok(2)]
    by (simp add: save_registry_def store_registry_def sample_fleet_world_def run_bind_def run_return_def)
  obtain s' where "save_registry (sample_fleet_world sample_workflow) (replace_enrollment sample_proposals sample_cut)
      (sample_fleet_state sample_proposals) = Some (s', Inr ())" using save by blast
  then show ?thesis
    by (simp add: fleet_cutover_def run_bind_def run_return_def e fleet_check_def check_def sample_live sample_cut_over print_json_def Let_def)
qed

lemma sample_verify:
  "\<exists>s'. fleet_verify (sample_fleet_world sample_workflow) (replace_enrollment sample_proposals sample_cut) s = Some (s', Inr 0)"
proof -
  have e: "enrollments (replace_enrollment sample_proposals sample_cut) = [sample_cut]"
    by (simp add: replace_enrollment_def sample_proposals_def sample_cut_def)
  have c: "fe_status sample_cut = CutOver" "fe_repository sample_cut = ''acme/widgets''" "targetBranch sample_cut = None"
    "routingSwitch sample_cut \<noteq> None"
    by (simp_all add: sample_cut_def sample_proposal_def sample_enrollment_def)
  have live: "read_live_identity (sample_fleet_world sample_workflow) sample_cut commit (Fin 7) s
    = Some (s, Inr (\<lparr>wi_commit = commit, workflowBlobSha = sample_sha,
        wi_runsOn = required_self_hosted_labels ''cirujano-baseline-actions_linux'', recordedAt = ''t''\<rparr>, Some ''CIRUJANO_RUNNER_P1''))" for commit s
    using sample_live [of commit s] by (simp add: read_live_identity_def sample_cut_def routing_gate_of_def)
  have clean: "verify_live sample_cut head \<lparr>wi_commit = commit, workflowBlobSha = sample_sha,
        wi_runsOn = required_self_hosted_labels ''cirujano-baseline-actions_linux'', recordedAt = ''t''\<rparr> sw v = Inr v" for head commit sw v
    using c by (simp add: verify_live_def verify_cut_over_def require_def) (simp add: sample_cut_def)
  have one: "\<exists>v'. verify_one (sample_fleet_world sample_workflow) r sample_cut v s = Some (s, Inr v')
      \<and> vf_problems v' = vf_problems v \<and> vf_changed v' = vf_changed v" if "vf_owner v = None" for r v s
    using that c by (simp add: verify_one_def succeeded_def verify_owner_def verify_head_def run_bind_def run_return_def
        run_try_def Let_def live clean)
  obtain v' where "verify_one (sample_fleet_world sample_workflow) (replace_enrollment sample_proposals sample_cut) sample_cut
      \<lparr>vf_problems = [], vf_next = replace_enrollment sample_proposals sample_cut, vf_changed = False, vf_owner = None\<rparr> s
      = Some (s, Inr v')" "vf_problems v' = []" "\<not> vf_changed v'"
    using one [of "\<lparr>vf_problems = [], vf_next = replace_enrollment sample_proposals sample_cut, vf_changed = False, vf_owner = None\<rparr>"
        "replace_enrollment sample_proposals sample_cut" s] by auto
  then show ?thesis
    by (simp add: fleet_verify_def e run_bind_def run_return_def print_json_def print_problems_def)
qed

section \<open>A host with two controllers\<close>

definition sample_host :: "unit fleet_host" where
  "sample_host = \<lparr>fc_directory = (\<lambda>_ g. (g, Inr ())), fc_hostKey = (\<lambda>_ _ g. (g, Inr ([], [], []))),
     fc_join = (\<lambda>a b. a @ ''/'' @ b), fc_home = ''/home'', fc_hash = (\<lambda>_. ''hash''), fc_number = num_member\<rparr>"

definition ceiling_quote :: complete_quote where
  "ceiling_quote = sample_quote\<lparr>q_computeUsdPerHour := Fin 0, estimatedMaximumUsd := Fin 19\<rparr>"

definition ceiling_input :: operating_input where
  "ceiling_input = sample_operating_input\<lparr>op_maxStarts := BOUND_MAX_STARTS, op_maxRuntimeMs := BOUND_MAX_RUNTIME_MS,
     op_maxTotalCostUsd := BOUND_MAX_TOTAL_COST_USD, otherPermits := [(''P2-permit-proposal'', Fin 40)],
     op_quote := QuoteComplete ceiling_quote\<rparr>"

lemma ceiling_accepted:
  "build_operating_permit_proposal ceiling_input = Inr (Inr (accepted_proposal ceiling_input ceiling_quote))"
proof -
  have nb: "\<not> is_blank ''digest''" "\<not> is_blank ''hash''" "\<not> is_blank ''project-1''"
    "\<not> is_blank ''controller-1''" "\<not> is_blank ''cirujano''" "\<not> is_blank ''published''"
    by (simp_all add: is_space_def)
  have h: "enrollment_handle ''P1''" by (simp add: enrollment_handle_def handle_digits_def is_digit_def code_in_def)
  note bounds = BOUND_MAX_STARTS_def BOUND_MAX_RUNTIME_MS_def BOUND_MAX_TOTAL_COST_USD_def BOUND_FLEET_CEILING_USD_def
  have "operating_reasons ceiling_input = []"
    unfolding operating_reasons_def Let_def checklist_simps
    by (simp del: is_blank_Cons add: nb h ceiling_input_def sample_operating_input_def finite_positive_def
        other_committed_def fleet_committed_def bounds)
  moreover have "calculate_operating_quote_maximum ceiling_quote BOUND_MAX_RUNTIME_MS (Fin 7200000) = Fin 19"
    by (simp add: calculate_operating_quote_maximum_def ceiling_quote_def sample_quote_def bounds)
  then have "operating_quote_reasons ceiling_input ceiling_quote = []"
    unfolding operating_quote_reasons_def Let_def checklist_simps
    using sample_quote_date
    by (simp del: is_blank_Cons add: nb ceiling_input_def sample_operating_input_def ceiling_quote_def sample_quote_def
        quote_rates_def nonnegative_finite_def tolerance_nonneg bounds)
  moreover have "\<not> window_unprintable ceiling_input"
    by (simp add: window_unprintable_def ceiling_input_def sample_operating_input_def)
  moreover have "op_quote ceiling_input = QuoteComplete ceiling_quote" by (simp add: ceiling_input_def)
  ultimately show ?thesis unfolding accepted_iff by blast
qed

text \<open>Two controllers; the second has a proposal on file.\<close>

definition controlled :: "string \<Rightarrow> fleet_enrollment" where
  "controlled ident = sample_enrollment\<lparr>fe_id := ident,
     controller := Some \<lparr>stateDirectory = ''/s/'' @ ident, ec_controllerId = ''c'', ec_resourcePrefix = ''p'', ec_permitId = None\<rparr>\<rparr>"

definition controlled_registry :: fleet_registry where
  "controlled_registry = sample_registry\<lparr>enrollments := [controlled ''P1'', controlled ''P2'']\<rparr>"

definition quote_fields :: fields where
  "quote_fields = [(''complete'', JBool True), (''currency'', JStr ''USD''), (''quotedAt'', JStr ''2026-01-01''), (''source'', JStr ''published''),
     (''computeUsdPerHour'', JNum (Fin 0)), (''diskUsdPerGibMonth'', JNum (Fin 73)), (''publicIpUsdPerHour'', JNum (Fin 1)),
     (''networkUsdPerGib'', JNum (Fin 1)), (''maxRetainedDiskHours'', JNum (Fin 2)), (''maxPublicIpHours'', JNum (Fin 2)),
     (''maxNetworkEgressGiB'', JNum (Fin 1)), (''estimatedMaximumUsd'', JNum (Fin 19)), (''includesRetainedDiskAndIp'', JBool True)]"

definition ceiling_state :: "unit fleet_state" where
  "ceiling_state = \<lparr>fleet_remote = (), fleet_file = None,
     fleet_files = [''/s/P1/config.json'' \<mapsto> Inr (config_value pilot_config), ''/quote.json'' \<mapsto> Inr (JObj quote_fields),
       ''/s/P2/permit-proposal.json'' \<mapsto> Inr (JObj [(''maxTotalCostUsd'', JNum (Fin 40))])],
     fleet_out = [], fleet_err = []\<rparr>"

definition ceiling_world :: "unit fleet_world" where
  "ceiling_world = (sample_fleet_world [])\<lparr>fw_date := (\<lambda>d. if d = ''2026-01-01T02:00:00Z'' then Fin 1767232800000
      else Fin 1767312000000)\<rparr>"

definition ceiling_args :: proposal_args where
  "ceiling_args = \<lparr>pa_id = ''P1'', pa_quotePath = ''/quote.json'', pa_candidateDigest = ''digest'',
     pa_expires = Some ''2026-01-01T02:00:00Z''\<rparr>"

lemma controlled_facts:
  "require_enrollment controlled_registry ''P1'' = Inr (controlled ''P1'')"
  "enrollments controlled_registry = [controlled ''P1'', controlled ''P2'']"
  "\<And>i. fe_id (controlled i) = i" "\<And>i. map_option stateDirectory (controller (controlled i)) = Some (''/s/'' @ i)"
  "window_through controlled_registry = ''2026-02-01''"
  by (simp_all add: require_enrollment_def controlled_registry_def controlled_def require_def sample_registry_def)

lemma ceiling_quote_read: "complete_quote_of sample_host (JObj quote_fields) t l = Inr (QuoteComplete ceiling_quote, quote_fields)"
  by (simp add: complete_quote_of_def quote_fields_def Let_def ceiling_quote_def sample_quote_def num_member_def str_member_def
      sample_host_def)

lemma ceiling_others: "other_ceilings sample_host ''P1'' [controlled ''P1'', controlled ''P2''] ceiling_state
   = Some (ceiling_state, Inr [(''P2-permit-proposal'', Fin 40)])"
  by (simp add: controlled_def read_committed_ceiling_def run_bind_def run_return_def read_optional_json_def ceiling_state_def
      sample_host_def api_record_def api_nonnegative_def require_def is_finite_def)

lemma ceiling_inputs:
  "operating_input_of sample_host (controlled ''P1'') pilot_config ''digest'' (Fin 1767225600000) (Fin 1767232800000)
    (Fin 1767312000000) [(''P2-permit-proposal'', Fin 40)] (QuoteComplete ceiling_quote) = ceiling_input"
  by (simp add: operating_input_of_def ceiling_input_def sample_operating_input_def controlled_facts pilot_config_def sample_host_def)

lemma ceiling_written:
  "\<exists>s'. write_proposal ceiling_world sample_host e dir now m (accepted_proposal ceiling_input ceiling_quote) s = Some (s', Inr 0)"
  if "fe_id e = ''P1''"
proof -
  have "\<exists>d. render_operating_permit p (concat [''P1'', ''-operating-'', x]) = Inr d" for p x
    by (simp add: render_operating_permit_def is_space_def)
  then obtain d where "render_operating_permit (accepted_proposal ceiling_input ceiling_quote)
      (concat [''P1'', ''-operating-'', compact_date ceiling_world now]) = Inr d" by blast
  then show ?thesis using that
    by (simp add: write_proposal_def Let_def write_json_def ceiling_world_def sample_fleet_world_def run_bind_def run_return_def
        print_json_def del: concat.simps)
qed

lemma ceiling_run: "\<exists>s'. fleet_permit_proposal ceiling_world sample_host ceiling_args controlled_registry ceiling_state = Some (s', Inr 0)"
proof -
  have c: "\<exists>c. controller (controlled ''P1'') = Some c \<and> stateDirectory c = ''/s/P1''" by (simp add: controlled_def)
  have clock: "on_remote (fw_clock ceiling_world) s = Some (s, Inr (Fin 1767225600000))" for s
    by (simp add: on_remote_def ceiling_world_def sample_fleet_world_def)
  have files: "read_json ''/s/P1/config.json'' ceiling_state = Some (ceiling_state, Inr (config_value pilot_config))"
    "read_json ''/quote.json'' ceiling_state = Some (ceiling_state, Inr (JObj quote_fields))"
    by (simp_all add: read_json_def ceiling_state_def)
  have dates: "end_of_day ceiling_world ''2026-02-01'' = Fin 1767312000000"
    "fw_date ceiling_world ''2026-01-01T02:00:00Z'' = Fin 1767232800000" "\<not> date_shape ''2026-01-01T02:00:00Z''"
    by (simp_all add: end_of_day_def ceiling_world_def date_shape_def)
  have paths: "fc_join sample_host ''/s/P1'' ''config.json'' = ''/s/P1/config.json''" "fleet_path sample_host ''/quote.json'' x = Inr ''/quote.json''" for x
    by (simp_all add: sample_host_def fleet_path_def expand_home_def)
  show ?thesis
    using c ceiling_written [of "controlled ''P1''"]
    by (auto simp: fleet_permit_proposal_def Let_def run_bind_def run_return_def controlled_facts ceiling_args_def require_def paths files
        config_value_parses [OF pilot_config_ok] clock dates ceiling_others ceiling_quote_read ceiling_inputs ceiling_accepted simp del: other_ceilings.simps)
qed

end
