(* ===== verification/Fleet_Properties.thy ===== *)
theory Fleet_Properties
  imports Fleet_Samples
begin

text \<open>
  What the fleet commands may do to the registry. An enrollment moves along \<open>enrollment_move\<close>; a command writes
  nothing but a registry whose enrollments each stayed or made one such move, with at most one new
  proposal, and that every later command can read. Then what an exit code of a verification says, and the
  ceiling over all permits and proposals.
\<close>

section \<open>Moves\<close>

inductive enrollment_move :: "fleet_enrollment \<Rightarrow> fleet_enrollment \<Rightarrow> bool" where
  move_refresh: "fe_status e = Proposed \<Longrightarrow>
    enrollment_move e (e\<lparr>before := i, fe_notes := fe_notes e @ [n]\<rparr>)"
| move_cut_over: "fe_status e \<noteq> Reverted \<Longrightarrow> labelled e (wi_runsOn i) \<Longrightarrow> length ns \<le> 1 \<Longrightarrow>
    enrollment_move e (e\<lparr>fe_status := CutOver, routingSwitch := Some sw, after := Some i, fe_notes := fe_notes e @ ns\<rparr>)"
| move_revert: "fe_status e = CutOver \<Longrightarrow>
    enrollment_move e (e\<lparr>fe_status := Reverted, fe_notes := fe_notes e @ [n]\<rparr>)"
| move_configure: "fe_status e \<noteq> Reverted \<Longrightarrow> enrollment_move e (e\<lparr>controller := Some c\<rparr>)"

inductive_simps move_of_reverted: "enrollment_move e e'"

abbreviation stays_or_moves :: "fleet_enrollment \<Rightarrow> fleet_enrollment \<Rightarrow> bool" where
  "stays_or_moves e e' \<equiv> e = e' \<or> enrollment_move e e'"

definition fresh_proposal :: "fleet_enrollment \<Rightarrow> bool" where
  "fresh_proposal e \<longleftrightarrow> fe_status e = Proposed \<and> routingSwitch e = None \<and> after e = None \<and> controller e = None
     \<and> fe_notes e = []"

definition registry_move :: "fleet_registry \<Rightarrow> fleet_registry \<Rightarrow> bool" where
  "registry_move r r' \<longleftrightarrow>
     fr_owner r' = fr_owner r \<and> window_since r' = window_since r \<and> window_through r' = window_through r
     \<and> exclusions r' = exclusions r
     \<and> (\<exists>es new. enrollments r' = es @ new \<and> list_all2 stays_or_moves (enrollments r) es
          \<and> length new \<le> 1 \<and> list_all fresh_proposal new)"

lemma move_id: "enrollment_move e e' \<Longrightarrow> fe_id e' = fe_id e"
  by (induction rule: enrollment_move.induct) simp_all

lemma move_not_reverted: "enrollment_move e e' \<Longrightarrow> fe_status e \<noteq> Reverted"
  by (induction rule: enrollment_move.induct) simp_all

lemma stays_refl: "list_all2 stays_or_moves es es"
  by (simp add: list_all2_conv_all_nth)

lemma registry_move_refl: "registry_move r r"
  unfolding registry_move_def by (simp, rule exI [of _ "enrollments r"]) (simp add: stays_refl)

lemma registry_move_add: "fresh_proposal e \<Longrightarrow> registry_move r (r\<lparr>enrollments := enrollments r @ [e]\<rparr>)"
  unfolding registry_move_def by (simp, rule exI [of _ "enrollments r"], rule exI [of _ "[e]"]) (simp add: stays_refl)

lemma list_all2_map_self: "(\<And>x. x \<in> set xs \<Longrightarrow> P x (f x)) \<Longrightarrow> list_all2 P xs (map f xs)"
  by (induction xs) auto

text \<open>Replacing an enrollment by a move of it, where no other has its id.\<close>

lemma registry_move_replace:
  assumes ids: "distinct (map fe_id (enrollments r))" and e: "e \<in> set (enrollments r)" and m: "enrollment_move e e'"
  shows "registry_move r (replace_enrollment r e')"
proof -
  have "list_all2 stays_or_moves (enrollments r) (map (\<lambda>x. if fe_id x = fe_id e' then e' else x) (enrollments r))"
  proof (rule list_all2_map_self)
    fix x assume "x \<in> set (enrollments r)"
    then have "fe_id x = fe_id e \<Longrightarrow> x = e" using ids e by (auto simp: distinct_map inj_on_def)
    then show "stays_or_moves x (if fe_id x = fe_id e' then e' else x)" using m move_id [OF m] by auto
  qed
  then show ?thesis unfolding registry_move_def replace_enrollment_def
    by (simp, intro exI [of _ "map (\<lambda>x. if fe_id x = fe_id e' then e' else x) (enrollments r)"] exI [of _ "[]"]) simp
qed

lemma require_enrollmentD: "require_enrollment r ident = Inr e \<Longrightarrow> e \<in> set (enrollments r) \<and> fe_id e = ident"
  by (auto simp: require_enrollment_def step_eq_Inr find_Some_iff)

section \<open>Runs that write at most once\<close>

text \<open>From a state with \<open>P\<close> the run returns, and \<open>Q\<close> holds then, whether it threw or not.\<close>

definition leads :: "('s \<Rightarrow> bool) \<Rightarrow> ('s, 'a) run \<Rightarrow> ('s \<Rightarrow> bool) \<Rightarrow> bool" where
  "leads P m Q \<longleftrightarrow> ensures P m (\<lambda>s _. Q s)"

lemma leadsD: "leads P m Q \<Longrightarrow> P s \<Longrightarrow> \<exists>s' res. m s = Some (s', res) \<and> Q s'"
  unfolding leads_def by (rule ensuresD)

lemma leads_keeps: "keeps P m \<Longrightarrow> (\<And>s. P s \<Longrightarrow> Q s) \<Longrightarrow> leads P m Q"
  unfolding leads_def keeps_ensures by (rule ensures_conseq)

lemma leads_read:
  assumes "keeps P m" "\<And>x. leads P (f x) Q" "\<And>s. P s \<Longrightarrow> Q s"
  shows "leads P (run_bind m f) Q"
  unfolding leads_def
  by (rule ensures_bind [where R = "\<lambda>s _. P s"]) (use assms in \<open>auto simp: leads_def keeps_ensures\<close>)

lemma leads_pure:
  assumes "\<And>x. m = Inr x \<Longrightarrow> leads P (f x) Q" "\<And>s. P s \<Longrightarrow> Q s"
  shows "leads P (run_bind (run_return m) f) Q"
proof (cases m)
  case (Inl e)
  then show ?thesis using assms(2) by (simp add: leads_def ensures_def run_bind_def run_return_def)
next
  case (Inr x)
  then have "run_bind (run_return m) f = f x" by (simp add: fun_eq_iff run_bind_def run_return_def)
  then show ?thesis using assms(1) [OF Inr] by simp
qed

lemma leads_check:
  assumes "b \<Longrightarrow> leads P (f ()) Q" "\<And>s. P s \<Longrightarrow> Q s"
  shows "leads P (run_bind (fleet_check b m) f) Q"
  unfolding fleet_check_def by (rule leads_pure) (use assms in \<open>auto simp: step_eq_Inr\<close>)

lemma leads_write:
  assumes "leads P m Q" "\<And>x. keeps Q (f x)"
  shows "leads P (run_bind m f) Q"
  unfolding leads_def
  by (rule ensures_bind [where R = "\<lambda>s _. Q s"]) (use assms in \<open>auto simp: leads_def keeps_ensures\<close>)

section \<open>The readings leave the registry file alone\<close>

abbreviation file_is :: "jsval option \<Rightarrow> 'g fleet_state \<Rightarrow> bool" where
  "file_is f s \<equiv> fleet_file s = f"

named_theorems file_keeps

lemma remote_keeps [file_keeps]: "keeps (\<lambda>s. Q (fleet_file s)) (on_remote op)"
  by (simp add: keeps_def on_remote_def split: prod.splits)

lemma print_keeps [file_keeps]:
  "keeps (\<lambda>s. Q (fleet_file s)) (print_json kvs)" "keeps (\<lambda>s. Q (fleet_file s)) (print_problems ms)"
  by (simp_all add: keeps_def print_json_def print_problems_def)

lemma fail_keeps [file_keeps]: "keeps P (fleet_fail m)" "keeps P (fleet_check b m)" "keeps P (run_return res)"
  by (simp_all add: fleet_fail_def fleet_check_def keeps_return)

lemma pages_keeps [file_keeps]: "keeps (\<lambda>s. Q (fleet_file s)) (github_pages w endpoint)"
  unfolding github_pages_def by (intro keeps_bind file_keeps)

lemma single_keeps [file_keeps]: "keeps (\<lambda>s. Q (fleet_file s)) (single_page w endpoint name)"
  unfolding single_page_def by (intro keeps_bind file_keeps) (auto split: list.splits intro: file_keeps)

lemma fetch_keeps [file_keeps]:
  "keeps (\<lambda>s. Q (fleet_file s)) (fetch_repository w repo)"
  "keeps (\<lambda>s. Q (fleet_file s)) (fetch_branch_head w repo branch)"
  "keeps (\<lambda>s. Q (fleet_file s)) (fetch_workflows w repo)"
  "keeps (\<lambda>s. Q (fleet_file s)) (fetch_workflow_file w repo path ref)"
  "keeps (\<lambda>s. Q (fleet_file s)) (fetch_is_on_branch w repo commit branch)"
  "keeps (\<lambda>s. Q (fleet_file s)) (fetch_user_id w login)"
  unfolding fetch_repository_def fetch_branch_head_def fetch_workflows_def fetch_workflow_file_def
    fetch_is_on_branch_def fetch_user_id_def
  by (intro keeps_bind file_keeps)+

lemma now_keeps [file_keeps]: "keeps (\<lambda>s. Q (fleet_file s)) (fleet_now w)"
  unfolding fleet_now_def by (intro keeps_bind file_keeps)

lemma live_identity_keeps [file_keeps]: "keeps (\<lambda>s. Q (fleet_file s)) (read_live_identity w e commit owner)"
  unfolding read_live_identity_def by (intro keeps_bind file_keeps)

lemma json_keeps [file_keeps]:
  "keeps P (read_json path)" "keeps P (read_optional_json path)" "keeps (\<lambda>s. Q (fleet_file s)) (write_json w path v)"
  by (auto simp: keeps_def read_json_def read_optional_json_def write_json_def Let_def split: prod.splits fault.splits)

lemma ask_keeps [file_keeps]: "keeps (\<lambda>s. Q (fleet_file s)) (ask_host op)"
  unfolding ask_host_def by (intro keeps_bind file_keeps)

section \<open>Writing the registry\<close>

definition moved :: "'g fleet_world \<Rightarrow> fleet_registry \<Rightarrow> jsval \<Rightarrow> jsval option \<Rightarrow> bool" where
  "moved w r v f \<longleftrightarrow>
     f = Some v
     \<or> (\<exists>r'. registry_move r r' \<and> registry_ok (fw_date w) r' \<and> f = Some (json_registry r'))"

lemma save_leads:
  assumes "registry_move r r'"
  shows "leads (file_is (Some v)) (save_registry w r') (\<lambda>s. moved w r v (fleet_file s))"
  unfolding save_registry_def
proof (rule leads_pure)
  fix x assume "parse_fleet_registry (fw_date w) (json_registry r') = Inr x"
  then have "registry_ok (fw_date w) r'"
    by (rule written_registry_ok)
  then have "moved w r v (Some (json_registry r'))" using assms by (auto simp: moved_def)
  moreover have "moved w r v (Some v)" by (simp add: moved_def)
  ultimately show "leads (file_is (Some v)) (store_registry w (json_registry r')) (\<lambda>s. moved w r v (fleet_file s))"
    by (auto simp: leads_def ensures_def store_registry_def Let_def split: prod.splits fault.splits)
qed (simp add: moved_def)

lemma moved_keeps [file_keeps]: "keeps (\<lambda>s. moved w r v (fleet_file s)) (print_json kvs)"
  "keeps (\<lambda>s. moved w r v (fleet_file s)) (print_problems ms)"
  by (rule file_keeps)+

lemma moved_start: "file_is (Some v) s \<Longrightarrow> moved w r v (fleet_file s)"
  by (simp add: moved_def)

text \<open>The end of a command: the registry is written, then something is printed.\<close>

lemma save_then_print:
  "registry_move r r' \<Longrightarrow>
   leads (file_is (Some v)) (run_bind (save_registry w r') (\<lambda>_. run_bind (print_json kvs) (\<lambda>_. run_return x)))
     (\<lambda>s. moved w r v (fleet_file s))"
  by (intro leads_write save_leads keeps_bind file_keeps)

lemmas leads_steps = leads_read leads_pure leads_check

section \<open>Enroll and cut over\<close>

lemma enroll_leads:
  "leads (file_is (Some v)) (fleet_enroll w a r) (\<lambda>s. moved w r v (fleet_file s))"
proof -
  have fresh: "registry_move r (r\<lparr>enrollments := enrollments r @ [new_enrollment a ident label repo workflow names i]\<rparr>)"
    for ident label repo workflow names i
    by (rule registry_move_add) (simp add: fresh_proposal_def new_enrollment_def)
  show ?thesis
    unfolding fleet_enroll_def Let_def case_prod_beta
    by (rule leads_steps file_keeps moved_start save_then_print fresh | assumption)+
qed

lemma cut_overD:
  assumes "cut_over e cur switch = Inr e'"
  obtains sw where "labelled e (wi_runsOn cur)" "switch = Some sw"
    "e' = e\<lparr>fe_status := CutOver, routingSwitch := Some sw,
       after := Some (case after e of None \<Rightarrow> cur | Some p \<Rightarrow> cur\<lparr>recordedAt := recordedAt p\<rparr>),
       fe_notes := (case after e of None \<Rightarrow> fe_notes e | Some p \<Rightarrow> fe_notes e @ [refresh_note cur p])\<rparr>"
proof -
  have "labelled e (wi_runsOn cur)"
    using assms unfolding cut_over_def Let_def rbind_eq_Inr step_eq_Inr labelled_def
    by (auto simp: filter_empty_conv)
  then show ?thesis
    using that assms unfolding cut_over_def Let_def rbind_eq_Inr step_eq_Inr by blast
qed

lemma cut_over_move:
  assumes "cut_over e cur switch = Inr e'" "fe_status e \<noteq> Reverted"
  shows "enrollment_move e e'"
proof -
  obtain sw where sw: "labelled e (wi_runsOn cur)"
    "e' = e\<lparr>fe_status := CutOver, routingSwitch := Some sw,
       after := Some (case after e of None \<Rightarrow> cur | Some p \<Rightarrow> cur\<lparr>recordedAt := recordedAt p\<rparr>),
       fe_notes := (case after e of None \<Rightarrow> fe_notes e | Some p \<Rightarrow> fe_notes e @ [refresh_note cur p])\<rparr>"
    using assms(1) by (rule cut_overD)
  have "(case after e of None \<Rightarrow> fe_notes e | Some p \<Rightarrow> fe_notes e @ [refresh_note cur p])
      = fe_notes e @ (case after e of None \<Rightarrow> [] | Some p \<Rightarrow> [refresh_note cur p])"
    by (simp split: option.split)
  then show ?thesis
    using move_cut_over [OF assms(2), of "case after e of None \<Rightarrow> cur | Some p \<Rightarrow> cur\<lparr>recordedAt := recordedAt p\<rparr>"
        "case after e of None \<Rightarrow> [] | Some p \<Rightarrow> [refresh_note cur p]" sw] sw
    by (simp split: option.splits)
qed

lemma cutover_leads:
  assumes "distinct (map fe_id (enrollments r))"
  shows "leads (file_is (Some v)) (fleet_cutover w ident commit r) (\<lambda>s. moved w r v (fleet_file s))"
proof -
  have head: "keeps (file_is (Some v)) (if fe_status e = CutOver
      then run_bind (fetch_branch_head w (fe_repository e) branch) (\<lambda>head. fleet_check (commit = head) (m head))
      else run_return (Inr ()))" for e branch m
    by (intro keeps_if keeps_bind file_keeps)
  have m: "registry_move r (replace_enrollment r e')"
    if "require_enrollment r ident = Inr e" "fe_status e \<noteq> Reverted" "cut_over e cur switch = Inr e'" for e cur switch e'
    using that assms require_enrollmentD registry_move_replace cut_over_move by blast
  show ?thesis
    unfolding fleet_cutover_def Let_def case_prod_beta
    by (rule leads_steps file_keeps head moved_start save_then_print m | assumption)+
qed

section \<open>Verify\<close>

definition verify_step :: "fleet_enrollment \<Rightarrow> verification \<Rightarrow> verification \<Rightarrow> bool" where
  "verify_step e v v' \<longleftrightarrow>
     vf_next v' = vf_next v
     \<or> (\<exists>e'. enrollment_move e e' \<and> vf_next v' = replace_enrollment (vf_next v) e')"

lemma verify_step_same: "vf_next v' = vf_next v \<Longrightarrow> verify_step e v v'"
  by (simp add: verify_step_def)

lemma problem_next [simp]: "vf_next (add_problem m v) = vf_next v" "vf_next (unreadable e at_head err v) = vf_next v"
  by (simp_all add: add_problem_def unreadable_def)

lemma verify_step_put:
  "enrollment_move e e' \<Longrightarrow> vf_next v1 = vf_next v \<Longrightarrow> verify_step e v (put_enrollment e' v1)"
  by (auto simp: verify_step_def put_enrollment_def)

lemma verify_live_step:
  assumes "verify_live e head cur switch v = Inr v'"
  shows "verify_step e v v'"
proof (cases "fe_status e")
  case Proposed
  then have "v' = verify_proposed e head cur switch v" using assms by (simp add: verify_live_def)
  moreover have "enrollment_move e (e\<lparr>before := cur, fe_notes := fe_notes e @ [n]\<rparr>)" for n
    using Proposed by (rule move_refresh)
  ultimately show ?thesis
    by (auto simp: verify_proposed_def simp del: concat.simps intro: verify_step_put verify_step_same)
next
  case CutOver
  have m: "enrollment_move e (e\<lparr>fe_status := Reverted, fe_notes := fe_notes e @ [n]\<rparr>)" for n
    using CutOver by (rule move_revert)
  show ?thesis
    using assms CutOver
    by (auto simp: verify_live_def verify_cut_over_def Let_def rbind_eq_Inr step_eq_Inr simp del: concat.simps
        intro: verify_step_put verify_step_same m split: if_split_asm)
next
  case Reverted
  then show ?thesis using assms by (auto simp: verify_live_def verify_step_def)
qed

text \<open>How the verification of one enrollment ends when it does not throw.\<close>

lemma verify_oneE:
  assumes "verify_one w r e v s = Some (s', Inr v')"
  obtains (skip) "succeeded r e" "v' = v"
  | (unread) n msg err where "\<not> succeeded r e" "v' = unreadable e msg err (v\<lparr>vf_owner := Some n\<rparr>)"
  | (read) n s1 head s2 cur switch where "\<not> succeeded r e" "verify_head w e s1 = Some (s2, Inr head)"
      "read_live_identity w e head n s2 = Some (s', Inr (cur, switch))"
      "verify_live e head cur switch (v\<lparr>vf_owner := Some n\<rparr>) = Inr v'"
proof (cases "succeeded r e")
  case True
  then show ?thesis using assms skip by (auto simp: verify_one_def)
next
  case False
  let ?v = "\<lambda>n. v\<lparr>vf_owner := Some n\<rparr>"
  obtain n s1 s2 hd where hd: "run_try (verify_head w e) s1 = Some (s2, Inr hd)"
      "(case hd of Inl err \<Rightarrow> run_return (Inr (unreadable e [] err (?v n)))
        | Inr head \<Rightarrow> run_bind (run_try (read_live_identity w e head n)) (\<lambda>read.
            case read of Inl err \<Rightarrow> run_return (Inr (unreadable e [Lit '' at '', Lit head] err (?v n)))
            | Inr (cur, switch) \<Rightarrow> run_return (verify_live e head cur switch (?v n)))) s2 = Some (s', Inr v')"
    using assms False unfolding verify_one_def Let_def by (auto elim!: run_bindE)
  show ?thesis
  proof (cases hd)
    case (Inl err)
    then show ?thesis using hd unread [OF False] by simp
  next
    case (Inr head)
    then obtain s3 rd where rd: "read_live_identity w e head n s2 = Some (s3, rd)"
      "(case rd of Inl err \<Rightarrow> run_return (Inr (unreadable e [Lit '' at '', Lit head] err (?v n)))
        | Inr (cur, switch) \<Rightarrow> run_return (verify_live e head cur switch (?v n))) s3 = Some (s', Inr v')"
      using hd(2) by (auto elim!: run_bindE run_tryE)
    show ?thesis
    proof (cases rd)
      case (Inl err)
      then show ?thesis using rd unread [OF False] by simp
    next
      case (Inr p)
      then show ?thesis
        using rd hd(1) \<open>hd = Inr head\<close> read [OF False] by (cases p) (auto simp: run_try_Some)
    qed
  qed
qed

lemma verify_one_step: "verify_one w r e v s = Some (s', Inr v') \<Longrightarrow> verify_step e v v'"
  by (erule verify_oneE) (auto simp: verify_step_def dest!: verify_live_step)

text \<open>The registry in progress: moves of the enrollments done, then the others as they were.\<close>

definition verified_upto :: "fleet_registry \<Rightarrow> fleet_enrollment list \<Rightarrow> verification \<Rightarrow> bool" where
  "verified_upto r todo v \<longleftrightarrow>
     (\<exists>xs es. enrollments r = xs @ todo \<and> list_all2 stays_or_moves xs es \<and> vf_next v = r\<lparr>enrollments := es @ todo\<rparr>)"

lemma moves_ids: "list_all2 stays_or_moves xs es \<Longrightarrow> map fe_id es = map fe_id xs"
  by (induction rule: list_all2_induct) (auto dest: move_id)

lemma map_replace_other: "e \<notin> set (map f xs) \<Longrightarrow> map (\<lambda>x. if f x = e then y else x) xs = xs"
  by (induction xs) auto

lemma verified_upto_step:
  assumes ids: "distinct (map fe_id (enrollments r))" and v: "verified_upto r (e # todo) v" and step: "verify_step e v v'"
  shows "verified_upto r todo v'"
proof -
  obtain xs es where r: "enrollments r = (xs @ [e]) @ todo" and m: "list_all2 stays_or_moves xs es"
    and nx: "vf_next v = r\<lparr>enrollments := es @ e # todo\<rparr>"
    using v by (auto simp: verified_upto_def)
  have other: "fe_id e \<notin> set (map fe_id es)" "fe_id e \<notin> set (map fe_id todo)"
    using ids r moves_ids [OF m] by auto
  from step [unfolded verify_step_def] show ?thesis
  proof
    assume "vf_next v' = vf_next v"
    then show ?thesis unfolding verified_upto_def
      using m r nx by (intro exI [of _ "xs @ [e]"] exI [of _ "es @ [e]"]) (simp add: list_all2_appendI)
  next
    assume "\<exists>e'. enrollment_move e e' \<and> vf_next v' = replace_enrollment (vf_next v) e'"
    then obtain e' where e': "enrollment_move e e'" "vf_next v' = replace_enrollment (vf_next v) e'" by blast
    have "vf_next v' = r\<lparr>enrollments := es @ e' # todo\<rparr>"
      using e'(2) other by (simp add: nx replace_enrollment_def move_id [OF e'(1)] map_replace_other)
    then show ?thesis unfolding verified_upto_def
      using m r e'(1) by (intro exI [of _ "xs @ [e]"] exI [of _ "es @ [e']"]) (simp add: list_all2_appendI)
  qed
qed

lemma verify_all_upto:
  "verify_all w r todo v s = Some (s', Inr v') \<Longrightarrow> distinct (map fe_id (enrollments r)) \<Longrightarrow> verified_upto r todo v
   \<Longrightarrow> verified_upto r [] v'"
proof (induction todo arbitrary: v s)
  case (Cons e todo)
  from Cons.prems(1) obtain s1 v1 where "verify_one w r e v s = Some (s1, Inr v1)" "verify_all w r todo v1 s1 = Some (s', Inr v')"
    by (auto simp: run_bind_Some)
  then show ?case using Cons.IH verified_upto_step [OF Cons.prems(2,3)] verify_one_step Cons.prems(2) by blast
qed simp

lemma verified_move:
  assumes "verified_upto r [] v"
  shows "registry_move r (vf_next v)"
proof -
  obtain es where "list_all2 stays_or_moves (enrollments r) es" "vf_next v = r\<lparr>enrollments := es\<rparr>"
    using assms by (auto simp: verified_upto_def)
  then show ?thesis unfolding registry_move_def by (intro conjI exI [of _ es] exI [of _ "[]"]) simp_all
qed

lemma verify_keeps [file_keeps]: "keeps (\<lambda>s. Q (fleet_file s)) (verify_all w r es v)"
proof (induction es arbitrary: v)
  case (Cons e es)
  have "keeps (\<lambda>s. Q (fleet_file s)) (verify_one w r e v)"
    unfolding verify_one_def verify_owner_def verify_head_def Let_def
    by (intro keeps_bind keeps_if keeps_try file_keeps) (auto split: option.splits sum.splits prod.splits
        intro!: keeps_bind keeps_try file_keeps)
  then show ?case using Cons by (auto intro: keeps_bind)
qed (simp add: file_keeps)

lemma leads_read_result:
  assumes "keeps P m" "\<And>s s' x. m s = Some (s', Inr x) \<Longrightarrow> leads P (f x) Q" "\<And>s. P s \<Longrightarrow> Q s"
  shows "leads P (run_bind m f) Q"
  unfolding leads_def ensures_def
proof (intro allI impI)
  fix s assume "P s"
  then obtain s1 res where m: "m s = Some (s1, res)" "P s1" using keepsD [OF assms(1)] by blast
  show "\<exists>s' r. run_bind m f s = Some (s', r) \<and> Q s'"
  proof (cases res)
    case (Inl e) then show ?thesis using m assms(3) by (simp add: run_bind_def)
  next
    case (Inr x) then show ?thesis using m leadsD [OF assms(2) [of s s1 x] m(2)] by (simp add: run_bind_def)
  qed
qed

lemma verify_leads:
  assumes ids: "distinct (map fe_id (enrollments r))"
  shows "leads (file_is (Some v)) (fleet_verify w r) (\<lambda>s. moved w r v (fleet_file s))"
  unfolding fleet_verify_def
proof (rule leads_read_result)
  fix s s' vf
  assume "verify_all w r (enrollments r) \<lparr>vf_problems = [], vf_next = r, vf_changed = False, vf_owner = None\<rparr> s = Some (s', Inr vf)"
  then have m: "registry_move r (vf_next vf)"
    by (rule verified_move [OF verify_all_upto [OF _ ids]]) (simp add: verified_upto_def)
  have "leads (file_is (Some v)) (if vf_changed vf then save_registry w (vf_next vf) else run_return (Inr ()))
      (\<lambda>s. moved w r v (fleet_file s))"
    using save_leads [OF m] by (auto intro: leads_keeps file_keeps moved_start)
  then show "leads (file_is (Some v)) (run_bind (if vf_changed vf then save_registry w (vf_next vf) else run_return (Inr ()))
      (\<lambda>_. run_bind (print_json [(''status'', JStr (if vf_problems vf = [] then ''verified'' else ''mismatch'')),
         (''enrollments'', JArr (map verify_summary (enrollments (vf_next vf))))])
       (\<lambda>_. run_bind (print_problems (vf_problems vf)) (\<lambda>_. run_return (Inr (if vf_problems vf = [] then 0 else 1))))))
      (\<lambda>s. moved w r v (fleet_file s))"
    by (rule leads_write) (intro keeps_bind file_keeps)
qed (rule file_keeps moved_start | assumption)+

section \<open>The controller's commands\<close>

lemma config_leads:
  assumes "distinct (map fe_id (enrollments r))"
  shows "leads (file_is (Some v)) (fleet_controller_config w h a r) (\<lambda>s. moved w r v (fleet_file s))"
proof -
  have bound: "keeps (file_is (Some v)) (check_bound h path cfg bound)" for path cfg bound
    unfolding check_bound_def by (intro keeps_if keeps_bind file_keeps)
  have branch: "keeps (file_is (Some v)) (case ca_allowedBranch a of Some b \<Rightarrow> run_return (Inr b)
      | None \<Rightarrow> (case targetBranch e of Some b \<Rightarrow> run_return (Inr b)
          | None \<Rightarrow> run_bind (fetch_repository w (fe_repository e)) (\<lambda>repo. run_return (Inr (sr_defaultBranch repo)))))" for e
    by (auto split: option.split intro!: keeps_bind file_keeps)
  have ctl: "keeps (file_is (Some v)) (case controller e of Some c \<Rightarrow> run_return (Inr (ec_controllerId c))
      | None \<Rightarrow> run_bind (on_remote (fw_clock w)) (\<lambda>now. run_return (Inr (f now))))" for e f
    by (auto split: option.split intro!: keeps_bind file_keeps)
  have m: "registry_move r (replace_enrollment r (e\<lparr>controller := Some c\<rparr>))"
    if "require_enrollment r ident = Inr e" "fe_status e \<noteq> Reverted" for e c ident
    using that assms require_enrollmentD registry_move_replace move_configure by blast
  show ?thesis
    unfolding fleet_controller_config_def Let_def case_prod_beta
    by (rule leads_steps file_keeps branch ctl bound moved_start save_then_print m | assumption)+
qed

lemma ceilings_keeps [file_keeps]: "keeps P (other_ceilings h ident es)"
proof (induction es)
  case (Cons e es)
  then show ?case
    by (auto simp: read_committed_ceiling_def split: option.split intro!: keeps_bind keeps_if file_keeps)
qed (simp add: file_keeps)

lemma proposal_keeps: "keeps (\<lambda>s. Q (fleet_file s)) (fleet_permit_proposal w h a r)"
proof -
  have out: "keeps (\<lambda>s. Q (fleet_file s)) (case res of Inl reasons \<Rightarrow> f reasons | Inr p \<Rightarrow> write_proposal w h e dir now ms p)"
    if "\<And>x. keeps (\<lambda>s. Q (fleet_file s)) (f x)" for res f e dir now ms
    using that by (cases res) (auto simp: write_proposal_def Let_def intro!: keeps_bind file_keeps)
  show ?thesis unfolding fleet_permit_proposal_def Let_def case_prod_beta
    by (intro keeps_bind keeps_if out file_keeps)
qed

section \<open>All commands\<close>

lemma action_leads:
  assumes "distinct (map fe_id (enrollments r))"
  shows "leads (file_is (Some v)) (fleet_action w h a r) (\<lambda>s. moved w r v (fleet_file s))"
proof (cases a)
  case (FleetInit owner since through)
  have "fleet_init w owner since through s = Some (s, Inl (plain_error [Lit ''registry '', Lit (fw_registryPath w),
      Lit '' already exists; edit it or choose another path'']))" if "file_is (Some v) s" for s
    using that by (simp add: fleet_init_def fleet_check_def run_bind_def run_return_def check_def Let_def)
  then show ?thesis using FleetInit by (auto simp: leads_def ensures_def moved_def)
next
  case FleetShow
  then show ?thesis by (auto simp: fleet_show_def intro!: leads_keeps keeps_bind file_keeps moved_start)
next
  case (FleetRunsOn ident)
  then show ?thesis
    by (auto simp: fleet_runs_on_def case_prod_beta intro!: leads_keeps keeps_bind file_keeps moved_start)
next
  case (FleetPermitProposal b)
  then show ?thesis by (auto intro!: leads_keeps proposal_keeps moved_start)
qed (use assms enroll_leads cutover_leads verify_leads config_leads in simp_all)


section \<open>What a clean verification says\<close>

definition live_as_recorded :: "fleet_enrollment \<Rightarrow> workflow_identity \<Rightarrow> bool" where
  "live_as_recorded e cur \<longleftrightarrow>
     (case fe_status e of
        Proposed \<Rightarrow> workflowBlobSha cur = workflowBlobSha (before e) \<or> \<not> labelled e (wi_runsOn cur)
      | CutOver \<Rightarrow> routingSwitch e \<noteq> None \<and> map_option workflowBlobSha (after e) = Some (workflowBlobSha cur)
      | Reverted \<Rightarrow> \<not> labelled e (wi_runsOn cur))"

lemma problem_nonempty [simp]: "vf_problems (add_problem m v) \<noteq> []" "vf_problems (unreadable e at_head err v) \<noteq> []"
  by (simp_all add: add_problem_def unreadable_def)

lemma put_problems [simp]: "vf_problems (put_enrollment e v) = vf_problems v"
  by (simp add: put_enrollment_def)

lemma problem_unclean:
  "v = add_problem m u \<Longrightarrow> vf_problems v = [] \<Longrightarrow> False"
  "v = put_enrollment e (add_problem m u) \<Longrightarrow> vf_problems v = [] \<Longrightarrow> False"
  by simp_all

lemma verify_live_clean:
  assumes "verify_live e head cur switch v = Inr v'" "vf_problems v' = []"
  shows "vf_problems v = [] \<and> live_as_recorded e cur"
proof (cases "fe_status e")
  case CutOver
  then show ?thesis
    using assms by (auto simp: verify_live_def verify_cut_over_def live_as_recorded_def Let_def rbind_eq_Inr step_eq_Inr
        split: if_split_asm simp del: concat.simps dest: problem_unclean)
qed (use assms in \<open>auto simp: verify_live_def verify_proposed_def live_as_recorded_def split: if_split_asm
      simp del: concat.simps dest: problem_unclean\<close>)

text \<open>The enrollment was read at the head of its branch, and what was read is as recorded.\<close>

definition read_as_recorded :: "'g fleet_world \<Rightarrow> fleet_enrollment \<Rightarrow> bool" where
  "read_as_recorded w e \<longleftrightarrow>
     (\<exists>s1 s2 s3 head n cur switch. verify_head w e s1 = Some (s2, Inr head)
        \<and> read_live_identity w e head n s2 = Some (s3, Inr (cur, switch)) \<and> live_as_recorded e cur)"

lemma verify_one_clean:
  assumes "verify_one w r e v s = Some (s', Inr v')" "vf_problems v' = []"
  shows "vf_problems v = [] \<and> (\<not> succeeded r e \<longrightarrow> read_as_recorded w e)"
  using assms(1)
proof (cases rule: verify_oneE)
  case (read n s1 head s2 cur switch)
  then have "vf_problems v = []" "live_as_recorded e cur" using verify_live_clean [OF read(4) assms(2)] by simp_all
  then show ?thesis unfolding read_as_recorded_def using read(2,3) by blast
qed (use assms(2) in auto)

lemma verify_all_clean:
  "verify_all w r es v s = Some (s', Inr v') \<Longrightarrow> vf_problems v' = [] \<Longrightarrow>
   vf_problems v = [] \<and> (\<forall>e \<in> set es. \<not> succeeded r e \<longrightarrow> read_as_recorded w e)"
proof (induction es arbitrary: v s)
  case (Cons e es)
  from Cons.prems(1) obtain s1 v1 where one: "verify_one w r e v s = Some (s1, Inr v1)" "verify_all w r es v1 s1 = Some (s', Inr v')"
    by (auto simp: run_bind_Some)
  then have "vf_problems v1 = []" "\<forall>e \<in> set es. \<not> succeeded r e \<longrightarrow> read_as_recorded w e"
    using Cons.IH Cons.prems(2) by blast+
  then show ?case using verify_one_clean [OF one(1)] by simp
qed simp

text \<open>
  C29 (safety). When \<open>fleet verify\<close> exits with 0, every enrollment whose job no later enrollment took over was
  read at the head of its branch, and the live workflow is as the registry has it: a cut-over one has its
  routing switch and runs the very blob that was recorded, a reverted one does not carry the runner's labels,
  and a proposed one carries them only if that was so when it was enrolled.
\<close>

theorem verified_means_live:
  assumes "fleet_verify w r s = Some (s', Inr 0)"
  shows "\<forall>e \<in> set (enrollments r). \<not> succeeded r e \<longrightarrow> read_as_recorded w e"
proof -
  obtain v s1 where "verify_all w r (enrollments r) \<lparr>vf_problems = [], vf_next = r, vf_changed = False, vf_owner = None\<rparr> s
      = Some (s1, Inr v)" "vf_problems v = []"
    using assms unfolding fleet_verify_def by (elim run_elims) (auto split: if_split_asm)
  then show ?thesis using verify_all_clean by blast
qed

section \<open>The gate behind a cut over\<close>

definition gated_switch :: "string \<Rightarrow> routing_gate \<Rightarrow> job_selection \<Rightarrow> bool" where
  "gated_switch key g sel \<longleftrightarrow>
     (\<forall>sw. sel_switch sel = Some sw \<longrightarrow> (\<exists>u xs. gated_selection key g u = Inr (xs, sw)))"

lemma gated_switch_updates [simp]:
  "gated_switch key g (sel\<lparr>sel_name := x\<rparr>) = gated_switch key g sel"
  "gated_switch key g (sel\<lparr>sel_matrix := b\<rparr>) = gated_switch key g sel"
  "gated_switch key g (sel\<lparr>sel_runsOn := xs\<rparr>) = gated_switch key g sel"
  by (simp_all add: gated_switch_def)

lemma read_selection_gated:
  assumes "read_selection key (Some g) n v ls sel = Inr sel'" "gated_switch key g sel"
  shows "gated_switch key g sel'"
proof -
  have sw: "gated_switch key g (sel\<lparr>sel_runsOn := Some xs, sel_switch := Some sw\<rparr>)"
    if "gated_selection key g v = Inr (xs, sw)" for xs sw
    using that by (auto simp: gated_switch_def)
  show ?thesis
    using assms sw unfolding read_selection_def Let_def
    by (auto simp: rbind_eq_Inr step_eq_Inr split: if_split_asm)
qed

lemma read_body_gated:
  "read_body key (Some g) i n ls sel = Inr sel' \<Longrightarrow> gated_switch key g sel \<Longrightarrow> gated_switch key g sel'"
proof (induction ls arbitrary: sel)
  case (Cons line ls)
  show ?case
    using Cons.prems
    by (auto simp: Let_def rbind_eq_Inr split: if_split_asm option.splits
        intro: Cons.IH gated_switch_updates [THEN iffD2])
      (metis Cons.IH read_selection_gated gated_switch_updates)+
qed simp

lemma gated_selectionD:
  assumes "gated_selection key g v = Inr (xs, sw)"
  obtains e where "yaml_scalar v = Inr e" "parse_gated_runs_on e g = Inr (xs, sw)"
  using assms unfolding gated_selection_def
  by (auto simp: rbind_eq_Inr split: sum.splits exn.splits if_split_asm)

lemma extract_gated:
  assumes "extract_job_runs_on file key (Some g) = Inr sel" "sel_switch sel = Some sw"
  obtains v e xs where "yaml_scalar v = Inr e" "parse_gated_runs_on e g = Inr (xs, sw)"
proof -
  obtain sel1 i n ls where "read_body key (Some g) i n ls
      \<lparr>sel_runsOn = None, sel_switch = None, sel_name = None, sel_matrix = False\<rparr> = Inr sel1" "sel_switch sel1 = Some sw"
    using assms unfolding extract_job_runs_on_def Let_def rbind_eq_Inr step_eq_Inr by auto
  then have "\<exists>u xs. gated_selection key g u = Inr (xs, sw)"
    using read_body_gated by (fastforce simp: gated_switch_def)
  then show ?thesis using that by (auto elim: gated_selectionD)
qed

lemma save_registryE [run_elims]:
  assumes "save_registry w r s = Some (s', Inr x)"
  obtains "fleet_file s' = Some (json_registry r)"
  using assms unfolding save_registry_def store_registry_def
  by (auto simp: run_bind_Some Let_def split: prod.splits fault.splits)

lemma print_jsonE [run_elims]:
  assumes "print_json kvs s = Some (s', Inr x)"
  obtains "fleet_file s' = fleet_file s" "fleet_files s' = fleet_files s"
  using assms by (auto simp: print_json_def)

lemma fleet_checkE [run_elims]:
  assumes "fleet_check b m s = Some (s', Inr x)"
  obtains "b" "s' = s"
  using assms by (cases b) (auto simp: fleet_check_def)


section \<open>The ceiling over all permits\<close>

text \<open>The ceilings depend on the files alone.\<close>

lemma read_optional_files: "fleet_files s = fs \<Longrightarrow> read_optional_json path s = Some (s, case fs path of None \<Rightarrow> Inr JNull | Some r \<Rightarrow> r)"
  by (simp add: read_optional_json_def)

lemma ceiling_of_files: "\<exists>res. \<forall>s. fleet_files s = fs \<longrightarrow> read_committed_ceiling h dir i s = Some (s, res)"
proof -
  let ?read = "\<lambda>path. case fs path of None \<Rightarrow> Inr JNull | Some r \<Rightarrow> r"
  show ?thesis
    by (cases "?read (fc_join h dir ''permit.json'')"; cases "?read (fc_join h dir ''permit-proposal.json'')")
      (auto simp: read_committed_ceiling_def run_bind_def run_return_def read_optional_files cong: if_cong)
qed

lemma ceilings_of_files: "\<exists>res. \<forall>s. fleet_files s = fs \<longrightarrow> other_ceilings h ident es s = Some (s, res)"
proof (induction es)
  case (Cons e es)
  then obtain res where res: "\<And>s. fleet_files s = fs \<Longrightarrow> other_ceilings h ident es s = Some (s, res)" by blast
  show ?case
  proof (cases "controller e")
    case (Some c)
    obtain one where one: "\<And>s. fleet_files s = fs \<Longrightarrow> read_committed_ceiling h (stateDirectory c) (fe_id e) s = Some (s, one)"
      using ceiling_of_files by metis
    show ?thesis using Some by (cases one; cases res) (auto simp: run_bind_def run_return_def res one)
  qed (use res in auto)
qed (auto simp: run_return_def)

lemma problems_exit [simp]: "run_bind (print_problems ms) (\<lambda>_. run_return (Inr (Suc 0))) s \<noteq> Some (s', Inr 0)"
  by (auto simp: run_bind_Some)

lemma write_jsonE [run_elims]:
  assumes "write_json w path v s = Some (s', Inr x)"
  obtains "fleet_files s' = (fleet_files s)(path \<mapsto> Inr v)"
  using assms by (auto simp: write_json_def Let_def split: prod.splits fault.splits)

lemma write_proposalE:
  assumes "write_proposal w h e dir now members p s = Some (s', Inr n)"
  obtains ident d where "render_operating_permit p ident = Inr d"
    "fleet_files s' (fc_join h dir ''permit.draft.json'') = Some (Inr (json_of_permit d))"
  using assms unfolding write_proposal_def Let_def by (elim run_elims) (auto elim!: run_elims simp del: concat.simps)

lemma remote_files: "on_remote op s = Some (s', res) \<Longrightarrow> fleet_files s' = fleet_files s"
  by (auto simp: on_remote_def split: prod.splits)

lemma permit_proposalE:
  assumes "fleet_permit_proposal w h a r s = Some (s', Inr 0)"
  obtains e ctl cfg now ex others q members p s1 s2 where
    "require_enrollment r (pa_id a) = Inr e" "controller e = Some ctl"
    "other_ceilings h (fe_id e) (enrollments r) s1 = Some (s2, Inr others)" "fleet_files s1 = fleet_files s"
    "build_operating_permit_proposal (operating_input_of h e cfg (pa_candidateDigest a) now ex
        (end_of_day w (window_through r)) others q) = Inr (Inr p)"
    "write_proposal w h e (stateDirectory ctl) now members p s2 = Some (s', Inr 0)"
proof -
  have files: "read_json path t = Some (t', res) \<Longrightarrow> t' = t" for path and t t' :: "'a fleet_state" and res
    by (simp add: read_json_def)
  show ?thesis
    using assms unfolding fleet_permit_proposal_def Let_def case_prod_beta
    apply (elim run_elims)
    apply (simp split: if_split_asm)
    apply (elim run_elims)
    apply (simp split: sum.splits)
    apply (rule that)
         apply (assumption | simp add: step_eq_Inr; fail)+
    apply (auto dest!: files remote_files)
    done
qed


section \<open>Witnesses\<close>


theorem verified_means_live_witness:
  "\<exists>s s'. fleet_verify (sample_fleet_world sample_workflow) (replace_enrollment sample_proposals sample_cut) s = Some (s', Inr 0)
     \<and> read_as_recorded (sample_fleet_world sample_workflow) sample_cut"
proof -
  obtain s' where run: "fleet_verify (sample_fleet_world sample_workflow) (replace_enrollment sample_proposals sample_cut)
      (sample_fleet_state sample_proposals) = Some (s', Inr 0)"
    using sample_verify by blast
  have "sample_cut \<in> set (enrollments (replace_enrollment sample_proposals sample_cut))"
    "\<not> succeeded (replace_enrollment sample_proposals sample_cut) sample_cut"
    by (simp_all add: replace_enrollment_def sample_proposals_def sample_cut_def succeeded_def)
  then show ?thesis using verified_means_live [OF run] run by blast
qed



end
