(* ===== verification/Report.thy ===== *)
theory Report
  imports Pilot Redaction Nebius
begin

text \<open>
  The report of a finished runner trial (\<open>runner/report.ts\<close>): the strict parser of its input, the removal of
  sensitive text, and the reasons for which the report is not complete.
\<close>

section \<open>Data\<close>

datatype scenario_status = Passed | Failed | Skipped

fun scenario_status_str :: "scenario_status \<Rightarrow> string" where
  "scenario_status_str Passed = ''passed''"
| "scenario_status_str Failed = ''failed''"
| "scenario_status_str Skipped = ''skipped''"

definition SCENARIO_STATUSES :: "scenario_status list" where "SCENARIO_STATUSES = [Passed, Failed, Skipped]"

definition PHASE_3_REQUIRED_SCENARIOS :: "string list" where
  "PHASE_3_REQUIRED_SCENARIOS = [''R10'', ''R11'', ''R12'', ''R13'']"

record scenario_check =
  sc_scenario :: string
  sc_status :: scenario_status
  sc_candidateDigest :: string
  sc_evidence :: "string list"

record assignment_evidence =
  as_runId :: jsnum
  as_runAttempt :: jsnum
  as_jobId :: jsnum
  as_runnerId :: jsnum
  as_runnerName :: string
  as_conclusion :: string

record cleanup_readback =
  cl_complete :: bool
  cl_vmState :: vm_status
  ownedRunnersRemaining :: "jsnum option"
  diskPresent :: "bool option"
  unresolvedResources :: "string list"

record report_input =
  ri_candidateDigest :: string
  expectedCandidateDigest :: string
  requiredScenarios :: "string list"
  ri_checks :: "scenario_check list"
  ri_assignments :: "assignment_evidence list"
  ri_cleanup :: "cleanup_readback option"
  finalProviderState :: vm_status
  ri_cost :: runner_cost_estimate
  ri_diagnostics :: "string list option"
  sensitiveValues :: "string list option"

record runner_report =
  rr_complete :: bool
  rr_reasons :: "jsnum message list"
  rr_candidateDigest :: string
  rr_checks :: "scenario_check list"
  rr_assignments :: "assignment_evidence list"
  rr_cleanup :: "cleanup_readback option"
  rr_finalProviderState :: vm_status
  rr_cost :: runner_cost_estimate
  rr_diagnostics :: "string list"

section \<open>Reading the input\<close>

definition report_error :: "jsnum message \<Rightarrow> string \<Rightarrow> jsnum exn" where
  "report_error name s = plain_error (name @ [Lit s])"

definition strict_record :: "jsval \<Rightarrow> string list option \<Rightarrow> jsnum message \<Rightarrow> jsnum exn + fields" where
  "strict_record v allowed name =
     rbind (require (as_obj v) (report_error name '' must be an object'')) (\<lambda>kvs.
     rbind (reject (case allowed of None \<Rightarrow> None | Some ks \<Rightarrow> unknown_key kvs ks)
       (\<lambda>k. plain_error (name @ [Lit '' contains unknown field '', Lit k]))) (\<lambda>_.
     Inr kvs))"

definition nonempty_text :: "jsval \<Rightarrow> jsnum message \<Rightarrow> jsnum exn + string" where
  "nonempty_text v name =
     (case v of JStr s \<Rightarrow> if is_blank s then Inl (report_error name '' must be a nonempty string'') else Inr s
      | _ \<Rightarrow> Inl (report_error name '' must be a nonempty string''))"

definition string_list :: "jsval \<Rightarrow> jsnum message \<Rightarrow> bool \<Rightarrow> jsnum exn + string list" where
  "string_list v name allow_empty =
     (case v of
        JArr xs \<Rightarrow>
          if (\<not> allow_empty \<and> xs = []) \<or> \<not> list_all nonblank_str xs
          then Inl (report_error name '' must be an array of nonempty strings'')
          else Inr (map (\<lambda>x. the (as_str x)) xs)
      | _ \<Rightarrow> Inl (report_error name '' must be an array of nonempty strings''))"

definition number_where :: "(jsnum \<Rightarrow> bool) \<Rightarrow> string \<Rightarrow> jsval \<Rightarrow> jsnum message \<Rightarrow> jsnum exn + jsnum" where
  "number_where P what v name =
     (case v of JNum n \<Rightarrow> if P n then Inr n else Inl (report_error name what) | _ \<Rightarrow> Inl (report_error name what))"

definition positive_int :: "jsnum \<Rightarrow> bool" where
  "positive_int n \<longleftrightarrow> is_integer n \<and> Fin 0 < n"

definition report_positive :: "jsval \<Rightarrow> jsnum message \<Rightarrow> jsnum exn + jsnum" where
  "report_positive = number_where positive_int '' must be a positive integer''"

definition report_nonnegative_integer :: "jsval \<Rightarrow> jsnum message \<Rightarrow> jsnum exn + jsnum" where
  "report_nonnegative_integer = number_where (\<lambda>n. is_integer n \<and> \<not> n < Fin 0) '' must be a nonnegative integer''"

definition report_nonnegative :: "jsval \<Rightarrow> jsnum message \<Rightarrow> jsnum exn + jsnum" where
  "report_nonnegative = number_where (\<lambda>n. is_finite n \<and> \<not> n < Fin 0) '' must be a nonnegative number''"

definition report_boolean :: "jsval \<Rightarrow> jsnum message \<Rightarrow> jsnum exn + bool" where
  "report_boolean v name = require (as_bool v) (report_error name '' must be a boolean'')"

definition report_vm_status :: "jsval \<Rightarrow> jsnum message \<Rightarrow> jsnum exn + vm_status" where
  "report_vm_status v name =
     require (case v of JStr s \<Rightarrow> of_str vm_status_str VM_STATUSES s | _ \<Rightarrow> None) (report_error name '' is invalid'')"

definition parse_check :: "nat \<Rightarrow> jsval \<Rightarrow> jsnum exn + scenario_check" where
  "parse_check i v =
     rbind (strict_record v (Some [''scenario'', ''status'', ''candidateDigest'', ''evidence'']) (at_index ''checks'' i [])) (\<lambda>kvs.
     rbind (require (case get_prop kvs ''status'' of JStr s \<Rightarrow> of_str scenario_status_str SCENARIO_STATUSES s | _ \<Rightarrow> None)
       (plain_error (at_index ''checks'' i ''.status is invalid''))) (\<lambda>status.
     rbind (nonempty_text (get_prop kvs ''scenario'') (at_index ''checks'' i ''.scenario'')) (\<lambda>scenario.
     rbind (nonempty_text (get_prop kvs ''candidateDigest'') (at_index ''checks'' i ''.candidateDigest'')) (\<lambda>digest.
     rbind (string_list (get_prop kvs ''evidence'') (at_index ''checks'' i ''.evidence'') True) (\<lambda>evidence.
     Inr \<lparr>sc_scenario = scenario, sc_status = status, sc_candidateDigest = digest, sc_evidence = evidence\<rparr>)))))"

definition parse_report_assignment :: "nat \<Rightarrow> jsval \<Rightarrow> jsnum exn + assignment_evidence" where
  "parse_report_assignment i v =
     (let field = (\<lambda>k. at_index ''assignments'' i (''.'' @ k)) in
      rbind (strict_record v (Some [''runId'', ''runAttempt'', ''jobId'', ''runnerId'', ''runnerName'', ''conclusion''])
        (at_index ''assignments'' i [])) (\<lambda>kvs.
      rbind (report_positive (get_prop kvs ''runId'') (field ''runId'')) (\<lambda>run.
      rbind (report_positive (get_prop kvs ''runAttempt'') (field ''runAttempt'')) (\<lambda>attempt.
      rbind (report_positive (get_prop kvs ''jobId'') (field ''jobId'')) (\<lambda>job.
      rbind (report_positive (get_prop kvs ''runnerId'') (field ''runnerId'')) (\<lambda>runner.
      rbind (nonempty_text (get_prop kvs ''runnerName'') (field ''runnerName'')) (\<lambda>name.
      rbind (nonempty_text (get_prop kvs ''conclusion'') (field ''conclusion'')) (\<lambda>conclusion.
      Inr \<lparr>as_runId = run, as_runAttempt = attempt, as_jobId = job, as_runnerId = runner, as_runnerName = name,
           as_conclusion = conclusion\<rparr>))))))))"

definition assignment_identity :: "assignment_evidence \<Rightarrow> jsnum \<times> jsnum \<times> jsnum" where
  "assignment_identity a = (as_runId a, as_runAttempt a, as_jobId a)"

definition has_duplicate_assignments :: "assignment_evidence list \<Rightarrow> bool" where
  "has_duplicate_assignments xs \<longleftrightarrow> \<not> distinct (map assignment_identity xs)"

definition parse_cleanup :: "jsval \<Rightarrow> jsnum exn + cleanup_readback option" where
  "parse_cleanup v =
     (if v = JNull then Inr None
      else
        rbind (strict_record v (Some [''complete'', ''vmState'', ''ownedRunnersRemaining'', ''diskPresent'', ''unresolvedResources''])
          [Lit ''cleanup'']) (\<lambda>kvs.
        rbind (report_boolean (get_prop kvs ''complete'') [Lit ''cleanup.complete'']) (\<lambda>complete.
        rbind (report_vm_status (get_prop kvs ''vmState'') [Lit ''cleanup.vmState'']) (\<lambda>vm.
        rbind (if get_prop kvs ''ownedRunnersRemaining'' = JNull then Inr None
               else rbind (report_nonnegative_integer (get_prop kvs ''ownedRunnersRemaining'') [Lit ''cleanup.ownedRunnersRemaining''])
                 (\<lambda>n. Inr (Some n))) (\<lambda>owned.
        rbind (if get_prop kvs ''diskPresent'' = JNull then Inr None
               else rbind (report_boolean (get_prop kvs ''diskPresent'') [Lit ''cleanup.diskPresent'']) (\<lambda>b. Inr (Some b))) (\<lambda>disk.
        rbind (string_list (get_prop kvs ''unresolvedResources'') [Lit ''cleanup.unresolvedResources''] True) (\<lambda>res.
        Inr (Some \<lparr>cl_complete = complete, cl_vmState = vm, ownedRunnersRemaining = owned, diskPresent = disk,
               unresolvedResources = res\<rparr>))))))))"

definition parse_cost :: "jsval \<Rightarrow> jsnum exn + runner_cost_estimate" where
  "parse_cost v =
     (let num = (\<lambda>kvs k. report_nonnegative (get_prop kvs k) [Lit (''cost.'' @ k)]) in
      rbind (strict_record v None [Lit ''cost'']) (\<lambda>d.
      if get_prop d ''complete'' = JBool False then
        rbind (strict_record v (Some [''complete'', ''reason'']) [Lit ''cost'']) (\<lambda>kvs.
        rbind (nonempty_text (get_prop kvs ''reason'') [Lit ''cost.reason'']) (\<lambda>reason. Inr (CostIncomplete [Lit reason])))
      else
        rbind (check (get_prop d ''complete'' = JBool True) (plain_error [Lit ''cost.complete must be a boolean''])) (\<lambda>_.
        rbind (strict_record v (Some [''complete'', ''currency'', ''computeUsd'', ''diskUsd'', ''networkUsd'', ''runnerTotalUsd'',
          ''hostedBaselineUsd'']) [Lit ''cost'']) (\<lambda>kvs.
        rbind (nonempty_text (get_prop kvs ''currency'') [Lit ''cost.currency'']) (\<lambda>cur.
        rbind (num kvs ''computeUsd'') (\<lambda>compute.
        rbind (num kvs ''diskUsd'') (\<lambda>disk.
        rbind (num kvs ''networkUsd'') (\<lambda>network.
        rbind (num kvs ''runnerTotalUsd'') (\<lambda>total.
        rbind (num kvs ''hostedBaselineUsd'') (\<lambda>hosted.
        Inr (CostComplete \<lparr>cost_currency = cur, computeUsd = compute, diskUsd = disk, networkUsd = network,
               runnerTotalUsd = total, hostedBaselineUsd = hosted\<rparr>)))))))))))"

definition report_array :: "jsval \<Rightarrow> string \<Rightarrow> jsnum exn + jsval list" where
  "report_array v name = require (as_arr v) (plain_error [Lit (name @ '' must be an array'')])"

definition optional_strings :: "fields \<Rightarrow> string \<Rightarrow> jsnum exn + string list option" where
  "optional_strings kvs k =
     (if get_prop kvs k = JUndef then Inr None
      else rbind (string_list (get_prop kvs k) [Lit k] True) (\<lambda>xs. Inr (Some xs)))"

text \<open>The required scenarios of the input are checked to be texts and then replaced by the fixed ones.\<close>

definition parse_report_input :: "jsval \<Rightarrow> jsnum exn + report_input" where
  "parse_report_input v =
     rbind (strict_record v (Some [''candidateDigest'', ''expectedCandidateDigest'', ''requiredScenarios'', ''checks'', ''assignments'',
       ''cleanup'', ''finalProviderState'', ''cost'', ''diagnostics'', ''sensitiveValues'']) [Lit ''runner report input'']) (\<lambda>kvs.
     rbind (nonempty_text (get_prop kvs ''candidateDigest'') [Lit ''candidateDigest'']) (\<lambda>digest.
     rbind (nonempty_text (get_prop kvs ''expectedCandidateDigest'') [Lit ''expectedCandidateDigest'']) (\<lambda>expected.
     rbind (string_list (get_prop kvs ''requiredScenarios'') [Lit ''requiredScenarios''] True) (\<lambda>_.
     rbind (report_array (get_prop kvs ''checks'') ''checks'') (\<lambda>raw.
     rbind (rmapi parse_check 0 raw) (\<lambda>checks.
     rbind (report_array (get_prop kvs ''assignments'') ''assignments'') (\<lambda>raw.
     rbind (rmapi parse_report_assignment 0 raw) (\<lambda>assigned.
     rbind (check (assigned \<noteq> []) (plain_error [Lit ''assignments must contain at least one result''])) (\<lambda>_.
     rbind (check (\<not> has_duplicate_assignments assigned) (plain_error [Lit ''assignments contain duplicate evidence''])) (\<lambda>_.
     rbind (parse_cleanup (get_prop kvs ''cleanup'')) (\<lambda>cleanup.
     rbind (parse_cost (get_prop kvs ''cost'')) (\<lambda>cost.
     rbind (report_vm_status (get_prop kvs ''finalProviderState'') [Lit ''finalProviderState'']) (\<lambda>vm.
     rbind (optional_strings kvs ''diagnostics'') (\<lambda>diag.
     rbind (optional_strings kvs ''sensitiveValues'') (\<lambda>sens.
     Inr \<lparr>ri_candidateDigest = digest, expectedCandidateDigest = expected, requiredScenarios = PHASE_3_REQUIRED_SCENARIOS,
          ri_checks = checks, ri_assignments = assigned, ri_cleanup = cleanup, finalProviderState = vm, ri_cost = cost,
          ri_diagnostics = diag, sensitiveValues = sens\<rparr>)))))))))))))))"

section \<open>Sensitive text\<close>

text \<open>
  A global replacement by a pattern that begins at a word boundary: the matcher gives the length of the
  group that stays and of the whole match. \<open>skip\<close> counts the characters of a match still to be passed.
\<close>

fun replace_matches :: "(string \<Rightarrow> (nat \<times> nat) option) \<Rightarrow> nat \<Rightarrow> char option \<Rightarrow> string \<Rightarrow> string" where
  "replace_matches m skip prev [] = []"
| "replace_matches m (Suc k) prev (c # s) = replace_matches m k (Some c) s"
| "replace_matches m 0 prev (c # s) =
     (case (if boundary_before prev then m (c # s) else None) of
        None \<Rightarrow> c # replace_matches m 0 (Some c) s
      | Some (stay, len) \<Rightarrow> take stay (c # s) @ REDACTED @ replace_matches m (len - 1) (Some c) s)"

text \<open>What follows the lead of a match: the text up to the next white space, which must not be empty.\<close>

definition secret_after :: "string \<Rightarrow> string \<Rightarrow> (nat \<times> nat) option" where
  "secret_after s rest =
     (let w = takeWhile (\<lambda>c. \<not> is_space c) rest; stay = length s - length rest in
      if w = [] then None else Some (stay, stay + length w))"

text \<open>\<open>/\b(authorization\s*:\s*bearer\s+)[^\s]+/gi\<close>\<close>

definition match_bearer :: "string \<Rightarrow> (nat \<times> nat) option" where
  "match_bearer s =
     (if \<not> prefix ''authorization'' (map to_lower s) then None
      else case trim_start (drop 13 s) of
        [] \<Rightarrow> None
      | c # r \<Rightarrow>
          (let b = trim_start r; v = drop 6 b in
           if c \<noteq> CHR '':'' \<or> \<not> prefix ''bearer'' (map to_lower b) \<or> trim_start v = v then None
           else secret_after s (trim_start v)))"

definition named_credential :: "string \<Rightarrow> nat option" where
  "named_credential s =
     map_option length (find (\<lambda>w. prefix w (map to_lower s))
       [''token'', ''secret'', ''password'', ''credential'', ''private_key'', ''private-key'', ''privatekey''])"

text \<open>\<open>/\b(token|secret|password|credential|private[_-]?key)(\s*[=:]\s*)[^\s]+/gi\<close>\<close>

definition match_credential :: "string \<Rightarrow> (nat \<times> nat) option" where
  "match_credential s =
     (case named_credential s of
        None \<Rightarrow> None
      | Some n \<Rightarrow>
          (case trim_start (drop n s) of
             [] \<Rightarrow> None
           | c # r \<Rightarrow> if c \<noteq> CHR ''='' \<and> c \<noteq> CHR '':'' then None else secret_after s (trim_start r)))"

definition report_secrets :: "string list \<Rightarrow> string list" where
  "report_secrets xs = sort_by (\<lambda>a b. length b \<le> length a) (dedup (filter (\<lambda>s. s \<noteq> []) xs))"

definition sanitize :: "string list \<Rightarrow> string \<Rightarrow> string" where
  "sanitize values s =
     replace_matches match_credential 0 None
       (replace_matches match_bearer 0 None (foldl (\<lambda>t x. replace_all x t) s (report_secrets values)))"

text \<open>The reason of an incomplete estimate is one text.\<close>

definition sanitize_cost :: "(string \<Rightarrow> string) \<Rightarrow> runner_cost_estimate \<Rightarrow> runner_cost_estimate" where
  "sanitize_cost san cost =
     (case cost of
        CostComplete c \<Rightarrow> CostComplete (c\<lparr>cost_currency := san (cost_currency c)\<rparr>)
      | CostIncomplete m \<Rightarrow> CostIncomplete (map (\<lambda>f. case f of Lit s \<Rightarrow> Lit (san s) | _ \<Rightarrow> f) m))"

section \<open>Completeness\<close>

definition valid_complete_cost :: "cost_breakdown \<Rightarrow> bool" where
  "valid_complete_cost c \<longleftrightarrow>
     list_all nonnegative_finite [computeUsd c, diskUsd c, networkUsd c, runnerTotalUsd c, hostedBaselineUsd c]
     \<and> \<not> is_blank (cost_currency c)"

definition valid_assignment :: "assignment_evidence \<Rightarrow> bool" where
  "valid_assignment a \<longleftrightarrow>
     list_all positive_int [as_runId a, as_runAttempt a, as_jobId a, as_runnerId a]
     \<and> \<not> is_blank (as_runnerName a) \<and> \<not> is_blank (as_conclusion a)"

definition reason_when :: "bool \<Rightarrow> jsnum message \<Rightarrow> jsnum message list" where
  "reason_when b m = (if b then [m] else [])"

definition report_scenario_reasons :: "string \<Rightarrow> scenario_check list \<Rightarrow> string \<Rightarrow> jsnum message list" where
  "report_scenario_reasons digest checks scenario =
     (let results = filter (\<lambda>c. sc_scenario c = scenario) checks;
          msg = (\<lambda>s. [Lit ''required scenario '', Lit scenario, Lit s]) in
      case results of
        [] \<Rightarrow> [msg '' is missing'']
      | first # _ \<Rightarrow>
          let selected = (case find (\<lambda>c. sc_candidateDigest c = digest) results of Some c \<Rightarrow> c | None \<Rightarrow> first) in
          reason_when (1 < length results) (msg '' has duplicate results'')
          @ reason_when (list_ex (\<lambda>c. sc_candidateDigest c \<noteq> digest) results) (msg '' has a mismatched candidate'')
          @ reason_when (sc_status selected \<noteq> Passed)
              [Lit ''required scenario '', Lit scenario, Lit '' is '', Lit (scenario_status_str (sc_status selected))]
          @ reason_when (sc_evidence selected = []) (msg '' has no evidence''))"

definition cleanup_reasons :: "vm_status \<Rightarrow> cleanup_readback option \<Rightarrow> jsnum message list" where
  "cleanup_reasons final cleanup =
     (case cleanup of
        None \<Rightarrow> [[Lit ''cleanup readback is missing'']]
      | Some c \<Rightarrow>
          reason_when (\<not> cl_complete c) [Lit ''cleanup readback is incomplete'']
          @ (case ownedRunnersRemaining c of
               None \<Rightarrow> [[Lit ''owned runner cleanup is unknown'']]
             | Some n \<Rightarrow> reason_when (\<not> num_eq n (Fin 0)) [Lit ''cleanup left owned runners''])
          @ (case diskPresent c of
               None \<Rightarrow> [[Lit ''owned disk cleanup is unknown'']]
             | Some b \<Rightarrow> reason_when b [Lit ''cleanup left an owned disk''])
          @ reason_when (unresolvedResources c \<noteq> []) [Lit ''cleanup has unresolved resources'']
          @ reason_when (cl_vmState c \<noteq> final) [Lit ''cleanup readback does not match final provider state''])"

definition provider_reasons :: "vm_status \<Rightarrow> jsnum message list" where
  "provider_reasons final =
     (if final = VUnknown then [[Lit ''final provider state is unknown'']]
      else reason_when (final \<noteq> VAbsent \<and> final \<noteq> VStopped)
        [Lit ''final provider state '', Lit (vm_status_str final), Lit '' is not terminal''])"

definition cost_reasons :: "runner_cost_estimate \<Rightarrow> jsnum message list" where
  "cost_reasons cost =
     (case cost of
        CostIncomplete m \<Rightarrow> [Lit ''cost evidence is incomplete: '' # m]
      | CostComplete c \<Rightarrow>
          if \<not> valid_complete_cost c then [[Lit ''cost estimate contains invalid values'']]
          else reason_when (num_eq (runnerTotalUsd c) (Fin 0)) [Lit ''cost estimate must not silently report a zero total''])"

definition completeness_reasons ::
  "report_input \<Rightarrow> scenario_check list \<Rightarrow> assignment_evidence list \<Rightarrow> cleanup_readback option \<Rightarrow> runner_cost_estimate
     \<Rightarrow> jsnum message list" where
  "completeness_reasons inp checks assigned cleanup cost =
     reason_when (ri_candidateDigest inp \<noteq> expectedCandidateDigest inp) [Lit ''candidate digest does not match the expected candidate'']
     @ reason_when (\<not> list_ex (\<lambda>c. sc_status c = Passed) checks) [Lit ''report has zero passing checks'']
     @ reason_when (assigned = []) [Lit ''report has zero assignment evidence'']
     @ reason_when (list_ex (\<lambda>a. \<not> valid_assignment a) assigned) [Lit ''assignment evidence contains invalid values'']
     @ reason_when (has_duplicate_assignments assigned) [Lit ''report has duplicate assignment evidence'']
     @ concat (map (report_scenario_reasons (ri_candidateDigest inp) checks) PHASE_3_REQUIRED_SCENARIOS)
     @ cleanup_reasons (finalProviderState inp) cleanup
     @ provider_reasons (finalProviderState inp)
     @ cost_reasons cost"

definition build_runner_report :: "report_input \<Rightarrow> runner_report" where
  "build_runner_report inp =
     (let san = sanitize (case sensitiveValues inp of None \<Rightarrow> [] | Some xs \<Rightarrow> xs);
          checks = map (\<lambda>c. c\<lparr>sc_evidence := map san (sc_evidence c)\<rparr>) (ri_checks inp);
          assigned = map (\<lambda>a. a\<lparr>as_runnerName := san (as_runnerName a), as_conclusion := san (as_conclusion a)\<rparr>)
            (ri_assignments inp);
          cleanup = map_option (\<lambda>c. c\<lparr>unresolvedResources := map san (unresolvedResources c)\<rparr>) (ri_cleanup inp);
          cost = sanitize_cost san (ri_cost inp);
          reasons = completeness_reasons inp checks assigned cleanup cost in
      \<lparr>rr_complete = (reasons = []), rr_reasons = reasons, rr_candidateDigest = ri_candidateDigest inp, rr_checks = checks,
       rr_assignments = assigned, rr_cleanup = cleanup, rr_finalProviderState = finalProviderState inp, rr_cost = cost,
       rr_diagnostics = map san (case ri_diagnostics inp of None \<Rightarrow> [] | Some xs \<Rightarrow> xs)\<rparr>)"

end
