(* ===== verification/Report_Properties.thy ===== *)
theory Report_Properties
  imports Report
begin

text \<open>
  When a report is complete: the reasons come out empty exactly for a trial that proves what it has to.
\<close>

section \<open>Removing sensitive text leaves text\<close>

lemma REDACTED_not_blank [simp]: "\<not> is_blank (REDACTED @ s)"
  by (simp add: REDACTED_def is_blank_iff is_space_def)

lemma is_blank_append: "is_blank (a @ b) \<longleftrightarrow> is_blank a \<and> is_blank b"
  by (auto simp: is_blank_iff)

lemma replace_all_not_blank: "\<not> is_blank s \<Longrightarrow> \<not> is_blank (replace_all x s)"
proof (induction x s rule: replace_all.induct)
  case (2 x c s)
  show ?case
  proof (cases "x \<noteq> [] \<and> prefix x (c # s)")
    case True
    then show ?thesis by (simp only: replace_all.simps if_True REDACTED_not_blank) simp
  next
    case False
    then have "replace_all x (c # s) = c # replace_all x s" by (subst replace_all.simps(2)) (rule if_not_P)
    then show ?thesis using 2 False by auto
  qed
qed simp

lemma replace_matches_not_blank: "\<not> is_blank s \<Longrightarrow> \<not> is_blank (replace_matches m 0 prev s)"
proof (induction s arbitrary: prev)
  case (Cons c s)
  then show ?case by (auto simp: is_blank_append REDACTED_def is_space_def split: option.split)
qed simp

lemma sanitize_not_blank: "\<not> is_blank s \<Longrightarrow> \<not> is_blank (sanitize values s)"
proof -
  assume s: "\<not> is_blank s"
  have "\<not> is_blank (foldl (\<lambda>t x. replace_all x t) s xs)" for xs
    using s by (induction xs arbitrary: s) (simp_all add: replace_all_not_blank)
  then show ?thesis by (simp add: sanitize_def replace_matches_not_blank)
qed

section \<open>What the parser guarantees\<close>

lemma nonempty_textD: "nonempty_text v name = Inr s \<Longrightarrow> \<not> is_blank s"
  by (auto simp: nonempty_text_def split: jsval.splits if_splits)

lemma number_whereD: "number_where P what v name = Inr n \<Longrightarrow> P n"
  by (auto simp: number_where_def split: jsval.splits if_splits)

lemma parse_assignmentD: "parse_report_assignment i v = Inr a \<Longrightarrow> valid_assignment a"
  unfolding parse_report_assignment_def Let_def report_positive_def
  by (auto simp: rbind_eq_Inr valid_assignment_def dest!: number_whereD nonempty_textD)

lemma parse_assignmentsD: "rmapi parse_report_assignment i vs = Inr xs \<Longrightarrow> list_all valid_assignment xs"
proof (induction vs arbitrary: i xs)
  case (Cons v vs)
  then show ?case by (auto simp: rbind_eq_Inr dest: parse_assignmentD)
qed simp

lemma not_less_nonneg: "is_finite n \<Longrightarrow> \<not> n < Fin 0 \<Longrightarrow> nonnegative_finite n"
  by (auto simp: nonnegative_finite_def is_finite_iff)

lemma parse_costD: "parse_cost v = Inr (CostComplete c) \<Longrightarrow> valid_complete_cost c"
  unfolding parse_cost_def Let_def report_nonnegative_def
  by (auto simp: rbind_eq_Inr valid_complete_cost_def not_less_nonneg split: if_split_asm
      dest!: number_whereD nonempty_textD)

definition report_input_ok :: "report_input \<Rightarrow> bool" where
  "report_input_ok inp \<longleftrightarrow>
     ri_assignments inp \<noteq> [] \<and> list_all valid_assignment (ri_assignments inp)
     \<and> distinct (map assignment_identity (ri_assignments inp))
     \<and> (\<forall>c. ri_cost inp = CostComplete c \<longrightarrow> valid_complete_cost c)
     \<and> (\<forall>c n. ri_cleanup inp = Some c \<longrightarrow> ownedRunnersRemaining c = Some n \<longrightarrow> is_integer n)"

lemma parse_cleanupD:
  "parse_cleanup v = Inr (Some c) \<Longrightarrow> ownedRunnersRemaining c = Some n \<Longrightarrow> is_integer n"
  unfolding parse_cleanup_def report_nonnegative_integer_def
  by (auto simp: rbind_eq_Inr split: if_split_asm dest!: number_whereD)

lemma parse_report_inputD:
  assumes "parse_report_input v = Inr inp" shows "report_input_ok inp"
  using assms unfolding parse_report_input_def
  by (auto simp: rbind_eq_Inr step_eq_Inr report_input_ok_def has_duplicate_assignments_def
      dest: parse_assignmentsD parse_costD parse_cleanupD)

section \<open>Completeness\<close>

definition scenario_proven :: "report_input \<Rightarrow> string \<Rightarrow> bool" where
  "scenario_proven inp scenario \<longleftrightarrow>
     (\<exists>c. filter (\<lambda>c. sc_scenario c = scenario) (ri_checks inp) = [c]
        \<and> sc_candidateDigest c = ri_candidateDigest inp \<and> sc_status c = Passed \<and> sc_evidence c \<noteq> [])"

definition trial_proven :: "report_input \<Rightarrow> bool" where
  "trial_proven inp \<longleftrightarrow>
     ri_candidateDigest inp = expectedCandidateDigest inp
     \<and> (\<forall>s \<in> set PHASE_3_REQUIRED_SCENARIOS. scenario_proven inp s)
     \<and> (\<exists>c. ri_cleanup inp = Some c \<and> cl_complete c \<and> ownedRunnersRemaining c = Some (Fin 0)
          \<and> diskPresent c = Some False \<and> unresolvedResources c = [] \<and> cl_vmState c = finalProviderState inp)
     \<and> finalProviderState inp \<in> {VAbsent, VStopped}
     \<and> (\<exists>c. ri_cost inp = CostComplete c \<and> runnerTotalUsd c \<noteq> Fin 0)"

lemma reason_when_Nil [simp]: "reason_when b m = [] \<longleftrightarrow> \<not> b"
  by (simp add: reason_when_def)

lemma report_scenario_reasons_Nil:
  "report_scenario_reasons digest checks s = [] \<longleftrightarrow>
     (\<exists>c. filter (\<lambda>c. sc_scenario c = s) checks = [c] \<and> sc_candidateDigest c = digest \<and> sc_status c = Passed
        \<and> sc_evidence c \<noteq> [])"
  by (cases "filter (\<lambda>c. sc_scenario c = s) checks") (auto simp: report_scenario_reasons_def Let_def)

lemma filter_evidence:
  "filter (\<lambda>c. sc_scenario c = s) (map (\<lambda>c. c\<lparr>sc_evidence := map f (sc_evidence c)\<rparr>) cs) =
   map (\<lambda>c. c\<lparr>sc_evidence := map f (sc_evidence c)\<rparr>) (filter (\<lambda>c. sc_scenario c = s) cs)"
  by (induction cs) auto

lemma scenario_sanitized:
  "report_scenario_reasons (ri_candidateDigest inp) (map (\<lambda>c. c\<lparr>sc_evidence := map f (sc_evidence c)\<rparr>) (ri_checks inp)) s = []
   \<longleftrightarrow> scenario_proven inp s"
  unfolding report_scenario_reasons_Nil filter_evidence scenario_proven_def
  by (auto simp: map_eq_Cons_conv)

lemma num_eq_zero: "num_eq n (Fin 0) \<longleftrightarrow> n = Fin 0"
  by (cases n) (auto simp: num_eq_def)

lemma cleanup_reasons_Nil:
  "cleanup_reasons final (map_option (\<lambda>c. c\<lparr>unresolvedResources := map f (unresolvedResources c)\<rparr>) cl) = [] \<longleftrightarrow>
   (\<exists>c. cl = Some c \<and> cl_complete c \<and> ownedRunnersRemaining c = Some (Fin 0) \<and> diskPresent c = Some False
      \<and> unresolvedResources c = [] \<and> cl_vmState c = final)"
  by (auto simp: cleanup_reasons_def num_eq_zero split: option.splits)

lemma provider_reasons_Nil: "provider_reasons final = [] \<longleftrightarrow> final \<in> {VAbsent, VStopped}"
  by (auto simp: provider_reasons_def)

lemma cost_reasons_Nil:
  assumes "\<forall>c. cost = CostComplete c \<longrightarrow> valid_complete_cost c"
  shows "cost_reasons (sanitize_cost (sanitize values) cost) = [] \<longleftrightarrow> (\<exists>c. cost = CostComplete c \<and> runnerTotalUsd c \<noteq> Fin 0)"
  using assms sanitize_not_blank
  by (cases cost) (auto simp: cost_reasons_def sanitize_cost_def valid_complete_cost_def num_eq_zero)

lemma valid_assignment_sanitized:
  "valid_assignment a \<Longrightarrow>
   valid_assignment (a\<lparr>as_runnerName := sanitize vs (as_runnerName a), as_conclusion := sanitize vs (as_conclusion a)\<rparr>)"
  by (simp add: valid_assignment_def sanitize_not_blank)

lemma complete_iff_proven:
  assumes ok: "report_input_ok inp"
  shows "rr_complete (build_runner_report inp) \<longleftrightarrow> trial_proven inp"
proof -
  let ?san = "sanitize (case sensitiveValues inp of None \<Rightarrow> [] | Some xs \<Rightarrow> xs)"
  let ?checks = "map (\<lambda>c. c\<lparr>sc_evidence := map ?san (sc_evidence c)\<rparr>) (ri_checks inp)"
  let ?assigned = "map (\<lambda>a. a\<lparr>as_runnerName := ?san (as_runnerName a), as_conclusion := ?san (as_conclusion a)\<rparr>) (ri_assignments inp)"
  have ids: "map assignment_identity ?assigned = map assignment_identity (ri_assignments inp)"
    by (simp add: assignment_identity_def)
  have assigned: "?assigned \<noteq> []" "\<not> list_ex (\<lambda>a. \<not> valid_assignment a) ?assigned" "\<not> has_duplicate_assignments ?assigned"
    using ok valid_assignment_sanitized
    by (auto simp: report_input_ok_def list_ex_iff list_all_iff) (simp only: has_duplicate_assignments_def ids simp_thms)
  have scenarios: "concat (map (report_scenario_reasons (ri_candidateDigest inp) ?checks) PHASE_3_REQUIRED_SCENARIOS) = []
      \<longleftrightarrow> (\<forall>s \<in> set PHASE_3_REQUIRED_SCENARIOS. scenario_proven inp s)"
    by (simp only: concat_eq_Nil_conv set_map ball_simps scenario_sanitized)
  have passed: "list_ex (\<lambda>c. sc_status c = Passed) ?checks" if sp: "scenario_proven inp s" for s
  proof -
    obtain c where "filter (\<lambda>c. sc_scenario c = s) (ri_checks inp) = [c]" "sc_status c = Passed"
      using sp by (auto simp: scenario_proven_def)
    then have "c \<in> set (ri_checks inp)" "sc_status c = Passed" by (metis filter_is_subset list.set_intros(1) subset_iff)+
    then show ?thesis by (auto simp: list_ex_iff)
  qed
  have r10: "''R10'' \<in> set PHASE_3_REQUIRED_SCENARIOS" by (simp add: PHASE_3_REQUIRED_SCENARIOS_def)
  have "rr_complete (build_runner_report inp) \<longleftrightarrow>
      completeness_reasons inp ?checks ?assigned
        (map_option (\<lambda>c. c\<lparr>unresolvedResources := map ?san (unresolvedResources c)\<rparr>) (ri_cleanup inp))
        (sanitize_cost ?san (ri_cost inp)) = []"
    by (simp add: build_runner_report_def Let_def)
  also have "\<dots> \<longleftrightarrow> trial_proven inp"
    unfolding completeness_reasons_def append_is_Nil_conv reason_when_Nil scenarios cleanup_reasons_Nil provider_reasons_Nil
      trial_proven_def
    using assigned passed r10 cost_reasons_Nil [of "ri_cost inp"] ok [unfolded report_input_ok_def] by blast
  finally show ?thesis .
qed

text \<open>
  C33 (functional). A report read from its input is complete exactly when the trial proves what it has to: the
  candidate is the expected one; each required scenario has a single result, of this candidate, passed and
  with evidence; the cleanup readback is complete, leaves no runner, disk or unresolved resource, and agrees
  with the final state of the VM, which is absent or stopped; and the cost is complete and not zero.
\<close>

theorem report_complete_iff:
  assumes "parse_report_input v = Inr inp"
  shows "rr_complete (build_runner_report inp) \<longleftrightarrow> trial_proven inp"
  by (rule complete_iff_proven [OF parse_report_inputD [OF assms]])

definition sample_report_json :: jsval where
  "sample_report_json = JObj [(''candidateDigest'', JStr ''d''), (''expectedCandidateDigest'', JStr ''d''), (''requiredScenarios'', JArr []),
     (''checks'', JArr (map (\<lambda>s. JObj [(''scenario'', JStr s), (''status'', JStr ''passed''), (''candidateDigest'', JStr ''d''),
        (''evidence'', JArr [JStr ''token: abc''])]) PHASE_3_REQUIRED_SCENARIOS)),
     (''assignments'', JArr [JObj [(''runId'', JNum (Fin 1)), (''runAttempt'', JNum (Fin 1)), (''jobId'', JNum (Fin 2)),
        (''runnerId'', JNum (Fin 3)), (''runnerName'', JStr ''r''), (''conclusion'', JStr ''success'')]]),
     (''cleanup'', JObj [(''complete'', JBool True), (''vmState'', JStr ''absent''), (''ownedRunnersRemaining'', JNum (Fin 0)),
        (''diskPresent'', JBool False), (''unresolvedResources'', JArr [])]),
     (''finalProviderState'', JStr ''absent''),
     (''cost'', JObj [(''complete'', JBool True), (''currency'', JStr ''USD''), (''computeUsd'', JNum (Fin 1)), (''diskUsd'', JNum (Fin 0)),
        (''networkUsd'', JNum (Fin 0)), (''runnerTotalUsd'', JNum (Fin 1)), (''hostedBaselineUsd'', JNum (Fin 2))])]"

lemma sample_report_complete:
  "case parse_report_input sample_report_json of Inr x \<Rightarrow> rr_complete (build_runner_report x) | Inl _ \<Rightarrow> False"
  by code_simp

theorem report_complete_iff_witness:
  "\<exists>inp. parse_report_input sample_report_json = Inr inp \<and> trial_proven inp"
  using sample_report_complete report_complete_iff [of sample_report_json] by (auto split: sum.splits)

end
