(* ===== verification/Billing.thy ===== *)
theory Billing
  imports JsValue
begin

text \<open>
  Billable minutes of GitHub Actions (\<open>core/billing.ts\<close>): the minutes of one job, the summary of many, the
  parser of a jobs inventory, the ranking of workflows and the price of minutes. \<open>date_of\<close> is \<open>Date.parse\<close>.
\<close>

section \<open>Minutes\<close>

record job_timing =
  jt_name :: string
  jt_startedAt :: "string option"
  jt_completedAt :: "string option"

definition MS_PER_MINUTE :: jsnum where "MS_PER_MINUTE = Fin 60000"

definition HOSTED_LINUX_USD_PER_MINUTE :: jsnum where "HOSTED_LINUX_USD_PER_MINUTE = fl (6 / 1000)"

definition billable_minutes_for_job :: "(string \<Rightarrow> jsnum) \<Rightarrow> job_timing \<Rightarrow> jsnum option" where
  "billable_minutes_for_job date_of j =
     (case (jt_startedAt j, jt_completedAt j) of
        (Some s, Some c) \<Rightarrow>
          let started = date_of s; completed = date_of c in
          if started = NaN \<or> completed = NaN \<or> completed < started then None
          else Some (num_ceil (num_div (completed - started) MS_PER_MINUTE))
      | _ \<Rightarrow> None)"

record billable_summary =
  bs_billableMinutes :: jsnum
  bs_measuredJobs :: jsnum
  bs_skippedJobs :: jsnum

definition summary_step :: "(string \<Rightarrow> jsnum) \<Rightarrow> billable_summary \<Rightarrow> job_timing \<Rightarrow> billable_summary" where
  "summary_step date_of s j =
     (case billable_minutes_for_job date_of j of
        None \<Rightarrow> s\<lparr>bs_skippedJobs := bs_skippedJobs s + Fin 1\<rparr>
      | Some m \<Rightarrow> s\<lparr>bs_billableMinutes := bs_billableMinutes s + m, bs_measuredJobs := bs_measuredJobs s + Fin 1\<rparr>)"

definition summarize_billable_minutes :: "(string \<Rightarrow> jsnum) \<Rightarrow> job_timing list \<Rightarrow> billable_summary" where
  "summarize_billable_minutes date_of jobs =
     foldl (summary_step date_of) \<lparr>bs_billableMinutes = Fin 0, bs_measuredJobs = Fin 0, bs_skippedJobs = Fin 0\<rparr> jobs"

section \<open>The jobs inventory\<close>

definition billing_error :: "jsnum message \<Rightarrow> jsnum exn" where
  "billing_error m = Exn BillingInputError m"

definition timestamp_or_null :: "jsval \<Rightarrow> string option" where
  "timestamp_or_null v = (case v of JStr s \<Rightarrow> if s = [] then None else Some s | _ \<Rightarrow> None)"

text \<open>An array is an object to \<open>typeof\<close>, one without the members asked for.\<close>

fun object_members :: "jsval \<Rightarrow> fields option" where
  "object_members (JObj kvs) = Some kvs"
| "object_members (JArr _) = Some []"
| "object_members _ = None"

definition parse_github_job :: "nat \<Rightarrow> jsval \<Rightarrow> jsnum exn + job_timing" where
  "parse_github_job i entry =
     (let where_at = [Lit ''GitHub job at index '', Num (Fin (of_nat i))] in
      rbind (require (object_members entry) (billing_error (where_at @ [Lit '' is not an object.'']))) (\<lambda>kvs.
      rbind (require (as_str (get_prop kvs ''name'')) (billing_error (where_at @ [Lit '' has no string `name`.'']))) (\<lambda>name.
      Inr \<lparr>jt_name = name, jt_startedAt = timestamp_or_null (get_prop kvs ''started_at''),
           jt_completedAt = timestamp_or_null (get_prop kvs ''completed_at'')\<rparr>)))"

definition parse_github_jobs :: "jsval \<Rightarrow> jsnum exn + job_timing list" where
  "parse_github_jobs payload =
     (let bad = billing_error [Lit ''GitHub jobs payload must be an object with a `jobs` array.''] in
      rbind (require (object_members payload) bad) (\<lambda>kvs.
      rbind (check (has_own kvs ''jobs'') bad) (\<lambda>_.
      rbind (require (as_arr (get_prop kvs ''jobs''))
        (billing_error [Lit ''GitHub jobs payload field `jobs` must be an array.''])) (\<lambda>jobs.
      rbind (check (has_own kvs ''total_count'' \<longrightarrow>
          (case get_prop kvs ''total_count'' of
             JNum n \<Rightarrow> is_safe_integer n \<and> \<not> n < Fin 0 \<and> num_eq n (Fin (of_nat (length jobs)))
           | _ \<Rightarrow> False))
        (billing_error [Lit ''GitHub jobs payload `total_count` must equal the complete jobs array length; collect all pages before estimating.''])) (\<lambda>_.
      rmapi parse_github_job 0 jobs)))))"

section \<open>Ranking and price\<close>

record workflow_usage_input =
  wu_repository :: string
  wu_workflow :: string
  wu_runs :: jsnum
  wu_sampledMinutes :: "jsnum list"

record workflow_usage = workflow_usage_input +
  wu_averageMinutesPerRun :: jsnum
  wu_estimatedMinutes :: jsnum

definition estimate_usage :: "workflow_usage_input \<Rightarrow> workflow_usage" where
  "estimate_usage u =
     (let sample = wu_sampledMinutes u;
          average = (if sample = [] then Fin 0
                     else num_div (foldl (+) (Fin 0) sample) (Fin (of_nat (length sample)))) in
      \<lparr>wu_repository = wu_repository u, wu_workflow = wu_workflow u, wu_runs = wu_runs u, wu_sampledMinutes = sample,
       wu_averageMinutesPerRun = average, wu_estimatedMinutes = num_round (average * wu_runs u)\<rparr>)"

definition rank_workflow_usage :: "workflow_usage_input list \<Rightarrow> workflow_usage list" where
  "rank_workflow_usage xs =
     sort_by (\<lambda>a b. \<not> wu_estimatedMinutes a < wu_estimatedMinutes b) (map estimate_usage xs)"

definition estimate_cost_usd :: "jsnum \<Rightarrow> jsnum option \<Rightarrow> jsnum exn + jsnum" where
  "estimate_cost_usd minutes rate =
     (let usd = (case rate of None \<Rightarrow> HOSTED_LINUX_USD_PER_MINUTE | Some r \<Rightarrow> r) in
      rbind (check (is_finite minutes \<and> \<not> minutes < Fin 0)
        (billing_error [Lit ''minutes must be a non-negative finite number.''])) (\<lambda>_.
      rbind (check (is_finite usd \<and> \<not> usd < Fin 0)
        (billing_error [Lit ''usdPerMinute must be a non-negative finite number.''])) (\<lambda>_.
      Inr (num_div (num_round (minutes * usd * Fin 100)) (Fin 100)))))"

end
