(* ===== verification/Telemetry.thy ===== *)
theory Telemetry
  imports FleetController Billing Accounting
begin

text \<open>
  Measured jobs and the savings report (\<open>cli/telemetry.ts\<close>): the classification, timing and price of one job,
  the merge of the snapshots of a window, the report of each enrollment against the controller's journals,
  and the totals. \<open>date_of\<close> is \<open>Date.parse\<close>.
\<close>

section \<open>Data\<close>

datatype visibility = VisPrivate | VisPublic

fun visibility_str :: "visibility \<Rightarrow> string" where
  "visibility_str VisPrivate = ''private''"
| "visibility_str VisPublic = ''public''"

datatype runner_kind = GithubHosted | CirujanoRun | OtherSelfHosted

fun runner_kind_str :: "runner_kind \<Rightarrow> string" where
  "runner_kind_str GithubHosted = ''github-hosted''"
| "runner_kind_str CirujanoRun = ''cirujano''"
| "runner_kind_str OtherSelfHosted = ''self-hosted''"

datatype measurement_status = Measured | NotRun | TimingIncomplete

fun measurement_str :: "measurement_status \<Rightarrow> string" where
  "measurement_str Measured = ''measured''"
| "measurement_str NotRun = ''not-run''"
| "measurement_str TimingIncomplete = ''incomplete''"

record telemetry_run =
  tr_id :: jsnum
  tr_attempt :: jsnum
  tr_workflowName :: string
  tr_event :: string
  tr_createdAt :: string
  tr_conclusion :: string

record telemetry_job_input =
  ti_id :: jsnum
  ti_name :: string
  ti_startedAt :: "string option"
  ti_completedAt :: "string option"
  ti_conclusion :: string
  ti_labels :: "string list"
  ti_runnerName :: string
  ti_runnerGroupName :: string

text \<open>
  A key of the source is its parts with a colon between them. The parts after the repository are numbers,
  whose text holds no colon, so equal keys have equal parts.
\<close>

type_synonym attempt_key = "string \<times> jsnum \<times> jsnum"
type_synonym execution_key = "string \<times> jsnum \<times> jsnum \<times> jsnum"

record telemetry_job =
  tj_key :: execution_key
  tj_repository :: string
  tj_visibility :: visibility
  tj_workflowName :: string
  tj_runId :: jsnum
  tj_runAttempt :: jsnum
  tj_jobId :: jsnum
  tj_jobName :: string
  tj_event :: string
  tj_conclusion :: string
  tj_createdAt :: string
  tj_startedAt :: "string option"
  tj_completedAt :: "string option"
  tj_runnerKind :: runner_kind
  tj_runnerName :: string
  tj_runnerGroupName :: string
  tj_labels :: "string list"
  tj_measurementStatus :: measurement_status
  tj_durationMs :: "jsnum option"
  tj_billableMinutes :: "jsnum option"
  tj_hostedSku :: "hosted_sku option"
  tj_hostedUsdPerMinute :: "jsnum option"
  tj_pricingSource :: string
  tj_actualCost :: "jsnum option"
  tj_counterfactualCost :: "jsnum option"

record run_evidence = telemetry_run +
  re_key :: attempt_key
  re_repository :: string
  re_jobsObserved :: jsnum
  re_reusable :: bool

record telemetry_snapshot =
  sn_owner :: string
  sn_collectedAt :: string
  sn_windowStart :: string
  sn_inventory :: "(string \<times> visibility) list"
  sn_repositoriesScanned :: jsnum
  sn_runsScanned :: jsnum
  sn_runs :: "run_evidence list"
  sn_jobs :: "telemetry_job list"

section \<open>One job\<close>

definition PRICING_SOURCE :: string where
  "PRICING_SOURCE = ''https://docs.github.com/en/billing/reference/actions-runner-pricing''"

definition money8 :: "jsnum \<Rightarrow> jsnum" where
  "money8 v = num_div (num_round (v * Fin 100000000)) (Fin 100000000)"

definition round4 :: "jsnum \<Rightarrow> jsnum" where
  "round4 v = num_div (num_round (v * Fin 10000)) (Fin 10000)"

definition classify_runner :: "telemetry_job_input \<Rightarrow> runner_kind" where
  "classify_runner j =
     (if ''self-hosted'' \<notin> set (ti_labels j) then GithubHosted
      else if prefix ''cirujano-'' (ti_runnerName j) then CirujanoRun
      else OtherSelfHosted)"

fun first_sku :: "string list \<Rightarrow> hosted_sku option" where
  "first_sku [] = None"
| "first_sku (l # ls) = (case cirujano_sku_for_label l of Some sku \<Rightarrow> Some sku | None \<Rightarrow> first_sku ls)"

definition job_sku :: "string list \<Rightarrow> runner_kind \<Rightarrow> hosted_sku option" where
  "job_sku labels kind =
     (if kind = CirujanoRun then first_sku (map (map to_lower) labels) else hosted_sku_for_labels labels)"

definition measurement_of :: "(string \<Rightarrow> jsnum) \<Rightarrow> telemetry_job_input \<Rightarrow> measurement_status" where
  "measurement_of date_of j =
     (if ti_conclusion j = [] then TimingIncomplete
      else case (ti_startedAt j, ti_completedAt j) of
        (None, None) \<Rightarrow> NotRun
      | (Some s, Some c) \<Rightarrow>
          if is_finite (date_of s) \<and> is_finite (date_of c) \<and> date_of s \<le> date_of c then Measured else TimingIncomplete
      | _ \<Rightarrow> TimingIncomplete)"

definition job_minutes :: "(string \<Rightarrow> jsnum) \<Rightarrow> telemetry_job_input \<Rightarrow> jsnum option" where
  "job_minutes date_of j =
     (case measurement_of date_of j of
        Measured \<Rightarrow> billable_minutes_for_job date_of
          \<lparr>jt_name = ti_name j, jt_startedAt = ti_startedAt j, jt_completedAt = ti_completedAt j\<rparr>
      | NotRun \<Rightarrow> Some (Fin 0)
      | TimingIncomplete \<Rightarrow> None)"

definition job_duration :: "(string \<Rightarrow> jsnum) \<Rightarrow> telemetry_job_input \<Rightarrow> jsnum option" where
  "job_duration date_of j =
     (case measurement_of date_of j of
        Measured \<Rightarrow> Some (date_of (the (ti_completedAt j)) - date_of (the (ti_startedAt j)))
      | NotRun \<Rightarrow> Some (Fin 0)
      | TimingIncomplete \<Rightarrow> None)"

definition list_price :: "jsnum option \<Rightarrow> jsnum option \<Rightarrow> jsnum option" where
  "list_price minutes rate =
     (case (minutes, rate) of (Some m, Some r) \<Rightarrow> Some (money8 (m * r)) | _ \<Rightarrow> None)"

definition normalize_telemetry_job ::
  "(string \<Rightarrow> jsnum) \<Rightarrow> string \<Rightarrow> visibility \<Rightarrow> telemetry_run \<Rightarrow> telemetry_job_input \<Rightarrow> telemetry_job" where
  "normalize_telemetry_job date_of repo vis run j =
     (let minutes = job_minutes date_of j; kind = classify_runner j; sku = job_sku (ti_labels j) kind;
          rate = map_option SKU_RATES sku; price = list_price minutes rate;
          free = (measurement_of date_of j = NotRun \<or> vis = VisPublic) in
      \<lparr>tj_key = (repo, tr_id run, tr_attempt run, ti_id j), tj_repository = repo, tj_visibility = vis,
       tj_workflowName = tr_workflowName run, tj_runId = tr_id run, tj_runAttempt = tr_attempt run, tj_jobId = ti_id j,
       tj_jobName = ti_name j, tj_event = tr_event run, tj_conclusion = ti_conclusion j, tj_createdAt = tr_createdAt run,
       tj_startedAt = ti_startedAt j, tj_completedAt = ti_completedAt j, tj_runnerKind = kind,
       tj_runnerName = ti_runnerName j, tj_runnerGroupName = ti_runnerGroupName j,
       tj_labels = sort_by (\<lambda>a b. \<not> str_less b a) (ti_labels j), tj_measurementStatus = measurement_of date_of j,
       tj_durationMs = job_duration date_of j, tj_billableMinutes = minutes, tj_hostedSku = sku,
       tj_hostedUsdPerMinute = rate, tj_pricingSource = PRICING_SOURCE,
       tj_actualCost = (if kind \<noteq> GithubHosted \<or> free then Some (Fin 0) else price),
       tj_counterfactualCost = (if kind = OtherSelfHosted \<or> free then Some (Fin 0) else price)\<rparr>)"

section \<open>Two observations of a job\<close>

text \<open>\<open>JSON.stringify\<close> prints a number that is not finite as \<open>null\<close>.\<close>

definition json_number :: "jsnum \<Rightarrow> jsval" where
  "json_number n = (if is_finite n then JNum n else JNull)"

definition json_nullable :: "('a \<Rightarrow> jsval) \<Rightarrow> 'a option \<Rightarrow> jsval" where
  "json_nullable f x = (case x of None \<Rightarrow> JNull | Some y \<Rightarrow> f y)"

definition json_key :: "execution_key \<Rightarrow> jsval" where
  "json_key k = (case k of (repo, run, att, job) \<Rightarrow> JArr [JStr repo, json_number run, json_number att, json_number job])"

text \<open>The members of a job, and the sorted names of those in which two observations differ.\<close>

definition job_members :: "telemetry_job \<Rightarrow> fields" where
  "job_members j =
     [(''key'', json_key (tj_key j)),
      (''repository'', JStr (tj_repository j)),
      (''visibility'', JStr (visibility_str (tj_visibility j))),
      (''workflowName'', JStr (tj_workflowName j)),
      (''runId'', json_number (tj_runId j)),
      (''runAttempt'', json_number (tj_runAttempt j)),
      (''jobId'', json_number (tj_jobId j)),
      (''jobName'', JStr (tj_jobName j)),
      (''event'', JStr (tj_event j)),
      (''conclusion'', JStr (tj_conclusion j)),
      (''createdAt'', JStr (tj_createdAt j)),
      (''startedAt'', json_nullable JStr (tj_startedAt j)),
      (''completedAt'', json_nullable JStr (tj_completedAt j)),
      (''runnerKind'', JStr (runner_kind_str (tj_runnerKind j))),
      (''runnerName'', JStr (tj_runnerName j)),
      (''runnerGroupName'', JStr (tj_runnerGroupName j)),
      (''labels'', JArr (map JStr (tj_labels j))),
      (''measurementStatus'', JStr (measurement_str (tj_measurementStatus j))),
      (''durationMs'', json_nullable json_number (tj_durationMs j)),
      (''billableMinutes'', json_nullable json_number (tj_billableMinutes j)),
      (''hostedSku'', json_nullable (\<lambda>x. JStr (hosted_sku_str x)) (tj_hostedSku j)),
      (''hostedUsdPerMinute'', json_nullable json_number (tj_hostedUsdPerMinute j)),
      (''pricingSource'', JStr (tj_pricingSource j)),
      (''actualGithubListCostUsd'', json_nullable json_number (tj_actualCost j)),
      (''counterfactualHostedCostUsd'', json_nullable json_number (tj_counterfactualCost j))]"

definition differing_fields :: "telemetry_job \<Rightarrow> telemetry_job \<Rightarrow> string list" where
  "differing_fields a b =
     sort_by (\<lambda>x y. \<not> str_less y x) (map fst (filter (\<lambda>(k, v). v \<noteq> get_prop (job_members b) k) (job_members a)))"

definition VISIBILITY_DRIFT_FIELDS :: "string list" where
  "VISIBILITY_DRIFT_FIELDS = [''visibility'', ''actualGithubListCostUsd'', ''counterfactualHostedCostUsd'']"

definition run_of_job :: "telemetry_job \<Rightarrow> telemetry_run" where
  "run_of_job j = \<lparr>tr_id = tj_runId j, tr_attempt = tj_runAttempt j, tr_workflowName = tj_workflowName j,
     tr_event = tj_event j, tr_createdAt = tj_createdAt j, tr_conclusion = tj_conclusion j\<rparr>"

definition input_of_job :: "telemetry_job \<Rightarrow> telemetry_job_input" where
  "input_of_job j = \<lparr>ti_id = tj_jobId j, ti_name = tj_jobName j, ti_startedAt = tj_startedAt j,
     ti_completedAt = tj_completedAt j, ti_conclusion = tj_conclusion j, ti_labels = tj_labels j,
     ti_runnerName = tj_runnerName j, ti_runnerGroupName = tj_runnerGroupName j\<rparr>"

text \<open>The earlier job with the later timing, normalized under a visibility.\<close>

definition retimed :: "(string \<Rightarrow> jsnum) \<Rightarrow> telemetry_job \<Rightarrow> telemetry_job \<Rightarrow> visibility \<Rightarrow> telemetry_job" where
  "retimed date_of earlier later vis =
     normalize_telemetry_job date_of (tj_repository earlier) vis (run_of_job earlier)
       ((input_of_job earlier)\<lparr>ti_startedAt := tj_startedAt later, ti_completedAt := tj_completedAt later\<rparr>)"

definition completed_job_timing :: "(string \<Rightarrow> jsnum) \<Rightarrow> telemetry_job \<Rightarrow> telemetry_job \<Rightarrow> telemetry_job option" where
  "completed_job_timing date_of earlier later =
     (if tj_measurementStatus earlier \<noteq> TimingIncomplete \<or> tj_measurementStatus later \<noteq> Measured then None
      else if tj_startedAt earlier \<noteq> None \<and> tj_startedAt earlier \<noteq> tj_startedAt later then None
      else if tj_completedAt earlier \<noteq> None \<and> tj_completedAt earlier \<noteq> tj_completedAt later then None
      else
        let completed = retimed date_of earlier later (tj_visibility later) in
        if differing_fields completed later \<noteq> [] then None
        else Some (if tj_visibility earlier = tj_visibility later then completed
                   else retimed date_of earlier later (tj_visibility earlier)))"

definition key_message :: "execution_key \<Rightarrow> jsnum message" where
  "key_message k = (case k of (repo, run, att, job) \<Rightarrow> [Lit repo, Lit '':'', Num run, Lit '':'', Num att, Lit '':'', Num job])"

definition merge_telemetry_job ::
  "(string \<Rightarrow> jsnum) \<Rightarrow> telemetry_job \<Rightarrow> telemetry_job \<Rightarrow> jsnum exn + telemetry_job" where
  "merge_telemetry_job date_of existing job =
     (let differing = differing_fields existing job in
      if differing = [] then Inr existing
      else case completed_job_timing date_of existing job of
        Some completed \<Rightarrow> Inr completed
      | None \<Rightarrow>
          if ''visibility'' \<in> set differing \<and> set differing \<subseteq> set VISIBILITY_DRIFT_FIELDS then Inr existing
          else if num_eq (tj_runAttempt job) (Fin 1) \<or> differing \<noteq> [''createdAt'']
          then Inl (plain_error ([Lit ''conflicting duplicate telemetry job ''] @ key_message (tj_key job)
                 @ [Lit '' ('', Lit (join_with '', '' differing), Lit '')'']))
          else Inr (if date_of (tj_createdAt existing) < date_of (tj_createdAt job) then job else existing))"

section \<open>The merge of the snapshots\<close>

record merge_state =
  ms_jobs :: "(execution_key, telemetry_job) jsmap"
  ms_latest :: "telemetry_snapshot option"
  ms_throughMs :: jsnum

definition job_time :: "telemetry_job \<Rightarrow> string" where
  "job_time j = (case tj_completedAt j of Some t \<Rightarrow> t
     | None \<Rightarrow> (case tj_startedAt j of Some t \<Rightarrow> t | None \<Rightarrow> tj_createdAt j))"

definition out_of_window :: "(string \<Rightarrow> jsnum) \<Rightarrow> jsnum \<Rightarrow> jsnum \<Rightarrow> telemetry_job \<Rightarrow> bool" where
  "out_of_window date_of since window_end j \<longleftrightarrow>
     date_of (job_time j) < since \<or> window_end < date_of (tj_createdAt j)"

fun merge_jobs ::
  "(string \<Rightarrow> jsnum) \<Rightarrow> jsnum \<Rightarrow> jsnum \<Rightarrow> (execution_key, telemetry_job) jsmap \<Rightarrow> telemetry_job list
     \<Rightarrow> jsnum exn + (execution_key, telemetry_job) jsmap" where
  "merge_jobs date_of since window_end m [] = Inr m"
| "merge_jobs date_of since window_end m (j # js) =
     (if out_of_window date_of since window_end j then merge_jobs date_of since window_end m js
      else case map_get m (tj_key j) of
        None \<Rightarrow> merge_jobs date_of since window_end (map_set (tj_key j) j m) js
      | Some existing \<Rightarrow>
          rbind (merge_telemetry_job date_of existing j) (\<lambda>kept.
          merge_jobs date_of since window_end (map_set (tj_key j) kept m) js))"

definition later_snapshot ::
  "(string \<Rightarrow> jsnum) \<Rightarrow> telemetry_snapshot option \<Rightarrow> telemetry_snapshot \<Rightarrow> telemetry_snapshot option" where
  "later_snapshot date_of latest s =
     (case latest of
        None \<Rightarrow> Some s
      | Some l \<Rightarrow> if date_of (sn_collectedAt l) < date_of (sn_collectedAt s) then Some s else Some l)"

fun merge_snapshots ::
  "(string \<Rightarrow> jsnum) \<Rightarrow> jsnum \<Rightarrow> jsnum \<Rightarrow> merge_state \<Rightarrow> telemetry_snapshot list \<Rightarrow> jsnum exn + merge_state" where
  "merge_snapshots date_of since window_end st [] = Inr st"
| "merge_snapshots date_of since window_end st (s # ss) =
     rbind (merge_jobs date_of since window_end (ms_jobs st) (sn_jobs s)) (\<lambda>m.
     merge_snapshots date_of since window_end
       \<lparr>ms_jobs = m, ms_latest = later_snapshot date_of (ms_latest st) s,
        ms_throughMs = num_max (ms_throughMs st) (num_min window_end (date_of (sn_collectedAt s)))\<rparr> ss)"

definition chronological :: "(string \<Rightarrow> jsnum) \<Rightarrow> telemetry_snapshot list \<Rightarrow> telemetry_snapshot list" where
  "chronological date_of ss = sort_by (\<lambda>a b. \<not> date_of (sn_collectedAt b) < date_of (sn_collectedAt a)) ss"

section \<open>Sums\<close>

definition count_of :: "'a list \<Rightarrow> jsnum" where
  "count_of xs = Fin (of_nat (length xs))"

definition sum_known :: "('a \<Rightarrow> jsnum option) \<Rightarrow> 'a list \<Rightarrow> jsnum" where
  "sum_known f xs = foldl (\<lambda>acc x. acc + (case f x of Some v \<Rightarrow> v | None \<Rightarrow> Fin 0)) (Fin 0) xs"

definition of_kind :: "runner_kind \<Rightarrow> telemetry_job list \<Rightarrow> telemetry_job list" where
  "of_kind k js = filter (\<lambda>j. tj_runnerKind j = k) js"

definition unpriced :: "telemetry_job list \<Rightarrow> telemetry_job list" where
  "unpriced js = filter (\<lambda>j. tj_actualCost j = None \<or> tj_counterfactualCost j = None) js"

record repository_row =
  rr_repository :: string
  rr_jobs :: jsnum
  rr_hostedMinutes :: jsnum
  rr_hostedCost :: jsnum
  rr_cirujanoJobs :: jsnum
  rr_cirujanoMinutes :: jsnum
  rr_avoided :: jsnum
  rr_unpriced :: jsnum

definition repository_report :: "telemetry_job list \<Rightarrow> string \<Rightarrow> repository_row" where
  "repository_report js repo =
     (let mine = filter (\<lambda>j. tj_repository j = repo) js; hosted = of_kind GithubHosted mine; ours = of_kind CirujanoRun mine in
      \<lparr>rr_repository = repo, rr_jobs = count_of mine, rr_hostedMinutes = sum_known tj_billableMinutes hosted,
       rr_hostedCost = money8 (sum_known tj_actualCost hosted), rr_cirujanoJobs = count_of ours,
       rr_cirujanoMinutes = sum_known tj_billableMinutes ours,
       rr_avoided = money8 (sum_known tj_counterfactualCost ours), rr_unpriced = count_of (unpriced mine)\<rparr>)"

text \<open>\<open>percentile\<close>: nearest rank over ascending samples.\<close>

definition num_nat :: "jsnum \<Rightarrow> nat" where
  "num_nat n = (case n of Fin x \<Rightarrow> nat \<lfloor>x\<rfloor> | _ \<Rightarrow> 0)"

definition percentile :: "jsnum list \<Rightarrow> jsnum \<Rightarrow> jsnum option" where
  "percentile xs fraction =
     (if xs = [] then None
      else Some (xs ! (num_nat (num_min (count_of xs) (num_max (Fin 1) (num_ceil (fraction * count_of xs)))) - 1)))"

section \<open>The report of an enrollment\<close>

record window_report =
  wr_jobs :: jsnum
  wr_hostedJobs :: jsnum
  wr_hostedMinutes :: jsnum
  wr_hostedCost :: jsnum

record after_report = window_report +
  ar_cirujanoJobs :: jsnum
  ar_cirujanoMinutes :: jsnum
  ar_avoided :: jsnum
  ar_latencySamples :: jsnum
  ar_latencyP50 :: "jsnum option"
  ar_latencyP95 :: "jsnum option"

text \<open>The journals of a controller: the current ones, and those preserved when it was replaced.\<close>

record journal_evidence =
  ev_controllerId :: string
  ev_resourcePrefix :: string
  ev_startCount :: jsnum
  ev_runtimeMs :: jsnum
  ev_costUsd :: jsnum
  ev_diskRetainedMs :: jsnum
  ev_diskSizeGiB :: jsnum
  ev_egressBytes :: jsnum
  ev_rates :: cost_rates
  ev_assignments :: "known_assignment list"

type_synonym evidence = "journal_evidence \<times> journal_evidence list"

record enrollment_row =
  er_id :: string
  er_repository :: string
  er_visibility :: "visibility option"
  er_workflowName :: string
  er_jobNames :: "string list"
  er_status :: enrollment_status
  er_cutoverAt :: "string option"
  er_before :: window_report
  er_after :: after_report
  er_vmStarts :: "jsnum option"
  er_journaledCost :: "jsnum option"
  er_computeUsd :: "jsnum option"
  er_diskUsd :: "jsnum option"
  er_networkUsd :: "jsnum option"
  er_totalUsd :: "jsnum option"
  er_netSavings :: "jsnum option"
  er_assignments :: "(jsnum \<times> jsnum \<times> jsnum \<times> string) list"
  er_unmatched :: "execution_key list"
  er_complete :: bool
  er_incompleteReason :: "jsnum message option"

definition window_report_of :: "telemetry_job list \<Rightarrow> window_report" where
  "window_report_of js =
     (let hosted = of_kind GithubHosted js in
      \<lparr>wr_jobs = count_of js, wr_hostedJobs = count_of hosted, wr_hostedMinutes = sum_known tj_billableMinutes hosted,
       wr_hostedCost = money8 (sum_known tj_actualCost hosted)\<rparr>)"

definition run_start :: "telemetry_job \<Rightarrow> string" where
  "run_start j = (case tj_startedAt j of Some t \<Rightarrow> t | None \<Rightarrow> tj_createdAt j)"

definition enrolled_jobs ::
  "(string \<Rightarrow> jsnum) \<Rightarrow> fleet_enrollment \<Rightarrow> jsnum \<Rightarrow> telemetry_job list \<Rightarrow> telemetry_job list" where
  "enrolled_jobs date_of e end_ms js =
     filter (\<lambda>j. tj_repository j = fe_repository e \<and> tj_workflowName j = workflowName e
       \<and> tj_jobName j \<in> set (jobNames e) \<and> date_of (run_start j) < end_ms) js"

definition cutover_ms :: "(string \<Rightarrow> jsnum) \<Rightarrow> fleet_enrollment \<Rightarrow> jsnum" where
  "cutover_ms date_of e = (case after e of None \<Rightarrow> PInf | Some a \<Rightarrow> date_of (recordedAt a))"

definition is_after :: "(string \<Rightarrow> jsnum) \<Rightarrow> fleet_enrollment \<Rightarrow> telemetry_job \<Rightarrow> bool" where
  "is_after date_of e j \<longleftrightarrow> cutover_ms date_of e \<le> date_of (run_start j)"

definition queue_latencies :: "(string \<Rightarrow> jsnum) \<Rightarrow> telemetry_job list \<Rightarrow> jsnum list" where
  "queue_latencies date_of js =
     sort_by (\<lambda>a b. \<not> b < a)
       (map (\<lambda>j. num_max (Fin 0) (date_of (the (tj_startedAt j)) - date_of (tj_createdAt j)))
         (filter (\<lambda>j. tj_startedAt j \<noteq> None) js))"

definition after_report_of :: "(string \<Rightarrow> jsnum) \<Rightarrow> telemetry_job list \<Rightarrow> after_report" where
  "after_report_of date_of js =
     (let w = window_report_of js; ours = of_kind CirujanoRun js; waits = queue_latencies date_of ours in
      \<lparr>wr_jobs = wr_jobs w, wr_hostedJobs = wr_hostedJobs w, wr_hostedMinutes = wr_hostedMinutes w, wr_hostedCost = wr_hostedCost w,
       ar_cirujanoJobs = count_of ours, ar_cirujanoMinutes = sum_known tj_billableMinutes ours,
       ar_avoided = money8 (sum_known tj_counterfactualCost ours), ar_latencySamples = count_of waits,
       ar_latencyP50 = percentile waits (Fin (1 / 2)), ar_latencyP95 = percentile waits (fl (95 / 100))\<rparr>)"

text \<open>The row without costs, with the reason why it has none.\<close>

definition base_row ::
  "(string \<Rightarrow> jsnum) \<Rightarrow> fleet_enrollment \<Rightarrow> telemetry_job list \<Rightarrow> (string \<times> visibility) list \<Rightarrow> jsnum message
     \<Rightarrow> enrollment_row" where
  "base_row date_of e enrolled inventory reason =
     \<lparr>er_id = fe_id e, er_repository = fe_repository e,
      er_visibility = (case map_of (rev inventory) (fe_repository e) of
          Some v \<Rightarrow> Some v
        | None \<Rightarrow> (case enrolled of [] \<Rightarrow> None | j # _ \<Rightarrow> Some (tj_visibility j))),
      er_workflowName = workflowName e, er_jobNames = jobNames e, er_status = fe_status e,
      er_cutoverAt = map_option recordedAt (after e),
      er_before = window_report_of (filter (\<lambda>j. \<not> is_after date_of e j) enrolled),
      er_after = after_report_of date_of (filter (is_after date_of e) enrolled),
      er_vmStarts = None, er_journaledCost = None, er_computeUsd = None, er_diskUsd = None, er_networkUsd = None,
      er_totalUsd = None, er_netSavings = None, er_assignments = [], er_unmatched = [],
      er_complete = False, er_incompleteReason = Some reason\<rparr>"

definition generation_cost :: "jsnum \<Rightarrow> journal_evidence \<Rightarrow> runner_cost_estimate" where
  "generation_cost minutes g =
     estimate_runner_cost \<lparr>cost_rates = Some (ev_rates g),
       computeIntervals = [\<lparr>startMs = Fin 0, endMs = Some (ev_runtimeMs g)\<rparr>],
       disk_sizeGiB = ev_diskSizeGiB g, disk_retainedMs = ev_diskRetainedMs g,
       networkEgressGiB = num_div (ev_egressBytes g) (Fin 1073741824), hostedBillableMinutes = Some minutes\<rparr>"

fun complete_costs :: "runner_cost_estimate list \<Rightarrow> jsnum message + cost_breakdown list" where
  "complete_costs [] = Inr []"
| "complete_costs (CostIncomplete reason # cs) = Inl reason"
| "complete_costs (CostComplete c # cs) = rbind (complete_costs cs) (\<lambda>xs. Inr (c # xs))"

definition cost_total :: "(cost_breakdown \<Rightarrow> jsnum) \<Rightarrow> cost_breakdown list \<Rightarrow> jsnum" where
  "cost_total f cs = money8 (foldl (\<lambda>acc c. acc + f c) (Fin 0) cs)"

text \<open>A \<open>Map\<close> built from the entries of all generations: the last entry of a key is the one found.\<close>

definition assignment_of :: "journal_evidence list \<Rightarrow> telemetry_job \<Rightarrow> known_assignment option" where
  "assignment_of generations j =
     find (\<lambda>k. ka_key k = (tj_runId j, tj_runAttempt j, tj_jobId j)) (rev (concat (map ev_assignments generations)))"

definition unmatched_reason :: "nat \<Rightarrow> jsnum message" where
  "unmatched_reason n =
     [Num (Fin (of_nat n)), Lit '' Cirujano job'', Lit (if n = 1 then [] else ''s''), Lit '' credited by telemetry '',
      Lit (if n = 1 then ''has'' else ''have''), Lit '' no controller assignment'']"

definition costed_row ::
  "enrollment_row \<Rightarrow> journal_evidence list \<Rightarrow> telemetry_job list \<Rightarrow> cost_breakdown list \<Rightarrow> enrollment_row" where
  "costed_row row generations ours costs =
     (let unmatched = filter (\<lambda>j. assignment_of generations j = None) ours; total = cost_total runnerTotalUsd costs in
      row\<lparr>er_vmStarts := Some (foldl (\<lambda>acc g. acc + ev_startCount g) (Fin 0) generations),
        er_journaledCost := Some (money8 (foldl (\<lambda>acc g. acc + ev_costUsd g) (Fin 0) generations)),
        er_computeUsd := Some (cost_total computeUsd costs), er_diskUsd := Some (cost_total diskUsd costs),
        er_networkUsd := Some (cost_total networkUsd costs), er_totalUsd := Some total,
        er_netSavings := (if unmatched = [] then Some (money8 (ar_avoided (er_after row) - total)) else None),
        er_assignments := map (\<lambda>k. (ka_runId k, ka_jobId k, ka_runnerId k, ka_runnerName k))
          (List.map_filter (assignment_of generations) ours),
        er_unmatched := map tj_key unmatched, er_complete := (unmatched = []),
        er_incompleteReason := (if unmatched = [] then None else Some (unmatched_reason (length unmatched)))\<rparr>)"

definition enrollment_report ::
  "(string \<Rightarrow> jsnum) \<Rightarrow> fleet_enrollment \<Rightarrow> telemetry_job list \<Rightarrow> evidence option \<Rightarrow> (string \<times> visibility) list \<Rightarrow> jsnum
     \<Rightarrow> enrollment_row" where
  "enrollment_report date_of e js ev inventory end_ms =
     (let enrolled = enrolled_jobs date_of e end_ms js; row = base_row date_of e enrolled inventory;
          ours = of_kind CirujanoRun (filter (is_after date_of e) enrolled) in
      if fe_status e = Proposed then row [Lit ''not cut over'']
      else case ev of
        None \<Rightarrow> row [Lit ''controller evidence is absent'']
      | Some (primary, historical) \<Rightarrow>
          (case complete_costs (map (generation_cost (ar_cirujanoMinutes (er_after (row [])))) (primary # historical)) of
             Inl reason \<Rightarrow> row ([Lit ''controller cost is incomplete: ''] @ reason)
           | Inr costs \<Rightarrow> costed_row (row []) (primary # historical) ours costs))"

text \<open>A later enrollment of a reverted one's job owns the executions from its baseline onward.\<close>

definition successor :: "fleet_enrollment \<Rightarrow> fleet_enrollment list \<Rightarrow> fleet_enrollment option" where
  "successor e es =
     (if fe_status e \<noteq> Reverted then None
      else find (\<lambda>x. fe_repository x = fe_repository e \<and> workflowPath x = workflowPath e \<and> jobKey x = jobKey e) es)"

fun enrollment_rows ::
  "(string \<Rightarrow> jsnum) \<Rightarrow> telemetry_job list \<Rightarrow> (string \<Rightarrow> evidence option) \<Rightarrow> (string \<times> visibility) list
     \<Rightarrow> fleet_enrollment list \<Rightarrow> enrollment_row list" where
  "enrollment_rows date_of js evs inventory [] = []"
| "enrollment_rows date_of js evs inventory (e # es) =
     enrollment_report date_of e js (evs (fe_id e)) inventory
       (case successor e es of None \<Rightarrow> PInf | Some s \<Rightarrow> date_of (recordedAt (before s)))
     # enrollment_rows date_of js evs inventory es"

section \<open>The fleet\<close>

record fleet_savings =
  fv_enrollments :: jsnum
  fv_avoided :: jsnum
  fv_totalUsd :: "jsnum option"
  fv_netSavings :: "jsnum option"
  fv_complete :: bool

definition fleet_savings_of :: "enrollment_row list \<Rightarrow> fleet_savings" where
  "fleet_savings_of rows =
     (let cut = filter (\<lambda>r. er_status r \<noteq> Proposed) rows;
          avoided = money8 (foldl (\<lambda>acc r. acc + ar_avoided (er_after r)) (Fin 0) cut);
          total = (if list_all (\<lambda>r. er_totalUsd r \<noteq> None) cut then Some (money8 (sum_known er_totalUsd cut)) else None);
          complete = list_all er_complete cut in
      \<lparr>fv_enrollments = count_of cut, fv_avoided = avoided, fv_totalUsd = total,
       fv_netSavings = (case total of Some t \<Rightarrow> if complete then Some (money8 (avoided - t)) else None | None \<Rightarrow> None),
       fv_complete = complete\<rparr>)"

record telemetry_report =
  rp_sinceMs :: jsnum
  rp_throughMs :: jsnum
  rp_repositories :: jsnum
  rp_workflows :: jsnum
  rp_jobs :: jsnum
  rp_successful :: jsnum
  rp_failed :: jsnum
  rp_cancelled :: jsnum
  rp_notRun :: jsnum
  rp_incomplete :: jsnum
  rp_successRate :: "jsnum option"
  rp_hostedMinutes :: jsnum
  rp_hostedCost :: jsnum
  rp_cirujanoJobs :: jsnum
  rp_cirujanoMinutes :: jsnum
  rp_avoided :: jsnum
  rp_otherSelfHosted :: jsnum
  rp_unpriced :: jsnum
  rp_byRepository :: "repository_row list"
  rp_enrollments :: "enrollment_row list option"
  rp_fleet :: "fleet_savings option"

definition window_end_of :: "(string \<Rightarrow> jsnum) \<Rightarrow> fleet_registry option \<Rightarrow> jsnum" where
  "window_end_of date_of reg =
     (case reg of None \<Rightarrow> PInf | Some r \<Rightarrow> date_of (window_through r @ ''T23:59:59.999Z''))"

definition repository_names :: "telemetry_snapshot option \<Rightarrow> telemetry_job list \<Rightarrow> string list" where
  "repository_names latest js =
     remdups ((case latest of None \<Rightarrow> [] | Some s \<Rightarrow> map fst (sn_inventory s)) @ map tj_repository js)"

definition report_of ::
  "(string \<Rightarrow> jsnum) \<Rightarrow> jsnum \<Rightarrow> fleet_registry option \<Rightarrow> (string \<Rightarrow> evidence option) \<Rightarrow> merge_state \<Rightarrow> telemetry_report" where
  "report_of date_of since reg evs st =
     (let js = map snd (ms_jobs st); hosted = of_kind GithubHosted js; ours = of_kind CirujanoRun js;
          executed = filter (\<lambda>j. tj_measurementStatus j \<noteq> NotRun) js;
          successful = filter (\<lambda>j. tj_conclusion j = ''success'') executed;
          names = repository_names (ms_latest st) js;
          inventory = (case ms_latest st of None \<Rightarrow> [] | Some s \<Rightarrow> sn_inventory s);
          rows = map_option (\<lambda>r. enrollment_rows date_of js evs inventory (enrollments r)) reg in
      \<lparr>rp_sinceMs = since, rp_throughMs = ms_throughMs st, rp_repositories = count_of names,
       rp_workflows = count_of (remdups (map (\<lambda>j. tj_repository j @ [CHR 0x00] @ tj_workflowName j) js)),
       rp_jobs = count_of js, rp_successful = count_of successful,
       rp_failed = count_of (filter (\<lambda>j. tj_conclusion j = ''failure'') executed),
       rp_cancelled = count_of (filter (\<lambda>j. tj_conclusion j = ''cancelled'') js),
       rp_notRun = count_of (filter (\<lambda>j. tj_measurementStatus j = NotRun) js),
       rp_incomplete = count_of (filter (\<lambda>j. tj_measurementStatus j = TimingIncomplete) js),
       rp_successRate = (if executed = [] then None else Some (round4 (num_div (count_of successful) (count_of executed)))),
       rp_hostedMinutes = sum_known tj_billableMinutes hosted, rp_hostedCost = money8 (sum_known tj_actualCost hosted),
       rp_cirujanoJobs = count_of ours, rp_cirujanoMinutes = sum_known tj_billableMinutes ours,
       rp_avoided = money8 (sum_known tj_counterfactualCost ours),
       rp_otherSelfHosted = count_of (of_kind OtherSelfHosted js), rp_unpriced = count_of (unpriced js),
       rp_byRepository = map (repository_report js) (sort_by (\<lambda>a b. \<not> str_less b a) names),
       rp_enrollments = rows, rp_fleet = map_option fleet_savings_of rows\<rparr>)"

definition merged_state ::
  "(string \<Rightarrow> jsnum) \<Rightarrow> telemetry_snapshot list \<Rightarrow> jsnum \<Rightarrow> fleet_registry option \<Rightarrow> jsnum exn + merge_state" where
  "merged_state date_of snapshots since reg =
     merge_snapshots date_of since (window_end_of date_of reg)
       \<lparr>ms_jobs = [], ms_latest = None, ms_throughMs = since\<rparr> (chronological date_of snapshots)"

definition aggregate_telemetry ::
  "(string \<Rightarrow> jsnum) \<Rightarrow> telemetry_snapshot list \<Rightarrow> jsnum \<Rightarrow> fleet_registry option \<Rightarrow> (string \<Rightarrow> evidence option)
     \<Rightarrow> jsnum exn + telemetry_report" where
  "aggregate_telemetry date_of snapshots since reg evs =
     rbind (check (is_finite since \<and> \<not> since < Fin 0) (plain_error [Lit ''since must be a non-negative timestamp''])) (\<lambda>_.
     rbind (merged_state date_of snapshots since reg) (\<lambda>st.
     Inr (report_of date_of since reg evs st)))"

end
