(* ===== verification/TelemetryStore.thy ===== *)
theory TelemetryStore
  imports Telemetry
begin

text \<open>
  The store of telemetry snapshots (\<open>cli/telemetry-store.ts\<close>): the validation of a snapshot file against the
  evidence it carries, the files of a store, and the report over them, which is refused when the snapshots
  do not cover its window. \<open>num_text\<close> is \<open>String\<close> of a number. A member of a stored job that this version does
  not write is dropped.
\<close>

section \<open>Readers\<close>

definition api_nullable_text :: "jsval \<Rightarrow> string \<Rightarrow> jsnum exn + string" where
  "api_nullable_text v name = (if v = JNull \<or> v = JStr [] then Inr [] else api_text v name)"

definition api_boolean :: "jsval \<Rightarrow> string \<Rightarrow> jsnum exn + bool" where
  "api_boolean v name = require (as_bool v) (plain_error [Lit (name @ '' must be a boolean'')])"

definition api_nonnegative_integer :: "jsval \<Rightarrow> string \<Rightarrow> jsnum exn + jsnum" where
  "api_nonnegative_integer v name =
     (case v of
        JNum n \<Rightarrow> if is_integer n \<and> \<not> n < Fin 0 then Inr n
                  else Inl (plain_error [Lit (name @ '' must be a non-negative integer'')])
      | _ \<Rightarrow> Inl (plain_error [Lit (name @ '' must be a non-negative integer'')]))"

definition api_timestamp :: "(string \<Rightarrow> jsnum) \<Rightarrow> jsval \<Rightarrow> string \<Rightarrow> jsnum exn + string" where
  "api_timestamp date_of v name =
     rbind (api_text v name) (\<lambda>s.
     rbind (check (is_finite (date_of s)) (plain_error [Lit (name @ '' must be a timestamp'')])) (\<lambda>_. Inr s))"

definition api_nullable_timestamp :: "(string \<Rightarrow> jsnum) \<Rightarrow> jsval \<Rightarrow> string \<Rightarrow> jsnum exn + string option" where
  "api_nullable_timestamp date_of v name =
     (if v = JNull then Inr None else rbind (api_timestamp date_of v name) (\<lambda>s. Inr (Some s)))"

definition visibility_at :: "jsval \<Rightarrow> string \<Rightarrow> jsnum exn + visibility" where
  "visibility_at v name =
     (if v = JStr ''private'' then Inr VisPrivate else if v = JStr ''public'' then Inr VisPublic
      else Inl (plain_error [Lit (name @ '' is invalid'')]))"

definition indexed :: "string \<Rightarrow> nat \<Rightarrow> string" where
  "indexed name i = name @ ''['' @ decimal i @ '']''"

definition store_error :: "string \<Rightarrow> jsnum exn" where
  "store_error s = plain_error [Lit s]"

section \<open>A stored job\<close>

text \<open>\<open>JSON.stringify\<close> of a member: a number that is not finite prints as \<open>null\<close>.\<close>

definition printed :: "jsval \<Rightarrow> jsval" where
  "printed v = (case v of JNum n \<Rightarrow> json_number n | _ \<Rightarrow> v)"

definition key_text :: "(jsnum \<Rightarrow> string) \<Rightarrow> execution_key \<Rightarrow> string" where
  "key_text num_text k =
     (case k of (repo, run, att, job) \<Rightarrow>
        concat [repo, '':'', num_text run, '':'', num_text att, '':'', num_text job])"

text \<open>The members as they are stored: the key is a text.\<close>

definition stored_members :: "(jsnum \<Rightarrow> string) \<Rightarrow> telemetry_job \<Rightarrow> fields" where
  "stored_members num_text j = map_set ''key'' (JStr (key_text num_text (tj_key j))) (job_members j)"

definition validate_job ::
  "(string \<Rightarrow> jsnum) \<Rightarrow> (jsnum \<Rightarrow> string) \<Rightarrow> string \<Rightarrow> jsval \<Rightarrow> jsnum exn + telemetry_job" where
  "validate_job date_of num_text name v =
     rbind (api_record v name) (\<lambda>kvs.
     let at_member = (\<lambda>k. name @ ''.'' @ k); member = get_prop kvs; txt = (\<lambda>k. api_text (member k) (at_member k)) in
     rbind (txt ''key'') (\<lambda>_.
     rbind (txt ''repository'') (\<lambda>repo.
     rbind (txt ''workflowName'') (\<lambda>workflow.
     rbind (txt ''jobName'') (\<lambda>job_name.
     rbind (txt ''event'') (\<lambda>event.
     rbind (txt ''createdAt'') (\<lambda>created.
     rbind (api_nullable_text (member ''conclusion'') (at_member ''conclusion'')) (\<lambda>conclusion.
     rbind (api_timestamp date_of (member ''createdAt'') (at_member ''createdAt'')) (\<lambda>_.
     rbind (api_nullable_timestamp date_of (member ''startedAt'') (at_member ''startedAt'')) (\<lambda>started.
     rbind (api_nullable_timestamp date_of (member ''completedAt'') (at_member ''completedAt'')) (\<lambda>completed.
     rbind (visibility_at (member ''visibility'') (at_member ''visibility'')) (\<lambda>vis.
     rbind (api_positive_integer (member ''runId'') (at_member ''runId'')) (\<lambda>run_id.
     rbind (api_positive_integer (member ''runAttempt'') (at_member ''runAttempt'')) (\<lambda>attempt.
     rbind (api_positive_integer (member ''jobId'') (at_member ''jobId'')) (\<lambda>job_id.
     rbind (require (as_str (member ''runnerName'')) (store_error (at_member ''runnerName must be a string''))) (\<lambda>runner.
     rbind (require (as_str (member ''runnerGroupName'')) (store_error (at_member ''runnerGroupName must be a string''))) (\<lambda>runner_group.
     rbind (api_array (member ''labels'') (at_member ''labels'')) (\<lambda>raw_labels.
     rbind (rmap (\<lambda>l. api_text l (at_member ''label'')) raw_labels) (\<lambda>labels.
     let expected = normalize_telemetry_job date_of repo vis
           \<lparr>tr_id = run_id, tr_attempt = attempt, tr_workflowName = workflow, tr_event = event, tr_createdAt = created,
            tr_conclusion = conclusion\<rparr>
           \<lparr>ti_id = job_id, ti_name = job_name, ti_startedAt = started, ti_completedAt = completed,
            ti_conclusion = conclusion, ti_labels = labels, ti_runnerName = runner, ti_runnerGroupName = runner_group\<rparr> in
     rbind (reject (find (\<lambda>(k, w). printed (member k) \<noteq> w) (stored_members num_text expected))
       (\<lambda>(k, w). store_error (at_member k @ '' is inconsistent with source evidence''))) (\<lambda>_.
     Inr expected))))))))))))))))))))"

section \<open>A snapshot\<close>

definition rates_value :: jsval where
  "rates_value = JObj
     [(''currency'', JStr ''USD''), (''quotedAt'', JStr ''2026-09-13''), (''source'', JStr PRICING_SOURCE),
      (''skus'', JObj (map (\<lambda>k. (hosted_sku_str k, JNum (SKU_RATES k)))
         [ActionsLinux, ActionsLinuxArm, ActionsWindows, ActionsMacos])),
      (''cirujanoLabels'', JObj [(''cirujano-pilot-fixture'', JStr ''actions_linux''),
         (''cirujano-baseline-actions_linux'', JStr ''actions_linux'')])]"

definition parse_inventory_entry ::
  "string \<Rightarrow> (string, visibility) jsmap \<Rightarrow> nat \<Rightarrow> jsval \<Rightarrow> jsnum exn + (string, visibility) jsmap" where
  "parse_inventory_entry owner m i entry =
     (let name = indexed ''repositoryInventory'' i in
      rbind (api_record entry name) (\<lambda>kvs.
      rbind (api_text (get_prop kvs ''fullName'') (name @ ''.fullName'')) (\<lambda>full.
      rbind (check (prefix (owner @ ''/'') full) (store_error (name @ '' is outside snapshot owner''))) (\<lambda>_.
      rbind (visibility_at (get_prop kvs ''visibility'') (name @ ''.visibility'')) (\<lambda>vis.
      rbind (check (map_get m full = None) (store_error (''duplicate repository inventory entry '' @ full))) (\<lambda>_.
      Inr (map_set full vis m)))))))"

text \<open>A loop over the entries of an array, which builds a map.\<close>

fun build_map :: "('m \<Rightarrow> nat \<Rightarrow> jsval \<Rightarrow> jsnum exn + 'm) \<Rightarrow> 'm \<Rightarrow> nat \<Rightarrow> jsval list \<Rightarrow> jsnum exn + 'm" where
  "build_map f m i [] = Inr m"
| "build_map f m i (v # vs) = rbind (f m i v) (\<lambda>m. build_map f m (Suc i) vs)"

definition run_key_of :: "telemetry_job \<Rightarrow> attempt_key" where
  "run_key_of j = (tj_repository j, tj_runId j, tj_runAttempt j)"

definition run_key_text :: "(jsnum \<Rightarrow> string) \<Rightarrow> attempt_key \<Rightarrow> string" where
  "run_key_text num_text k = (case k of (repo, run, att) \<Rightarrow> concat [repo, '':'', num_text run, '':'', num_text att])"

text \<open>A run and a snapshot as they are written, and the file of the day a snapshot goes to.\<close>

definition stored_run :: "(jsnum \<Rightarrow> string) \<Rightarrow> run_evidence \<Rightarrow> jsval" where
  "stored_run num_text r = JObj
     [(''key'', JStr (run_key_text num_text (re_key r))), (''repository'', JStr (re_repository r)),
      (''id'', json_number (tr_id r)), (''attempt'', json_number (tr_attempt r)), (''workflowName'', JStr (tr_workflowName r)),
      (''event'', JStr (tr_event r)), (''createdAt'', JStr (tr_createdAt r)), (''conclusion'', JStr (tr_conclusion r)),
      (''jobsObserved'', json_number (re_jobsObserved r)), (''reusable'', JBool (re_reusable r))]"

definition stored_snapshot :: "(jsnum \<Rightarrow> string) \<Rightarrow> telemetry_snapshot \<Rightarrow> jsval" where
  "stored_snapshot num_text s = JObj
     [(''schemaVersion'', JNum (Fin 1)), (''owner'', JStr (sn_owner s)), (''collectedAt'', JStr (sn_collectedAt s)),
      (''windowStart'', JStr (sn_windowStart s)), (''rates'', rates_value),
      (''repositoryInventory'', JArr (map (\<lambda>(name, vis).
         JObj [(''fullName'', JStr name), (''visibility'', JStr (visibility_str vis))]) (sn_inventory s))),
      (''repositoriesScanned'', json_number (sn_repositoriesScanned s)), (''runsScanned'', json_number (sn_runsScanned s)),
      (''runs'', JArr (map (stored_run num_text) (sn_runs s))),
      (''jobs'', JArr (map (\<lambda>j. JObj (stored_members num_text j)) (sn_jobs s)))]"

definition written_snapshot :: "(jsnum \<Rightarrow> string) \<Rightarrow> telemetry_snapshot \<Rightarrow> string \<times> jsval" where
  "written_snapshot num_text s = (take 10 (sn_collectedAt s) @ ''.json'', stored_snapshot num_text s)"

text \<open>What the checks of runs and jobs refer to: the bounds of the snapshot and its inventory.\<close>

record snapshot_frame =
  sf_owner :: string
  sf_from :: jsnum
  sf_to :: jsnum
  sf_inventory :: "(string, visibility) jsmap"

definition parse_run_entry ::
  "(string \<Rightarrow> jsnum) \<Rightarrow> (jsnum \<Rightarrow> string) \<Rightarrow> snapshot_frame \<Rightarrow> (attempt_key, run_evidence) jsmap \<Rightarrow> nat \<Rightarrow> jsval
     \<Rightarrow> jsnum exn + (attempt_key, run_evidence) jsmap" where
  "parse_run_entry date_of num_text fr m i entry =
     (let name = indexed ''runs'' i; at_member = (\<lambda>k. name @ ''.'' @ k) in
      rbind (api_record entry name) (\<lambda>kvs.
      let member = get_prop kvs in
      rbind (api_text (member ''repository'') (at_member ''repository'')) (\<lambda>repo.
      rbind (api_positive_integer (member ''id'') (at_member ''id'')) (\<lambda>run_id.
      rbind (api_positive_integer (member ''attempt'') (at_member ''attempt'')) (\<lambda>attempt.
      rbind (api_text (member ''key'') (at_member ''key'')) (\<lambda>key.
      rbind (check (key = run_key_text num_text (repo, run_id, attempt)) (store_error (at_member ''key is inconsistent''))) (\<lambda>_.
      rbind (check (map_get (sf_inventory fr) repo \<noteq> None)
        (store_error (at_member ''repository is absent from inventory''))) (\<lambda>_.
      rbind (api_timestamp date_of (member ''createdAt'') (at_member ''createdAt'')) (\<lambda>created.
      rbind (check (\<not> date_of created < sf_from fr) (store_error (at_member ''createdAt precedes windowStart''))) (\<lambda>_.
      rbind (check (\<not> sf_to fr < date_of created) (store_error (at_member ''createdAt follows collectedAt''))) (\<lambda>_.
      rbind (api_text (member ''workflowName'') (at_member ''workflowName'')) (\<lambda>workflow.
      rbind (api_text (member ''event'') (at_member ''event'')) (\<lambda>event.
      rbind (api_nullable_text (member ''conclusion'') (at_member ''conclusion'')) (\<lambda>conclusion.
      rbind (api_nonnegative_integer (member ''jobsObserved'') (at_member ''jobsObserved'')) (\<lambda>observed.
      rbind (api_boolean (member ''reusable'') (at_member ''reusable'')) (\<lambda>reusable.
      rbind (check (map_get m (repo, run_id, attempt) = None) (store_error (''duplicate run evidence '' @ key))) (\<lambda>_.
      Inr (map_set (repo, run_id, attempt)
        \<lparr>tr_id = run_id, tr_attempt = attempt, tr_workflowName = workflow, tr_event = event, tr_createdAt = created,
         tr_conclusion = conclusion, re_key = (repo, run_id, attempt), re_repository = repo, re_jobsObserved = observed,
         re_reusable = reusable\<rparr> m))))))))))))))))))"

definition parse_job_entry ::
  "(string \<Rightarrow> jsnum) \<Rightarrow> (jsnum \<Rightarrow> string) \<Rightarrow> snapshot_frame \<Rightarrow> telemetry_job list \<Rightarrow> nat \<Rightarrow> jsval
     \<Rightarrow> jsnum exn + telemetry_job list" where
  "parse_job_entry date_of num_text fr js i entry =
     (let name = indexed ''jobs'' i; err = (\<lambda>s. store_error (name @ s)) in
      rbind (validate_job date_of num_text name entry) (\<lambda>j.
      rbind (check (prefix (sf_owner fr @ ''/'') (tj_repository j)) (err ''.repository is outside snapshot owner'')) (\<lambda>_.
      rbind (check (map_get (sf_inventory fr) (tj_repository j) \<noteq> None) (err ''.repository is absent from inventory'')) (\<lambda>_.
      rbind (check (\<not> date_of (tj_createdAt j) < sf_from fr) (err ''.createdAt precedes windowStart'')) (\<lambda>_.
      rbind (check (\<not> sf_to fr < date_of (tj_createdAt j)) (err ''.createdAt follows collectedAt'')) (\<lambda>_.
      rbind (check (\<forall>s \<in> set_option (tj_startedAt j). \<not> date_of s < date_of (tj_createdAt j))
        (err ''.startedAt precedes createdAt'')) (\<lambda>_.
      rbind (check (\<forall>c \<in> set_option (tj_completedAt j). \<not> sf_to fr < date_of c)
        (err ''.completedAt follows collectedAt'')) (\<lambda>_.
      rbind (check (tj_key j \<notin> tj_key ` set js)
        (store_error (''duplicate job key '' @ key_text num_text (tj_key j)))) (\<lambda>_.
      Inr (js @ [j]))))))))))"

definition check_run ::
  "(jsnum \<Rightarrow> string) \<Rightarrow> telemetry_job list \<Rightarrow> run_evidence \<Rightarrow> jsnum exn + unit" where
  "check_run num_text js run =
     (let mine = filter (\<lambda>j. run_key_of j = re_key run) js;
          err = (\<lambda>s. store_error (s @ run_key_text num_text (re_key run))) in
      rbind (check (num_eq (count_of mine) (re_jobsObserved run)) (err ''run job count is inconsistent for '')) (\<lambda>_.
      rbind (check (list_all (\<lambda>j. tj_workflowName j = tr_workflowName run \<and> tj_event j = tr_event run
          \<and> tj_createdAt j = tr_createdAt run) mine) (err ''run metadata is inconsistent for '')) (\<lambda>_.
      check (re_reusable run
          \<longleftrightarrow> tr_conclusion run \<noteq> [] \<and> list_all (\<lambda>j. tj_measurementStatus j \<noteq> TimingIncomplete) mine)
        (err ''reusable run state is inconsistent for ''))))"

definition validate_snapshot ::
  "(string \<Rightarrow> jsnum) \<Rightarrow> (jsnum \<Rightarrow> string) \<Rightarrow> jsval \<Rightarrow> jsnum exn + telemetry_snapshot" where
  "validate_snapshot date_of num_text v =
     rbind (api_record v ''snapshot'') (\<lambda>root.
     let member = get_prop root in
     rbind (check (member ''schemaVersion'' = JNum (Fin 1)) (store_error ''schemaVersion must be 1'')) (\<lambda>_.
     rbind (api_text (member ''owner'') ''owner'') (\<lambda>owner.
     rbind (api_timestamp date_of (member ''collectedAt'') ''collectedAt'') (\<lambda>collected.
     rbind (api_timestamp date_of (member ''windowStart'') ''windowStart'') (\<lambda>start.
     rbind (check (\<not> date_of collected < date_of start) (store_error ''windowStart is after collectedAt'')) (\<lambda>_.
     rbind (api_nonnegative_integer (member ''repositoriesScanned'') ''repositoriesScanned'') (\<lambda>repositories.
     rbind (api_nonnegative_integer (member ''runsScanned'') ''runsScanned'') (\<lambda>scanned.
     rbind (check (member ''rates'' = rates_value) (store_error ''rates do not match the dated collector rate table'')) (\<lambda>_.
     rbind (api_array (member ''repositoryInventory'') ''repositoryInventory'') (\<lambda>raw_inventory.
     rbind (build_map (parse_inventory_entry owner) [] 0 raw_inventory) (\<lambda>inventory.
     rbind (check (num_eq (count_of inventory) repositories)
       (store_error ''repositoryInventory does not match repositoriesScanned'')) (\<lambda>_.
     let fr = \<lparr>sf_owner = owner, sf_from = date_of start, sf_to = date_of collected, sf_inventory = inventory\<rparr> in
     rbind (api_array (member ''runs'') ''runs'') (\<lambda>raw_runs.
     rbind (build_map (parse_run_entry date_of num_text fr) [] 0 raw_runs) (\<lambda>runs.
     rbind (check (num_eq (count_of runs) scanned) (store_error ''runs do not match runsScanned'')) (\<lambda>_.
     rbind (api_array (member ''jobs'') ''jobs'') (\<lambda>raw_jobs.
     rbind (build_map (parse_job_entry date_of num_text fr) [] 0 raw_jobs) (\<lambda>jobs.
     rbind (rmap (check_run num_text jobs) (map snd runs)) (\<lambda>_.
     rbind (reject (find (\<lambda>j. map_get runs (run_key_of j) = None) jobs)
       (\<lambda>j. store_error (''job run '' @ run_key_text num_text (run_key_of j) @ '' is absent from run evidence''))) (\<lambda>_.
     Inr \<lparr>sn_owner = owner, sn_collectedAt = collected, sn_windowStart = start, sn_inventory = inventory,
          sn_repositoriesScanned = repositories, sn_runsScanned = scanned, sn_runs = map snd runs,
          sn_jobs = jobs\<rparr>)))))))))))))))))))"

section \<open>The files\<close>

definition daily_name :: "string \<Rightarrow> bool" where
  "daily_name name \<longleftrightarrow> suffix ''.json'' name \<and> date_shape (take (length name - 5) name)"

definition backfill_name :: "string \<Rightarrow> bool" where
  "backfill_name name \<longleftrightarrow> prefix ''backfill-'' name"

definition snapshot_name :: "string \<Rightarrow> bool" where
  "snapshot_name name \<longleftrightarrow> daily_name (if backfill_name name then drop 9 name else name)"

text \<open>The entries of the directory with what each is read and parsed to.\<close>

definition read_snapshot_files ::
  "(string \<Rightarrow> jsnum) \<Rightarrow> (jsnum \<Rightarrow> string) \<Rightarrow> (string \<times> (jsnum exn + jsval)) list
     \<Rightarrow> jsnum exn + (string \<times> telemetry_snapshot) list" where
  "read_snapshot_files date_of num_text entries =
     (let named = sort_by (\<lambda>a b. \<not> str_less (fst b) (fst a)) (filter (\<lambda>(name, _). snapshot_name name) entries) in
      rbind (rmap (\<lambda>(name, content).
        (case rbind content (validate_snapshot date_of num_text) of
           Inr s \<Rightarrow> Inr (name, s)
         | Inl err \<Rightarrow> Inl (plain_error ([Lit ''snapshot '', Lit name, Lit '' is malformed: ''] @ error_message err)))) named) (\<lambda>files.
      rbind (check (files \<noteq> []) (store_error ''telemetry store has no snapshots'')) (\<lambda>_.
      rbind (check (\<forall>f \<in> set files. \<forall>g \<in> set files. sn_owner (snd f) = sn_owner (snd g))
        (store_error ''telemetry snapshots contain mixed owners'')) (\<lambda>_.
      Inr files))))"

text \<open>The latest daily snapshot up to a date, which the collector takes finished runs from.\<close>

definition read_latest_snapshot ::
  "(string \<Rightarrow> jsnum) \<Rightarrow> (jsnum \<Rightarrow> string) \<Rightarrow> (string \<times> (jsnum exn + jsval)) list \<Rightarrow> string
     \<Rightarrow> jsnum exn + telemetry_snapshot option" where
  "read_latest_snapshot date_of num_text entries date =
     (let daily = sort_by (\<lambda>a b. \<not> str_less (fst b) (fst a))
        (filter (\<lambda>(name, _). daily_name name \<and> \<not> str_less (date @ ''.json'') name) entries) in
      case rev daily of
        [] \<Rightarrow> Inr None
      | (_, content) # _ \<Rightarrow>
          (case rbind content (validate_snapshot date_of num_text) of
             Inr s \<Rightarrow> Inr (Some s)
           | Inl err \<Rightarrow> Inl (plain_error ([Lit ''latest prior snapshot is invalid: ''] @ error_message err))))"

section \<open>Coverage\<close>

text \<open>The instant the intervals reach without a gap, or the gap.\<close>

fun covered_through :: "jsnum \<Rightarrow> jsnum \<Rightarrow> (jsnum \<times> jsnum) list \<Rightarrow> (jsnum \<times> jsnum) + jsnum" where
  "covered_through through c [] = (if c < through then Inl (c, through) else Inr c)"
| "covered_through through c ((start, end_ms) # ivs) =
     (if through \<le> c then Inr c
      else if end_ms \<le> c then covered_through through c ivs
      else if c < start then Inl (c, num_min start through)
      else covered_through through (num_max c end_ms) ivs)"

definition daily_intervals :: "(string \<Rightarrow> jsnum) \<Rightarrow> (string \<times> telemetry_snapshot) list \<Rightarrow> (jsnum \<times> jsnum) list" where
  "daily_intervals date_of files =
     sort_by (\<lambda>a b. \<not> fst b < fst a)
       (map (\<lambda>(_, s). (date_of (sn_windowStart s), date_of (sn_collectedAt s)))
         (filter (\<lambda>(name, _). \<not> backfill_name name) files))"

definition through_of :: "(string \<Rightarrow> jsnum) \<Rightarrow> jsnum \<Rightarrow> jsnum \<Rightarrow> telemetry_snapshot list \<Rightarrow> jsnum" where
  "through_of date_of since window_end ss =
     foldl (\<lambda>latest s. num_max latest (num_min window_end (date_of (sn_collectedAt s)))) since ss"

definition build_store_report ::
  "(string \<Rightarrow> jsnum) \<Rightarrow> (jsnum \<Rightarrow> string) \<Rightarrow> (string \<times> (jsnum exn + jsval)) list \<Rightarrow> string \<Rightarrow> fleet_registry option
     \<Rightarrow> (string \<Rightarrow> evidence option) \<Rightarrow> jsnum exn + telemetry_report" where
  "build_store_report date_of num_text entries since reg evs =
     rbind (read_snapshot_files date_of num_text entries) (\<lambda>files.
     let ss = map snd files; since_ms = date_of (since @ ''T00:00:00Z'') in
     rbind (check (list_ex (\<lambda>(name, s). \<not> backfill_name name
         \<and> date_of (sn_windowStart s) \<le> since_ms \<and> since_ms \<le> date_of (sn_collectedAt s)) files)
       (store_error (''telemetry snapshots do not cover '' @ since))) (\<lambda>_.
     rbind (reject (case reg of None \<Rightarrow> None | Some r \<Rightarrow> if fr_owner r \<noteq> sn_owner (hd ss) then Some r else None)
       (\<lambda>r. store_error (concat [''registry owner '', fr_owner r, '' does not match telemetry owner '', sn_owner (hd ss)]))) (\<lambda>_.
     let through = through_of date_of since_ms (window_end_of date_of reg) ss in
     (case covered_through through since_ms (daily_intervals date_of files) of
        Inl (start, end_ms) \<Rightarrow>
          Inl (plain_error [Lit ''telemetry coverage gap from '', IsoTime start, Lit '' to '', IsoTime end_ms])
      | Inr _ \<Rightarrow> aggregate_telemetry date_of ss since_ms reg evs))))"

end
