(* ===== verification/Telemetry_Merge.thy ===== *)
theory Telemetry_Merge
  imports TelemetryStore
begin

text \<open>
  The lemmas on the merge of snapshots: a job is determined by what was read of it, and a merge keeps the first
  observation of an execution and only adds what that one did not know.
\<close>

section \<open>A job is determined by what was read of it\<close>

lemma str_less_asym: "str_less a b \<Longrightarrow> \<not> str_less b a"
  by (induction a b rule: str_less.induct) (auto split: if_splits)

lemma str_less_trans: "\<not> str_less b a \<Longrightarrow> \<not> str_less c b \<Longrightarrow> \<not> str_less c a"
proof (induction a arbitrary: b c)
  case (Cons x a)
  show ?case
  proof (cases b)
    case Nil
    then show ?thesis using Cons.prems by simp
  next
    case (Cons y b')
    show ?thesis
    proof (cases c)
      case Nil
      then show ?thesis using Cons Cons.prems by simp
    next
      case (Cons z c')
      have inj: "u = v \<or> (of_char u :: nat) < of_char v \<or> (of_char v :: nat) < of_char u" for u v
        by (metis linorder_neqE_nat of_char_eq_iff)
      show ?thesis
        using Cons.prems Cons.IH [of b' c'] \<open>b = y # b'\<close> Cons inj [of x y] inj [of y z] inj [of x z]
        by (auto split: if_split_asm)
    qed
  qed
qed simp

lemma str_order: "total_preorder_on S (\<lambda>a b. \<not> str_less b a)"
  unfolding total_preorder_on_def using str_less_asym str_less_trans by blast

lemma sort_by_sorted: "sorted_wrt le xs \<Longrightarrow> sort_by le xs = xs"
proof (induction xs)
  case (Cons x xs)
  then show ?case by (cases xs) simp_all
qed simp

abbreviation sort_labels :: "string list \<Rightarrow> string list" where
  "sort_labels \<equiv> sort_by (\<lambda>a b. \<not> str_less b a)"

lemma sort_labels_idem [simp]: "sort_labels (sort_labels ls) = sort_labels ls"
  by (rule sort_by_sorted, rule sorted_sort_by, rule str_order)

lemma label_sku: "cirujano_sku_for_label l = None \<or> cirujano_sku_for_label l = Some ActionsLinux"
  by (simp add: cirujano_sku_for_label_def)

lemma first_sku_set: "first_sku ls = (if \<exists>l \<in> set ls. cirujano_sku_for_label l \<noteq> None then Some ActionsLinux else None)"
proof (induction ls)
  case (Cons l ls)
  then show ?case using label_sku [of l] by (elim disjE) simp_all
qed simp

lemma job_sku_sorted [simp]: "job_sku (sort_labels ls) k = job_sku ls k"
  by (simp add: job_sku_def first_sku_set hosted_sku_for_labels_def Let_def)

lemma timing_of_labels [simp]:
  shows kind_of_sorted: "classify_runner (j\<lparr>ti_labels := sort_labels (ti_labels j)\<rparr>) = classify_runner j"
    and measurement_of_relabeled: "measurement_of date_of (j\<lparr>ti_labels := ls\<rparr>) = measurement_of date_of j"
  by (simp_all add: classify_runner_def measurement_of_def)

lemma minutes_of_relabeled [simp]:
  "job_minutes date_of (j\<lparr>ti_labels := ls\<rparr>) = job_minutes date_of j"
  "job_duration date_of (j\<lparr>ti_labels := ls\<rparr>) = job_duration date_of j"
  by (cases "measurement_of date_of j"; simp add: job_minutes_def job_duration_def)+

definition normalized :: "(string \<Rightarrow> jsnum) \<Rightarrow> telemetry_job \<Rightarrow> bool" where
  "normalized date_of j \<longleftrightarrow>
     normalize_telemetry_job date_of (tj_repository j) (tj_visibility j) (run_of_job j) (input_of_job j) = j"

lemma normalize_normalized [simp]: "normalized date_of (normalize_telemetry_job date_of repo vis run j)"
proof -
  let ?n = "normalize_telemetry_job date_of repo vis run j"
  have "run_of_job ?n = run\<lparr>tr_conclusion := ti_conclusion j\<rparr>" "input_of_job ?n = j\<lparr>ti_labels := sort_labels (ti_labels j)\<rparr>"
    "tj_repository ?n = repo" "tj_visibility ?n = vis"
    by (simp_all add: run_of_job_def input_of_job_def normalize_telemetry_job_def Let_def)
  then show ?thesis by (simp add: normalized_def) (simp add: normalize_telemetry_job_def Let_def)
qed

lemma normalizedD:
  assumes "normalized date_of j"
  shows "tj_key j = (tj_repository j, tj_runId j, tj_runAttempt j, tj_jobId j)" "sort_labels (tj_labels j) = tj_labels j"
proof -
  obtain repo vis run i where j: "j = normalize_telemetry_job date_of repo vis run i"
    using assms unfolding normalized_def by metis
  show "tj_key j = (tj_repository j, tj_runId j, tj_runAttempt j, tj_jobId j)" "sort_labels (tj_labels j) = tj_labels j"
    by (simp_all add: j normalize_telemetry_job_def Let_def)
qed

section \<open>The first observation wins\<close>

text \<open>
  Two observations of one execution: all that identifies it agrees, and known timing is never given up.
\<close>

definition same_execution :: "telemetry_job \<Rightarrow> telemetry_job \<Rightarrow> bool" where
  "same_execution f j \<longleftrightarrow>
     tj_key j = tj_key f \<and> tj_visibility j = tj_visibility f \<and> tj_workflowName j = tj_workflowName f
     \<and> tj_jobName j = tj_jobName f \<and> tj_event j = tj_event f \<and> tj_conclusion j = tj_conclusion f
     \<and> tj_runnerName j = tj_runnerName f \<and> tj_runnerGroupName j = tj_runnerGroupName f \<and> tj_labels j = tj_labels f
     \<and> (tj_startedAt f \<noteq> None \<longrightarrow> tj_startedAt j = tj_startedAt f)
     \<and> (tj_completedAt f \<noteq> None \<longrightarrow> tj_completedAt j = tj_completedAt f)"

lemma same_execution_refl [simp]: "same_execution f f"
  by (simp add: same_execution_def)

lemma same_execution_trans: "same_execution f g \<Longrightarrow> same_execution g j \<Longrightarrow> same_execution f j"
  by (auto simp: same_execution_def)

lemma member_same:
  "k \<notin> set (differing_fields a b) \<Longrightarrow> (k, v) \<in> set (job_members a) \<Longrightarrow> get_prop (job_members b) k = v"
  by (force simp: differing_fields_def)

lemma json_inj [simp]:
  "json_nullable JStr x = json_nullable JStr y \<longleftrightarrow> x = y" "map JStr xs = map JStr ys \<longleftrightarrow> xs = ys"
  "visibility_str u = visibility_str v \<longleftrightarrow> u = v"
  by (auto simp: json_nullable_def inj_def intro: inj_onI split: option.split)
    (cases u; cases v; simp)+

lemma only_created_differs:
  assumes "differing_fields a b = [''createdAt'']" "tj_key a = tj_key b"
  shows "same_execution a b"
proof -
  have same: "k \<noteq> ''createdAt'' \<Longrightarrow> (k, v) \<in> set (job_members a) \<Longrightarrow> get_prop (job_members b) k = v" for k v
    using member_same [of k a b] assms(1) by simp
  note lookup = job_members_def
  have "tj_visibility b = tj_visibility a" using same [of "''visibility''"] by (simp add: lookup)
  moreover have "tj_workflowName b = tj_workflowName a" using same [of "''workflowName''"] by (simp add: lookup)
  moreover have "tj_jobName b = tj_jobName a" using same [of "''jobName''"] by (simp add: lookup)
  moreover have "tj_event b = tj_event a" using same [of "''event''"] by (simp add: lookup)
  moreover have "tj_conclusion b = tj_conclusion a" using same [of "''conclusion''"] by (simp add: lookup)
  moreover have "tj_runnerName b = tj_runnerName a" using same [of "''runnerName''"] by (simp add: lookup)
  moreover have "tj_runnerGroupName b = tj_runnerGroupName a" using same [of "''runnerGroupName''"] by (simp add: lookup)
  moreover have "tj_labels b = tj_labels a" using same [of "''labels''"] by (simp add: lookup)
  moreover have "tj_startedAt b = tj_startedAt a" using same [of "''startedAt''"] by (simp add: lookup)
  moreover have "tj_completedAt b = tj_completedAt a" using same [of "''completedAt''"] by (simp add: lookup)
  ultimately show ?thesis using assms(2) by (simp add: same_execution_def)
qed

lemma retimed_same:
  assumes "normalized date_of e" "tj_startedAt e \<noteq> None \<longrightarrow> tj_startedAt e = tj_startedAt l"
    "tj_completedAt e \<noteq> None \<longrightarrow> tj_completedAt e = tj_completedAt l"
  shows "same_execution e (retimed date_of e l (tj_visibility e))"
  using assms normalizedD [OF assms(1)]
  by (simp add: same_execution_def retimed_def normalize_telemetry_job_def Let_def run_of_job_def input_of_job_def)

lemma completed_keeps:
  assumes "completed_job_timing date_of e l = Some c" "normalized date_of e"
  shows "normalized date_of c \<and> same_execution e c"
proof -
  have t: "tj_startedAt e \<noteq> None \<longrightarrow> tj_startedAt e = tj_startedAt l" "tj_completedAt e \<noteq> None \<longrightarrow> tj_completedAt e = tj_completedAt l"
    "c = retimed date_of e l (tj_visibility e)"
    using assms(1) by (auto simp: completed_job_timing_def Let_def split: if_split_asm)
  then show ?thesis using retimed_same [OF assms(2)] by (simp add: retimed_def)
qed

lemma merge_keeps:
  assumes "merge_telemetry_job date_of e j = Inr k" "normalized date_of e" "normalized date_of j" "tj_key e = tj_key j"
  shows "normalized date_of k \<and> same_execution e k"
proof (cases "differing_fields e j = [] \<or> completed_job_timing date_of e j \<noteq> None")
  case True
  then show ?thesis
    using assms completed_keeps by (fastforce simp: merge_telemetry_job_def Let_def split: if_split_asm option.splits)
next
  case False
  then have "k = e \<or> k = j \<and> differing_fields e j = [''createdAt'']"
    using assms(1) by (auto simp: merge_telemetry_job_def Let_def split: if_split_asm)
  then show ?thesis using assms(2-4) only_created_differs by auto
qed

section \<open>Counted once, as first seen\<close>

definition observations_ok :: "(string \<Rightarrow> jsnum) \<Rightarrow> (execution_key, telemetry_job) jsmap \<Rightarrow> bool" where
  "observations_ok date_of m \<longleftrightarrow>
     map_ok m \<and> (\<forall>k j. map_get m k = Some j \<longrightarrow> tj_key j = k \<and> normalized date_of j)"

definition first_seen ::
  "(string \<Rightarrow> jsnum) \<Rightarrow> jsnum \<Rightarrow> jsnum \<Rightarrow> execution_key \<Rightarrow> telemetry_job list \<Rightarrow> telemetry_job option" where
  "first_seen date_of since window_end k js =
     find (\<lambda>j. tj_key j = k \<and> \<not> out_of_window date_of since window_end j) js"

lemma observations_ok_set:
  "observations_ok date_of m \<Longrightarrow> normalized date_of j \<Longrightarrow> tj_key j = k \<Longrightarrow> observations_ok date_of (map_set k j m)"
  by (auto simp: observations_ok_def map_get_set jm.invar_upd)

lemma first_seen_simps [simp]:
  "first_seen date_of since we k [] = None"
  "first_seen date_of since we k (j # js) =
     (if tj_key j = k \<and> \<not> out_of_window date_of since we j then Some j else first_seen date_of since we k js)"
  by (simp_all add: first_seen_def)

text \<open>What a map with the observations of a list merged into it holds under a key.\<close>

lemma merge_jobs_keeps:
  assumes "merge_jobs date_of since we m js = Inr m'" "observations_ok date_of m" "\<forall>j \<in> set js. normalized date_of j"
  shows "observations_ok date_of m' \<and>
     rel_option same_execution (case map_get m k of Some f \<Rightarrow> Some f | None \<Rightarrow> first_seen date_of since we k js) (map_get m' k)"
  using assms
proof (induction date_of since we m js rule: merge_jobs.induct)
  case (1 date_of since we m)
  then show ?case by (cases "map_get m k") auto
next
  case (2 date_of since we m j js)
  consider (out) "out_of_window date_of since we j" | (new) "\<not> out_of_window date_of since we j" "map_get m (tj_key j) = None"
    | (known) e where "\<not> out_of_window date_of since we j" "map_get m (tj_key j) = Some e"
    by (cases "map_get m (tj_key j)") auto
  then show ?case
  proof cases
    case out
    then show ?thesis using 2 by (cases "map_get m k") simp_all
  next
    case new
    then show ?thesis using 2 observations_ok_set [of date_of m j "tj_key j"]
      by (cases "map_get m k") (auto simp: map_get_set split: if_split_asm)
  next
    case known
    then obtain c where c: "merge_telemetry_job date_of e j = Inr c" "merge_jobs date_of since we (map_set (tj_key j) c m) js = Inr m'"
      using "2.prems"(1) by (auto simp: result_simps)
    have e: "tj_key e = tj_key j" "normalized date_of e" using "2.prems"(2) known(2) unfolding observations_ok_def by blast+
    then have s: "normalized date_of c" "same_execution e c" using merge_keeps [OF c(1)] "2.prems"(3) by auto
    then have "observations_ok date_of (map_set (tj_key j) c m)"
      using observations_ok_set [OF "2.prems"(2)] e(1) by (simp add: same_execution_def)
    then have "observations_ok date_of m' \<and> rel_option same_execution
        (case map_get (map_set (tj_key j) c m) k of Some f \<Rightarrow> Some f | None \<Rightarrow> first_seen date_of since we k js) (map_get m' k)"
      using "2.IH"(3) [OF known c(2)] "2.prems"(3) by auto
    then show ?thesis using known s(2)
      by (cases "map_get m' k"; cases "tj_key j = k") (auto simp: map_get_set split: option.splits intro: same_execution_trans)
  qed
qed

lemma merge_jobs_append:
  "merge_jobs date_of since we m (xs @ ys) = rbind (merge_jobs date_of since we m xs) (\<lambda>m. merge_jobs date_of since we m ys)"
proof (induction date_of since we m xs rule: merge_jobs.induct)
  case (2 date_of since we m j js)
  then show ?case
    by (cases "map_get m (tj_key j)"; cases "merge_telemetry_job date_of (the (map_get m (tj_key j))) j") auto
qed simp

lemma merge_snapshots_jobs:
  "merge_snapshots date_of since we st ss = Inr st'
     \<Longrightarrow> merge_jobs date_of since we (ms_jobs st) (concat (map sn_jobs ss)) = Inr (ms_jobs st')"
  by (induction date_of since we st ss rule: merge_snapshots.induct) (auto simp: merge_jobs_append result_simps)

end
