(* ===== verification/Telemetry_Stored.thy ===== *)
theory Telemetry_Stored
  imports Telemetry_Merge Registry_Properties
begin

text \<open>
  The lemmas on stored snapshots: what an accepted one satisfies, that a consistent one is read back as it was
  written, and a concrete one for the witnesses.
\<close>

section \<open>A stored snapshot\<close>

lemma api_timestamp_ok:
  "api_timestamp date_of v name = Inr t \<longleftrightarrow> api_text v name = Inr t \<and> is_finite (date_of t)"
  by (auto simp: api_timestamp_def result_simps)

lemma api_nullable_timestamp_ok:
  "api_nullable_timestamp date_of v name = Inr x \<Longrightarrow> \<forall>t \<in> set_option x. is_finite (date_of t)"
  by (auto simp: api_nullable_timestamp_def api_timestamp_ok result_simps split: if_split_asm)

lemma rbindE:
  assumes "rbind m f = Inr y"
  obtains x where "m = Inr x" "f x = Inr y"
  using assms by (auto simp: result_simps)

lemma validate_job_ok:
  assumes "validate_job date_of num_text name v = Inr j"
  shows "normalized date_of j" "is_finite (date_of (tj_createdAt j))"
    "\<forall>t \<in> set_option (tj_startedAt j). is_finite (date_of t)" "\<forall>t \<in> set_option (tj_completedAt j). is_finite (date_of t)"
proof -
  obtain repo vis run i where j: "j = normalize_telemetry_job date_of repo vis run i"
    and t: "is_finite (date_of (tr_createdAt run))" "\<forall>t \<in> set_option (ti_startedAt i). is_finite (date_of t)"
      "\<forall>t \<in> set_option (ti_completedAt i). is_finite (date_of t)"
    using assms unfolding validate_job_def Let_def
    by (elim rbindE) (drule api_nullable_timestamp_ok, drule api_nullable_timestamp_ok, simp only: api_timestamp_ok, force)
  show "normalized date_of j" "is_finite (date_of (tj_createdAt j))"
    "\<forall>t \<in> set_option (tj_startedAt j). is_finite (date_of t)" "\<forall>t \<in> set_option (tj_completedAt j). is_finite (date_of t)"
    using t unfolding j by (simp_all, simp_all add: normalize_telemetry_job_def Let_def)
qed

text \<open>A property of the map that every entry keeps.\<close>

lemma build_map_keeps:
  assumes "build_map f m i vs = Inr m'" "P m" "\<And>m i v m'. P m \<Longrightarrow> f m i v = Inr m' \<Longrightarrow> P m'"
  shows "P m'"
  using assms(1,2) by (induction vs arbitrary: m i) (auto simp: result_simps dest: assms(3))

lemma map_set_new: "map_get m k = None \<Longrightarrow> map_set k v m = m @ [(k, v)]"
  by (induction m) (auto simp: map_get_def split: if_split_asm)

lemma map_get_None: "map_get m k = None \<longleftrightarrow> k \<notin> fst ` set m"
  by (simp add: map_get_def map_of_eq_None_iff)

definition in_span :: "(string \<Rightarrow> jsnum) \<Rightarrow> telemetry_snapshot \<Rightarrow> string \<Rightarrow> bool" where
  "in_span date_of s t \<longleftrightarrow> date_of (sn_windowStart s) \<le> date_of t \<and> date_of t \<le> date_of (sn_collectedAt s)"

definition jobs_of_run :: "telemetry_snapshot \<Rightarrow> run_evidence \<Rightarrow> telemetry_job list" where
  "jobs_of_run s r = filter (\<lambda>j. run_key_of j = re_key r) (sn_jobs s)"

definition run_ok :: "(string \<Rightarrow> jsnum) \<Rightarrow> telemetry_snapshot \<Rightarrow> run_evidence \<Rightarrow> bool" where
  "run_ok date_of s r \<longleftrightarrow>
     re_key r = (re_repository r, tr_id r, tr_attempt r) \<and> re_repository r \<in> fst ` set (sn_inventory s)
     \<and> in_span date_of s (tr_createdAt r) \<and> re_jobsObserved r = count_of (jobs_of_run s r)
     \<and> (re_reusable r \<longleftrightarrow> tr_conclusion r \<noteq> []
          \<and> (\<forall>j \<in> set (jobs_of_run s r). tj_measurementStatus j \<noteq> TimingIncomplete))"

definition job_ok :: "(string \<Rightarrow> jsnum) \<Rightarrow> telemetry_snapshot \<Rightarrow> telemetry_job \<Rightarrow> bool" where
  "job_ok date_of s j \<longleftrightarrow>
     normalized date_of j \<and> in_span date_of s (tj_createdAt j)
     \<and> (\<forall>t \<in> set_option (tj_startedAt j). date_of (tj_createdAt j) \<le> date_of t)
     \<and> (\<forall>t \<in> set_option (tj_completedAt j). date_of t \<le> date_of (sn_collectedAt s))
     \<and> (\<exists>r \<in> set (sn_runs s). re_key r = run_key_of j \<and> tr_workflowName r = tj_workflowName j
          \<and> tr_event r = tj_event j \<and> tr_createdAt r = tj_createdAt j)"

definition snapshot_ok :: "(string \<Rightarrow> jsnum) \<Rightarrow> telemetry_snapshot \<Rightarrow> bool" where
  "snapshot_ok date_of s \<longleftrightarrow>
     distinct (map fst (sn_inventory s)) \<and> sn_repositoriesScanned s = count_of (sn_inventory s)
     \<and> (\<forall>n \<in> fst ` set (sn_inventory s). prefix (sn_owner s @ ''/'') n)
     \<and> distinct (map re_key (sn_runs s)) \<and> sn_runsScanned s = count_of (sn_runs s) \<and> (\<forall>r \<in> set (sn_runs s). run_ok date_of s r)
     \<and> distinct (map tj_key (sn_jobs s)) \<and> (\<forall>j \<in> set (sn_jobs s). job_ok date_of s j)"

text \<open>What the loops of the validation keep of what they build.\<close>

definition inventory_inv :: "string \<Rightarrow> (string, visibility) jsmap \<Rightarrow> bool" where
  "inventory_inv owner m \<longleftrightarrow> map_ok m \<and> (\<forall>n \<in> fst ` set m. prefix (owner @ ''/'') n)"

lemma inventory_kept:
  assumes "inventory_inv owner m" "parse_inventory_entry owner m i v = Inr m'"
  shows "inventory_inv owner m'"
  using assms
  by (auto simp: inventory_inv_def parse_inventory_entry_def Let_def result_simps map_set_new map_get_None map_ok_def)

definition in_frame :: "(string \<Rightarrow> jsnum) \<Rightarrow> snapshot_frame \<Rightarrow> string \<Rightarrow> bool" where
  "in_frame date_of fr t \<longleftrightarrow> is_finite (date_of t) \<and> \<not> date_of t < sf_from fr \<and> \<not> sf_to fr < date_of t"

definition runs_inv :: "(string \<Rightarrow> jsnum) \<Rightarrow> snapshot_frame \<Rightarrow> (attempt_key, run_evidence) jsmap \<Rightarrow> bool" where
  "runs_inv date_of fr m \<longleftrightarrow>
     map_ok m \<and> (\<forall>(k, r) \<in> set m. k = re_key r \<and> re_key r = (re_repository r, tr_id r, tr_attempt r)
       \<and> re_repository r \<in> fst ` set (sf_inventory fr) \<and> in_frame date_of fr (tr_createdAt r))"

lemma run_kept:
  assumes "runs_inv date_of fr m" "parse_run_entry date_of num_text fr m i v = Inr m'"
  shows "runs_inv date_of fr m'"
proof -
  obtain k r where "m' = map_set k r m" "map_get m k = None" "k = re_key r"
    "k = (re_repository r, tr_id r, tr_attempt r)" "map_get (sf_inventory fr) (re_repository r) \<noteq> None"
    "in_frame date_of fr (tr_createdAt r)"
    using assms(2) unfolding parse_run_entry_def Let_def
    by (elim rbindE, simp only: api_timestamp_ok step_eq_Inr in_frame_def sum.inject)
      (rule that, erule sym, simp_all add: in_frame_def)
  then show ?thesis using assms(1) by (auto simp: runs_inv_def map_set_new map_get_None map_ok_def)
qed

definition jobs_inv :: "(string \<Rightarrow> jsnum) \<Rightarrow> snapshot_frame \<Rightarrow> telemetry_job list \<Rightarrow> bool" where
  "jobs_inv date_of fr js \<longleftrightarrow>
     distinct (map tj_key js) \<and> (\<forall>j \<in> set js. normalized date_of j \<and> in_frame date_of fr (tj_createdAt j)
       \<and> (\<forall>t \<in> set_option (tj_startedAt j). is_finite (date_of t) \<and> \<not> date_of t < date_of (tj_createdAt j))
       \<and> (\<forall>t \<in> set_option (tj_completedAt j). is_finite (date_of t) \<and> \<not> sf_to fr < date_of t))"

lemma job_kept:
  assumes "jobs_inv date_of fr js" "parse_job_entry date_of num_text fr js i v = Inr js'"
  shows "jobs_inv date_of fr js'"
proof -
  obtain j name where j: "validate_job date_of num_text name v = Inr j" "js' = js @ [j]" "tj_key j \<notin> tj_key ` set js"
    "\<not> date_of (tj_createdAt j) < sf_from fr" "\<not> sf_to fr < date_of (tj_createdAt j)"
    "\<forall>s \<in> set_option (tj_startedAt j). \<not> date_of s < date_of (tj_createdAt j)"
    "\<forall>c \<in> set_option (tj_completedAt j). \<not> sf_to fr < date_of c"
    using assms(2) unfolding parse_job_entry_def Let_def
    by (elim rbindE) (simp only: step_eq_Inr, simp)
  then show ?thesis using assms(1) validate_job_ok [OF j(1)] by (auto simp: jobs_inv_def in_frame_def)
qed

lemma rmap_each: "rmap f xs = Inr ys \<Longrightarrow> x \<in> set xs \<Longrightarrow> \<exists>y. f x = Inr y"
  by (induction xs arbitrary: ys) (auto simp: result_simps)

text \<open>What an accepted snapshot was read from: the bounds, the maps of the loops and their last checks.\<close>

lemma validate_snapshot_parts:
  assumes "validate_snapshot date_of num_text v = Inr s"
  obtains inventory runs where
    "inventory_inv (sn_owner s) inventory" "sn_inventory s = inventory" "sn_repositoriesScanned s = count_of inventory"
    "runs_inv date_of \<lparr>sf_owner = sn_owner s, sf_from = date_of (sn_windowStart s), sf_to = date_of (sn_collectedAt s),
       sf_inventory = inventory\<rparr> runs"
    "sn_runs s = map snd runs" "sn_runsScanned s = count_of runs"
    "jobs_inv date_of \<lparr>sf_owner = sn_owner s, sf_from = date_of (sn_windowStart s), sf_to = date_of (sn_collectedAt s),
       sf_inventory = inventory\<rparr> (sn_jobs s)"
    "\<forall>r \<in> snd ` set runs. ok (check_run num_text (sn_jobs s) r)" "\<forall>j \<in> set (sn_jobs s). map_get runs (run_key_of j) \<noteq> None"
    "is_finite (date_of (sn_windowStart s))" "is_finite (date_of (sn_collectedAt s))"
proof -
  obtain owner collected start repositories scanned inventory runs jobs raw_inventory raw_runs raw_jobs us
    where s: "\<lparr>sn_owner = owner, sn_collectedAt = collected, sn_windowStart = start, sn_inventory = inventory,
         sn_repositoriesScanned = repositories, sn_runsScanned = scanned, sn_runs = map snd runs, sn_jobs = jobs\<rparr> = s"
      and t: "is_finite (date_of start)" "is_finite (date_of collected)"
      and i: "build_map (parse_inventory_entry owner) [] 0 raw_inventory = Inr inventory" "num_eq (count_of inventory) repositories"
      and r: "build_map (parse_run_entry date_of num_text \<lparr>sf_owner = owner, sf_from = date_of start, sf_to = date_of collected,
         sf_inventory = inventory\<rparr>) [] 0 raw_runs = Inr runs" "num_eq (count_of runs) scanned"
      and j: "build_map (parse_job_entry date_of num_text \<lparr>sf_owner = owner, sf_from = date_of start, sf_to = date_of collected,
         sf_inventory = inventory\<rparr>) [] 0 raw_jobs = Inr jobs"
      and c: "rmap (check_run num_text jobs) (map snd runs) = Inr us" "find (\<lambda>j. map_get runs (run_key_of j) = None) jobs = None"
    using assms unfolding validate_snapshot_def Let_def
    by (elim rbindE, simp only: api_timestamp_ok step_eq_Inr sum.inject)
  have fin: "inventory_inv owner inventory" 
    by (rule build_map_keeps [OF i(1)]) (simp add: inventory_inv_def map_ok_def, rule inventory_kept)
  have rin: "runs_inv date_of \<lparr>sf_owner = owner, sf_from = date_of start, sf_to = date_of collected, sf_inventory = inventory\<rparr> runs"
    by (rule build_map_keeps [OF r(1)]) (simp add: runs_inv_def map_ok_def, rule run_kept)
  have jin: "jobs_inv date_of \<lparr>sf_owner = owner, sf_from = date_of start, sf_to = date_of collected, sf_inventory = inventory\<rparr> jobs"
    by (rule build_map_keeps [OF j]) (simp add: jobs_inv_def, rule job_kept)
  have "\<forall>r \<in> snd ` set runs. ok (check_run num_text jobs r)" using rmap_each [OF c(1)] by (auto simp: result_simps)
  moreover have "\<forall>j \<in> set jobs. map_get runs (run_key_of j) \<noteq> None" using c(2) by (simp add: find_None_iff)
  ultimately show ?thesis
    using s fin rin jin t num_eqD [OF i(2)] num_eqD [OF r(2)] by (intro that [of inventory runs]) auto
qed

lemma in_frame_span:
  assumes "in_frame date_of fr t" "sf_from fr = date_of (sn_windowStart s)" "sf_to fr = date_of (sn_collectedAt s)"
    "is_finite (date_of (sn_windowStart s))" "is_finite (date_of (sn_collectedAt s))"
  shows "in_span date_of s t"
proof -
  have "date_of t \<noteq> NaN" "date_of (sn_windowStart s) \<noteq> NaN" "date_of (sn_collectedAt s) \<noteq> NaN"
    using assms by (auto simp: in_frame_def)
  then show ?thesis using assms num_not_less by (simp add: in_frame_def in_span_def)
qed

lemma check_run_ok:
  "ok (check_run num_text (sn_jobs s) r) \<longleftrightarrow> num_eq (count_of (jobs_of_run s r)) (re_jobsObserved r)
     \<and> (\<forall>j \<in> set (jobs_of_run s r). tj_workflowName j = tr_workflowName r \<and> tj_event j = tr_event r \<and> tj_createdAt j = tr_createdAt r)
     \<and> (re_reusable r \<longleftrightarrow> tr_conclusion r \<noteq> [] \<and> (\<forall>j \<in> set (jobs_of_run s r). tj_measurementStatus j \<noteq> TimingIncomplete))"
  unfolding check_run_def Let_def jobs_of_run_def [symmetric] ok_iff rbind_eq_Inr step_eq_Inr list_all_iff by blast

lemma finite_not_less: "is_finite a \<Longrightarrow> is_finite b \<Longrightarrow> \<not> a < b \<longleftrightarrow> b \<le> a"
  by (rule num_not_less) auto

section \<open>Written and read back\<close>

lemma get_prop_in: "distinct (map fst kvs) \<Longrightarrow> (k, w) \<in> set kvs \<Longrightarrow> get_prop kvs k = w"
  by (simp add: get_prop_def)

lemma stored_keys: "distinct (map fst (stored_members num_text j))"
  by (simp add: stored_members_def job_members_def)

lemma printed_simps [simp]:
  "printed (JStr s) = JStr s" "printed (JArr xs) = JArr xs" "printed (json_number n) = json_number n"
  "printed (json_nullable JStr x) = json_nullable JStr x" "printed (json_nullable json_number y) = json_nullable json_number y"
  "printed (json_nullable (\<lambda>z. JStr (f z)) w) = json_nullable (\<lambda>z. JStr (f z)) w"
  by (simp_all add: printed_def json_number_def json_nullable_def split: option.split)

lemma stored_printed: "list_all (\<lambda>(k, w). printed w = w) (stored_members num_text j)"
  by (simp add: stored_members_def job_members_def)

lemma stored_consistent: "find (\<lambda>(k, w). printed (get_prop (stored_members num_text j) k) \<noteq> w) (stored_members num_text j) = None"
  using get_prop_in [OF stored_keys] stored_printed [of num_text j] by (auto simp: find_None_iff list_all_iff)

lemma stored_props:
  "get_prop (stored_members num_text j) ''key'' = JStr (key_text num_text (tj_key j))"
  "get_prop (stored_members num_text j) ''repository'' = JStr (tj_repository j)"
  "get_prop (stored_members num_text j) ''visibility'' = JStr (visibility_str (tj_visibility j))"
  "get_prop (stored_members num_text j) ''workflowName'' = JStr (tj_workflowName j)"
  "get_prop (stored_members num_text j) ''runId'' = json_number (tj_runId j)"
  "get_prop (stored_members num_text j) ''runAttempt'' = json_number (tj_runAttempt j)"
  "get_prop (stored_members num_text j) ''jobId'' = json_number (tj_jobId j)"
  "get_prop (stored_members num_text j) ''jobName'' = JStr (tj_jobName j)"
  "get_prop (stored_members num_text j) ''event'' = JStr (tj_event j)"
  "get_prop (stored_members num_text j) ''conclusion'' = JStr (tj_conclusion j)"
  "get_prop (stored_members num_text j) ''createdAt'' = JStr (tj_createdAt j)"
  "get_prop (stored_members num_text j) ''startedAt'' = json_nullable JStr (tj_startedAt j)"
  "get_prop (stored_members num_text j) ''completedAt'' = json_nullable JStr (tj_completedAt j)"
  "get_prop (stored_members num_text j) ''runnerName'' = JStr (tj_runnerName j)"
  "get_prop (stored_members num_text j) ''runnerGroupName'' = JStr (tj_runnerGroupName j)"
  "get_prop (stored_members num_text j) ''labels'' = JArr (map JStr (tj_labels j))"
  by (simp_all add: stored_members_def job_members_def get_prop_def)

definition id_positive :: "jsnum \<Rightarrow> bool" where
  "id_positive n \<longleftrightarrow> is_integer n \<and> Fin 0 < n"

text \<open>What the readers ask of the texts and numbers of a job, beyond its being the job of what was read.\<close>

definition job_texts :: "(string \<Rightarrow> jsnum) \<Rightarrow> telemetry_job \<Rightarrow> bool" where
  "job_texts date_of j \<longleftrightarrow>
     tj_repository j \<noteq> [] \<and> tj_workflowName j \<noteq> [] \<and> tj_jobName j \<noteq> [] \<and> tj_event j \<noteq> [] \<and> [] \<notin> set (tj_labels j)
     \<and> id_positive (tj_runId j) \<and> id_positive (tj_runAttempt j) \<and> id_positive (tj_jobId j)
     \<and> (\<forall>t \<in> {tj_createdAt j} \<union> set_option (tj_startedAt j) \<union> set_option (tj_completedAt j). t \<noteq> [] \<and> is_finite (date_of t))"

lemma reads [simp]:
  "s \<noteq> [] \<Longrightarrow> api_text (JStr s) name = Inr s"
  "api_nullable_text (JStr s) name = Inr s"
  "s \<noteq> [] \<Longrightarrow> is_finite (date_of s) \<Longrightarrow> api_timestamp date_of (JStr s) name = Inr s"
  "id_positive n \<Longrightarrow> api_positive_integer (json_number n) name = Inr n"
  "visibility_at (JStr (visibility_str v)) name = Inr v"
  "api_array (JArr xs) name = Inr xs" "api_record (JObj kvs) name = Inr kvs"
  "(\<forall>t \<in> set_option x. t \<noteq> [] \<and> is_finite (date_of t)) \<Longrightarrow> api_nullable_timestamp date_of (json_nullable JStr x) name = Inr x"
  by (auto simp: api_text_def api_nullable_text_def api_timestamp_def api_positive_integer_def json_number_def id_positive_def
      is_integer_finite visibility_at_def api_array_def api_record_def api_nullable_timestamp_def json_nullable_def
      split: option.splits) (cases v; simp)+

lemma read_labels: "[] \<notin> set ls \<Longrightarrow> rmap (\<lambda>l. api_text l name) (map JStr ls) = Inr ls"
  by (rule rmap_map_Inr) (auto simp: api_text_def)

lemma stored_job_read:
  assumes "normalized date_of j" "job_texts date_of j"
  shows "validate_job date_of num_text name (JObj (stored_members num_text j)) = Inr j"
proof -
  have k: "key_text num_text (tj_key j) \<noteq> []" using normalizedD(1) [OF assms(1)] by (simp add: key_text_def)
  have n: "normalize_telemetry_job date_of (tj_repository j) (tj_visibility j)
      \<lparr>tr_id = tj_runId j, tr_attempt = tj_runAttempt j, tr_workflowName = tj_workflowName j,
       tr_event = tj_event j, tr_createdAt = tj_createdAt j, tr_conclusion = tj_conclusion j\<rparr>
      \<lparr>ti_id = tj_jobId j, ti_name = tj_jobName j, ti_startedAt = tj_startedAt j,
       ti_completedAt = tj_completedAt j, ti_conclusion = tj_conclusion j, ti_labels = tj_labels j,
       ti_runnerName = tj_runnerName j, ti_runnerGroupName = tj_runnerGroupName j\<rparr> = j"
    using assms(1) by (simp only: normalized_def run_of_job_def input_of_job_def)
  have t: "tj_repository j \<noteq> []" "tj_workflowName j \<noteq> []" "tj_jobName j \<noteq> []" "tj_event j \<noteq> []" "tj_createdAt j \<noteq> []"
    "[] \<notin> set (tj_labels j)" "is_finite (date_of (tj_createdAt j))"
    "id_positive (tj_runId j)" "id_positive (tj_runAttempt j)" "id_positive (tj_jobId j)"
    and ts: "api_nullable_timestamp date_of (json_nullable JStr (tj_startedAt j)) m = Inr (tj_startedAt j)"
      "api_nullable_timestamp date_of (json_nullable JStr (tj_completedAt j)) m = Inr (tj_completedAt j)" for m
    using assms(2) by (simp_all add: job_texts_def)
  show ?thesis
    by (simp only: validate_job_def Let_def stored_props reads rbind.simps as_str.simps require_simps t ts k n read_labels stored_consistent
        reject_simps refl not_False_eq_True)
qed

lemma build_map_written:
  assumes "\<And>m i x. x \<in> set xs \<Longrightarrow> key (h x) \<notin> key ` set m \<Longrightarrow> f m i (g x) = Inr (m @ [h x])"
    "distinct (map (key \<circ> h) xs)" "\<forall>x \<in> set xs. key (h x) \<notin> key ` set m"
  shows "build_map f m i (map g xs) = Inr (m @ map h xs)"
  using assms
proof (induction xs arbitrary: m i)
  case (Cons x xs)
  have "build_map f (m @ [h x]) (Suc i) (map g xs) = Inr ((m @ [h x]) @ map h xs)"
    by (rule Cons.IH) (use Cons.prems in \<open>auto simp: image_iff\<close>)
  then show ?case using Cons.prems by simp
qed simp

lemma inventory_read:
  assumes "\<forall>n \<in> fst ` set rows. prefix (owner @ ''/'') n" "distinct (map fst rows)"
  shows "build_map (parse_inventory_entry owner) [] 0
     (map (\<lambda>(name, vis). JObj [(''fullName'', JStr name), (''visibility'', JStr (visibility_str vis))]) rows) = Inr rows"
proof -
  have "build_map (parse_inventory_entry owner) [] 0
     (map (\<lambda>(name, vis). JObj [(''fullName'', JStr name), (''visibility'', JStr (visibility_str vis))]) rows) = Inr ([] @ map id rows)"
  proof (rule build_map_written [where key = fst])
    fix m :: "(string, visibility) jsmap" and i and x :: "string \<times> visibility"
    assume x: "x \<in> set rows" "fst (id x) \<notin> fst ` set m"
    obtain n v where nv: "x = (n, v)" by (cases x)
    have "prefix (owner @ ''/'') n" using assms(1) x(1) nv by force
    moreover then have "n \<noteq> []" by auto
    moreover have "map_get m n = None" using x(2) nv by (simp add: map_get_None)
    ultimately show "parse_inventory_entry owner m i (case x of (name, vis) \<Rightarrow>
        JObj [(''fullName'', JStr name), (''visibility'', JStr (visibility_str vis))]) = Inr (m @ [id x])"
      by (simp add: nv parse_inventory_entry_def Let_def map_set_new)
  qed (use assms(2) in simp_all)
  then show ?thesis by simp
qed

definition run_texts :: "(string \<Rightarrow> jsnum) \<Rightarrow> run_evidence \<Rightarrow> bool" where
  "run_texts date_of r \<longleftrightarrow>
     re_repository r \<noteq> [] \<and> tr_workflowName r \<noteq> [] \<and> tr_event r \<noteq> [] \<and> tr_createdAt r \<noteq> []
     \<and> is_finite (date_of (tr_createdAt r)) \<and> id_positive (tr_id r) \<and> id_positive (tr_attempt r)"

lemma stored_run_props:
  "get_prop [(''key'', a), (''repository'', b), (''id'', c), (''attempt'', d), (''workflowName'', e), (''event'', f), (''createdAt'', g),
     (''conclusion'', h), (''jobsObserved'', i), (''reusable'', j)] k =
   (if k = ''key'' then a else if k = ''repository'' then b else if k = ''id'' then c else if k = ''attempt'' then d
    else if k = ''workflowName'' then e else if k = ''event'' then f else if k = ''createdAt'' then g
    else if k = ''conclusion'' then h else if k = ''jobsObserved'' then i else if k = ''reusable'' then j else JUndef)"
  by simp

lemma count_of_eq [simp]: "count_of (map f xs) = count_of xs" "num_eq (count_of xs) (count_of xs)" "count_of xs \<noteq> NaN"
  by (simp_all add: count_of_def)

lemma read_counts [simp]: "api_nonnegative_integer (json_number (count_of xs)) name = Inr (count_of xs)"
  by (simp add: count_of_def json_number_def api_nonnegative_integer_def is_integer_def num_ops)

lemma stored_run_read:
  assumes "run_texts date_of r" "re_key r = (re_repository r, tr_id r, tr_attempt r)" "re_jobsObserved r = count_of js"
    "in_frame date_of fr (tr_createdAt r)" "map_get (sf_inventory fr) (re_repository r) \<noteq> None" "map_get m (re_key r) = None"
  shows "parse_run_entry date_of num_text fr m i (stored_run num_text r) = Inr (m @ [(re_key r, r)])"
proof -
  have k: "run_key_text num_text (re_repository r, tr_id r, tr_attempt r) \<noteq> []" using assms(1) by (simp add: run_key_text_def run_texts_def)
  show ?thesis using assms k unfolding run_texts_def in_frame_def
    by (simp add: parse_run_entry_def stored_run_def Let_def api_boolean_def map_set_new)
qed

lemma stored_job_entry_read:
  assumes "normalized date_of j" "job_texts date_of j" "prefix (sf_owner fr @ ''/'') (tj_repository j)"
    "map_get (sf_inventory fr) (tj_repository j) \<noteq> None" "in_frame date_of fr (tj_createdAt j)"
    "\<forall>s \<in> set_option (tj_startedAt j). \<not> date_of s < date_of (tj_createdAt j)"
    "\<forall>c \<in> set_option (tj_completedAt j). \<not> sf_to fr < date_of c" "tj_key j \<notin> tj_key ` set js"
  shows "parse_job_entry date_of num_text fr js i (JObj (stored_members num_text j)) = Inr (js @ [j])"
  using assms(3-) unfolding parse_job_entry_def Let_def stored_job_read [OF assms(1,2)] in_frame_def by simp

definition snapshot_texts :: "(string \<Rightarrow> jsnum) \<Rightarrow> telemetry_snapshot \<Rightarrow> bool" where
  "snapshot_texts date_of s \<longleftrightarrow>
     sn_owner s \<noteq> [] \<and> (\<forall>t \<in> {sn_collectedAt s, sn_windowStart s}. t \<noteq> [] \<and> is_finite (date_of t))
     \<and> date_of (sn_windowStart s) \<le> date_of (sn_collectedAt s)
     \<and> (\<forall>r \<in> set (sn_runs s). run_texts date_of r) \<and> (\<forall>j \<in> set (sn_jobs s). job_texts date_of j)"

lemma not_less_of_le: "a \<le> b \<Longrightarrow> \<not> b < (a :: jsnum)"
  by (cases a; cases b) (auto simp: num_ops)

text \<open>The frame of a snapshot, and what every run and job of a consistent one has in it.\<close>

definition frame_of :: "(string \<Rightarrow> jsnum) \<Rightarrow> telemetry_snapshot \<Rightarrow> snapshot_frame" where
  "frame_of date_of s = \<lparr>sf_owner = sn_owner s, sf_from = date_of (sn_windowStart s), sf_to = date_of (sn_collectedAt s),
     sf_inventory = sn_inventory s\<rparr>"

lemma frame_of_simps [simp]:
  "sf_owner (frame_of date_of s) = sn_owner s" "sf_from (frame_of date_of s) = date_of (sn_windowStart s)"
  "sf_to (frame_of date_of s) = date_of (sn_collectedAt s)" "sf_inventory (frame_of date_of s) = sn_inventory s"
  by (simp_all add: frame_of_def)

lemma span_in_frame:
  "in_span date_of s t \<Longrightarrow> is_finite (date_of t) \<Longrightarrow> in_frame date_of (frame_of date_of s) t"
  by (simp add: in_span_def in_frame_def not_less_of_le)

lemma stored_runs_read:
  assumes "snapshot_ok date_of s" "snapshot_texts date_of s"
  shows "build_map (parse_run_entry date_of num_text (frame_of date_of s)) [] 0 (map (stored_run num_text) (sn_runs s))
     = Inr (map (\<lambda>r. (re_key r, r)) (sn_runs s))"
proof -
  have "build_map (parse_run_entry date_of num_text (frame_of date_of s)) [] 0 (map (stored_run num_text) (sn_runs s))
     = Inr ([] @ map (\<lambda>r. (re_key r, r)) (sn_runs s))"
  proof (rule build_map_written [where key = fst])
    fix m :: "(attempt_key, run_evidence) jsmap" and i r
    assume r: "r \<in> set (sn_runs s)" "fst (re_key r, r) \<notin> fst ` set m"
    have ok: "run_ok date_of s r" "run_texts date_of r" using assms r(1) by (auto simp: snapshot_ok_def snapshot_texts_def)
    show "parse_run_entry date_of num_text (frame_of date_of s) m i (stored_run num_text r) = Inr (m @ [(re_key r, r)])"
      by (rule stored_run_read [OF ok(2)])
        (use ok r(2) in \<open>auto simp: run_ok_def run_texts_def span_in_frame map_get_None\<close>)
  qed (use assms(1) in \<open>simp_all add: snapshot_ok_def comp_def\<close>)
  then show ?thesis by simp
qed

lemma stored_jobs_read:
  assumes "snapshot_ok date_of s" "snapshot_texts date_of s"
  shows "build_map (parse_job_entry date_of num_text (frame_of date_of s)) [] 0 (map (\<lambda>j. JObj (stored_members num_text j)) (sn_jobs s))
     = Inr (sn_jobs s)"
proof -
  have "build_map (parse_job_entry date_of num_text (frame_of date_of s)) [] 0 (map (\<lambda>j. JObj (stored_members num_text j)) (sn_jobs s))
     = Inr ([] @ map id (sn_jobs s))"
  proof (rule build_map_written [where key = tj_key])
    fix js :: "telemetry_job list" and i and j :: telemetry_job
    assume j: "j \<in> set (sn_jobs s)" "tj_key (id j) \<notin> tj_key ` set js"
    have ok: "job_ok date_of s j" "job_texts date_of j" using assms j(1) by (auto simp: snapshot_ok_def snapshot_texts_def)
    then obtain r where r: "r \<in> set (sn_runs s)" "re_key r = run_key_of j" by (auto simp: job_ok_def)
    then have "run_ok date_of s r" using assms(1) by (auto simp: snapshot_ok_def)
    then have repo: "tj_repository j \<in> fst ` set (sn_inventory s)" using r(2) by (simp add: run_ok_def run_key_of_def)
    then have "prefix (sn_owner s @ ''/'') (tj_repository j)" using assms(1) unfolding snapshot_ok_def by blast
    then show "parse_job_entry date_of num_text (frame_of date_of s) js i (JObj (stored_members num_text j)) = Inr (js @ [id j])"
      unfolding id_apply
      by (intro stored_job_entry_read)
        (use ok repo j(2) in \<open>auto simp: job_ok_def job_texts_def span_in_frame map_get_None not_less_of_le\<close>)
  qed (use assms(1) in \<open>simp_all add: snapshot_ok_def comp_def\<close>)
  then show ?thesis by simp
qed

lemma stored_snapshot_props:
  "get_prop [(''schemaVersion'', a), (''owner'', b), (''collectedAt'', c), (''windowStart'', d), (''rates'', e),
     (''repositoryInventory'', f), (''repositoriesScanned'', g), (''runsScanned'', h), (''runs'', i), (''jobs'', j)] k =
   (if k = ''schemaVersion'' then a else if k = ''owner'' then b else if k = ''collectedAt'' then c else if k = ''windowStart'' then d
    else if k = ''rates'' then e else if k = ''repositoryInventory'' then f else if k = ''repositoriesScanned'' then g
    else if k = ''runsScanned'' then h else if k = ''runs'' then i else if k = ''jobs'' then j else JUndef)"
  by simp

lemma rmap_unit: "(\<And>x. x \<in> set xs \<Longrightarrow> f x = Inr ()) \<Longrightarrow> rmap f xs = Inr (map (\<lambda>_. ()) xs)"
  by (induction xs) auto

lemma stored_snapshot_read:
  assumes "snapshot_ok date_of s" "snapshot_texts date_of s"
  shows "validate_snapshot date_of num_text (stored_snapshot num_text s) = Inr s"
proof -
  let ?runs = "map (\<lambda>r. (re_key r, r)) (sn_runs s)"
  have inventory: "build_map (parse_inventory_entry (sn_owner s)) [] 0 (map (\<lambda>(name, vis).
         JObj [(''fullName'', JStr name), (''visibility'', JStr (visibility_str vis))]) (sn_inventory s)) = Inr (sn_inventory s)"
    by (rule inventory_read) (use assms(1) in \<open>simp_all add: snapshot_ok_def\<close>)
  have counts: "sn_repositoriesScanned s = count_of (sn_inventory s)" "sn_runsScanned s = count_of (sn_runs s)"
    using assms(1) by (simp_all add: snapshot_ok_def)
  have whole: "\<lparr>sn_owner = sn_owner s, sn_collectedAt = sn_collectedAt s, sn_windowStart = sn_windowStart s,
      sn_inventory = sn_inventory s, sn_repositoriesScanned = count_of (sn_inventory s), sn_runsScanned = count_of (sn_runs s),
      sn_runs = sn_runs s, sn_jobs = sn_jobs s\<rparr> = s"
    by (rule telemetry_snapshot.equality) (simp_all add: counts)
  have checks: "rmap (check_run num_text (sn_jobs s)) (sn_runs s) = Inr (map (\<lambda>_. ()) (sn_runs s))"
  proof (rule rmap_unit)
    fix r assume r: "r \<in> set (sn_runs s)"
    then have "run_ok date_of s r" using assms(1) by (auto simp: snapshot_ok_def)
    moreover have "tj_workflowName j = tr_workflowName r \<and> tj_event j = tr_event r \<and> tj_createdAt j = tr_createdAt r"
      if "j \<in> set (jobs_of_run s r)" for j
    proof -
      have j: "j \<in> set (sn_jobs s)" "run_key_of j = re_key r" using that by (auto simp: jobs_of_run_def)
      then obtain q where q: "q \<in> set (sn_runs s)" "re_key q = run_key_of j" "tr_workflowName q = tj_workflowName j"
        "tr_event q = tj_event j" "tr_createdAt q = tj_createdAt j"
        using assms(1) by (fastforce simp: snapshot_ok_def job_ok_def)
      have "q = r" using assms(1) q(1,2) r j(2) unfolding snapshot_ok_def distinct_map inj_on_def by metis
      then show ?thesis using q by simp
    qed
    ultimately have "ok (check_run num_text (sn_jobs s) r)" by (simp add: check_run_ok run_ok_def count_of_def)
    then show "check_run num_text (sn_jobs s) r = Inr ()" by (simp add: ok_iff)
  qed
  have listed: "find (\<lambda>j. map_get ?runs (run_key_of j) = None) (sn_jobs s) = None"
    using assms(1) by (auto simp: find_None_iff map_get_None snapshot_ok_def job_ok_def image_iff) metis
  have texts: "sn_owner s \<noteq> []" "sn_collectedAt s \<noteq> []" "sn_windowStart s \<noteq> []" "is_finite (date_of (sn_collectedAt s))"
    "is_finite (date_of (sn_windowStart s))" "\<not> date_of (sn_collectedAt s) < date_of (sn_windowStart s)"
    using assms(2) by (simp_all add: snapshot_texts_def not_less_of_le)
  show ?thesis
    using texts stored_runs_read [OF assms, of num_text, unfolded frame_of_def]
      stored_jobs_read [OF assms, of num_text, unfolded frame_of_def] listed checks
    unfolding validate_snapshot_def stored_snapshot_def Let_def stored_snapshot_props
    by (simp add: inventory counts whole comp_def)
qed

section \<open>A sample\<close>

text \<open>
  A finished run of one repository with one job on a Cirujano runner, as it was seen before and after it ended. It
  models no code.
\<close>

definition sample_time :: "string \<Rightarrow> jsnum" where
  "sample_time t =
     (if t = ''t'' \<or> t = ''2026-01-01T00:00:00Z'' then Fin 0 else if t = ''created'' then Fin 1000
      else if t = ''started'' then Fin 2000 else if t = ''ended'' then Fin 62001 else Fin 86400000)"

definition sample_num_text :: "jsnum \<Rightarrow> string" where
  "sample_num_text n = decimal (num_nat n)"

definition seen_run :: telemetry_run where
  "seen_run = \<lparr>tr_id = Fin 1, tr_attempt = Fin 1, tr_workflowName = ''CI'', tr_event = ''push'', tr_createdAt = ''created'',
     tr_conclusion = ''success''\<rparr>"

definition sample_job_input :: "string option \<Rightarrow> telemetry_job_input" where
  "sample_job_input completed = \<lparr>ti_id = Fin 5, ti_name = ''verify'', ti_startedAt = Some ''started'', ti_completedAt = completed,
     ti_conclusion = ''success'', ti_labels = [''self-hosted''], ti_runnerName = ''cirujano-1'', ti_runnerGroupName = []\<rparr>"

definition seen_job :: "string option \<Rightarrow> telemetry_job" where
  "seen_job completed = normalize_telemetry_job sample_time ''acme/widgets'' VisPrivate seen_run (sample_job_input completed)"

definition sample_snapshot :: "string option \<Rightarrow> string \<Rightarrow> telemetry_snapshot" where
  "sample_snapshot completed until = \<lparr>sn_owner = ''acme'', sn_collectedAt = until, sn_windowStart = ''t'',
     sn_inventory = [(''acme/widgets'', VisPrivate)], sn_repositoriesScanned = Fin 1, sn_runsScanned = Fin 1,
     sn_runs = [\<lparr>tr_id = Fin 1, tr_attempt = Fin 1, tr_workflowName = ''CI'', tr_event = ''push'', tr_createdAt = ''created'',
       tr_conclusion = ''success'', re_key = (''acme/widgets'', Fin 1, Fin 1), re_repository = ''acme/widgets'',
       re_jobsObserved = Fin 1, re_reusable = (completed \<noteq> None)\<rparr>],
     sn_jobs = [seen_job completed]\<rparr>"

lemma sample_status:
  "tj_measurementStatus (seen_job None) = TimingIncomplete" "tj_measurementStatus (seen_job (Some ''ended'')) = Measured"
  by (simp_all add: seen_job_def normalize_telemetry_job_def Let_def measurement_of_def sample_job_input_def sample_time_def)

lemma sample_fields [simp]:
  "tj_startedAt (seen_job c) = Some ''started''" "tj_completedAt (seen_job c) = c" "tj_visibility (seen_job c) = VisPrivate"
  "tj_repository (seen_job c) = ''acme/widgets''" "tj_key (seen_job c) = (''acme/widgets'', Fin 1, Fin 1, Fin 5)"
  "tj_createdAt (seen_job c) = ''created''" "run_of_job (seen_job c) = seen_run" "input_of_job (seen_job c) = sample_job_input c"
  "tj_runnerKind (seen_job c) = CirujanoRun" "tj_workflowName (seen_job c) = ''CI''" "tj_jobName (seen_job c) = ''verify''"
  by (simp_all add: seen_job_def normalize_telemetry_job_def Let_def run_of_job_def input_of_job_def seen_run_def sample_job_input_def
      classify_runner_def)

lemma differing_fields_self [simp]: "differing_fields j j = []"
  by (auto simp: differing_fields_def job_members_def)

lemma sample_completed: "completed_job_timing sample_time (seen_job None) (seen_job (Some ''ended'')) = Some (seen_job (Some ''ended''))"
proof -
  have "retimed sample_time (seen_job None) (seen_job (Some ''ended'')) VisPrivate = seen_job (Some ''ended'')"
    by (simp add: retimed_def) (simp add: seen_job_def sample_job_input_def)
  then show ?thesis by (simp add: completed_job_timing_def sample_status)
qed

lemma sample_merged:
  "merge_telemetry_job sample_time (seen_job None) (seen_job (Some ''ended'')) \<in> {Inr (seen_job None), Inr (seen_job (Some ''ended''))}"
  by (simp add: merge_telemetry_job_def Let_def sample_completed)

text \<open>The second snapshot, collected a day later, knows when the job ended.\<close>

lemma sample_snapshots_merged:
  "\<exists>st. merged_state sample_time [sample_snapshot (Some ''ended'') ''later'', sample_snapshot None ''ended''] (Fin 0) None = Inr st"
proof -
  have "chronological sample_time [sample_snapshot (Some ''ended'') ''later'', sample_snapshot None ''ended'']
      = [sample_snapshot None ''ended'', sample_snapshot (Some ''ended'') ''later'']"
    by (simp add: chronological_def sample_snapshot_def sample_time_def num_ops)
  then show ?thesis using sample_merged
    by (auto simp: merged_state_def sample_snapshot_def out_of_window_def job_time_def sample_time_def window_end_of_def num_ops
        map_get_def num_max_def num_min_def)
qed

end
