(* ===== verification/Telemetry_Properties.thy ===== *)
theory Telemetry_Properties
  imports Telemetry_Stored
begin

text \<open>
  What the telemetry counts and claims: minutes are billed exactly, an execution is counted once and as it
  was first observed, a stored snapshot is consistent with its own evidence, a report covers its window
  without a gap, and savings are claimed only for jobs a controller was assigned.
\<close>

section \<open>Minutes\<close>

text \<open>
  A quotient by 60000 that exceeds an integer exceeds it by more than \<open>1 / 65536\<close>, and the sum of the two is
  a number of the format: rounding does not fall back to the integer.
\<close>

lemma rnd_minutes_above:
  assumes "0 \<le> k" "k < 68719476736" "of_int k < (of_int d :: rat) / 60000"
  shows "of_int k < rnd (of_int d / 60000)"
proof -
  have "of_int (60000 * k) < (of_int d :: rat)" using assms(3) by (simp add: less_divide_eq mult.commute)
  then have "60000 * k + 1 \<le> d" by linarith
  then have "(of_int (60000 * k + 1) :: rat) \<le> of_int d" by (simp only: of_int_le_iff)
  then have d: "(of_int k :: rat) + 1 / 60000 \<le> of_int d / 60000" by (simp add: field_simps)
  have p: "(2 :: rat) powi (- 16) = 1 / 65536" by (simp add: power_int_minus)
  have r: "(of_int (k * 65536 + 1) :: rat) * 2 powi (- 16) = of_int k + 1 / 65536" by (simp add: p field_simps)
  have "rnd (of_int (k * 65536 + 1) * 2 powi (- 16)) = of_int (k * 65536 + 1) * 2 powi (- 16)"
    by (rule rnd_exact) (use assms(1,2) in auto)
  moreover have "rnd (of_int (k * 65536 + 1) * 2 powi (- 16)) \<le> rnd (of_int d / 60000)"
    by (rule rnd_mono) (use d r in simp)
  ultimately show ?thesis unfolding r by simp
qed

lemma minutes_exact:
  assumes "0 \<le> d" "d \<le> 1125899906842624"
  shows "num_ceil (num_div (Fin (of_int d)) MS_PER_MINUTE) = Fin (of_int \<lceil>(of_int d :: rat) / 60000\<rceil>)"
proof -
  let ?x = "(of_int d :: rat) / 60000" and ?m = "\<lceil>(of_int d :: rat) / 60000\<rceil>"
  have d: "(0 :: rat) \<le> of_int d" "(of_int d :: rat) \<le> 1125899906842624" using assms by linarith+
  then have x: "0 \<le> ?x" "?x \<le> 18764998448" by (simp_all add: divide_le_eq)
  have m: "0 \<le> ?m" "?m \<le> 18764998448" using x by (auto simp: ceiling_le_iff le_ceiling_iff)
  have up: "rnd ?x \<le> of_int ?m" by (rule rnd_le_of_int) (use m in auto)
  have low: "of_int (?m - 1) < rnd ?x"
  proof (cases "?m = 0")
    case True
    then show ?thesis using rnd_nonneg [OF x(1)] by simp
  next
    case False
    then have "0 \<le> ?m - 1" "?m - 1 < 68719476736" using m by linarith+
    moreover have "of_int (?m - 1) < ?x" by linarith
    ultimately show ?thesis by (rule rnd_minutes_above)
  qed
  have c: "\<lceil>rnd ?x\<rceil> = ?m" using up low by linarith
  have b: "rnd ?x \<le> 18764998448" "0 \<le> rnd ?x" using up m rnd_nonneg [OF x(1)] by linarith+
  moreover have "(18764998448 :: rat) < 2 ^ 1024" by simp
  ultimately have "\<not> 2 ^ 1024 \<le> rnd ?x" "\<not> rnd ?x \<le> - (2 ^ 1024)" by linarith+
  then have "fl ?x = Fin (rnd ?x)" by (simp only: fl_def Let_def if_False)
  then show ?thesis by (simp add: MS_PER_MINUTE_def c)
qed

lemma quotient_le: "(of_int d :: rat) / 60000 \<le> of_int m \<longleftrightarrow> d \<le> 60000 * m"
proof -
  have "(of_int d :: rat) / 60000 \<le> of_int m \<longleftrightarrow> (of_int d :: rat) \<le> of_int (60000 * m)"
    by (simp add: divide_le_eq mult.commute)
  then show ?thesis by (simp only: of_int_le_iff)
qed

text \<open>
  C40 (bounds). A job that ran from one whole millisecond to a later one is billed the least number of minutes
  that covers it, as GitHub bills it: rounding in the division never adds a minute and never drops one.
\<close>

theorem billed_minutes_exact:
  assumes "date_of s = Fin (of_int a)" "date_of c = Fin (of_int b)" "0 \<le> a" "a \<le> b" "b \<le> 1125899906842624"
  shows "\<exists>m. billable_minutes_for_job date_of \<lparr>jt_name = n, jt_startedAt = Some s, jt_completedAt = Some c\<rparr> = Some (Fin (of_int m))
     \<and> 0 \<le> m \<and> b - a \<le> 60000 * m \<and> (\<forall>k. b - a \<le> 60000 * k \<longrightarrow> m \<le> k)"
proof -
  let ?m = "\<lceil>(of_int (b - a) :: rat) / 60000\<rceil>"
  have diff: "Fin (of_int b) - Fin (of_int a) = Fin (of_int (b - a))" by (rule num_diff_of_int) (use assms in linarith)
  have "billable_minutes_for_job date_of \<lparr>jt_name = n, jt_startedAt = Some s, jt_completedAt = Some c\<rparr> = Some (Fin (of_int ?m))"
    using minutes_exact [of "b - a"] assms(3-5)
    by (simp only: billable_minutes_for_job_def job_timing.simps option.case prod.case Let_def assms(1,2) diff
        num_of_int_simps(4)) simp
  moreover have "0 \<le> ?m" using assms(4) by (simp add: le_ceiling_iff)
  moreover have "b - a \<le> 60000 * ?m" unfolding quotient_le [symmetric] by linarith
  moreover have "?m \<le> k" if "b - a \<le> 60000 * k" for k
    using that unfolding quotient_le [symmetric] by (rule ceiling_le)
  ultimately show ?thesis by blast
qed

theorem billed_minutes_exact_witness:
  "\<exists>m. billable_minutes_for_job (\<lambda>t. if t = ''start'' then Fin 0 else Fin 60001)
       \<lparr>jt_name = ''verify'', jt_startedAt = Some ''start'', jt_completedAt = Some ''end''\<rparr> = Some (Fin (of_int m)) \<and> m = 2"
proof -
  obtain m where m: "billable_minutes_for_job (\<lambda>t. if t = ''start'' then Fin 0 else Fin 60001)
       \<lparr>jt_name = ''verify'', jt_startedAt = Some ''start'', jt_completedAt = Some ''end''\<rparr> = Some (Fin (of_int m))"
    "60001 \<le> 60000 * m" "\<forall>k. 60001 \<le> 60000 * k \<longrightarrow> m \<le> k"
    using billed_minutes_exact [of "\<lambda>t. if t = ''start'' then Fin 0 else Fin 60001" "''start''" 0 "''end''" 60001 "''verify''"] by auto
  then have "m = 2" using m(3) [rule_format, of 2] by linarith
  then show ?thesis using m(1) by blast
qed



section \<open>A report without gaps\<close>

lemma num_le_max: "x \<le> num_max a b \<longleftrightarrow> a \<noteq> NaN \<and> b \<noteq> NaN \<and> (x \<le> a \<or> x \<le> b)"
  by (cases x; cases a; cases b) (auto simp: num_max_def num_ops split: if_splits)

lemma num_max_eq_NaN [simp]: "num_max a b = NaN \<longleftrightarrow> a = NaN \<or> b = NaN"
  by (auto simp: num_max_def)

text \<open>A maximum over a list depends on its elements only, not on their order.\<close>

lemma le_fold_max:
  "x \<le> foldl (\<lambda>acc s. num_max acc (f s)) a ss
     \<longleftrightarrow> a \<noteq> NaN \<and> (\<forall>s \<in> set ss. f s \<noteq> NaN) \<and> (x \<le> a \<or> (\<exists>s \<in> set ss. x \<le> f s))"
proof (induction ss arbitrary: a)
  case Nil
  then show ?case by (cases a; cases x) (auto simp: num_ops)
next
  case (Cons s ss)
  then show ?case by (auto simp: num_le_max)
qed

lemma merged_through:
  "merge_snapshots date_of since we st ss = Inr st'
     \<Longrightarrow> ms_throughMs st' = foldl (\<lambda>acc s. num_max acc (num_min we (date_of (sn_collectedAt s)))) (ms_throughMs st) ss"
  by (induction date_of since we st ss rule: merge_snapshots.induct) (auto simp: result_simps)

lemma covered_by:
  assumes "covered_through through c ivs = Inr d" "c < x" "x \<le> through" "\<forall>(a, b) \<in> set ivs. is_finite a \<and> is_finite b" "is_finite c"
  shows "\<exists>(a, b) \<in> set ivs. a \<le> x \<and> x \<le> b"
  using assms
proof (induction through c ivs rule: covered_through.induct)
  case (1 through c)
  have "c < through" using "1.prems"(2,3) by (cases c; cases x; cases through) (auto simp: num_ops)
  then show ?case using "1.prems"(1) by simp
next
  case (2 through c start end_ms ivs)
  have "\<not> through \<le> c" using "2.prems"(2,3) by (cases c; cases x; cases through) (auto simp: num_ops)
  consider (skip) "end_ms \<le> c" | (step) "\<not> end_ms \<le> c" "\<not> c < start" using "2.prems"(1) \<open>\<not> through \<le> c\<close> by (auto split: if_split_asm)
  then show ?case
  proof cases
    case skip
    then show ?thesis using "2.IH"(1) "2.prems" \<open>\<not> through \<le> c\<close> by fastforce
  next
    case step
    have fin: "is_finite start" "is_finite end_ms" using "2.prems"(4) by auto
    show ?thesis
    proof (cases "x \<le> end_ms")
      case True
      have "start \<le> x" using step(2) "2.prems"(2,5) fin by (cases start; cases c; cases x) (auto simp: num_ops)
      then show ?thesis using True by auto
    next
      case False
      have m: "num_max c end_ms = end_ms" "end_ms < x"
        using step(1) False "2.prems"(2,5) fin by (cases c; cases end_ms; cases x; auto simp: num_max_def num_ops)+
      then show ?thesis using "2.IH"(2) [OF \<open>\<not> through \<le> c\<close> step] "2.prems" step \<open>\<not> through \<le> c\<close> fin by auto
    qed
  qed
qed

lemma read_snapshot_files_ok:
  assumes "read_snapshot_files date_of num_text entries = Inr files" "(n, s) \<in> set files"
  shows "\<exists>v. validate_snapshot date_of num_text v = Inr s"
proof -
  obtain named where n: "rmap (\<lambda>(name, content).
        (case rbind content (validate_snapshot date_of num_text) of
           Inr s \<Rightarrow> Inr (name, s)
         | Inl err \<Rightarrow> Inl (plain_error ([Lit ''snapshot '', Lit name, Lit '' is malformed: ''] @ error_message err)))) named = Inr files"
    using assms(1) unfolding read_snapshot_files_def Let_def by (elim rbindE) (simp only: sum.inject)
  then show ?thesis using assms(2)
    by (induction named arbitrary: files) (auto simp: result_simps split: sum.splits prod.splits)
qed

text \<open>
  C37 (safety). A report never spans a gap in what was collected: every instant from the first day asked for to the
  end the report states lies in the window of one of the daily snapshots the report was made from; a backfill
  never stands in for one.
\<close>

theorem report_covered:
  assumes "build_store_report date_of num_text entries since reg evs = Inr rep"
    "date_of (since @ ''T00:00:00Z'') \<le> x" "x \<le> rp_throughMs rep"
  shows "\<exists>files. read_snapshot_files date_of num_text entries = Inr files
     \<and> (\<exists>(name, s) \<in> set files. \<not> backfill_name name
          \<and> date_of (sn_windowStart s) \<le> x \<and> x \<le> date_of (sn_collectedAt s))"
proof -
  let ?since = "date_of (since @ ''T00:00:00Z'')"
  obtain files r where f: "read_snapshot_files date_of num_text entries = Inr files"
    "list_ex (\<lambda>(name, s). \<not> backfill_name name \<and> date_of (sn_windowStart s) \<le> ?since \<and> ?since \<le> date_of (sn_collectedAt s)) files"
    and r: "(case covered_through (through_of date_of ?since (window_end_of date_of reg) (map snd files)) ?since (daily_intervals date_of files) of
        Inl (start, end_ms) \<Rightarrow> Inl (plain_error [Lit ''telemetry coverage gap from '', IsoTime start, Lit '' to '', IsoTime end_ms])
      | Inr _ \<Rightarrow> aggregate_telemetry date_of (map snd files) ?since reg evs) = Inr rep"
    using assms(1) unfolding build_store_report_def Let_def by (elim rbindE) (simp only: step_eq_Inr)
  then obtain d where d: "covered_through (through_of date_of ?since (window_end_of date_of reg) (map snd files)) ?since
      (daily_intervals date_of files) = Inr d" and a: "aggregate_telemetry date_of (map snd files) ?since reg evs = Inr rep"
    by (auto split: sum.splits)
  obtain st where st: "merged_state date_of (map snd files) ?since reg = Inr st" "rep = report_of date_of ?since reg evs st"
    and fin: "is_finite ?since"
    using a unfolding aggregate_telemetry_def by (auto simp: result_simps)
  have "x \<le> ms_throughMs st" using assms(3) st(2) by (simp add: report_of_def Let_def)
  then have through: "x \<le> through_of date_of ?since (window_end_of date_of reg) (map snd files)"
    using merged_through [OF st(1) [unfolded merged_state_def]] by (simp add: through_of_def le_fold_max chronological_def)
  have finite_bounds: "is_finite (date_of (sn_windowStart s)) \<and> is_finite (date_of (sn_collectedAt s))" if "(n, s) \<in> set files" for n s
    using read_snapshot_files_ok [OF f(1) that] validate_snapshot_parts by metis
  have "\<exists>(name, s) \<in> set files. \<not> backfill_name name \<and> date_of (sn_windowStart s) \<le> x \<and> x \<le> date_of (sn_collectedAt s)"
  proof (cases "?since < x")
    case True
    have "\<forall>(a, b) \<in> set (daily_intervals date_of files). is_finite a \<and> is_finite b"
      using finite_bounds by (auto simp: daily_intervals_def)
    then show ?thesis using covered_by [OF d True through _ fin] by (fastforce simp: daily_intervals_def)
  next
    case False
    then have "x = ?since" using assms(2) by (cases x; cases ?since) (auto simp: num_ops)
    then show ?thesis using f(2) by (simp add: list_ex_iff)
  qed
  then show ?thesis using f(1) by blast
qed

section \<open>Savings\<close>

text \<open>
  The jobs an enrollment is credited with: those a Cirujano runner ran from its cutover on, until a later
  enrollment took the job over.
\<close>

definition credited :: "(string \<Rightarrow> jsnum) \<Rightarrow> fleet_enrollment \<Rightarrow> jsnum \<Rightarrow> telemetry_job \<Rightarrow> bool" where
  "credited date_of e end_ms j \<longleftrightarrow>
     tj_repository j = fe_repository e \<and> tj_workflowName j = workflowName e \<and> tj_jobName j \<in> set (jobNames e)
     \<and> tj_runnerKind j = CirujanoRun \<and> cutover_ms date_of e \<le> date_of (run_start j) \<and> date_of (run_start j) < end_ms"

definition takeover :: "(string \<Rightarrow> jsnum) \<Rightarrow> fleet_enrollment \<Rightarrow> fleet_enrollment list \<Rightarrow> jsnum" where
  "takeover date_of e es = (case successor e es of None \<Rightarrow> PInf | Some s \<Rightarrow> date_of (recordedAt (before s)))"

lemma credited_filter:
  "set (of_kind CirujanoRun (filter (is_after date_of e) (enrolled_jobs date_of e end_ms js)))
     = {j \<in> set js. credited date_of e end_ms j}"
  by (auto simp: of_kind_def enrolled_jobs_def is_after_def credited_def)

lemma enrollment_rows_nth:
  "i < length es \<Longrightarrow> enrollment_rows date_of js evs inventory es ! i =
     enrollment_report date_of (es ! i) js (evs (fe_id (es ! i))) inventory (takeover date_of (es ! i) (drop (Suc i) es))"
  by (induction es arbitrary: i) (auto simp: nth_Cons takeover_def split: nat.splits)

lemma length_enrollment_rows [simp]: "length (enrollment_rows date_of js evs inventory es) = length es"
  by (induction es) auto

lemma enrollment_report_status [simp]: "er_status (enrollment_report date_of e js ev inventory end_ms) = fe_status e"
  by (simp add: enrollment_report_def base_row_def costed_row_def Let_def split: option.split sum.split)

lemma complete_costs_all: "complete_costs cs = Inr xs \<Longrightarrow> \<forall>c \<in> set cs. \<exists>x. c = CostComplete x"
  by (induction cs arbitrary: xs rule: complete_costs.induct) (auto simp: result_simps)

lemma find_SomeD: "find P xs = Some x \<Longrightarrow> x \<in> set xs \<and> P x"
  by (induction xs) (auto split: if_split_asm)

definition assigned :: "journal_evidence list \<Rightarrow> telemetry_job \<Rightarrow> bool" where
  "assigned generations j \<longleftrightarrow> (\<exists>g \<in> set generations. \<exists>k \<in> set (ev_assignments g).
     ka_key k = (tj_runId j, tj_runAttempt j, tj_jobId j))"

lemma assignment_of_found: "assignment_of generations j \<noteq> None \<Longrightarrow> assigned generations j"
  unfolding assignment_of_def assigned_def by (fastforce dest: find_SomeD)

lemma complete_row:
  assumes "er_complete (enrollment_report date_of e js ev inventory end_ms)"
  shows "\<exists>primary historical. ev = Some (primary, historical)
     \<and> (\<forall>g \<in> set (primary # historical). \<exists>m c. generation_cost m g = CostComplete c)
     \<and> (\<forall>j \<in> set js. credited date_of e end_ms j \<longrightarrow> assigned (primary # historical) j)"
proof -
  let ?ours = "of_kind CirujanoRun (filter (is_after date_of e) (enrolled_jobs date_of e end_ms js))"
  obtain primary historical m costs row where p: "ev = Some (primary, historical)"
    "complete_costs (map (generation_cost m) (primary # historical)) = Inr costs"
    "enrollment_report date_of e js ev inventory end_ms = costed_row row (primary # historical) ?ours costs"
    using assms by (auto simp: enrollment_report_def base_row_def Let_def split: if_split_asm option.splits sum.splits)
  have "filter (\<lambda>j. assignment_of (primary # historical) j = None) ?ours = []"
    using assms p(3) by (simp add: costed_row_def Let_def)
  then have "\<forall>j \<in> set ?ours. assigned (primary # historical) j" using assignment_of_found by (simp add: filter_empty_conv)
  moreover have "\<forall>g \<in> set (primary # historical). \<exists>m c. generation_cost m g = CostComplete c"
    using complete_costs_all [OF p(2)] by (simp only: set_map ball_simps) blast
  ultimately show ?thesis using p(1) unfolding credited_filter by blast
qed

text \<open>
  C35 (safety). The report states net savings of the fleet only on whole evidence: every enrollment that was ever cut over
  has the journals of its controller, the cost of each of its generations is complete, and every job it is
  credited with, among all the jobs the report counts, was assigned to a runner by one of these controllers.
\<close>

theorem savings_on_whole_evidence:
  assumes "aggregate_telemetry date_of ss since (Some reg) evs = Inr rep" "merged_state date_of ss since (Some reg) = Inr st"
    "rp_fleet rep = Some fv" "fv_netSavings fv = Some net" "i < length (enrollments reg)" "e = enrollments reg ! i"
    "fe_status e \<noteq> Proposed"
  shows "\<exists>primary historical. evs (fe_id e) = Some (primary, historical)
     \<and> (\<forall>g \<in> set (primary # historical). \<exists>m c. generation_cost m g = CostComplete c)
     \<and> (\<forall>j \<in> snd ` set (ms_jobs st). credited date_of e (takeover date_of e (drop (Suc i) (enrollments reg))) j
          \<longrightarrow> assigned (primary # historical) j)"
proof -
  let ?inventory = "case ms_latest st of None \<Rightarrow> [] | Some s \<Rightarrow> sn_inventory s"
  let ?rows = "enrollment_rows date_of (map snd (ms_jobs st)) evs ?inventory (enrollments reg)"
  have "rep = report_of date_of since (Some reg) evs st" using assms(1,2) by (auto simp: aggregate_telemetry_def result_simps)
  then have "fv = fleet_savings_of ?rows" using assms(3) by (simp add: report_of_def Let_def)
  then have "list_all er_complete (filter (\<lambda>r. er_status r \<noteq> Proposed) ?rows)"
    using assms(4) by (auto simp: fleet_savings_of_def Let_def split: option.splits if_split_asm)
  then have "\<forall>r \<in> set ?rows. er_status r \<noteq> Proposed \<longrightarrow> er_complete r" by (auto simp: list_all_iff)
  moreover have "?rows ! i \<in> set ?rows" using assms(5) by simp
  ultimately have "er_complete (?rows ! i)" using assms(6,7) by (auto simp: enrollment_rows_nth [OF assms(5)])
  then have "er_complete (enrollment_report date_of e (map snd (ms_jobs st)) (evs (fe_id e)) ?inventory
      (takeover date_of e (drop (Suc i) (enrollments reg))))"
    using assms(6) by (simp add: enrollment_rows_nth [OF assms(5)])
  from complete_row [OF this] show ?thesis by (simp only: set_map)
qed

section \<open>Written and read back\<close>

lemma dated_not_backfill: "date_shape d \<Longrightarrow> \<not> prefix ''backfill-'' (d @ e)"
proof
  assume d: "date_shape d" and "prefix ''backfill-'' (d @ e)"
  then obtain zs where z: "d @ e = ''backfill-'' @ zs" by (auto simp: prefix_def)
  have "(d @ e) ! 4 = CHR ''-''" using d by (simp add: date_shape_def nth_append)
  moreover have "(d @ e) ! 4 = CHR ''f''" unfolding z by simp
  ultimately show False by simp
qed


section \<open>Witnesses\<close>


abbreviation sample_day :: telemetry_snapshot where
  "sample_day \<equiv> sample_snapshot (Some ''ended'') ''2026-01-02T00:00:00.000Z''"

lemma sample_job_key: "run_key_of (seen_job c) = (''acme/widgets'', Fin 1, Fin 1)" "tj_event (seen_job c) = ''push''"
  "tj_conclusion (seen_job c) = ''success''" "tj_labels (seen_job c) = [''self-hosted'']"
  by (simp_all add: run_key_of_def seen_job_def normalize_telemetry_job_def Let_def seen_run_def sample_job_input_def)

lemma sample_day_ok: "snapshot_ok sample_time sample_day" "snapshot_texts sample_time sample_day"
proof -
  have j: "job_ok sample_time sample_day (seen_job (Some ''ended''))"
    by (simp add: job_ok_def sample_snapshot_def in_span_def sample_time_def num_ops sample_job_key)
       (simp add: seen_job_def)
  then show "snapshot_ok sample_time sample_day"
    by (simp add: snapshot_ok_def run_ok_def jobs_of_run_def sample_snapshot_def in_span_def sample_time_def num_ops sample_job_key
        sample_status count_of_def)
  show "snapshot_texts sample_time sample_day"
    by (simp add: snapshot_texts_def run_texts_def job_texts_def sample_snapshot_def sample_time_def num_ops sample_job_key id_positive_def)
       (simp add: seen_job_def normalize_telemetry_job_def Let_def seen_run_def sample_job_input_def num_ops)
qed

lemma sample_day_read:
  "validate_snapshot sample_time sample_num_text (stored_snapshot sample_num_text sample_day) = Inr sample_day"
  by (rule stored_snapshot_read [OF sample_day_ok])


lemma sample_day_name: "date_shape (take 10 (sn_collectedAt sample_day))"
  by (simp add: sample_snapshot_def date_shape_def is_digit_def code_in_def)


text \<open>The report over the store that holds this snapshot alone.\<close>

lemma sample_merged_day:
  "merged_state sample_time [sample_day] (Fin 0) reg = Inr \<lparr>ms_jobs = [((''acme/widgets'', Fin 1, Fin 1, Fin 5), seen_job (Some ''ended''))],
     ms_latest = Some sample_day, ms_throughMs = Fin 86400000\<rparr>" if "reg = None \<or> reg = Some sample_registry"
  using that
  by (auto simp: merged_state_def chronological_def sample_snapshot_def out_of_window_def job_time_def sample_time_def window_end_of_def
      num_ops map_get_def num_max_def num_min_def later_snapshot_def sample_registry_def)

lemma sample_report:
  "build_store_report sample_time sample_num_text [(''2026-01-02.json'', Inr (stored_snapshot sample_num_text sample_day))]
     ''2026-01-01'' None (\<lambda>_. None)
   = Inr (report_of sample_time (Fin 0) None (\<lambda>_. None) \<lparr>ms_jobs = [((''acme/widgets'', Fin 1, Fin 1, Fin 5), seen_job (Some ''ended''))],
     ms_latest = Some sample_day, ms_throughMs = Fin 86400000\<rparr>)"
proof -
  have n: "snapshot_name ''2026-01-02.json''" "\<not> backfill_name ''2026-01-02.json''"
    by (simp_all add: snapshot_name_def backfill_name_def daily_name_def date_shape_def is_digit_def code_in_def suffix_def)
  have since: "sample_time (''2026-01-01'' @ ''T00:00:00Z'') = Fin 0" by (simp add: sample_time_def)
  have bounds: "sample_time (sn_windowStart sample_day) = Fin 0" "sample_time (sn_collectedAt sample_day) = Fin 86400000"
    by (simp_all add: sample_snapshot_def sample_time_def)
  show ?thesis
    using n sample_merged_day [of None]
    unfolding build_store_report_def since
    by (simp add: read_snapshot_files_def sample_day_read bounds through_of_def daily_intervals_def aggregate_telemetry_def
        window_end_of_def num_ops num_max_def num_min_def)
qed

theorem report_covered_witness:
  "\<exists>rep. build_store_report sample_time sample_num_text [(''2026-01-02.json'', Inr (stored_snapshot sample_num_text sample_day))]
       ''2026-01-01'' None (\<lambda>_. None) = Inr rep \<and> rp_throughMs rep = Fin 86400000
     \<and> (\<exists>files. read_snapshot_files sample_time sample_num_text
            [(''2026-01-02.json'', Inr (stored_snapshot sample_num_text sample_day))] = Inr files
          \<and> (\<exists>(name, s) \<in> set files. \<not> backfill_name name
               \<and> sample_time (sn_windowStart s) \<le> Fin 5000 \<and> Fin 5000 \<le> sample_time (sn_collectedAt s)))"
proof -
  obtain rep where rep: "build_store_report sample_time sample_num_text
      [(''2026-01-02.json'', Inr (stored_snapshot sample_num_text sample_day))] ''2026-01-01'' None (\<lambda>_. None) = Inr rep"
    "rp_throughMs rep = Fin 86400000"
    using sample_report by (simp add: report_of_def Let_def)
  have x: "sample_time (''2026-01-01'' @ ''T00:00:00Z'') \<le> Fin 5000" "Fin 5000 \<le> rp_throughMs rep"
    by (simp_all add: sample_time_def rep(2) num_ops)
  show ?thesis using rep report_covered [OF rep(1) x] by blast
qed

definition sample_evidence :: journal_evidence where
  "sample_evidence = \<lparr>ev_controllerId = ''c'', ev_resourcePrefix = ''p'', ev_startCount = Fin 1, ev_runtimeMs = Fin 3600000, ev_costUsd = Fin 1,
     ev_diskRetainedMs = Fin 0, ev_diskSizeGiB = Fin 64, ev_egressBytes = Fin 0,
     ev_rates = \<lparr>currency = ''USD'', quotedAt = ''2026-01-01'', rate_source = ''s'', computeUsdPerHour = Fin 1, diskUsdPerGibMonth = Fin 0,
       networkEgressUsdPerGib = Fin 0, hostedUsdPerMinute = Some (Fin 1)\<rparr>,
     ev_assignments = [\<lparr>ka_runId = Fin 1, ka_runAttempt = Fin 1, ka_jobId = Fin 5, ka_runnerId = Fin 9, ka_runnerName = ''cirujano-1'',
       ka_conclusion = Some ''success''\<rparr>]\<rparr>"

lemma sample_minutes: "tj_billableMinutes (seen_job (Some ''ended'')) = Some (Fin 2)"
proof -
  have d: "Fin 62001 - Fin 2000 = Fin (of_int 60001)" using num_diff_of_int [of 62001 2000] by simp
  have c: "\<lceil>(60001 :: rat) / 60000\<rceil> = 2" by (simp add: ceiling_eq_iff)
  show ?thesis
    using minutes_exact [of 60001] sample_status(2)
    by (simp add: seen_job_def normalize_telemetry_job_def Let_def sample_job_input_def job_minutes_def
        billable_minutes_for_job_def sample_time_def d c num_ops)
qed

lemma sample_cost: "\<exists>c. generation_cost (Fin 2) sample_evidence = CostComplete c"
proof -
  have b: "\<not> is_space (CHR ''U'')" "\<not> is_space (CHR ''2'')" "\<not> is_space (CHR ''s'')" by code_simp+
  have d: "valid_date_only ''2026-01-01''"
    by (simp add: valid_date_only_def date_shape_def date_parts_def is_digit_def code_in_def digits_nat_def days_in_month_def)
  show ?thesis
    by (simp add: b d generation_cost_def sample_evidence_def estimate_runner_cost_def validate_rates_def nonnegative_finite_def num_ops)
qed

lemma sample_credited:
  "enrolled_jobs sample_time sample_enrollment PInf [seen_job (Some ''ended'')] = [seen_job (Some ''ended'')]"
  "is_after sample_time sample_enrollment (seen_job (Some ''ended''))"
  "credited sample_time sample_enrollment PInf (seen_job (Some ''ended''))"
  by (simp_all add: enrolled_jobs_def is_after_def credited_def cutover_ms_def run_start_def sample_enrollment_def sample_time_def num_ops)

lemma sample_row:
  "\<exists>t. er_totalUsd (enrollment_report sample_time sample_enrollment [seen_job (Some ''ended'')] (Some (sample_evidence, []))
       inventory PInf) = Some t"
  "er_complete (enrollment_report sample_time sample_enrollment [seen_job (Some ''ended'')] (Some (sample_evidence, [])) inventory PInf)"
proof -
  obtain c where c: "generation_cost (Fin 2) sample_evidence = CostComplete c" using sample_cost by blast
  have two: "Fin 0 + Fin 2 = Fin (2 :: rat)" using num_add_of_int [of 0 2] by simp
  have a: "assignment_of [sample_evidence] (seen_job (Some ''ended'')) \<noteq> None"
    by (simp add: assignment_of_def sample_evidence_def ka_key_def)
      (simp add: seen_job_def normalize_telemetry_job_def Let_def seen_run_def sample_job_input_def)
  have m: "ar_cirujanoMinutes (er_after (base_row sample_time sample_enrollment [seen_job (Some ''ended'')] inventory [])) = Fin 2"
    by (simp add: base_row_def after_report_of_def Let_def sample_credited of_kind_def sum_known_def sample_minutes two)
  have s: "fe_status sample_enrollment \<noteq> Proposed" by (simp add: sample_enrollment_def)
  show "\<exists>t. er_totalUsd (enrollment_report sample_time sample_enrollment [seen_job (Some ''ended'')] (Some (sample_evidence, []))
       inventory PInf) = Some t"
    "er_complete (enrollment_report sample_time sample_enrollment [seen_job (Some ''ended'')] (Some (sample_evidence, [])) inventory PInf)"
    by (simp_all add: enrollment_report_def Let_def sample_credited m c s costed_row_def of_kind_def a)
qed

theorem savings_on_whole_evidence_witness:
  "\<exists>rep fv net. aggregate_telemetry sample_time [sample_day] (Fin 0) (Some sample_registry) (\<lambda>_. Some (sample_evidence, [])) = Inr rep
     \<and> rp_fleet rep = Some fv \<and> fv_netSavings fv = Some net \<and> assigned [sample_evidence] (seen_job (Some ''ended''))"
proof -
  let ?evs = "\<lambda>_ :: string. Some (sample_evidence, [] :: journal_evidence list)"
  let ?job = "seen_job (Some ''ended'')"
  let ?row = "enrollment_report sample_time sample_enrollment [?job] (Some (sample_evidence, [])) (sn_inventory sample_day) PInf"
  note st = sample_merged_day [of "Some sample_registry", simplified]
  have e: "enrollments sample_registry = [sample_enrollment]" "fe_status sample_enrollment = CutOver"
    by (simp_all add: sample_registry_def sample_enrollment_def)
  obtain rep where rep: "aggregate_telemetry sample_time [sample_day] (Fin 0) (Some sample_registry) ?evs = Inr rep"
    "rp_fleet rep = Some (fleet_savings_of [?row])"
    using st e by (simp add: aggregate_telemetry_def num_ops report_of_def Let_def successor_def)
  obtain net where net: "fv_netSavings (fleet_savings_of [?row]) = Some net"
    using sample_row [of "sn_inventory sample_day"] e(2) by (auto simp: fleet_savings_of_def Let_def)
  have "credited sample_time sample_enrollment PInf ?job \<longrightarrow> assigned [sample_evidence] ?job"
    using savings_on_whole_evidence [OF rep(1) st rep(2) net, of 0 sample_enrollment] e by (simp add: takeover_def successor_def)
  then show ?thesis using rep net sample_credited(3) by blast
qed

end
