(* ===== verification/Spec2Isabelle.thy ===== *)
theory Spec2Isabelle
  imports Controller_Properties GithubQueue_Properties Github_Properties Routing_Properties Config_Properties
    Operating_Properties Pilot_Properties Registry_Properties Release_Properties Direct_Returns
    Fleet_Properties Report_Properties Telemetry_Properties
begin

text \<open>
  cirujano: a GitHub Actions runner that is created, started, drained and stopped on demand on a rented
  VM, and the fleet commands that route jobs to such runners.

  The program. A controller process ticks. Each tick takes an observation of the provider, of GitHub's
  queue and of the guest, reads its journal, decides one effect (\<open>packages/runner/src/lifecycle.ts\<close>), writes
  the intent, executes the effect and writes the result (\<open>controller.ts\<close>). Every effect needs a permit that
  a person issued (\<open>lifecycle.ts\<close>, \<open>operating.ts\<close>, \<open>pilot.ts\<close>). The queue comes from the \<open>gh\<close> command
  through \<open>adapters/github.ts\<close>; the configuration from \<open>config.ts\<close>; prices from \<open>cost.ts\<close>. A repository
  variable, the routing switch, sends jobs to the runner while the runner can serve them (\<open>routing.ts\<close>);
  the fleet commands of \<open>packages/cli/src\<close> keep a registry of enrolled jobs (\<open>fleet-registry.ts\<close>), watch
  the health of each enrollment and release it (\<open>fleet-health.ts\<close>).

  Conventions. A TypeScript number is \<open>jsnum\<close> of JsNumber: not a number, an infinity, or a rational that
  arithmetic rounds to binary64 (round to nearest, ties to even), so comparisons with not-a-number,
  overflow and rounding are those of the program; minus zero is zero. A value of type \<open>unknown\<close> is
  \<open>jsval\<close> of JsValue. Strings are lists of 8-bit code units. Code that throws returns a sum, with the
  error as a class and a message kept as parts (literals, numbers, dates) instead of rendered text.
  Functions of the platform that the code relies on are parameters where their result matters:
  \<open>JSON.parse\<close>, \<open>Date.parse\<close>, \<open>Number\<close>, the byte length of a response, the collation of
  \<open>localeCompare\<close>, sha256 and the clock.

  The theories, in the order the code has its parts.

  Prelude, JsNumber, JsValue: results, messages, checks; numbers; JSON values, strict objects, insertion-ordered
  maps (locale \<open>ordered_map\<close>).

  Contracts, Permit, Lifecycle (\<open>contracts.ts\<close>, \<open>lifecycle.ts\<close>): the records of the runner; permits with
  their parser and the four authorities (locale \<open>authority\<close>, interpreted for each \<open>validate\<close> function); the
  decision as the program computes it, function by function, and as the inductive relation \<open>transition\<close>,
  which every decision with an effect satisfies (\<open>decide_lifecycle_transition\<close>). Lifecycle_Properties rests
  on the cases of that relation: authority, budgets, deadlines, drain, idle grace, capacity waits.

  ControllerState, Controller (\<open>controller.ts\<close>, the atomic write of \<open>journal.ts\<close>): the durable state, its
  strict parser, its invariants, and one tick as a computation on the journal file and a trace of writes,
  events, provider calls and boundaries. A schedule of faults may make every write, event and boundary
  fail before or after it took effect, so a crash at any point is covered: the theorems speak of every
  prefix of the trace. Controller_Properties states them through the locale \<open>state_policy\<close>: a property that the
  operations on states preserve holds of every state a tick writes; it is interpreted for the invariants
  and for the budget spent.

  Redaction (\<open>journal.ts\<close>): named secrets and credential shapes are removed from events (locale \<open>scrubber\<close>).

  Github, GithubClient (\<open>adapters/github.ts\<close>): parsers of responses and pages, pagination, runner
  ownership, the queue snapshot; then the adapter itself as a state (cache with byte and entry limits,
  read hold, log of requests) with one computation per call. A world record supplies the clock, the
  process runner and the platform. GithubQueue_Properties shows what a complete collection and a complete
  snapshot mean, down to the start of a VM; Github_Properties shows termination, the cache bounds and the
  read hold through the locale \<open>adapter_contract\<close>, whose lemmas say that each call keeps whatever \<open>gh_call\<close>
  keeps.

  Cost, Routing, Config (\<open>cost.ts\<close>, \<open>routing.ts\<close>, \<open>config.ts\<close>), Operating, Pilot (\<open>operating.ts\<close>,
  \<open>pilot.ts\<close>): estimates, serviceability and stranded runs, the strict configuration parser, permit
  proposals and their bounds, the analysis of a pilot. Routing_Properties ties serviceability to the
  lifecycle's start budget; Operating_Properties shows that an accepted proposal becomes a permit that the
  controller's own parser and validation accept within the proposed bounds.

  Registry, Release (\<open>fleet-registry.ts\<close>, \<open>fleet-health.ts\<close>): the registry with its parser and writer; health
  and release as computations on the adapter. Release_Properties interprets \<open>adapter_contract\<close> once more, for
  the log of requests: health only reads, a release cancels nothing before the switch is off, and every
  run it is given is accounted for.

  Nebius, Ssh (\<open>adapters/nebius.ts\<close>, \<open>adapters/ssh.ts\<close>): the provider's instances and operations with their
  parsers, the create request, the tests of ownership, the commands of its CLI; the ssh invocation and the
  classification of its failures. Nebius_Properties shows that the VM asked for is the VM recognised.

  Service, Guest, Effects, Accounting, Observe, Direct (\<open>cli/src/runner-service.ts\<close>): what surrounds a tick.
  A \<open>host\<close> is the adapter's state with the files of the state directory and the logs of provider commands
  and guest helpers; a \<open>host_world\<close> says what they answer and which writes fail. An operation of the service
  is a run over the host: effects and their reconciliation, the observation with its accounting and known
  assignments, the direct commands with the file that records their progress. Effects_Properties proves
  what they may do through the locales \<open>service_contract\<close> (a property of the host kept by the reads, commands,
  helpers and files an operation is allowed) and \<open>reading_service\<close>, interpreted on the log of requests and
  commands, on \<open>only_listed\<close> and on \<open>host_ok\<close>; Accounting_Properties shows that an observation hands the
  controller a journal it accepts; Direct_Properties that a direct command emits at most once and only what
  is recorded; Direct_Returns that it returns.

  Gate, Workflow (\<open>fleet-routing.ts\<close>, \<open>fleet-service.ts\<close>: \<open>extractJobRunsOn\<close>): the runner selection an enrolled
  job carries, rendered and parsed, and the reading of one job out of a workflow file. Gate_Properties
  shows that what is rendered is accepted again, and that what is accepted is the canonical expression up
  to a guard that is a conjunction with the owner and the workflow in it.

  FleetSource, Fleet, FleetController (\<open>github-api.ts\<close>, \<open>fleet-service.ts\<close>): the paginated reads with their
  retries, and the commands of the fleet as runs over a \<open>fleet_state\<close>: the remote side, the registry file, the
  files of the state directories and what was printed. Registry_Writing shows that a registry which is
  written and parsed is the registry that was meant; Fleet_Properties states what the commands may do to the
  registry as the inductive relation \<open>enrollment_move\<close>, what a cut over and a clean verification guarantee, and
  the ceiling over all permits and proposals. Fleet_Samples holds runs for its witnesses.

  Report (\<open>runner/src/report.ts\<close>): the report of a trial with its parser and sanitizer; Report_Properties says
  exactly when it is complete.

  Billing, Telemetry, TelemetryStore (\<open>core/src/billing.ts\<close>, \<open>telemetry.ts\<close>, \<open>telemetry-store.ts\<close>): the minutes and the
  price of a job, the merge of the snapshots of a window, the report of each enrollment against the journals of
  its controller, and the store with the validation of what it reads. Telemetry_Merge shows that a merge keeps the
  first observation of an execution and only completes its timing; Telemetry_Stored that an accepted snapshot is
  consistent with the evidence it carries and that a consistent one is read back as it was written;
  Telemetry_Properties that a report covers its window without a gap and that savings are stated only on whole
  evidence.

  Runs holds the computations all these share, which may fail, throw or not return: \<open>ensures\<close> is total
  correctness of a run, \<open>keeps\<close> its invariants. Samples holds concrete values for the witnesses.

  Bounds. Loops over pages, polls and rounds carry the bounds of the source (10000 pages, 2 rounds of
  switching off, the number of polls given) as structural recursion. The eviction loop of the cache is a
  partial function; \<open>evict_returns\<close> shows that it returns whenever the cache is in bounds, which every
  operation keeps. The wait for the provider is a partial function too; \<open>direct_commands_return\<close> shows that it ends
  once the clock passes the deadline.

  Not modelled. The lock around a tick and the recovery race on interruption (operating-system locks,
  signals and timers); the texts of cloud-init and Markdown files; the
  publication of the savings report and the reading of the journals it rests on, which are an argument of the
  report; the SHA-256 fingerprint of ssh keys; processes, whose results are parameters; command-line parsing and the wiring of the commands;
  the collection of telemetry from GitHub; the optimization and advisory products, which drive a language model; the
  development scripts. Reads the code starts together are run in the order they are started.
\<close>

end
